(* ===== verification/Prelude.thy ===== *)
theory Prelude
  imports Main
begin

text \<open>
  Shared vocabulary of the development: identifiers and times, the errors a store
  operation returns, HTTP responses, and the meaning of the SQL statements the stores
  issue, as functions on lists of rows.

  \<^item> A table is the list of its rows in insertion order.
  \<^item> Every statement carries the name the code gives it (the \<^verbatim>\<open>name\<close> argument of the
    query methods, e.g. \<^verbatim>\<open>"session.Revoke"\<close>). A fault oracle says which named
    statements the database refuses in the request at hand, and at which repetition, so
    that every \<^verbatim>\<open>if err != nil\<close> of the code is a branch that can be taken.
  \<^item> The wall clock of the process and the clock of the database are one argument
    \<open>now\<close>, constant during a request.
\<close>

named_theorems store_defs \<open>definitions of the store operations\<close>
named_theorems http_defs \<open>definitions of the request handlers\<close>
named_theorems frame_rules \<open>what an operation leaves alone\<close>

subsection \<open>Identifiers, time, faults\<close>

type_synonym uuid = nat
type_synonym time = int \<comment> \<open>nanoseconds\<close>
type_synonym faults = "string \<Rightarrow> nat \<Rightarrow> bool"

definition uuid_Nil :: uuid where "uuid_Nil = 0"

abbreviation second :: time where "second \<equiv> 1000000000"
abbreviation minute :: time where "minute \<equiv> 60 * second"
abbreviation hour :: time where "hour \<equiv> 60 * minute"
abbreviation day :: time where "day \<equiv> 24 * hour"

text \<open>What a \<^verbatim>\<open>DATE\<close> column keeps of a time.\<close>

definition sql_date :: "time \<Rightarrow> time" where
  "sql_date t = t div day * day"

definition no_faults :: faults where
  "no_faults = (\<lambda>_ _. False)"

lemma no_faults_apply [simp]: "no_faults q n = False"
  by (simp add: no_faults_def)

subsection \<open>Errors and results of store operations\<close>

datatype err =
    Fault string             \<comment> \<open>a wrapped driver error of the named statement\<close>
  | ErrNotFound
  | ErrExpired
  | ErrAlreadyUsed
  | ErrInvalid
  | ErrAssigneeWrongTenant
  | ErrMemberNotFound
  | ErrDefaultLocked
  | ErrNameTaken
  | ErrMsg string            \<comment> \<open>\<^verbatim>\<open>fmt.Errorf\<close> of a fixed text\<close>

type_synonym ('t, 'a) store_result = "'t \<times> (err + 'a)"

definition is_ok :: "err + 'a \<Rightarrow> bool" where
  "is_ok r = (case r of Inl _ \<Rightarrow> False | Inr _ \<Rightarrow> True)"

lemma is_ok_simps [simp]: "is_ok (Inl e) = False" "is_ok (Inr a) = True"
  by (simp_all add: is_ok_def)

lemma is_okE [elim]: "is_ok r \<Longrightarrow> (\<And>a. r = Inr a \<Longrightarrow> P) \<Longrightarrow> P"
  by (cases r) auto

lemma not_okE: "\<not> is_ok r \<Longrightarrow> (\<And>e. r = Inl e \<Longrightarrow> P) \<Longrightarrow> P"
  by (cases r) auto

subsection \<open>HTTP\<close>

datatype http =
    StatusOK | StatusCreated | StatusNoContent | StatusFound
  | StatusBadRequest | StatusUnauthorized | StatusForbidden | StatusNotFound
  | StatusConflict | StatusTooManyRequests
  | StatusInternalServerError | StatusNotImplemented | StatusServiceUnavailable

fun http_code :: "http \<Rightarrow> nat" where
  "http_code StatusOK = 200"
| "http_code StatusCreated = 201"
| "http_code StatusNoContent = 204"
| "http_code StatusFound = 302"
| "http_code StatusBadRequest = 400"
| "http_code StatusUnauthorized = 401"
| "http_code StatusForbidden = 403"
| "http_code StatusNotFound = 404"
| "http_code StatusConflict = 409"
| "http_code StatusTooManyRequests = 429"
| "http_code StatusInternalServerError = 500"
| "http_code StatusNotImplemented = 501"
| "http_code StatusServiceUnavailable = 503"

lemma http_code_inj: "http_code a = http_code b \<Longrightarrow> a = b"
  by (cases a; cases b) simp_all

text \<open>Statuses are ordered by their code, so that "a 2xx answer" is an interval.\<close>

instantiation http :: linorder
begin
definition less_eq_http :: "http \<Rightarrow> http \<Rightarrow> bool" where
  "less_eq_http a b = (http_code a \<le> http_code b)"
definition less_http :: "http \<Rightarrow> http \<Rightarrow> bool" where
  "less_http a b = (http_code a < http_code b)"
instance
  by standard (auto simp: less_eq_http_def less_http_def intro: http_code_inj)
end

datatype msg = Msg string | MsgOf err \<comment> \<open>\<^verbatim>\<open>err.Error()\<close>\<close>

datatype 'b response =
    Respond http 'b        \<comment> \<open>\<^verbatim>\<open>c.JSON(code, payload)\<close>\<close>
  | Abort http msg         \<comment> \<open>\<^verbatim>\<open>c.JSON(code, gin.H\<close> with an \<^verbatim>\<open>error\<close> field, or an abort\<close>

fun resp_code :: "'b response \<Rightarrow> http" where
  "resp_code (Respond c _) = c"
| "resp_code (Abort c _) = c"

definition succeeded :: "'b response \<Rightarrow> bool" where
  "succeeded r = (case r of Respond _ _ \<Rightarrow> True | Abort _ _ \<Rightarrow> False)"

lemma succeeded_simps [simp]: "succeeded (Respond c b) = True" "succeeded (Abort c m) = False"
  by (simp_all add: succeeded_def)

abbreviation no_session :: "'b response" where
  "no_session \<equiv> Abort StatusUnauthorized (Msg ''no session'')"
abbreviation internal_error :: "'b response" where
  "internal_error \<equiv> Abort StatusInternalServerError (Msg ''internal error'')"
abbreviation invalid_request :: "'b response" where
  "invalid_request \<equiv> Abort StatusBadRequest (Msg ''invalid request'')"

subsection \<open>SQL statements on lists of rows\<close>

definition sql_update :: "('r \<Rightarrow> bool) \<Rightarrow> ('r \<Rightarrow> 'r) \<Rightarrow> 'r list \<Rightarrow> 'r list" where
  "sql_update P f t = map (\<lambda>r. if P r then f r else r) t"

definition sql_affected :: "('r \<Rightarrow> bool) \<Rightarrow> 'r list \<Rightarrow> nat" where
  "sql_affected P t = length (filter P t)"

definition sql_delete :: "('r \<Rightarrow> bool) \<Rightarrow> 'r list \<Rightarrow> 'r list" where
  "sql_delete P t = filter (\<lambda>r. \<not> P r) t"

text \<open>\<^verbatim>\<open>QueryRow\<close>: the first row of the result, \<^verbatim>\<open>pgx.ErrNoRows\<close> as \<open>None\<close>.\<close>

definition sql_row :: "('r \<Rightarrow> bool) \<Rightarrow> 'r list \<Rightarrow> 'r option" where
  "sql_row P t = List.find P t"

definition sql_exists :: "('r \<Rightarrow> bool) \<Rightarrow> 'r list \<Rightarrow> bool" where
  "sql_exists P t = list_ex P t"

text \<open>\<^verbatim>\<open>ORDER BY k DESC\<close>; rows with equal keys stay in insertion order, which is one of
  the orders the database may choose.\<close>

definition sql_desc :: "('r \<Rightarrow> int) \<Rightarrow> 'r list \<Rightarrow> 'r list" where
  "sql_desc k t = sort_key (\<lambda>r. - k r) t"

text \<open>\<^verbatim>\<open>UPDATE\<close> and \<^verbatim>\<open>DELETE\<close> statements that may be refused, with the number of rows affected.\<close>

definition exec_update ::
  "faults \<Rightarrow> string \<Rightarrow> ('r \<Rightarrow> bool) \<Rightarrow> ('r \<Rightarrow> 'r) \<Rightarrow> 'r list \<Rightarrow> ('r list, nat) store_result" where
  "exec_update flt q P f t =
     (if flt q 0 then (t, Inl (Fault q)) else (sql_update P f t, Inr (sql_affected P t)))"

definition exec_delete ::
  "faults \<Rightarrow> string \<Rightarrow> ('r \<Rightarrow> bool) \<Rightarrow> 'r list \<Rightarrow> ('r list, nat) store_result" where
  "exec_delete flt q P t =
     (if flt q 0 then (t, Inl (Fault q)) else (sql_delete P t, Inr (sql_affected P t)))"

text \<open>The two usual ends of a statement: ignore the count, or fail when it is zero.\<close>

definition done_any :: "('t, nat) store_result \<Rightarrow> ('t, unit) store_result" where
  "done_any r = (case r of (t, Inl e) \<Rightarrow> (t, Inl e) | (t, Inr _) \<Rightarrow> (t, Inr ()))"

definition done_some :: "err \<Rightarrow> ('t, nat) store_result \<Rightarrow> ('t, unit) store_result" where
  "done_some e0 r = (case r of (t, Inl e) \<Rightarrow> (t, Inl e)
     | (t, Inr n) \<Rightarrow> if n = 0 then (t, Inl e0) else (t, Inr ()))"

text \<open>A lookup by primary key that may be refused.\<close>

definition query_row ::
  "faults \<Rightarrow> string \<Rightarrow> err \<Rightarrow> ('r \<Rightarrow> bool) \<Rightarrow> 'r list \<Rightarrow> err + 'r" where
  "query_row flt q e0 P t =
     (if flt q 0 then Inl (Fault q) else case sql_row P t of None \<Rightarrow> Inl e0 | Some r \<Rightarrow> Inr r)"

subsection \<open>Facts about the statements\<close>

lemma sql_update_Nil [simp]: "sql_update P f [] = []"
  by (simp add: sql_update_def)

lemma sql_update_Cons [simp]:
  "sql_update P f (r # t) = (if P r then f r else r) # sql_update P f t"
  by (simp add: sql_update_def)

lemma length_sql_update [simp]: "length (sql_update P f t) = length t"
  by (simp add: sql_update_def)

lemma in_sql_update:
  "r \<in> set (sql_update P f t) \<longleftrightarrow> (\<exists>r0 \<in> set t. r = (if P r0 then f r0 else r0))"
  by (auto simp: sql_update_def)

lemma bex_sql_update:
  "(\<exists>r \<in> set (sql_update P f t). Q r) \<longleftrightarrow> (\<exists>r \<in> set t. Q (if P r then f r else r))"
  by (auto simp: sql_update_def)

lemma ball_sql_update:
  "(\<forall>r \<in> set (sql_update P f t). Q r) \<longleftrightarrow> (\<forall>r \<in> set t. Q (if P r then f r else r))"
  by (auto simp: sql_update_def)

lemma sql_updateE:
  assumes "r \<in> set (sql_update P f t)"
  obtains r0 where "r0 \<in> set t" "r = (if P r0 then f r0 else r0)"
  using assms by (auto simp: in_sql_update)

lemma sql_update_none: "(\<And>r. r \<in> set t \<Longrightarrow> \<not> P r) \<Longrightarrow> sql_update P f t = t"
  by (induction t) auto

lemma map_sql_update: "(\<And>r. k (f r) = k r) \<Longrightarrow> map k (sql_update P f t) = map k t"
  by (induction t) auto

lemma sql_affected_0: "sql_affected P t = 0 \<longleftrightarrow> (\<forall>r \<in> set t. \<not> P r)"
  by (auto simp: sql_affected_def filter_empty_conv)

lemma sql_affected_0_update: "sql_affected P t = 0 \<Longrightarrow> sql_update P f t = t"
  by (simp add: sql_affected_0 sql_update_none)

lemma in_sql_delete [simp]: "r \<in> set (sql_delete P t) \<longleftrightarrow> r \<in> set t \<and> \<not> P r"
  by (simp add: sql_delete_def)

lemma sql_delete_Nil [simp]: "sql_delete P [] = []"
  by (simp add: sql_delete_def)

lemma distinct_sql_delete: "distinct (map k t) \<Longrightarrow> distinct (map k (sql_delete P t))"
  by (simp add: sql_delete_def distinct_map_filter)

lemma sql_row_Some: "sql_row P t = Some r \<Longrightarrow> r \<in> set t \<and> P r"
  by (auto simp: sql_row_def find_Some_iff)

lemma sql_row_None: "sql_row P t = None \<longleftrightarrow> (\<forall>r \<in> set t. \<not> P r)"
  by (auto simp: sql_row_def find_None_iff)

lemma sql_row_Nil [simp]: "sql_row P [] = None"
  by (simp add: sql_row_def)

lemma sql_row_Cons [simp]: "sql_row P (r # t) = (if P r then Some r else sql_row P t)"
  by (simp add: sql_row_def)

lemma sql_row_append:
  "sql_row P (t @ u) = (case sql_row P t of None \<Rightarrow> sql_row P u | Some r \<Rightarrow> Some r)"
  by (induction t) auto

lemma sql_exists_iff [simp]: "sql_exists P t \<longleftrightarrow> (\<exists>r \<in> set t. P r)"
  by (simp add: sql_exists_def list_ex_iff)

lemma set_sql_desc [simp]: "set (sql_desc k t) = set t"
  by (simp add: sql_desc_def)

lemma sql_desc_Nil [simp]: "sql_desc k t = [] \<longleftrightarrow> t = []"
  using set_sql_desc [of k t] by (metis set_empty)

lemma sql_desc_Nil' [simp]: "sql_desc k [] = []"
  by simp

lemma sql_desc_sorted: "sorted_wrt (\<lambda>a b. k a \<ge> k b) (sql_desc k t)"
proof -
  have "sorted (map (\<lambda>r. - k r) (sql_desc k t))"
    by (simp add: sql_desc_def)
  then show ?thesis by (simp add: sorted_map)
qed

lemma hd_sql_desc_max: "sql_desc k t = r # rs \<Longrightarrow> x \<in> set t \<Longrightarrow> k x \<le> k r"
  using sql_desc_sorted [of k t] set_sql_desc [of k t] by auto

lemma exec_update_cases:
  obtains (refused) "flt q 0" "exec_update flt q P f t = (t, Inl (Fault q))"
    | (ran) "\<not> flt q 0" "exec_update flt q P f t = (sql_update P f t, Inr (sql_affected P t))"
  by (auto simp: exec_update_def)

lemma fst_done_any [simp]: "fst (done_any r) = fst r"
  by (auto simp: done_any_def split: prod.splits sum.splits)

lemma fst_done_some [simp]: "fst (done_some e r) = fst r"
  by (auto simp: done_some_def split: prod.splits sum.splits)

lemma fst_exec_update: "fst (exec_update flt q P f t) = (if flt q 0 then t else sql_update P f t)"
  by (simp add: exec_update_def)

lemma fst_exec_delete: "fst (exec_delete flt q P t) = (if flt q 0 then t else sql_delete P t)"
  by (simp add: exec_delete_def)

text \<open>A statement that fails when no row matches has changed nothing when it reports an error.\<close>

lemma done_some_update_error:
  "done_some e0 (exec_update flt q P f t) = (t', Inl e) \<Longrightarrow> t' = t"
  by (auto simp: done_some_def exec_update_def sql_affected_0_update split: if_splits)

lemma done_some_failed:
  "\<not> is_ok (snd (done_some e0 (exec_update flt q P f t))) \<Longrightarrow>
     fst (done_some e0 (exec_update flt q P f t)) = t"
  by (auto simp: done_some_def exec_update_def sql_affected_0_update split: if_splits)

lemma done_some_update_ok:
  "done_some e0 (exec_update flt q P f t) = (t', Inr ()) \<longleftrightarrow>
     \<not> flt q 0 \<and> (\<exists>r \<in> set t. P r) \<and> t' = sql_update P f t"
  using sql_affected_0 [of P t]
  by (auto simp: done_some_def exec_update_def)

lemma done_some_delete_ok:
  "done_some e0 (exec_delete flt q P t) = (t', Inr ()) \<longleftrightarrow>
     \<not> flt q 0 \<and> (\<exists>r \<in> set t. P r) \<and> t' = sql_delete P t"
  using sql_affected_0 [of P t]
  by (auto simp: done_some_def exec_delete_def)

lemmas sql_simps = exec_update_def exec_delete_def done_any_def done_some_def query_row_def

subsection \<open>Rows with a primary key\<close>

definition keyed :: "('r \<Rightarrow> uuid) \<Rightarrow> 'r list \<Rightarrow> bool" where
  "keyed k t = distinct (map k t)"

lemma keyed_Nil [simp]: "keyed k []"
  by (simp add: keyed_def)

lemma keyed_update: "keyed k t \<Longrightarrow> (\<And>r. k (f r) = k r) \<Longrightarrow> keyed k (sql_update P f t)"
  by (simp add: keyed_def map_sql_update)

lemma keyed_delete: "keyed k t \<Longrightarrow> keyed k (sql_delete P t)"
  by (simp add: keyed_def distinct_sql_delete)

lemma keyed_insert: "keyed k t \<Longrightarrow> k r \<notin> k ` set t \<Longrightarrow> keyed k (t @ [r])"
  by (simp add: keyed_def)

lemma keyed_unique: "keyed k t \<Longrightarrow> a \<in> set t \<Longrightarrow> b \<in> set t \<Longrightarrow> k a = k b \<Longrightarrow> a = b"
  by (simp add: keyed_def distinct_map inj_on_def)

lemma sql_row_key:
  "keyed k t \<Longrightarrow> r \<in> set t \<Longrightarrow> sql_row (\<lambda>x. k x = k r) t = Some r"
  by (induction t) (auto simp: keyed_def)

lemma sql_row_update_key:
  assumes "\<And>r. k (f r) = k r"
  shows "sql_row (\<lambda>r. k r = i) (sql_update P f t) =
     map_option (\<lambda>r. if P r then f r else r) (sql_row (\<lambda>r. k r = i) t)"
  using assms by (induction t) auto

lemma sql_row_update_other:
  assumes "\<And>r. k (f r) = k r" "i \<noteq> j"
  shows "sql_row (\<lambda>r. k r = i) (sql_update (\<lambda>r. k r = j \<and> P r) f t) = sql_row (\<lambda>r. k r = i) t"
  using assms by (induction t) auto

end
