(* ===== verification/Session_Types.thy ===== *)
theory Session_Types
  imports Prelude
begin

text \<open>
  \<^verbatim>\<open>backend/internal/session/session.go\<close>: the session record, its four states and
  the validity test, with the lifetimes of \<^verbatim>\<open>session/store.go\<close>.
\<close>

datatype sstate = Pre_Auth | Setup2FA | PreTenant | Authenticated

fun sstate_text :: "sstate \<Rightarrow> string" where
  "sstate_text Pre_Auth = ''pre_auth''"
| "sstate_text Setup2FA = ''setup_2fa''"
| "sstate_text PreTenant = ''pre_tenant''"
| "sstate_text Authenticated = ''authenticated''"

text \<open>The states ordered by how far the login has come: the two states that wait for a
  second factor, then tenant selection, then a full session.\<close>

fun sstate_rank :: "sstate \<Rightarrow> nat" where
  "sstate_rank Pre_Auth = 0"
| "sstate_rank Setup2FA = 1"
| "sstate_rank PreTenant = 2"
| "sstate_rank Authenticated = 3"

lemma sstate_rank_inj: "sstate_rank a = sstate_rank b \<Longrightarrow> a = b"
  by (cases a; cases b) simp_all

instantiation sstate :: linorder
begin
definition less_eq_sstate :: "sstate \<Rightarrow> sstate \<Rightarrow> bool" where
  "less_eq_sstate a b = (sstate_rank a \<le> sstate_rank b)"
definition less_sstate :: "sstate \<Rightarrow> sstate \<Rightarrow> bool" where
  "less_sstate a b = (sstate_rank a < sstate_rank b)"
instance
  by standard (auto simp: less_eq_sstate_def less_sstate_def intro: sstate_rank_inj)
end

lemma past_second_factor: "PreTenant \<le> st \<longleftrightarrow> st = PreTenant \<or> st = Authenticated"
  by (cases st) (simp_all add: less_eq_sstate_def)

record session =
  s_ID :: uuid
  s_IdentityID :: uuid
  s_TenantID :: "uuid option"
  s_UserID :: "uuid option"
  s_SubOrgID :: "uuid option"
  s_UserRole :: "string option"
  s_State :: sstate
  s_IPAddress :: string
  s_UserAgent :: string
  s_AuthMethod :: string
  s_SecondFactor :: "string option"
  s_IsSuperAdmin :: bool
  s_CSRFToken :: string
  s_CreatedAt :: time
  s_LastActiveAt :: time
  s_ExpiresAt :: time
  s_RevokedAt :: "time option"
  s_RevokedBy :: "uuid option"
  s_RevokeReason :: "string option"

definition IsValid :: "time \<Rightarrow> session \<Rightarrow> bool" where
  "IsValid now s = (s_RevokedAt s = None \<and> now < s_ExpiresAt s)"

definition sessionDuration :: time where "sessionDuration = 7 * 24 * hour"
definition preAuthSessionDuration :: time where "preAuthSessionDuration = 15 * minute"
definition IdleTimeout :: time where "IdleTimeout = 30 * minute"

lemmas session_durations = sessionDuration_def preAuthSessionDuration_def IdleTimeout_def

record session_params =
  p_IdentityID :: uuid
  p_State :: sstate
  p_IPAddress :: string
  p_UserAgent :: string
  p_AuthMethod :: string
  p_CSRFToken :: string

end
