(* ===== verification/Go_Std.thy ===== *)
theory Go_Std
  imports Prelude "HOL-Library.Sublist"
begin

text \<open>
  What the program uses of the Go standard library, as functions on strings:
  \<^verbatim>\<open>strconv.Atoi\<close>, \<^verbatim>\<open>time.Parse\<close> with the layout \<^verbatim>\<open>2006-01-02\<close>, and the prefix, suffix
  and trimming functions of \<^verbatim>\<open>strings\<close>.
\<close>

subsection \<open>Numbers\<close>

definition digit_value :: "char \<Rightarrow> int option" where
  "digit_value c = (let n = (of_char c :: nat) in if 48 \<le> n \<and> n \<le> 57 then Some (int n - 48) else None)"

fun read_digits :: "int \<Rightarrow> string \<Rightarrow> int option" where
  "read_digits acc [] = Some acc"
| "read_digits acc (c # cs) = (case digit_value c of None \<Rightarrow> None | Some v \<Rightarrow> read_digits (10 * acc + v) cs)"

definition read_number :: "string \<Rightarrow> int option" where
  "read_number s = (if s = [] then None else read_digits 0 s)"

text \<open>The value \<^verbatim>\<open>Atoi\<close> returns when its error is ignored: zero for a text that is no number,
  the nearest \<^verbatim>\<open>int64\<close> for one out of range.\<close>

definition clamp64 :: "int \<Rightarrow> int" where
  "clamp64 n = max (- (2 ^ 63)) (min (2 ^ 63 - 1) n)"

definition Atoi :: "string \<Rightarrow> int" where
  "Atoi s = (case s of [] \<Rightarrow> 0 | c # cs \<Rightarrow>
     if c = CHR ''-'' then (case read_number cs of None \<Rightarrow> 0 | Some n \<Rightarrow> clamp64 (- n))
     else if c = CHR ''+'' then (case read_number cs of None \<Rightarrow> 0 | Some n \<Rightarrow> clamp64 n)
     else (case read_number s of None \<Rightarrow> 0 | Some n \<Rightarrow> clamp64 n))"

lemma Atoi_int64: "- (2 ^ 63) \<le> Atoi s \<and> Atoi s < 2 ^ 63"
  by (auto simp: Atoi_def clamp64_def split: list.split option.split)

lemma Atoi_examples:
  "Atoi ''20'' = 20" "Atoi ''-7'' = -7" "Atoi ''2x'' = 0" "Atoi ''9999999999999999999'' = 2 ^ 63 - 1"
  by (simp_all add: Atoi_def read_number_def digit_value_def clamp64_def of_char_def)

subsection \<open>Dates\<close>

definition leap :: "int \<Rightarrow> bool" where
  "leap y = (y mod 4 = 0 \<and> (y mod 100 \<noteq> 0 \<or> y mod 400 = 0))"

definition days_in :: "int \<Rightarrow> int \<Rightarrow> int" where
  "days_in y m = (if m = 2 then (if leap y then 29 else 28) else if m \<in> {4, 6, 9, 11} then 30 else 31)"

text \<open>Days from 1970-01-01.\<close>

definition days_before_year :: "int \<Rightarrow> int" where
  "days_before_year y = 365 * (y - 1) + (y - 1) div 4 - (y - 1) div 100 + (y - 1) div 400 - 719162"

definition day_number :: "int \<Rightarrow> int \<Rightarrow> int \<Rightarrow> int" where
  "day_number y m d = days_before_year y + (\<Sum>k \<leftarrow> [1..m - 1]. days_in y k) + (d - 1)"

text \<open>\<^verbatim>\<open>time.Parse("2006-01-02", s)\<close>: four digits, two digits and two digits that are a date.\<close>

definition ParseDate :: "string \<Rightarrow> time option" where
  "ParseDate s =
     (if length s \<noteq> 10 \<or> s ! 4 \<noteq> CHR ''-'' \<or> s ! 7 \<noteq> CHR ''-'' then None
      else case (read_number (take 4 s), read_number (take 2 (drop 5 s)), read_number (drop 8 s)) of
        (Some y, Some m, Some d) \<Rightarrow>
          if 1 \<le> m \<and> m \<le> 12 \<and> 1 \<le> d \<and> d \<le> days_in y m then Some (day_number y m d * day) else None
      | _ \<Rightarrow> None)"

lemma ParseDate_examples:
  "ParseDate ''1970-01-01'' = Some 0" "ParseDate ''2024-02-29'' = Some (19782 * day)"
  "ParseDate ''2023-02-29'' = None" "ParseDate ''2024-2-9'' = None"
  by (simp_all add: ParseDate_def read_number_def digit_value_def of_char_def day_number_def days_before_year_def
      days_in_def leap_def upto.simps)

text \<open>A parsed date is midnight.\<close>

lemma ParseDate_midnight: "ParseDate s = Some t \<Longrightarrow> day dvd t"
  by (auto simp: ParseDate_def split: if_splits option.splits)

lemma div_pred:
  assumes "0 < (n :: int)"
  shows "y div n = (y - 1) div n + (if y mod n = 0 then 1 else 0)"
proof -
  define q r where "q = y div n" and "r = y mod n"
  have y: "y = n * q + r" by (simp add: q_def r_def)
  have r: "0 \<le> r" "r < n" using assms by (simp_all add: r_def)
  have "(y - 1) div n = (if r = 0 then q - 1 else q)"
  proof (cases "r = 0")
    case True
    then have "y - 1 = n * (q - 1) + (n - 1)" using y by (simp add: algebra_simps)
    then show ?thesis using True assms int_div_pos_eq [of "y - 1" n "q - 1" "n - 1"] by simp
  next
    case False
    then show ?thesis using y r int_div_pos_eq [of "y - 1" n q "r - 1"] by simp
  qed
  then show ?thesis by (simp add: q_def r_def)
qed

lemma days_before_next_year: "days_before_year (y + 1) = days_before_year y + (if leap y then 366 else 365)"
proof -
  define A B C where "A = (y mod 4 = 0)" and "B = (y mod 100 = 0)" and "C = (y mod 400 = 0)"
  have d: "C \<Longrightarrow> B" "B \<Longrightarrow> A"
    using dvd_trans [of 100 400 y] dvd_trans [of 4 100 y] by (simp_all add: A_def B_def C_def mod_eq_0_iff_dvd)
  have "y div 4 = (y - 1) div 4 + (if A then 1 else 0)" "y div 100 = (y - 1) div 100 + (if B then 1 else 0)"
    "y div 400 = (y - 1) div 400 + (if C then 1 else 0)"
    unfolding A_def B_def C_def by (rule div_pred; simp)+
  then have step: "days_before_year (y + 1) = days_before_year y + 365 + (if A then 1 else 0) - (if B then 1 else 0) +
      (if C then 1 else 0)"
    unfolding days_before_year_def by (simp only: add_diff_cancel_right') (simp add: algebra_simps)
  have "leap y = (A \<and> (\<not> B \<or> C))"
    by (simp only: leap_def A_def B_def C_def)
  with step d show ?thesis by (cases A; cases B; cases C) simp_all
qed

text \<open>The months of a year add up to it, so that dates are consecutive day numbers.\<close>

lemma day_number_next_day: "day_number y m (d + 1) = day_number y m d + 1"
  by (simp add: day_number_def)

lemma day_number_next_month: "1 \<le> m \<Longrightarrow> day_number y (m + 1) 1 = day_number y m (days_in y m) + 1"
  using upto_rec2 [of 1 m] by (simp add: day_number_def)

lemma day_number_next_year: "day_number (y + 1) 1 1 = day_number y 12 31 + 1"
  by (simp add: day_number_def days_before_next_year upto.simps days_in_def)

subsection \<open>Strings\<close>

text \<open>\<^verbatim>\<open>strings.TrimSpace\<close> on ASCII text\<close>

definition is_space :: "char \<Rightarrow> bool" where
  "is_space c = ((of_char c :: nat) \<in> {9, 10, 11, 12, 13, 32})"

definition TrimSpace :: "string \<Rightarrow> string" where
  "TrimSpace s = rev (dropWhile is_space (rev (dropWhile is_space s)))"

definition HasPrefix :: "string \<Rightarrow> string \<Rightarrow> bool" where
  "HasPrefix s p = (take (length p) s = p)"

definition HasSuffix :: "string \<Rightarrow> string \<Rightarrow> bool" where
  "HasSuffix s p = (length p \<le> length s \<and> drop (length s - length p) s = p)"

definition TrimPrefix :: "string \<Rightarrow> string \<Rightarrow> string" where
  "TrimPrefix s p = (if HasPrefix s p then drop (length p) s else s)"

definition TrimSuffix :: "string \<Rightarrow> string \<Rightarrow> string" where
  "TrimSuffix s p = (if HasSuffix s p then take (length s - length p) s else s)"

lemma TrimPrefix_append [simp]: "TrimPrefix (p @ s) p = s"
  by (simp add: TrimPrefix_def HasPrefix_def)

lemma TrimSuffix_append [simp]: "TrimSuffix (s @ p) p = s"
  by (simp add: TrimSuffix_def HasSuffix_def)

lemma HasSuffix_append [simp]: "HasSuffix (s @ p) p"
  by (simp add: HasSuffix_def)

lemma HasPrefix_append [simp]: "HasPrefix (p @ s) p"
  by (simp add: HasPrefix_def)

lemma dropWhile_none: "s = [] \<or> \<not> P (hd s) \<Longrightarrow> dropWhile P s = s"
  by (cases s) auto

lemma TrimSpace_trimmed:
  "s \<noteq> [] \<Longrightarrow> \<not> is_space (hd s) \<Longrightarrow> \<not> is_space (last s) \<Longrightarrow> TrimSpace s = s"
  by (simp add: TrimSpace_def dropWhile_none hd_rev)

text \<open>\<^verbatim>\<open>strings.ToLower\<close> on ASCII text\<close>

definition lower_char :: "char \<Rightarrow> char" where
  "lower_char c = (let n = (of_char c :: nat) in if 65 \<le> n \<and> n \<le> 90 then char_of (n + 32) else c)"

definition ToLower :: "string \<Rightarrow> string" where
  "ToLower = map lower_char"

end
