(* ===== verification/Middleware.thy ===== *)
theory Middleware
  imports Session_Types Go_Std
begin

text \<open>
  \<^verbatim>\<open>backend/internal/auth/middleware.go\<close> and \<^verbatim>\<open>csrf.go\<close>: the gates every
  request passes. A middleware either hands a value on (\<^verbatim>\<open>c.Next()\<close>) or ends the
  request. The session store is used through the interface \<^verbatim>\<open>sessionValidator\<close>,
  here a locale with the laws the middleware relies on; \<^verbatim>\<open>Sessions\<close> interprets it.
  \<^verbatim>\<open>uuid.Parse\<close> and \<^verbatim>\<open>idtoken.Validate\<close> are library functions, so arguments.
\<close>

datatype 'a mw = Next 'a | AbortWith http msg

fun passes :: "'a mw \<Rightarrow> bool" where
  "passes (Next _) = True"
| "passes (AbortWith _ _) = False"

definition mw_bind :: "'a mw \<Rightarrow> ('a \<Rightarrow> 'b mw) \<Rightarrow> 'b mw" where
  "mw_bind m f = (case m of Next a \<Rightarrow> f a | AbortWith c e \<Rightarrow> AbortWith c e)"

lemma mw_bind_Next: "mw_bind m f = Next b \<longleftrightarrow> (\<exists>a. m = Next a \<and> f a = Next b)"
  by (auto simp: mw_bind_def split: mw.splits)

subsection \<open>Session\<close>

definition touchDebounce :: time where "touchDebounce = minute"

definition RequireSession ::
  "(faults \<Rightarrow> time \<Rightarrow> uuid \<Rightarrow> 's \<Rightarrow> err + session) \<Rightarrow>
   (faults \<Rightarrow> time \<Rightarrow> uuid \<Rightarrow> 's \<Rightarrow> ('s, unit) store_result) \<Rightarrow>
   (faults \<Rightarrow> time \<Rightarrow> uuid \<Rightarrow> uuid option \<Rightarrow> string \<Rightarrow> 's \<Rightarrow> ('s, unit) store_result) \<Rightarrow>
   (string \<Rightarrow> uuid option) \<Rightarrow> faults \<Rightarrow> time \<Rightarrow> string option \<Rightarrow> 's \<Rightarrow> 's \<times> session mw" where
  "RequireSession GetValid Touch Revoke parse flt now cookie st =
     (case cookie of
        None \<Rightarrow> (st, AbortWith StatusUnauthorized (Msg ''no session''))
      | Some ck \<Rightarrow>
          (case parse ck of
             None \<Rightarrow> (st, AbortWith StatusUnauthorized (Msg ''invalid session''))
           | Some sid \<Rightarrow>
               (case GetValid flt now sid st of
                  Inl _ \<Rightarrow> (st, AbortWith StatusUnauthorized (Msg ''session expired or revoked''))
                | Inr sess \<Rightarrow>
                    if now - s_LastActiveAt sess > IdleTimeout
                    then (fst (Revoke flt now (s_ID sess) None ''idle_timeout'' st),
                          AbortWith StatusUnauthorized (Msg ''session expired or revoked''))
                    else (if now - s_LastActiveAt sess > touchDebounce
                          then fst (Touch flt now (s_ID sess) st) else st,
                          Next sess))))"

definition RequireState :: "sstate list \<Rightarrow> session option \<Rightarrow> session mw" where
  "RequireState states so =
     (case so of
        None \<Rightarrow> AbortWith StatusUnauthorized (Msg ''no session'')
      | Some sess \<Rightarrow>
          if s_State sess \<in> set states then Next sess
          else AbortWith StatusForbidden (Msg ''invalid session state''))"

definition RequireTenant :: "session option \<Rightarrow> session mw" where
  "RequireTenant = RequireState [Authenticated]"

definition RequireSuperAdmin :: "session option \<Rightarrow> session mw" where
  "RequireSuperAdmin so =
     (case so of
        None \<Rightarrow> AbortWith StatusUnauthorized (Msg ''no session'')
      | Some sess \<Rightarrow>
          if s_IsSuperAdmin sess then Next sess
          else AbortWith StatusForbidden (Msg ''super admin required''))"

text \<open>The role goes into the request context, for \<^verbatim>\<open>SubOrgScope\<close>.\<close>

definition RequireRole ::
  "(uuid \<Rightarrow> err + string) \<Rightarrow> string list \<Rightarrow> session option \<Rightarrow> (session \<times> string) mw" where
  "RequireRole GetUserRole roles so =
     (case so of
        None \<Rightarrow> AbortWith StatusUnauthorized (Msg ''no session'')
      | Some sess \<Rightarrow>
          (case s_UserID sess of
             None \<Rightarrow> AbortWith StatusForbidden (Msg ''no tenant selected'')
           | Some uid \<Rightarrow>
               (case GetUserRole uid of
                  Inl _ \<Rightarrow> AbortWith StatusInternalServerError (Msg ''failed to get user role'')
                | Inr role \<Rightarrow>
                    if role \<in> set roles then Next (sess, role)
                    else AbortWith StatusForbidden (Msg ''insufficient permissions''))))"

definition SubOrgScope ::
  "(string \<Rightarrow> uuid option) \<Rightarrow> string option \<Rightarrow> session option \<Rightarrow> string \<Rightarrow> uuid option" where
  "SubOrgScope parse role so sub_org_query =
     (if role = Some ''fso'' \<or> role = Some ''read_only_fso''
      then (case so of Some sess \<Rightarrow> s_SubOrgID sess | None \<Rightarrow> None)
      else if sub_org_query \<noteq> [] then parse sub_org_query
      else None)"

subsection \<open>Machine callers\<close>

definition RequireCloudScheduler :: "bool \<Rightarrow> string \<Rightarrow> unit mw" where
  "RequireCloudScheduler is_cloud header =
     (if \<not> is_cloud then Next ()
      else if header \<noteq> ''true'' then AbortWith StatusForbidden (Msg ''forbidden'')
      else Next ())"

definition RequireCloudTasks ::
  "(string \<Rightarrow> string \<Rightarrow> string option option) \<Rightarrow> bool \<Rightarrow> string \<Rightarrow> string \<Rightarrow> string \<Rightarrow> unit mw" where
  \<comment> \<open>\<open>validate token audience\<close>: \<open>None\<close> an invalid token, otherwise its email claim, if it is a string\<close>
  "RequireCloudTasks validate is_cloud backend_url service_account authorization =
     (if \<not> is_cloud then Next ()
      else let token = TrimPrefix authorization ''Bearer '' in
        if token = [] then AbortWith StatusUnauthorized (Msg [])
        else (case validate token backend_url of
                None \<Rightarrow> AbortWith StatusUnauthorized (Msg [])
              | Some claim \<Rightarrow>
                  let email = (case claim of Some e \<Rightarrow> e | None \<Rightarrow> []) in
                  if email \<noteq> service_account then AbortWith StatusForbidden (Msg [])
                  else Next ()))"

subsection \<open>CSRF\<close>

definition CSRFMiddleware :: "string \<Rightarrow> string \<Rightarrow> session option \<Rightarrow> unit mw" where
  "CSRFMiddleware verb headerToken so =
     (if verb = ''GET'' \<or> verb = ''HEAD'' \<or> verb = ''OPTIONS'' then Next ()
      else (case so of
              None \<Rightarrow> Next ()
            | Some sess \<Rightarrow>
                if headerToken = [] \<or> headerToken \<noteq> s_CSRFToken sess
                then AbortWith StatusForbidden (Msg ''invalid CSRF token'')
                else Next ()))"

lemma CSRF_forged:
  "verb \<notin> {''GET'', ''HEAD'', ''OPTIONS''} \<Longrightarrow>
   passes (CSRFMiddleware verb h (Some sess)) \<longleftrightarrow> h \<noteq> [] \<and> h = s_CSRFToken sess"
  by (auto simp: CSRFMiddleware_def)

lemma RequireState_pass: "RequireState sts so = Next sess \<longleftrightarrow> so = Some sess \<and> s_State sess \<in> set sts"
  by (auto simp: RequireState_def split: option.splits)

lemma RequireRole_pass:
  "RequireRole gr roles so = Next (sess, role) \<longleftrightarrow>
     so = Some sess \<and> (\<exists>uid. s_UserID sess = Some uid \<and> gr uid = Inr role) \<and> role \<in> set roles"
  by (auto simp: RequireRole_def split: option.splits sum.splits)

subsection \<open>The interface to the session store\<close>

locale session_validator =
  fixes get_valid :: "faults \<Rightarrow> time \<Rightarrow> uuid \<Rightarrow> 's \<Rightarrow> err + session"
    and touch :: "faults \<Rightarrow> time \<Rightarrow> uuid \<Rightarrow> 's \<Rightarrow> ('s, unit) store_result"
    and revoke :: "faults \<Rightarrow> time \<Rightarrow> uuid \<Rightarrow> uuid option \<Rightarrow> string \<Rightarrow> 's \<Rightarrow> ('s, unit) store_result"
    and rows :: "'s \<Rightarrow> session list"
  assumes get_valid_sound: "get_valid flt now i st = Inr sess \<Longrightarrow>
      sess \<in> set (rows st) \<and> s_ID sess = i \<and> IsValid now sess"
    and revoke_final: "snd (revoke flt now i by why st) = Inr () \<Longrightarrow>
      \<not> is_ok (get_valid flt' now' i (fst (revoke flt now i by why st)))"
    and revoke_error: "\<not> is_ok (snd (revoke flt now i by why st)) \<Longrightarrow> fst (revoke flt now i by why st) = st"
    and revoke_other: "i \<noteq> j \<Longrightarrow>
      get_valid flt' now' j (fst (revoke flt now i by why st)) = get_valid flt' now' j st"
    and touch_valid: "is_ok (get_valid flt' now' j (fst (touch flt now i st))) = is_ok (get_valid flt' now' j st)"
begin

abbreviation require where
  "require \<equiv> RequireSession get_valid touch revoke"

lemma require_pass:
  assumes "require parse flt now cookie st = (st', Next sess)"
  shows "\<exists>ck sid. cookie = Some ck \<and> parse ck = Some sid \<and> s_ID sess = sid \<and>
     sess \<in> set (rows st) \<and> IsValid now sess \<and> now - s_LastActiveAt sess \<le> IdleTimeout"
  using assms get_valid_sound
  by (fastforce simp: RequireSession_def split: option.splits sum.splits if_splits)

lemma require_idle_revokes:
  assumes get: "get_valid flt now sid st = Inr sess" and parse: "parse ck = Some sid"
    and idle: "now - s_LastActiveAt sess > IdleTimeout"
    and rev: "snd (revoke flt now sid None ''idle_timeout'' st) = Inr ()"
  shows "\<not> passes (snd (require parse flt' now' (Some ck) (fst (require parse flt now (Some ck) st))))"
proof -
  from get have id: "s_ID sess = sid" by (simp add: get_valid_sound)
  let ?st = "fst (revoke flt now sid None ''idle_timeout'' st)"
  from get parse idle id have st: "fst (require parse flt now (Some ck) st) = ?st"
    by (simp add: RequireSession_def)
  from revoke_final [OF rev] obtain e where "get_valid flt' now' sid ?st = Inl e"
    by (rule not_okE)
  with parse st show ?thesis by (simp add: RequireSession_def)
qed

lemma require_keeps_others:
  assumes "parse ck = Some sid" "sid \<noteq> j"
  shows "is_ok (get_valid flt' now' j (fst (require parse flt now (Some ck) st))) =
     is_ok (get_valid flt' now' j st)"
  using assms revoke_other touch_valid get_valid_sound
  by (auto simp: RequireSession_def split: sum.splits)

end

end
