(* ===== verification/Sessions.thy ===== *)
theory Sessions
  imports Middleware
begin

text \<open>
  \<^verbatim>\<open>backend/internal/session/store.go\<close>: the operations of the session table. Each
  takes the fault oracle and the clock, and returns the new table with the result. An
  insert takes the id the database generates (\<^verbatim>\<open>gen_random_uuid()\<close>).
\<close>

abbreviation active :: "time \<Rightarrow> session \<Rightarrow> bool" where
  "active now s \<equiv> s_RevokedAt s = None \<and> s_ExpiresAt s > now"

definition session_row :: "uuid \<Rightarrow> time \<Rightarrow> session_params \<Rightarrow> session" where
  "session_row i now p = \<lparr>
     s_ID = i, s_IdentityID = p_IdentityID p, s_TenantID = None, s_UserID = None,
     s_SubOrgID = None, s_UserRole = None, s_State = p_State p,
     s_IPAddress = p_IPAddress p, s_UserAgent = p_UserAgent p, s_AuthMethod = p_AuthMethod p,
     s_SecondFactor = None, s_IsSuperAdmin = False, s_CSRFToken = p_CSRFToken p,
     s_CreatedAt = now, s_LastActiveAt = now,
     s_ExpiresAt = now + (if p_State p = Pre_Auth \<or> p_State p = Setup2FA
                          then preAuthSessionDuration else sessionDuration),
     s_RevokedAt = None, s_RevokedBy = None, s_RevokeReason = None\<rparr>"

definition Session_Create ::
  "faults \<Rightarrow> time \<Rightarrow> uuid \<Rightarrow> session_params \<Rightarrow> session list \<Rightarrow> (session list, session) store_result" where
  [store_defs]: "Session_Create flt now i p t =
     (if flt ''session.Create'' 0 then (t, Inl (Fault ''session.Create''))
      else let s = session_row i now p in (t @ [s], Inr s))"

definition Session_GetValid :: "faults \<Rightarrow> time \<Rightarrow> uuid \<Rightarrow> session list \<Rightarrow> err + session" where
  [store_defs]: "Session_GetValid flt now i t =
     query_row flt ''session.GetValid'' ErrNotFound (\<lambda>s. s_ID s = i \<and> active now s) t"

definition Session_TouchLastActive ::
  "faults \<Rightarrow> time \<Rightarrow> uuid \<Rightarrow> session list \<Rightarrow> (session list, unit) store_result" where
  [store_defs]: "Session_TouchLastActive flt now i t =
     done_any (exec_update flt ''session.TouchLastActive'' (\<lambda>s. s_ID s = i)
       (\<lambda>s. s\<lparr>s_LastActiveAt := now\<rparr>) t)"

definition Session_UpdateState ::
  "faults \<Rightarrow> uuid \<Rightarrow> sstate \<Rightarrow> session list \<Rightarrow> (session list, unit) store_result" where
  [store_defs]: "Session_UpdateState flt i st t =
     done_any (exec_update flt ''session.UpdateState'' (\<lambda>s. s_ID s = i) (\<lambda>s. s\<lparr>s_State := st\<rparr>) t)"

definition Session_SetTenant ::
  "faults \<Rightarrow> time \<Rightarrow> uuid \<Rightarrow> uuid \<Rightarrow> uuid \<Rightarrow> uuid option \<Rightarrow> string \<Rightarrow> session list \<Rightarrow> (session list, unit) store_result" where
  [store_defs]: "Session_SetTenant flt now i tenantID userID subOrgID userRole t =
     done_any (exec_update flt ''session.SetTenant'' (\<lambda>s. s_ID s = i)
       (\<lambda>s. s\<lparr>s_TenantID := Some tenantID, s_UserID := Some userID, s_IsSuperAdmin := False,
              s_State := Authenticated, s_SubOrgID := subOrgID, s_UserRole := Some userRole,
              s_ExpiresAt := now + sessionDuration\<rparr>) t)"

definition Session_SetSuperAdmin ::
  "faults \<Rightarrow> time \<Rightarrow> uuid \<Rightarrow> session list \<Rightarrow> (session list, unit) store_result" where
  [store_defs]: "Session_SetSuperAdmin flt now i t =
     done_any (exec_update flt ''session.SetSuperAdmin'' (\<lambda>s. s_ID s = i)
       (\<lambda>s. s\<lparr>s_IsSuperAdmin := True, s_State := Authenticated,
              s_ExpiresAt := now + sessionDuration\<rparr>) t)"

definition Session_SetSecondFactor ::
  "faults \<Rightarrow> time \<Rightarrow> uuid \<Rightarrow> string \<Rightarrow> session list \<Rightarrow> (session list, unit) store_result" where
  [store_defs]: "Session_SetSecondFactor flt now i factor t =
     done_any (exec_update flt ''session.SetSecondFactor'' (\<lambda>s. s_ID s = i)
       (\<lambda>s. s\<lparr>s_SecondFactor := Some factor, s_State := PreTenant,
              s_ExpiresAt := now + sessionDuration\<rparr>) t)"

definition Session_Revoke ::
  "faults \<Rightarrow> time \<Rightarrow> uuid \<Rightarrow> uuid option \<Rightarrow> string \<Rightarrow> session list \<Rightarrow> (session list, unit) store_result" where
  [store_defs]: "Session_Revoke flt now i revokedBy reason t =
     done_some ErrNotFound (exec_update flt ''session.Revoke''
       (\<lambda>s. s_ID s = i \<and> s_RevokedAt s = None)
       (\<lambda>s. s\<lparr>s_RevokedAt := Some now, s_RevokedBy := revokedBy, s_RevokeReason := Some reason\<rparr>) t)"

definition Session_ListByIdentity ::
  "faults \<Rightarrow> time \<Rightarrow> uuid \<Rightarrow> session list \<Rightarrow> err + session list" where
  [store_defs]: "Session_ListByIdentity flt now identityID t =
     (if flt ''session.ListByIdentity'' 0 then Inl (Fault ''session.ListByIdentity'')
      else Inr (sql_desc s_LastActiveAt (filter (\<lambda>s. s_IdentityID s = identityID \<and> active now s) t)))"

definition Session_RevokeByTenant ::
  "faults \<Rightarrow> time \<Rightarrow> uuid \<Rightarrow> string \<Rightarrow> session list \<Rightarrow> (session list, nat) store_result" where
  [store_defs]: "Session_RevokeByTenant flt now tenantID reason t =
     exec_update flt ''session.RevokeByTenant'' (\<lambda>s. s_TenantID s = Some tenantID \<and> active now s)
       (\<lambda>s. s\<lparr>s_RevokedAt := Some now, s_RevokeReason := Some reason\<rparr>) t"

definition Session_UpdateSubOrg ::
  "faults \<Rightarrow> time \<Rightarrow> uuid \<Rightarrow> uuid option \<Rightarrow> session list \<Rightarrow> (session list, unit) store_result" where
  [store_defs]: "Session_UpdateSubOrg flt now userID subOrgID t =
     done_any (exec_update flt ''session.UpdateSubOrg'' (\<lambda>s. s_UserID s = Some userID \<and> active now s)
       (\<lambda>s. s\<lparr>s_SubOrgID := subOrgID\<rparr>) t)"

definition Session_RevokeByIdentity ::
  "faults \<Rightarrow> time \<Rightarrow> uuid \<Rightarrow> string \<Rightarrow> session list \<Rightarrow> (session list, nat) store_result" where
  [store_defs]: "Session_RevokeByIdentity flt now identityID reason t =
     exec_update flt ''session.RevokeByIdentity'' (\<lambda>s. s_IdentityID s = identityID \<and> active now s)
       (\<lambda>s. s\<lparr>s_RevokedAt := Some now, s_RevokeReason := Some reason\<rparr>) t"

definition Session_RevokeByIdentityExcept ::
  "faults \<Rightarrow> time \<Rightarrow> uuid \<Rightarrow> uuid \<Rightarrow> string \<Rightarrow> session list \<Rightarrow> (session list, nat) store_result" where
  [store_defs]: "Session_RevokeByIdentityExcept flt now identityID exceptID reason t =
     exec_update flt ''session.RevokeByIdentityExcept''
       (\<lambda>s. s_IdentityID s = identityID \<and> s_ID s \<noteq> exceptID \<and> active now s)
       (\<lambda>s. s\<lparr>s_RevokedAt := Some now, s_RevokedBy := Some identityID, s_RevokeReason := Some reason\<rparr>) t"

definition Session_ResetContext ::
  "faults \<Rightarrow> uuid \<Rightarrow> session list \<Rightarrow> (session list, unit) store_result" where
  [store_defs]: "Session_ResetContext flt i t =
     done_any (exec_update flt ''session.ResetContext'' (\<lambda>s. s_ID s = i)
       (\<lambda>s. s\<lparr>s_TenantID := None, s_UserID := None, s_IsSuperAdmin := False, s_State := PreTenant\<rparr>) t)"

text \<open>Two statements without a transaction: when the second is refused, the first has
  happened.\<close>

definition Session_CleanupExpired ::
  "faults \<Rightarrow> time \<Rightarrow> session list \<Rightarrow> (session list, nat) store_result" where
  [store_defs]: "Session_CleanupExpired flt now t =
     (case exec_update flt ''session.CleanupExpired.revoke''
             (\<lambda>s. s_RevokedAt s = None \<and> s_ExpiresAt s < now)
             (\<lambda>s. s\<lparr>s_RevokedAt := Some now, s_RevokeReason := Some ''expired''\<rparr>) t of
        (t1, Inl e) \<Rightarrow> (t1, Inl e)
      | (t1, Inr revoked) \<Rightarrow>
          (case exec_delete flt ''session.CleanupExpired.delete'' (\<lambda>s. s_CreatedAt s < now - 90 * day) t1 of
             (t2, Inl e) \<Rightarrow> (t2, Inl e)
           | (t2, Inr _) \<Rightarrow> (t2, Inr revoked)))"

text \<open>\<^verbatim>\<open>session/cleanup.go\<close>: the cron endpoint. The extra cleanups run after the sessions'
  whether they fail or not; they are functions on the rest of the state.\<close>

fun run_extra :: "('x \<Rightarrow> 'x \<times> (err + unit)) list \<Rightarrow> 'x \<Rightarrow> 'x" where
  "run_extra [] x = x"
| "run_extra (f # fs) x = run_extra fs (fst (f x))"

definition CleanupHandler ::
  "faults \<Rightarrow> time \<Rightarrow> ('x \<Rightarrow> 'x \<times> (err + unit)) list \<Rightarrow> session list \<times> 'x \<Rightarrow> (session list \<times> 'x) \<times> nat response" where
  [http_defs]: "CleanupHandler flt now extra st =
     (case Session_CleanupExpired flt now (fst st) of
        (t, Inl _) \<Rightarrow> ((t, snd st), Abort StatusInternalServerError (Msg ''cleanup failed''))
      | (t, Inr revoked) \<Rightarrow> ((t, run_extra extra (snd st)), Respond StatusOK revoked))"

subsection \<open>The store keeps the contract of the middleware\<close>

lemma GetValid_Inr:
  "Session_GetValid flt now i t = Inr s \<Longrightarrow> s \<in> set t \<and> s_ID s = i \<and> active now s"
  by (auto simp: Session_GetValid_def query_row_def dest: sql_row_Some split: if_splits option.splits)

lemma GetValid_ok:
  "is_ok (Session_GetValid flt now i t) \<longleftrightarrow>
     \<not> flt ''session.GetValid'' 0 \<and> (\<exists>s \<in> set t. s_ID s = i \<and> active now s)"
proof (cases "sql_row (\<lambda>s. s_ID s = i \<and> active now s) t")
  case None
  then have "\<forall>s \<in> set t. \<not> (s_ID s = i \<and> active now s)" by (simp add: sql_row_None)
  with None show ?thesis by (auto simp: Session_GetValid_def query_row_def)
next
  case (Some s)
  then have "s \<in> set t \<and> s_ID s = i \<and> active now s" by (rule sql_row_Some)
  with Some show ?thesis by (auto simp: Session_GetValid_def query_row_def)
qed

lemma GetValid_update_other:
  assumes "\<And>s. s_ID (f s) = s_ID s" "\<And>s. P s \<Longrightarrow> s_ID s = i" "i \<noteq> j"
  shows "Session_GetValid flt now j (sql_update P f t) = Session_GetValid flt now j t"
proof -
  have "sql_row (\<lambda>s. s_ID s = j \<and> active now s) (sql_update P f t) =
        sql_row (\<lambda>s. s_ID s = j \<and> active now s) t"
    using assms by (induction t) auto
  then show ?thesis by (simp add: Session_GetValid_def query_row_def)
qed

lemma Revoke_ok:
  assumes "Session_Revoke flt now i by why t = (t', Inr ())"
  shows "\<forall>s \<in> set t'. s_ID s = i \<longrightarrow> s_RevokedAt s \<noteq> None"
proof -
  from assms have "t' = sql_update (\<lambda>s. s_ID s = i \<and> s_RevokedAt s = None)
      (\<lambda>s. s\<lparr>s_RevokedAt := Some now, s_RevokedBy := by, s_RevokeReason := Some why\<rparr>) t"
    by (simp add: Session_Revoke_def done_some_update_ok)
  then show ?thesis by (simp add: ball_sql_update)
qed

lemma Revoke_error:
  "\<not> is_ok (snd (Session_Revoke flt now i by why t)) \<Longrightarrow> fst (Session_Revoke flt now i by why t) = t"
  unfolding Session_Revoke_def by (rule done_some_failed)

interpretation session_store:
  session_validator Session_GetValid Session_TouchLastActive Session_Revoke "\<lambda>t. t"
proof
  fix flt flt' :: faults and now now' :: time and i j :: uuid and by' why t sess
  show "Session_GetValid flt now i t = Inr sess \<Longrightarrow> sess \<in> set t \<and> s_ID sess = i \<and> IsValid now sess"
    using GetValid_Inr [of flt now i t sess] by (simp add: IsValid_def)
  show "\<not> is_ok (Session_GetValid flt' now' i (fst (Session_Revoke flt now i by' why t)))"
    if "snd (Session_Revoke flt now i by' why t) = Inr ()"
    using that Revoke_ok [of flt now i by' why t "fst (Session_Revoke flt now i by' why t)"]
    by (auto simp: GetValid_ok prod_eq_iff)
  show "\<not> is_ok (snd (Session_Revoke flt now i by' why t)) \<Longrightarrow> fst (Session_Revoke flt now i by' why t) = t"
    by (rule Revoke_error)
  show "Session_GetValid flt' now' j (fst (Session_Revoke flt now i by' why t)) = Session_GetValid flt' now' j t"
    if "i \<noteq> j"
    using that by (auto simp: Session_Revoke_def fst_exec_update intro!: GetValid_update_other)
  show "is_ok (Session_GetValid flt' now' j (fst (Session_TouchLastActive flt now i t))) =
        is_ok (Session_GetValid flt' now' j t)"
    by (simp add: GetValid_ok Session_TouchLastActive_def fst_exec_update bex_sql_update if_distrib
        cong: conj_cong if_cong)
qed

subsection \<open>Histories of the session table\<close>

text \<open>Every statement that writes the table, as one step of a history with its own clock
  and faults.\<close>

datatype session_op =
    OpCreate uuid session_params
  | OpTouch uuid
  | OpUpdateState uuid sstate
  | OpSetTenant uuid uuid uuid "uuid option" string
  | OpSetSuperAdmin uuid
  | OpSetSecondFactor uuid string
  | OpRevoke uuid "uuid option" string
  | OpRevokeByTenant uuid string
  | OpUpdateSubOrg uuid "uuid option"
  | OpRevokeByIdentity uuid string
  | OpRevokeByIdentityExcept uuid uuid string
  | OpResetContext uuid
  | OpCleanupExpired

fun session_exec :: "faults \<Rightarrow> time \<Rightarrow> session_op \<Rightarrow> session list \<Rightarrow> session list" where
  "session_exec flt now (OpCreate i p) t = fst (Session_Create flt now i p t)"
| "session_exec flt now (OpTouch i) t = fst (Session_TouchLastActive flt now i t)"
| "session_exec flt now (OpUpdateState i st) t = fst (Session_UpdateState flt i st t)"
| "session_exec flt now (OpSetTenant i ten u so r) t = fst (Session_SetTenant flt now i ten u so r t)"
| "session_exec flt now (OpSetSuperAdmin i) t = fst (Session_SetSuperAdmin flt now i t)"
| "session_exec flt now (OpSetSecondFactor i f) t = fst (Session_SetSecondFactor flt now i f t)"
| "session_exec flt now (OpRevoke i by why) t = fst (Session_Revoke flt now i by why t)"
| "session_exec flt now (OpRevokeByTenant ten why) t = fst (Session_RevokeByTenant flt now ten why t)"
| "session_exec flt now (OpUpdateSubOrg u so) t = fst (Session_UpdateSubOrg flt now u so t)"
| "session_exec flt now (OpRevokeByIdentity idn why) t = fst (Session_RevokeByIdentity flt now idn why t)"
| "session_exec flt now (OpRevokeByIdentityExcept idn i why) t =
     fst (Session_RevokeByIdentityExcept flt now idn i why t)"
| "session_exec flt now (OpResetContext i) t = fst (Session_ResetContext flt i t)"
| "session_exec flt now OpCleanupExpired t = fst (Session_CleanupExpired flt now t)"

fun session_run :: "(faults \<times> time \<times> session_op) list \<Rightarrow> session list \<Rightarrow> session list" where
  "session_run [] t = t"
| "session_run ((flt, now, op) # ops) t = session_run ops (session_exec flt now op t)"

fun creates :: "session_op \<Rightarrow> uuid set" where
  "creates (OpCreate i _) = {i}"
| "creates _ = {}"

definition dead :: "uuid \<Rightarrow> session list \<Rightarrow> bool" where
  "dead i t = (\<forall>s \<in> set t. s_ID s = i \<longrightarrow> s_RevokedAt s \<noteq> None)"

lemma dead_update:
  assumes "dead i t" "\<And>s. s_ID (f s) = s_ID s" "\<And>s. s_RevokedAt s \<noteq> None \<Longrightarrow> s_RevokedAt (f s) \<noteq> None"
  shows "dead i (sql_update P f t)"
  using assms by (simp add: dead_def ball_sql_update)

lemma dead_delete: "dead i t \<Longrightarrow> dead i (sql_delete P t)"
  by (simp add: dead_def)

lemma CleanupExpired_fst:
  "fst (Session_CleanupExpired flt now t) =
     fst (exec_delete flt ''session.CleanupExpired.delete'' (\<lambda>s. s_CreatedAt s < now - 90 * day)
       (fst (exec_update flt ''session.CleanupExpired.revoke''
         (\<lambda>s. s_RevokedAt s = None \<and> s_ExpiresAt s < now)
         (\<lambda>s. s\<lparr>s_RevokedAt := Some now, s_RevokeReason := Some ''expired''\<rparr>) t)))
   \<or> flt ''session.CleanupExpired.revoke'' 0 \<and> fst (Session_CleanupExpired flt now t) = t"
  by (simp add: Session_CleanupExpired_def exec_update_def exec_delete_def)

lemma dead_exec:
  assumes "dead i t" "i \<notin> creates op"
  shows "dead i (session_exec flt now op t)"
proof (cases op)
  case (OpCreate j p)
  with assms show ?thesis
    by (auto simp: Session_Create_def dead_def session_row_def Let_def)
next
  case OpCleanupExpired
  have "dead i (fst (Session_CleanupExpired flt now t))"
    using CleanupExpired_fst [of flt now t] assms(1)
    by (auto simp: fst_exec_update fst_exec_delete intro!: dead_update dead_delete)
  with OpCleanupExpired show ?thesis by simp
qed (use assms in \<open>auto simp: store_defs fst_exec_update intro!: dead_update\<close>)

lemma dead_run:
  "dead i t \<Longrightarrow> (\<And>f n op. (f, n, op) \<in> set ops \<Longrightarrow> i \<notin> creates op) \<Longrightarrow> dead i (session_run ops t)"
proof (induction ops arbitrary: t)
  case (Cons a ops)
  obtain flt now op where a: "a = (flt, now, op)" by (cases a)
  with Cons.prems have "dead i (session_exec flt now op t)" by (intro dead_exec) auto
  with Cons a show ?case by auto
qed simp

lemma dead_GetValid: "dead i t \<Longrightarrow> \<not> is_ok (Session_GetValid flt now i t)"
  by (auto simp: GetValid_ok dead_def)

text \<open>[C8] Revocation is permanent: once a session has been revoked (by logout, an
  administrator, the idle timeout or a cleanup), no later history of session statements,
  under any faults and at any time, lets a request through \<^verbatim>\<open>RequireSession\<close> with it
  again, provided the database never hands out the session's id a second time.\<close>

theorem revocation_is_permanent:
  assumes rev: "Session_Revoke flt now i by why t = (t', Inr ())"
    and fresh: "\<forall>(f, n, op) \<in> set ops. i \<notin> creates op"
    and parse: "parse ck = Some i"
  shows "\<not> passes (snd (RequireSession Session_GetValid Session_TouchLastActive Session_Revoke
           parse flt' now' (Some ck) (session_run ops t')))"
proof -
  from Revoke_ok [OF rev] have "dead i t'" by (simp add: dead_def)
  then have "dead i (session_run ops t')" using fresh by (intro dead_run) auto
  then have "\<not> is_ok (Session_GetValid flt' now' i (session_run ops t'))" by (rule dead_GetValid)
  with parse show ?thesis by (auto simp: RequireSession_def elim: not_okE)
qed

definition demo_params :: session_params where
  "demo_params = \<lparr>p_IdentityID = 7, p_State = Pre_Auth, p_IPAddress = ''10.0.0.1'',
     p_UserAgent = ''ua'', p_AuthMethod = ''password'', p_CSRFToken = ''tok''\<rparr>"

theorem revocation_is_permanent_witness:
  "\<not> passes (snd (RequireSession Session_GetValid Session_TouchLastActive Session_Revoke
      (\<lambda>_. Some 1) no_faults (5 * minute) (Some ''c'')
      (session_run [(no_faults, minute, OpSetSecondFactor 1 ''totp''), (no_faults, minute, OpSetTenant 1 2 3 None ''fso'')]
        (fst (Session_Revoke no_faults 10 1 None ''logout'' [session_row 1 0 demo_params])))))"
proof -
  let ?t = "[session_row 1 0 demo_params]"
  have "Session_Revoke no_faults 10 1 None ''logout'' ?t =
      (fst (Session_Revoke no_faults 10 1 None ''logout'' ?t), Inr ())"
    by (simp add: Session_Revoke_def sql_simps session_row_def sql_affected_def)
  then show ?thesis by (rule revocation_is_permanent) simp_all
qed

text \<open>[C9] \<^verbatim>\<open>RequireSession\<close> lets a request through exactly when the cookie parses to
  the id of a stored session that is not revoked, not past its expiry and was active within
  the last thirty minutes, provided the lookup is answered; the session it hands on is that
  row as it was stored.\<close>

theorem RequireSession_exact:
  assumes key: "keyed s_ID t"
  shows "(\<exists>t'. RequireSession Session_GetValid Session_TouchLastActive Session_Revoke
              parse flt now (Some ck) t = (t', Next sess)) \<longleftrightarrow>
     \<not> flt ''session.GetValid'' 0 \<and> parse ck = Some (s_ID sess) \<and> sess \<in> set t \<and> IsValid now sess \<and>
     now - s_LastActiveAt sess \<le> IdleTimeout" (is "?L \<longleftrightarrow> ?R")
proof
  assume ?L
  then obtain t' where
    L: "RequireSession Session_GetValid Session_TouchLastActive Session_Revoke parse flt now (Some ck) t = (t', Next sess)"
    by blast
  from session_store.require_pass [OF this] show ?R
    using L by (auto simp: RequireSession_def Session_GetValid_def query_row_def split: if_splits option.splits)
next
  assume R: ?R
  have "Session_GetValid flt now (s_ID sess) t = Inr sess"
  proof -
    from R have "is_ok (Session_GetValid flt now (s_ID sess) t)"
      by (auto simp: GetValid_ok IsValid_def)
    then obtain s where s: "Session_GetValid flt now (s_ID sess) t = Inr s" by blast
    from GetValid_Inr [OF s] R key have "s = sess" by (auto intro: keyed_unique)
    with s show ?thesis by simp
  qed
  with R show ?L by (simp add: RequireSession_def)
qed

theorem RequireSession_exact_witness:
  "\<exists>t'. RequireSession Session_GetValid Session_TouchLastActive Session_Revoke
      (\<lambda>_. Some 1) no_faults minute (Some ''c'') [session_row 1 0 demo_params]
      = (t', Next (session_row 1 0 demo_params))"
  by (subst RequireSession_exact) (simp_all add: keyed_def session_row_def IsValid_def session_durations demo_params_def)

text \<open>An idle session is revoked by the request that finds it idle: if the revocation is
  carried out, no later request at any time gets through with it, although its absolute
  expiry has not been reached.\<close>

theorem idle_session_is_revoked:
  assumes "Session_GetValid flt now sid t = Inr sess" "parse ck = Some sid"
    and "now - s_LastActiveAt sess > IdleTimeout" "\<not> flt ''session.Revoke'' 0"
  shows "\<not> passes (snd (RequireSession Session_GetValid Session_TouchLastActive Session_Revoke parse flt' now' (Some ck)
      (fst (RequireSession Session_GetValid Session_TouchLastActive Session_Revoke parse flt now (Some ck) t))))"
proof (rule session_store.require_idle_revokes)
  show "Session_GetValid flt now sid t = Inr sess" "parse ck = Some sid"
    "IdleTimeout < now - s_LastActiveAt sess" by (fact assms)+
next
  from GetValid_Inr [OF assms(1)] have "\<exists>s \<in> set t. s_ID s = sid \<and> s_RevokedAt s = None" by blast
  with assms(4) have "Session_Revoke flt now sid None ''idle_timeout'' t =
      (fst (Session_Revoke flt now sid None ''idle_timeout'' t), Inr ())"
    by (simp add: Session_Revoke_def done_some_update_ok fst_exec_update)
  then show "snd (Session_Revoke flt now sid None ''idle_timeout'' t) = Inr ()"
    by (metis snd_conv)
qed

theorem idle_session_is_revoked_witness:
  "\<not> passes (snd (RequireSession Session_GetValid Session_TouchLastActive Session_Revoke (\<lambda>_. Some 1) no_faults (32 * minute) (Some ''c'')
      (fst (RequireSession Session_GetValid Session_TouchLastActive Session_Revoke (\<lambda>_. Some 1) no_faults (31 * minute) (Some ''c'')
        [(session_row 1 0 demo_params)\<lparr>s_ExpiresAt := day\<rparr>]))))"
  by (rule idle_session_is_revoked [where sess = "(session_row 1 0 demo_params)\<lparr>s_ExpiresAt := day\<rparr>" and sid = 1])
    (simp_all add: Session_GetValid_def query_row_def session_row_def session_durations)

end
