(* ===== verification/Identities.thy ===== *)
theory Identities
  imports Prelude
begin

text \<open>
  \<^verbatim>\<open>backend/internal/identity\<close>: the login identities and their store. The lockout
  after repeated wrong passwords lives here: \<^verbatim>\<open>RecordFailedLogin\<close> counts and locks,
  \<^verbatim>\<open>IsLocked\<close> is the test the login handler makes, \<^verbatim>\<open>ClearFailedLogin\<close> resets.
  The SQL function \<^verbatim>\<open>lower\<close> depends on the database's locale and is an argument.
\<close>

definition MaxFailedLogins :: nat where "MaxFailedLogins = 5"
definition LockDuration :: time where "LockDuration = 30 * minute"

record identity =
  i_ID :: uuid
  i_Email :: string
  i_Name :: string
  i_PasswordHash :: "string option"
  i_IsSuperAdmin :: bool
  i_Activated :: bool
  i_SuspendedAt :: "time option"
  i_FailedLoginAttempts :: nat
  i_LockedUntil :: "time option"
  i_CreatedAt :: time
  i_UpdatedAt :: time

definition IsLocked :: "time \<Rightarrow> identity \<Rightarrow> bool" where
  "IsLocked now i = (case i_LockedUntil i of None \<Rightarrow> False | Some u \<Rightarrow> now < u)"

definition IsSuspended :: "identity \<Rightarrow> bool" where
  "IsSuspended i = (i_SuspendedAt i \<noteq> None)"

definition HasPassword :: "identity \<Rightarrow> bool" where
  "HasPassword i = (case i_PasswordHash i of None \<Rightarrow> False | Some h \<Rightarrow> h \<noteq> [])"

definition Identity_Create ::
  "(string \<Rightarrow> string) \<Rightarrow> faults \<Rightarrow> time \<Rightarrow> uuid \<Rightarrow> string \<Rightarrow> string \<Rightarrow> string option \<Rightarrow>
   identity list \<Rightarrow> (identity list, identity) store_result" where
  [store_defs]: "Identity_Create lower flt now i email name pw t =
     (if flt ''identity.Create'' 0 \<or> sql_exists (\<lambda>r. lower (i_Email r) = lower email) t
      then (t, Inl (Fault ''identity.Create''))
      else let r = \<lparr>i_ID = i, i_Email = email, i_Name = name, i_PasswordHash = pw,
             i_IsSuperAdmin = False, i_Activated = False, i_SuspendedAt = None,
             i_FailedLoginAttempts = 0, i_LockedUntil = None, i_CreatedAt = now, i_UpdatedAt = now\<rparr>
        in (t @ [r], Inr r))"

definition Identity_GetByEmail ::
  "(string \<Rightarrow> string) \<Rightarrow> faults \<Rightarrow> string \<Rightarrow> identity list \<Rightarrow> err + identity" where
  [store_defs]: "Identity_GetByEmail lower flt email t =
     query_row flt ''identity.GetByEmail'' ErrNotFound (\<lambda>r. lower (i_Email r) = lower email) t"

definition Identity_GetByID :: "faults \<Rightarrow> uuid \<Rightarrow> identity list \<Rightarrow> err + identity" where
  [store_defs]: "Identity_GetByID flt i t =
     query_row flt ''identity.GetByID'' ErrNotFound (\<lambda>r. i_ID r = i) t"

text \<open>The single-row updates share one shape: set a field and \<^verbatim>\<open>updated_at\<close>, and report
  \<open>ErrNotFound\<close> when no row was affected.\<close>

definition identity_set ::
  "faults \<Rightarrow> string \<Rightarrow> time \<Rightarrow> (identity \<Rightarrow> bool) \<Rightarrow> (identity \<Rightarrow> identity) \<Rightarrow>
   identity list \<Rightarrow> (identity list, unit) store_result" where
  [store_defs]: "identity_set flt q now P f t =
     done_some ErrNotFound (exec_update flt q P (\<lambda>r. (f r)\<lparr>i_UpdatedAt := now\<rparr>) t)"

definition Identity_SetSuperAdmin where
  [store_defs]: "Identity_SetSuperAdmin flt now i b =
     identity_set flt ''identity.SetSuperAdmin'' now (\<lambda>r. i_ID r = i) (\<lambda>r. r\<lparr>i_IsSuperAdmin := b\<rparr>)"

definition Identity_Suspend where
  [store_defs]: "Identity_Suspend flt now i =
     identity_set flt ''identity.Suspend'' now (\<lambda>r. i_ID r = i \<and> i_SuspendedAt r = None)
       (\<lambda>r. r\<lparr>i_SuspendedAt := Some now\<rparr>)"

definition Identity_Unsuspend where
  [store_defs]: "Identity_Unsuspend flt now i =
     identity_set flt ''identity.Unsuspend'' now (\<lambda>r. i_ID r = i \<and> i_SuspendedAt r \<noteq> None)
       (\<lambda>r. r\<lparr>i_SuspendedAt := None\<rparr>)"

definition Identity_UpdateName where
  [store_defs]: "Identity_UpdateName flt now i name =
     identity_set flt ''identity.UpdateName'' now (\<lambda>r. i_ID r = i) (\<lambda>r. r\<lparr>i_Name := name\<rparr>)"

definition Identity_Activate where
  [store_defs]: "Identity_Activate flt now i =
     identity_set flt ''identity.Activate'' now (\<lambda>r. i_ID r = i) (\<lambda>r. r\<lparr>i_Activated := True\<rparr>)"

text \<open>A changed address may collide with the unique index on \<^verbatim>\<open>lower(email)\<close>; the statement
  is then refused.\<close>

definition Identity_UpdateEmail ::
  "(string \<Rightarrow> string) \<Rightarrow> faults \<Rightarrow> time \<Rightarrow> uuid \<Rightarrow> string \<Rightarrow> identity list \<Rightarrow> (identity list, unit) store_result" where
  [store_defs]: "Identity_UpdateEmail lower flt now i email t =
     (if sql_exists (\<lambda>r. i_ID r = i) t \<and> sql_exists (\<lambda>r. i_ID r \<noteq> i \<and> lower (i_Email r) = lower email) t
      then (t, Inl (Fault ''identity.UpdateEmail''))
      else identity_set flt ''identity.UpdateEmail'' now (\<lambda>r. i_ID r = i) (\<lambda>r. r\<lparr>i_Email := email\<rparr>) t)"

definition Identity_UpdatePassword where
  [store_defs]: "Identity_UpdatePassword flt now i h =
     identity_set flt ''identity.UpdatePassword'' now (\<lambda>r. i_ID r = i) (\<lambda>r. r\<lparr>i_PasswordHash := Some h\<rparr>)"

definition Identity_CountActiveSuperAdmins :: "faults \<Rightarrow> identity list \<Rightarrow> err + nat" where
  [store_defs]: "Identity_CountActiveSuperAdmins flt t =
     (if flt ''identity.CountActiveSuperAdmins'' 0 then Inl (Fault ''identity.CountActiveSuperAdmins'')
      else Inr (sql_affected (\<lambda>r. i_IsSuperAdmin r \<and> i_SuspendedAt r = None) t))"

definition failed_login_row :: "time \<Rightarrow> identity \<Rightarrow> identity" where
  "failed_login_row now r = r\<lparr>
     i_FailedLoginAttempts := i_FailedLoginAttempts r + 1,
     i_LockedUntil := (if i_FailedLoginAttempts r + 1 \<ge> MaxFailedLogins
                       then Some (now + LockDuration) else i_LockedUntil r),
     i_UpdatedAt := now\<rparr>"

definition Identity_RecordFailedLogin ::
  "faults \<Rightarrow> time \<Rightarrow> uuid \<Rightarrow> identity list \<Rightarrow> (identity list, unit) store_result" where
  [store_defs]: "Identity_RecordFailedLogin flt now i t =
     done_any (exec_update flt ''identity.RecordFailedLogin'' (\<lambda>r. i_ID r = i) (failed_login_row now) t)"

definition Identity_ClearFailedLogin ::
  "faults \<Rightarrow> time \<Rightarrow> uuid \<Rightarrow> identity list \<Rightarrow> (identity list, unit) store_result" where
  [store_defs]: "Identity_ClearFailedLogin flt now i t =
     done_any (exec_update flt ''identity.ClearFailedLogin'' (\<lambda>r. i_ID r = i)
       (\<lambda>r. r\<lparr>i_FailedLoginAttempts := 0, i_LockedUntil := None, i_UpdatedAt := now\<rparr>) t)"

subsection \<open>Lookups\<close>

lemma GetByID_ok: "Identity_GetByID flt i t = Inr r \<Longrightarrow> r \<in> set t \<and> i_ID r = i"
  by (auto simp: Identity_GetByID_def query_row_def dest: sql_row_Some split: if_splits option.splits)

lemma GetByEmail_ok:
  "Identity_GetByEmail lower flt e t = Inr r \<Longrightarrow> r \<in> set t \<and> lower (i_Email r) = lower e"
  by (auto simp: Identity_GetByEmail_def query_row_def dest: sql_row_Some split: if_splits option.splits)

lemma identity_set_failed:
  "\<not> is_ok (snd (identity_set flt q now P f t)) \<Longrightarrow> fst (identity_set flt q now P f t) = t"
  unfolding identity_set_def by (rule done_some_failed)

lemma failed_login_row_simps [simp]:
  "i_ID (failed_login_row now r) = i_ID r"
  "i_Email (failed_login_row now r) = i_Email r"
  "i_PasswordHash (failed_login_row now r) = i_PasswordHash r"
  "i_FailedLoginAttempts (failed_login_row now r) = Suc (i_FailedLoginAttempts r)"
  by (simp_all add: failed_login_row_def)

text \<open>The unique index: distinct identities have addresses that differ even ignoring case.\<close>

definition emails_unique :: "(string \<Rightarrow> string) \<Rightarrow> identity list \<Rightarrow> bool" where
  "emails_unique lower t = distinct (map (\<lambda>r. lower (i_Email r)) t)"

lemma emails_unique_Create:
  "emails_unique lower t \<Longrightarrow> emails_unique lower (fst (Identity_Create lower flt now i e n p t))"
  by (auto simp: emails_unique_def Identity_Create_def Let_def)

lemma emails_unique_update:
  "emails_unique lower t \<Longrightarrow> (\<And>r. i_Email (f r) = i_Email r) \<Longrightarrow> emails_unique lower (sql_update P f t)"
  by (simp add: emails_unique_def map_sql_update)

subsection \<open>The lockout as an automaton on one identity\<close>

text \<open>One wrong guess at time \<open>now\<close>, as the login handler treats it: a locked identity is
  turned away before its password is looked at; otherwise the password is compared and the
  failure recorded. The second component says whether the guess was compared.\<close>

definition guess :: "time \<Rightarrow> identity \<Rightarrow> identity \<times> bool" where
  "guess now r = (if IsLocked now r then (r, False) else (failed_login_row now r, True))"

fun guesses :: "time list \<Rightarrow> identity \<Rightarrow> nat" where
  "guesses [] r = 0"
| "guesses (now # ts) r =
     (let (r', tried) = guess now r in (if tried then 1 else 0) + guesses ts r')"

fun after_guesses :: "time list \<Rightarrow> identity \<Rightarrow> identity" where
  "after_guesses [] r = r"
| "after_guesses (now # ts) r = after_guesses ts (fst (guess now r))"

lemma guess_at_limit:
  "MaxFailedLogins \<le> Suc (i_FailedLoginAttempts r) \<Longrightarrow> \<not> IsLocked now r \<Longrightarrow>
     i_LockedUntil (fst (guess now r)) = Some (now + LockDuration)"
  by (simp add: guess_def failed_login_row_def)

lemma guesses_while_locked:
  "i_LockedUntil r = Some u \<Longrightarrow> \<forall>t \<in> set ts. t < u \<Longrightarrow> guesses ts r = 0"
  by (induction ts) (auto simp: guess_def IsLocked_def)

lemma guesses_bound:
  "sorted (t0 # ts) \<Longrightarrow> \<forall>t \<in> set ts. t < t0 + LockDuration \<Longrightarrow>
     guesses ts r \<le> max 1 (MaxFailedLogins - i_FailedLoginAttempts r)"
proof (induction ts arbitrary: r t0)
  case (Cons now ts)
  show ?case
  proof (cases "IsLocked now r")
    case True
    with Cons.prems Cons.IH [of t0 r] show ?thesis by (simp add: guess_def)
  next
    case False
    note tried = False
    let ?r = "failed_login_row now r"
    show ?thesis
    proof (cases "MaxFailedLogins \<le> Suc (i_FailedLoginAttempts r)")
      case True
      then have "i_LockedUntil ?r = Some (now + LockDuration)" by (simp add: failed_login_row_def)
      moreover have "\<forall>t \<in> set ts. t < now + LockDuration" using Cons.prems by fastforce
      ultimately have "guesses ts ?r = 0" by (rule guesses_while_locked)
      with tried show ?thesis by (simp add: guess_def)
    next
      case False
      have "guesses ts ?r \<le> max 1 (MaxFailedLogins - i_FailedLoginAttempts ?r)"
        using Cons.prems by (intro Cons.IH [of t0]) auto
      with tried False show ?thesis by (simp add: guess_def)
    qed
  qed
qed simp


definition demo_identity :: identity where
  "demo_identity = \<lparr>i_ID = 7, i_Email = ''a@b.c'', i_Name = ''A'', i_PasswordHash = Some ''h'',
     i_IsSuperAdmin = False, i_Activated = True, i_SuspendedAt = None, i_FailedLoginAttempts = 0,
     i_LockedUntil = None, i_CreatedAt = 0, i_UpdatedAt = 0\<rparr>"


text \<open>The counter survives the lock: an identity with five failures whose lock has
  run out is locked again, for the full duration, by one more wrong password, and a correct
  password (which clears the counter) is the only thing that gives the five tries back.\<close>

theorem one_failure_relocks:
  assumes "MaxFailedLogins \<le> i_FailedLoginAttempts r" "\<not> IsLocked now r"
  shows "(IsLocked later (fst (guess now r)) \<longleftrightarrow> later < now + LockDuration) \<and>
    Identity_ClearFailedLogin no_faults now (i_ID r) [r] =
      ([r\<lparr>i_FailedLoginAttempts := 0, i_LockedUntil := None, i_UpdatedAt := now\<rparr>], Inr ())"
  using assms by (simp_all add: guess_def IsLocked_def failed_login_row_def Identity_ClearFailedLogin_def sql_simps)

theorem one_failure_relocks_witness:
  "IsLocked (40 * minute) (fst (guess (35 * minute)
     (demo_identity\<lparr>i_FailedLoginAttempts := 5, i_LockedUntil := Some (30 * minute)\<rparr>)))"
  using one_failure_relocks [of "demo_identity\<lparr>i_FailedLoginAttempts := 5, i_LockedUntil := Some (30 * minute)\<rparr>"
    "35 * minute" "40 * minute"]
  by (simp add: MaxFailedLogins_def demo_identity_def IsLocked_def LockDuration_def)

end
