(* ===== verification/Codes.thy ===== *)
theory Codes
  imports Prelude
begin

text \<open>
  The table \<^verbatim>\<open>email_codes\<close> and its two clients \<^verbatim>\<open>backend/internal/emailcode/store.go\<close>
  (six-digit 2FA codes) and \<^verbatim>\<open>backend/internal/invite/store.go\<close> (invite and
  password-reset tokens). Only hashes are stored; SHA-256 is an argument \<open>hash\<close>, and the
  randomness drawn by a \<^verbatim>\<open>Generate\<close> is an argument too, \<open>None\<close> when the source of
  randomness fails.
\<close>

record code =
  c_ID :: uuid
  c_IdentityID :: uuid
  c_CodeHash :: string
  c_Purpose :: string
  c_ExpiresAt :: time
  c_UsedAt :: "time option"
  c_CreatedAt :: time

definition codeExpiry :: time where "codeExpiry = 10 * minute"
definition tokenExpiry :: time where "tokenExpiry = 7 * 24 * hour"
definition resetExpiry :: time where "resetExpiry = 1 * hour"

subsection \<open>The shared statements\<close>

text \<open>Invalidate the unused codes of an identity for a purpose (a failure is ignored:
  \<^verbatim>\<open>_, _ = s.db.Exec\<close>), then insert the new one.\<close>

definition issue_code ::
  "faults \<Rightarrow> string \<Rightarrow> string \<Rightarrow> time \<Rightarrow> uuid \<Rightarrow> uuid \<Rightarrow> string \<Rightarrow> string \<Rightarrow> time \<Rightarrow>
   code list \<Rightarrow> (code list, unit) store_result" where
  [store_defs]: "issue_code flt q_inv q_ins now i identityID purpose h expiry t =
     (let t1 = fst (exec_update flt q_inv
                 (\<lambda>c. c_IdentityID c = identityID \<and> c_Purpose c = purpose \<and> c_UsedAt c = None)
                 (\<lambda>c. c\<lparr>c_UsedAt := Some now\<rparr>) t) in
      if flt q_ins 0 then (t1, Inl (Fault q_ins))
      else (t1 @ [\<lparr>c_ID = i, c_IdentityID = identityID, c_CodeHash = h, c_Purpose = purpose,
                   c_ExpiresAt = now + expiry, c_UsedAt = None, c_CreatedAt = now\<rparr>], Inr ()))"

text \<open>\<^verbatim>\<open>ORDER BY created_at DESC LIMIT 1\<close>\<close>

definition latest :: "(code \<Rightarrow> bool) \<Rightarrow> code list \<Rightarrow> code option" where
  "latest P t = (case sql_desc c_CreatedAt (filter P t) of [] \<Rightarrow> None | c # _ \<Rightarrow> Some c)"

lemma latest_Some: "latest P t = Some c \<Longrightarrow> c \<in> set t \<and> P c \<and> (\<forall>d \<in> set t. P d \<longrightarrow> c_CreatedAt d \<le> c_CreatedAt c)"
proof -
  assume "latest P t = Some c"
  then obtain cs where eq: "sql_desc c_CreatedAt (filter P t) = c # cs"
    by (auto simp: latest_def split: list.splits)
  then have "c \<in> set (sql_desc c_CreatedAt (filter P t))" by simp
  then have "c \<in> set t \<and> P c" by simp
  with hd_sql_desc_max [OF eq] show ?thesis by simp
qed

lemma latest_None: "latest P t = None \<longleftrightarrow> (\<forall>c \<in> set t. \<not> P c)"
proof -
  have "latest P t = None \<longleftrightarrow> filter P t = []"
    using sql_desc_Nil [of c_CreatedAt "filter P t"]
    by (cases "sql_desc c_CreatedAt (filter P t)") (simp_all add: latest_def del: sql_desc_Nil)
  then show ?thesis by (simp add: filter_empty_conv)
qed

definition Code_MarkUsed :: "faults \<Rightarrow> string \<Rightarrow> time \<Rightarrow> uuid \<Rightarrow> code list \<Rightarrow> (code list, unit) store_result" where
  [store_defs]: "Code_MarkUsed flt q now i t =
     done_any (exec_update flt q (\<lambda>c. c_ID c = i) (\<lambda>c. c\<lparr>c_UsedAt := Some now\<rparr>) t)"

subsection \<open>Email codes\<close>

text \<open>\<^verbatim>\<open>fmt.Sprintf("%06d", n)\<close> for \<open>n < 1000000\<close>\<close>

definition digit_char :: "nat \<Rightarrow> char" where
  "digit_char d = ''0123456789'' ! (d mod 10)"

fun digits_of :: "nat \<Rightarrow> nat \<Rightarrow> string" where
  "digits_of 0 n = []"
| "digits_of (Suc w) n = digits_of w (n div 10) @ [digit_char n]"

definition generateCode :: "nat \<Rightarrow> string" where
  "generateCode n = digits_of 6 (n mod 1000000)"

definition EmailCode_Generate ::
  "(string \<Rightarrow> string) \<Rightarrow> faults \<Rightarrow> time \<Rightarrow> nat option \<Rightarrow> uuid \<Rightarrow> uuid \<Rightarrow> string \<Rightarrow>
   code list \<Rightarrow> (code list, string) store_result" where
  [store_defs]: "EmailCode_Generate hash flt now rnd i identityID purpose t =
     (case rnd of None \<Rightarrow> (t, Inl (ErrMsg ''generate code''))
      | Some n \<Rightarrow>
          let code = generateCode n in
          (case issue_code flt ''emailcode.Generate.invalidate'' ''emailcode.Generate.insert''
                  now i identityID purpose (hash code) codeExpiry t of
             (t', Inl e) \<Rightarrow> (t', Inl e)
           | (t', Inr _) \<Rightarrow> (t', Inr code)))"

definition EmailCode_Verify ::
  "(string \<Rightarrow> string) \<Rightarrow> faults \<Rightarrow> time \<Rightarrow> uuid \<Rightarrow> string \<Rightarrow> string \<Rightarrow>
   code list \<Rightarrow> (code list, unit) store_result" where
  [store_defs]: "EmailCode_Verify hash flt now identityID purpose code t =
     (if flt ''emailcode.Verify'' 0 then (t, Inl (Fault ''emailcode.Verify''))
      else case latest (\<lambda>c. c_IdentityID c = identityID \<and> c_Purpose c = purpose \<and> c_CodeHash c = hash code) t of
        None \<Rightarrow> (t, Inl ErrInvalid)
      | Some c \<Rightarrow>
          if c_UsedAt c \<noteq> None then (t, Inl ErrAlreadyUsed)
          else if now > c_ExpiresAt c then (t, Inl ErrExpired)
          else Code_MarkUsed flt ''emailcode.Verify.markUsed'' now (c_ID c) t)"

subsection \<open>Invite and password-reset tokens\<close>

definition Invite_Generate ::
  "(string \<Rightarrow> string) \<Rightarrow> faults \<Rightarrow> time \<Rightarrow> string option \<Rightarrow> uuid \<Rightarrow> uuid \<Rightarrow>
   code list \<Rightarrow> (code list, string) store_result" where
  [store_defs]: "Invite_Generate hash flt now raw i identityID t =
     (case raw of None \<Rightarrow> (t, Inl (ErrMsg ''generate invite token''))
      | Some tok \<Rightarrow>
          (case issue_code flt ''invite.Generate.invalidate'' ''invite.Generate.insert''
                  now i identityID ''invite'' (hash tok) tokenExpiry t of
             (t', Inl e) \<Rightarrow> (t', Inl e)
           | (t', Inr _) \<Rightarrow> (t', Inr tok)))"

definition validate_token ::
  "(string \<Rightarrow> string) \<Rightarrow> faults \<Rightarrow> string \<Rightarrow> string \<Rightarrow> time \<Rightarrow> string \<Rightarrow> code list \<Rightarrow> err + code" where
  [store_defs]: "validate_token hash flt q purpose now raw t =
     (if flt q 0 then Inl (Fault q)
      else case latest (\<lambda>c. c_CodeHash c = hash raw \<and> c_Purpose c = purpose \<and> c_UsedAt c = None) t of
        None \<Rightarrow> Inl ErrNotFound
      | Some c \<Rightarrow> if now > c_ExpiresAt c then Inl ErrExpired else Inr c)"

definition Invite_Validate ::
  "(string \<Rightarrow> string) \<Rightarrow> faults \<Rightarrow> time \<Rightarrow> string \<Rightarrow> code list \<Rightarrow> err + code" where
  [store_defs]: "Invite_Validate hash flt now raw t =
     validate_token hash flt ''invite.Validate'' ''invite'' now raw t"

definition Invite_MarkUsed :: "faults \<Rightarrow> time \<Rightarrow> uuid \<Rightarrow> code list \<Rightarrow> (code list, unit) store_result" where
  [store_defs]: "Invite_MarkUsed flt now i t = Code_MarkUsed flt ''invite.MarkUsed'' now i t"

definition GeneratePasswordReset ::
  "(string \<Rightarrow> string) \<Rightarrow> faults \<Rightarrow> time \<Rightarrow> string option \<Rightarrow> uuid \<Rightarrow> uuid \<Rightarrow>
   code list \<Rightarrow> (code list, string) store_result" where
  [store_defs]: "GeneratePasswordReset hash flt now raw i identityID t =
     (case raw of None \<Rightarrow> (t, Inl (ErrMsg ''generate password reset token''))
      | Some tok \<Rightarrow>
          (case issue_code flt ''invite.GeneratePasswordReset.invalidate'' ''invite.GeneratePasswordReset.insert''
                  now i identityID ''password_reset'' (hash tok) resetExpiry t of
             (t', Inl e) \<Rightarrow> (t', Inl e)
           | (t', Inr _) \<Rightarrow> (t', Inr tok)))"

definition ValidatePasswordReset ::
  "(string \<Rightarrow> string) \<Rightarrow> faults \<Rightarrow> time \<Rightarrow> string \<Rightarrow> code list \<Rightarrow> err + uuid \<times> uuid" where
  [store_defs]: "ValidatePasswordReset hash flt now raw t =
     map_sum id (\<lambda>c. (c_ID c, c_IdentityID c))
       (validate_token hash flt ''invite.ValidatePasswordReset'' ''password_reset'' now raw t)"

subsection \<open>The contract of a one-time token store\<close>

locale one_time_token =
  fixes issue :: "(string \<Rightarrow> string) \<Rightarrow> faults \<Rightarrow> time \<Rightarrow> string option \<Rightarrow> uuid \<Rightarrow> uuid \<Rightarrow> 's \<Rightarrow> ('s, string) store_result"
    and check :: "(string \<Rightarrow> string) \<Rightarrow> faults \<Rightarrow> time \<Rightarrow> string \<Rightarrow> 's \<Rightarrow> err + uuid \<times> uuid"
    and consume :: "faults \<Rightarrow> time \<Rightarrow> uuid \<Rightarrow> 's \<Rightarrow> ('s, unit) store_result"
    and inv_q :: string
    and lifetime :: time
    and inv :: "'s \<Rightarrow> bool"
    and born :: "uuid \<Rightarrow> 's \<Rightarrow> time \<Rightarrow> bool"
    and spent :: "uuid \<Rightarrow> 's \<Rightarrow> bool"
  assumes check_spent: "spent i st \<Longrightarrow> check hash flt now tok st \<noteq> Inr (i, idn)"
    and consume_spends: "snd (consume flt now i st) = Inr () \<Longrightarrow> spent i (fst (consume flt now i st))"
    and consume_keeps: "spent j st \<Longrightarrow> spent j (fst (consume flt now i st))"
    and issue_keeps: "spent j st \<Longrightarrow> j \<noteq> i \<Longrightarrow> spent j (fst (issue hash flt now raw i idn st))"
    and consume_inv: "inv st \<Longrightarrow> inv (fst (consume flt now i st))"
    and issue_inv: "inv st \<Longrightarrow> inv (fst (issue hash flt now raw i idn st))"
    and issue_supersedes: "issue hash flt now raw i idn st = (st', Inr tok) \<Longrightarrow> \<not> flt inv_q 0 \<Longrightarrow>
      check hash' flt' now' tok' st' = Inr (j, idn) \<Longrightarrow> j = i"
    and check_born: "inv st \<Longrightarrow> check hash flt now tok st = Inr (i, idn) \<Longrightarrow> \<exists>b. born i st b \<and> now \<le> b + lifetime"
    and issue_accepts: "issue hash flt now raw i idn st = (st', Inr tok) \<Longrightarrow>
      (\<And>j b. born j st b \<Longrightarrow> b < now) \<Longrightarrow> now' \<le> now + lifetime \<Longrightarrow>
      check hash no_faults now' tok st' = Inr (i, idn)"
begin

text \<open>The steps a token table can take, and what every history of them keeps.\<close>

inductive evolves :: "uuid set \<Rightarrow> 's \<Rightarrow> 's \<Rightarrow> bool" where
  evolves_refl: "evolves {} st st"
| evolves_issue: "evolves I st st' \<Longrightarrow> evolves (insert i I) st (fst (issue hash flt now raw i idn st'))"
| evolves_consume: "evolves I st st' \<Longrightarrow> evolves I st (fst (consume flt now i st'))"

lemma spent_forever: "evolves I st st' \<Longrightarrow> spent j st \<Longrightarrow> j \<notin> I \<Longrightarrow> spent j st'"
  by (induction rule: evolves.induct) (auto intro: consume_keeps issue_keeps)

lemma inv_evolves: "evolves I st st' \<Longrightarrow> inv st \<Longrightarrow> inv st'"
  by (induction rule: evolves.induct) (auto intro: consume_inv issue_inv)

lemma no_replay:
  assumes "snd (consume flt2 now2 i st) = Inr ()"
    and "evolves I (fst (consume flt2 now2 i st)) st'" "i \<notin> I"
  shows "check hash flt now tok st' \<noteq> Inr (i, idn)"
  using check_spent [OF spent_forever [OF assms(2) consume_spends [OF assms(1)] assms(3)]] .

lemma never_outlives:
  assumes "evolves I st st'" "inv st" "check hash flt now tok st' = Inr (i, idn)"
  shows "\<exists>b. born i st' b \<and> now \<le> b + lifetime"
  using check_born [OF inv_evolves [OF assms(1,2)] assms(3)] .

end

subsection \<open>Both token stores keep the contract\<close>

definition code_spent :: "uuid \<Rightarrow> code list \<Rightarrow> bool" where
  "code_spent i t = (\<forall>c \<in> set t. c_ID c = i \<longrightarrow> c_UsedAt c \<noteq> None)"

definition code_born :: "string \<Rightarrow> uuid \<Rightarrow> code list \<Rightarrow> time \<Rightarrow> bool" where
  "code_born purpose i t b = (\<exists>c \<in> set t. c_ID c = i \<and> c_Purpose c = purpose \<and> c_CreatedAt c = b)"

definition codes_timed :: "string \<Rightarrow> time \<Rightarrow> code list \<Rightarrow> bool" where
  "codes_timed purpose expiry t =
     (\<forall>c \<in> set t. c_Purpose c = purpose \<longrightarrow> c_ExpiresAt c = c_CreatedAt c + expiry)"

lemma MarkUsed_fst:
  "fst (Code_MarkUsed flt q now i t) =
     (if flt q 0 then t else sql_update (\<lambda>c. c_ID c = i) (\<lambda>c. c\<lparr>c_UsedAt := Some now\<rparr>) t)"
  by (simp add: Code_MarkUsed_def fst_exec_update)

lemma MarkUsed_spends: "snd (Code_MarkUsed flt q now i t) = Inr () \<Longrightarrow> code_spent i (fst (Code_MarkUsed flt q now i t))"
  by (auto simp: Code_MarkUsed_def sql_simps code_spent_def ball_sql_update split: if_splits)

lemma MarkUsed_keeps: "code_spent j t \<Longrightarrow> code_spent j (fst (Code_MarkUsed flt q now i t))"
  by (simp add: MarkUsed_fst code_spent_def ball_sql_update)

lemma MarkUsed_timed: "codes_timed p e t \<Longrightarrow> codes_timed p e (fst (Code_MarkUsed flt q now i t))"
  by (simp add: MarkUsed_fst codes_timed_def ball_sql_update)

lemma issue_code_fst:
  "fst (issue_code flt qv qi now i idn purpose h expiry t) =
     (let t1 = fst (exec_update flt qv
        (\<lambda>c. c_IdentityID c = idn \<and> c_Purpose c = purpose \<and> c_UsedAt c = None) (\<lambda>c. c\<lparr>c_UsedAt := Some now\<rparr>) t)
      in if flt qi 0 then t1 else t1 @ [\<lparr>c_ID = i, c_IdentityID = idn, c_CodeHash = h, c_Purpose = purpose,
                   c_ExpiresAt = now + expiry, c_UsedAt = None, c_CreatedAt = now\<rparr>])"
  by (simp add: issue_code_def Let_def)

lemma issue_code_keeps:
  "code_spent j t \<Longrightarrow> j \<noteq> i \<Longrightarrow> code_spent j (fst (issue_code flt qv qi now i idn purpose h expiry t))"
  by (simp add: issue_code_fst Let_def code_spent_def fst_exec_update ball_sql_update ball_Un)

lemma issue_code_timed:
  "codes_timed p e t \<Longrightarrow> purpose = p \<longrightarrow> expiry = e \<Longrightarrow>
     codes_timed p e (fst (issue_code flt qv qi now i idn purpose h expiry t))"
  by (simp add: issue_code_fst Let_def codes_timed_def fst_exec_update ball_sql_update ball_Un)

lemma issue_code_ok:
  "issue_code flt qv qi now i idn purpose h expiry t = (t', Inr ()) \<Longrightarrow>
     t' = (if flt qv 0 then t else sql_update
        (\<lambda>c. c_IdentityID c = idn \<and> c_Purpose c = purpose \<and> c_UsedAt c = None) (\<lambda>c. c\<lparr>c_UsedAt := Some now\<rparr>) t)
      @ [\<lparr>c_ID = i, c_IdentityID = idn, c_CodeHash = h, c_Purpose = purpose,
           c_ExpiresAt = now + expiry, c_UsedAt = None, c_CreatedAt = now\<rparr>]"
  by (auto simp: issue_code_def Let_def exec_update_def split: if_splits)

lemma issue_code_supersedes:
  assumes "issue_code flt qv qi now i idn purpose h expiry t = (t', Inr ())" "\<not> flt qv 0"
  shows "\<forall>c \<in> set t'. c_IdentityID c = idn \<and> c_Purpose c = purpose \<and> c_UsedAt c = None \<longrightarrow> c_ID c = i"
  unfolding issue_code_ok [OF assms(1)] using assms(2) by (auto simp: ball_Un ball_sql_update)

lemma validate_Inr:
  "validate_token hash flt q purpose now tok t = Inr c \<Longrightarrow>
     c \<in> set t \<and> c_CodeHash c = hash tok \<and> c_Purpose c = purpose \<and> c_UsedAt c = None \<and> now \<le> c_ExpiresAt c"
  by (auto simp: validate_token_def dest!: latest_Some split: if_splits option.splits)

lemma validate_unspent:
  "validate_token hash flt q purpose now tok t = Inr c \<Longrightarrow> \<not> code_spent (c_ID c) t"
  using validate_Inr [of hash flt q purpose now tok t c] by (auto simp: code_spent_def)

lemma validate_born:
  "codes_timed purpose e t \<Longrightarrow> validate_token hash flt q purpose now tok t = Inr c \<Longrightarrow>
     code_born purpose (c_ID c) t (c_CreatedAt c) \<and> now \<le> c_CreatedAt c + e"
  by (auto simp: codes_timed_def code_born_def dest!: validate_Inr)

lemma issue_code_accepts:
  assumes iss: "issue_code flt qv qi now i idn purpose (hash tok) expiry t = (t', Inr ())"
    and old: "\<And>j b. code_born purpose j t b \<Longrightarrow> b < now" and fresh: "now' \<le> now + expiry"
  shows "\<exists>c. validate_token hash no_faults q purpose now' tok t' = Inr c \<and> c_ID c = i \<and> c_IdentityID c = idn"
proof -
  let ?c = "\<lparr>c_ID = i, c_IdentityID = idn, c_CodeHash = hash tok, c_Purpose = purpose,
                   c_ExpiresAt = now + expiry, c_UsedAt = None, c_CreatedAt = now\<rparr>"
  let ?P = "\<lambda>c. c_CodeHash c = hash tok \<and> c_Purpose c = purpose \<and> c_UsedAt c = None"
  have older: "\<forall>c \<in> set t. c_Purpose c = purpose \<longrightarrow> c_CreatedAt c < now"
  proof (intro ballI impI)
    fix c assume "c \<in> set t" "c_Purpose c = purpose"
    then have "code_born purpose (c_ID c) t (c_CreatedAt c)" by (auto simp: code_born_def)
    then show "c_CreatedAt c < now" by (rule old)
  qed
  have t': "\<exists>u. t' = u @ [?c] \<and> (\<forall>c \<in> set u. c_Purpose c = purpose \<longrightarrow> c_CreatedAt c < now)"
    unfolding issue_code_ok [OF iss] using older by (simp add: ball_sql_update)
  then have mem: "?c \<in> set t'" by auto
  with latest_None [of ?P t'] obtain c where c: "latest ?P t' = Some c" by fastforce
  from latest_Some [OF c] mem have "c \<in> set t'" "c_Purpose c = purpose" "now \<le> c_CreatedAt c" by auto
  with t' have "c = ?c" by auto
  with c fresh show ?thesis by (simp add: validate_token_def)
qed

lemmas code_contract = code_spent_def codes_timed_def code_born_def

lemma Invite_Generate_fst:
  "fst (Invite_Generate hash flt now raw i idn t) = (case raw of None \<Rightarrow> t | Some tok \<Rightarrow>
     fst (issue_code flt ''invite.Generate.invalidate'' ''invite.Generate.insert'' now i idn ''invite'' (hash tok) tokenExpiry t))"
  by (auto simp: Invite_Generate_def split: option.splits prod.splits sum.splits)

lemma PasswordReset_fst:
  "fst (GeneratePasswordReset hash flt now raw i idn t) = (case raw of None \<Rightarrow> t | Some tok \<Rightarrow>
     fst (issue_code flt ''invite.GeneratePasswordReset.invalidate'' ''invite.GeneratePasswordReset.insert''
       now i idn ''password_reset'' (hash tok) resetExpiry t))"
  by (auto simp: GeneratePasswordReset_def split: option.splits prod.splits sum.splits)

lemma Invite_Generate_ok:
  "Invite_Generate hash flt now raw i idn t = (t', Inr tok) \<Longrightarrow> raw = Some tok \<and>
     issue_code flt ''invite.Generate.invalidate'' ''invite.Generate.insert'' now i idn ''invite'' (hash tok) tokenExpiry t = (t', Inr ())"
  by (auto simp: Invite_Generate_def split: option.splits prod.splits sum.splits)

lemma PasswordReset_ok:
  "GeneratePasswordReset hash flt now raw i idn t = (t', Inr tok) \<Longrightarrow> raw = Some tok \<and>
     issue_code flt ''invite.GeneratePasswordReset.invalidate'' ''invite.GeneratePasswordReset.insert''
       now i idn ''password_reset'' (hash tok) resetExpiry t = (t', Inr ())"
  by (auto simp: GeneratePasswordReset_def split: option.splits prod.splits sum.splits)

definition Invite_Check :: "(string \<Rightarrow> string) \<Rightarrow> faults \<Rightarrow> time \<Rightarrow> string \<Rightarrow> code list \<Rightarrow> err + uuid \<times> uuid" where
  "Invite_Check hash flt now raw t = map_sum id (\<lambda>c. (c_ID c, c_IdentityID c)) (Invite_Validate hash flt now raw t)"

lemma map_sum_Inr: "map_sum id f r = Inr b \<longleftrightarrow> (\<exists>a. r = Inr a \<and> b = f a)"
  by (cases r) auto

lemmas token_checks = Invite_Check_def Invite_Validate_def ValidatePasswordReset_def map_sum_Inr

interpretation invites: one_time_token Invite_Generate Invite_Check Invite_MarkUsed
  "''invite.Generate.invalidate''" tokenExpiry "codes_timed ''invite'' tokenExpiry" "code_born ''invite''" code_spent
proof (unfold_locales, goal_cases)
  case (1 i st hash flt now tok idn)
  then show ?case by (auto simp: token_checks dest: validate_unspent)
next
  case (2 flt now i st)
  then show ?case unfolding Invite_MarkUsed_def by (rule MarkUsed_spends)
next
  case (3 j st flt now i)
  then show ?case unfolding Invite_MarkUsed_def by (rule MarkUsed_keeps)
next
  case (4 j st i hash flt now raw idn)
  then show ?case by (auto simp: Invite_Generate_fst intro: issue_code_keeps split: option.splits)
next
  case (5 st flt now i)
  then show ?case unfolding Invite_MarkUsed_def by (rule MarkUsed_timed)
next
  case (6 st hash flt now raw i idn)
  then show ?case by (auto simp: Invite_Generate_fst intro: issue_code_timed split: option.splits)
next
  case (7 hash flt now raw i idn st st' tok hash' flt' now' tok' j)
  then show ?case
    by (auto simp: token_checks dest!: Invite_Generate_ok issue_code_supersedes validate_Inr)
next
  case (8 st hash flt now tok i idn)
  then show ?case by (auto simp: token_checks dest!: validate_born)
next
  case (9 hash flt now raw i idn st st' tok now')
  have "\<exists>c. validate_token hash no_faults ''invite.Validate'' ''invite'' now' tok st' = Inr c \<and>
      c_ID c = i \<and> c_IdentityID c = idn"
    using Invite_Generate_ok [OF 9(1)] 9(2,3) by (blast intro: issue_code_accepts)
  then show ?case by (fastforce simp: token_checks)
qed

interpretation resets: one_time_token GeneratePasswordReset ValidatePasswordReset Invite_MarkUsed
  "''invite.GeneratePasswordReset.invalidate''" resetExpiry "codes_timed ''password_reset'' resetExpiry"
  "code_born ''password_reset''" code_spent
proof (unfold_locales, goal_cases)
  case (1 i st hash flt now tok idn)
  then show ?case by (auto simp: token_checks dest: validate_unspent)
next
  case (2 flt now i st)
  then show ?case unfolding Invite_MarkUsed_def by (rule MarkUsed_spends)
next
  case (3 j st flt now i)
  then show ?case unfolding Invite_MarkUsed_def by (rule MarkUsed_keeps)
next
  case (4 j st i hash flt now raw idn)
  then show ?case by (auto simp: PasswordReset_fst intro: issue_code_keeps split: option.splits)
next
  case (5 st flt now i)
  then show ?case unfolding Invite_MarkUsed_def by (rule MarkUsed_timed)
next
  case (6 st hash flt now raw i idn)
  then show ?case by (auto simp: PasswordReset_fst intro: issue_code_timed split: option.splits)
next
  case (7 hash flt now raw i idn st st' tok hash' flt' now' tok' j)
  then show ?case
    by (auto simp: token_checks dest!: PasswordReset_ok issue_code_supersedes validate_Inr)
next
  case (8 st hash flt now tok i idn)
  then show ?case by (auto simp: token_checks dest!: validate_born)
next
  case (9 hash flt now raw i idn st st' tok now')
  have "\<exists>c. validate_token hash no_faults ''invite.ValidatePasswordReset'' ''password_reset'' now' tok st' = Inr c \<and>
      c_ID c = i \<and> c_IdentityID c = idn"
    using PasswordReset_ok [OF 9(1)] 9(2,3) by (blast intro: issue_code_accepts)
  then show ?case by (fastforce simp: token_checks)
qed

subsection \<open>Histories of the shared table\<close>

datatype code_op =
    OpEmailGenerate uuid "nat option" uuid string
  | OpEmailVerify uuid string string
  | OpInviteGenerate uuid "string option" uuid
  | OpResetGenerate uuid "string option" uuid
  | OpMarkUsed uuid

fun code_exec :: "(string \<Rightarrow> string) \<Rightarrow> faults \<Rightarrow> time \<Rightarrow> code_op \<Rightarrow> code list \<Rightarrow> code list" where
  "code_exec hash flt now (OpEmailGenerate i rnd idn purpose) t =
     fst (EmailCode_Generate hash flt now rnd i idn purpose t)"
| "code_exec hash flt now (OpEmailVerify idn purpose code) t =
     fst (EmailCode_Verify hash flt now idn purpose code t)"
| "code_exec hash flt now (OpInviteGenerate i raw idn) t = fst (Invite_Generate hash flt now raw i idn t)"
| "code_exec hash flt now (OpResetGenerate i raw idn) t = fst (GeneratePasswordReset hash flt now raw i idn t)"
| "code_exec hash flt now (OpMarkUsed i) t = fst (Invite_MarkUsed flt now i t)"

fun code_run :: "(string \<Rightarrow> string) \<Rightarrow> (faults \<times> time \<times> code_op) list \<Rightarrow> code list \<Rightarrow> code list" where
  "code_run hash [] t = t"
| "code_run hash ((flt, now, op) # ops) t = code_run hash ops (code_exec hash flt now op t)"

fun code_issues :: "code_op \<Rightarrow> uuid set" where
  "code_issues (OpEmailGenerate i _ _ _) = {i}"
| "code_issues (OpEmailVerify _ _ _) = {}"
| "code_issues (OpInviteGenerate i _ _) = {i}"
| "code_issues (OpResetGenerate i _ _) = {i}"
| "code_issues (OpMarkUsed _) = {}"

text \<open>Email codes of a purpose of their own: the 2FA handlers use \<^verbatim>\<open>"2fa"\<close>, never a token purpose.\<close>

fun code_purpose_ok :: "code_op \<Rightarrow> bool" where
  "code_purpose_ok (OpEmailGenerate _ _ _ p) = (p \<noteq> ''invite'' \<and> p \<noteq> ''password_reset'')"
| "code_purpose_ok _ = True"

lemma EmailCode_Generate_fst:
  "fst (EmailCode_Generate hash flt now rnd i idn p t) = (case rnd of None \<Rightarrow> t | Some n \<Rightarrow>
     fst (issue_code flt ''emailcode.Generate.invalidate'' ''emailcode.Generate.insert'' now i idn p
       (hash (generateCode n)) codeExpiry t))"
  by (auto simp: EmailCode_Generate_def Let_def split: option.splits prod.splits sum.splits)

lemma EmailCode_Verify_fst:
  "fst (EmailCode_Verify hash flt now idn p code t) = t \<or>
   (\<exists>i. fst (EmailCode_Verify hash flt now idn p code t) = fst (Code_MarkUsed flt ''emailcode.Verify.markUsed'' now i t))"
  by (auto simp: EmailCode_Verify_def split: option.splits)

lemma spent_exec:
  assumes "code_spent j t" "j \<notin> code_issues op"
  shows "code_spent j (code_exec hash flt now op t)"
proof (cases op)
  case (OpEmailVerify idn p code)
  with assms EmailCode_Verify_fst [of hash flt now idn p code t] show ?thesis
    by (auto intro: MarkUsed_keeps)
qed (use assms in \<open>auto simp: EmailCode_Generate_fst Invite_Generate_fst PasswordReset_fst Invite_MarkUsed_def
       intro: issue_code_keeps MarkUsed_keeps split: option.splits\<close>)

lemma spent_run:
  "code_spent j t \<Longrightarrow> \<forall>(f, n, op) \<in> set ops. j \<notin> code_issues op \<Longrightarrow> code_spent j (code_run hash ops t)"
proof (induction ops arbitrary: t)
  case (Cons a ops)
  then show ?case by (cases a) (auto intro: spent_exec)
qed simp

definition tokens_timed :: "code list \<Rightarrow> bool" where
  "tokens_timed t = (codes_timed ''invite'' tokenExpiry t \<and> codes_timed ''password_reset'' resetExpiry t)"

lemma tokens_timed_exec:
  assumes "tokens_timed t" "code_purpose_ok op"
  shows "tokens_timed (code_exec hash flt now op t)"
proof (cases op)
  case (OpEmailVerify idn p code)
  with assms EmailCode_Verify_fst [of hash flt now idn p code t] show ?thesis
    by (auto simp: tokens_timed_def intro: MarkUsed_timed)
qed (use assms in \<open>auto simp: tokens_timed_def EmailCode_Generate_fst Invite_Generate_fst PasswordReset_fst
       Invite_MarkUsed_def intro!: issue_code_timed MarkUsed_timed split: option.splits\<close>)

lemma tokens_timed_run:
  "tokens_timed t \<Longrightarrow> \<forall>(f, n, op) \<in> set ops. code_purpose_ok op \<Longrightarrow> tokens_timed (code_run hash ops t)"
proof (induction ops arbitrary: t)
  case (Cons a ops)
  then show ?case by (cases a) (auto intro: tokens_timed_exec)
qed simp

text \<open>[C33] A password-reset token works once: after the token that names code \<open>i\<close> has been
  marked used, no history of operations on the shared table (under any faults) that does not
  reuse the id \<open>i\<close> makes any token resolve to that code again.\<close>

theorem reset_token_single_use:
  assumes "Invite_MarkUsed flt now i t = (t', Inr ())"
    and "\<forall>(f, n, op) \<in> set ops. i \<notin> code_issues op"
  shows "ValidatePasswordReset hash flt' now' tok (code_run hash ops t') \<noteq> Inr (i, idn)"
proof -
  from resets.consume_spends [of flt now i t] assms(1) have "code_spent i t'" by simp
  then have "code_spent i (code_run hash ops t')" using assms(2) by (rule spent_run)
  then show ?thesis by (rule resets.check_spent)
qed

theorem reset_token_single_use_witness:
  "ValidatePasswordReset id no_faults 60 ''abc''
     (code_run id [(no_faults, 50, OpInviteGenerate 4 (Some ''xyz'') 9)]
       (fst (Invite_MarkUsed no_faults 40 3
         (fst (GeneratePasswordReset id no_faults 10 (Some ''abc'') 3 9 []))))) \<noteq> Inr (3, 9)"
  by (rule reset_token_single_use [where flt = no_faults and now = 40 and i = 3
        and t = "fst (GeneratePasswordReset id no_faults 10 (Some ''abc'') 3 9 [])"])
    (simp_all add: GeneratePasswordReset_def issue_code_def Invite_MarkUsed_def Code_MarkUsed_def sql_simps)

text \<open>Only the newest password-reset token of an identity works: once a reset is
  generated (and the statement that retires the older ones is carried out), the new token
  resolves to the new code and the identity for one hour, and every token that resolves to
  that identity resolves to the new code.\<close>

theorem newest_reset_token_only:
  assumes gen: "GeneratePasswordReset hash flt now raw i idn t = (t', Inr tok)"
    and retired: "\<not> flt ''invite.GeneratePasswordReset.invalidate'' 0"
    and clock: "\<forall>c \<in> set t. c_CreatedAt c < now"
  shows "(now' \<le> now + resetExpiry \<longrightarrow> ValidatePasswordReset hash no_faults now' tok t' = Inr (i, idn)) \<and>
     (ValidatePasswordReset hash flt' now'' tok' t' = Inr (j, idn) \<longrightarrow> j = i)"
proof (intro conjI impI)
  assume "now' \<le> now + resetExpiry"
  then show "ValidatePasswordReset hash no_faults now' tok t' = Inr (i, idn)"
  proof (rule resets.issue_accepts [OF gen, rotated])
    fix j b assume "code_born ''password_reset'' j t b"
    with clock show "b < now" by (auto simp: code_born_def)
  qed
next
  assume "ValidatePasswordReset hash flt' now'' tok' t' = Inr (j, idn)"
  with gen retired show "j = i" by (rule resets.issue_supersedes)
qed

theorem newest_reset_token_only_witness:
  "ValidatePasswordReset id no_faults 30 ''new''
     (fst (GeneratePasswordReset id no_faults 20 (Some ''new'') 4 9
       (fst (GeneratePasswordReset id no_faults 10 (Some ''old'') 3 9 [])))) = Inr (4, 9)"
  by (rule newest_reset_token_only [where flt = no_faults and now = 20
        and raw = "Some ''new''" and i = 4 and idn = 9
        and t = "fst (GeneratePasswordReset id no_faults 10 (Some ''old'') 3 9 [])", THEN conjunct1, THEN mp])
    (simp_all add: GeneratePasswordReset_def issue_code_def sql_simps resetExpiry_def)

text \<open>Token lifetimes: in a table that grew from the empty one by any history of the
  operations, under any faults, an invite that validates was issued at most seven days ago
  and a password reset at most one hour ago.\<close>

theorem token_lifetimes:
  assumes "\<forall>(f, n, op) \<in> set ops. code_purpose_ok op" and t: "t = code_run hash ops []"
  shows "(Invite_Validate hash flt now tok t = Inr c \<longrightarrow> now \<le> c_CreatedAt c + 7 * day \<and> c_UsedAt c = None) \<and>
     (ValidatePasswordReset hash flt now tok t = Inr (i, idn) \<longrightarrow>
        (\<exists>c \<in> set t. c_ID c = i \<and> c_Purpose c = ''password_reset'' \<and> now \<le> c_CreatedAt c + hour))"
proof -
  have timed: "tokens_timed t"
    unfolding t using assms(1) by (intro tokens_timed_run) (simp_all add: tokens_timed_def codes_timed_def)
  then have ti: "codes_timed ''invite'' tokenExpiry t" and tr: "codes_timed ''password_reset'' resetExpiry t"
    by (simp_all add: tokens_timed_def)
  have "now \<le> c_CreatedAt c + 7 * day \<and> c_UsedAt c = None" if "Invite_Validate hash flt now tok t = Inr c"
    using that ti by (auto simp: Invite_Validate_def codes_timed_def tokenExpiry_def dest!: validate_Inr)
  moreover have "\<exists>c \<in> set t. c_ID c = i \<and> c_Purpose c = ''password_reset'' \<and> now \<le> c_CreatedAt c + hour"
    if "ValidatePasswordReset hash flt now tok t = Inr (i, idn)"
    using resets.check_born [OF tr that] by (auto simp: code_born_def resetExpiry_def)
  ultimately show ?thesis by blast
qed

theorem token_lifetimes_witness:
  "(\<exists>c \<in> set (code_run id [(no_faults, 10, OpResetGenerate 3 (Some ''abc'') 9)] []).
     c_ID c = 3 \<and> c_Purpose c = ''password_reset'' \<and> 20 \<le> c_CreatedAt c + hour)"
  by (rule token_lifetimes [where ops = "[(no_faults, 10, OpResetGenerate 3 (Some ''abc'') 9)]"
        and hash = id and flt = no_faults and tok = "''abc''" and idn = 9, THEN conjunct2, THEN mp])
    (simp_all add: GeneratePasswordReset_def issue_code_def sql_simps ValidatePasswordReset_def validate_token_def
      latest_def sql_desc_def resetExpiry_def)

subsection \<open>Email codes\<close>

lemma insort_key_map: "insort_key k (g x) (map g xs) = map g (insort_key (\<lambda>y. k (g y)) x xs)"
  by (induction xs) auto

lemma sort_key_map: "sort_key k (map g xs) = map g (sort_key (\<lambda>y. k (g y)) xs)"
  by (induction xs) (simp_all add: insort_key_map)

lemma latest_update:
  assumes "\<And>c. P (f c) = P c" "\<And>c. c_CreatedAt (f c) = c_CreatedAt c"
  shows "latest P (sql_update Q f t) = map_option (\<lambda>c. if Q c then f c else c) (latest P t)"
proof -
  let ?g = "\<lambda>c. if Q c then f c else c"
  have "filter P (sql_update Q f t) = map ?g (filter P t)"
    using assms(1) by (induction t) auto
  moreover have "sql_desc c_CreatedAt (map ?g u) = map ?g (sql_desc c_CreatedAt u)" for u
    using assms(2) by (simp add: sql_desc_def sort_key_map if_distrib cong: if_cong)
  ultimately show ?thesis by (simp add: latest_def split: list.split)
qed

text \<open>An emailed second-factor code is accepted once: a verification that succeeds leaves
  a table in which the same identity, purpose and code is reported as already used, whenever
  and however often it is tried.\<close>

theorem email_code_single_use:
  assumes "EmailCode_Verify hash flt now idn purpose code t = (t', Inr ())"
    and "\<not> flt' ''emailcode.Verify'' 0"
  shows "EmailCode_Verify hash flt' now' idn purpose code t' = (t', Inl ErrAlreadyUsed)"
proof -
  let ?P = "\<lambda>c. c_IdentityID c = idn \<and> c_Purpose c = purpose \<and> c_CodeHash c = hash code"
  from assms(1) obtain c where c: "latest ?P t = Some c"
    and t': "t' = sql_update (\<lambda>d. c_ID d = c_ID c) (\<lambda>d. d\<lparr>c_UsedAt := Some now\<rparr>) t"
    by (auto simp: EmailCode_Verify_def Code_MarkUsed_def sql_simps split: if_splits option.splits)
  have "latest ?P t' = Some (c\<lparr>c_UsedAt := Some now\<rparr>)"
    unfolding t' by (simp add: latest_update c)
  with assms(2) show ?thesis by (simp add: EmailCode_Verify_def)
qed

lemma generateCode_42: "generateCode 42 = ''000042''"
proof -
  have "digits_of (Suc (Suc (Suc (Suc (Suc (Suc 0)))))) 42 = ''000042''"
    by (simp add: digit_char_def)
  moreover have "(6 :: nat) = Suc (Suc (Suc (Suc (Suc (Suc 0)))))" by simp
  ultimately show ?thesis by (simp only: generateCode_def) simp
qed

theorem email_code_single_use_witness:
  "EmailCode_Verify id no_faults 30 9 ''2fa'' ''000042''
     (fst (EmailCode_Verify id no_faults 20 9 ''2fa'' ''000042''
       (fst (EmailCode_Generate id no_faults 10 (Some 42) 3 9 ''2fa'' []))))
   = (fst (EmailCode_Verify id no_faults 20 9 ''2fa'' ''000042''
       (fst (EmailCode_Generate id no_faults 10 (Some 42) 3 9 ''2fa'' []))), Inl ErrAlreadyUsed)"
  by (rule email_code_single_use [where flt = no_faults and now = 20
        and t = "fst (EmailCode_Generate id no_faults 10 (Some 42) 3 9 ''2fa'' [])"])
    (simp_all add: EmailCode_Generate_def EmailCode_Verify_def Code_MarkUsed_def issue_code_def sql_simps latest_def
      sql_desc_def generateCode_42 codeExpiry_def Let_def)

fun undigits :: "string \<Rightarrow> nat" where
  "undigits s = foldl (\<lambda>n c. 10 * n + (of_char c - 48)) 0 s"

lemma digit_char_value: "of_char (digit_char d) - 48 = d mod 10"
proof -
  have "d mod 10 < 10" by simp
  moreover have "\<forall>m < 10. of_char (''0123456789'' ! m) - 48 = (m :: nat)" by code_simp
  ultimately show ?thesis by (simp add: digit_char_def)
qed

lemma undigits_digits: "undigits (digits_of w n) = n mod 10 ^ w"
proof (induction w arbitrary: n)
  case (Suc w)
  have "undigits (digits_of (Suc w) n) = 10 * undigits (digits_of w (n div 10)) + n mod 10"
    by (simp add: digit_char_value)
  also have "\<dots> = 10 * (n div 10 mod 10 ^ w) + n mod 10" by (simp only: Suc)
  also have "\<dots> = n mod 10 ^ Suc w" by (simp add: mod_mult2_eq)
  finally show ?case .
qed simp

text \<open>The emailed code is always six characters long and determines the number drawn:
  reading it back as a decimal gives the number, so each of the million codes is as likely as
  the number behind it (leading zeros are kept).\<close>

theorem generateCode_roundtrip:
  "length (generateCode n) = 6 \<and> undigits (generateCode n) = n mod 1000000"
proof -
  have "length (digits_of w m) = w" for w m by (induction w arbitrary: m) simp_all
  then show ?thesis unfolding generateCode_def by (simp add: undigits_digits del: undigits.simps)
qed

end
