(* ===== verification/Totp.thy ===== *)
theory Totp
  imports Prelude
begin

text \<open>
  \<^verbatim>\<open>backend/internal/totp/store.go\<close>: one authenticator secret per identity
  (\<^verbatim>\<open>identity_id UNIQUE\<close>). The check of a code against a secret,
  \<^verbatim>\<open>totp.Validate\<close> of the \<^verbatim>\<open>pquerna/otp\<close> package, is an argument \<open>validate\<close>.
\<close>

record totp_secret =
  ts_ID :: uuid
  ts_IdentityID :: uuid
  ts_Secret :: string
  ts_Verified :: bool
  ts_CreatedAt :: time

definition Totp_Create ::
  "faults \<Rightarrow> time \<Rightarrow> uuid \<Rightarrow> uuid \<Rightarrow> string \<Rightarrow> totp_secret list \<Rightarrow> (totp_secret list, totp_secret) store_result" where
  [store_defs]: "Totp_Create flt now i identityID secret t =
     (if flt ''totp.Create'' 0 then (t, Inl (Fault ''totp.Create''))
      else case sql_row (\<lambda>r. ts_IdentityID r = identityID) t of
        Some r \<Rightarrow> (sql_update (\<lambda>r. ts_IdentityID r = identityID) (\<lambda>r. r\<lparr>ts_Secret := secret, ts_Verified := False\<rparr>) t,
                   Inr (r\<lparr>ts_Secret := secret, ts_Verified := False\<rparr>))
      | None \<Rightarrow> let r = \<lparr>ts_ID = i, ts_IdentityID = identityID, ts_Secret = secret,
                          ts_Verified = False, ts_CreatedAt = now\<rparr>
                in (t @ [r], Inr r))"

definition Totp_GetByIdentity :: "faults \<Rightarrow> uuid \<Rightarrow> totp_secret list \<Rightarrow> err + totp_secret" where
  [store_defs]: "Totp_GetByIdentity flt identityID t =
     query_row flt ''totp.GetByIdentity'' ErrNotFound (\<lambda>r. ts_IdentityID r = identityID) t"

definition HasVerifiedTOTP :: "faults \<Rightarrow> uuid \<Rightarrow> totp_secret list \<Rightarrow> err + bool" where
  [store_defs]: "HasVerifiedTOTP flt identityID t =
     (case Totp_GetByIdentity flt identityID t of
        Inl e \<Rightarrow> if e = ErrNotFound then Inr False else Inl e
      | Inr ts \<Rightarrow> Inr (ts_Verified ts))"

definition Totp_ValidateCode ::
  "(string \<Rightarrow> string \<Rightarrow> bool) \<Rightarrow> faults \<Rightarrow> uuid \<Rightarrow> string \<Rightarrow> totp_secret list \<Rightarrow> err + bool" where
  [store_defs]: "Totp_ValidateCode validate flt identityID code t =
     (case Totp_GetByIdentity flt identityID t of
        Inl e \<Rightarrow> if e = ErrNotFound then Inr False else Inl e
      | Inr ts \<Rightarrow> if \<not> ts_Verified ts then Inr False else Inr (validate code (ts_Secret ts)))"

definition Totp_Verify :: "faults \<Rightarrow> uuid \<Rightarrow> totp_secret list \<Rightarrow> (totp_secret list, unit) store_result" where
  [store_defs]: "Totp_Verify flt identityID t =
     done_some ErrNotFound (exec_update flt ''totp.Verify'' (\<lambda>r. ts_IdentityID r = identityID)
       (\<lambda>r. r\<lparr>ts_Verified := True\<rparr>) t)"

definition Totp_Delete :: "faults \<Rightarrow> uuid \<Rightarrow> totp_secret list \<Rightarrow> (totp_secret list, unit) store_result" where
  [store_defs]: "Totp_Delete flt identityID t =
     done_some ErrNotFound (exec_delete flt ''totp.Delete'' (\<lambda>r. ts_IdentityID r = identityID) t)"

subsection \<open>One secret per identity\<close>

definition one_secret :: "totp_secret list \<Rightarrow> bool" where
  "one_secret t = distinct (map ts_IdentityID t)"

lemma one_secret_Create: "one_secret t \<Longrightarrow> one_secret (fst (Totp_Create flt now i idn s t))"
  by (auto simp: one_secret_def Totp_Create_def Let_def map_sql_update sql_row_None split: option.splits)

lemma one_secret_Verify: "one_secret t \<Longrightarrow> one_secret (fst (Totp_Verify flt idn t))"
  by (simp add: one_secret_def Totp_Verify_def fst_exec_update map_sql_update)

lemma one_secret_Delete: "one_secret t \<Longrightarrow> one_secret (fst (Totp_Delete flt idn t))"
  by (simp add: one_secret_def Totp_Delete_def fst_exec_delete distinct_sql_delete)

lemma GetByIdentity_ok:
  "Totp_GetByIdentity flt idn t = Inr r \<Longrightarrow> r \<in> set t \<and> ts_IdentityID r = idn"
  by (auto simp: Totp_GetByIdentity_def query_row_def dest: sql_row_Some split: if_splits option.splits)

lemma sql_row_updated:
  "(\<And>r. P (f r) = P r) \<Longrightarrow> sql_row P (sql_update P f t) = map_option f (sql_row P t)"
  by (induction t) auto

text \<open>Starting an enrolment disarms the old one: once a new secret is stored for an
  identity, its second factor no longer counts as verified, no code is accepted for it, and
  this stays so until the new secret is confirmed; after the confirmation exactly the codes of
  the new secret are accepted.\<close>

theorem enrolment_replaces_factor:
  assumes "Totp_Create flt now i idn secret t = (t', Inr r)"
    and confirm: "Totp_Verify flt' idn t' = (t'', Inr ())"
  shows "HasVerifiedTOTP no_faults idn t' = Inr False \<and>
     Totp_ValidateCode validate no_faults idn code t' = Inr False \<and>
     HasVerifiedTOTP no_faults idn t'' = Inr True \<and>
     Totp_ValidateCode validate no_faults idn code t'' = Inr (validate code secret)"
proof -
  from assms(1) have "\<exists>r'. sql_row (\<lambda>r. ts_IdentityID r = idn) t' = Some r' \<and> ts_Secret r' = secret \<and> \<not> ts_Verified r'"
    by (auto simp: Totp_Create_def Let_def sql_row_append sql_row_updated split: if_splits option.splits)
  then obtain r' where r': "sql_row (\<lambda>r. ts_IdentityID r = idn) t' = Some r'" "ts_Secret r' = secret" "\<not> ts_Verified r'"
    by blast
  from confirm have t'': "t'' = sql_update (\<lambda>r. ts_IdentityID r = idn) (\<lambda>r. r\<lparr>ts_Verified := True\<rparr>) t'"
    by (simp add: Totp_Verify_def done_some_update_ok)
  have "sql_row (\<lambda>r. ts_IdentityID r = idn) t'' = Some (r'\<lparr>ts_Verified := True\<rparr>)"
    unfolding t'' by (simp add: sql_row_updated r')
  with r' show ?thesis
    by (simp add: HasVerifiedTOTP_def Totp_ValidateCode_def Totp_GetByIdentity_def query_row_def)
qed

definition demo_secret :: totp_secret where
  "demo_secret = \<lparr>ts_ID = 1, ts_IdentityID = 7, ts_Secret = ''old'', ts_Verified = True, ts_CreatedAt = 0\<rparr>"

theorem enrolment_replaces_factor_witness:
  "HasVerifiedTOTP no_faults 7 (fst (Totp_Create no_faults 5 2 7 ''new'' [demo_secret])) = Inr False"
  by (rule enrolment_replaces_factor [where flt = no_faults and flt' = no_faults and t = "[demo_secret]"
        and i = 2 and now = 5 and secret = "''new''", THEN conjunct1])
    (simp_all add: Totp_Create_def Totp_Verify_def demo_secret_def sql_simps sql_affected_def)

end
