(* ===== verification/Audit_Log_Store.thy ===== *)
theory Audit_Log_Store
  imports Prelude "HOL-Library.Sublist"
begin

text \<open>
  \<^verbatim>\<open>backend/internal/audit/store.go\<close> and \<^verbatim>\<open>backend/internal/auth/ratelimit.go\<close>:
  the append-only audit log, its queries, and the rate limiter that counts login events in
  it. The metadata column is JSON; its keys and values are kept as they are passed (the JSON
  round trip of these values is the identity).
\<close>

datatype json = JStr string | JId uuid | JNum int | JBool bool | JNull

record audit_params =
  ap_IdentityID :: "uuid option"
  ap_SessionID :: "uuid option"
  ap_TenantID :: "uuid option"
  ap_Action :: string
  ap_IPAddress :: string
  ap_UserAgent :: string
  ap_Metadata :: "(string \<times> json) list"

record audit_row =
  a_ID :: uuid
  a_IdentityID :: "uuid option"
  a_SessionID :: "uuid option"
  a_TenantID :: "uuid option"
  a_Action :: string
  a_IPAddress :: "string option" \<comment> \<open>\<^verbatim>\<open>nullIfEmpty\<close>\<close>
  a_UserAgent :: string
  a_Metadata :: "(string \<times> json) list"
  a_CreatedAt :: time

definition nullIfEmpty :: "string \<Rightarrow> string option" where
  "nullIfEmpty s = (if s = [] then None else Some s)"

text \<open>A failed write is only logged, so \<^verbatim>\<open>Log\<close> has no result. The argument \<open>n\<close> counts the
  calls of one request.\<close>

definition Audit_Log :: "faults \<Rightarrow> nat \<Rightarrow> time \<Rightarrow> uuid \<Rightarrow> audit_params \<Rightarrow> audit_row list \<Rightarrow> audit_row list" where
  [store_defs]: "Audit_Log flt n now i p t =
     (if flt ''audit.Log'' n then t
      else t @ [\<lparr>a_ID = i, a_IdentityID = ap_IdentityID p, a_SessionID = ap_SessionID p,
                 a_TenantID = ap_TenantID p, a_Action = ap_Action p,
                 a_IPAddress = nullIfEmpty (ap_IPAddress p), a_UserAgent = ap_UserAgent p,
                 a_Metadata = ap_Metadata p, a_CreatedAt = now\<rparr>])"

text \<open>\<^verbatim>\<open>LIMIT l OFFSET o\<close>; PostgreSQL refuses a negative \<^verbatim>\<open>OFFSET\<close>.\<close>

definition sql_page :: "int \<Rightarrow> int \<Rightarrow> 'r list \<Rightarrow> 'r list" where
  "sql_page l off t = take (nat l) (drop (nat off) t)"

text \<open>\<^verbatim>\<open>Query\<close> scans the nullable \<^verbatim>\<open>ip_address\<close> column into a Go \<^verbatim>\<open>string\<close>, which the
  driver refuses for a NULL.\<close>

definition Audit_Query :: "faults \<Rightarrow> uuid option \<Rightarrow> int \<Rightarrow> int \<Rightarrow> audit_row list \<Rightarrow> err + audit_row list" where
  [store_defs]: "Audit_Query flt identityID limit offset t =
     (let limit = (if limit \<le> 0 then 50 else limit);
          rows = sql_page limit offset (sql_desc a_CreatedAt
            (case identityID of None \<Rightarrow> t | Some i \<Rightarrow> filter (\<lambda>a. a_IdentityID a = Some i) t)) in
      if flt ''audit.Query'' 0 \<or> offset < 0 then Inl (Fault ''audit.Query'')
      else if list_ex (\<lambda>a. a_IPAddress a = None) rows then Inl (ErrMsg ''audit query scan'')
      else Inr rows)"

definition CountRecentByIP :: "faults \<Rightarrow> string \<Rightarrow> string list \<Rightarrow> time \<Rightarrow> audit_row list \<Rightarrow> err + nat" where
  [store_defs]: "CountRecentByIP flt ip actions since t =
     (if flt ''audit.CountRecentByIP'' 0 then Inl (Fault ''audit.CountRecentByIP'')
      else Inr (length (filter (\<lambda>a. a_IPAddress a = Some ip \<and> a_Action a \<in> set actions \<and> a_CreatedAt a > since) t)))"

subsection \<open>The tenant's view of the log\<close>

text \<open>\<^verbatim>\<open>QueryByTenant\<close> joins the identities (for the search) and the memberships (for the rows
  written before a tenant was selected). \<open>ident\<close> gives name and email of an identity,
  \<open>member\<close> says whether it has a user in the tenant, \<open>ilike text needle\<close> is SQL's
  \<^verbatim>\<open>text ILIKE '%needle%'\<close>, \<open>inet_text\<close> the rendering of an address.\<close>

definition tenant_sees :: "(uuid \<Rightarrow> bool) \<Rightarrow> uuid \<Rightarrow> audit_row \<Rightarrow> bool" where
  "tenant_sees member tenantID a =
     (a_TenantID a = Some tenantID \<or>
      (a_TenantID a = None \<and> (case a_IdentityID a of None \<Rightarrow> False | Some i \<Rightarrow> member i)))"

definition audit_search ::
  "(string \<Rightarrow> string) \<Rightarrow> (string \<Rightarrow> string \<Rightarrow> bool) \<Rightarrow> (uuid \<Rightarrow> (string \<times> string) option) \<Rightarrow> string \<Rightarrow> audit_row \<Rightarrow> bool" where
  "audit_search inet_text ilike ident search a =
     ((case a_IPAddress a of None \<Rightarrow> False | Some ip \<Rightarrow> ilike (inet_text ip) search) \<or>
      (case Option.bind (a_IdentityID a) ident of None \<Rightarrow> False
       | Some (name, email) \<Rightarrow> ilike email search \<or> ilike name search))"

definition Audit_QueryByTenant ::
  "(string \<Rightarrow> string) \<Rightarrow> (string \<Rightarrow> string \<Rightarrow> bool) \<Rightarrow> (uuid \<Rightarrow> (string \<times> string) option) \<Rightarrow> (uuid \<Rightarrow> bool) \<Rightarrow>
   faults \<Rightarrow> uuid \<Rightarrow> string \<Rightarrow> string \<Rightarrow> int \<Rightarrow> int \<Rightarrow> audit_row list \<Rightarrow>
   err + (audit_row \<times> string \<times> string) list \<times> nat" where
  [store_defs]: "Audit_QueryByTenant inet_text ilike ident member flt tenantID action search limit offset t =
     (let limit = (if limit \<le> 0 then 50 else limit);
          rows = filter (\<lambda>a. tenant_sees member tenantID a \<and>
                     (action \<noteq> [] \<longrightarrow> a_Action a = action) \<and>
                     (search \<noteq> [] \<longrightarrow> audit_search inet_text ilike ident search a)) t in
      if flt ''audit.QueryByTenant.count'' 0 then Inl (Fault ''audit.QueryByTenant.count'')
      else if flt ''audit.QueryByTenant'' 0 \<or> offset < 0 then Inl (Fault ''audit.QueryByTenant'')
      else Inr (map (\<lambda>a. (a, case Option.bind (a_IdentityID a) ident of
                               None \<Rightarrow> ([], []) | Some (name, email) \<Rightarrow> (name, email)))
                  (sql_page limit offset (sql_desc a_CreatedAt rows)), length rows))"

lemma set_sql_page: "set (sql_page l off t) \<subseteq> set t"
  by (auto simp: sql_page_def dest: in_set_takeD in_set_dropD)

text \<open>The tenant log never shows another tenant's rows: every row on any page, for any
  filter, belongs to the tenant, or belongs to no tenant and to an identity that is a member
  of it; a page holds at most the limit asked for (fifty when none is), and the total counts
  all matching rows.\<close>

theorem tenant_log_isolation:
  assumes "Audit_QueryByTenant inet_text ilike ident member flt tenantID action search limit offset t = Inr (page, matches)"
  shows "(\<forall>(a, _) \<in> set page. a \<in> set t \<and> (a_TenantID a = Some tenantID \<or>
            a_TenantID a = None \<and> (\<exists>i. a_IdentityID a = Some i \<and> member i)) \<and>
            (action \<noteq> [] \<longrightarrow> a_Action a = action)) \<and>
     length page \<le> nat (if limit \<le> 0 then 50 else limit) \<and> length page \<le> matches"
proof -
  let ?P = "\<lambda>a. tenant_sees member tenantID a \<and> (action \<noteq> [] \<longrightarrow> a_Action a = action) \<and>
                (search \<noteq> [] \<longrightarrow> audit_search inet_text ilike ident search a)"
  let ?l = "if limit \<le> 0 then 50 else limit"
  let ?rows = "sql_page ?l offset (sql_desc a_CreatedAt (filter ?P t))"
  from assms have page: "map fst page = ?rows" and matches: "matches = length (filter ?P t)"
    by (auto simp: Audit_QueryByTenant_def Let_def comp_def split: if_splits)
  have "length page = length ?rows" using arg_cong [OF page, of length] by simp
  then have "length page \<le> nat ?l \<and> length page \<le> matches"
    unfolding matches by (simp add: sql_page_def sql_desc_def)
  moreover have "a \<in> set t \<and> ?P a" if "(a, x) \<in> set page" for a x
  proof -
    from that have "a \<in> set (map fst page)" by force
    then have "a \<in> set (sql_desc a_CreatedAt (filter ?P t))"
      unfolding page using set_sql_page by fast
    then show ?thesis by simp
  qed
  ultimately show ?thesis by (fastforce simp: tenant_sees_def split: option.splits)
qed

definition demo_audit :: "uuid option \<Rightarrow> uuid option \<Rightarrow> audit_row" where
  "demo_audit tenant idn = \<lparr>a_ID = 1, a_IdentityID = idn, a_SessionID = None, a_TenantID = tenant,
     a_Action = ''login_success'', a_IPAddress = Some ''10.0.0.1'', a_UserAgent = ''ua'',
     a_Metadata = [], a_CreatedAt = 5\<rparr>"

theorem tenant_log_isolation_witness:
  "a_TenantID (demo_audit (Some 3) (Some 7)) = Some 3 \<and> length [(demo_audit (Some 3) (Some 7), ''A'', ''a@b.c'')] \<le> 50"
  using tenant_log_isolation [of id "\<lambda>_ _. True" "\<lambda>_. Some (''A'', ''a@b.c'')" "\<lambda>_. False" no_faults 3 "[]" "[]" 0 0
      "[demo_audit (Some 3) (Some 7), demo_audit (Some 4) (Some 8), demo_audit None (Some 9)]"
      "[(demo_audit (Some 3) (Some 7), ''A'', ''a@b.c'')]" 1]
  by (simp add: Audit_QueryByTenant_def tenant_sees_def demo_audit_def sql_page_def sql_desc_def)

subsection \<open>The rate limiter\<close>

text \<open>The limiter knows the log only through its interface \<^verbatim>\<open>rateLimitCounter\<close>
  (\<open>None\<close> for a nil counter).\<close>

definition limiter_actions :: "string list" where
  "limiter_actions = [''login_attempt'', ''login_failure'']"

definition RateLimiter_Allow ::
  "(faults \<Rightarrow> string \<Rightarrow> string list \<Rightarrow> time \<Rightarrow> 's \<Rightarrow> err + nat) option \<Rightarrow> nat \<Rightarrow> time \<Rightarrow>
   faults \<Rightarrow> time \<Rightarrow> string \<Rightarrow> 's \<Rightarrow> bool" where
  "RateLimiter_Allow counter max_n window flt now key st =
     (case counter of None \<Rightarrow> True
      | Some count_recent \<Rightarrow>
          (case count_recent flt key limiter_actions (now - window) st of
             Inl _ \<Rightarrow> True
           | Inr n \<Rightarrow> n < max_n))"

fun record_all :: "(time \<Rightarrow> string \<Rightarrow> string \<Rightarrow> 's \<Rightarrow> 's) \<Rightarrow> (time \<times> string \<times> string) list \<Rightarrow> 's \<Rightarrow> 's" where
  "record_all record_event [] st = st"
| "record_all record_event ((t, ip, act) # es) st = record_all record_event es (record_event t ip act st)"

locale rate_counter =
  fixes count_recent :: "faults \<Rightarrow> string \<Rightarrow> string list \<Rightarrow> time \<Rightarrow> 's \<Rightarrow> err + nat"
    and record_event :: "time \<Rightarrow> string \<Rightarrow> string \<Rightarrow> 's \<Rightarrow> 's" \<comment> \<open>time, address, action\<close>
    and fails :: "faults \<Rightarrow> bool"
  assumes count_fails: "fails flt \<Longrightarrow> \<not> is_ok (count_recent flt ip acts since st)"
    and count_answers: "\<not> fails flt \<Longrightarrow> is_ok (count_recent flt ip acts since st)"
    and count_step: "count_recent flt ip acts since (record_event now ip' act st) = Inr n \<Longrightarrow> ip \<noteq> [] \<Longrightarrow>
        \<exists>m. count_recent flt ip acts since st = Inr m \<and>
            n = m + (if ip' = ip \<and> act \<in> set acts \<and> since < now then 1 else 0)"
    and count_window: "count_recent flt ip acts since st = Inr n \<Longrightarrow> since \<le> since' \<Longrightarrow>
        \<exists>m. count_recent flt ip acts since' st = Inr m \<and> m \<le> n"
begin

abbreviation allow where "allow \<equiv> RateLimiter_Allow (Some count_recent)"

text \<open>Events of other addresses and of other kinds never block an address; more events never
  unblock it.\<close>

lemma allow_other:
  assumes "ip \<noteq> []" "ip' \<noteq> ip \<or> act \<notin> set limiter_actions"
  shows "allow k w flt now ip (record_event t ip' act st) = allow k w flt now ip st"
proof (cases "fails flt")
  case True
  then obtain e e' where "count_recent flt ip limiter_actions (now - w) st = Inl e"
    "count_recent flt ip limiter_actions (now - w) (record_event t ip' act st) = Inl e'"
    by (meson count_fails not_okE)
  then show ?thesis by (simp add: RateLimiter_Allow_def)
next
  case False
  then obtain n where n: "count_recent flt ip limiter_actions (now - w) (record_event t ip' act st) = Inr n"
    by (meson count_answers is_okE)
  from count_step [OF this assms(1)] assms(2)
  have "count_recent flt ip limiter_actions (now - w) st = Inr n" by auto
  with n show ?thesis by (simp add: RateLimiter_Allow_def)
qed

lemma count_all:
  assumes "\<not> fails flt" "ip \<noteq> []" "count_recent flt ip acts since st = Inr m"
  shows "count_recent flt ip acts since (record_all record_event es st) =
    Inr (m + length (filter (\<lambda>(t, ip', act). ip' = ip \<and> act \<in> set acts \<and> since < t) es))"
  using assms(3)
proof (induction es arbitrary: st m)
  case (Cons e es)
  obtain t ip' act where e: "e = (t, ip', act)" by (cases e)
  from count_answers [OF assms(1)] obtain n
    where n: "count_recent flt ip acts since (record_event t ip' act st) = Inr n" by (meson is_okE)
  from count_step [OF this assms(2)] Cons.prems
  have "n = m + (if ip' = ip \<and> act \<in> set acts \<and> since < t then 1 else 0)" by auto
  with Cons.IH [OF n] e show ?case by simp
qed simp

lemma allow_iff:
  assumes "\<not> fails flt" "ip \<noteq> []" "count_recent flt ip limiter_actions (now - w) st = Inr 0"
  shows "allow k w flt now ip (record_all record_event es st) \<longleftrightarrow>
    length (filter (\<lambda>(t, ip', act). ip' = ip \<and> act \<in> set limiter_actions \<and> now - w < t) es) < k"
  using count_all [OF assms] by (simp add: RateLimiter_Allow_def)

end

text \<open>The audit log is such a counter; an event is a log entry.\<close>

definition log_event :: "time \<Rightarrow> string \<Rightarrow> string \<Rightarrow> audit_row list \<Rightarrow> audit_row list" where
  "log_event now ip act t = Audit_Log no_faults 0 now (length t)
     \<lparr>ap_IdentityID = None, ap_SessionID = None, ap_TenantID = None, ap_Action = act,
      ap_IPAddress = ip, ap_UserAgent = [], ap_Metadata = []\<rparr> t"

interpretation log_counter: rate_counter CountRecentByIP log_event "\<lambda>flt. flt ''audit.CountRecentByIP'' 0"
proof (unfold_locales, goal_cases)
  case (3 flt ip acts since now ip' act st n)
  then show ?case
    by (auto simp: CountRecentByIP_def log_event_def Audit_Log_def nullIfEmpty_def split: if_splits)
next
  case (4 flt ip acts since st n since')
  have "length (filter (\<lambda>a. a_IPAddress a = Some ip \<and> a_Action a \<in> set acts \<and> a_CreatedAt a > since') st) \<le>
    length (filter (\<lambda>a. a_IPAddress a = Some ip \<and> a_Action a \<in> set acts \<and> a_CreatedAt a > since) st)"
    using 4(2) by (induction st) auto
  with 4 show ?case by (auto simp: CountRecentByIP_def split: if_splits)
qed (simp_all add: CountRecentByIP_def)

text \<open>The limiter, on the audit log: starting from a log without recent login events of
  an address, after any sequence of logged events a request from it is allowed exactly when
  fewer than the maximum of its own login attempts and failures fall in the window; events of
  other addresses and other kinds do not count, and when the count itself fails the request is
  let through.\<close>

theorem limiter_counts_own_logins:
  assumes "ip \<noteq> []" "CountRecentByIP no_faults ip limiter_actions (now - window) t = Inr 0"
  shows "(RateLimiter_Allow (Some CountRecentByIP) k window flt now ip (record_all log_event es t) \<longleftrightarrow>
      flt ''audit.CountRecentByIP'' 0 \<or>
      length (filter (\<lambda>(e, ip', act). ip' = ip \<and> act \<in> {''login_attempt'', ''login_failure''} \<and> now - window < e) es) < k)"
proof (cases "flt ''audit.CountRecentByIP'' 0")
  case True
  then show ?thesis by (simp add: RateLimiter_Allow_def CountRecentByIP_def)
next
  case False
  with assms(2) have "CountRecentByIP flt ip limiter_actions (now - window) t = Inr 0"
    by (simp add: CountRecentByIP_def)
  from log_counter.allow_iff [of flt ip now window t k es, OF False assms(1) this] False show ?thesis
    by (simp add: limiter_actions_def)
qed

theorem limiter_counts_own_logins_witness:
  "\<not> RateLimiter_Allow (Some CountRecentByIP) 2 minute no_faults minute ''10.0.0.1''
     (record_all log_event [(1, ''10.0.0.1'', ''login_attempt''), (2, ''10.0.0.9'', ''login_failure''),
        (3, ''10.0.0.1'', ''login_failure'')] [])"
  by (subst limiter_counts_own_logins) (simp_all add: CountRecentByIP_def limiter_actions_def)

text \<open>One entry without an address breaks the log for everyone: \<^verbatim>\<open>Query\<close> reads the
  nullable address column into a string, so any page that contains a row logged from a request
  without a client address is an error, while a page without such rows is returned.\<close>

theorem query_fails_on_missing_address:
  assumes "\<not> flt ''audit.Query'' 0" "0 \<le> offset"
  shows "is_ok (Audit_Query flt None limit offset t) \<longleftrightarrow>
    (\<forall>a \<in> set (sql_page (if limit \<le> 0 then 50 else limit) offset (sql_desc a_CreatedAt t)). a_IPAddress a \<noteq> None) \<and>
    (\<forall>p. ap_IPAddress p = [] \<longrightarrow>
       \<not> is_ok (Audit_Query flt None 1 0 (Audit_Log no_faults 0 now i p [])))"
  using assms
  by (auto simp: Audit_Query_def Let_def list_ex_iff sql_page_def sql_desc_def Audit_Log_def nullIfEmpty_def)

theorem query_fails_on_missing_address_witness:
  "is_ok (Audit_Query no_faults None 10 0 [demo_audit None None])"
  by (subst query_fails_on_missing_address [where now = 0 and i = 0])
    (simp_all add: sql_page_def sql_desc_def demo_audit_def Audit_Query_def Audit_Log_def nullIfEmpty_def)

end
