(* ===== verification/Database.thy ===== *)
theory Database
  imports Sessions Identities Codes Totp Audit_Log_Store "HOL-Library.State_Monad"
begin

text \<open>
  The database as one record of tables, the request a handler serves, and the monad in which
  the handlers and the stores that touch several tables are written. The columns follow
  \<^verbatim>\<open>backend/internal/migrate/migrations\<close>; the record types follow the Go structs.
  \<^verbatim>\<open>CHECK\<close> and uniqueness constraints are tests the inserting statement makes.
\<close>

subsection \<open>Rows\<close>

record tenant =
  tn_ID :: uuid
  tn_Name :: string
  tn_CreatedAt :: time
  tn_UpdatedAt :: time
  tn_SuspendedAt :: "time option"
  tn_DeletedAt :: "time option"

record suborg =
  so_ID :: uuid
  so_TenantID :: uuid
  so_Name :: string
  so_PrimaryFSOUserID :: "uuid option"
  so_CreatedAt :: time
  so_UpdatedAt :: time

record user =
  u_ID :: uuid
  u_TenantID :: uuid
  u_Role :: string
  u_IdentityID :: uuid
  u_CurrentClearanceID :: "uuid option"
  u_CreatedAt :: time
  u_UpdatedAt :: time

definition role_check :: "string \<Rightarrow> bool" where
  "role_check r = (r \<in> {''administrator'', ''fso'', ''read_only_fso'', ''individual_contributor''})"

record passkey =
  pk_ID :: uuid
  pk_IdentityID :: uuid
  pk_CredentialID :: string
  pk_PublicKey :: string
  pk_AAGUID :: string
  pk_SignCount :: int
  pk_BackupEligible :: bool
  pk_BackupState :: bool
  pk_Transports :: "string list"
  pk_FriendlyName :: "string option"
  pk_LastUsedAt :: "time option"
  pk_CreatedAt :: time

record task =
  tk_ID :: uuid
  tk_TenantID :: uuid
  tk_CreatedByUserID :: "uuid option"
  tk_SubOrgID :: "uuid option"
  tk_Title :: string
  tk_Description :: string
  tk_Priority :: string
  tk_DueDate :: "time option"
  tk_Status :: string
  tk_CreatedAt :: time
  tk_UpdatedAt :: time

record requirement =
  rq_ID :: uuid
  rq_TaskID :: uuid
  rq_Kind :: string
  rq_Label :: string
  rq_Description :: string
  rq_Required :: bool
  rq_SortOrder :: nat
  rq_AIVerificationCriteria :: string

record assignment_rule =
  ar_ID :: uuid
  ar_TaskID :: uuid
  ar_RuleType :: string
  ar_TargetID :: "uuid option"

datatype completion_status = To_do | In_progress | Submitted | Approved | Rejected

record completion =
  tc_ID :: uuid
  tc_TaskID :: uuid
  tc_UserID :: uuid
  tc_Status :: completion_status
  tc_ViewedAt :: "time option"
  tc_SubmittedAt :: "time option"
  tc_ReviewedAt :: "time option"
  tc_ReviewedBy :: "uuid option"
  tc_CreatedAt :: time
  tc_UpdatedAt :: time

record task_response =
  tr_ID :: uuid
  tr_CompletionID :: uuid
  tr_RequirementID :: uuid
  tr_TextValue :: "string option"
  tr_BoolValue :: "bool option"

record upload =
  up_ID :: uuid
  up_CompletionID :: uuid
  up_RequirementID :: uuid
  up_FileName :: string
  up_FileSize :: int
  up_ContentType :: string
  up_StorageKey :: string
  up_CreatedAt :: time

text \<open>A verdict of the language model on an upload. The confidence is a \<^verbatim>\<open>float64\<close>,
  kept as the integer part of its \<open>2 ^ 53\<close>-fold, which decides every comparison with a
  \<^verbatim>\<open>float64\<close> constant between one half and one.\<close>

record verdict =
  vd_TypeMatch :: bool
  vd_ExtractedFields :: "(string \<times> string) list"
  vd_Discrepancies :: "string list"
  vd_Flagged :: bool
  vd_Confidence :: int
  vd_Reasoning :: string

datatype verification_status = V_Pending | V_Succeeded | V_Failed

record verification =
  vf_ID :: uuid
  vf_UploadID :: uuid
  vf_TenantID :: uuid
  vf_Status :: verification_status
  vf_Verdict :: "verdict option" \<comment> \<open>the columns the worker fills, defaults before\<close>
  vf_ErrorMessage :: string
  vf_CriteriaSnapshot :: string
  vf_Model :: string
  vf_AdminFeedback :: "string option"
  vf_AdminFeedbackAt :: "time option"
  vf_AdminFeedbackBy :: "uuid option"
  vf_CreatedAt :: time
  vf_UpdatedAt :: time

record ai_use =
  au_ID :: uuid
  au_TenantID :: uuid
  au_UserID :: uuid
  au_Feature :: string
  au_PromptTokens :: int
  au_ResponseTokens :: int
  au_CreatedAt :: time

record action_item =
  ai_ID :: uuid
  ai_TenantID :: uuid
  ai_SourceType :: string
  ai_SourceID :: "uuid option"
  ai_Title :: string
  ai_Description :: string
  ai_Priority :: string
  ai_Status :: string
  ai_AssignedTo :: "uuid option"
  ai_Notes :: string
  ai_DueDate :: "time option"
  ai_SubOrgID :: "uuid option"
  ai_CreatedAt :: time
  ai_UpdatedAt :: time

text \<open>Life event reports, visit requests, foreign travel with its debriefs, clearances,
  contracts (DD254) with the users read on to them, and the messages to the assistant.
  A \<^verbatim>\<open>DATE\<close> is its midnight.\<close>

record life_report =
  le_ID :: uuid
  le_TenantID :: uuid
  le_CreatedByUserID :: uuid
  le_SubOrgID :: "uuid option"
  le_ReportingFor :: string
  le_SubjectName :: string
  le_ReportType :: string
  le_Details :: string
  le_Status :: string
  le_ReviewedBy :: "uuid option"
  le_ReviewedAt :: "time option"
  le_CreatedAt :: time
  le_UpdatedAt :: time

record visit_form =
  vi_DestinationName :: string
  vi_DissSmoCode :: string
  vi_VisitAddress :: string
  vi_AccessLevel :: string
  vi_VisitDescription :: string
  vi_Poc :: "string \<times> string \<times> string"          \<comment> \<open>name, address, telephone\<close>
  vi_SecurityPoc :: "string \<times> string \<times> string"
  vi_ClonedFromID :: "uuid option"
  vi_DD254ID :: "uuid option"

record visit = visit_form +
  vi_ID :: uuid
  vi_TenantID :: uuid
  vi_CreatedByUserID :: uuid
  vi_SubOrgID :: "uuid option"
  vi_StartDate :: time
  vi_EndDate :: time
  vi_Status :: string
  vi_ReviewedBy :: "uuid option"
  vi_ReviewedAt :: "time option"
  vi_ReviewerNotes :: string
  vi_CreatedAt :: time
  vi_UpdatedAt :: time

record trip_form =
  tv_TripName :: string
  tv_MultiCountry :: bool
  tv_PassportNumber :: string
  tv_EmergencyFirstName :: string
  tv_EmergencyLastName :: string
  tv_EmergencyPhone :: string
  tv_AdditionalComments :: string

record trip =
  tv_ID :: uuid
  tv_TenantID :: uuid
  tv_UserID :: uuid
  tv_SubOrgID :: "uuid option"
  tv_Form :: trip_form
  tv_Status :: string
  tv_SubmittedAt :: "time option"
  tv_ReviewedAt :: "time option"
  tv_ReviewedBy :: "uuid option"
  tv_DebriefCreatedAt :: "time option"
  tv_CreatedAt :: time
  tv_UpdatedAt :: time

record country_form =
  cy_CountryName :: string
  cy_SortOrder :: int
  cy_Reason :: string
  cy_Transportation :: "string list"
  cy_HasCompanions :: bool
  cy_CompanionsDetail :: string
  cy_HasForeignContacts :: bool
  cy_ContactsDetail :: string

record country =
  cy_ID :: uuid
  cy_ReportID :: uuid
  cy_Form :: country_form
  cy_StartDate :: "time option"
  cy_EndDate :: "time option"
  cy_CreatedAt :: time

record trip_upload =
  tl_ID :: uuid
  tl_ReportID :: uuid
  tl_FileName :: string
  tl_FileSize :: int
  tl_ContentType :: string
  tl_StorageKey :: string
  tl_CreatedAt :: time

text \<open>An answer to a question of the debrief: the flag, absent until submitted, and its details.\<close>

record debrief =
  de_ID :: uuid
  de_ReportID :: uuid
  de_TenantID :: uuid
  de_UserID :: uuid
  de_Status :: string
  de_DueDate :: "time option"
  de_Answers :: "(bool option \<times> string) list" \<comment> \<open>\<^verbatim>\<open>q1\<close> to \<^verbatim>\<open>q4\<close>\<close>
  de_SubmittedAt :: "time option"
  de_CreatedAt :: time
  de_UpdatedAt :: time

record clearance_record =
  cr_ID :: uuid
  cr_UserID :: uuid
  cr_Clearance :: string
  cr_InvestigationType :: "string option"
  cr_EligibilityDate :: "time option"
  cr_LastInvestigationDate :: "time option"
  cr_NextInvestigationDate :: "time option"
  cr_Notes :: string
  cr_RecordedBy :: uuid
  cr_RecordedAt :: time
  cr_SupersededAt :: "time option"
  cr_LastDueReminderAt :: "time option"

record dd254_form =
  dd_ID :: uuid
  dd_TenantID :: uuid
  dd_SubOrgID :: "uuid option"
  dd_ContractNumber :: string
  dd_PrimeContractor :: string
  dd_ClassificationMax :: string
  dd_PeriodStart :: "time option"
  dd_PeriodEnd :: "time option"
  dd_StorageKey :: string
  dd_Filename :: string
  dd_ContentType :: string
  dd_SizeBytes :: int
  dd_Markings :: string
  dd_Status :: string
  dd_SupersedesID :: "uuid option"
  dd_UploadedBy :: uuid          \<comment> \<open>also \<^verbatim>\<open>cui_attestation_by\<close>, which gets the same value\<close>
  dd_CreatedAt :: time
  dd_UpdatedAt :: time
  dd_LastExpirationReminderAt :: "time option"

record access_grant =
  da_DD254ID :: uuid
  da_UserID :: uuid
  da_BriefedAt :: "time option"
  da_DebriefedAt :: "time option"
  da_AddedBy :: uuid
  da_AddedAt :: time

record chat_message =
  ch_ID :: uuid
  ch_TenantID :: uuid
  ch_UserID :: uuid
  ch_Role :: string
  ch_Content :: string
  ch_CreatedAt :: time

record user_settings =
  pf_UserID :: uuid
  pf_NotificationFrequency :: string
  pf_LastDigestSentAt :: "time option"
  pf_UpdatedAt :: time

record wiki_post =
  wp_ID :: uuid
  wp_TenantID :: uuid
  wp_CreatedByUserID :: uuid
  wp_SubOrgID :: "uuid option"
  wp_Title :: string
  wp_Content :: string
  wp_Published :: bool
  wp_CreatedAt :: time
  wp_UpdatedAt :: time

record wiki_file =
  wf_ID :: uuid
  wf_PostID :: uuid
  wf_TenantID :: uuid
  wf_FileName :: string
  wf_StorageKey :: string
  wf_FileSize :: int
  wf_CreatedAt :: time

record sso_config =
  sc_ID :: uuid
  sc_TenantID :: uuid
  sc_Protocol :: string
  sc_EntityID :: "string option"
  sc_SSOURL :: "string option"
  sc_Certificate :: "string option"
  sc_ClientID :: "string option"
  sc_ClientSecret :: "string option"
  sc_IssuerURL :: "string option"
  sc_Enabled :: bool
  sc_AutoProvision :: bool
  sc_DefaultRole :: string
  sc_CreatedAt :: time
  sc_UpdatedAt :: time

record sso_domain =
  ed_ID :: uuid
  ed_Domain :: string
  ed_SSOConfigurationID :: uuid
  ed_CreatedAt :: time

text \<open>A row of \<^verbatim>\<open>webauthn_sessions\<close>: what the library needs to finish a ceremony, marshalled.\<close>

record ceremony =
  ce_ID :: string
  ce_Data :: string
  ce_ExpiresAt :: time

text \<open>The counts of the periodic mails: of the daily summary, of the reminder to a contributor,
  of the reminders about clearances and contracts.\<close>

record digest_counts =
  dc_NewActionItems :: nat
  dc_NewTasksAssigned :: nat
  dc_NewTaskReviews :: nat
  dc_NewDebriefs :: nat
  dc_OpenTasks :: nat
  dc_OpenDebriefs :: nat
  dc_OverdueTasks :: nat

record reminder_counts =
  rc_OverdueTasks :: nat
  rc_DueSoonTasks :: nat
  rc_OverdueDebriefs :: nat
  rc_DueSoonDebriefs :: nat

record due_counts =
  du_Due90Days :: nat
  du_Due30Days :: nat
  du_Overdue :: nat

text \<open>The calls the handlers make to the notifier and the mailer, in order.\<close>

datatype notification =
    ActionItemAssigned uuid string string string \<comment> \<open>user, address, name, source type\<close>
  | TaskAssigned uuid string string
  | TaskReviewed uuid string string string       \<comment> \<open>user, address, name, decision\<close>
  | PasswordResetMail string string              \<comment> \<open>address, token\<close>
  | DebriefAssigned uuid string string uuid      \<comment> \<open>user, address, name, debrief\<close>
  | VerifyEnqueued uuid                          \<comment> \<open>the queue of upload verifications: upload\<close>
  | InviteSSOMail string string                  \<comment> \<open>address, tenant\<close>
  | AdminInviteSetupMail string string string    \<comment> \<open>address, tenant, token\<close>
  | AdminInviteMail string string                \<comment> \<open>address, tenant\<close>
  | DailySummaryMail string string digest_counts \<comment> \<open>address, name, counts\<close>
  | TaskReminder uuid string string reminder_counts
  | ClearanceDue uuid string string due_counts
  | Dd254Expiring uuid string string due_counts

subsection \<open>The database\<close>

record db =
  d_identities :: "identity list"
  d_sessions :: "session list"
  d_codes :: "code list"
  d_totp :: "totp_secret list"
  d_passkeys :: "passkey list"
  d_audit :: "audit_row list"
  d_tenants :: "tenant list"
  d_suborgs :: "suborg list"
  d_users :: "user list"
  d_members :: "(uuid \<times> uuid) list" \<comment> \<open>\<^verbatim>\<open>user_suborganizations\<close>: user, sub-organization\<close>
  d_sso_configs :: "sso_config list"
  d_sso_domains :: "sso_domain list"
  d_tasks :: "task list"
  d_requirements :: "requirement list"
  d_rules :: "assignment_rule list"
  d_completions :: "completion list"
  d_responses :: "task_response list"
  d_uploads :: "upload list"
  d_action_items :: "action_item list"
  d_verifications :: "verification list"
  d_ai_usage :: "ai_use list"
  d_reports :: "life_report list"
  d_visits :: "visit list"
  d_trips :: "trip list"
  d_countries :: "country list"
  d_trip_uploads :: "trip_upload list"
  d_debriefs :: "debrief list"
  d_clearances :: "clearance_record list"
  d_dd254 :: "dd254_form list"
  d_dd254_access :: "access_grant list"
  d_chat :: "chat_message list"
  d_user_settings :: "user_settings list"
  d_wiki_posts :: "wiki_post list"
  d_wiki_files :: "wiki_file list"
  d_ceremonies :: "ceremony list"
  d_files :: "string \<Rightarrow> string option" \<comment> \<open>object storage: key, content\<close>
  d_outbox :: "notification list"

definition empty_db :: db where
  "empty_db = \<lparr>d_identities = [], d_sessions = [], d_codes = [], d_totp = [], d_passkeys = [],
     d_audit = [], d_tenants = [], d_suborgs = [], d_users = [], d_members = [], d_sso_configs = [],
     d_sso_domains = [], d_tasks = [], d_requirements = [], d_rules = [], d_completions = [],
     d_responses = [], d_uploads = [], d_action_items = [],
     d_verifications = [], d_ai_usage = [], d_reports = [], d_visits = [], d_trips = [],
     d_countries = [], d_trip_uploads = [], d_debriefs = [], d_clearances = [], d_dd254 = [],
     d_dd254_access = [], d_chat = [], d_user_settings = [], d_wiki_posts = [], d_wiki_files = [],
     d_ceremonies = [], d_files = (\<lambda>_. None), d_outbox = []\<rparr>"

subsection \<open>Requests\<close>

text \<open>What a handler sees of the request beside its path and body: the clock, the faults of
  its statements, the client, the ids the database will generate in it, the session and the
  role the middleware has put into the context, and the CSRF token the process will draw.\<close>

record request =
  r_now :: time
  r_flt :: faults
  r_ip :: string
  r_ua :: string
  r_fresh :: "nat \<Rightarrow> uuid"
  r_session :: "session option"
  r_role :: "string option"
  r_csrf :: "string option"

definition demo_request :: request where
  "demo_request = \<lparr>r_now = 100, r_flt = no_faults, r_ip = ''10.0.0.1'', r_ua = ''ua'',
     r_fresh = (\<lambda>n. 1000 + n), r_session = None, r_role = None, r_csrf = Some ''csrf''\<rparr>"

subsection \<open>Actions\<close>

abbreviation reply :: "'a \<Rightarrow> ('s, 'a) state" where
  "reply \<equiv> State_Monad.return"

definition asks :: "('s \<Rightarrow> 'a) \<Rightarrow> ('s, 'a) state" where
  "asks f = State (\<lambda>s. (f s, s))"

text \<open>A store operation is a function from the state to the new state and a result.\<close>

definition run_op :: "('s \<Rightarrow> 's \<times> 'a) \<Rightarrow> ('s, 'a) state" where
  "run_op f = State (\<lambda>s. let (s', a) = f s in (a, s'))"

definition on_table :: "(db \<Rightarrow> 't) \<Rightarrow> (('t \<Rightarrow> 't) \<Rightarrow> db \<Rightarrow> db) \<Rightarrow> ('t \<Rightarrow> 't \<times> 'a) \<Rightarrow> db \<Rightarrow> db \<times> 'a" where
  "on_table get upd f d = (upd (\<lambda>_. fst (f (get d))) d, snd (f (get d)))"

definition on_sessions :: "(session list \<Rightarrow> session list \<times> 'a) \<Rightarrow> (db, 'a) state" where
  "on_sessions f = run_op (on_table d_sessions d_sessions_update f)"

definition on_identities :: "(identity list \<Rightarrow> identity list \<times> 'a) \<Rightarrow> (db, 'a) state" where
  "on_identities f = run_op (on_table d_identities d_identities_update f)"

definition on_codes :: "(code list \<Rightarrow> code list \<times> 'a) \<Rightarrow> (db, 'a) state" where
  "on_codes f = run_op (on_table d_codes d_codes_update f)"

definition on_totp :: "(totp_secret list \<Rightarrow> totp_secret list \<times> 'a) \<Rightarrow> (db, 'a) state" where
  "on_totp f = run_op (on_table d_totp d_totp_update f)"

definition on_db :: "(db \<Rightarrow> db \<times> 'a) \<Rightarrow> (db, 'a) state" where
  "on_db f = run_op f"

definition notify :: "notification list \<Rightarrow> (db, unit) state" where
  "notify ns = State (\<lambda>d. ((), d\<lparr>d_outbox := d_outbox d @ ns\<rparr>))"

text \<open>\<^verbatim>\<open>h.audit.Log\<close> with the address and agent of the request; \<open>n\<close> numbers the calls.\<close>

definition audit_log ::
  "request \<Rightarrow> nat \<Rightarrow> string \<Rightarrow> uuid option \<Rightarrow> uuid option \<Rightarrow> uuid option \<Rightarrow> (string \<times> json) list \<Rightarrow> (db, unit) state" where
  "audit_log r n action identityID sessionID tenantID meta =
     State (\<lambda>d. ((), d\<lparr>d_audit := Audit_Log (r_flt r) n (r_now r) (r_fresh r (900 + n))
       \<lparr>ap_IdentityID = identityID, ap_SessionID = sessionID, ap_TenantID = tenantID,
        ap_Action = action, ap_IPAddress = r_ip r, ap_UserAgent = r_ua r, ap_Metadata = meta\<rparr> (d_audit d)\<rparr>))"

lemma run_state_asks [simp]: "run_state (asks f) s = (f s, s)"
  by (simp add: asks_def)

lemma run_state_run_op: "run_state (run_op f) s = (snd (f s), fst (f s))"
  by (simp add: run_op_def case_prod_beta)

lemma run_state_on [simp]:
  "run_state (on_sessions f1) d = (snd (f1 (d_sessions d)), d\<lparr>d_sessions := fst (f1 (d_sessions d))\<rparr>)"
  "run_state (on_identities f2) d = (snd (f2 (d_identities d)), d\<lparr>d_identities := fst (f2 (d_identities d))\<rparr>)"
  "run_state (on_codes f3) d = (snd (f3 (d_codes d)), d\<lparr>d_codes := fst (f3 (d_codes d))\<rparr>)"
  "run_state (on_totp f4) d = (snd (f4 (d_totp d)), d\<lparr>d_totp := fst (f4 (d_totp d))\<rparr>)"
  "run_state (on_db f5) d = (snd (f5 d), fst (f5 d))"
  by (simp_all add: on_sessions_def on_identities_def on_codes_def on_totp_def on_db_def
      run_state_run_op on_table_def)

lemma run_state_notify [simp]: "run_state (notify ns) d = ((), d\<lparr>d_outbox := d_outbox d @ ns\<rparr>)"
  by (simp add: notify_def)

lemma run_state_audit_log [simp]:
  "run_state (audit_log r n action i s t meta) d = ((), d\<lparr>d_audit := Audit_Log (r_flt r) n (r_now r) (r_fresh r (900 + n))
       \<lparr>ap_IdentityID = i, ap_SessionID = s, ap_TenantID = t,
        ap_Action = action, ap_IPAddress = r_ip r, ap_UserAgent = r_ua r, ap_Metadata = meta\<rparr> (d_audit d)\<rparr>)"
  by (simp add: audit_log_def)

subsection \<open>Reasoning about actions\<close>

text \<open>\<open>triple P m Q\<close>: from a state with \<open>P\<close>, the action ends in a result and state with \<open>Q\<close>.\<close>

definition triple :: "('s \<Rightarrow> bool) \<Rightarrow> ('s, 'a) state \<Rightarrow> ('a \<Rightarrow> 's \<Rightarrow> bool) \<Rightarrow> bool" where
  "triple P m Q = (\<forall>s. P s \<longrightarrow> Q (fst (run_state m s)) (snd (run_state m s)))"

abbreviation keeps_inv :: "('s \<Rightarrow> bool) \<Rightarrow> ('s, 'a) state \<Rightarrow> bool" where
  "keeps_inv P m \<equiv> triple P m (\<lambda>_. P)"

lemma tripleD: "triple P m Q \<Longrightarrow> P s \<Longrightarrow> Q (fst (run_state m s)) (snd (run_state m s))"
  by (simp add: triple_def)

lemma triple_bind:
  "triple P m R \<Longrightarrow> (\<And>a. triple (R a) (f a) Q) \<Longrightarrow> triple P (State_Monad.bind m f) Q"
  by (auto simp: triple_def split: prod.splits)

lemma triple_weaken: "triple P' m Q' \<Longrightarrow> (\<And>s. P s \<Longrightarrow> P' s) \<Longrightarrow> (\<And>a s. Q' a s \<Longrightarrow> Q a s) \<Longrightarrow> triple P m Q"
  by (simp add: triple_def)

lemma keeps_bind [frame_rules]:
  "keeps_inv P m \<Longrightarrow> (\<And>a. keeps_inv P (f a)) \<Longrightarrow> keeps_inv P (State_Monad.bind m f)"
  by (rule triple_bind)

lemma keeps_reply [frame_rules]: "keeps_inv P (reply a)"
  by (simp add: triple_def)

lemma keeps_asks [frame_rules]: "keeps_inv P (asks f)"
  by (simp add: triple_def)

lemma keeps_if [frame_rules]: "(b \<Longrightarrow> keeps_inv P m) \<Longrightarrow> (\<not> b \<Longrightarrow> keeps_inv P n) \<Longrightarrow> keeps_inv P (if b then m else n)"
  by simp

lemma keeps_option [frame_rules]:
  "(x = None \<Longrightarrow> keeps_inv P m) \<Longrightarrow> (\<And>a. x = Some a \<Longrightarrow> keeps_inv P (f a)) \<Longrightarrow> keeps_inv P (case x of None \<Rightarrow> m | Some a \<Rightarrow> f a)"
  by (cases x) simp_all

lemma keeps_sum [frame_rules]:
  "(\<And>a. x = Inl a \<Longrightarrow> keeps_inv P (f a)) \<Longrightarrow> (\<And>a. x = Inr a \<Longrightarrow> keeps_inv P (g a)) \<Longrightarrow>
     keeps_inv P (case x of Inl a \<Rightarrow> f a | Inr a \<Rightarrow> g a)"
  by (cases x) simp_all

lemma keeps_prod [frame_rules]:
  "(\<And>a b. x = (a, b) \<Longrightarrow> keeps_inv P (f a b)) \<Longrightarrow> keeps_inv P (case x of (a, b) \<Rightarrow> f a b)"
  by (cases x) simp_all

text \<open>What an action on one table leaves alone.\<close>

lemma keeps_audit_log: "(\<And>d t. P (d\<lparr>d_audit := t\<rparr>) = P d) \<Longrightarrow> keeps_inv P (audit_log r n a i s t m)"
  by (simp add: triple_def)

lemma keeps_notify: "(\<And>d t. P (d\<lparr>d_outbox := t\<rparr>) = P d) \<Longrightarrow> keeps_inv P (notify ns)"
  by (simp add: triple_def)

lemma keeps_on_sessions:
  "(\<And>d. P d \<Longrightarrow> P (d\<lparr>d_sessions := fst (f (d_sessions d))\<rparr>)) \<Longrightarrow> keeps_inv P (on_sessions f)"
  by (simp add: triple_def)

lemma keeps_on_identities:
  "(\<And>d. P d \<Longrightarrow> P (d\<lparr>d_identities := fst (f (d_identities d))\<rparr>)) \<Longrightarrow> keeps_inv P (on_identities f)"
  by (simp add: triple_def)

lemma keeps_on_codes: "(\<And>d. P d \<Longrightarrow> P (d\<lparr>d_codes := fst (f (d_codes d))\<rparr>)) \<Longrightarrow> keeps_inv P (on_codes f)"
  by (simp add: triple_def)

lemma keeps_on_totp: "(\<And>d. P d \<Longrightarrow> P (d\<lparr>d_totp := fst (f (d_totp d))\<rparr>)) \<Longrightarrow> keeps_inv P (on_totp f)"
  by (simp add: triple_def)

lemma keeps_on_db: "(\<And>d. P d \<Longrightarrow> P (fst (f d))) \<Longrightarrow> keeps_inv P (on_db f)"
  by (simp add: triple_def)

lemmas keeps_tables = keeps_audit_log keeps_notify keeps_on_sessions keeps_on_identities keeps_on_codes keeps_on_totp
  keeps_on_db

subsection \<open>Passkeys\<close>

text \<open>The parts of \<^verbatim>\<open>passkey/store.go\<close> that login and settings use.\<close>

definition Passkey_CountByIdentity :: "faults \<Rightarrow> uuid \<Rightarrow> passkey list \<Rightarrow> err + nat" where
  [store_defs]: "Passkey_CountByIdentity flt identityID t =
     (if flt ''passkey.CountByIdentity'' 0 then Inl (Fault ''passkey.CountByIdentity'')
      else Inr (sql_affected (\<lambda>p. pk_IdentityID p = identityID) t))"

definition Passkey_UpdateSignCount ::
  "faults \<Rightarrow> time \<Rightarrow> uuid \<Rightarrow> int \<Rightarrow> passkey list \<Rightarrow> (passkey list, unit) store_result" where
  [store_defs]: "Passkey_UpdateSignCount flt now i n t =
     done_any (exec_update flt ''passkey.UpdateSignCount'' (\<lambda>p. pk_ID p = i)
       (\<lambda>p. p\<lparr>pk_SignCount := n, pk_LastUsedAt := Some now\<rparr>) t)"

definition Passkey_Delete :: "faults \<Rightarrow> uuid \<Rightarrow> uuid \<Rightarrow> passkey list \<Rightarrow> (passkey list, unit) store_result" where
  [store_defs]: "Passkey_Delete flt i identityID t =
     done_some ErrNotFound (exec_delete flt ''passkey.Delete''
       (\<lambda>p. pk_ID p = i \<and> pk_IdentityID p = identityID) t)"

end
