(* ===== verification/Directory.thy ===== *)
theory Directory
  imports Database
begin

text \<open>
  Tenants, sub-organizations, memberships: \<^verbatim>\<open>backend/internal/auth/store.go\<close> and
  \<^verbatim>\<open>backend/internal/suborg/store.go\<close>, with the two triggers of migration 000020 and
  the referential actions the deletes rely on. Orderings by name use the database's collation,
  the argument \<open>coll\<close>; \<open>fold\<close> is the simple case folding of \<^verbatim>\<open>strings.EqualFold\<close>.
\<close>

abbreviation ErrNoRows :: err where
  "ErrNoRows \<equiv> ErrMsg ''no rows in result set''"

subsection \<open>Lookups and joins\<close>

definition identity_by :: "db \<Rightarrow> uuid \<Rightarrow> identity option" where
  "identity_by d i = sql_row (\<lambda>r. i_ID r = i) (d_identities d)"

definition user_by :: "db \<Rightarrow> uuid \<Rightarrow> user option" where
  "user_by d i = sql_row (\<lambda>r. u_ID r = i) (d_users d)"

definition tenant_by :: "db \<Rightarrow> uuid \<Rightarrow> tenant option" where
  "tenant_by d i = sql_row (\<lambda>r. tn_ID r = i) (d_tenants d)"

definition suborg_by :: "db \<Rightarrow> uuid \<Rightarrow> suborg option" where
  "suborg_by d i = sql_row (\<lambda>r. so_ID r = i) (d_suborgs d)"

text \<open>\<^verbatim>\<open>JOIN users u ON u.id = ... JOIN identities i ON i.id = u.identity_id\<close>\<close>

definition contact_of :: "db \<Rightarrow> uuid \<Rightarrow> (user \<times> identity) option" where
  "contact_of d i = (case user_by d i of None \<Rightarrow> None
     | Some u \<Rightarrow> map_option (\<lambda>n. (u, n)) (identity_by d (u_IdentityID u)))"

text \<open>\<^verbatim>\<open>SELECT suborganization_id FROM user_suborganizations WHERE user_id = u LIMIT 1\<close>\<close>

definition suborg_of_user :: "db \<Rightarrow> uuid \<Rightarrow> uuid option" where
  "suborg_of_user d u = map_option snd (sql_row (\<lambda>m. fst m = u) (d_members d))"

subsection \<open>Referential actions\<close>

definition delete_sessions :: "(session \<Rightarrow> bool) \<Rightarrow> db \<Rightarrow> db" where
  "delete_sessions P d =
     (let gone = map s_ID (filter P (d_sessions d)) in
      d\<lparr>d_sessions := sql_delete P (d_sessions d),
        d_audit := sql_update (\<lambda>a. \<exists>i \<in> set gone. a_SessionID a = Some i) (\<lambda>a. a\<lparr>a_SessionID := None\<rparr>) (d_audit d)\<rparr>)"

definition delete_completions :: "(completion \<Rightarrow> bool) \<Rightarrow> db \<Rightarrow> db" where
  "delete_completions P d =
     (let gone = map tc_ID (filter P (d_completions d));
          ups = map up_ID (filter (\<lambda>u. up_CompletionID u \<in> set gone) (d_uploads d)) in
      d\<lparr>d_verifications := sql_delete (\<lambda>v. vf_UploadID v \<in> set ups) (d_verifications d),
        d_completions := sql_delete P (d_completions d),
        d_responses := sql_delete (\<lambda>r. tr_CompletionID r \<in> set gone) (d_responses d),
        d_uploads := sql_delete (\<lambda>u. up_CompletionID u \<in> set gone) (d_uploads d)\<rparr>)"

definition forget :: "uuid list \<Rightarrow> uuid option \<Rightarrow> uuid option" where
  "forget gone x = (case x of None \<Rightarrow> None | Some i \<Rightarrow> if i \<in> set gone then None else Some i)"

definition delete_users :: "(user \<Rightarrow> bool) \<Rightarrow> db \<Rightarrow> db" where
  "delete_users P d0 =
     (let gone = map u_ID (filter P (d_users d0));
          trips = map tv_ID (filter (\<lambda>x. tv_UserID x \<in> set gone) (d_trips d0));
          posts = map wp_ID (filter (\<lambda>x. wp_CreatedByUserID x \<in> set gone) (d_wiki_posts d0));
          d1 = delete_sessions (\<lambda>s. case s_UserID s of None \<Rightarrow> False | Some u \<Rightarrow> u \<in> set gone) d0;
          d = delete_completions (\<lambda>c. tc_UserID c \<in> set gone) d1 in
      d\<lparr>d_users := sql_delete P (d_users d),
        d_members := sql_delete (\<lambda>m. fst m \<in> set gone) (d_members d),
        d_suborgs := map (\<lambda>s. s\<lparr>so_PrimaryFSOUserID := forget gone (so_PrimaryFSOUserID s)\<rparr>) (d_suborgs d),
        d_tasks := map (\<lambda>t. t\<lparr>tk_CreatedByUserID := forget gone (tk_CreatedByUserID t)\<rparr>) (d_tasks d),
        d_completions := map (\<lambda>c. c\<lparr>tc_ReviewedBy := forget gone (tc_ReviewedBy c)\<rparr>) (d_completions d),
        d_ai_usage := sql_delete (\<lambda>a. au_UserID a \<in> set gone) (d_ai_usage d),
        d_reports := map (\<lambda>x. x\<lparr>le_ReviewedBy := forget gone (le_ReviewedBy x)\<rparr>)
          (sql_delete (\<lambda>x. le_CreatedByUserID x \<in> set gone) (d_reports d)),
        d_visits := map (\<lambda>x. x\<lparr>vi_ReviewedBy := forget gone (vi_ReviewedBy x)\<rparr>)
          (sql_delete (\<lambda>x. vi_CreatedByUserID x \<in> set gone) (d_visits d)),
        d_trips := map (\<lambda>x. x\<lparr>tv_ReviewedBy := forget gone (tv_ReviewedBy x)\<rparr>)
          (sql_delete (\<lambda>x. tv_UserID x \<in> set gone) (d_trips d)),
        d_countries := sql_delete (\<lambda>x. cy_ReportID x \<in> set trips) (d_countries d),
        d_trip_uploads := sql_delete (\<lambda>x. tl_ReportID x \<in> set trips) (d_trip_uploads d),
        d_debriefs := sql_delete (\<lambda>x. de_ReportID x \<in> set trips \<or> de_UserID x \<in> set gone) (d_debriefs d),
        d_clearances := sql_delete (\<lambda>x. cr_UserID x \<in> set gone) (d_clearances d),
        d_dd254_access := sql_delete (\<lambda>x. da_UserID x \<in> set gone) (d_dd254_access d),
        d_chat := sql_delete (\<lambda>x. ch_UserID x \<in> set gone) (d_chat d),
        d_user_settings := sql_delete (\<lambda>x. pf_UserID x \<in> set gone) (d_user_settings d),
        d_wiki_posts := sql_delete (\<lambda>x. wp_CreatedByUserID x \<in> set gone) (d_wiki_posts d),
        d_wiki_files := sql_delete (\<lambda>x. wf_PostID x \<in> set posts) (d_wiki_files d),
        d_action_items := map (\<lambda>a. a\<lparr>ai_AssignedTo := forget gone (ai_AssignedTo a)\<rparr>) (d_action_items d)\<rparr>)"

text \<open>References without a referential action: the user who gave feedback on a verification,
  recorded a clearance, uploaded a contract or read somebody on to it, and the request a visit
  request was cloned from. A user whom a row surviving the cascade refers to, directly or
  through a visit request that goes, cannot be deleted.\<close>

definition users_removable :: "(user \<Rightarrow> bool) \<Rightarrow> db \<Rightarrow> bool" where
  "users_removable P d =
     (let gone = map u_ID (filter P (d_users d)); d1 = delete_users P d;
          left = map vi_ID (d_visits d1); visits = filter (\<lambda>i. i \<notin> set left) (map vi_ID (d_visits d));
          recs = map cr_ID (d_clearances d1); cleared = filter (\<lambda>i. i \<notin> set recs) (map cr_ID (d_clearances d)) in
      \<not> list_ex (\<lambda>v. case vf_AdminFeedbackBy v of None \<Rightarrow> False | Some u \<Rightarrow> u \<in> set gone) (d_verifications d1) \<and>
      \<not> list_ex (\<lambda>x. cr_RecordedBy x \<in> set gone) (d_clearances d1) \<and>
      \<not> list_ex (\<lambda>x. dd_UploadedBy x \<in> set gone) (d_dd254 d1) \<and>
      \<not> list_ex (\<lambda>x. da_AddedBy x \<in> set gone) (d_dd254_access d1) \<and>
      \<not> list_ex (\<lambda>x. case vi_ClonedFromID x of None \<Rightarrow> False | Some i \<Rightarrow> i \<in> set visits) (d_visits d1) \<and>
      \<not> list_ex (\<lambda>u. case u_CurrentClearanceID u of None \<Rightarrow> False | Some i \<Rightarrow> i \<in> set cleared) (d_users d1))"

definition delete_identity :: "uuid \<Rightarrow> db \<Rightarrow> db" where
  "delete_identity i d0 =
     (let d = delete_sessions (\<lambda>s. s_IdentityID s = i) (delete_users (\<lambda>u. u_IdentityID u = i) d0) in
      d\<lparr>d_identities := sql_delete (\<lambda>r. i_ID r = i) (d_identities d),
        d_codes := sql_delete (\<lambda>c. c_IdentityID c = i) (d_codes d),
        d_totp := sql_delete (\<lambda>t. ts_IdentityID t = i) (d_totp d),
        d_passkeys := sql_delete (\<lambda>p. pk_IdentityID p = i) (d_passkeys d),
        d_sessions := map (\<lambda>s. s\<lparr>s_RevokedBy := forget [i] (s_RevokedBy s)\<rparr>) (d_sessions d),
        d_audit := map (\<lambda>a. a\<lparr>a_IdentityID := forget [i] (a_IdentityID a)\<rparr>) (d_audit d)\<rparr>)"

definition delete_suborgs :: "(suborg \<Rightarrow> bool) \<Rightarrow> db \<Rightarrow> db" where
  "delete_suborgs P d =
     (let gone = map so_ID (filter P (d_suborgs d)) in
      d\<lparr>d_suborgs := sql_delete P (d_suborgs d),
        d_members := sql_delete (\<lambda>m. snd m \<in> set gone) (d_members d),
        d_sessions := map (\<lambda>s. s\<lparr>s_SubOrgID := forget gone (s_SubOrgID s)\<rparr>) (d_sessions d),
        d_tasks := map (\<lambda>t. t\<lparr>tk_SubOrgID := forget gone (tk_SubOrgID t)\<rparr>) (d_tasks d),
        d_reports := map (\<lambda>x. x\<lparr>le_SubOrgID := forget gone (le_SubOrgID x)\<rparr>) (d_reports d),
        d_visits := map (\<lambda>x. x\<lparr>vi_SubOrgID := forget gone (vi_SubOrgID x)\<rparr>) (d_visits d),
        d_trips := map (\<lambda>x. x\<lparr>tv_SubOrgID := forget gone (tv_SubOrgID x)\<rparr>) (d_trips d),
        d_dd254 := map (\<lambda>x. x\<lparr>dd_SubOrgID := forget gone (dd_SubOrgID x)\<rparr>) (d_dd254 d),
        d_wiki_posts := map (\<lambda>x. x\<lparr>wp_SubOrgID := forget gone (wp_SubOrgID x)\<rparr>) (d_wiki_posts d),
        d_action_items := map (\<lambda>a. a\<lparr>ai_SubOrgID := forget gone (ai_SubOrgID a)\<rparr>) (d_action_items d)\<rparr>)"

definition Identity_Delete :: "faults \<Rightarrow> uuid \<Rightarrow> db \<Rightarrow> (db, unit) store_result" where
  [store_defs]: "Identity_Delete flt i d =
     (if flt ''identity.Delete'' 0 \<or> \<not> users_removable (\<lambda>u. u_IdentityID u = i) d then (d, Inl (Fault ''identity.Delete''))
      else if sql_exists (\<lambda>r. i_ID r = i) (d_identities d) then (delete_identity i d, Inr ())
      else (d, Inl ErrNotFound))"

subsection \<open>Memberships as login sees them\<close>

record user_with_tenant =
  uw_UserID :: uuid
  uw_UserName :: string
  uw_UserRole :: string
  uw_TenantName :: string
  uw_SubOrgID :: "uuid option"

record tenant_membership =
  tm_TenantID :: uuid
  tm_Name :: string
  tm_Role :: string
  tm_Suspended :: bool

definition user_tenant_row :: "db \<Rightarrow> user \<Rightarrow> uuid option \<Rightarrow> user_with_tenant option" where
  "user_tenant_row d u so = (case (tenant_by d (u_TenantID u), identity_by d (u_IdentityID u)) of
     (Some t, Some i) \<Rightarrow> Some \<lparr>uw_UserID = u_ID u, uw_UserName = i_Name i, uw_UserRole = u_Role u,
                               uw_TenantName = tn_Name t, uw_SubOrgID = so\<rparr>
   | _ \<Rightarrow> None)"

definition GetUserWithTenant :: "faults \<Rightarrow> uuid \<Rightarrow> db \<Rightarrow> err + user_with_tenant" where
  [store_defs]: "GetUserWithTenant flt userID d =
     (if flt ''auth.GetUserWithTenant'' 0 then Inl (Fault ''auth.GetUserWithTenant'')
      else case Option.bind (user_by d userID) (\<lambda>u. user_tenant_row d u None) of
        None \<Rightarrow> Inl ErrNoRows | Some u \<Rightarrow> Inr u)"

text \<open>An administrator has no sub-organization scope; everyone else has one of theirs.\<close>

definition GetUserInTenant :: "faults \<Rightarrow> uuid \<Rightarrow> uuid \<Rightarrow> db \<Rightarrow> err + user_with_tenant" where
  [store_defs]: "GetUserInTenant flt identityID tenantID d =
     (if flt ''auth.GetUserInTenant'' 0 then Inl (Fault ''auth.GetUserInTenant'')
      else case Option.bind (sql_row (\<lambda>u. u_IdentityID u = identityID \<and> u_TenantID u = tenantID) (d_users d))
                  (\<lambda>u. user_tenant_row d u
                     (if u_Role u = ''administrator'' then None else suborg_of_user d (u_ID u))) of
        None \<Rightarrow> Inl ErrNoRows | Some u \<Rightarrow> Inr u)"

definition ListTenantsByIdentity :: "(string \<Rightarrow> 'k::linorder) \<Rightarrow> faults \<Rightarrow> uuid \<Rightarrow> db \<Rightarrow> err + tenant_membership list" where
  [store_defs]: "ListTenantsByIdentity coll flt identityID d =
     (if flt ''auth.ListTenantsByIdentity'' 0 then Inl (Fault ''auth.ListTenantsByIdentity'')
      else Inr (sort_key (\<lambda>m. coll (tm_Name m)) (List.map_filter
        (\<lambda>u. if u_IdentityID u = identityID then
               (case tenant_by d (u_TenantID u) of
                  Some t \<Rightarrow> if tn_DeletedAt t = None
                     then Some \<lparr>tm_TenantID = tn_ID t, tm_Name = tn_Name t, tm_Role = u_Role u,
                                tm_Suspended = (tn_SuspendedAt t \<noteq> None)\<rparr> else None
                | None \<Rightarrow> None) else None) (d_users d))))"

definition Auth_GetUserRole :: "faults \<Rightarrow> uuid \<Rightarrow> db \<Rightarrow> err + string" where
  [store_defs]: "Auth_GetUserRole flt userID d =
     (if flt ''auth.GetUserRole'' 0 then Inl (Fault ''auth.GetUserRole'')
      else case user_by d userID of None \<Rightarrow> Inl ErrNoRows | Some u \<Rightarrow> Inr (u_Role u))"

definition IsTenantSuspended :: "faults \<Rightarrow> uuid \<Rightarrow> db \<Rightarrow> err + bool" where
  [store_defs]: "IsTenantSuspended flt tenantID d =
     (if flt ''auth.IsTenantSuspended'' 0 then Inl (Fault ''auth.IsTenantSuspended'')
      else case sql_row (\<lambda>t. tn_ID t = tenantID \<and> tn_DeletedAt t = None) (d_tenants d) of
        None \<Rightarrow> Inl ErrNoRows | Some t \<Rightarrow> Inr (tn_SuspendedAt t \<noteq> None))"

subsection \<open>Single sign-on options\<close>

definition sso_open :: "db \<Rightarrow> uuid \<Rightarrow> string option" where
  "sso_open d tenantID = (case tenant_by d tenantID of
     Some t \<Rightarrow> if tn_DeletedAt t = None \<and> tn_SuspendedAt t = None then Some (tn_Name t) else None
   | None \<Rightarrow> None)"

definition sso_option :: "string \<Rightarrow> string \<times> string" where
  "sso_option name = (name, ''/api/auth/sso/'' @ name)"

definition ListSSOByIdentity :: "faults \<Rightarrow> uuid \<Rightarrow> db \<Rightarrow> err + (string \<times> string) list" where
  [store_defs]: "ListSSOByIdentity flt identityID d =
     (if flt ''auth.ListSSOByIdentity'' 0 then Inl (Fault ''auth.ListSSOByIdentity'')
      else Inr (concat (map (\<lambda>c. if \<not> sc_Enabled c then [] else
        (case sso_open d (sc_TenantID c) of None \<Rightarrow> []
         | Some name \<Rightarrow> map (\<lambda>_. sso_option name)
             (filter (\<lambda>u. u_TenantID u = sc_TenantID c \<and> u_IdentityID u = identityID) (d_users d)))) (d_sso_configs d))))"

definition ListSSOByEmailDomain :: "faults \<Rightarrow> string \<Rightarrow> db \<Rightarrow> err + (string \<times> string) list" where
  [store_defs]: "ListSSOByEmailDomain flt domain d =
     (if flt ''auth.ListSSOByEmailDomain'' 0 then Inl (Fault ''auth.ListSSOByEmailDomain'')
      else Inr (concat (map (\<lambda>e. if ed_Domain e \<noteq> domain then [] else
        concat (map (\<lambda>c. if sc_ID c = ed_SSOConfigurationID e \<and> sc_Enabled c
                     then (case sso_open d (sc_TenantID c) of None \<Rightarrow> [] | Some name \<Rightarrow> [sso_option name]) else [])
          (d_sso_configs d))) (d_sso_domains d))))"

definition HasEnabledSSODomain :: "(string \<Rightarrow> string) \<Rightarrow> faults \<Rightarrow> uuid \<Rightarrow> string \<Rightarrow> db \<Rightarrow> err + bool" where
  [store_defs]: "HasEnabledSSODomain lower flt tenantID domain d =
     (if flt ''auth.HasEnabledSSODomain'' 0 then Inl (Fault ''auth.HasEnabledSSODomain'')
      else Inr (list_ex (\<lambda>e. lower (ed_Domain e) = lower domain \<and>
        list_ex (\<lambda>c. sc_ID c = ed_SSOConfigurationID e \<and> sc_TenantID c = tenantID \<and> sc_Enabled c) (d_sso_configs d)) (d_sso_domains d)))"

subsection \<open>Tenants\<close>

definition Auth_CreateTenant :: "faults \<Rightarrow> time \<Rightarrow> uuid \<Rightarrow> uuid \<Rightarrow> string \<Rightarrow> db \<Rightarrow> (db, tenant) store_result" where
  \<comment> \<open>the second id is that of the sub-organization the trigger inserts\<close>
  [store_defs]: "Auth_CreateTenant flt now i so name d =
     (if flt ''auth.CreateTenant'' 0 then (d, Inl (Fault ''auth.CreateTenant''))
      else let t = \<lparr>tn_ID = i, tn_Name = name, tn_CreatedAt = now, tn_UpdatedAt = now,
                    tn_SuspendedAt = None, tn_DeletedAt = None\<rparr>
        in (d\<lparr>d_tenants := d_tenants d @ [t],
              d_suborgs := d_suborgs d @ [\<lparr>so_ID = so, so_TenantID = i, so_Name = ''Default'',
                so_PrimaryFSOUserID = None, so_CreatedAt = now, so_UpdatedAt = now\<rparr>]\<rparr>, Inr t))"

definition on_tenants ::
  "faults \<Rightarrow> string \<Rightarrow> string \<Rightarrow> time \<Rightarrow> (tenant \<Rightarrow> bool) \<Rightarrow> (tenant \<Rightarrow> tenant) \<Rightarrow> db \<Rightarrow> (db, unit) store_result" where
  [store_defs]: "on_tenants flt q missing now P f d =
     (case done_some (ErrMsg missing) (exec_update flt q P (\<lambda>t. (f t)\<lparr>tn_UpdatedAt := now\<rparr>) (d_tenants d)) of
        (t, res) \<Rightarrow> (d\<lparr>d_tenants := t\<rparr>, res))"

definition Auth_UpdateTenant :: "faults \<Rightarrow> time \<Rightarrow> uuid \<Rightarrow> string \<Rightarrow> db \<Rightarrow> (db, unit) store_result" where
  [store_defs]: "Auth_UpdateTenant flt now i name =
     on_tenants flt ''auth.UpdateTenant'' ''auth store update tenant: not found'' now
       (\<lambda>t. tn_ID t = i \<and> tn_DeletedAt t = None) (\<lambda>t. t\<lparr>tn_Name := name\<rparr>)"

definition Auth_DeleteTenant :: "faults \<Rightarrow> time \<Rightarrow> uuid \<Rightarrow> db \<Rightarrow> (db, unit) store_result" where
  [store_defs]: "Auth_DeleteTenant flt now i =
     on_tenants flt ''auth.DeleteTenant'' ''auth store delete tenant: not found'' now
       (\<lambda>t. tn_ID t = i \<and> tn_DeletedAt t = None) (\<lambda>t. t\<lparr>tn_DeletedAt := Some now\<rparr>)"

definition Auth_SuspendTenant :: "faults \<Rightarrow> time \<Rightarrow> uuid \<Rightarrow> db \<Rightarrow> (db, unit) store_result" where
  [store_defs]: "Auth_SuspendTenant flt now i =
     on_tenants flt ''auth.SuspendTenant'' ''auth store suspend tenant: not found or already suspended'' now
       (\<lambda>t. tn_ID t = i \<and> tn_DeletedAt t = None \<and> tn_SuspendedAt t = None) (\<lambda>t. t\<lparr>tn_SuspendedAt := Some now\<rparr>)"

definition Auth_UnsuspendTenant :: "faults \<Rightarrow> time \<Rightarrow> uuid \<Rightarrow> db \<Rightarrow> (db, unit) store_result" where
  [store_defs]: "Auth_UnsuspendTenant flt now i =
     on_tenants flt ''auth.UnsuspendTenant'' ''auth store unsuspend tenant: not found or not suspended'' now
       (\<lambda>t. tn_ID t = i \<and> tn_DeletedAt t = None \<and> tn_SuspendedAt t \<noteq> None) (\<lambda>t. t\<lparr>tn_SuspendedAt := None\<rparr>)"

subsection \<open>Members\<close>

text \<open>\<^verbatim>\<open>INSERT INTO user_suborganizations ... ON CONFLICT DO NOTHING\<close>\<close>

definition insert_members :: "(uuid \<times> uuid) list \<Rightarrow> (uuid \<times> uuid) list \<Rightarrow> (uuid \<times> uuid) list" where
  "insert_members new t = fold (\<lambda>m t. if m \<in> set t then t else t @ [m]) new t"

definition default_suborgs :: "db \<Rightarrow> uuid \<Rightarrow> uuid list" where
  "default_suborgs d tenantID =
     map so_ID (filter (\<lambda>s. so_TenantID s = tenantID \<and> so_Name s = ''Default'') (d_suborgs d))"

definition AddIdentityToTenant ::
  "faults \<Rightarrow> time \<Rightarrow> uuid \<Rightarrow> uuid \<Rightarrow> uuid \<Rightarrow> string \<Rightarrow> db \<Rightarrow> (db, uuid) store_result" where
  [store_defs]: "AddIdentityToTenant flt now i identityID tenantID role d =
     (if flt ''auth.AddIdentityToTenant'' 0 \<or> \<not> role_check role \<or>
         identity_by d identityID = None \<or> tenant_by d tenantID = None \<or>
         sql_exists (\<lambda>u. u_IdentityID u = identityID \<and> u_TenantID u = tenantID) (d_users d)
      then (d, Inl (Fault ''auth.AddIdentityToTenant''))
      else (d\<lparr>d_users := d_users d @ [\<lparr>u_ID = i, u_TenantID = tenantID, u_Role = role,
                u_IdentityID = identityID,
                u_CurrentClearanceID = None, u_CreatedAt = now, u_UpdatedAt = now\<rparr>],
              d_members := insert_members (map (\<lambda>s. (i, s)) (default_suborgs d tenantID)) (d_members d)\<rparr>, Inr i))"

definition UpdateMemberRole :: "faults \<Rightarrow> time \<Rightarrow> uuid \<Rightarrow> uuid \<Rightarrow> string \<Rightarrow> db \<Rightarrow> (db, unit) store_result" where
  [store_defs]: "UpdateMemberRole flt now userID tenantID role d =
     (let P = (\<lambda>u. u_ID u = userID \<and> u_TenantID u = tenantID) in
      if \<not> role_check role \<and> sql_exists P (d_users d) then (d, Inl (Fault ''auth.UpdateMemberRole''))
      else case done_some (ErrMsg ''auth update member role: not found'')
              (exec_update flt ''auth.UpdateMemberRole'' P (\<lambda>u. u\<lparr>u_Role := role, u_UpdatedAt := now\<rparr>) (d_users d)) of
        (t, res) \<Rightarrow> (d\<lparr>d_users := t\<rparr>, res))"

text \<open>\<^verbatim>\<open>RemoveMember\<close>: look up, delete the membership, then the identity when it is left
  without memberships and is no super admin. A failing count ends the operation with success.\<close>

definition orphan_error :: "err" where
  "orphan_error = ErrMsg ''auth remove member: orphan identity cleanup''"

definition remove_orphan :: "faults \<Rightarrow> uuid \<Rightarrow> db \<Rightarrow> (db, unit) store_result" where
  [store_defs]: "remove_orphan flt identityID d =
     (if flt ''auth.RemoveMember.countRemaining'' 0 then (d, Inr ())
      else case identity_by d identityID of
        None \<Rightarrow> (d, Inr ())
      | Some i \<Rightarrow>
          if sql_affected (\<lambda>u. u_IdentityID u = identityID) (d_users d) = 0 \<and> \<not> i_IsSuperAdmin i
          then (if flt ''auth.RemoveMember.deleteIdentity'' 0 then (d, Inl orphan_error)
                else (delete_identity identityID d, Inr ()))
          else (d, Inr ()))"

definition RemoveMember :: "faults \<Rightarrow> uuid \<Rightarrow> uuid \<Rightarrow> db \<Rightarrow> (db, unit) store_result" where
  [store_defs]: "RemoveMember flt userID tenantID d =
     (let P = (\<lambda>u. u_ID u = userID \<and> u_TenantID u = tenantID) in
      if flt ''auth.RemoveMember.lookupIdentity'' 0 then (d, Inl ErrMemberNotFound)
      else case sql_row P (d_users d) of
        None \<Rightarrow> (d, Inl ErrMemberNotFound)
      | Some u \<Rightarrow>
          if flt ''auth.RemoveMember'' 0 \<or> \<not> users_removable P d then (d, Inl (Fault ''auth.RemoveMember''))
          else remove_orphan flt (u_IdentityID u) (delete_users P d))"

definition IsOrphanCleanupError :: "err \<Rightarrow> bool" where
  "IsOrphanCleanupError e = (case e of ErrMsg s \<Rightarrow> sublist ''orphan identity cleanup'' s | _ \<Rightarrow> False)"

subsection \<open>Sub-organizations\<close>

definition SubOrg_SetPrimaryFSO ::
  "faults \<Rightarrow> time \<Rightarrow> uuid \<Rightarrow> uuid \<Rightarrow> uuid option \<Rightarrow> db \<Rightarrow> (db, unit) store_result" where
  [store_defs]: "SubOrg_SetPrimaryFSO flt now tenantID subOrgID userID d =
     (let P = (\<lambda>s. so_ID s = subOrgID \<and> so_TenantID s = tenantID) in
      if sql_exists P (d_suborgs d) \<and> (case userID of None \<Rightarrow> False | Some u \<Rightarrow> user_by d u = None)
      then (d, Inl (Fault ''suborg.SetPrimaryFSO''))  \<comment> \<open>foreign key\<close>
      else case done_some ErrNotFound (exec_update flt ''suborg.SetPrimaryFSO'' P
             (\<lambda>s. s\<lparr>so_PrimaryFSOUserID := userID, so_UpdatedAt := now\<rparr>) (d_suborgs d)) of
        (t, res) \<Rightarrow> (d\<lparr>d_suborgs := t\<rparr>, res))"

definition SubOrg_GetPrimaryFSO :: "faults \<Rightarrow> uuid \<Rightarrow> uuid \<Rightarrow> db \<Rightarrow> err + string \<times> string" where
  [store_defs]: "SubOrg_GetPrimaryFSO flt tenantID userID d =
     (if flt ''suborg.GetPrimaryFSO'' 0 then Inl (Fault ''suborg.GetPrimaryFSO'')
      else case List.map_filter (\<lambda>(u, s). if u \<noteq> userID then None else
             (case suborg_by d s of None \<Rightarrow> None
              | Some so \<Rightarrow> if so_TenantID so \<noteq> tenantID then None else
                  (case Option.bind (so_PrimaryFSOUserID so) (contact_of d) of None \<Rightarrow> None
                   | Some (_, i) \<Rightarrow> Some (i_Name i, i_Email i)))) (d_members d) of
        [] \<Rightarrow> Inl ErrNotFound | c # _ \<Rightarrow> Inr c)"

text \<open>No constraint makes sub-organization names unique, so the \<^verbatim>\<open>23505\<close> branches
  (\<open>ErrNameTaken\<close>) of the code are not reachable.\<close>

definition SubOrg_Create :: "faults \<Rightarrow> time \<Rightarrow> uuid \<Rightarrow> uuid \<Rightarrow> string \<Rightarrow> db \<Rightarrow> (db, suborg) store_result" where
  [store_defs]: "SubOrg_Create flt now i tenantID name d =
     (if flt ''suborg.Create'' 0 \<or> tenant_by d tenantID = None then (d, Inl (Fault ''suborg.Create''))
      else let s = \<lparr>so_ID = i, so_TenantID = tenantID, so_Name = name, so_PrimaryFSOUserID = None,
                    so_CreatedAt = now, so_UpdatedAt = now\<rparr>
        in (d\<lparr>d_suborgs := d_suborgs d @ [s]\<rparr>, Inr s))"

definition SubOrg_Update :: "faults \<Rightarrow> time \<Rightarrow> uuid \<Rightarrow> uuid \<Rightarrow> string \<Rightarrow> db \<Rightarrow> (db, unit) store_result" where
  [store_defs]: "SubOrg_Update flt now tenantID i name d =
     (case done_some ErrNotFound (exec_update flt ''suborg.Update'' (\<lambda>s. so_ID s = i \<and> so_TenantID s = tenantID)
             (\<lambda>s. s\<lparr>so_Name := name, so_UpdatedAt := now\<rparr>) (d_suborgs d)) of
        (t, res) \<Rightarrow> (d\<lparr>d_suborgs := t\<rparr>, res))"

definition SubOrg_Delete ::
  "(string \<Rightarrow> string) \<Rightarrow> faults \<Rightarrow> uuid \<Rightarrow> uuid \<Rightarrow> db \<Rightarrow> (db, unit) store_result" where
  [store_defs]: "SubOrg_Delete casefold flt tenantID i d =
     (let P = (\<lambda>s. so_ID s = i \<and> so_TenantID s = tenantID) in
      if flt ''suborg.Delete.getName'' 0 then (d, Inl (Fault ''suborg.Delete.getName''))
      else case sql_row P (d_suborgs d) of
        None \<Rightarrow> (d, Inl ErrNotFound)
      | Some s \<Rightarrow>
          if casefold (so_Name s) = casefold ''Default'' then (d, Inl ErrDefaultLocked)
          else if flt ''suborg.Delete.moveMembers'' 0 then (d, Inl (Fault ''suborg.Delete.moveMembers''))
          else let moved = concat (map (\<lambda>m. if snd m = i then map (Pair (fst m)) (default_suborgs d tenantID) else [])
                             (d_members d));
                   d1 = d\<lparr>d_members := insert_members moved (d_members d)\<rparr> in
            if flt ''suborg.Delete'' 0 then (d1, Inl (Fault ''suborg.Delete''))
            else (delete_suborgs P d1, Inr ()))"

definition SubOrg_SetUserSubOrg :: "faults \<Rightarrow> uuid \<Rightarrow> uuid \<Rightarrow> uuid \<Rightarrow> db \<Rightarrow> (db, unit) store_result" where
  [store_defs]: "SubOrg_SetUserSubOrg flt tenantID userID subOrgID d =
     (if flt ''suborg.SetUserSubOrg.check'' 0 then (d, Inl (Fault ''suborg.SetUserSubOrg.check''))
      else if \<not> sql_exists (\<lambda>s. so_ID s = subOrgID \<and> so_TenantID s = tenantID) (d_suborgs d) then (d, Inl ErrNotFound)
      else if flt ''suborg.SetUserSubOrg.remove'' 0 then (d, Inl (Fault ''suborg.SetUserSubOrg.remove''))
      else let inTenant = map so_ID (filter (\<lambda>s. so_TenantID s = tenantID) (d_suborgs d));
               d1 = d\<lparr>d_members := sql_delete (\<lambda>m. fst m = userID \<and> snd m \<in> set inTenant) (d_members d)\<rparr> in
        if flt ''suborg.SetUserSubOrg.add'' 0 \<or> user_by d userID = None
        then (d1, Inl (Fault ''suborg.SetUserSubOrg.add''))
        else (d1\<lparr>d_members := insert_members [(userID, subOrgID)] (d_members d1)\<rparr>, Inr ()))"

definition SubOrg_ListMembers ::
  "(string \<Rightarrow> 'k::linorder) \<Rightarrow> faults \<Rightarrow> uuid \<Rightarrow> uuid \<Rightarrow> db \<Rightarrow> err + (uuid \<times> string \<times> string \<times> string) list" where
  [store_defs]: "SubOrg_ListMembers coll flt tenantID subOrgID d =
     (if flt ''suborg.ListMembers'' 0 then Inl (Fault ''suborg.ListMembers'')
      else Inr (sort_key (\<lambda>(_, name, _). coll name) (List.map_filter
        (\<lambda>(u, s). if s \<noteq> subOrgID then None else
           (case contact_of d u of None \<Rightarrow> None
            | Some (us, i) \<Rightarrow> if u_TenantID us = tenantID then Some (u, i_Name i, i_Email i, u_Role us) else None))
        (d_members d))))"

record suborg_row =
  sr_SubOrg :: suborg
  sr_MemberCount :: nat
  sr_PrimaryFSO :: "(string \<times> string) option"

definition SubOrg_List :: "(string \<Rightarrow> 'k::linorder) \<Rightarrow> faults \<Rightarrow> uuid \<Rightarrow> db \<Rightarrow> err + suborg_row list" where
  [store_defs]: "SubOrg_List coll flt tenantID d =
     (if flt ''suborg.List'' 0 then Inl (Fault ''suborg.List'')
      else Inr (sort_key (\<lambda>r. so_Name (sr_SubOrg r) \<noteq> ''Default'') (sort_key (\<lambda>r. coll (so_Name (sr_SubOrg r)))
        (map (\<lambda>s. \<lparr>sr_SubOrg = s, sr_MemberCount = sql_affected (\<lambda>m. snd m = so_ID s) (d_members d),
                    sr_PrimaryFSO = map_option (\<lambda>(_, i). (i_Name i, i_Email i))
                      (Option.bind (so_PrimaryFSOUserID s) (contact_of d))\<rparr>)
          (filter (\<lambda>s. so_TenantID s = tenantID) (d_suborgs d))))))"

subsection \<open>What the referential actions do\<close>

lemma delete_sessions_simps [simp]:
  "d_sessions (delete_sessions P d) = sql_delete P (d_sessions d)"
  "d_users (delete_sessions P d) = d_users d"
  "d_identities (delete_sessions P d) = d_identities d"
  "d_members (delete_sessions P d) = d_members d"
  "d_suborgs (delete_sessions P d) = d_suborgs d"
  "d_tenants (delete_sessions P d) = d_tenants d"
  "d_codes (delete_sessions P d) = d_codes d"
  "d_totp (delete_sessions P d) = d_totp d"
  "d_passkeys (delete_sessions P d) = d_passkeys d"
  "d_completions (delete_sessions P d) = d_completions d"
  by (simp_all add: delete_sessions_def Let_def)

lemma delete_completions_simps [simp]:
  "d_sessions (delete_completions P d) = d_sessions d"
  "d_users (delete_completions P d) = d_users d"
  "d_identities (delete_completions P d) = d_identities d"
  "d_members (delete_completions P d) = d_members d"
  "d_suborgs (delete_completions P d) = d_suborgs d"
  "d_tenants (delete_completions P d) = d_tenants d"
  "d_codes (delete_completions P d) = d_codes d"
  "d_totp (delete_completions P d) = d_totp d"
  "d_passkeys (delete_completions P d) = d_passkeys d"
  "d_completions (delete_completions P d) = sql_delete P (d_completions d)"
  by (simp_all add: delete_completions_def Let_def)

lemma delete_users_simps [simp]:
  "d_users (delete_users P d) = sql_delete P (d_users d)"
  "d_identities (delete_users P d) = d_identities d"
  "d_tenants (delete_users P d) = d_tenants d"
  "d_codes (delete_users P d) = d_codes d"
  "d_totp (delete_users P d) = d_totp d"
  "d_passkeys (delete_users P d) = d_passkeys d"
  by (simp_all add: delete_users_def Let_def)

lemma delete_users_sessions:
  "s \<in> set (d_sessions (delete_users P d)) \<longleftrightarrow>
     s \<in> set (d_sessions d) \<and> (\<forall>u \<in> set (d_users d). P u \<longrightarrow> s_UserID s \<noteq> Some (u_ID u))"
  by (auto simp: delete_users_def Let_def split: option.splits)

lemma delete_users_members:
  "m \<in> set (d_members (delete_users P d)) \<longleftrightarrow>
     m \<in> set (d_members d) \<and> (\<forall>u \<in> set (d_users d). P u \<longrightarrow> fst m \<noteq> u_ID u)"
  by (auto simp: delete_users_def Let_def)

lemma delete_identity_facts:
  "d_identities (delete_identity i d) = sql_delete (\<lambda>r. i_ID r = i) (d_identities d)"
  "d_users (delete_identity i d) = sql_delete (\<lambda>u. u_IdentityID u = i) (d_users d)"
  "d_codes (delete_identity i d) = sql_delete (\<lambda>c. c_IdentityID c = i) (d_codes d)"
  "d_totp (delete_identity i d) = sql_delete (\<lambda>t. ts_IdentityID t = i) (d_totp d)"
  "d_passkeys (delete_identity i d) = sql_delete (\<lambda>p. pk_IdentityID p = i) (d_passkeys d)"
  "s \<in> set (d_sessions (delete_identity i d)) \<Longrightarrow> s_IdentityID s \<noteq> i \<and> (\<exists>s0 \<in> set (d_sessions d). s_UserID s = s_UserID s0)"
  "d_members (delete_identity i d) = d_members (delete_users (\<lambda>u. u_IdentityID u = i) d)"
  by (auto simp: delete_identity_def Let_def delete_users_sessions)

lemma delete_identity_sessions_user:
  "s \<in> set (d_sessions (delete_identity i d)) \<Longrightarrow> (\<forall>s \<in> set (d_sessions d). s_UserID s \<noteq> Some u) \<Longrightarrow> s_UserID s \<noteq> Some u"
  using delete_identity_facts(6) [of s i d] by metis

lemma identity_by_Some: "identity_by d i = Some r \<Longrightarrow> r \<in> set (d_identities d) \<and> i_ID r = i"
  by (auto simp: identity_by_def dest: sql_row_Some)

lemma user_by_Some: "user_by d i = Some r \<Longrightarrow> r \<in> set (d_users d) \<and> u_ID r = i"
  by (auto simp: user_by_def dest: sql_row_Some)

subsection \<open>Removing a member\<close>

lemma remove_orphan_cases:
  assumes "remove_orphan flt idn d = (d', Inr ())"
  shows "(d' = d \<or> d' = delete_identity idn d) \<and>
    (d' = d \<or> (\<forall>u \<in> set (d_users d). u_IdentityID u \<noteq> idn)) \<and>
    (\<not> flt ''auth.RemoveMember.countRemaining'' 0 \<longrightarrow> (\<forall>u \<in> set (d_users d). u_IdentityID u \<noteq> idn) \<longrightarrow>
       (\<exists>i. identity_by d idn = Some i \<and> \<not> i_IsSuperAdmin i) \<longrightarrow> d' = delete_identity idn d)"
  using assms by (auto simp: remove_orphan_def sql_affected_0 split: if_splits option.splits)

text \<open>Removing a member removes the person when nothing else holds them: the membership, its
  sessions and its sub-organization entries are gone; if the identity has no other membership
  and is no super admin, the identity itself is gone with all its sessions, tokens and second
  factors; if it has another membership, the identities are untouched.\<close>

theorem remove_member_erases:
  assumes rem: "RemoveMember flt uid tid d = (d', Inr ())" and key: "keyed u_ID (d_users d)"
  shows "\<exists>x \<in> set (d_users d). u_ID x = uid \<and> u_TenantID x = tid \<and>
    (\<forall>y \<in> set (d_users d'). u_ID y \<noteq> uid) \<and>
    (\<forall>s \<in> set (d_sessions d'). s_UserID s \<noteq> Some uid) \<and>
    (\<forall>m \<in> set (d_members d'). fst m \<noteq> uid) \<and>
    ((\<exists>y \<in> set (d_users d). u_IdentityID y = u_IdentityID x \<and> y \<noteq> x) \<longrightarrow> d_identities d' = d_identities d) \<and>
    (\<not> flt ''auth.RemoveMember.countRemaining'' 0 \<longrightarrow>
     (\<forall>y \<in> set (d_users d). u_IdentityID y = u_IdentityID x \<longrightarrow> y = x) \<longrightarrow>
     (\<exists>i. identity_by d (u_IdentityID x) = Some i \<and> \<not> i_IsSuperAdmin i) \<longrightarrow>
       identity_by d' (u_IdentityID x) = None \<and> (\<forall>s \<in> set (d_sessions d'). s_IdentityID s \<noteq> u_IdentityID x) \<and>
       (\<forall>c \<in> set (d_codes d'). c_IdentityID c \<noteq> u_IdentityID x) \<and> (\<forall>t \<in> set (d_totp d'). ts_IdentityID t \<noteq> u_IdentityID x))"
proof -
  let ?P = "\<lambda>u. u_ID u = uid \<and> u_TenantID u = tid"
  from rem obtain x where row: "sql_row ?P (d_users d) = Some x"
    and ro: "remove_orphan flt (u_IdentityID x) (delete_users ?P d) = (d', Inr ())"
    by (auto simp: RemoveMember_def Let_def split: if_splits option.splits)
  let ?d = "delete_users ?P d" and ?idn = "u_IdentityID x"
  from sql_row_Some [OF row] have x: "x \<in> set (d_users d)" "u_ID x = uid" "u_TenantID x = tid" by auto
  have only: "?P y \<longleftrightarrow> y = x" if "y \<in> set (d_users d)" for y
    using keyed_unique [OF key that x(1)] x by auto
  note cases = remove_orphan_cases [OF ro]
  have base: "(\<forall>y \<in> set (d_users ?d). u_ID y \<noteq> uid)" "(\<forall>s \<in> set (d_sessions ?d). s_UserID s \<noteq> Some uid)"
    "(\<forall>m \<in> set (d_members ?d). fst m \<noteq> uid)"
  proof -
    have "u_ID y \<noteq> uid" if "y \<in> set (d_users ?d)" for y
      using that only [of y] keyed_unique [OF key _ x(1), of y] x(2,3) by auto
    then show "\<forall>y \<in> set (d_users ?d). u_ID y \<noteq> uid" by blast
    have Px: "?P x" using x by simp
    have "s_UserID s \<noteq> Some uid" if "s \<in> set (d_sessions ?d)" for s
      using that [unfolded delete_users_sessions, THEN conjunct2, THEN bspec, OF x(1)] Px x(2) by simp
    then show "\<forall>s \<in> set (d_sessions ?d). s_UserID s \<noteq> Some uid" by blast
    have "fst m \<noteq> uid" if "m \<in> set (d_members ?d)" for m
      using that [unfolded delete_users_members, THEN conjunct2, THEN bspec, OF x(1)] Px x(2) by simp
    then show "\<forall>m \<in> set (d_members ?d). fst m \<noteq> uid" by blast
  qed
  have "(\<forall>y \<in> set (d_users d'). u_ID y \<noteq> uid) \<and> (\<forall>s \<in> set (d_sessions d'). s_UserID s \<noteq> Some uid) \<and>
      (\<forall>m \<in> set (d_members d'). fst m \<noteq> uid)"
  proof (cases "d' = ?d")
    case False
    with cases have d': "d' = delete_identity ?idn ?d" by blast
    have "s_UserID s \<noteq> Some uid" if "s \<in> set (d_sessions d')" for s
      using delete_identity_sessions_user [OF that [unfolded d'] base(2)] .
    moreover have "u_ID y \<noteq> uid" if "y \<in> set (d_users d')" for y
      using that base(1) unfolding d' delete_identity_facts(2) in_sql_delete by blast
    moreover have "fst m \<noteq> uid" if "m \<in> set (d_members d')" for m
      using that base(3) unfolding d' delete_identity_facts(7) delete_users_members [of m _ ?d] by blast
    ultimately show ?thesis by blast
  qed (use base in blast)
  moreover have "d_identities d' = d_identities d"
    if "\<exists>y \<in> set (d_users d). u_IdentityID y = ?idn \<and> y \<noteq> x"
  proof -
    from that only have "\<exists>y \<in> set (d_users ?d). u_IdentityID y = ?idn" by auto
    with cases have "d' = ?d" by blast
    then show ?thesis by simp
  qed
  moreover have "identity_by d' ?idn = None \<and> (\<forall>s \<in> set (d_sessions d'). s_IdentityID s \<noteq> ?idn) \<and>
       (\<forall>c \<in> set (d_codes d'). c_IdentityID c \<noteq> ?idn) \<and> (\<forall>t \<in> set (d_totp d'). ts_IdentityID t \<noteq> ?idn)"
    if "\<not> flt ''auth.RemoveMember.countRemaining'' 0" "\<forall>y \<in> set (d_users d). u_IdentityID y = ?idn \<longrightarrow> y = x"
      "\<exists>i. identity_by d ?idn = Some i \<and> \<not> i_IsSuperAdmin i"
  proof -
    have "\<forall>u \<in> set (d_users ?d). u_IdentityID u \<noteq> ?idn"
    proof
      fix u assume "u \<in> set (d_users ?d)"
      then have "u \<in> set (d_users d)" "\<not> ?P u" by simp_all
      with that(2) only [of u] show "u_IdentityID u \<noteq> ?idn" by blast
    qed
    moreover have "identity_by ?d ?idn = identity_by d ?idn" by (simp add: identity_by_def)
    ultimately have d': "d' = delete_identity ?idn ?d" using cases that(1,3) by simp
    show ?thesis unfolding d'
      using delete_identity_facts(6) [of _ ?idn ?d]
      by (auto simp: delete_identity_facts(1,3,4) identity_by_def sql_row_None)
  qed
  ultimately show ?thesis using x by blast
qed

definition demo_db :: db where
  "demo_db = empty_db\<lparr>
     d_identities := [demo_identity],
     d_tenants := [\<lparr>tn_ID = 3, tn_Name = ''Acme'', tn_CreatedAt = 0, tn_UpdatedAt = 0, tn_SuspendedAt = None, tn_DeletedAt = None\<rparr>],
     d_suborgs := [\<lparr>so_ID = 20, so_TenantID = 3, so_Name = ''Default'', so_PrimaryFSOUserID = None, so_CreatedAt = 0, so_UpdatedAt = 0\<rparr>,
                   \<lparr>so_ID = 21, so_TenantID = 3, so_Name = ''Lab'', so_PrimaryFSOUserID = None, so_CreatedAt = 0, so_UpdatedAt = 0\<rparr>],
     d_users := [\<lparr>u_ID = 5, u_TenantID = 3, u_Role = ''fso'', u_IdentityID = 7, u_CurrentClearanceID = None, u_CreatedAt = 0, u_UpdatedAt = 0\<rparr>],
     d_members := [(5, 21)],
     d_sessions := [(session_row 1 0 demo_params)\<lparr>s_TenantID := Some 3, s_UserID := Some 5, s_SubOrgID := Some 21,
        s_UserRole := Some ''fso'', s_State := Authenticated\<rparr>]\<rparr>"

lemma demo_db_simps [simp]:
  "d_identities demo_db = [demo_identity]"
  "d_tenants demo_db = [\<lparr>tn_ID = 3, tn_Name = ''Acme'', tn_CreatedAt = 0, tn_UpdatedAt = 0, tn_SuspendedAt = None, tn_DeletedAt = None\<rparr>]"
  "d_suborgs demo_db = [\<lparr>so_ID = 20, so_TenantID = 3, so_Name = ''Default'', so_PrimaryFSOUserID = None, so_CreatedAt = 0, so_UpdatedAt = 0\<rparr>,
                   \<lparr>so_ID = 21, so_TenantID = 3, so_Name = ''Lab'', so_PrimaryFSOUserID = None, so_CreatedAt = 0, so_UpdatedAt = 0\<rparr>]"
  "d_users demo_db = [\<lparr>u_ID = 5, u_TenantID = 3, u_Role = ''fso'', u_IdentityID = 7, u_CurrentClearanceID = None, u_CreatedAt = 0, u_UpdatedAt = 0\<rparr>]"
  "d_members demo_db = [(5, 21)]"
  "d_sessions demo_db = [(session_row 1 0 demo_params)\<lparr>s_TenantID := Some 3, s_UserID := Some 5, s_SubOrgID := Some 21,
        s_UserRole := Some ''fso'', s_State := Authenticated\<rparr>]"
  "d_codes demo_db = []" "d_totp demo_db = []" "d_passkeys demo_db = []" "d_audit demo_db = []"
  "d_tasks demo_db = []" "d_completions demo_db = []" "d_action_items demo_db = []"
  "d_requirements demo_db = []" "d_rules demo_db = []" "d_responses demo_db = []" "d_uploads demo_db = []"
  "d_outbox demo_db = []" "d_verifications demo_db = []" "d_ai_usage demo_db = []"
  "d_reports demo_db = []" "d_visits demo_db = []" "d_trips demo_db = []" "d_countries demo_db = []"
  "d_trip_uploads demo_db = []" "d_debriefs demo_db = []" "d_clearances demo_db = []" "d_dd254 demo_db = []"
  "d_dd254_access demo_db = []" "d_chat demo_db = []"
  by (simp_all add: demo_db_def empty_db_def)

theorem remove_member_erases_witness:
  "\<exists>d'. RemoveMember no_faults 5 3 demo_db = (d', Inr ()) \<and> identity_by d' 7 = None"
proof -
  have ok: "RemoveMember no_faults 5 3 demo_db = (fst (RemoveMember no_faults 5 3 demo_db), Inr ())"
    by (simp add: RemoveMember_def remove_orphan_def Let_def identity_by_def demo_identity_def sql_affected_def sql_delete_def
        users_removable_def delete_users_def delete_sessions_def delete_completions_def)
  show ?thesis
    using remove_member_erases [OF ok] ok
    by (auto simp: keyed_def identity_by_def demo_identity_def)
qed

subsection \<open>Sub-organizations\<close>

lemma insert_members_set [simp]: "set (insert_members new t) = set t \<union> set new"
  unfolding insert_members_def by (induction new arbitrary: t) auto

lemma delete_suborgs_members:
  "m \<in> set (d_members (delete_suborgs P d)) \<longleftrightarrow>
     m \<in> set (d_members d) \<and> (\<forall>s \<in> set (d_suborgs d). P s \<longrightarrow> snd m \<noteq> so_ID s)"
  by (auto simp: delete_suborgs_def Let_def)

lemma SubOrg_Delete_ok:
  assumes "SubOrg_Delete casefold flt tid i d = (d', Inr ())"
  shows "(\<exists>s \<in> set (d_suborgs d). so_ID s = i \<and> so_TenantID s = tid \<and> casefold (so_Name s) \<noteq> casefold ''Default'') \<and>
    d' = delete_suborgs (\<lambda>s. so_ID s = i \<and> so_TenantID s = tid)
      (d\<lparr>d_members := insert_members (concat (map (\<lambda>m. if snd m = i then map (Pair (fst m)) (default_suborgs d tid) else [])
                             (d_members d))) (d_members d)\<rparr>)"
  using assms by (auto simp: SubOrg_Delete_def Let_def dest!: sql_row_Some split: if_splits option.splits)

text \<open>Deleting a sub-organization strands nobody while its tenant has a sub-organization
  named exactly \<^verbatim>\<open>Default\<close>: afterwards nobody is in the deleted one, whoever was is in a
  Default one, and all other memberships are as before; if none is so named (it may be
  renamed), its members are simply dropped.\<close>

theorem suborg_delete_moves_members:
  assumes del: "SubOrg_Delete casefold flt tid i d = (d', Inr ())" and key: "keyed so_ID (d_suborgs d)"
  shows "(\<forall>u. (u, i) \<notin> set (d_members d')) \<and>
    (\<forall>u s. s \<noteq> i \<longrightarrow> (u, s) \<in> set (d_members d) \<longrightarrow> (u, s) \<in> set (d_members d')) \<and>
    (\<forall>u s. (u, s) \<in> set (d_members d') \<longrightarrow> (u, s) \<in> set (d_members d) \<or> (u, i) \<in> set (d_members d) \<and> s \<in> set (default_suborgs d tid)) \<and>
    (\<forall>u. (u, i) \<in> set (d_members d) \<longrightarrow> (\<forall>s \<in> set (default_suborgs d tid). (u, s) \<in> set (d_members d')))"
proof -
  note ok = SubOrg_Delete_ok [OF del]
  let ?P = "\<lambda>s. so_ID s = i \<and> so_TenantID s = tid"
  from ok obtain s0 where s0: "s0 \<in> set (d_suborgs d)" "?P s0" "casefold (so_Name s0) \<noteq> casefold ''Default''" by blast
  have gone: "s \<in> set (d_suborgs d) \<Longrightarrow> so_ID s = i \<Longrightarrow> s = s0" for s
    using keyed_unique [OF key _ s0(1)] s0(2) by simp
  have "i \<notin> set (default_suborgs d tid)"
    using gone s0(3) by (auto simp: default_suborgs_def)
  then have mem: "m \<in> set (d_members d') \<longleftrightarrow> snd m \<noteq> i \<and>
      (m \<in> set (d_members d) \<or> (fst m, i) \<in> set (d_members d) \<and> snd m \<in> set (default_suborgs d tid))" for m
    using ok s0 by (auto simp: delete_suborgs_members split: if_splits) force+
  show ?thesis using \<open>i \<notin> set (default_suborgs d tid)\<close> by (auto simp: mem)
qed

theorem suborg_delete_moves_members_witness:
  "(5, 20) \<in> set (d_members (fst (SubOrg_Delete id no_faults 3 21 demo_db)))"
proof -
  have ok: "SubOrg_Delete id no_faults 3 21 demo_db = (fst (SubOrg_Delete id no_faults 3 21 demo_db), Inr ())"
    by (simp add: SubOrg_Delete_def Let_def)
  show ?thesis
    using suborg_delete_moves_members [OF ok] by (simp add: keyed_def default_suborgs_def)
qed

text \<open>Deleting a sub-organization lifts the scope of its officers: a session that was
  confined to it keeps its state and validity, but its cached sub-organization becomes empty,
  and for an FSO or read-only FSO an empty one means no confinement, so until the next login
  every list is filtered by nothing.\<close>

theorem suborg_delete_unscopes_sessions:
  assumes "SubOrg_Delete casefold flt tid i d = (d', Inr ())"
    and "s \<in> set (d_sessions d)" "s_SubOrgID s = Some i" "role \<in> {''fso'', ''read_only_fso''}"
  shows "SubOrgScope parse (Some role) (Some s) q = Some i \<and>
    s\<lparr>s_SubOrgID := None\<rparr> \<in> set (d_sessions d') \<and>
    SubOrgScope parse (Some role) (Some (s\<lparr>s_SubOrgID := None\<rparr>)) q = None"
proof -
  from SubOrg_Delete_ok [OF assms(1)] obtain s0 d1 where
    "s0 \<in> set (d_suborgs d1)" "so_ID s0 = i" "so_TenantID s0 = tid" "d_sessions d1 = d_sessions d"
    and d': "d' = delete_suborgs (\<lambda>s. so_ID s = i \<and> so_TenantID s = tid) d1"
    by (metis (no_types, lifting) db.select_convs(2,8) db.surjective db.update_convs(10))
  then have "i \<in> set (map so_ID (filter (\<lambda>s. so_ID s = i \<and> so_TenantID s = tid) (d_suborgs d1)))" by force
  with assms(2,3) \<open>d_sessions d1 = d_sessions d\<close> have "s\<lparr>s_SubOrgID := None\<rparr> \<in> set (d_sessions d')"
    unfolding d' delete_suborgs_def Let_def by (force simp: forget_def)
  with assms(3,4) show ?thesis by (auto simp: SubOrgScope_def)
qed

theorem suborg_delete_unscopes_sessions_witness:
  "\<exists>s \<in> set (d_sessions (fst (SubOrg_Delete id no_faults 3 21 demo_db))).
     s_ID s = 1 \<and> s_State s = Authenticated \<and> SubOrgScope (\<lambda>_. None) (Some ''fso'') (Some s) [] = None"
proof -
  have ok: "SubOrg_Delete id no_faults 3 21 demo_db = (fst (SubOrg_Delete id no_faults 3 21 demo_db), Inr ())"
    by (simp add: SubOrg_Delete_def Let_def)
  show ?thesis
    using suborg_delete_unscopes_sessions [OF ok, of "hd (d_sessions demo_db)" "''fso''" "\<lambda>_. None" "[]"]
    by (intro bexI [where x = "(hd (d_sessions demo_db))\<lparr>s_SubOrgID := None\<rparr>"]) (simp_all add: session_row_def)
qed

text \<open>\<^verbatim>\<open>SetUserSubOrg\<close> moves exactly: it succeeds exactly when the sub-organization is
  the tenant's and the user exists, in whatever tenant, and its statements are carried out;
  then the user is in that sub-organization and in no other of the tenant, and nobody else's
  memberships change.\<close>

theorem set_user_suborg_exact:
  "(snd (SubOrg_SetUserSubOrg flt tid u so d) = Inr () \<longleftrightarrow>
      \<not> flt ''suborg.SetUserSubOrg.check'' 0 \<and> \<not> flt ''suborg.SetUserSubOrg.remove'' 0 \<and>
      \<not> flt ''suborg.SetUserSubOrg.add'' 0 \<and> user_by d u \<noteq> None \<and>
      (\<exists>s \<in> set (d_suborgs d). so_ID s = so \<and> so_TenantID s = tid)) \<and>
   (snd (SubOrg_SetUserSubOrg flt tid u so d) = Inr () \<longrightarrow>
      set (d_members (fst (SubOrg_SetUserSubOrg flt tid u so d))) =
        insert (u, so) {m \<in> set (d_members d). fst m = u \<longrightarrow>
           (\<forall>s \<in> set (d_suborgs d). so_TenantID s = tid \<longrightarrow> so_ID s \<noteq> snd m)})"
  by (auto simp: SubOrg_SetUserSubOrg_def Let_def user_by_def)

theorem set_user_suborg_exact_witness:
  "set (d_members (fst (SubOrg_SetUserSubOrg no_faults 3 5 20 demo_db))) = {(5, 20)}"
proof -
  have "snd (SubOrg_SetUserSubOrg no_faults 3 5 20 demo_db) = Inr ()"
    by (simp add: set_user_suborg_exact [THEN conjunct1] user_by_def)
  from set_user_suborg_exact [THEN conjunct2, THEN mp, OF this]
  show ?thesis by (simp cong: conj_cong)
qed

text \<open>The primary security officer of a sub-organization may be anyone: setting it checks
  the sub-organization's tenant but not the user's, and the tenant's own listing then shows
  that user's name and address, whatever tenant they belong to.\<close>

theorem primary_fso_of_any_tenant:
  assumes "s \<in> set (d_suborgs d)" "so_TenantID s = tid"
    and "user_by d u = Some us" "identity_by d (u_IdentityID us) = Some idn"
  shows "\<exists>d' rows. SubOrg_SetPrimaryFSO no_faults now tid (so_ID s) (Some u) d = (d', Inr ()) \<and>
    SubOrg_List coll no_faults tid d' = Inr rows \<and>
    (\<exists>r \<in> set rows. so_ID (sr_SubOrg r) = so_ID s \<and> sr_PrimaryFSO r = Some (i_Name idn, i_Email idn))"
proof -
  let ?P = "\<lambda>x. so_ID x = so_ID s \<and> so_TenantID x = tid"
  let ?f = "\<lambda>x. x\<lparr>so_PrimaryFSOUserID := Some u, so_UpdatedAt := now\<rparr>"
  let ?d = "d\<lparr>d_suborgs := sql_update ?P ?f (d_suborgs d)\<rparr>"
  have "sql_affected ?P (d_suborgs d) \<noteq> 0" using assms(1,2) by (auto simp: sql_affected_0)
  then have set_ok: "SubOrg_SetPrimaryFSO no_faults now tid (so_ID s) (Some u) d = (?d, Inr ())"
    using assms(3) by (simp add: SubOrg_SetPrimaryFSO_def Let_def sql_simps)
  have "?f s \<in> set (d_suborgs ?d)" using assms(1,2) by (auto simp: in_sql_update)
  moreover have "contact_of ?d u = Some (us, idn)"
    using assms(3,4) by (simp add: contact_of_def user_by_def identity_by_def)
  ultimately have "\<exists>rows. SubOrg_List coll no_faults tid ?d = Inr rows \<and>
      (\<exists>r \<in> set rows. so_ID (sr_SubOrg r) = so_ID s \<and> sr_PrimaryFSO r = Some (i_Name idn, i_Email idn))"
    using assms(2) by (force simp: SubOrg_List_def image_iff)
  with set_ok show ?thesis by blast
qed

theorem primary_fso_of_any_tenant_witness:
  "\<exists>d'. SubOrg_SetPrimaryFSO no_faults 9 4 30 (Some 5)
     (demo_db\<lparr>d_suborgs := [\<lparr>so_ID = 30, so_TenantID = 4, so_Name = ''Default'', so_PrimaryFSOUserID = None,
        so_CreatedAt = 0, so_UpdatedAt = 0\<rparr>]\<rparr>) = (d', Inr ())"
  using primary_fso_of_any_tenant [of "\<lparr>so_ID = 30, so_TenantID = 4, so_Name = ''Default'', so_PrimaryFSOUserID = None,
        so_CreatedAt = 0, so_UpdatedAt = 0\<rparr>"
      "demo_db\<lparr>d_suborgs := [\<lparr>so_ID = 30, so_TenantID = 4, so_Name = ''Default'', so_PrimaryFSOUserID = None,
        so_CreatedAt = 0, so_UpdatedAt = 0\<rparr>]\<rparr>" 4 5 "hd (d_users demo_db)" demo_identity 9 "\<lambda>_. (0 :: nat)"]
  by (auto simp: user_by_def identity_by_def demo_identity_def)

end
