(* ===== verification/Auth_Handlers.thy ===== *)
theory Auth_Handlers
  imports Directory Go_Std
begin

text \<open>
  The handlers behind \<^verbatim>\<open>/api/auth\<close>: \<^verbatim>\<open>auth/auth.go\<close>, \<^verbatim>\<open>auth/reset.go\<close>,
  \<^verbatim>\<open>totp/handler.go\<close>, \<^verbatim>\<open>emailcode/handler.go\<close> and \<^verbatim>\<open>invite/handler.go\<close>. A
  handler is an action on the database that ends in a response; the session of the request
  context is \<open>r_session\<close>, a JSON body that did not bind is \<open>None\<close>. Cookies are part of the
  response. Telemetry and the logger have no counterpart.
\<close>

subsection \<open>Library functions\<close>

record libs =
  l_lower :: "string \<Rightarrow> string"                 \<comment> \<open>SQL \<^verbatim>\<open>lower\<close>\<close>
  l_normalise :: "string \<Rightarrow> string"             \<comment> \<open>\<^verbatim>\<open>strings.ToLower(strings.TrimSpace(_))\<close>\<close>
  l_collate :: "string \<Rightarrow> int"                 \<comment> \<open>rank of a name in the database's collation\<close>
  l_CheckPassword :: "string \<Rightarrow> string \<Rightarrow> bool" \<comment> \<open>bcrypt comparison: hash, password\<close>
  l_HashPassword :: "string \<Rightarrow> string option"   \<comment> \<open>bcrypt hash, which may fail\<close>
  l_sha256 :: "string \<Rightarrow> string"
  l_totp :: "string \<Rightarrow> string \<Rightarrow> bool"          \<comment> \<open>\<^verbatim>\<open>totp.Validate\<close>: code, secret\<close>
  l_uuid :: "string \<Rightarrow> uuid option"            \<comment> \<open>\<^verbatim>\<open>uuid.Parse\<close>\<close>
  l_uuid_text :: "uuid \<Rightarrow> string"              \<comment> \<open>\<^verbatim>\<open>uuid.UUID.String\<close>\<close>
  l_ilike :: "string \<Rightarrow> string \<Rightarrow> bool"         \<comment> \<open>SQL \<^verbatim>\<open>text ILIKE '%' || pattern || '%'\<close>\<close>
  l_pgdate :: "string \<Rightarrow> time option"          \<comment> \<open>the database's reading of a \<^verbatim>\<open>DATE\<close> literal\<close>
  l_sniff :: "string \<Rightarrow> string"                \<comment> \<open>\<^verbatim>\<open>http.DetectContentType\<close> of the first 512 bytes\<close>

subsection \<open>Login\<close>

record login_request =
  lq_Email :: string
  lq_Password :: string

text \<open>The answer to a successful login: state, methods (\<open>None\<close> for
  \<^verbatim>\<open>setup_2fa_required\<close>), session and CSRF cookies.\<close>

record login_reply =
  lr_State :: sstate
  lr_Available2FA :: "string list option"
  lr_SessionCookie :: uuid
  lr_CSRFCookie :: string

text \<open>\<^verbatim>\<open>get2FAMethods\<close>: a lookup that fails counts as a method not being there.\<close>

definition get2FAMethods :: "faults \<Rightarrow> uuid \<Rightarrow> db \<Rightarrow> bool \<times> string list" where
  "get2FAMethods flt identityID d =
     (let totp = (case HasVerifiedTOTP flt identityID (d_totp d) of Inl _ \<Rightarrow> [] | Inr v \<Rightarrow> if v then [''totp''] else []);
          pk = (case Passkey_CountByIdentity flt identityID (d_passkeys d) of
                  Inl _ \<Rightarrow> [] | Inr n \<Rightarrow> if 0 < n then [''passkey''] else []);
          methods = totp @ pk
      in (methods \<noteq> [], methods))"

definition login_refuse ::
  "request \<Rightarrow> uuid option \<Rightarrow> (string \<times> json) list \<Rightarrow> http \<Rightarrow> string \<Rightarrow> (db, 'b response) state" where
  "login_refuse r identityID meta code text = do {
     audit_log r 1 ''login_failure'' identityID None None meta;
     reply (Abort code (Msg text))
   }"

definition Login :: "libs \<Rightarrow> request \<Rightarrow> login_request option \<Rightarrow> (db, login_reply response) state" where
  [http_defs]: "Login L r req = (case req of None \<Rightarrow> reply invalid_request | Some q \<Rightarrow> do {
     audit_log r 0 ''login_attempt'' None None None [(''email'', JStr (lq_Email q))];
     found \<leftarrow> asks (\<lambda>d. Identity_GetByEmail (l_lower L) (r_flt r) (lq_Email q) (d_identities d));
     (case found of
        Inl _ \<Rightarrow> login_refuse r None [(''email'', JStr (lq_Email q)), (''reason'', JStr ''identity_not_found'')]
                  StatusUnauthorized ''invalid credentials''
      | Inr ident \<Rightarrow>
          if \<not> HasPassword ident then
            login_refuse r (Some (i_ID ident)) [(''reason'', JStr ''no_password_set'')] StatusUnauthorized ''invalid credentials''
          else if IsLocked (r_now r) ident then
            login_refuse r (Some (i_ID ident)) [(''reason'', JStr ''account_locked'')] StatusTooManyRequests
              ''account temporarily locked due to too many failed attempts''
          else if \<not> l_CheckPassword L (the (i_PasswordHash ident)) (lq_Password q) then do {
            on_identities (Identity_RecordFailedLogin (r_flt r) (r_now r) (i_ID ident));
            login_refuse r (Some (i_ID ident)) [(''reason'', JStr ''wrong_password'')] StatusUnauthorized ''invalid credentials''
          }
          else do {
            on_identities (Identity_ClearFailedLogin (r_flt r) (r_now r) (i_ID ident));
            (if IsSuspended ident then
               login_refuse r (Some (i_ID ident)) [(''reason'', JStr ''account_suspended'')] StatusForbidden ''account is suspended''
             else do {
               m \<leftarrow> asks (get2FAMethods (r_flt r) (i_ID ident));
               (case r_csrf r of None \<Rightarrow> reply internal_error | Some csrfToken \<Rightarrow> do {
                  created \<leftarrow> on_sessions (Session_Create (r_flt r) (r_now r) (r_fresh r 0)
                    \<lparr>p_IdentityID = i_ID ident, p_State = (if fst m then Pre_Auth else Setup2FA),
                     p_IPAddress = r_ip r, p_UserAgent = r_ua r, p_AuthMethod = ''password'', p_CSRFToken = csrfToken\<rparr>);
                  (case created of
                     Inl _ \<Rightarrow> reply internal_error
                   | Inr sess \<Rightarrow> do {
                       audit_log r 1 ''login_success'' (Some (i_ID ident)) (Some (s_ID sess)) None
                         [(''auth_method'', JStr ''password'')];
                       reply (Respond StatusOK \<lparr>lr_State = s_State sess,
                         lr_Available2FA = (if fst m then Some (snd m) else None),
                         lr_SessionCookie = s_ID sess, lr_CSRFCookie = csrfToken\<rparr>)
                     })
                })
             })
          })
   })"

text \<open>\<^verbatim>\<open>email[strings.LastIndex(email, "@")+1:]\<close>, empty when there is no \<^verbatim>\<open>@\<close>\<close>

definition email_domain :: "string \<Rightarrow> string" where
  "email_domain email = (if CHR ''@'' \<in> set email then rev (takeWhile (\<lambda>c. c \<noteq> CHR ''@'') (rev email)) else [])"

definition Identify :: "libs \<Rightarrow> request \<Rightarrow> string option \<Rightarrow> (db, (string list \<times> (string \<times> string) list) response) state" where
  [http_defs]: "Identify L r req = (case req of None \<Rightarrow> reply invalid_request | Some e \<Rightarrow>
     let email = l_normalise L e; domain = email_domain email in do {
       found \<leftarrow> asks (\<lambda>d. Identity_GetByEmail (l_lower L) (r_flt r) email (d_identities d));
       (case found of
          Inl _ \<Rightarrow> do {
            opts \<leftarrow> asks (\<lambda>d. if domain \<noteq> [] then (case ListSSOByEmailDomain (r_flt r) domain d of Inl _ \<Rightarrow> [] | Inr os \<Rightarrow> os) else []);
            (if opts \<noteq> [] then reply (Respond StatusOK ([], opts))
             else reply (Respond StatusOK ([''password''], [])))
          }
        | Inr ident \<Rightarrow> do {
            count \<leftarrow> asks (\<lambda>d. Passkey_CountByIdentity (r_flt r) (i_ID ident) (d_passkeys d));
            sso \<leftarrow> asks (ListSSOByIdentity (r_flt r) (i_ID ident));
            reply (Respond StatusOK
              ((if HasPassword ident then [''password''] else []) @
               (case count of Inl _ \<Rightarrow> [] | Inr n \<Rightarrow> if 0 < n then [''passkey''] else []),
               case sso of Inl _ \<Rightarrow> [] | Inr os \<Rightarrow> os))
          })
     })"

subsection \<open>The current session\<close>

text \<open>The reply says that both cookies are cleared.\<close>

definition Logout :: "request \<Rightarrow> (db, bool response) state" where
  [http_defs]: "Logout r = (case r_session r of None \<Rightarrow> reply no_session | Some sess \<Rightarrow> do {
     on_sessions (Session_Revoke (r_flt r) (r_now r) (s_ID sess) (Some (s_IdentityID sess)) ''logout'');
     audit_log r 0 ''logout'' (Some (s_IdentityID sess)) (Some (s_ID sess)) (s_TenantID sess) [];
     reply (Respond StatusOK True)
   })"

record me_reply =
  me_State :: sstate
  me_Identity :: identity
  me_IsSuperAdmin :: bool
  me_User :: "(uuid \<times> string \<times> string \<times> uuid \<times> string) option" \<comment> \<open>user, name, role, tenant, tenant name\<close>
  me_CanSwitchContext :: bool

definition Me :: "libs \<Rightarrow> request \<Rightarrow> (db, me_reply response) state" where
  [http_defs]: "Me L r = (case r_session r of None \<Rightarrow> reply no_session | Some sess \<Rightarrow> do {
     found \<leftarrow> asks (\<lambda>d. Identity_GetByID (r_flt r) (s_IdentityID sess) (d_identities d));
     (case found of Inl _ \<Rightarrow> reply internal_error | Inr ident \<Rightarrow> do {
        user \<leftarrow> asks (\<lambda>d. case (s_UserID sess, s_TenantID sess) of
          (Some u, Some t) \<Rightarrow> (case GetUserWithTenant (r_flt r) u d of
             Inl _ \<Rightarrow> None | Inr x \<Rightarrow> Some (u, uw_UserName x, uw_UserRole x, t, uw_TenantName x))
        | _ \<Rightarrow> None);
        tenants \<leftarrow> asks (ListTenantsByIdentity (l_collate L) (r_flt r) (s_IdentityID sess));
        reply (Respond StatusOK \<lparr>me_State = s_State sess, me_Identity = ident,
          me_IsSuperAdmin = s_IsSuperAdmin sess, me_User = user,
          me_CanSwitchContext = (1 < (case tenants of Inl _ \<Rightarrow> 0 | Inr ts \<Rightarrow> length ts) +
            (if i_IsSuperAdmin ident then 1 else 0))\<rparr>)
      })
   })"

definition SwitchContext :: "request \<Rightarrow> (db, sstate response) state" where
  [http_defs]: "SwitchContext r = (case r_session r of None \<Rightarrow> reply no_session | Some sess \<Rightarrow> do {
     done \<leftarrow> on_sessions (Session_ResetContext (r_flt r) (s_ID sess));
     (case done of Inl _ \<Rightarrow> reply internal_error | Inr _ \<Rightarrow> do {
        audit_log r 0 ''context_switch'' (Some (s_IdentityID sess)) (Some (s_ID sess)) (s_TenantID sess) [];
        reply (Respond StatusOK PreTenant)
      })
   })"

definition ListTenants :: "libs \<Rightarrow> request \<Rightarrow> (db, (tenant_membership list \<times> bool) response) state" where
  [http_defs]: "ListTenants L r = (case r_session r of None \<Rightarrow> reply no_session | Some sess \<Rightarrow> do {
     ms \<leftarrow> asks (ListTenantsByIdentity (l_collate L) (r_flt r) (s_IdentityID sess));
     (case ms of Inl _ \<Rightarrow> reply internal_error | Inr memberships \<Rightarrow> do {
        found \<leftarrow> asks (\<lambda>d. Identity_GetByID (r_flt r) (s_IdentityID sess) (d_identities d));
        (case found of Inl _ \<Rightarrow> reply internal_error
         | Inr ident \<Rightarrow> reply (Respond StatusOK (memberships, i_IsSuperAdmin ident)))
      })
   })"

definition SelectTenant :: "request \<Rightarrow> uuid option \<Rightarrow> (db, (sstate \<times> user_with_tenant) response) state" where
  [http_defs]: "SelectTenant r req = (case r_session r of None \<Rightarrow> reply no_session | Some sess \<Rightarrow>
     (case req of None \<Rightarrow> reply invalid_request | Some tenantID \<Rightarrow> do {
        found \<leftarrow> asks (GetUserInTenant (r_flt r) (s_IdentityID sess) tenantID);
        (case found of Inl _ \<Rightarrow> reply (Abort StatusForbidden (Msg ''not a member of this tenant'')) | Inr u \<Rightarrow> do {
           susp \<leftarrow> asks (IsTenantSuspended (r_flt r) tenantID);
           (case susp of Inl _ \<Rightarrow> reply internal_error | Inr suspended \<Rightarrow>
              if suspended then reply (Abort StatusForbidden (Msg ''this organization is suspended''))
              else do {
                done \<leftarrow> on_sessions (Session_SetTenant (r_flt r) (r_now r) (s_ID sess) tenantID (uw_UserID u)
                  (uw_SubOrgID u) (uw_UserRole u));
                (case done of Inl _ \<Rightarrow> reply internal_error | Inr _ \<Rightarrow> do {
                   audit_log r 0 ''tenant_selected'' (Some (s_IdentityID sess)) (Some (s_ID sess)) (Some tenantID)
                     [(''tenant_name'', JStr (uw_TenantName u))];
                   reply (Respond StatusOK (Authenticated, u))
                 })
              })
         })
      }))"

definition SelectAdmin :: "request \<Rightarrow> (db, sstate response) state" where
  [http_defs]: "SelectAdmin r = (case r_session r of None \<Rightarrow> reply no_session | Some sess \<Rightarrow> do {
     found \<leftarrow> asks (\<lambda>d. Identity_GetByID (r_flt r) (s_IdentityID sess) (d_identities d));
     (case found of
        Inl _ \<Rightarrow> reply (Abort StatusForbidden (Msg ''not a super admin''))
      | Inr ident \<Rightarrow>
          if \<not> i_IsSuperAdmin ident then reply (Abort StatusForbidden (Msg ''not a super admin''))
          else do {
            done \<leftarrow> on_sessions (Session_SetSuperAdmin (r_flt r) (r_now r) (s_ID sess));
            (case done of Inl _ \<Rightarrow> reply internal_error | Inr _ \<Rightarrow> do {
               audit_log r 0 ''super_admin_access'' (Some (s_IdentityID sess)) (Some (s_ID sess)) None [];
               reply (Respond StatusOK Authenticated)
             })
          })
   })"

definition ListSessions :: "request \<Rightarrow> (db, (session list \<times> uuid) response) state" where
  [http_defs]: "ListSessions r = (case r_session r of None \<Rightarrow> reply no_session | Some sess \<Rightarrow> do {
     found \<leftarrow> asks (\<lambda>d. Session_ListByIdentity (r_flt r) (r_now r) (s_IdentityID sess) (d_sessions d));
     (case found of Inl _ \<Rightarrow> reply internal_error | Inr ss \<Rightarrow> reply (Respond StatusOK (ss, s_ID sess)))
   })"

definition RevokeSession :: "libs \<Rightarrow> request \<Rightarrow> string \<Rightarrow> (db, unit response) state" where
  [http_defs]: "RevokeSession L r target_param = (case r_session r of None \<Rightarrow> reply no_session | Some sess \<Rightarrow>
     (case l_uuid L target_param of None \<Rightarrow> reply (Abort StatusBadRequest (Msg ''invalid session ID'')) | Some targetID \<Rightarrow> do {
        found \<leftarrow> asks (\<lambda>d. Session_GetValid (r_flt r) (r_now r) targetID (d_sessions d));
        (case found of Inl _ \<Rightarrow> reply (Abort StatusNotFound (Msg ''session not found'')) | Inr target \<Rightarrow>
           if s_IdentityID target \<noteq> s_IdentityID sess
           then reply (Abort StatusForbidden (Msg ''cannot revoke another identity's session''))
           else do {
             done \<leftarrow> on_sessions (Session_Revoke (r_flt r) (r_now r) targetID (Some (s_IdentityID sess)) ''user_revoked'');
             (case done of Inl _ \<Rightarrow> reply internal_error | Inr _ \<Rightarrow> do {
                audit_log r 0 ''session_revoked'' (Some (s_IdentityID sess)) (Some targetID) None
                  [(''revoked_session_id'', JId targetID)];
                reply (Respond StatusOK ())
              })
           })
      }))"

definition RevokeAllOtherSessions :: "request \<Rightarrow> (db, nat response) state" where
  [http_defs]: "RevokeAllOtherSessions r = (case r_session r of None \<Rightarrow> reply no_session | Some sess \<Rightarrow> do {
     done \<leftarrow> on_sessions (Session_RevokeByIdentityExcept (r_flt r) (r_now r) (s_IdentityID sess) (s_ID sess) ''user_revoked_all'');
     (case done of Inl _ \<Rightarrow> reply internal_error | Inr revoked \<Rightarrow> do {
        audit_log r 0 ''session_revoked'' (Some (s_IdentityID sess)) (Some (s_ID sess)) (s_TenantID sess)
          [(''scope'', JStr ''all_other_sessions''), (''revoked_count'', JNum (int revoked))];
        reply (Respond StatusOK revoked)
      })
   })"

definition Get2FAMethods :: "request \<Rightarrow> (db, string list response) state" where
  [http_defs]: "Get2FAMethods r = (case r_session r of None \<Rightarrow> reply no_session | Some sess \<Rightarrow> do {
     m \<leftarrow> asks (get2FAMethods (r_flt r) (s_IdentityID sess));
     reply (Respond StatusOK (snd m))
   })"

subsection \<open>Second factors\<close>

text \<open>\<^verbatim>\<open>totp.Generate\<close> draws a key for the account: secret and provisioning URL.\<close>

definition Totp_Enroll :: "(string \<Rightarrow> (string \<times> string) option) \<Rightarrow> request \<Rightarrow> (db, (string \<times> string) response) state" where
  [http_defs]: "Totp_Enroll generate r = (case r_session r of None \<Rightarrow> reply no_session | Some sess \<Rightarrow> do {
     found \<leftarrow> asks (\<lambda>d. Identity_GetByID (r_flt r) (s_IdentityID sess) (d_identities d));
     (case found of Inl _ \<Rightarrow> reply internal_error | Inr ident \<Rightarrow>
        (case generate (i_Email ident) of None \<Rightarrow> reply internal_error | Some (secret, url) \<Rightarrow> do {
           stored \<leftarrow> on_totp (Totp_Create (r_flt r) (r_now r) (r_fresh r 0) (s_IdentityID sess) secret);
           (case stored of Inl _ \<Rightarrow> reply internal_error | Inr _ \<Rightarrow> reply (Respond StatusOK (secret, url)))
         }))
   })"

definition Totp_VerifyHandler :: "libs \<Rightarrow> request \<Rightarrow> string option \<Rightarrow> (db, sstate response) state" where
  [http_defs]: "Totp_VerifyHandler L r req = (case r_session r of None \<Rightarrow> reply no_session | Some sess \<Rightarrow>
     (case req of None \<Rightarrow> reply invalid_request | Some code \<Rightarrow> do {
        found \<leftarrow> asks (\<lambda>d. Totp_GetByIdentity (r_flt r) (s_IdentityID sess) (d_totp d));
        (case found of
           Inl _ \<Rightarrow> do {
             audit_log r 0 ''2fa_failure'' (Some (s_IdentityID sess)) (Some (s_ID sess)) None
               [(''method'', JStr ''totp''), (''reason'', JStr ''no_secret'')];
             reply (Abort StatusBadRequest (Msg ''TOTP not configured''))
           }
         | Inr secret \<Rightarrow>
             if \<not> l_totp L code (ts_Secret secret) then do {
               audit_log r 0 ''2fa_failure'' (Some (s_IdentityID sess)) (Some (s_ID sess)) None
                 [(''method'', JStr ''totp''), (''reason'', JStr ''invalid_code'')];
               reply (Abort StatusUnauthorized (Msg ''invalid code''))
             }
             else do {
               (if \<not> ts_Verified secret then on_totp (Totp_Verify (r_flt r) (s_IdentityID sess)) else reply (Inr ()));
               done \<leftarrow> on_sessions (Session_SetSecondFactor (r_flt r) (r_now r) (s_ID sess) ''totp'');
               (case done of Inl _ \<Rightarrow> reply internal_error | Inr _ \<Rightarrow> do {
                  audit_log r 0 ''2fa_success'' (Some (s_IdentityID sess)) (Some (s_ID sess)) None [(''method'', JStr ''totp'')];
                  reply (Respond StatusOK PreTenant)
                })
             })
      }))"

text \<open>The reply carries the new state when the enrolment was mandatory.\<close>

definition Totp_ConfirmEnroll :: "libs \<Rightarrow> request \<Rightarrow> string option \<Rightarrow> (db, sstate option response) state" where
  [http_defs]: "Totp_ConfirmEnroll L r req = (case r_session r of None \<Rightarrow> reply no_session | Some sess \<Rightarrow>
     (case req of None \<Rightarrow> reply invalid_request | Some code \<Rightarrow> do {
        found \<leftarrow> asks (\<lambda>d. Totp_GetByIdentity (r_flt r) (s_IdentityID sess) (d_totp d));
        (case found of
           Inl _ \<Rightarrow> reply (Abort StatusBadRequest (Msg ''TOTP not configured''))
         | Inr secret \<Rightarrow>
             if \<not> l_totp L code (ts_Secret secret) then reply (Abort StatusUnauthorized (Msg ''invalid code''))
             else do {
               verified \<leftarrow> on_totp (Totp_Verify (r_flt r) (s_IdentityID sess));
               (case verified of Inl _ \<Rightarrow> reply internal_error | Inr _ \<Rightarrow> do {
                  audit_log r 0 ''totp_enrolled'' (Some (s_IdentityID sess)) (Some (s_ID sess)) None [];
                  (if s_State sess = Setup2FA then do {
                     done \<leftarrow> on_sessions (Session_SetSecondFactor (r_flt r) (r_now r) (s_ID sess) ''totp'');
                     (case done of Inl _ \<Rightarrow> reply internal_error | Inr _ \<Rightarrow> reply (Respond StatusOK (Some PreTenant)))
                   }
                   else reply (Respond StatusOK None))
                })
             })
      }))"

definition Totp_Remove :: "request \<Rightarrow> (db, unit response) state" where
  [http_defs]: "Totp_Remove r = (case r_session r of None \<Rightarrow> reply no_session | Some sess \<Rightarrow> do {
     gone \<leftarrow> on_totp (Totp_Delete (r_flt r) (s_IdentityID sess));
     (case gone of Inl _ \<Rightarrow> reply (Abort StatusNotFound (Msg ''TOTP not configured'')) | Inr _ \<Rightarrow> do {
        audit_log r 0 ''totp_removed'' (Some (s_IdentityID sess)) (Some (s_ID sess)) None [];
        reply (Respond StatusOK ())
      })
   })"

definition EmailCode_Send :: "(db, unit response) state" where
  [http_defs]: "EmailCode_Send = reply (Abort StatusNotImplemented (Msg ''email sending is not yet implemented''))"

text \<open>\<^verbatim>\<open>err.Error()\<close>, as far as the audit row keeps it\<close>

definition err_json :: "err \<Rightarrow> json" where
  "err_json e = (case e of ErrInvalid \<Rightarrow> JStr ''invalid code'' | ErrAlreadyUsed \<Rightarrow> JStr ''email code already used''
     | ErrExpired \<Rightarrow> JStr ''email code expired'' | Fault q \<Rightarrow> JStr q | _ \<Rightarrow> JNull)"

definition EmailCode_VerifyHandler :: "libs \<Rightarrow> request \<Rightarrow> string option \<Rightarrow> (db, sstate response) state" where
  [http_defs]: "EmailCode_VerifyHandler L r req = (case r_session r of None \<Rightarrow> reply no_session | Some sess \<Rightarrow>
     (case req of None \<Rightarrow> reply invalid_request | Some code \<Rightarrow> do {
        ok \<leftarrow> on_codes (EmailCode_Verify (l_sha256 L) (r_flt r) (r_now r) (s_IdentityID sess) ''2fa'' code);
        (case ok of
           Inl e \<Rightarrow> do {
             audit_log r 0 ''2fa_failure'' (Some (s_IdentityID sess)) (Some (s_ID sess)) None
               [(''method'', JStr ''email_code''), (''reason'', err_json e)];
             reply (Abort StatusUnauthorized (Msg ''invalid or expired code''))
           }
         | Inr _ \<Rightarrow> do {
             done \<leftarrow> on_sessions (Session_SetSecondFactor (r_flt r) (r_now r) (s_ID sess) ''email_code'');
             (case done of Inl _ \<Rightarrow> reply internal_error | Inr _ \<Rightarrow> do {
                audit_log r 0 ''2fa_success'' (Some (s_IdentityID sess)) (Some (s_ID sess)) None [(''method'', JStr ''email_code'')];
                reply (Respond StatusOK PreTenant)
              })
           })
      }))"

subsection \<open>Password reset\<close>

abbreviation reset_sent :: "unit response" where
  "reset_sent \<equiv> Respond StatusOK ()"  \<comment> \<open>\<^verbatim>\<open>If that email exists, a reset link has been sent.\<close>\<close>

text \<open>\<open>raw\<close> is the token the process draws. A mail that fails to be sent is only logged;
  the call is recorded.\<close>

definition RequestPasswordReset :: "libs \<Rightarrow> request \<Rightarrow> string option \<Rightarrow> string option \<Rightarrow> (db, unit response) state" where
  [http_defs]: "RequestPasswordReset L r raw req = (case req of None \<Rightarrow> reply invalid_request | Some email \<Rightarrow> do {
     found \<leftarrow> asks (\<lambda>d. Identity_GetByEmail (l_lower L) (r_flt r) email (d_identities d));
     (case found of
        Inl _ \<Rightarrow> reply reset_sent
      | Inr ident \<Rightarrow>
          if i_PasswordHash ident = None then reply reset_sent
          else do {
            gen \<leftarrow> on_codes (GeneratePasswordReset (l_sha256 L) (r_flt r) (r_now r) raw (r_fresh r 0) (i_ID ident));
            (case gen of Inl _ \<Rightarrow> reply internal_error | Inr token \<Rightarrow> do {
               notify [PasswordResetMail (i_Email ident) token];
               audit_log r 0 ''password_reset_requested'' (Some (i_ID ident)) None None [];
               reply reset_sent
             })
          })
   })"

record reset_request =
  rr_Token :: string
  rr_Password :: string
  rr_TOTPCode :: string

text \<open>The part after the second-factor check.\<close>

definition set_new_password :: "libs \<Rightarrow> request \<Rightarrow> string \<Rightarrow> uuid \<Rightarrow> uuid \<Rightarrow> (db, unit response) state" where
  "set_new_password L r password tokenID identityID =
     (case l_HashPassword L password of None \<Rightarrow> reply internal_error | Some hash \<Rightarrow> do {
        upd \<leftarrow> on_identities (Identity_UpdatePassword (r_flt r) (r_now r) identityID hash);
        (case upd of Inl _ \<Rightarrow> reply internal_error | Inr _ \<Rightarrow> do {
           on_codes (Invite_MarkUsed (r_flt r) (r_now r) tokenID);
           on_sessions (Session_RevokeByIdentity (r_flt r) (r_now r) identityID ''password_reset'');
           audit_log r 0 ''password_reset'' (Some identityID) None None [];
           reply (Respond StatusOK ())
         })
      })"

definition ConfirmPasswordReset :: "libs \<Rightarrow> request \<Rightarrow> reset_request option \<Rightarrow> (db, unit response) state" where
  [http_defs]: "ConfirmPasswordReset L r req = (case req of None \<Rightarrow> reply invalid_request | Some q \<Rightarrow>
     if length (rr_Password q) < 8
     then reply (Abort StatusBadRequest (Msg ''password must be at least 8 characters''))
     else do {
       tok \<leftarrow> asks (\<lambda>d. ValidatePasswordReset (l_sha256 L) (r_flt r) (r_now r) (rr_Token q) (d_codes d));
       (case tok of
          Inl _ \<Rightarrow> reply (Abort StatusBadRequest (Msg ''reset link is invalid or has expired''))
        | Inr (tokenID, identityID) \<Rightarrow> do {
            has \<leftarrow> asks (\<lambda>d. HasVerifiedTOTP (r_flt r) identityID (d_totp d));
            (case has of Inl _ \<Rightarrow> reply internal_error | Inr hasTOTP \<Rightarrow>
               if \<not> hasTOTP then set_new_password L r (rr_Password q) tokenID identityID
               else if rr_TOTPCode q = [] then reply (Abort StatusUnauthorized (Msg ''2FA code required''))
               else do {
                 ok \<leftarrow> asks (\<lambda>d. Totp_ValidateCode (l_totp L) (r_flt r) identityID (rr_TOTPCode q) (d_totp d));
                 (case ok of Inl _ \<Rightarrow> reply internal_error | Inr valid \<Rightarrow>
                    if \<not> valid then do {
                      audit_log r 0 ''2fa_failure'' (Some identityID) None None
                        [(''method'', JStr ''totp''), (''context'', JStr ''password_reset'')];
                      reply (Abort StatusUnauthorized (Msg ''invalid 2FA code''))
                    }
                    else set_new_password L r (rr_Password q) tokenID identityID)
               })
          })
     })"

subsection \<open>Invites\<close>

text \<open>\<^verbatim>\<open>tenantLookup\<close> of \<^verbatim>\<open>router.go\<close>\<close>

definition tenantLookup :: "libs \<Rightarrow> faults \<Rightarrow> uuid \<Rightarrow> db \<Rightarrow> string" where
  "tenantLookup L flt identityID d = (case ListTenantsByIdentity (l_collate L) flt identityID d of
     Inr (m # _) \<Rightarrow> tm_Name m | _ \<Rightarrow> [])"

abbreviation invalid_invite :: "'b response" where
  "invalid_invite \<equiv> Abort StatusNotFound (Msg ''invalid or expired invite'')"

definition Invite_Info :: "libs \<Rightarrow> request \<Rightarrow> string option \<Rightarrow> (db, (string \<times> string \<times> string) response) state" where
  [http_defs]: "Invite_Info L r req = (case req of None \<Rightarrow> reply (Abort StatusBadRequest (Msg ''token is required'')) | Some token \<Rightarrow> do {
     tok \<leftarrow> asks (\<lambda>d. Invite_Validate (l_sha256 L) (r_flt r) (r_now r) token (d_codes d));
     (case tok of
        Inl e \<Rightarrow> if e = ErrNotFound \<or> e = ErrExpired then reply invalid_invite else reply internal_error
      | Inr c \<Rightarrow> do {
          found \<leftarrow> asks (\<lambda>d. Identity_GetByID (r_flt r) (c_IdentityID c) (d_identities d));
          (case found of Inl _ \<Rightarrow> reply invalid_invite | Inr ident \<Rightarrow> do {
             name \<leftarrow> asks (tenantLookup L (r_flt r) (c_IdentityID c));
             reply (Respond StatusOK (i_Email ident, i_Name ident, name))
           })
        })
   })"

record accept_request =
  aq_Token :: string
  aq_Password :: string
  aq_Name :: string

definition Invite_Accept :: "libs \<Rightarrow> request \<Rightarrow> accept_request option \<Rightarrow> (db, login_reply response) state" where
  [http_defs]: "Invite_Accept L r req = (case req of
     None \<Rightarrow> reply (Abort StatusBadRequest (Msg ''token and password (min 8 chars) are required'')) | Some q \<Rightarrow> do {
     tok \<leftarrow> asks (\<lambda>d. Invite_Validate (l_sha256 L) (r_flt r) (r_now r) (aq_Token q) (d_codes d));
     (case tok of
        Inl e \<Rightarrow> if e = ErrNotFound \<or> e = ErrExpired then reply invalid_invite else reply internal_error
      | Inr c \<Rightarrow> do {
          found \<leftarrow> asks (\<lambda>d. Identity_GetByID (r_flt r) (c_IdentityID c) (d_identities d));
          (case found of Inl _ \<Rightarrow> reply invalid_invite | Inr ident \<Rightarrow>
             if i_Activated ident then reply (Abort StatusConflict (Msg ''account already activated''))
             else if IsSuspended ident then reply (Abort StatusForbidden (Msg ''account is suspended''))
             else (case l_HashPassword L (aq_Password q) of None \<Rightarrow> reply internal_error | Some hash \<Rightarrow> do {
               pw \<leftarrow> on_identities (Identity_UpdatePassword (r_flt r) (r_now r) (i_ID ident) hash);
               (case pw of Inl _ \<Rightarrow> reply internal_error | Inr _ \<Rightarrow> do {
                  (if aq_Name q \<noteq> [] \<and> aq_Name q \<noteq> i_Name ident
                   then on_identities (Identity_UpdateName (r_flt r) (r_now r) (i_ID ident) (aq_Name q))
                   else reply (Inr ()));
                  act \<leftarrow> on_identities (Identity_Activate (r_flt r) (r_now r) (i_ID ident));
                  (case act of Inl _ \<Rightarrow> reply internal_error | Inr _ \<Rightarrow> do {
                     on_codes (Invite_MarkUsed (r_flt r) (r_now r) (c_ID c));
                     (case r_csrf r of None \<Rightarrow> reply internal_error | Some csrfToken \<Rightarrow> do {
                        created \<leftarrow> on_sessions (Session_Create (r_flt r) (r_now r) (r_fresh r 0)
                          \<lparr>p_IdentityID = i_ID ident, p_State = PreTenant, p_IPAddress = r_ip r,
                           p_UserAgent = r_ua r, p_AuthMethod = ''invite'', p_CSRFToken = csrfToken\<rparr>);
                        (case created of Inl _ \<Rightarrow> reply internal_error | Inr sess \<Rightarrow> do {
                           audit_log r 0 ''invite_accepted'' (Some (i_ID ident)) (Some (s_ID sess)) None [];
                           reply (Respond StatusOK \<lparr>lr_State = PreTenant, lr_Available2FA = None,
                             lr_SessionCookie = s_ID sess, lr_CSRFCookie = csrfToken\<rparr>)
                         })
                      })
                   })
                })
             }))
        })
   })"

definition demo_libs :: libs where
  "demo_libs = \<lparr>l_lower = id, l_normalise = id, l_collate = (\<lambda>_. 0), l_CheckPassword = (\<lambda>h p. h = p),
     l_HashPassword = Some, l_sha256 = id, l_totp = (\<lambda>c s. c = s), l_uuid = (\<lambda>s. if s = [] then None else Some (length s)),
     l_uuid_text = (\<lambda>i. replicate i (CHR ''a'')), l_ilike = (\<lambda>s p. sublist p s), l_pgdate = ParseDate,
     l_sniff = (\<lambda>_. ''application/pdf'')\<rparr>"

end
