(* ===== verification/SubOrg_Handlers.thy ===== *)
theory SubOrg_Handlers
  imports Auth_Handlers
begin

text \<open>
  \<^verbatim>\<open>backend/internal/suborg/handler.go\<close>: the handlers over the sub-organization store,
  with the scope of the running sessions they refresh, and
  \<^verbatim>\<open>httputil/pagination.go\<close>.
\<close>

subsection \<open>Shared by the handlers of the features\<close>

text \<open>Handlers start by reading tenant and user of the session; a session without them is
  answered like a missing one.\<close>

definition with_tenant :: "request \<Rightarrow> (session \<Rightarrow> uuid \<Rightarrow> (db, 'b response) state) \<Rightarrow> (db, 'b response) state" where
  "with_tenant r h = (case r_session r of None \<Rightarrow> reply no_session | Some sess \<Rightarrow>
     (case s_TenantID sess of None \<Rightarrow> reply no_session | Some t \<Rightarrow> h sess t))"

definition with_member :: "request \<Rightarrow> (session \<Rightarrow> uuid \<Rightarrow> uuid \<Rightarrow> (db, 'b response) state) \<Rightarrow> (db, 'b response) state" where
  "with_member r h = with_tenant r (\<lambda>sess t. case s_UserID sess of None \<Rightarrow> reply no_session | Some u \<Rightarrow> h sess t u)"

definition with_uuid :: "libs \<Rightarrow> string \<Rightarrow> string \<Rightarrow> (uuid \<Rightarrow> (db, 'b response) state) \<Rightarrow> (db, 'b response) state" where
  "with_uuid L text s h = (case l_uuid L s of None \<Rightarrow> reply (Abort StatusBadRequest (Msg text)) | Some i \<Rightarrow> h i)"

lemma with_tenant_Some [simp]:
  "r_session r = Some sess \<Longrightarrow> s_TenantID sess = Some t \<Longrightarrow> with_tenant r h = h sess t"
  by (simp add: with_tenant_def)

lemma with_member_Some [simp]:
  "r_session r = Some sess \<Longrightarrow> s_TenantID sess = Some t \<Longrightarrow> s_UserID sess = Some u \<Longrightarrow> with_member r h = h sess t u"
  by (simp add: with_member_def)

lemma with_uuid_Some [simp]: "l_uuid L s = Some i \<Longrightarrow> with_uuid L e s h = h i"
  by (simp add: with_uuid_def)

lemma keeps_with [frame_rules]:
  "(\<And>sess t. r_session r = Some sess \<Longrightarrow> s_TenantID sess = Some t \<Longrightarrow> keeps_inv P (h1 sess t)) \<Longrightarrow> keeps_inv P (with_tenant r h1)"
  "(\<And>sess t u. r_session r = Some sess \<Longrightarrow> s_TenantID sess = Some t \<Longrightarrow> s_UserID sess = Some u \<Longrightarrow> keeps_inv P (h2 sess t u))
     \<Longrightarrow> keeps_inv P (with_member r h2)"
  "(\<And>i. l_uuid L s = Some i \<Longrightarrow> keeps_inv P (h3 i)) \<Longrightarrow> keeps_inv P (with_uuid L e s h3)"
  by (auto simp: with_tenant_def with_member_def with_uuid_def keeps_reply split: option.split)

text \<open>\<^verbatim>\<open>ParsePagination\<close>: the error of \<^verbatim>\<open>Atoi\<close> is ignored, so that a parameter that
  is no number reads as zero.\<close>

definition maxPageLimit :: int where "maxPageLimit = 200"

definition ParsePagination :: "string option \<Rightarrow> string option \<Rightarrow> int \<Rightarrow> int \<times> int" where
  "ParsePagination limit_q offset_q defaultLimit =
     (let limit = (case limit_q of None \<Rightarrow> defaultLimit | Some s \<Rightarrow> Atoi s);
          offset = (case offset_q of None \<Rightarrow> 0 | Some s \<Rightarrow> Atoi s);
          limit1 = (if limit < 1 then 1 else limit);
          limit2 = (if limit1 > maxPageLimit then maxPageLimit else limit1)
      in (limit2, if offset < 0 then 0 else offset))"

lemma ParsePagination_bounds:
  "ParsePagination l q dflt = (limit, offset) \<Longrightarrow> 1 \<le> limit \<and> limit \<le> maxPageLimit \<and> 0 \<le> offset \<and> offset < 2 ^ 63"
  using Atoi_int64 by (auto simp: ParsePagination_def Let_def maxPageLimit_def split: if_splits option.splits)

lemma ParsePagination_default:
  "1 \<le> dflt \<Longrightarrow> dflt \<le> maxPageLimit \<Longrightarrow> ParsePagination None None dflt = (dflt, 0)"
  by (simp add: ParsePagination_def maxPageLimit_def)

subsection \<open>Handlers\<close>

definition SubOrg_logAudit :: "request \<Rightarrow> session \<Rightarrow> uuid \<Rightarrow> string \<Rightarrow> (string \<times> json) list \<Rightarrow> (db, unit) state" where
  "SubOrg_logAudit r sess tenantID action meta =
     audit_log r 0 action (Some (s_IdentityID sess)) (Some (s_ID sess)) (Some tenantID) meta"

definition SubOrg_Handler_List :: "libs \<Rightarrow> request \<Rightarrow> (db, suborg_row list response) state" where
  [http_defs]: "SubOrg_Handler_List L r = with_tenant r (\<lambda>sess tid. do {
     orgs \<leftarrow> asks (SubOrg_List (l_collate L) (r_flt r) tid);
     (case orgs of Inl _ \<Rightarrow> reply internal_error | Inr os \<Rightarrow> reply (Respond StatusOK os))
   })"

definition SubOrg_Handler_Create :: "request \<Rightarrow> string option \<Rightarrow> (db, suborg response) state" where
  [http_defs]: "SubOrg_Handler_Create r body = with_tenant r (\<lambda>sess tid.
     (case body of None \<Rightarrow> reply (Abort StatusBadRequest (Msg ''name is required'')) | Some name \<Rightarrow>
        if name = [] then reply (Abort StatusBadRequest (Msg ''name is required''))
        else do {
          res \<leftarrow> on_db (SubOrg_Create (r_flt r) (r_now r) (r_fresh r 0) tid name);
          (case res of
             Inl e \<Rightarrow> if e = ErrNameTaken
               then reply (Abort StatusConflict (Msg ''a sub-organization with that name already exists''))
               else reply internal_error
           | Inr org \<Rightarrow> do {
               SubOrg_logAudit r sess tid ''sub_org_created'' [(''sub_org_id'', JId (so_ID org)), (''name'', JStr (so_Name org))];
               reply (Respond StatusCreated org)
             })
        }))"

definition SubOrg_Handler_Update :: "libs \<Rightarrow> request \<Rightarrow> string \<Rightarrow> string option \<Rightarrow> (db, unit response) state" where
  [http_defs]: "SubOrg_Handler_Update L r id_param body = with_tenant r (\<lambda>sess tid.
     with_uuid L ''invalid id'' id_param (\<lambda>i.
     (case body of None \<Rightarrow> reply (Abort StatusBadRequest (Msg ''name is required'')) | Some name \<Rightarrow>
        if name = [] then reply (Abort StatusBadRequest (Msg ''name is required''))
        else do {
          res \<leftarrow> on_db (SubOrg_Update (r_flt r) (r_now r) tid i name);
          (case res of
             Inl e \<Rightarrow> if e = ErrNotFound then reply (Abort StatusNotFound (Msg ''sub-organization not found''))
               else if e = ErrNameTaken
               then reply (Abort StatusConflict (Msg ''a sub-organization with that name already exists''))
               else reply internal_error
           | Inr _ \<Rightarrow> do {
               SubOrg_logAudit r sess tid ''sub_org_updated'' [(''sub_org_id'', JId i), (''name'', JStr name)];
               reply (Respond StatusOK ())
             })
        })))"

definition SubOrg_Handler_Delete :: "libs \<Rightarrow> (string \<Rightarrow> string) \<Rightarrow> request \<Rightarrow> string \<Rightarrow> (db, unit response) state" where
  [http_defs]: "SubOrg_Handler_Delete L casefold r id_param = with_tenant r (\<lambda>sess tid.
     with_uuid L ''invalid id'' id_param (\<lambda>i. do {
       res \<leftarrow> on_db (SubOrg_Delete casefold (r_flt r) tid i);
       (case res of
          Inl e \<Rightarrow> if e = ErrNotFound then reply (Abort StatusNotFound (Msg ''sub-organization not found''))
            else if e = ErrDefaultLocked
            then reply (Abort StatusForbidden (Msg ''the Default sub-organization cannot be deleted''))
            else reply internal_error
        | Inr _ \<Rightarrow> do {
            SubOrg_logAudit r sess tid ''sub_org_deleted'' [(''sub_org_id'', JId i)];
            reply (Respond StatusNoContent ())
          })
     }))"

text \<open>A body is the \<^verbatim>\<open>user_id\<close>, absent, empty or given.\<close>

definition optional_uuid :: "libs \<Rightarrow> string \<Rightarrow> string option \<Rightarrow> (uuid option \<Rightarrow> (db, 'b response) state) \<Rightarrow> (db, 'b response) state" where
  "optional_uuid L text s h = (case s of None \<Rightarrow> h None | Some x \<Rightarrow>
     if x = [] then h None else with_uuid L text x (\<lambda>i. h (Some i)))"

lemma keeps_optional_uuid [frame_rules]:
  "(\<And>i. keeps_inv P (h i)) \<Longrightarrow> keeps_inv P (optional_uuid L e s h)"
  by (auto simp: optional_uuid_def with_uuid_def keeps_reply split: option.split)

definition SubOrg_Handler_SetPrimaryFSO ::
  "libs \<Rightarrow> request \<Rightarrow> string \<Rightarrow> string option option \<Rightarrow> (db, unit response) state" where
  [http_defs]: "SubOrg_Handler_SetPrimaryFSO L r id_param body = with_tenant r (\<lambda>sess tid.
     with_uuid L ''invalid id'' id_param (\<lambda>i.
     (case body of None \<Rightarrow> reply invalid_request | Some user_id \<Rightarrow>
        optional_uuid L ''invalid user_id'' user_id (\<lambda>userID. do {
          res \<leftarrow> on_db (SubOrg_SetPrimaryFSO (r_flt r) (r_now r) tid i userID);
          (case res of
             Inl e \<Rightarrow> if e = ErrNotFound then reply (Abort StatusNotFound (Msg ''sub-organization not found''))
               else reply internal_error
           | Inr _ \<Rightarrow> do {
               SubOrg_logAudit r sess tid ''sub_org_primary_fso_set''
                 [(''sub_org_id'', JId i), (''user_id'', case userID of None \<Rightarrow> JNull | Some u \<Rightarrow> JId u)];
               reply (Respond StatusOK ())
             })
        }))))"

definition SubOrg_Handler_GetMyFSO :: "request \<Rightarrow> (db, (string \<times> string) option response) state" where
  [http_defs]: "SubOrg_Handler_GetMyFSO r = with_member r (\<lambda>sess tid uid. do {
     contact \<leftarrow> asks (SubOrg_GetPrimaryFSO (r_flt r) tid uid);
     (case contact of
        Inl e \<Rightarrow> if e = ErrNotFound then reply (Respond StatusOK None) else reply internal_error
      | Inr c \<Rightarrow> reply (Respond StatusOK (Some c)))
   })"

text \<open>A refresh of the sessions that fails is only logged.\<close>

definition SubOrg_Handler_SetUserSubOrg ::
  "libs \<Rightarrow> request \<Rightarrow> string \<Rightarrow> string option \<Rightarrow> (db, unit response) state" where
  [http_defs]: "SubOrg_Handler_SetUserSubOrg L r user_param body = with_tenant r (\<lambda>sess tid.
     with_uuid L ''invalid user id'' user_param (\<lambda>userID.
     (case body of None \<Rightarrow> reply (Abort StatusBadRequest (Msg ''sub_org_id is required'')) | Some so \<Rightarrow>
        if so = [] then reply (Abort StatusBadRequest (Msg ''sub_org_id is required''))
        else with_uuid L ''invalid sub_org_id'' so (\<lambda>subOrgID. do {
          res \<leftarrow> on_db (SubOrg_SetUserSubOrg (r_flt r) tid userID subOrgID);
          (case res of
             Inl e \<Rightarrow> if e = ErrNotFound then reply (Abort StatusNotFound (Msg ''sub-organization not found''))
               else reply internal_error
           | Inr _ \<Rightarrow> do {
               on_sessions (Session_UpdateSubOrg (r_flt r) (r_now r) userID (Some subOrgID));
               SubOrg_logAudit r sess tid ''sub_org_user_assigned'' [(''sub_org_id'', JId subOrgID), (''user_id'', JId userID)];
               reply (Respond StatusOK ())
             })
        }))))"

end
