(* ===== verification/Storage.thy ===== *)
theory Storage
  imports SubOrg_Handlers
begin

text \<open>
  \<^verbatim>\<open>backend/internal/storage\<close>: the interface to the file store, the local backend and
  the keys. A store maps names to contents. The keys a handler builds are paths; the local
  backend cleans them as \<^verbatim>\<open>filepath.Join\<close> does, so that two keys can name one file.
  The laws a client relies on are a locale, interpreted on the local backend for canonical keys.
\<close>

subsection \<open>Paths\<close>

type_synonym files = "string \<Rightarrow> string option"

text \<open>\<^verbatim>\<open>strings.Split(s, "/")\<close>\<close>

fun split_slash :: "string \<Rightarrow> string list" where
  "split_slash [] = [[]]"
| "split_slash (c # cs) = (if c = CHR ''/'' then [] # split_slash cs
     else (case split_slash cs of [] \<Rightarrow> [[c]] | w # ws \<Rightarrow> (c # w) # ws))"

fun join_slash :: "string list \<Rightarrow> string" where
  "join_slash [] = []"
| "join_slash [w] = w"
| "join_slash (w # v # ws) = w @ CHR ''/'' # join_slash (v # ws)"

text \<open>\<^verbatim>\<open>filepath.Clean\<close> on the segments; the accumulator holds the result in reverse.\<close>

fun clean :: "bool \<Rightarrow> string list \<Rightarrow> string list \<Rightarrow> string list" where
  "clean rooted acc [] = rev acc"
| "clean rooted acc (w # ws) =
     (if w = [] \<or> w = ''.'' then clean rooted acc ws
      else if w = ''..'' then
        (case acc of
           [] \<Rightarrow> if rooted then clean rooted [] ws else clean rooted [''..''] ws
         | a # as \<Rightarrow> if a = ''..'' then clean rooted (''..'' # acc) ws else clean rooted as ws)
      else clean rooted (w # acc) ws)"

definition rooted :: "string \<Rightarrow> bool" where
  "rooted p = (case p of [] \<Rightarrow> False | c # _ \<Rightarrow> c = CHR ''/'')"

definition path_prefix :: "string \<Rightarrow> string" where
  "path_prefix base = (if rooted base then ''/'' else [])"

definition Local_path :: "string \<Rightarrow> string \<Rightarrow> string" where
  "Local_path base key =
     path_prefix base @ join_slash (clean (rooted base) [] (split_slash base @ split_slash key))"

text \<open>\<^verbatim>\<open>filepath.Base\<close> and \<^verbatim>\<open>filepath.Ext\<close>\<close>

definition path_base :: "string \<Rightarrow> string" where
  "path_base p = (if p = [] then ''.''
     else let last = rev (takeWhile (\<lambda>c. c \<noteq> CHR ''/'') (dropWhile (\<lambda>c. c = CHR ''/'') (rev p))) in
       if last = [] then ''/'' else last)"

definition path_ext :: "string \<Rightarrow> string" where
  "path_ext p = (let r = takeWhile (\<lambda>c. c \<noteq> CHR ''/'') (rev p) in
     if CHR ''.'' \<in> set r then CHR ''.'' # rev (takeWhile (\<lambda>c. c \<noteq> CHR ''.'') r) else [])"

subsection \<open>Backends\<close>

record storage_backend =
  sb_Upload :: "faults \<Rightarrow> string \<Rightarrow> string \<Rightarrow> files \<Rightarrow> (files, unit) store_result"
  sb_Download :: "faults \<Rightarrow> string \<Rightarrow> files \<Rightarrow> err + string"
  sb_Delete :: "faults \<Rightarrow> string \<Rightarrow> files \<Rightarrow> (files, unit) store_result"
  sb_SignedURL :: "faults \<Rightarrow> string \<Rightarrow> err + string"

definition on_files :: "(files \<Rightarrow> files \<times> 'a) \<Rightarrow> (db, 'a) state" where
  "on_files f = on_db (on_table d_files d_files_update f)"

lemma run_state_on_files [simp]:
  "run_state (on_files f) d = (snd (f (d_files d)), d\<lparr>d_files := fst (f (d_files d))\<rparr>)"
  by (simp add: on_files_def on_table_def)

lemma keeps_on_files: "(\<And>d t. P (d\<lparr>d_files := t\<rparr>) = P d) \<Longrightarrow> keeps_inv P (on_files f)"
  by (simp add: triple_def)

text \<open>A copy that fails leaves the file \<^verbatim>\<open>os.Create\<close> has emptied.\<close>

definition Local_Upload :: "string \<Rightarrow> faults \<Rightarrow> string \<Rightarrow> string \<Rightarrow> files \<Rightarrow> (files, unit) store_result" where
  [store_defs]: "Local_Upload base flt key content fs =
     (if flt ''storage.mkdir'' 0 then (fs, Inl (Fault ''storage.mkdir''))
      else if flt ''storage.create'' 0 then (fs, Inl (Fault ''storage.create''))
      else if flt ''storage.copy'' 0 then (fs(Local_path base key \<mapsto> []), Inl (Fault ''storage.copy''))
      else (fs(Local_path base key \<mapsto> content), Inr ()))"

definition Local_Download :: "string \<Rightarrow> faults \<Rightarrow> string \<Rightarrow> files \<Rightarrow> err + string" where
  [store_defs]: "Local_Download base flt key fs =
     (if flt ''storage.open'' 0 then Inl (Fault ''storage.open'')
      else case fs (Local_path base key) of None \<Rightarrow> Inl (Fault ''storage.open'') | Some c \<Rightarrow> Inr c)"

definition Local_Delete :: "string \<Rightarrow> faults \<Rightarrow> string \<Rightarrow> files \<Rightarrow> (files, unit) store_result" where
  [store_defs]: "Local_Delete base flt key fs =
     (if flt ''storage.remove'' 0 then (fs, Inl (Fault ''storage.remove''))
      else (fs(Local_path base key := None), Inr ()))"

definition Local_SignedURL :: "faults \<Rightarrow> string \<Rightarrow> err + string" where
  [store_defs]: "Local_SignedURL flt key = Inr (''/api/v1/tasks/files/'' @ key)"

definition NewLocal :: "string \<Rightarrow> storage_backend" where
  "NewLocal base = \<lparr>sb_Upload = Local_Upload base, sb_Download = Local_Download base, sb_Delete = Local_Delete base,
     sb_SignedURL = Local_SignedURL\<rparr>"

lemma NewLocal_simps [simp]:
  "sb_Upload (NewLocal base) = Local_Upload base" "sb_Download (NewLocal base) = Local_Download base"
  "sb_Delete (NewLocal base) = Local_Delete base" "sb_SignedURL (NewLocal base) = Local_SignedURL"
  by (simp_all add: NewLocal_def)

subsection \<open>Keys\<close>

definition KeyPrefix :: "(uuid \<Rightarrow> string) \<Rightarrow> uuid \<Rightarrow> uuid \<Rightarrow> string" where
  "KeyPrefix text tenantID taskID = ''tenants/'' @ text tenantID @ ''/tasks/'' @ text taskID"

definition TravelKeyPrefix :: "(uuid \<Rightarrow> string) \<Rightarrow> uuid \<Rightarrow> uuid \<Rightarrow> string" where
  "TravelKeyPrefix text tenantID reportID = ''tenants/'' @ text tenantID @ ''/travel/'' @ text reportID"

definition WikiKeyPrefix :: "(uuid \<Rightarrow> string) \<Rightarrow> uuid \<Rightarrow> uuid \<Rightarrow> string" where
  "WikiKeyPrefix text tenantID postID = ''tenants/'' @ text tenantID @ ''/wiki/'' @ text postID"

definition DD254KeyPrefix :: "(uuid \<Rightarrow> string) \<Rightarrow> uuid \<Rightarrow> uuid \<Rightarrow> string" where
  "DD254KeyPrefix text tenantID dd254ID = ''tenants/'' @ text tenantID @ ''/dd254/'' @ text dd254ID"

definition tenantFromKey :: "(string \<Rightarrow> uuid option) \<Rightarrow> string \<Rightarrow> uuid option" where
  "tenantFromKey parse key = (case split_slash key of
     p0 # p1 # _ \<Rightarrow> if p0 \<noteq> ''tenants'' then None else parse p1
   | _ \<Rightarrow> None)"

subsection \<open>Facts about paths\<close>

lemma split_slash_ne [simp]: "split_slash s \<noteq> []"
  by (induction s) (auto split: list.split)

lemma join_split [simp]: "join_slash (split_slash s) = s"
proof (induction s)
  case (Cons c cs)
  obtain w ws where "split_slash cs = w # ws" by (cases "split_slash cs") auto
  with Cons.IH show ?case by (cases ws) auto
qed simp

lemma split_append_slash: "split_slash (u @ CHR ''/'' # v) = split_slash u @ split_slash v"
  by (induction u) (auto split: list.split)

lemma split_no_slash: "CHR ''/'' \<notin> set s \<Longrightarrow> split_slash s = [s]"
  by (induction s) auto

text \<open>A segment that cleaning keeps, and a key all of whose segments are.\<close>

definition plain_segment :: "string \<Rightarrow> bool" where
  "plain_segment w = (w \<noteq> [] \<and> w \<noteq> ''.'' \<and> w \<noteq> ''..'')"

definition canonical :: "string \<Rightarrow> bool" where
  "canonical key = list_all plain_segment (split_slash key)"

lemma clean_plain: "list_all plain_segment ws \<Longrightarrow> clean b acc ws = rev acc @ ws"
  by (induction ws arbitrary: acc) (auto simp: plain_segment_def)

lemma clean_append: "clean b acc (us @ ws) = clean b (rev (clean b acc us)) ws"
  by (induction b acc us rule: clean.induct) (auto split: list.split)

lemma join_append: "us \<noteq> [] \<Longrightarrow> vs \<noteq> [] \<Longrightarrow> join_slash (us @ vs) = join_slash us @ CHR ''/'' # join_slash vs"
  by (induction us rule: join_slash.induct) (cases vs, auto)+

definition Local_root :: "string \<Rightarrow> string" where
  "Local_root base = path_prefix base @
     (let B = clean (rooted base) [] (split_slash base) in if B = [] then [] else join_slash B @ ''/'')"

lemma Local_path_canonical: "canonical key \<Longrightarrow> Local_path base key = Local_root base @ key"
  by (simp add: Local_path_def Local_root_def canonical_def clean_append clean_plain Let_def join_append)

lemma Local_path_inj: "canonical k \<Longrightarrow> canonical j \<Longrightarrow> Local_path base k = Local_path base j \<longleftrightarrow> k = j"
  by (simp add: Local_path_canonical)

text \<open>A parent segment after a plain one takes it away again.\<close>

lemma clean_parent: "plain_segment w \<Longrightarrow> clean b acc (w # ''..'' # ws) = clean b acc ws"
  by (simp add: plain_segment_def)

lemma split_parent:
  assumes "CHR ''/'' \<notin> set w"
  shows "split_slash (u @ ''/'' @ w @ ''/../'' @ v) = split_slash u @ w # ''..'' # split_slash v"
proof -
  have "u @ ''/'' @ w @ ''/../'' @ v = u @ CHR ''/'' # (w @ CHR ''/'' # (''..'' @ CHR ''/'' # v))" by simp
  then show ?thesis using assms by (simp only: split_append_slash) (simp add: split_no_slash)
qed

lemma Local_path_parent:
  assumes "plain_segment w" "CHR ''/'' \<notin> set w"
  shows "Local_path base (u @ ''/'' @ w @ ''/../'' @ v) = Local_path base (u @ ''/'' @ v)"
proof -
  have "split_slash (u @ ''/'' @ v) = split_slash u @ split_slash v"
    by (simp add: split_append_slash)
  moreover have "clean r acc (us @ w # ''..'' # vs) = clean r acc (us @ vs)" for r acc us vs
    by (simp only: clean_append [of r acc us] clean_parent [OF assms(1)])
  ultimately show ?thesis
    unfolding Local_path_def split_parent [OF assms(2)] by (simp only: append_assoc [symmetric])
qed

subsection \<open>What a client relies on\<close>

locale blob_store =
  fixes upload :: "faults \<Rightarrow> string \<Rightarrow> string \<Rightarrow> 's \<Rightarrow> ('s, unit) store_result"
    and download :: "faults \<Rightarrow> string \<Rightarrow> 's \<Rightarrow> err + string"
    and delete :: "faults \<Rightarrow> string \<Rightarrow> 's \<Rightarrow> ('s, unit) store_result"
    and key_ok :: "string \<Rightarrow> bool"
    and readable :: "faults \<Rightarrow> bool"
  assumes download_upload: "snd (upload flt k c fs) = Inr () \<Longrightarrow> readable flt' \<Longrightarrow>
      download flt' k (fst (upload flt k c fs)) = Inr c"
    and upload_other: "key_ok k \<Longrightarrow> key_ok j \<Longrightarrow> k \<noteq> j \<Longrightarrow>
      download flt' j (fst (upload flt k c fs)) = download flt' j fs"
    and download_delete: "snd (delete flt k fs) = Inr () \<Longrightarrow> \<not> is_ok (download flt' k (fst (delete flt k fs)))"
    and delete_other: "key_ok k \<Longrightarrow> key_ok j \<Longrightarrow> k \<noteq> j \<Longrightarrow>
      download flt' j (fst (delete flt k fs)) = download flt' j fs"
begin

lemma last_upload_wins:
  assumes "snd (upload flt k a fs) = Inr ()" "snd (upload flt2 k b (fst (upload flt k a fs))) = Inr ()" "readable flt'"
  shows "download flt' k (fst (upload flt2 k b (fst (upload flt k a fs)))) = Inr b"
  using assms(2,3) by (rule download_upload)

lemma delete_takes_both:
  assumes "snd (delete flt3 k (fst (upload flt2 k b (fst (upload flt k a fs))))) = Inr ()"
  shows "\<not> is_ok (download flt' k (fst (delete flt3 k (fst (upload flt2 k b (fst (upload flt k a fs)))))))"
  using assms by (rule download_delete)

lemma upload_survives_others:
  assumes "snd (upload flt k a fs) = Inr ()" "readable flt'" "key_ok k" "key_ok j" "k \<noteq> j"
  shows "download flt' k (fst (delete flt3 j (fst (upload flt2 j b (fst (upload flt k a fs)))))) = Inr a"
  using assms delete_other [of j k] upload_other [of j k] download_upload [of flt k a fs] by auto

end

interpretation local_store:
  blob_store "Local_Upload base" "Local_Download base" "Local_Delete base" canonical "\<lambda>flt. \<not> flt ''storage.open'' 0"
proof
  fix flt flt' :: faults and k j c and fs :: files
  show "snd (Local_Upload base flt k c fs) = Inr () \<Longrightarrow> \<not> flt' ''storage.open'' 0 \<Longrightarrow>
      Local_Download base flt' k (fst (Local_Upload base flt k c fs)) = Inr c"
    by (auto simp: Local_Upload_def Local_Download_def split: if_splits)
  show "snd (Local_Delete base flt k fs) = Inr () \<Longrightarrow>
      \<not> is_ok (Local_Download base flt' k (fst (Local_Delete base flt k fs)))"
    by (auto simp: Local_Delete_def Local_Download_def split: if_splits)
  assume ok: "canonical k" "canonical j" "k \<noteq> j"
  then show "Local_Download base flt' j (fst (Local_Upload base flt k c fs)) = Local_Download base flt' j fs"
    by (simp add: Local_Upload_def Local_Download_def Local_path_inj)
  from ok show "Local_Download base flt' j (fst (Local_Delete base flt k fs)) = Local_Download base flt' j fs"
    by (simp add: Local_Delete_def Local_Download_def Local_path_inj)
qed

end
