(* ===== verification/Cloud_Storage.thy ===== *)
theory Cloud_Storage
  imports Storage
begin

text \<open>
  \<^verbatim>\<open>backend/internal/storage/gcs.go\<close>: the file store in a bucket. The client library of the bucket
  is an argument; what its documentation promises is the predicate \<open>object_store\<close>, under which
  the backend keeps the laws \<open>blob_store\<close> demands of every file store.
\<close>

subsection \<open>The backend\<close>

text \<open>\<open>bk_copied\<close> is how much of a content a failing copy has passed to the writer of an object;
  \<open>bk_close\<close> closes the writer of an object that was given a content.\<close>

record bucket =
  bk_copied :: "faults \<Rightarrow> string \<Rightarrow> nat"
  bk_close :: "faults \<Rightarrow> string \<Rightarrow> string \<Rightarrow> files \<Rightarrow> files \<times> bool"
  bk_read :: "faults \<Rightarrow> string \<Rightarrow> files \<Rightarrow> string option"
  bk_delete :: "faults \<Rightarrow> string \<Rightarrow> files \<Rightarrow> files \<times> bool"
  bk_sign :: "faults \<Rightarrow> string \<Rightarrow> string option"

text \<open>When the copy fails the writer is closed as well, which commits what was copied.\<close>

definition GCS_Upload :: "bucket \<Rightarrow> faults \<Rightarrow> string \<Rightarrow> string \<Rightarrow> files \<Rightarrow> (files, unit) store_result" where
  [store_defs]: "GCS_Upload B flt key content fs =
     (if flt ''gcs.copy'' 0
      then (fst (bk_close B flt key (take (bk_copied B flt content) content) fs), Inl (Fault ''upload to GCS''))
      else (case bk_close B flt key content fs of
          (fs', True) \<Rightarrow> (fs', Inr ())
        | (fs', False) \<Rightarrow> (fs', Inl (Fault ''close GCS writer''))))"

definition GCS_Download :: "bucket \<Rightarrow> faults \<Rightarrow> string \<Rightarrow> files \<Rightarrow> err + string" where
  [store_defs]: "GCS_Download B flt key fs =
     (case bk_read B flt key fs of None \<Rightarrow> Inl (Fault ''download from GCS'') | Some c \<Rightarrow> Inr c)"

definition GCS_Delete :: "bucket \<Rightarrow> faults \<Rightarrow> string \<Rightarrow> files \<Rightarrow> (files, unit) store_result" where
  [store_defs]: "GCS_Delete B flt key fs = (case bk_delete B flt key fs of
     (fs', True) \<Rightarrow> (fs', Inr ()) | (fs', False) \<Rightarrow> (fs', Inl (Fault ''delete from GCS'')))"

definition GCS_SignedURL :: "bucket \<Rightarrow> faults \<Rightarrow> string \<Rightarrow> err + string" where
  [store_defs]: "GCS_SignedURL B flt key = (case bk_sign B flt key of None \<Rightarrow> Inl (Fault ''sign GCS URL'') | Some url \<Rightarrow> Inr url)"

definition NewGCS :: "bucket \<Rightarrow> storage_backend" where
  "NewGCS B = \<lparr>sb_Upload = GCS_Upload B, sb_Download = GCS_Download B, sb_Delete = GCS_Delete B, sb_SignedURL = GCS_SignedURL B\<rparr>"

subsection \<open>What the client library promises\<close>

text \<open>An object appears with the content its writer was given when the writer is closed without error, and
  then replaces the one of the same name; a close or a deletion that fails changes nothing; reading an
  object that is not there fails, as does deleting it.\<close>

definition object_store :: "bucket \<Rightarrow> bool" where
  "object_store B = (
     (\<forall>flt key c fs. bk_close B flt key c fs \<in> {(fs(key \<mapsto> c), True), (fs, False)}) \<and>
     (\<forall>flt key fs. bk_read B flt key fs \<in> {None, fs key}) \<and>
     (\<forall>flt key fs. \<not> flt ''gcs.read'' 0 \<longrightarrow> bk_read B flt key fs = fs key) \<and>
     (\<forall>flt key fs fs'. fs key = fs' key \<longrightarrow> bk_read B flt key fs = bk_read B flt key fs') \<and>
     (\<forall>flt key fs. bk_delete B flt key fs \<in> {(fs(key := None), True), (fs, False)}))"

lemma object_store_laws:
  assumes "object_store B"
  shows "bk_close B flt key c fs \<in> {(fs(key \<mapsto> c), True), (fs, False)}" "bk_read B flt key fs \<in> {None, fs key}"
    "\<not> flt ''gcs.read'' 0 \<Longrightarrow> bk_read B flt key fs = fs key"
    "fs key = fs' key \<Longrightarrow> bk_read B flt key fs = bk_read B flt key fs'"
    "bk_delete B flt key fs \<in> {(fs(key := None), True), (fs, False)}"
proof -
  note a = assms [unfolded object_store_def]
  show "bk_close B flt key c fs \<in> {(fs(key \<mapsto> c), True), (fs, False)}" by (rule a [THEN conjunct1, rule_format])
  show "bk_read B flt key fs \<in> {None, fs key}" by (rule a [THEN conjunct2, THEN conjunct1, rule_format])
  show "\<not> flt ''gcs.read'' 0 \<Longrightarrow> bk_read B flt key fs = fs key"
    by (rule a [THEN conjunct2, THEN conjunct2, THEN conjunct1, rule_format])
  show "fs key = fs' key \<Longrightarrow> bk_read B flt key fs = bk_read B flt key fs'"
    by (rule a [THEN conjunct2, THEN conjunct2, THEN conjunct2, THEN conjunct1, rule_format])
  show "bk_delete B flt key fs \<in> {(fs(key := None), True), (fs, False)}"
    by (rule a [THEN conjunct2, THEN conjunct2, THEN conjunct2, THEN conjunct2, rule_format])
qed

lemma GCS_Upload_effect:
  assumes "object_store B"
  shows "fst (GCS_Upload B flt key c fs) \<in> {fs, fs(key \<mapsto> c), fs(key \<mapsto> take (bk_copied B flt c) c)}"
    "snd (GCS_Upload B flt key c fs) = Inr () \<Longrightarrow> fst (GCS_Upload B flt key c fs) = fs(key \<mapsto> c)"
proof -
  have "fst (GCS_Upload B flt key c fs) \<in> {fs, fs(key \<mapsto> c), fs(key \<mapsto> take (bk_copied B flt c) c)} \<and>
      (snd (GCS_Upload B flt key c fs) = Inr () \<longrightarrow> fst (GCS_Upload B flt key c fs) = fs(key \<mapsto> c))"
  proof (cases "flt ''gcs.copy'' 0")
    case True
    then show ?thesis using object_store_laws(1) [OF assms, of flt key "take (bk_copied B flt c) c" fs]
      by (auto simp: GCS_Upload_def)
  next
    case False
    consider "bk_close B flt key c fs = (fs(key \<mapsto> c), True)" | "bk_close B flt key c fs = (fs, False)"
      using object_store_laws(1) [OF assms, of flt key c fs] by blast
    then show ?thesis using False by cases (simp_all add: GCS_Upload_def)
  qed
  then show "fst (GCS_Upload B flt key c fs) \<in> {fs, fs(key \<mapsto> c), fs(key \<mapsto> take (bk_copied B flt c) c)}"
    "snd (GCS_Upload B flt key c fs) = Inr () \<Longrightarrow> fst (GCS_Upload B flt key c fs) = fs(key \<mapsto> c)" by blast+
qed

lemma GCS_Delete_effect:
  assumes "object_store B"
  shows "fst (GCS_Delete B flt key fs) \<in> {fs, fs(key := None)}"
    "snd (GCS_Delete B flt key fs) = Inr () \<Longrightarrow> fst (GCS_Delete B flt key fs) = fs(key := None)"
  using object_store_laws(5) [OF assms, of flt key fs] by (auto simp: GCS_Delete_def split: if_splits)

text \<open>Under these promises the backend is a file store in the sense the handlers rely on, for every name.\<close>

lemma GCS_blob_store:
  assumes B: "object_store B"
  shows "blob_store (GCS_Upload B) (GCS_Download B) (GCS_Delete B) (\<lambda>_. True) (\<lambda>flt. \<not> flt ''gcs.read'' 0)"
proof
  fix flt flt' :: faults and k j c and fs :: files
  show "snd (GCS_Upload B flt k c fs) = Inr () \<Longrightarrow> \<not> flt' ''gcs.read'' 0 \<Longrightarrow>
      GCS_Download B flt' k (fst (GCS_Upload B flt k c fs)) = Inr c"
    by (simp add: GCS_Upload_effect(2) [OF B] GCS_Download_def object_store_laws(3) [OF B])
  show "snd (GCS_Delete B flt k fs) = Inr () \<Longrightarrow> \<not> is_ok (GCS_Download B flt' k (fst (GCS_Delete B flt k fs)))"
    using object_store_laws(2) [OF B, of flt' k "fs(k := None)"]
    by (simp add: GCS_Delete_effect(2) [OF B] GCS_Download_def)
  assume "k \<noteq> j"
  then have "fst (GCS_Upload B flt k c fs) j = fs j" "fst (GCS_Delete B flt k fs) j = fs j"
    using GCS_Upload_effect(1) [OF B, of flt k c fs] GCS_Delete_effect(1) [OF B, of flt k fs] by auto
  then have "bk_read B flt' j (fst (GCS_Upload B flt k c fs)) = bk_read B flt' j fs"
    "bk_read B flt' j (fst (GCS_Delete B flt k fs)) = bk_read B flt' j fs"
    using object_store_laws(4) [OF B, of _ j fs flt'] by blast+
  then show "GCS_Download B flt' j (fst (GCS_Upload B flt k c fs)) = GCS_Download B flt' j fs"
    "GCS_Download B flt' j (fst (GCS_Delete B flt k fs)) = GCS_Download B flt' j fs"
    by (simp_all add: GCS_Download_def)
qed

text \<open>A failed upload is not always without effect. If the copy breaks off and the writer still closes, the part
  that was copied replaces the file of that name, although the upload reports an error; the local
  backend leaves an empty file in the same case.\<close>

lemma failed_upload_replaces_file:
  assumes "object_store B" "flt ''gcs.copy'' 0" "snd (bk_close B flt key (take (bk_copied B flt c) c) fs)" "\<not> flt' ''gcs.read'' 0"
  shows "snd (GCS_Upload B flt key c fs) = Inl (Fault ''upload to GCS'')"
    "GCS_Download B flt' key (fst (GCS_Upload B flt key c fs)) = Inr (take (bk_copied B flt c) c)"
  using object_store_laws(1) [OF assms(1), of flt key "take (bk_copied B flt c) c" fs] assms
  by (auto simp: GCS_Upload_def GCS_Download_def object_store_laws(3) [OF assms(1)])

text \<open>A bucket that keeps the promises, failing where the oracle says.\<close>

definition map_bucket :: bucket where
  "map_bucket = \<lparr>bk_copied = (\<lambda>_ c. length c div 2),
     bk_close = (\<lambda>flt key c fs. if flt ''gcs.close'' 0 then (fs, False) else (fs(key \<mapsto> c), True)),
     bk_read = (\<lambda>flt key fs. if flt ''gcs.read'' 0 then None else fs key),
     bk_delete = (\<lambda>flt key fs. if flt ''gcs.delete'' 0 \<or> fs key = None then (fs, False) else (fs(key := None), True)),
     bk_sign = (\<lambda>flt key. if flt ''gcs.sign'' 0 then None else Some (''https://files/'' @ key))\<rparr>"

lemma map_bucket_store: "object_store map_bucket"
  by (simp add: object_store_def map_bucket_def)

interpretation bucket_store:
  blob_store "GCS_Upload map_bucket" "GCS_Download map_bucket" "GCS_Delete map_bucket" "\<lambda>_. True" "\<lambda>flt. \<not> flt ''gcs.read'' 0"
  by (rule GCS_blob_store [OF map_bucket_store])

lemma broken_replacement:
  "GCS_Download map_bucket no_faults ''k'' (fst (GCS_Upload map_bucket (\<lambda>q _. q = ''gcs.copy'') ''k'' ''newer'' (Map.empty(''k'' \<mapsto> ''older'')))) =
     Inr ''ne''"
  using failed_upload_replaces_file(2) [OF map_bucket_store, of "\<lambda>q _. q = ''gcs.copy''" "''k''" "''newer''" _ no_faults]
  by (simp add: map_bucket_def)

end
