(* ===== verification/Action_Items.thy ===== *)
theory Action_Items
  imports SubOrg_Handlers
begin

text \<open>
  \<^verbatim>\<open>backend/internal/actionitem\<close>: the work queue of the security officers. The store's
  statements on \<^verbatim>\<open>action_items\<close> with the joins to the assignee, and the handlers. The
  status changes of an item cascade to its source through \<^verbatim>\<open>SourceUpdater\<close> functions,
  which the router passes in, so they are an argument here.
\<close>

subsection \<open>Store\<close>

definition source_type_check :: "string \<Rightarrow> bool" where
  "source_type_check s = (s \<in> {''task_submission'', ''visit_request'', ''travel_report'', ''travel_debrief'',
     ''incident_report'', ''clearance_renewal'', ''sf86_submission'', ''report''})"

definition priority_check :: "string \<Rightarrow> bool" where
  "priority_check s = (s \<in> {''low'', ''medium'', ''high'', ''urgent''})"

definition item_status_check :: "string \<Rightarrow> bool" where
  "item_status_check s = (s \<in> {''pending'', ''under_review'', ''processed'', ''rejected''})"

text \<open>An item with the name and address of its assignee.\<close>

record item_view =
  iv_Item :: action_item
  iv_Assignee :: "(string \<times> string) option"

definition item_view_of :: "db \<Rightarrow> action_item \<Rightarrow> item_view" where
  "item_view_of d a = \<lparr>iv_Item = a, iv_Assignee =
     (case ai_AssignedTo a of None \<Rightarrow> None | Some u \<Rightarrow> map_option (\<lambda>(_, i). (i_Name i, i_Email i)) (contact_of d u))\<rparr>"

record item_params =
  ip_TenantID :: uuid
  ip_SourceType :: string
  ip_SourceID :: "uuid option"
  ip_Title :: string
  ip_Description :: string
  ip_Priority :: string
  ip_AssignedTo :: "uuid option"
  ip_DueDate :: "time option"
  ip_SubOrgID :: "uuid option"

text \<open>The subquery for the primary officer of the sub-organization, within the tenant.\<close>

definition primary_fso :: "db \<Rightarrow> uuid \<Rightarrow> uuid option \<Rightarrow> uuid option" where
  "primary_fso d tenantID so = (case so of None \<Rightarrow> None | Some s \<Rightarrow>
     Option.bind (sql_row (\<lambda>x. so_ID x = s \<and> so_TenantID x = tenantID) (d_suborgs d)) so_PrimaryFSOUserID)"

definition ActionItem_Create :: "faults \<Rightarrow> time \<Rightarrow> uuid \<Rightarrow> item_params \<Rightarrow> db \<Rightarrow> (db, item_view) store_result" where
  [store_defs]: "ActionItem_Create flt now i p d =
     (let assigned = (case ip_AssignedTo p of Some u \<Rightarrow> Some u | None \<Rightarrow> primary_fso d (ip_TenantID p) (ip_SubOrgID p)) in
      if flt ''actionitem.Create'' 0 \<or> \<not> source_type_check (ip_SourceType p) \<or> \<not> priority_check (ip_Priority p) \<or>
         tenant_by d (ip_TenantID p) = None \<or>
         (case assigned of None \<Rightarrow> False | Some u \<Rightarrow> user_by d u = None) \<or>
         (case ip_SubOrgID p of None \<Rightarrow> False | Some s \<Rightarrow> suborg_by d s = None)
      then (d, Inl (Fault ''actionitem.Create''))
      else let a = \<lparr>ai_ID = i, ai_TenantID = ip_TenantID p, ai_SourceType = ip_SourceType p, ai_SourceID = ip_SourceID p,
                    ai_Title = ip_Title p, ai_Description = ip_Description p, ai_Priority = ip_Priority p,
                    ai_Status = ''pending'', ai_AssignedTo = assigned, ai_Notes = [], ai_DueDate = map_option sql_date (ip_DueDate p),
                    ai_SubOrgID = ip_SubOrgID p, ai_CreatedAt = now, ai_UpdatedAt = now\<rparr>
        in (d\<lparr>d_action_items := d_action_items d @ [a]\<rparr>, Inr (item_view_of d a)))"

definition ActionItem_Get :: "faults \<Rightarrow> uuid \<Rightarrow> uuid \<Rightarrow> db \<Rightarrow> err + item_view" where
  [store_defs]: "ActionItem_Get flt tenantID i d =
     (case query_row flt ''actionitem.Get'' ErrNotFound (\<lambda>a. ai_ID a = i \<and> ai_TenantID a = tenantID) (d_action_items d) of
        Inl e \<Rightarrow> Inl e | Inr a \<Rightarrow> Inr (item_view_of d a))"

definition UpdateAssignedTo :: "faults \<Rightarrow> time \<Rightarrow> uuid \<Rightarrow> uuid \<Rightarrow> uuid option \<Rightarrow> db \<Rightarrow> (db, item_view) store_result" where
  [store_defs]: "UpdateAssignedTo flt now tenantID i userID d =
     (let P = (\<lambda>a. ai_ID a = i \<and> ai_TenantID a = tenantID);
          f = (\<lambda>a. a\<lparr>ai_AssignedTo := userID, ai_UpdatedAt := now\<rparr>) in
      if userID \<noteq> None \<and> flt ''actionitem.UpdateAssignedTo.verifyUser'' 0
      then (d, Inl (Fault ''actionitem.UpdateAssignedTo.verifyUser''))
      else if (case userID of None \<Rightarrow> False
               | Some u \<Rightarrow> \<not> sql_exists (\<lambda>x. u_ID x = u \<and> u_TenantID x = tenantID) (d_users d))
      then (d, Inl ErrAssigneeWrongTenant)
      else if flt ''actionitem.UpdateAssignedTo'' 0 then (d, Inl (Fault ''actionitem.UpdateAssignedTo''))
      else case sql_row P (d_action_items d) of
        None \<Rightarrow> (d, Inl ErrNotFound)
      | Some a \<Rightarrow> (d\<lparr>d_action_items := sql_update P f (d_action_items d)\<rparr>, Inr (item_view_of d (f a))))"

text \<open>User, name, address.\<close>

type_synonym fso_user = "uuid \<times> string \<times> string"

definition users_in_roles :: "(string \<Rightarrow> 'k::linorder) \<Rightarrow> uuid \<Rightarrow> string list \<Rightarrow> db \<Rightarrow> fso_user list" where
  "users_in_roles coll tenantID roles d =
     sort_key (\<lambda>(_, name, _). coll name) (List.map_filter
       (\<lambda>u. if u_TenantID u = tenantID \<and> u_Role u \<in> set roles
            then map_option (\<lambda>i. (u_ID u, i_Name i, i_Email i)) (identity_by d (u_IdentityID u)) else None) (d_users d))"

definition ListAdmins :: "(string \<Rightarrow> 'k::linorder) \<Rightarrow> faults \<Rightarrow> uuid \<Rightarrow> db \<Rightarrow> err + fso_user list" where
  [store_defs]: "ListAdmins coll flt tenantID d =
     (if flt ''actionitem.ListAdmins'' 0 then Inl (Fault ''actionitem.ListAdmins'')
      else Inr (users_in_roles coll tenantID [''administrator''] d))"

definition ResolveNotifyTargets ::
  "(string \<Rightarrow> 'k::linorder) \<Rightarrow> faults \<Rightarrow> uuid \<Rightarrow> item_view \<Rightarrow> db \<Rightarrow> fso_user list" where
  [store_defs]: "ResolveNotifyTargets coll flt tenantID v d =
     (case (ai_AssignedTo (iv_Item v), iv_Assignee v) of
        (Some u, Some (name, email)) \<Rightarrow>
          if email \<noteq> [] then [(u, name, email)]
          else (case ListAdmins coll flt tenantID d of Inl _ \<Rightarrow> [] | Inr admins \<Rightarrow> admins)
      | _ \<Rightarrow> (case ListAdmins coll flt tenantID d of Inl _ \<Rightarrow> [] | Inr admins \<Rightarrow> admins))"

definition ActionItem_ListFSOUsers :: "(string \<Rightarrow> 'k::linorder) \<Rightarrow> faults \<Rightarrow> uuid \<Rightarrow> db \<Rightarrow> err + fso_user list" where
  [store_defs]: "ActionItem_ListFSOUsers coll flt tenantID d =
     (if flt ''actionitem.ListFSOUsers'' 0 then Inl (Fault ''actionitem.ListFSOUsers'')
      else Inr (users_in_roles coll tenantID [''fso'', ''administrator''] d))"

record item_filters =
  af_TenantID :: uuid
  af_SourceType :: string
  af_Status :: string
  af_Search :: string
  af_SubOrgScope :: "uuid option"
  af_AssignedTo :: "uuid option"
  af_Limit :: int
  af_Offset :: int

text \<open>\<^verbatim>\<open>sub_org_id IS NULL OR sub_org_id = $n\<close>, when there is a scope\<close>

definition in_scope :: "uuid option \<Rightarrow> uuid option \<Rightarrow> bool" where
  "in_scope scope so = (case scope of None \<Rightarrow> True | Some s \<Rightarrow> so = None \<or> so = Some s)"

definition item_matches :: "(string \<Rightarrow> string \<Rightarrow> bool) \<Rightarrow> item_filters \<Rightarrow> action_item \<Rightarrow> bool" where
  "item_matches ilike f a =
     (ai_TenantID a = af_TenantID f \<and>
      (af_SourceType f = [] \<or> ai_SourceType a = af_SourceType f) \<and>
      (af_Status f = [] \<or> ai_Status a = af_Status f) \<and>
      (af_Search f = [] \<or> ilike (ai_Title a) (af_Search f) \<or> ilike (ai_Description a) (af_Search f)) \<and>
      in_scope (af_SubOrgScope f) (ai_SubOrgID a) \<and>
      (af_AssignedTo f = None \<or> ai_AssignedTo a = af_AssignedTo f))"

record item_row =
  ir_View :: item_view
  ir_SubOrgName :: "string option"

definition ActionItem_List :: "(string \<Rightarrow> string \<Rightarrow> bool) \<Rightarrow> faults \<Rightarrow> item_filters \<Rightarrow> db \<Rightarrow> err + item_row list \<times> nat" where
  [store_defs]: "ActionItem_List ilike flt f d =
     (if flt ''actionitem.List.count'' 0 then Inl (Fault ''actionitem.List.count'')
      else let total = sql_affected (item_matches ilike f) (d_action_items d);
               limit = (if af_Limit f \<le> 0 then 20 else af_Limit f) in
        if flt ''actionitem.List'' 0 then Inl (Fault ''actionitem.List'')
        else Inr (map (\<lambda>a. \<lparr>ir_View = item_view_of d a,
                       ir_SubOrgName = map_option so_Name (Option.bind (ai_SubOrgID a) (suborg_by d))\<rparr>)
               (sql_page limit (af_Offset f) (sql_desc ai_CreatedAt (filter (item_matches ilike f) (d_action_items d)))), total))"

definition on_items :: "db \<Rightarrow> (action_item list, 'a) store_result \<Rightarrow> (db, 'a) store_result" where
  "on_items d r = (d\<lparr>d_action_items := fst r\<rparr>, snd r)"

definition ActionItem_UpdateNotes :: "faults \<Rightarrow> time \<Rightarrow> uuid \<Rightarrow> uuid \<Rightarrow> string \<Rightarrow> db \<Rightarrow> (db, unit) store_result" where
  [store_defs]: "ActionItem_UpdateNotes flt now tenantID i notes d =
     on_items d (done_some ErrNotFound (exec_update flt ''actionitem.UpdateNotes'' (\<lambda>a. ai_ID a = i \<and> ai_TenantID a = tenantID)
       (\<lambda>a. a\<lparr>ai_Notes := notes, ai_UpdatedAt := now\<rparr>) (d_action_items d)))"

definition ActionItem_UpdateStatus ::
  "faults \<Rightarrow> time \<Rightarrow> uuid \<Rightarrow> uuid \<Rightarrow> string \<Rightarrow> string \<Rightarrow> db \<Rightarrow> (db, unit) store_result" where
  [store_defs]: "ActionItem_UpdateStatus flt now tenantID i status notes d =
     (let P = (\<lambda>a. ai_ID a = i \<and> ai_TenantID a = tenantID) in
      if \<not> item_status_check status \<and> sql_exists P (d_action_items d) then (d, Inl (Fault ''actionitem.UpdateStatus''))
      else on_items d (done_some ErrNotFound (exec_update flt ''actionitem.UpdateStatus'' P
        (\<lambda>a. a\<lparr>ai_Status := status, ai_Notes := notes, ai_UpdatedAt := now\<rparr>) (d_action_items d))))"

definition ResolveBySource :: "faults \<Rightarrow> time \<Rightarrow> uuid \<Rightarrow> string \<Rightarrow> uuid \<Rightarrow> db \<Rightarrow> (db, unit) store_result" where
  [store_defs]: "ResolveBySource flt now tenantID sourceType sourceID d =
     on_items d (done_any (exec_update flt ''actionitem.ResolveBySource''
       (\<lambda>a. ai_TenantID a = tenantID \<and> ai_SourceType a = sourceType \<and> ai_SourceID a = Some sourceID \<and>
            ai_Status a \<in> {''pending'', ''under_review''})
       (\<lambda>a. a\<lparr>ai_Status := ''processed'', ai_UpdatedAt := now\<rparr>) (d_action_items d)))"

record item_stats =
  st_Total :: nat
  st_Pending :: nat
  st_UnderReview :: nat
  st_Processed :: nat

definition ActionItem_SummaryStats :: "faults \<Rightarrow> uuid \<Rightarrow> uuid option \<Rightarrow> db \<Rightarrow> err + item_stats" where
  [store_defs]: "ActionItem_SummaryStats flt tenantID scope d =
     (if flt ''actionitem.SummaryStats'' 0 then Inl (Fault ''actionitem.SummaryStats'')
      else let rows = filter (\<lambda>a. ai_TenantID a = tenantID \<and> in_scope scope (ai_SubOrgID a)) (d_action_items d) in
        Inr \<lparr>st_Total = length rows,
             st_Pending = sql_affected (\<lambda>a. ai_Status a = ''pending'') rows,
             st_UnderReview = sql_affected (\<lambda>a. ai_Status a = ''under_review'') rows,
             st_Processed = sql_affected (\<lambda>a. ai_Status a = ''processed'') rows\<rparr>)"

subsection \<open>Handlers\<close>

definition item_audit :: "request \<Rightarrow> session \<Rightarrow> uuid \<Rightarrow> string \<Rightarrow> (string \<times> json) list \<Rightarrow> (db, unit) state" where
  "item_audit r sess tenantID action meta =
     audit_log r 0 action (Some (s_IdentityID sess)) (Some (s_ID sess)) (Some tenantID) meta"

definition item_not_found :: "err \<Rightarrow> 'b response" where
  "item_not_found e = (if e = ErrNotFound then Abort StatusNotFound (Msg ''action item not found'') else internal_error)"

text \<open>The query of a listing: \<^verbatim>\<open>source_type\<close>, \<^verbatim>\<open>status\<close>, \<^verbatim>\<open>search\<close>,
  \<^verbatim>\<open>sub_org_id\<close>, and the page.\<close>

record list_query =
  q_SourceType :: string
  q_Status :: string
  q_Search :: string
  q_SubOrgID :: string
  q_Limit :: "string option"
  q_Offset :: "string option"

definition ActionItem_Handler_List ::
  "libs \<Rightarrow> request \<Rightarrow> list_query \<Rightarrow> (db, (item_row list \<times> nat) response) state" where
  [http_defs]: "ActionItem_Handler_List L r q = with_tenant r (\<lambda>sess tenantID.
     let page = ParsePagination (q_Limit q) (q_Offset q) 20 in do {
       res \<leftarrow> asks (ActionItem_List (l_ilike L) (r_flt r) \<lparr>af_TenantID = tenantID, af_SourceType = q_SourceType q,
         af_Status = q_Status q, af_Search = q_Search q,
         af_SubOrgScope = SubOrgScope (l_uuid L) (r_role r) (Some sess) (q_SubOrgID q),
         af_AssignedTo = None, af_Limit = fst page, af_Offset = snd page\<rparr>);
       (case res of Inl _ \<Rightarrow> reply internal_error | Inr x \<Rightarrow> reply (Respond StatusOK x))
     })"

definition ActionItem_Handler_GetStats :: "libs \<Rightarrow> request \<Rightarrow> string \<Rightarrow> (db, item_stats response) state" where
  [http_defs]: "ActionItem_Handler_GetStats L r sub_org_id = with_tenant r (\<lambda>sess tenantID. do {
     res \<leftarrow> asks (ActionItem_SummaryStats (r_flt r) tenantID (SubOrgScope (l_uuid L) (r_role r) (Some sess) sub_org_id));
     (case res of Inl _ \<Rightarrow> reply internal_error | Inr x \<Rightarrow> reply (Respond StatusOK x))
   })"

definition ActionItem_Handler_Get :: "libs \<Rightarrow> request \<Rightarrow> string \<Rightarrow> (db, item_view response) state" where
  [http_defs]: "ActionItem_Handler_Get L r id_param = with_tenant r (\<lambda>sess tenantID.
     with_uuid L ''invalid action item ID'' id_param (\<lambda>i. do {
       res \<leftarrow> asks (ActionItem_Get (r_flt r) tenantID i);
       (case res of Inl e \<Rightarrow> reply (item_not_found e) | Inr x \<Rightarrow> reply (Respond StatusOK x))
     }))"

text \<open>\<^verbatim>\<open>SourceUpdater\<close>: tenant, source, reviewer, status\<close>

type_synonym source_updater = "request \<Rightarrow> uuid \<Rightarrow> uuid \<Rightarrow> uuid \<Rightarrow> string \<Rightarrow> db \<Rightarrow> (db, unit) store_result"

definition cascade_status :: "string \<Rightarrow> string" where
  "cascade_status status = (if status = ''under_review'' then ''under_review''
     else if status = ''processed'' then ''approved''
     else if status = ''rejected'' then ''rejected'' else [])"

text \<open>A cascade that fails is only logged.\<close>

definition ActionItem_Handler_UpdateStatus ::
  "(string \<Rightarrow> source_updater option) \<Rightarrow> libs \<Rightarrow> request \<Rightarrow> string \<Rightarrow> (string \<times> string) option \<Rightarrow> (db, unit response) state" where
  [http_defs]: "ActionItem_Handler_UpdateStatus updaters L r id_param req = with_member r (\<lambda>sess tenantID userID.
     with_uuid L ''invalid action item ID'' id_param (\<lambda>i.
     (case req of None \<Rightarrow> reply invalid_request | Some (status, notes) \<Rightarrow> do {
        found \<leftarrow> asks (ActionItem_Get (r_flt r) tenantID i);
        (case found of Inl e \<Rightarrow> reply (item_not_found e) | Inr v \<Rightarrow> do {
           upd \<leftarrow> on_db (ActionItem_UpdateStatus (r_flt r) (r_now r) tenantID i status notes);
           (case upd of Inl e \<Rightarrow> reply (item_not_found e) | Inr _ \<Rightarrow> do {
              (case (cascade_status status, ai_SourceID (iv_Item v), updaters (ai_SourceType (iv_Item v))) of
                 (c # cs, Some src, Some updater) \<Rightarrow> on_db (updater r tenantID src userID (c # cs))
               | _ \<Rightarrow> reply (Inr ()));
              item_audit r sess tenantID ''action_item_updated'' [(''action_item_id'', JId i), (''status'', JStr status)];
              reply (Respond StatusOK ())
            })
         })
      })))"

definition ActionItem_Handler_UpdateNotes :: "libs \<Rightarrow> request \<Rightarrow> string \<Rightarrow> string option \<Rightarrow> (db, unit response) state" where
  [http_defs]: "ActionItem_Handler_UpdateNotes L r id_param req = with_member r (\<lambda>sess tenantID userID.
     with_uuid L ''invalid action item ID'' id_param (\<lambda>i.
     (case req of None \<Rightarrow> reply invalid_request | Some notes \<Rightarrow> do {
        upd \<leftarrow> on_db (ActionItem_UpdateNotes (r_flt r) (r_now r) tenantID i notes);
        (case upd of Inl e \<Rightarrow> reply (item_not_found e) | Inr _ \<Rightarrow> do {
           item_audit r sess tenantID ''action_item_notes_updated'' [(''action_item_id'', JId i)];
           reply (Respond StatusOK ())
         })
      })))"

definition ActionItem_Handler_Reassign ::
  "libs \<Rightarrow> request \<Rightarrow> string \<Rightarrow> string option option \<Rightarrow> (db, item_view response) state" where
  [http_defs]: "ActionItem_Handler_Reassign L r id_param req = with_tenant r (\<lambda>sess tenantID.
     with_uuid L ''invalid action item ID'' id_param (\<lambda>i.
     (case req of None \<Rightarrow> reply invalid_request | Some user_id \<Rightarrow>
        optional_uuid L ''invalid user ID'' user_id (\<lambda>userID. do {
          res \<leftarrow> on_db (UpdateAssignedTo (r_flt r) (r_now r) tenantID i userID);
          (case res of
             Inl e \<Rightarrow> reply (if e = ErrNotFound then Abort StatusNotFound (Msg ''action item not found'')
               else if e = ErrAssigneeWrongTenant then Abort StatusBadRequest (Msg ''invalid assignee'')
               else internal_error)
           | Inr v \<Rightarrow> do {
               (case (ai_AssignedTo (iv_Item v), iv_Assignee v) of
                  (Some u, Some (name, email)) \<Rightarrow> notify [ActionItemAssigned u email name (ai_SourceType (iv_Item v))]
                | _ \<Rightarrow> reply ());
               item_audit r sess tenantID ''action_item_reassigned''
                 [(''action_item_id'', JId i), (''assigned_to'', case userID of None \<Rightarrow> JNull | Some u \<Rightarrow> JId u)];
               reply (Respond StatusOK v)
             })
        }))))"

definition ActionItem_Handler_ListFSOUsers :: "libs \<Rightarrow> request \<Rightarrow> (db, fso_user list response) state" where
  [http_defs]: "ActionItem_Handler_ListFSOUsers L r = with_tenant r (\<lambda>sess tenantID. do {
     res \<leftarrow> asks (ActionItem_ListFSOUsers (l_collate L) (r_flt r) tenantID);
     (case res of Inl _ \<Rightarrow> reply internal_error | Inr us \<Rightarrow> reply (Respond StatusOK us))
   })"

subsection \<open>Listing and statistics\<close>

definition unfiltered :: "uuid \<Rightarrow> uuid option \<Rightarrow> string \<Rightarrow> int \<Rightarrow> int \<Rightarrow> item_filters" where
  "unfiltered tenantID scope status limit off = \<lparr>af_TenantID = tenantID, af_SourceType = [], af_Status = status, af_Search = [],
     af_SubOrgScope = scope, af_AssignedTo = None, af_Limit = limit, af_Offset = off\<rparr>"

lemma unfiltered_matches:
  "item_matches ilike (unfiltered t scope s l off) =
     (\<lambda>a. (ai_TenantID a = t \<and> in_scope scope (ai_SubOrgID a)) \<and> (s = [] \<or> ai_Status a = s))"
  by (rule ext) (auto simp: item_matches_def unfiltered_def)

lemma split_by_status:
  assumes "\<forall>a \<in> set rows. item_status_check (ai_Status a)"
  shows "length rows = sql_affected (\<lambda>a. ai_Status a = ''pending'') rows + sql_affected (\<lambda>a. ai_Status a = ''under_review'') rows +
    sql_affected (\<lambda>a. ai_Status a = ''processed'') rows + sql_affected (\<lambda>a. ai_Status a = ''rejected'') rows"
  using assms by (induction rows) (auto simp: sql_affected_def item_status_check_def)

text \<open>[C29] The dashboard counts what the list shows: in the same scope the total of the statistics
  is the total of the unfiltered list, and each of its three counts is the total of the list
  filtered by that status; the items missing from the three counts are the rejected ones.\<close>

theorem stats_match_listing:
  assumes stats: "ActionItem_SummaryStats flt t scope d = Inr st"
    and listed: "\<And>s. ActionItem_List ilike flt (unfiltered t scope s limit off) d = Inr (rows s, num s)"
    and rows: "\<forall>a \<in> set (d_action_items d). item_status_check (ai_Status a)"
  shows "num [] = st_Total st \<and> num ''pending'' = st_Pending st \<and> num ''under_review'' = st_UnderReview st \<and>
    num ''processed'' = st_Processed st \<and>
    st_Total st = st_Pending st + st_UnderReview st + st_Processed st + num ''rejected''"
proof -
  let ?P = "\<lambda>a. ai_TenantID a = t \<and> in_scope scope (ai_SubOrgID a)"
  let ?rows = "filter ?P (d_action_items d)"
  have counts: "num s = (if s = [] then length ?rows else sql_affected (\<lambda>a. ai_Status a = s) ?rows)" for s
    using listed [of s]
    by (auto simp: ActionItem_List_def unfiltered_matches sql_affected_def Let_def conj_commute conj_left_commute
        split: if_splits)
  have "st = \<lparr>st_Total = length ?rows, st_Pending = sql_affected (\<lambda>a. ai_Status a = ''pending'') ?rows,
       st_UnderReview = sql_affected (\<lambda>a. ai_Status a = ''under_review'') ?rows,
       st_Processed = sql_affected (\<lambda>a. ai_Status a = ''processed'') ?rows\<rparr>"
    using stats by (simp add: ActionItem_SummaryStats_def Let_def split: if_splits)
  moreover have "length ?rows = sql_affected (\<lambda>a. ai_Status a = ''pending'') ?rows + sql_affected (\<lambda>a. ai_Status a = ''under_review'') ?rows +
    sql_affected (\<lambda>a. ai_Status a = ''processed'') ?rows + sql_affected (\<lambda>a. ai_Status a = ''rejected'') ?rows"
    using rows by (intro split_by_status) simp
  ultimately show ?thesis by (simp add: counts)
qed

definition demo_item :: action_item where
  "demo_item = \<lparr>ai_ID = 50, ai_TenantID = 3, ai_SourceType = ''task_submission'', ai_SourceID = Some 60, ai_Title = ''t'',
     ai_Description = [], ai_Priority = ''medium'', ai_Status = ''pending'', ai_AssignedTo = None, ai_Notes = [],
     ai_DueDate = None, ai_SubOrgID = Some 21, ai_CreatedAt = 1, ai_UpdatedAt = 1\<rparr>"

definition item_db :: db where
  "item_db = demo_db\<lparr>d_action_items := [demo_item, demo_item\<lparr>ai_ID := 51, ai_TenantID := 4\<rparr>]\<rparr>"

lemma item_db_simps [simp]: "d_action_items item_db = [demo_item, demo_item\<lparr>ai_ID := 51, ai_TenantID := 4\<rparr>]"
  "d_users item_db = d_users demo_db" "d_identities item_db = d_identities demo_db" "d_suborgs item_db = d_suborgs demo_db"
  "d_tenants item_db = d_tenants demo_db" "d_completions item_db = []"
  by (simp_all add: item_db_def)

theorem stats_match_listing_witness:
  "\<exists>st. ActionItem_SummaryStats no_faults 3 None item_db = Inr st \<and> st_Total st = 1 \<and> st_Pending st = 1"
proof -
  let ?st = "\<lparr>st_Total = 1, st_Pending = 1, st_UnderReview = 0, st_Processed = 0\<rparr>"
  let ?l = "\<lambda>s. ActionItem_List (\<lambda>_ _. True) no_faults (unfiltered 3 None s 20 0) item_db"
  have st: "ActionItem_SummaryStats no_faults 3 None item_db = Inr ?st"
    by (simp add: ActionItem_SummaryStats_def Let_def demo_item_def in_scope_def sql_affected_def)
  have "?l s = Inr (fst (projr (?l s)), snd (projr (?l s)))" for s
    by (simp add: ActionItem_List_def Let_def)
  from stats_match_listing [OF st this] have "snd (projr (?l [])) = st_Total ?st"
    by (simp add: demo_item_def item_status_check_def)
  with st show ?thesis by auto
qed

subsection \<open>Isolation of tenants\<close>

definition items_of :: "uuid \<Rightarrow> db \<Rightarrow> action_item list" where
  "items_of t d = filter (\<lambda>a. ai_TenantID a = t) (d_action_items d)"

lemma items_of_frame [simp]:
  "items_of t (d\<lparr>d_audit := x1\<rparr>) = items_of t d" "items_of t (d\<lparr>d_outbox := x2\<rparr>) = items_of t d"
  "items_of t (d\<lparr>d_completions := x3\<rparr>) = items_of t d"
  by (simp_all add: items_of_def)

lemma items_of_update:
  assumes "\<And>a. P a \<Longrightarrow> ai_TenantID a \<noteq> t" "\<And>a. ai_TenantID (f a) = ai_TenantID a"
  shows "items_of t (d\<lparr>d_action_items := sql_update P f (d_action_items d)\<rparr>) = items_of t d"
proof -
  have "filter (\<lambda>a. ai_TenantID a = t) (sql_update P f xs) = filter (\<lambda>a. ai_TenantID a = t) xs" for xs
    using assms by (induction xs) auto
  then show ?thesis by (simp add: items_of_def)
qed

lemma items_of_append: "items_of t (d\<lparr>d_action_items := d_action_items d @ [a]\<rparr>) = items_of t d @ (if ai_TenantID a = t then [a] else [])"
  by (simp add: items_of_def)

lemma items_of_store:
  assumes "tid \<noteq> t"
  shows "items_of t (fst (UpdateAssignedTo flt now tid i u d)) = items_of t d"
    "items_of t (fst (ActionItem_UpdateNotes flt now tid i notes d)) = items_of t d"
    "items_of t (fst (ActionItem_UpdateStatus flt now tid i status notes d)) = items_of t d"
    "items_of t (fst (ResolveBySource flt now tid ty src d)) = items_of t d"
    "ip_TenantID p = tid \<Longrightarrow> items_of t (fst (ActionItem_Create flt now i p d)) = items_of t d"
  using assms
  by (auto simp: UpdateAssignedTo_def ActionItem_UpdateNotes_def ActionItem_UpdateStatus_def ResolveBySource_def on_items_def
      fst_exec_update Let_def ActionItem_Create_def items_of_append intro!: items_of_update split: option.split)


definition demo_member :: session where
  "demo_member = (session_row 1 0 demo_params)\<lparr>s_TenantID := Some 3, s_UserID := Some 5, s_SubOrgID := Some 21,
     s_UserRole := Some ''fso'', s_State := Authenticated\<rparr>"

lemma demo_member_simps [simp]: "s_TenantID demo_member = Some 3" "s_UserID demo_member = Some 5"
  "s_SubOrgID demo_member = Some 21" "s_UserRole demo_member = Some ''fso''" "s_IdentityID demo_member = 7"
  "s_ID demo_member = 1" "s_State demo_member = Authenticated"
  by (simp_all add: demo_member_def session_row_def demo_params_def)

abbreviation member_request :: request where
  "member_request \<equiv> demo_request\<lparr>r_session := Some demo_member, r_role := Some ''fso''\<rparr>"


subsection \<open>Routing\<close>

text \<open>An item never goes into the void: a created item belongs to the assignee asked for, else
  to the primary officer of its sub-organization within the tenant, else to nobody; and whoever
  is told of it is that assignee, or, when there is none with an address, every administrator
  of the tenant.\<close>

theorem item_routing:
  assumes created: "ActionItem_Create flt now i p d = (d', Inr v)"
    and calm: "\<not> flt ''actionitem.ListAdmins'' 0"
  shows "ai_AssignedTo (iv_Item v) = (case ip_AssignedTo p of Some u \<Rightarrow> Some u | None \<Rightarrow> primary_fso d (ip_TenantID p) (ip_SubOrgID p)) \<and>
    ai_Status (iv_Item v) = ''pending'' \<and> d_action_items d' = d_action_items d @ [iv_Item v] \<and>
    (if \<exists>u idn. ai_AssignedTo (iv_Item v) = Some u \<and> (\<exists>us. contact_of d u = Some (us, idn)) \<and> i_Email idn \<noteq> []
     then \<exists>u us idn. ai_AssignedTo (iv_Item v) = Some u \<and> contact_of d u = Some (us, idn) \<and>
            ResolveNotifyTargets coll flt (ip_TenantID p) v d' = [(u, i_Name idn, i_Email idn)]
     else \<forall>u \<in> set (d_users d). u_TenantID u = ip_TenantID p \<longrightarrow> u_Role u = ''administrator'' \<longrightarrow>
            (\<forall>idn. identity_by d (u_IdentityID u) = Some idn \<longrightarrow>
               (u_ID u, i_Name idn, i_Email idn) \<in> set (ResolveNotifyTargets coll flt (ip_TenantID p) v d')))"
proof -
  let ?as = "case ip_AssignedTo p of Some u \<Rightarrow> Some u | None \<Rightarrow> primary_fso d (ip_TenantID p) (ip_SubOrgID p)"
  from created have v: "v = item_view_of d (iv_Item v)" "ai_AssignedTo (iv_Item v) = ?as" "ai_Status (iv_Item v) = ''pending''"
    and d': "d' = d\<lparr>d_action_items := d_action_items d @ [iv_Item v]\<rparr>"
    by (auto simp: ActionItem_Create_def Let_def item_view_of_def split: if_splits)
  have same: "contact_of d' = contact_of d" "identity_by d' = identity_by d" "d_users d' = d_users d"
    by (simp_all add: fun_eq_iff d' contact_of_def user_by_def identity_by_def split: option.split)
  have admins: "(u_ID u, i_Name idn, i_Email idn) \<in> set (users_in_roles coll (ip_TenantID p) [''administrator''] d')"
    if "u \<in> set (d_users d)" "u_TenantID u = ip_TenantID p" "u_Role u = ''administrator''"
      "identity_by d (u_IdentityID u) = Some idn" for u idn
    using that by (force simp: users_in_roles_def same List.map_filter_def)
  have view: "iv_Assignee v = (case ?as of None \<Rightarrow> None | Some u \<Rightarrow> map_option (\<lambda>(_, i). (i_Name i, i_Email i)) (contact_of d u))"
    using v by (simp add: item_view_of_def) (metis item_view.select_convs(2))
  show ?thesis
  proof (intro conjI v(2,3))
    show "d_action_items d' = d_action_items d @ [iv_Item v]" by (simp add: d')
  next
    show "if \<exists>u idn. ai_AssignedTo (iv_Item v) = Some u \<and> (\<exists>us. contact_of d u = Some (us, idn)) \<and> i_Email idn \<noteq> []
     then \<exists>u us idn. ai_AssignedTo (iv_Item v) = Some u \<and> contact_of d u = Some (us, idn) \<and>
            ResolveNotifyTargets coll flt (ip_TenantID p) v d' = [(u, i_Name idn, i_Email idn)]
     else \<forall>u \<in> set (d_users d). u_TenantID u = ip_TenantID p \<longrightarrow> u_Role u = ''administrator'' \<longrightarrow>
            (\<forall>idn. identity_by d (u_IdentityID u) = Some idn \<longrightarrow>
               (u_ID u, i_Name idn, i_Email idn) \<in> set (ResolveNotifyTargets coll flt (ip_TenantID p) v d'))"
      using admins calm
      by (cases ?as; cases "contact_of d (the ?as)")
        (auto simp: ResolveNotifyTargets_def ListAdmins_def v(2) view split: option.splits prod.splits if_splits)
  qed
qed

definition demo_item_params :: item_params where
  "demo_item_params = \<lparr>ip_TenantID = 3, ip_SourceType = ''task_submission'', ip_SourceID = Some 60, ip_Title = ''t'',
     ip_Description = [], ip_Priority = ''medium'', ip_AssignedTo = None, ip_DueDate = None, ip_SubOrgID = Some 21\<rparr>"

definition fso_db :: db where
  "fso_db = demo_db\<lparr>d_suborgs := [\<lparr>so_ID = 21, so_TenantID = 3, so_Name = ''Lab'', so_PrimaryFSOUserID = Some 5,
     so_CreatedAt = 0, so_UpdatedAt = 0\<rparr>]\<rparr>"

theorem item_routing_witness:
  "\<exists>d' v. ActionItem_Create no_faults 100 9 demo_item_params fso_db = (d', Inr v) \<and>
     ResolveNotifyTargets (\<lambda>_. 0 :: nat) no_faults 3 v d' = [(5, ''A'', ''a@b.c'')]"
proof -
  let ?r = "ActionItem_Create no_faults 100 9 demo_item_params fso_db"
  obtain v where v: "?r = (fst ?r, Inr v)"
    by (simp add: ActionItem_Create_def Let_def demo_item_params_def fso_db_def primary_fso_def source_type_check_def
        priority_check_def tenant_by_def user_by_def suborg_by_def)
  have "ResolveNotifyTargets (\<lambda>_. 0 :: nat) no_faults 3 v (fst ?r) = [(5, ''A'', ''a@b.c'')]"
    using item_routing [OF v, of "\<lambda>_. 0 :: nat"]
    by (auto simp: demo_item_params_def fso_db_def primary_fso_def contact_of_def user_by_def identity_by_def demo_identity_def)
  with v show ?thesis by blast
qed

end
