(* ===== verification/Tasks.thy ===== *)
theory Tasks
  imports Action_Items
begin

text \<open>
  \<^verbatim>\<open>backend/internal/task/store.go\<close>: tasks, their requirements and assignment rules, the
  views of migration 000022 that resolve the rules to users, and the completions, answers and
  uploads of the users. Statements are not grouped in transactions, so an operation of several
  statements can stop half way.
\<close>

subsection \<open>Constraints and views\<close>

definition task_status_check :: "string \<Rightarrow> bool" where
  "task_status_check s = (s \<in> {''draft'', ''active'', ''archived''})"

definition kind_check :: "string \<Rightarrow> bool" where
  "kind_check s = (s \<in> {''text'', ''textarea'', ''file_upload'', ''checkbox''})"

definition rule_type_check :: "string \<Rightarrow> bool" where
  "rule_type_check s = (s \<in> {''user'', ''sub_org'', ''org''})"

fun status_text :: "completion_status \<Rightarrow> string" where
  "status_text To_do = ''to_do''"
| "status_text In_progress = ''in_progress''"
| "status_text Submitted = ''submitted''"
| "status_text Approved = ''approved''"
| "status_text Rejected = ''rejected''"

definition task_by :: "db \<Rightarrow> uuid \<Rightarrow> task option" where
  "task_by d i = sql_row (\<lambda>t. tk_ID t = i) (d_tasks d)"

definition is_ic :: "db \<Rightarrow> uuid \<Rightarrow> bool" where
  "is_ic d u = sql_exists (\<lambda>x. u_ID x = u \<and> u_Role x = ''individual_contributor'') (d_users d)"

text \<open>The users one rule resolves to.\<close>

definition rule_users :: "db \<Rightarrow> assignment_rule \<Rightarrow> uuid list" where
  "rule_users d r = (case ar_TargetID r of
     Some x \<Rightarrow>
       if ar_RuleType r = ''user'' then [x]
       else if ar_RuleType r = ''sub_org'' then map fst (filter (\<lambda>m. snd m = x \<and> is_ic d (fst m)) (d_members d))
       else if ar_RuleType r = ''org'' then (case task_by d (ar_TaskID r) of None \<Rightarrow> []
         | Some t \<Rightarrow> map u_ID (filter (\<lambda>u. u_TenantID u = tk_TenantID t \<and> u_Role u = ''individual_contributor'') (d_users d)))
       else []
   | None \<Rightarrow>
       if ar_RuleType r = ''org'' then (case task_by d (ar_TaskID r) of None \<Rightarrow> []
         | Some t \<Rightarrow> map u_ID (filter (\<lambda>u. u_TenantID u = tk_TenantID t \<and> u_Role u = ''individual_contributor'') (d_users d)))
       else [])"

text \<open>\<^verbatim>\<open>task_assigned_users\<close>: task, user, rule type, without duplicates; a user reached by
  rules of two types has two rows.\<close>

definition task_assigned_users :: "db \<Rightarrow> (uuid \<times> uuid \<times> string) list" where
  "task_assigned_users d = remdups (concat (map (\<lambda>r. map (\<lambda>u. (ar_TaskID r, u, ar_RuleType r)) (rule_users d r)) (d_rules d)))"

definition completion_of :: "db \<Rightarrow> uuid \<Rightarrow> uuid \<Rightarrow> completion option" where
  "completion_of d t u = sql_row (\<lambda>c. tc_TaskID c = t \<and> tc_UserID c = u) (d_completions d)"

record user_status =
  us_TaskID :: uuid
  us_UserID :: uuid
  us_RuleType :: string
  us_CompletionID :: uuid
  us_Status :: completion_status
  us_ViewedAt :: "time option"
  us_SubmittedAt :: "time option"

definition task_user_status :: "db \<Rightarrow> user_status list" where
  "task_user_status d = map (\<lambda>(t, u, rt). case completion_of d t u of
       None \<Rightarrow> \<lparr>us_TaskID = t, us_UserID = u, us_RuleType = rt, us_CompletionID = uuid_Nil, us_Status = To_do,
                us_ViewedAt = None, us_SubmittedAt = None\<rparr>
     | Some c \<Rightarrow> \<lparr>us_TaskID = t, us_UserID = u, us_RuleType = rt, us_CompletionID = tc_ID c, us_Status = tc_Status c,
                us_ViewedAt = tc_ViewedAt c, us_SubmittedAt = tc_SubmittedAt c\<rparr>) (task_assigned_users d)"

subsection \<open>Creating tasks\<close>

record requirement_params =
  rp_Kind :: string
  rp_Label :: string
  rp_Description :: string
  rp_Required :: bool
  rp_SortOrder :: int
  rp_AIVerificationCriteria :: string

record rule_params =
  lp_RuleType :: string
  lp_TargetID :: "uuid option"

record task_params =
  tp_TenantID :: uuid
  tp_CreatedByUserID :: uuid
  tp_SubOrgID :: "uuid option"
  tp_Title :: string
  tp_Description :: string
  tp_Priority :: string
  tp_DueDate :: "string option"
  tp_Status :: string
  tp_Requirements :: "requirement_params list"
  tp_Rules :: "rule_params list"

fun insert_requirements ::
  "faults \<Rightarrow> (nat \<Rightarrow> uuid) \<Rightarrow> uuid \<Rightarrow> nat \<Rightarrow> requirement_params list \<Rightarrow> db \<Rightarrow> (db, unit) store_result" where
  "insert_requirements flt fresh taskID i [] d = (d, Inr ())"
| "insert_requirements flt fresh taskID i (p # ps) d =
     (let criteria = (if rp_Kind p \<noteq> ''file_upload'' then [] else rp_AIVerificationCriteria p) in
      if flt ''task.Create.requirement'' i \<or> \<not> kind_check (rp_Kind p)
      then (d, Inl (Fault ''task.Create.requirement''))
      else insert_requirements flt fresh taskID (Suc i) ps
        (d\<lparr>d_requirements := d_requirements d @ [\<lparr>rq_ID = fresh (1 + i), rq_TaskID = taskID, rq_Kind = rp_Kind p,
           rq_Label = rp_Label p, rq_Description = rp_Description p, rq_Required = rp_Required p, rq_SortOrder = i,
           rq_AIVerificationCriteria = criteria\<rparr>]\<rparr>))"

fun insert_rules ::
  "faults \<Rightarrow> (nat \<Rightarrow> uuid) \<Rightarrow> uuid \<Rightarrow> nat \<Rightarrow> rule_params list \<Rightarrow> db \<Rightarrow> (db, unit) store_result" where
  "insert_rules flt fresh taskID i [] d = (d, Inr ())"
| "insert_rules flt fresh taskID i (p # ps) d =
     (if flt ''task.Create.rule'' i \<or> \<not> rule_type_check (lp_RuleType p)
      then (d, Inl (Fault ''task.Create.rule''))
      else insert_rules flt fresh taskID (Suc i) ps
        (d\<lparr>d_rules := d_rules d @ [\<lparr>ar_ID = fresh i, ar_TaskID = taskID, ar_RuleType = lp_RuleType p,
           ar_TargetID = lp_TargetID p\<rparr>]\<rparr>))"

text \<open>\<open>date\<close> is the database's reading of a \<^verbatim>\<open>DATE\<close> literal. The new task has the first
  fresh id, its requirements the following, its rules the ones after those.\<close>

definition Task_Create ::
  "(string \<Rightarrow> time option) \<Rightarrow> faults \<Rightarrow> time \<Rightarrow> (nat \<Rightarrow> uuid) \<Rightarrow> task_params \<Rightarrow> db \<Rightarrow> (db, task) store_result" where
  [store_defs]: "Task_Create date flt now fresh p d =
     (if flt ''task.Create'' 0 \<or> \<not> priority_check (tp_Priority p) \<or> \<not> task_status_check (tp_Status p) \<or>
         (case tp_DueDate p of None \<Rightarrow> False | Some s \<Rightarrow> date s = None) \<or>
         tenant_by d (tp_TenantID p) = None \<or> user_by d (tp_CreatedByUserID p) = None \<or>
         (case tp_SubOrgID p of None \<Rightarrow> False | Some s \<Rightarrow> suborg_by d s = None)
      then (d, Inl (Fault ''task.Create''))
      else let t = \<lparr>tk_ID = fresh 0, tk_TenantID = tp_TenantID p, tk_CreatedByUserID = Some (tp_CreatedByUserID p),
                    tk_SubOrgID = tp_SubOrgID p, tk_Title = tp_Title p, tk_Description = tp_Description p,
                    tk_Priority = tp_Priority p, tk_DueDate = Option.bind (tp_DueDate p) date, tk_Status = tp_Status p,
                    tk_CreatedAt = now, tk_UpdatedAt = now\<rparr> in
        (case insert_requirements flt fresh (fresh 0) 0 (tp_Requirements p) (d\<lparr>d_tasks := d_tasks d @ [t]\<rparr>) of
           (d1, Inl e) \<Rightarrow> (d1, Inl e)
         | (d1, Inr _) \<Rightarrow>
             (case insert_rules flt (\<lambda>i. fresh (1 + length (tp_Requirements p) + i)) (fresh 0) 0 (tp_Rules p) d1 of
                (d2, Inl e) \<Rightarrow> (d2, Inl e)
              | (d2, Inr _) \<Rightarrow> (d2, Inr t))))"

subsection \<open>Reading tasks\<close>

definition listRequirements :: "faults \<Rightarrow> uuid \<Rightarrow> db \<Rightarrow> err + requirement list" where
  [store_defs]: "listRequirements flt taskID d =
     (if flt ''task.listRequirements'' 0 then Inl (Fault ''task.listRequirements'')
      else Inr (sort_key rq_SortOrder (filter (\<lambda>r. rq_TaskID r = taskID) (d_requirements d))))"

definition GetRequirement :: "faults \<Rightarrow> uuid \<Rightarrow> db \<Rightarrow> err + requirement" where
  [store_defs]: "GetRequirement flt i d =
     query_row flt ''task.GetRequirement'' ErrNoRows (\<lambda>r. rq_ID r = i) (d_requirements d)"

definition listRules :: "faults \<Rightarrow> uuid \<Rightarrow> db \<Rightarrow> err + assignment_rule list" where
  [store_defs]: "listRules flt taskID d =
     (if flt ''task.listRules'' 0 then Inl (Fault ''task.listRules'')
      else Inr (filter (\<lambda>r. ar_TaskID r = taskID) (d_rules d)))"

definition listResponses :: "faults \<Rightarrow> uuid \<Rightarrow> db \<Rightarrow> err + task_response list" where
  [store_defs]: "listResponses flt completionID d =
     (if flt ''task.listResponses'' 0 then Inl (Fault ''task.listResponses'')
      else Inr (filter (\<lambda>r. tr_CompletionID r = completionID) (d_responses d)))"

definition ListUploads :: "faults \<Rightarrow> uuid \<Rightarrow> db \<Rightarrow> err + upload list" where
  [store_defs]: "ListUploads flt completionID d =
     (if flt ''task.ListUploads'' 0 then Inl (Fault ''task.ListUploads'')
      else Inr (sort_key up_CreatedAt (filter (\<lambda>u. up_CompletionID u = completionID) (d_uploads d))))"

record assignee_status =
  as_CompletionID :: uuid
  as_UserID :: uuid
  as_UserName :: string
  as_UserEmail :: string
  as_Status :: completion_status
  as_ViewedAt :: "time option"
  as_SubmittedAt :: "time option"

record task_detail =
  td_Task :: task
  td_Requirements :: "requirement list"
  td_Rules :: "assignment_rule list"
  td_Assignees :: "assignee_status list"

definition assignee_rows :: "(string \<Rightarrow> 'k::linorder) \<Rightarrow> uuid \<Rightarrow> db \<Rightarrow> assignee_status list" where
  "assignee_rows coll taskID d = sort_key (\<lambda>a. coll (as_UserName a)) (List.map_filter
     (\<lambda>s. if us_TaskID s = taskID then map_option (\<lambda>(_, i). \<lparr>as_CompletionID = us_CompletionID s, as_UserID = us_UserID s,
            as_UserName = i_Name i, as_UserEmail = i_Email i, as_Status = us_Status s, as_ViewedAt = us_ViewedAt s,
            as_SubmittedAt = us_SubmittedAt s\<rparr>) (contact_of d (us_UserID s)) else None) (task_user_status d))"

definition Task_Get :: "(string \<Rightarrow> 'k::linorder) \<Rightarrow> faults \<Rightarrow> uuid \<Rightarrow> uuid \<Rightarrow> db \<Rightarrow> err + task_detail" where
  [store_defs]: "Task_Get coll flt tenantID taskID d =
     (case query_row flt ''task.Get'' ErrNotFound (\<lambda>t. tk_ID t = taskID \<and> tk_TenantID t = tenantID) (d_tasks d) of
        Inl e \<Rightarrow> Inl e
      | Inr t \<Rightarrow> (case listRequirements flt taskID d of Inl e \<Rightarrow> Inl e | Inr reqs \<Rightarrow>
          (case listRules flt taskID d of Inl e \<Rightarrow> Inl e | Inr rules \<Rightarrow>
             if flt ''task.Get.assignees'' 0 then Inl (Fault ''task.Get.assignees'')
             else Inr \<lparr>td_Task = t, td_Requirements = reqs, td_Rules = rules, td_Assignees = assignee_rows coll taskID d\<rparr>)))"

record task_filters =
  tf_TenantID :: uuid
  tf_Status :: string
  tf_Priority :: string
  tf_Search :: string
  tf_SubOrgScope :: "uuid option"
  tf_Limit :: int
  tf_Offset :: int

definition task_matches :: "(string \<Rightarrow> string \<Rightarrow> bool) \<Rightarrow> task_filters \<Rightarrow> task \<Rightarrow> bool" where
  "task_matches ilike f t =
     (tk_TenantID t = tf_TenantID f \<and>
      (tf_Status f = [] \<or> tk_Status t = tf_Status f) \<and>
      (tf_Priority f = [] \<or> tk_Priority t = tf_Priority f) \<and>
      (tf_Search f = [] \<or> ilike (tk_Title t) (tf_Search f) \<or> ilike (tk_Description t) (tf_Search f)) \<and>
      in_scope (tf_SubOrgScope f) (tk_SubOrgID t))"

record task_row =
  tw_Task :: task
  tw_CreatorName :: string
  tw_TotalAssigned :: nat
  tw_Completed :: nat

definition creator_name :: "db \<Rightarrow> task \<Rightarrow> string" where
  "creator_name d t = (case Option.bind (tk_CreatedByUserID t) (contact_of d) of None \<Rightarrow> [] | Some (_, i) \<Rightarrow> i_Name i)"

definition Task_List :: "(string \<Rightarrow> string \<Rightarrow> bool) \<Rightarrow> faults \<Rightarrow> task_filters \<Rightarrow> db \<Rightarrow> err + task_row list \<times> nat" where
  [store_defs]: "Task_List ilike flt f d =
     (if flt ''task.List.count'' 0 then Inl (Fault ''task.List.count'')
      else let num = sql_affected (task_matches ilike f) (d_tasks d);
               limit = (if tf_Limit f \<le> 0 then 20 else tf_Limit f) in
        if flt ''task.List'' 0 then Inl (Fault ''task.List'')
        else Inr (map (\<lambda>t. \<lparr>tw_Task = t, tw_CreatorName = creator_name d t,
                       tw_TotalAssigned = sql_affected (\<lambda>s. us_TaskID s = tk_ID t) (task_user_status d),
                       tw_Completed = sql_affected (\<lambda>s. us_TaskID s = tk_ID t \<and> us_Status s = Approved) (task_user_status d)\<rparr>)
               (sql_page limit (tf_Offset f) (sql_desc tk_CreatedAt (filter (task_matches ilike f) (d_tasks d)))), num))"

definition on_tasks :: "db \<Rightarrow> (task list, 'a) store_result \<Rightarrow> (db, 'a) store_result" where
  "on_tasks d r = (d\<lparr>d_tasks := fst r\<rparr>, snd r)"

definition Unarchive :: "faults \<Rightarrow> time \<Rightarrow> uuid \<Rightarrow> uuid \<Rightarrow> db \<Rightarrow> (db, unit) store_result" where
  [store_defs]: "Unarchive flt now tenantID taskID d =
     on_tasks d (done_some ErrNotFound (exec_update flt ''task.Unarchive''
       (\<lambda>t. tk_ID t = taskID \<and> tk_TenantID t = tenantID \<and> tk_Status t = ''archived'')
       (\<lambda>t. t\<lparr>tk_Status := ''active'', tk_UpdatedAt := now\<rparr>) (d_tasks d)))"

definition Archive :: "faults \<Rightarrow> time \<Rightarrow> uuid \<Rightarrow> uuid \<Rightarrow> db \<Rightarrow> (db, unit) store_result" where
  [store_defs]: "Archive flt now tenantID taskID d =
     on_tasks d (done_some ErrNotFound (exec_update flt ''task.Archive''
       (\<lambda>t. tk_ID t = taskID \<and> tk_TenantID t = tenantID)
       (\<lambda>t. t\<lparr>tk_Status := ''archived'', tk_UpdatedAt := now\<rparr>) (d_tasks d)))"

subsection \<open>Statistics\<close>

definition within :: "time option \<Rightarrow> time option \<Rightarrow> time \<Rightarrow> bool" where
  "within from to x = ((case from of None \<Rightarrow> True | Some a \<Rightarrow> a \<le> x) \<and> (case to of None \<Rightarrow> True | Some b \<Rightarrow> x \<le> b))"

record task_stats =
  ts_Total :: nat
  ts_Active :: nat
  ts_Draft :: nat
  ts_NeedsReview :: nat

definition Task_SummaryStats ::
  "faults \<Rightarrow> uuid \<Rightarrow> time option \<Rightarrow> time option \<Rightarrow> uuid option \<Rightarrow> db \<Rightarrow> err + task_stats" where
  [store_defs]: "Task_SummaryStats flt tenantID from to scope d =
     (if flt ''task.SummaryStats'' 0 then Inl (Fault ''task.SummaryStats'')
      else let rows = filter (\<lambda>t. tk_TenantID t = tenantID \<and> tk_Status t \<noteq> ''archived'' \<and> within from to (tk_CreatedAt t) \<and>
                               in_scope scope (tk_SubOrgID t)) (d_tasks d) in
        Inr \<lparr>ts_Total = length rows,
             ts_Active = sql_affected (\<lambda>t. tk_Status t = ''active'') rows,
             ts_Draft = sql_affected (\<lambda>t. tk_Status t = ''draft'') rows,
             ts_NeedsReview = sql_affected (\<lambda>s. us_Status s = Submitted \<and> (case task_by d (us_TaskID s) of None \<Rightarrow> False
                | Some t2 \<Rightarrow> tk_TenantID t2 = tenantID \<and> tk_Status t2 \<noteq> ''archived'')) (task_user_status d)\<rparr>)"

record my_stats =
  ms_Total :: nat
  ms_ToDo :: nat
  ms_InProgress :: nat
  ms_Submitted :: nat
  ms_Approved :: nat

text \<open>The rows of \<^verbatim>\<open>task_user_status\<close> of a user whose task is active in the tenant.\<close>

definition my_rows :: "uuid \<Rightarrow> uuid \<Rightarrow> db \<Rightarrow> (user_status \<times> task) list" where
  "my_rows tenantID userID d = List.map_filter (\<lambda>s. if us_UserID s \<noteq> userID then None else
     (case task_by d (us_TaskID s) of None \<Rightarrow> None
      | Some t \<Rightarrow> if tk_TenantID t = tenantID \<and> tk_Status t = ''active'' then Some (s, t) else None)) (task_user_status d)"

definition MySummaryStats ::
  "faults \<Rightarrow> uuid \<Rightarrow> uuid \<Rightarrow> time option \<Rightarrow> time option \<Rightarrow> db \<Rightarrow> err + my_stats" where
  [store_defs]: "MySummaryStats flt tenantID userID from to d =
     (if flt ''task.MySummaryStats'' 0 then Inl (Fault ''task.MySummaryStats'')
      else let rows = filter (\<lambda>(s, t). within from to (tk_CreatedAt t)) (my_rows tenantID userID d);
               num = (\<lambda>st. sql_affected (\<lambda>(s, t). us_Status s = st) rows) in
        Inr \<lparr>ms_Total = length rows, ms_ToDo = num To_do, ms_InProgress = num In_progress,
             ms_Submitted = num Submitted, ms_Approved = num Approved\<rparr>)"

record my_task_row =
  mt_Task :: task
  mt_Status :: completion_status
  mt_CreatorName :: string

text \<open>\<^verbatim>\<open>ORDER BY t.due_date ASC NULLS LAST, t.created_at DESC\<close>\<close>

definition by_due_date :: "('r \<Rightarrow> task) \<Rightarrow> 'r list \<Rightarrow> 'r list" where
  "by_due_date tk rows = sort_key (\<lambda>r. tk_DueDate (tk r) = None)
     (sort_key (\<lambda>r. case tk_DueDate (tk r) of None \<Rightarrow> 0 | Some x \<Rightarrow> x) (sql_desc (\<lambda>r. tk_CreatedAt (tk r)) rows))"

definition Store_ListMyTasks ::
  "(string \<Rightarrow> string \<Rightarrow> bool) \<Rightarrow> faults \<Rightarrow> uuid \<Rightarrow> uuid \<Rightarrow> string \<Rightarrow> int \<Rightarrow> db \<Rightarrow> err + my_task_row list" where
  [store_defs]: "Store_ListMyTasks ilike flt tenantID userID search limit d =
     (if flt ''task.ListMyTasks'' 0 then Inl (Fault ''task.ListMyTasks'')
      else let rows = by_due_date mt_Task (map (\<lambda>(s, t). \<lparr>mt_Task = t, mt_Status = us_Status s, mt_CreatorName = creator_name d t\<rparr>)
                        (filter (\<lambda>(s, t). search = [] \<or> ilike (tk_Title t) search) (my_rows tenantID userID d))) in
        Inr (if 0 < limit then take (nat limit) rows else rows))"

subsection \<open>Completions\<close>

definition new_completion :: "time \<Rightarrow> uuid \<Rightarrow> uuid \<Rightarrow> uuid \<Rightarrow> completion" where
  "new_completion now i taskID userID = \<lparr>tc_ID = i, tc_TaskID = taskID, tc_UserID = userID, tc_Status = To_do, tc_ViewedAt = None,
     tc_SubmittedAt = None, tc_ReviewedAt = None, tc_ReviewedBy = None, tc_CreatedAt = now, tc_UpdatedAt = now\<rparr>"

definition EnsureCompletion :: "faults \<Rightarrow> time \<Rightarrow> uuid \<Rightarrow> uuid \<Rightarrow> uuid \<Rightarrow> uuid \<Rightarrow> db \<Rightarrow> (db, completion) store_result" where
  [store_defs]: "EnsureCompletion flt now i tenantID taskID userID d =
     (if flt ''task.EnsureCompletion'' 0 then (d, Inl (Fault ''task.EnsureCompletion''))
      else if \<not> sql_exists (\<lambda>t. tk_ID t = taskID \<and> tk_TenantID t = tenantID) (d_tasks d) then (d, Inl ErrNotFound)
      else case completion_of d taskID userID of
        Some c \<Rightarrow> (d\<lparr>d_completions := sql_update (\<lambda>x. tc_TaskID x = taskID \<and> tc_UserID x = userID)
                        (\<lambda>x. x\<lparr>tc_UpdatedAt := now\<rparr>) (d_completions d)\<rparr>, Inr (c\<lparr>tc_UpdatedAt := now\<rparr>))
      | None \<Rightarrow> if user_by d userID = None then (d, Inl (Fault ''task.EnsureCompletion''))
          else (d\<lparr>d_completions := d_completions d @ [new_completion now i taskID userID]\<rparr>,
                Inr (new_completion now i taskID userID)))"

definition on_completions :: "db \<Rightarrow> (completion list, 'a) store_result \<Rightarrow> (db, 'a) store_result" where
  "on_completions d r = (d\<lparr>d_completions := fst r\<rparr>, snd r)"

definition MarkViewed :: "faults \<Rightarrow> time \<Rightarrow> uuid \<Rightarrow> db \<Rightarrow> (db, unit) store_result" where
  [store_defs]: "MarkViewed flt now i d = on_completions d (done_any (exec_update flt ''task.MarkViewed''
     (\<lambda>c. tc_ID c = i \<and> tc_ViewedAt c = None) (\<lambda>c. c\<lparr>tc_ViewedAt := Some now, tc_UpdatedAt := now\<rparr>) (d_completions d)))"

record response_params =
  sp_RequirementID :: uuid
  sp_TextValue :: "string option"
  sp_BoolValue :: "bool option"

definition upsert_response :: "uuid \<Rightarrow> uuid \<Rightarrow> response_params \<Rightarrow> task_response list \<Rightarrow> task_response list" where
  "upsert_response i completionID p t =
     (let P = (\<lambda>r. tr_CompletionID r = completionID \<and> tr_RequirementID r = sp_RequirementID p) in
      if sql_exists P t then sql_update P (\<lambda>r. r\<lparr>tr_TextValue := sp_TextValue p, tr_BoolValue := sp_BoolValue p\<rparr>) t
      else t @ [\<lparr>tr_ID = i, tr_CompletionID = completionID, tr_RequirementID = sp_RequirementID p,
                 tr_TextValue = sp_TextValue p, tr_BoolValue = sp_BoolValue p\<rparr>])"

fun save_each :: "faults \<Rightarrow> (nat \<Rightarrow> uuid) \<Rightarrow> nat \<Rightarrow> uuid \<Rightarrow> response_params list \<Rightarrow> db \<Rightarrow> (db, unit) store_result" where
  "save_each flt fresh n completionID [] d = (d, Inr ())"
| "save_each flt fresh n completionID (p # ps) d =
     (if flt ''task.SaveResponses'' n \<or> \<not> sql_exists (\<lambda>c. tc_ID c = completionID) (d_completions d) \<or>
         \<not> sql_exists (\<lambda>r. rq_ID r = sp_RequirementID p) (d_requirements d)
      then (d, Inl (Fault ''task.SaveResponses''))
      else save_each flt fresh (Suc n) completionID ps
             (d\<lparr>d_responses := upsert_response (fresh n) completionID p (d_responses d)\<rparr>))"

definition SaveResponses ::
  "faults \<Rightarrow> time \<Rightarrow> (nat \<Rightarrow> uuid) \<Rightarrow> uuid \<Rightarrow> response_params list \<Rightarrow> db \<Rightarrow> (db, unit) store_result" where
  [store_defs]: "SaveResponses flt now fresh completionID ps d =
     (case save_each flt fresh 0 completionID ps d of
        (d1, Inl e) \<Rightarrow> (d1, Inl e)
      | (d1, Inr _) \<Rightarrow> on_completions d1 (done_any (exec_update flt ''task.SaveResponses.status''
          (\<lambda>c. tc_ID c = completionID \<and> tc_Status c \<in> {To_do, Rejected})
          (\<lambda>c. c\<lparr>tc_Status := In_progress, tc_UpdatedAt := now\<rparr>) (d_completions d1))))"

definition Submit :: "faults \<Rightarrow> time \<Rightarrow> uuid \<Rightarrow> db \<Rightarrow> (db, unit) store_result" where
  [store_defs]: "Submit flt now i d = on_completions d (done_some (ErrMsg ''cannot submit: invalid status'')
     (exec_update flt ''task.Submit'' (\<lambda>c. tc_ID c = i \<and> tc_Status c \<in> {To_do, In_progress, Rejected})
       (\<lambda>c. c\<lparr>tc_Status := Submitted, tc_SubmittedAt := Some now, tc_UpdatedAt := now\<rparr>) (d_completions d)))"

text \<open>A review by a user that does not exist fails on the foreign key.\<close>

definition review ::
  "string \<Rightarrow> string \<Rightarrow> completion_status \<Rightarrow> faults \<Rightarrow> time \<Rightarrow> uuid \<Rightarrow> uuid \<Rightarrow> db \<Rightarrow> (db, unit) store_result" where
  [store_defs]: "review q text st flt now i reviewerID d =
     (let P = (\<lambda>c. tc_ID c = i \<and> tc_Status c = Submitted) in
      if user_by d reviewerID = None \<and> sql_exists P (d_completions d) then (d, Inl (Fault q))
      else on_completions d (done_some (ErrMsg text) (exec_update flt q P
        (\<lambda>c. c\<lparr>tc_Status := st, tc_ReviewedAt := Some now, tc_ReviewedBy := Some reviewerID, tc_UpdatedAt := now\<rparr>)
        (d_completions d))))"

definition Approve :: "faults \<Rightarrow> time \<Rightarrow> uuid \<Rightarrow> uuid \<Rightarrow> db \<Rightarrow> (db, unit) store_result" where
  [store_defs]: "Approve = review ''task.Approve'' ''cannot approve: invalid status'' Approved"

definition Reject :: "faults \<Rightarrow> time \<Rightarrow> uuid \<Rightarrow> uuid \<Rightarrow> db \<Rightarrow> (db, unit) store_result" where
  [store_defs]: "Reject = review ''task.Reject'' ''cannot reject: invalid status'' Rejected"

subsection \<open>Uploads\<close>

definition CreateUpload :: "faults \<Rightarrow> upload \<Rightarrow> db \<Rightarrow> (db, unit) store_result" where
  [store_defs]: "CreateUpload flt u d =
     (if flt ''task.CreateUpload'' 0 \<or> \<not> sql_exists (\<lambda>c. tc_ID c = up_CompletionID u) (d_completions d) \<or>
         \<not> sql_exists (\<lambda>r. rq_ID r = up_RequirementID u) (d_requirements d)
      then (d, Inl (Fault ''task.CreateUpload''))
      else (d\<lparr>d_uploads := d_uploads d @ [u]\<rparr>, Inr ()))"

definition upload_tenant :: "db \<Rightarrow> upload \<Rightarrow> uuid option" where
  "upload_tenant d u = (case sql_row (\<lambda>c. tc_ID c = up_CompletionID u) (d_completions d) of None \<Rightarrow> None
     | Some c \<Rightarrow> map_option tk_TenantID (task_by d (tc_TaskID c)))"

definition GetUploadForDownload :: "faults \<Rightarrow> uuid \<Rightarrow> uuid \<Rightarrow> db \<Rightarrow> err + string \<times> string \<times> string" where
  [store_defs]: "GetUploadForDownload flt tenantID uploadID d =
     (case query_row flt ''task.GetUploadForDownload'' ErrNotFound
             (\<lambda>u. up_ID u = uploadID \<and> upload_tenant d u = Some tenantID) (d_uploads d) of
        Inl e \<Rightarrow> Inl e | Inr u \<Rightarrow> Inr (up_StorageKey u, up_FileName u, up_ContentType u))"

text \<open>Deleting an upload takes its verification with it.\<close>

definition Store_DeleteUpload :: "faults \<Rightarrow> uuid \<Rightarrow> uuid \<Rightarrow> db \<Rightarrow> (db, string) store_result" where
  [store_defs]: "Store_DeleteUpload flt tenantID uploadID d =
     (let P = (\<lambda>u. up_ID u = uploadID \<and> upload_tenant d u = Some tenantID) in
      if flt ''task.DeleteUpload'' 0 then (d, Inl (Fault ''task.DeleteUpload''))
      else case sql_row P (d_uploads d) of
        None \<Rightarrow> (d, Inl ErrNotFound)
      | Some u \<Rightarrow> (d\<lparr>d_uploads := sql_delete P (d_uploads d),
                    d_verifications := sql_delete (\<lambda>v. vf_UploadID v = uploadID) (d_verifications d)\<rparr>, Inr (up_StorageKey u)))"

subsection \<open>People\<close>

record tenant_user =
  tu_UserID :: uuid
  tu_Name :: string
  tu_Email :: string
  tu_Role :: string
  tu_SubOrgID :: "uuid option"

definition ListTenantUsers ::
  "(string \<Rightarrow> string \<Rightarrow> bool) \<Rightarrow> (string \<Rightarrow> 'k::linorder) \<Rightarrow> faults \<Rightarrow> uuid \<Rightarrow> string \<Rightarrow> uuid option \<Rightarrow> db \<Rightarrow> err + tenant_user list" where
  [store_defs]: "ListTenantUsers ilike coll flt tenantID search scope d =
     (if flt ''task.ListTenantUsers'' 0 then Inl (Fault ''task.ListTenantUsers'')
      else Inr (take 50 (sort_key (\<lambda>x. coll (tu_Name x)) (List.map_filter
        (\<lambda>u. case identity_by d (u_IdentityID u) of None \<Rightarrow> None | Some i \<Rightarrow>
           if u_TenantID u = tenantID \<and> u_Role u = ''individual_contributor'' \<and>
              (search = [] \<or> ilike (i_Name i) search \<or> ilike (i_Email i) search) \<and>
              (case scope of None \<Rightarrow> True | Some s \<Rightarrow> (u_ID u, s) \<in> set (d_members d))
           then Some \<lparr>tu_UserID = u_ID u, tu_Name = i_Name i, tu_Email = i_Email i, tu_Role = u_Role u,
                      tu_SubOrgID = suborg_of_user d (u_ID u)\<rparr> else None) (d_users d)))))"

definition UsersInSubOrg :: "faults \<Rightarrow> uuid list \<Rightarrow> uuid \<Rightarrow> db \<Rightarrow> err + uuid list" where
  [store_defs]: "UsersInSubOrg flt userIDs subOrgID d =
     (if userIDs = [] then Inr []
      else if flt ''task.UsersInSubOrg'' 0 then Inl (Fault ''task.UsersInSubOrg'')
      else Inr (map fst (filter (\<lambda>m. snd m = subOrgID \<and> fst m \<in> set userIDs) (d_members d))))"

definition Store_ListSubOrgs :: "(string \<Rightarrow> 'k::linorder) \<Rightarrow> faults \<Rightarrow> uuid \<Rightarrow> db \<Rightarrow> err + (uuid \<times> string) list" where
  [store_defs]: "Store_ListSubOrgs coll flt tenantID d =
     (if flt ''task.ListSubOrgs'' 0 then Inl (Fault ''task.ListSubOrgs'')
      else Inr (sort_key (\<lambda>(_, n). coll n) (map (\<lambda>s. (so_ID s, so_Name s)) (filter (\<lambda>s. so_TenantID s = tenantID) (d_suborgs d)))))"

record admin_submission =
  sb_TaskTitle :: string
  sb_UserName :: string
  sb_UserEmail :: string
  sb_Status :: completion_status
  sb_SubmittedAt :: "time option"
  sb_Requirements :: "requirement list"
  sb_Responses :: "task_response list"
  sb_Uploads :: "upload list"

definition AdminGetCompletion :: "faults \<Rightarrow> uuid \<Rightarrow> uuid \<Rightarrow> db \<Rightarrow> err + admin_submission" where
  [store_defs]: "AdminGetCompletion flt tenantID completionID d =
     (if flt ''task.AdminGetCompletion'' 0 then Inl (Fault ''task.AdminGetCompletion'')
      else case sql_row (\<lambda>c. tc_ID c = completionID) (d_completions d) of None \<Rightarrow> Inl ErrNotFound | Some c \<Rightarrow>
        (case (task_by d (tc_TaskID c), contact_of d (tc_UserID c)) of
           (Some t, Some (_, i)) \<Rightarrow>
             if tk_TenantID t \<noteq> tenantID then Inl ErrNotFound
             else if flt ''task.AdminGetCompletion.taskID'' 0 then Inl (Fault ''task.AdminGetCompletion.taskID'')
             else (case listRequirements flt (tc_TaskID c) d of Inl e \<Rightarrow> Inl e | Inr reqs \<Rightarrow>
               (case listResponses flt completionID d of Inl e \<Rightarrow> Inl e | Inr resps \<Rightarrow>
                 (case ListUploads flt completionID d of Inl e \<Rightarrow> Inl e | Inr ups \<Rightarrow>
                    Inr \<lparr>sb_TaskTitle = tk_Title t, sb_UserName = i_Name i, sb_UserEmail = i_Email i, sb_Status = tc_Status c,
                         sb_SubmittedAt = tc_SubmittedAt c, sb_Requirements = reqs, sb_Responses = resps, sb_Uploads = ups\<rparr>)))
         | _ \<Rightarrow> Inl ErrNotFound))"

definition GetSubmissionContext :: "faults \<Rightarrow> uuid \<Rightarrow> uuid \<Rightarrow> uuid \<Rightarrow> db \<Rightarrow> err + string \<times> string" where
  [store_defs]: "GetSubmissionContext flt taskID userID tenantID d =
     (if flt ''task.GetSubmissionContext'' 0 then Inl (Fault ''task.GetSubmissionContext'')
      else case (task_by d taskID, contact_of d userID) of
        (Some t, Some (u, i)) \<Rightarrow> if u_TenantID u = tenantID then Inr (tk_Title t, i_Name i) else Inl ErrNoRows
      | _ \<Rightarrow> Inl ErrNoRows)"

text \<open>User, address, name; \<^verbatim>\<open>SELECT DISTINCT\<close>.\<close>

definition ListAssigneeContacts :: "faults \<Rightarrow> uuid \<Rightarrow> db \<Rightarrow> err + (uuid \<times> string \<times> string) list" where
  [store_defs]: "ListAssigneeContacts flt taskID d =
     (if flt ''task.ListAssigneeContacts'' 0 then Inl (Fault ''task.ListAssigneeContacts'')
      else Inr (remdups (List.map_filter (\<lambda>(t, u, _). if t = taskID
        then map_option (\<lambda>(_, i). (u, i_Email i, i_Name i)) (contact_of d u) else None) (task_assigned_users d))))"

definition GetUserContact :: "faults \<Rightarrow> uuid \<Rightarrow> uuid \<Rightarrow> db \<Rightarrow> err + string \<times> string" where
  [store_defs]: "GetUserContact flt tenantID userID d =
     (if flt ''task.GetUserContact'' 0 then Inl (Fault ''task.GetUserContact'')
      else case contact_of d userID of
        Some (u, i) \<Rightarrow> if u_TenantID u = tenantID then Inr (i_Email i, i_Name i) else Inr ([], [])
      | None \<Rightarrow> Inr ([], []))"

record export_row =
  ex_TaskTitle :: string
  ex_SubOrgName :: string
  ex_AssigneeName :: string
  ex_AssigneeEmail :: string
  ex_Status :: completion_status
  ex_DueDate :: "time option"
  ex_CompletedAt :: "time option"

definition ExportByDateRange ::
  "(string \<Rightarrow> 'k::linorder) \<Rightarrow> faults \<Rightarrow> uuid \<Rightarrow> time \<Rightarrow> time \<Rightarrow> db \<Rightarrow> err + export_row list" where
  [store_defs]: "ExportByDateRange coll flt tenantID from to d =
     (if flt ''task.ExportByDateRange'' 0 then Inl (Fault ''task.ExportByDateRange'')
      else Inr (map snd (sort_key (\<lambda>(t, _). tk_CreatedAt t) (sort_key (\<lambda>(t, _). coll (tk_Title t))
        (sort_key (\<lambda>(_, x). coll (ex_AssigneeName x)) (List.map_filter (\<lambda>c.
          (case (task_by d (tc_TaskID c), contact_of d (tc_UserID c)) of
             (Some t, Some (_, i)) \<Rightarrow>
               if tk_TenantID t = tenantID \<and> from \<le> tk_CreatedAt t \<and> tk_CreatedAt t \<le> to
               then Some (t, \<lparr>ex_TaskTitle = tk_Title t,
                 ex_SubOrgName = (case Option.bind (tk_SubOrgID t) (suborg_by d) of None \<Rightarrow> [] | Some s \<Rightarrow> so_Name s),
                 ex_AssigneeName = i_Name i, ex_AssigneeEmail = i_Email i, ex_Status = tc_Status c,
                 ex_DueDate = tk_DueDate t, ex_CompletedAt = tc_SubmittedAt c\<rparr>)
               else None
           | _ \<Rightarrow> None)) (d_completions d)))))))"

record my_task_detail =
  md_Task :: task
  md_Requirements :: "requirement list"
  md_Completion :: completion
  md_Responses :: "task_response list"
  md_Uploads :: "upload list"
  md_CreatorName :: string

definition Store_GetMyTask :: "faults \<Rightarrow> time \<Rightarrow> uuid \<Rightarrow> uuid \<Rightarrow> uuid \<Rightarrow> uuid \<Rightarrow> db \<Rightarrow> (db, my_task_detail) store_result" where
  [store_defs]: "Store_GetMyTask flt now i tenantID taskID userID d =
     (if flt ''task.GetMyTask.check'' 0 \<or> \<not> sql_exists (\<lambda>s. us_TaskID s = taskID \<and> us_UserID s = userID) (task_user_status d)
      then (d, Inl ErrNotFound)
      else case query_row flt ''task.GetMyTask'' ErrNotFound (\<lambda>t. tk_ID t = taskID \<and> tk_TenantID t = tenantID) (d_tasks d) of
        Inl e \<Rightarrow> (d, Inl e)
      | Inr t \<Rightarrow>
          (case EnsureCompletion flt now i tenantID taskID userID d of
             (d1, Inl e) \<Rightarrow> (d1, Inl e)
           | (d1, Inr cmpl) \<Rightarrow>
               let d2 = (if tc_ViewedAt cmpl = None then fst (MarkViewed flt now (tc_ID cmpl) d1) else d1) in
               (d2, case listRequirements flt taskID d2 of Inl e \<Rightarrow> Inl e | Inr reqs \<Rightarrow>
                 (case listResponses flt (tc_ID cmpl) d2 of Inl e \<Rightarrow> Inl e | Inr resps \<Rightarrow>
                   (case ListUploads flt (tc_ID cmpl) d2 of Inl e \<Rightarrow> Inl e | Inr ups \<Rightarrow>
                      Inr \<lparr>md_Task = t, md_Requirements = reqs, md_Completion = cmpl, md_Responses = resps,
                           md_Uploads = ups, md_CreatorName = creator_name d t\<rparr>)))))"

end
