(* ===== verification/Scan.thy ===== *)
theory Scan
  imports Go_Std "HOL-Library.Word"
begin

text \<open>
  \<^verbatim>\<open>backend/internal/scan\<close> and \<^verbatim>\<open>httputil/upload.go\<close>: the malware scanner's client of the
  clamd \<^verbatim>\<open>INSTREAM\<close> protocol, byte for byte, and the checks every upload goes through. The
  daemon is an argument: it answers the bytes it was sent with pieces of text. A specification
  of the protocol's receiving side says what those bytes mean to it.
\<close>

subsection \<open>Bytes\<close>

type_synonym byte = "8 word"

definition bytes_of :: "string \<Rightarrow> byte list" where
  "bytes_of s = map of_char s"

definition PutUint32 :: "32 word \<Rightarrow> byte list" where
  "PutUint32 w = [ucast (drop_bit 24 w), ucast (drop_bit 16 w), ucast (drop_bit 8 w), ucast w]"

definition Uint32 :: "byte list \<Rightarrow> nat" where
  "Uint32 bs = foldl (\<lambda>acc b. 256 * acc + unat b) 0 bs"

lemma Uint32_PutUint32: "Uint32 (PutUint32 w) = unat w"
proof -
  let ?n = "unat w"
  have b: "unat (ucast (drop_bit k w) :: byte) = ?n div 2 ^ k mod 256" for k
  proof -
    have "unat (ucast (drop_bit k w) :: byte) = drop_bit k ?n mod 256"
      by (simp add: unsigned_ucast_eq unat_drop_bit_eq take_bit_eq_mod)
    then show ?thesis by (simp add: drop_bit_eq_div)
  qed
  have b0: "unat (ucast w :: byte) = ?n mod 256"
    using b [of 0] by simp
  define n1 where "n1 = ?n div 256"
  define n2 where "n2 = n1 div 256"
  define n3 where "n3 = n2 div 256"
  have "?n < 2 ^ 32" using unsigned_less [of w] by simp
  then have "n3 < 256" by (simp add: n1_def n2_def n3_def flip: div_mult2_eq)
  then have "n3 mod 256 = n3" by simp
  moreover have "?n = 256 * n1 + ?n mod 256" "n1 = 256 * n2 + n1 mod 256" "n2 = 256 * n3 + n2 mod 256"
    by (simp_all add: n1_def n2_def n3_def)
  moreover have "unat (ucast (drop_bit 8 w) :: byte) = n1 mod 256" "unat (ucast (drop_bit 16 w) :: byte) = n2 mod 256"
    "unat (ucast (drop_bit 24 w) :: byte) = n3 mod 256"
    by (simp_all add: b n1_def n2_def n3_def flip: div_mult2_eq)
  ultimately show ?thesis
    by (simp add: Uint32_def PutUint32_def b0)
qed

subsection \<open>The client\<close>

datatype scan_error =
    Infected string      \<comment> \<open>\<^verbatim>\<open>InfectedError\<close> with its signature\<close>
  | Scan_Fault string

type_synonym scanner = "faults \<Rightarrow> string list \<Rightarrow> scan_error + unit"

text \<open>A scanner is given what the successive reads of the file return.\<close>

definition Noop_Scan :: scanner where
  "Noop_Scan flt reads = Inr ()"

definition scan_buffer :: nat where "scan_buffer = 64 * 1024"

text \<open>The bytes written for the reads from number \<open>n\<close> on; nothing is written for an empty one.\<close>

fun send_chunks :: "faults \<Rightarrow> nat \<Rightarrow> string list \<Rightarrow> scan_error + byte list" where
  "send_chunks flt n [] = Inr []"
| "send_chunks flt n (c # cs) =
     (if flt ''scan.read'' n then Inl (Scan_Fault ''scan: read source'')
      else if c = [] then send_chunks flt (Suc n) cs
      else if flt ''scan.size'' n then Inl (Scan_Fault ''scan: write chunk size'')
      else if flt ''scan.chunk'' n then Inl (Scan_Fault ''scan: write chunk'')
      else (case send_chunks flt (Suc n) cs of Inl e \<Rightarrow> Inl e
        | Inr rest \<Rightarrow> Inr (PutUint32 (of_nat (length c)) @ bytes_of c @ rest)))"

definition zINSTREAM :: "byte list" where
  "zINSTREAM = bytes_of ''zINSTREAM'' @ [0]"

text \<open>The reply up to its first zero, over the pieces the connection delivers.\<close>

fun read_reply :: "faults \<Rightarrow> nat \<Rightarrow> string \<Rightarrow> string list \<Rightarrow> scan_error + string" where
  "read_reply flt n buf [] = (if flt ''scan.response'' n then Inl (Scan_Fault ''scan: read response'') else Inr buf)"
| "read_reply flt n buf (p # ps) =
     (if flt ''scan.response'' n then Inl (Scan_Fault ''scan: read response'')
      else if p \<noteq> [] \<and> CHR 0x00 \<in> set (buf @ p) then Inr (takeWhile (\<lambda>c. c \<noteq> CHR 0x00) (buf @ p))
      else read_reply flt (Suc n) (buf @ p) ps)"

definition judge :: "string \<Rightarrow> scan_error + unit" where
  "judge resp =
     (if resp = ''stream: OK'' then Inr ()
      else if HasSuffix resp '' FOUND'' then Inl (Infected (TrimSuffix (TrimPrefix resp ''stream: '') '' FOUND''))
      else if HasPrefix resp ''stream: '' \<and> HasSuffix resp '' ERROR'' then Inl (Scan_Fault ''scan: clamd reported error'')
      else if resp = [] then Inl (Scan_Fault ''scan: empty response from clamd'')
      else Inl (Scan_Fault ''scan: unexpected clamd response''))"

definition ClamAV_Scan :: "(byte list \<Rightarrow> string list) \<Rightarrow> scanner" where
  "ClamAV_Scan clamd flt reads =
     (if flt ''scan.dial'' 0 then Inl (Scan_Fault ''scan: dial clamd'')
      else if flt ''scan.command'' 0 then Inl (Scan_Fault ''scan: write command'')
      else case send_chunks flt 0 reads of Inl e \<Rightarrow> Inl e
      | Inr sent \<Rightarrow>
          if flt ''scan.terminator'' 0 then Inl (Scan_Fault ''scan: write terminator'')
          else (case read_reply flt 0 [] (clamd (zINSTREAM @ sent @ [0, 0, 0, 0])) of Inl e \<Rightarrow> Inl e
            | Inr buf \<Rightarrow> judge (TrimSpace buf)))"

subsection \<open>The receiving side\<close>

text \<open>What a receiver of the protocol makes of the bytes: the command, then lengths and data
  up to a length of zero.\<close>

fun receive_frames :: "nat \<Rightarrow> byte list \<Rightarrow> byte list option" where
  "receive_frames 0 bs = None"
| "receive_frames (Suc fuel) bs =
     (if length bs < 4 then None
      else let n = Uint32 (take 4 bs); rest = drop 4 bs in
        if n = 0 then (if rest = [] then Some [] else None)
        else if length rest < n then None
        else map_option (\<lambda>more. take n rest @ more) (receive_frames fuel (drop n rest)))"

definition receive :: "byte list \<Rightarrow> byte list option" where
  "receive bs = (let k = length zINSTREAM in
     if take k bs = zINSTREAM then receive_frames (length bs) (drop k bs) else None)"

lemma bytes_of_append [simp]: "bytes_of (a @ b) = bytes_of a @ bytes_of b"
  by (simp add: bytes_of_def)

lemma length_bytes_of [simp]: "length (bytes_of s) = length s"
  by (simp add: bytes_of_def)

lemma length_PutUint32 [simp]: "length (PutUint32 w) = 4"
  by (simp add: PutUint32_def)

lemma receive_chunks:
  assumes "\<forall>c \<in> set reads. length c \<le> scan_buffer" "send_chunks flt n reads = Inr sent" "length sent < fuel"
  shows "receive_frames fuel (sent @ [0, 0, 0, 0]) = Some (bytes_of (concat reads))"
  using assms
proof (induction reads arbitrary: n sent fuel)
  case Nil
  then show ?case by (cases fuel) (auto simp: Uint32_def bytes_of_def)
next
  case (Cons c cs)
  show ?case
  proof (cases "c = []")
    case True
    then show ?thesis
      using Cons.prems Cons.IH [of "Suc n" sent fuel] by (auto split: if_splits)
  next
    case False
    obtain rest where r: "send_chunks flt (Suc n) cs = Inr rest" "sent = PutUint32 (of_nat (length c)) @ bytes_of c @ rest"
      using Cons.prems(2) False by (auto split: if_splits sum.splits)
    obtain f where f: "fuel = Suc f" "length rest < f"
      using Cons.prems(3) r by (cases fuel) auto
    have "length c \<le> 65536" using Cons.prems(1) by (simp add: scan_buffer_def)
    then have len: "Uint32 (PutUint32 (of_nat (length c))) = length c"
      by (simp add: Uint32_PutUint32 unat_of_nat)
    have "receive_frames f (rest @ [0, 0, 0, 0]) = Some (bytes_of (concat cs))"
      using Cons.IH [OF _ r(1) f(2)] Cons.prems(1) by simp
    then show ?thesis
      using False len by (simp add: r f Let_def)
  qed
qed

lemma receive_sent:
  assumes "\<forall>c \<in> set reads. length c \<le> scan_buffer" "send_chunks flt n reads = Inr sent"
  shows "receive (zINSTREAM @ sent @ [0, 0, 0, 0]) = Some (bytes_of (concat reads))"
  using receive_chunks [OF assms, of "length (zINSTREAM @ sent @ [0, 0, 0, 0])"] by (simp add: receive_def Let_def)

text \<open>However a reply is cut into pieces, the client reads the text before its zero.\<close>

lemma read_reply_pieces:
  "buf @ concat ps = reply_text @ [CHR 0x00] \<Longrightarrow> CHR 0x00 \<notin> set buf \<Longrightarrow> CHR 0x00 \<notin> set reply_text \<Longrightarrow>
     read_reply flt n buf ps = Inr reply_text \<or> ((\<exists>k. flt ''scan.response'' k) \<and> \<not> (\<exists>x. read_reply flt n buf ps = Inr x))"
proof (induction ps arbitrary: n buf)
  case Nil
  then show ?case by (metis append_Nil2 concat.simps(1) in_set_conv_decomp)
next
  case (Cons p ps)
  show ?case
  proof (cases "CHR 0x00 \<in> set (buf @ p)")
    case True
    have "takeWhile (\<lambda>c. c \<noteq> CHR 0x00) (buf @ p) = takeWhile (\<lambda>c. c \<noteq> CHR 0x00) (buf @ p @ concat ps)"
      using True takeWhile_append1 [of "CHR 0x00" "buf @ p" "\<lambda>c. c \<noteq> CHR 0x00" "concat ps"] by simp
    also have "\<dots> = reply_text"
    proof -
      have "\<And>c. c \<in> set reply_text \<Longrightarrow> c \<noteq> CHR 0x00" using Cons.prems(3) by blast
      then have "takeWhile (\<lambda>c. c \<noteq> CHR 0x00) (reply_text @ [CHR 0x00]) = reply_text"
        by (simp add: takeWhile_append2)
      then show ?thesis using Cons.prems(1) by simp
    qed
    finally show ?thesis using True Cons.prems by auto
  next
    case False
    with Cons.prems Cons.IH [of "buf @ p" "Suc n"] show ?thesis by auto
  qed
qed

text \<open>A daemon that judges the data it received by \<open>verdict\<close>, the signature it found.\<close>

definition clamd_reply :: "(byte list \<Rightarrow> string option) \<Rightarrow> byte list \<Rightarrow> string" where
  "clamd_reply verdict bs = (case receive bs of
     None \<Rightarrow> ''INSTREAM size limit exceeded. ERROR''
   | Some data \<Rightarrow> (case verdict data of None \<Rightarrow> ''stream: OK'' | Some sig \<Rightarrow> ''stream: '' @ sig @ '' FOUND''))"

lemma judge_reply:
  "judge (TrimSpace ''stream: OK'') = Inr ()"
  "judge (TrimSpace (''stream: '' @ sig @ '' FOUND'')) = Inl (Infected sig)"
proof -
  have t: "TrimSpace ''stream: OK'' = ''stream: OK''" "TrimSpace (''stream: '' @ sig @ '' FOUND'') = ''stream: '' @ sig @ '' FOUND''"
    by (rule TrimSpace_trimmed; simp add: is_space_def of_char_def)+
  show "judge (TrimSpace ''stream: OK'') = Inr ()" by (simp only: t) (simp add: judge_def)
  have "HasSuffix (''stream: '' @ sig @ '' FOUND'') '' FOUND''"
    using HasSuffix_append [of "''stream: '' @ sig" "'' FOUND''"] by simp
  moreover have "''stream: '' @ sig @ '' FOUND'' \<noteq> ''stream: OK''"
    by (cases sig rule: rev_cases) auto
  moreover have "TrimSuffix (TrimPrefix (''stream: '' @ sig @ '' FOUND'') ''stream: '') '' FOUND'' = sig"
    by (simp only: TrimPrefix_append TrimSuffix_append)
  ultimately show "judge (TrimSpace (''stream: '' @ sig @ '' FOUND'')) = Inl (Infected sig)"
    by (simp only: t judge_def if_True if_False)
qed


definition demo_verdict :: "byte list \<Rightarrow> string option" where
  "demo_verdict data = (if data = bytes_of ''EICAR'' then Some ''Eicar-Test'' else None)"


subsection \<open>Uploads\<close>

definition MaxUploadSize :: int where "MaxUploadSize = 52428800"

text \<open>A file of a multipart form: the name the client gave, the content, and the size of the
  request body, which \<^verbatim>\<open>MaxBytesReader\<close> bounds.\<close>

record form_file =
  ff_Filename :: string
  ff_Content :: string
  ff_BodySize :: int

definition FormFile :: "form_file option \<Rightarrow> form_file option" where
  "FormFile f = (case f of None \<Rightarrow> None | Some x \<Rightarrow> if ff_BodySize x \<le> MaxUploadSize then Some x else None)"

definition ff_Size :: "form_file \<Rightarrow> int" where
  "ff_Size f = int (length (ff_Content f))"

definition SniffContentType :: "(string \<Rightarrow> string) \<Rightarrow> faults \<Rightarrow> form_file \<Rightarrow> err + string" where
  "SniffContentType detect flt f =
     (if flt ''upload.sniff'' 0 then Inl (Fault ''read for sniff'')
      else if flt ''upload.sniff.rewind'' 0 then Inl (Fault ''rewind after sniff'')
      else Inr (detect (take 512 (ff_Content f))))"

text \<open>The reads are cut at the scanner's buffer.\<close>

fun cut :: "nat \<Rightarrow> nat \<Rightarrow> string \<Rightarrow> string list" where
  "cut 0 k s = []"
| "cut (Suc fuel) k s = (if s = [] then [] else take k s # cut fuel k (drop k s))"

definition reads_of :: "string \<Rightarrow> string list" where
  "reads_of s = cut (length s) scan_buffer s"

lemma cut_spec: "0 < k \<Longrightarrow> length s \<le> fuel \<Longrightarrow> concat (cut fuel k s) = s \<and> (\<forall>c \<in> set (cut fuel k s). length c \<le> k)"
proof (induction fuel arbitrary: s)
  case (Suc fuel)
  then have "length (drop k s) \<le> fuel" by simp
  with Suc.IH [of "drop k s"] Suc.prems(1) show ?case by auto
qed simp

lemma reads_of_spec: "concat (reads_of s) = s" "c \<in> set (reads_of s) \<Longrightarrow> length c \<le> scan_buffer"
  using cut_spec [of scan_buffer s "length s"] by (simp_all add: reads_of_def scan_buffer_def)

definition ScanAndRewind :: "scanner \<Rightarrow> faults \<Rightarrow> form_file \<Rightarrow> scan_error + unit" where
  "ScanAndRewind scanner flt f = (case scanner flt (reads_of (ff_Content f)) of Inl e \<Rightarrow> Inl e
     | Inr _ \<Rightarrow> if flt ''upload.scan.rewind'' 0 then Inl (Scan_Fault ''rewind after scan'') else Inr ())"

end
