(* ===== verification/Verification.thy ===== *)
theory Verification
  imports Tasks Storage Scan
begin

text \<open>
  \<^verbatim>\<open>backend/internal/verification\<close> and the store of \<^verbatim>\<open>aiusage\<close>: the record of each
  upload's check by a language model, the worker that fills it, the feedback of an
  administrator, and the accounting of the calls. The model, the parser of its JSON answer and
  the formatting of a number are arguments.
\<close>

subsection \<open>Usage of the language model\<close>

definition Usage_Record :: "faults \<Rightarrow> time \<Rightarrow> uuid \<Rightarrow> uuid \<Rightarrow> uuid \<Rightarrow> string \<Rightarrow> int \<Rightarrow> int \<Rightarrow> db \<Rightarrow> (db, unit) store_result" where
  [store_defs]: "Usage_Record flt now i tenantID userID feature prompt_tokens response_tokens d =
     (if flt ''aiusage.Record'' 0 \<or> tenant_by d tenantID = None \<or> user_by d userID = None
      then (d, Inl (Fault ''aiusage.Record''))
      else (d\<lparr>d_ai_usage := d_ai_usage d @ [\<lparr>au_ID = i, au_TenantID = tenantID, au_UserID = userID, au_Feature = feature,
        au_PromptTokens = prompt_tokens, au_ResponseTokens = response_tokens, au_CreatedAt = now\<rparr>]\<rparr>, Inr ()))"

definition CountUserSince :: "faults \<Rightarrow> uuid \<Rightarrow> string \<Rightarrow> time \<Rightarrow> db \<Rightarrow> err + nat" where
  [store_defs]: "CountUserSince flt userID feature since d =
     (if flt ''aiusage.CountUserSince'' 0 then Inl (Fault ''aiusage.CountUserSince'')
      else Inr (sql_affected (\<lambda>a. au_UserID a = userID \<and> au_Feature a = feature \<and> since \<le> au_CreatedAt a) (d_ai_usage d)))"

record feature_usage =
  fu_Feature :: string
  fu_Calls :: nat
  fu_PromptTokens :: int
  fu_ResponseTokens :: int

definition TenantUsageByFeature :: "(string \<Rightarrow> 'k::linorder) \<Rightarrow> faults \<Rightarrow> uuid \<Rightarrow> time \<Rightarrow> db \<Rightarrow> err + feature_usage list" where
  [store_defs]: "TenantUsageByFeature coll flt tenantID since d =
     (if flt ''aiusage.TenantUsageByFeature'' 0 then Inl (Fault ''aiusage.TenantUsageByFeature'')
      else let rows = filter (\<lambda>a. au_TenantID a = tenantID \<and> since \<le> au_CreatedAt a) (d_ai_usage d) in
        Inr (map (\<lambda>f. let group = filter (\<lambda>a. au_Feature a = f) rows in
               \<lparr>fu_Feature = f, fu_Calls = length group, fu_PromptTokens = sum_list (map au_PromptTokens group),
                fu_ResponseTokens = sum_list (map au_ResponseTokens group)\<rparr>)
             (sort_key coll (remdups (map au_Feature rows)))))"

subsection \<open>Store\<close>

definition CreatePending :: "faults \<Rightarrow> time \<Rightarrow> uuid \<Rightarrow> uuid \<Rightarrow> uuid \<Rightarrow> string \<Rightarrow> db \<Rightarrow> (db, uuid) store_result" where
  [store_defs]: "CreatePending flt now i uploadID tenantID criteria d =
     (if flt ''verification.CreatePending'' 0 \<or> \<not> sql_exists (\<lambda>u. up_ID u = uploadID) (d_uploads d) \<or>
         tenant_by d tenantID = None \<or> sql_exists (\<lambda>v. vf_UploadID v = uploadID) (d_verifications d)
      then (d, Inl (Fault ''verification.CreatePending''))
      else (d\<lparr>d_verifications := d_verifications d @ [\<lparr>vf_ID = i, vf_UploadID = uploadID, vf_TenantID = tenantID,
        vf_Status = V_Pending, vf_Verdict = None, vf_ErrorMessage = [], vf_CriteriaSnapshot = criteria, vf_Model = [],
        vf_AdminFeedback = None, vf_AdminFeedbackAt = None, vf_AdminFeedbackBy = None,
        vf_CreatedAt = now, vf_UpdatedAt = now\<rparr>]\<rparr>, Inr i))"

definition on_verifications :: "db \<Rightarrow> (verification list, 'a) store_result \<Rightarrow> (db, 'a) store_result" where
  "on_verifications d r = (d\<lparr>d_verifications := fst r\<rparr>, snd r)"

definition MarkSucceeded :: "faults \<Rightarrow> time \<Rightarrow> uuid \<Rightarrow> string \<Rightarrow> verdict \<Rightarrow> db \<Rightarrow> (db, unit) store_result" where
  [store_defs]: "MarkSucceeded flt now uploadID ai_model v d =
     on_verifications d (done_any (exec_update flt ''verification.MarkSucceeded'' (\<lambda>x. vf_UploadID x = uploadID)
       (\<lambda>x. x\<lparr>vf_Status := V_Succeeded, vf_Verdict := Some v, vf_Model := ai_model, vf_UpdatedAt := now\<rparr>) (d_verifications d)))"

definition MarkFailed :: "faults \<Rightarrow> time \<Rightarrow> uuid \<Rightarrow> string \<Rightarrow> db \<Rightarrow> (db, unit) store_result" where
  [store_defs]: "MarkFailed flt now uploadID text d =
     on_verifications d (done_any (exec_update flt ''verification.MarkFailed'' (\<lambda>x. vf_UploadID x = uploadID)
       (\<lambda>x. x\<lparr>vf_Status := V_Failed, vf_ErrorMessage := text, vf_UpdatedAt := now\<rparr>) (d_verifications d)))"

definition GetByUpload :: "faults \<Rightarrow> uuid \<Rightarrow> db \<Rightarrow> err + verification" where
  [store_defs]: "GetByUpload flt uploadID d =
     query_row flt ''verification.GetByUpload'' ErrNoRows (\<lambda>v. vf_UploadID v = uploadID) (d_verifications d)"

text \<open>Keyed by upload in the code; an upload has at most one row.\<close>

definition ListByCompletion :: "faults \<Rightarrow> uuid \<Rightarrow> db \<Rightarrow> err + (uuid \<times> verification) list" where
  [store_defs]: "ListByCompletion flt completionID d =
     (if flt ''verification.ListByCompletion'' 0 then Inl (Fault ''verification.ListByCompletion'')
      else Inr (map (\<lambda>v. (vf_UploadID v, v)) (filter (\<lambda>v. sql_exists (\<lambda>u. up_ID u = vf_UploadID v \<and>
             up_CompletionID u = completionID) (d_uploads d)) (d_verifications d))))"

definition feedback_values :: "string list" where
  "feedback_values = [''correct'', ''incorrect'']"

text \<open>Feedback by a user that does not exist fails on the foreign key.\<close>

definition RecordFeedback :: "faults \<Rightarrow> time \<Rightarrow> uuid \<Rightarrow> uuid \<Rightarrow> string \<Rightarrow> db \<Rightarrow> (db, unit) store_result" where
  [store_defs]: "RecordFeedback flt now uploadID adminUserID feedback d =
     (let P = (\<lambda>v. vf_UploadID v = uploadID) in
      if feedback \<notin> set feedback_values then (d, Inl (ErrMsg ''invalid feedback value''))
      else if user_by d adminUserID = None \<and> sql_exists P (d_verifications d) then (d, Inl (Fault ''verification.RecordFeedback''))
      else on_verifications d (done_some ErrNoRows (exec_update flt ''verification.RecordFeedback'' P
        (\<lambda>v. v\<lparr>vf_AdminFeedback := Some feedback, vf_AdminFeedbackAt := Some now, vf_AdminFeedbackBy := Some adminUserID,
             vf_UpdatedAt := now\<rparr>) (d_verifications d))))"

subsection \<open>The verifier\<close>

definition MaxAIVerifyFileSize :: int where "MaxAIVerifyFileSize = 18 * 2 ^ 20"

text \<open>\<^verbatim>\<open>0.7\<close> is the \<^verbatim>\<open>float64\<close> \<open>6305039478318694 / 2 ^ 53\<close>.\<close>

definition LowConfidenceThreshold :: int where "LowConfidenceThreshold = 6305039478318694"

definition SupportedContentTypes :: "string list" where
  "SupportedContentTypes = [''application/pdf'', ''image/png'', ''image/jpeg'', ''image/webp'']"

text \<open>The parts of the candidates' contents, \<open>None\<close> for a candidate without content; prompt and
  response tokens.\<close>

record gemini_reply =
  gr_Candidates :: "string list option list"
  gr_Usage :: "(int \<times> int) option"

record gemini =
  gm_Model :: string
  gm_Generate :: "string \<Rightarrow> string \<Rightarrow> string \<Rightarrow> err + gemini_reply" \<comment> \<open>document, type, prompt\<close>
  gm_Parse :: "string \<Rightarrow> verdict option"   \<comment> \<open>\<^verbatim>\<open>json.Unmarshal\<close>, with absent collections empty\<close>
  gm_Fixed2 :: "int \<Rightarrow> string"             \<comment> \<open>\<^verbatim>\<open>%.2f\<close> of a confidence\<close>
  gm_ErrorText :: "err \<Rightarrow> string"

definition newline :: string where "newline = [CHR 0x0A]"
definition fence :: string where "fence = replicate 3 (CHR 0x22)"

definition promptForCriteria :: "string \<Rightarrow> string \<Rightarrow> string \<Rightarrow> string" where
  "promptForCriteria criteria name email =
     ''ASSIGNEE (the user who uploaded this document):'' @ newline @ fence @ newline @
     ''Name: '' @ name @ newline @ ''Email: '' @ email @ newline @ fence @ newline @ newline @
     ''VERIFICATION CRITERIA (set by the security officer assigning the task):'' @ newline @ fence @ newline @
     criteria @ newline @ fence @ newline @ newline @
     ''Review the attached document against these criteria and respond with JSON matching the schema.''"

fun extractText :: "string list option list \<Rightarrow> string" where
  "extractText [] = []"
| "extractText (None # cs) = extractText cs"
| "extractText (Some ps # cs) = (case List.find (\<lambda>t. t \<noteq> []) ps of Some t \<Rightarrow> t | None \<Rightarrow> extractText cs)"

record verify_result =
  vr_Verdict :: verdict
  vr_Model :: string
  vr_PromptTokens :: int
  vr_ResponseTokens :: int

definition low_confidence_note :: "gemini \<Rightarrow> int \<Rightarrow> string" where
  "low_confidence_note g c = ''low confidence ('' @ gm_Fixed2 g c @ '') '' @ [CHR 0xE2, CHR 0x80, CHR 0x94] @ '' manual review recommended''"

definition flag_low_confidence :: "gemini \<Rightarrow> verdict \<Rightarrow> verdict" where
  "flag_low_confidence g v =
     (if vd_Confidence v < LowConfidenceThreshold \<and> \<not> vd_Flagged v
      then v\<lparr>vd_Flagged := True, vd_Discrepancies := vd_Discrepancies v @ [low_confidence_note g (vd_Confidence v)]\<rparr>
      else v)"

text \<open>An error comes with the name of the model when it was called.\<close>

definition Verify :: "gemini \<Rightarrow> faults \<Rightarrow> string \<Rightarrow> string \<Rightarrow> string \<Rightarrow> string \<Rightarrow> string \<Rightarrow> (err \<times> string) + verify_result" where
  [store_defs]: "Verify g flt content mimeType criteria name email =
     (if mimeType \<notin> set SupportedContentTypes then Inl (ErrMsg ''unsupported content type for verification'', [])
      else if flt ''verify.read'' 0 then Inl (Fault ''read document'', [])
      else case gm_Generate g content mimeType (promptForCriteria criteria name email) of
        Inl e \<Rightarrow> Inl (e, gm_Model g)
      | Inr resp \<Rightarrow> let text = extractText (gr_Candidates resp) in
          if text = [] then Inl (ErrMsg ''gemini returned no content'', gm_Model g)
          else (case gm_Parse g text of
             None \<Rightarrow> Inl (ErrMsg ''parse verdict'', gm_Model g)
           | Some v \<Rightarrow> Inr \<lparr>vr_Verdict = flag_low_confidence g v, vr_Model = gm_Model g,
               vr_PromptTokens = (case gr_Usage resp of None \<Rightarrow> 0 | Some (p, _) \<Rightarrow> p),
               vr_ResponseTokens = (case gr_Usage resp of None \<Rightarrow> 0 | Some (_, q) \<Rightarrow> q)\<rparr>))"

subsection \<open>The worker\<close>

definition AIFeature :: string where "AIFeature = ''task_upload_verification''"

record upload_context =
  uc_TenantID :: uuid
  uc_UserID :: uuid
  uc_StorageKey :: string
  uc_ContentType :: string
  uc_Criteria :: string
  uc_AssigneeName :: string
  uc_AssigneeEmail :: string

definition upload_context_of :: "db \<Rightarrow> upload \<Rightarrow> upload_context option" where
  "upload_context_of d u =
     (case (sql_row (\<lambda>c. tc_ID c = up_CompletionID u) (d_completions d), sql_row (\<lambda>r. rq_ID r = up_RequirementID u) (d_requirements d)) of
        (Some c, Some r) \<Rightarrow> (case (task_by d (tc_TaskID c), contact_of d (tc_UserID c)) of
           (Some t, Some (_, i)) \<Rightarrow> Some \<lparr>uc_TenantID = tk_TenantID t, uc_UserID = tc_UserID c, uc_StorageKey = up_StorageKey u,
              uc_ContentType = up_ContentType u, uc_Criteria = rq_AIVerificationCriteria r,
              uc_AssigneeName = i_Name i, uc_AssigneeEmail = i_Email i\<rparr>
         | _ \<Rightarrow> None)
      | _ \<Rightarrow> None)"

definition loadContext :: "faults \<Rightarrow> uuid \<Rightarrow> db \<Rightarrow> err + upload_context" where
  [store_defs]: "loadContext flt uploadID d =
     (if flt ''verification.loadContext'' 0 then Inl (Fault ''verification.loadContext'')
      else case Option.bind (sql_row (\<lambda>u. up_ID u = uploadID) (d_uploads d)) (upload_context_of d) of
        None \<Rightarrow> Inl ErrNoRows
      | Some c \<Rightarrow> if uc_Criteria c = [] then Inl (ErrMsg ''upload has no verification criteria'') else Inr c)"

definition Process :: "gemini \<Rightarrow> storage_backend \<Rightarrow> request \<Rightarrow> uuid \<Rightarrow> (db, err + unit) state" where
  [http_defs]: "Process g sb r uploadID = do {
     found \<leftarrow> asks (GetByUpload (r_flt r) uploadID);
     (case found of
        Inl e \<Rightarrow> reply (if e = ErrNoRows then Inr () else Inl e)
      | Inr existing \<Rightarrow>
          if vf_Status existing \<noteq> V_Pending then reply (Inr ())
          else do {
            loaded \<leftarrow> asks (loadContext (r_flt r) uploadID);
            (case loaded of
               Inl e \<Rightarrow> do {
                 on_db (MarkFailed (r_flt r) (r_now r) uploadID (''load_context: '' @ gm_ErrorText g e));
                 reply (Inr ())
               }
             | Inr uc \<Rightarrow> do {
                 content \<leftarrow> asks (\<lambda>d. sb_Download sb (r_flt r) (uc_StorageKey uc) (d_files d));
                 (case content of
                    Inl e \<Rightarrow> do {
                      on_db (MarkFailed (r_flt r) (r_now r) uploadID (''download: '' @ gm_ErrorText g e));
                      reply (Inr ())
                    }
                  | Inr doc \<Rightarrow>
                      (case Verify g (r_flt r) doc (uc_ContentType uc) (uc_Criteria uc) (uc_AssigneeName uc) (uc_AssigneeEmail uc) of
                         Inl (e, ai_model) \<Rightarrow> do {
                           on_db (MarkFailed (r_flt r) (r_now r) uploadID (''ai_call: '' @ gm_ErrorText g e));
                           (if ai_model \<noteq> [] then do {
                              on_db (Usage_Record (r_flt r) (r_now r) (r_fresh r 0) (uc_TenantID uc) (uc_UserID uc) AIFeature 0 0);
                              reply ()
                            } else reply ());
                           reply (Inr ())
                         }
                       | Inr result \<Rightarrow> do {
                           done \<leftarrow> on_db (MarkSucceeded (r_flt r) (r_now r) uploadID (vr_Model result) (vr_Verdict result));
                           (case done of Inl e \<Rightarrow> reply (Inl e) | Inr _ \<Rightarrow> do {
                              on_db (Usage_Record (r_flt r) (r_now r) (r_fresh r 0) (uc_TenantID uc) (uc_UserID uc) AIFeature
                                (vr_PromptTokens result) (vr_ResponseTokens result));
                              reply (Inr ())
                            })
                         }))
               })
          })
   }"

text \<open>The body is the upload id, \<open>None\<close> when it did not bind.\<close>

definition HandleVerifyTask :: "gemini \<Rightarrow> storage_backend \<Rightarrow> request \<Rightarrow> uuid option \<Rightarrow> (db, unit response) state" where
  [http_defs]: "HandleVerifyTask g sb r body = (case body of
     None \<Rightarrow> reply (Abort StatusBadRequest (Msg ''invalid body''))
   | Some uploadID \<Rightarrow> if uploadID = uuid_Nil then reply (Abort StatusBadRequest (Msg ''invalid body''))
       else do {
         res \<leftarrow> Process g sb r uploadID;
         (case res of Inl _ \<Rightarrow> reply internal_error | Inr _ \<Rightarrow> reply (Respond StatusOK ()))
       })"

definition HandleFeedback :: "libs \<Rightarrow> request \<Rightarrow> string \<Rightarrow> string option \<Rightarrow> (db, unit response) state" where
  [http_defs]: "HandleFeedback L r upload_param body = with_member r (\<lambda>sess tenantID userID.
     with_uuid L ''invalid upload id'' upload_param (\<lambda>uploadID.
     (case body of None \<Rightarrow> reply (Abort StatusBadRequest (Msg ''invalid body'')) | Some feedback \<Rightarrow>
        if feedback \<notin> set feedback_values
        then reply (Abort StatusBadRequest (Msg ''feedback must be correct or incorrect''))
        else do {
          found \<leftarrow> asks (GetByUpload (r_flt r) uploadID);
          (case found of
             Inl e \<Rightarrow> reply (if e = ErrNoRows then Abort StatusNotFound (Msg ''verification not found'') else internal_error)
           | Inr rec \<Rightarrow>
               if vf_TenantID rec \<noteq> tenantID then reply (Abort StatusNotFound (Msg ''verification not found''))
               else do {
                 done \<leftarrow> on_db (RecordFeedback (r_flt r) (r_now r) uploadID userID feedback);
                 (case done of Inl _ \<Rightarrow> reply internal_error | Inr _ \<Rightarrow> reply (Respond StatusOK ()))
               })
        })))"

end
