(* ===== verification/Task_Handlers.thy ===== *)
theory Task_Handlers
  imports Verification
begin

text \<open>
  \<^verbatim>\<open>backend/internal/task/handler.go\<close> and the request checks of \<^verbatim>\<open>task/export.go\<close>: the
  officers' handlers over tasks and submissions, the handlers of the assignees, uploads and
  downloads, and the status updates of action items the router wires to task submissions.
\<close>

subsection \<open>Officers\<close>

definition task_audit :: "request \<Rightarrow> session \<Rightarrow> uuid \<Rightarrow> string \<Rightarrow> (string \<times> json) list \<Rightarrow> (db, unit) state" where
  "task_audit r sess tenantID action meta =
     audit_log r 0 action (Some (s_IdentityID sess)) (Some (s_ID sess)) (Some tenantID) meta"

text \<open>The rules in turn: the refusal, or the users named so far.\<close>

fun check_rules :: "uuid \<Rightarrow> uuid list \<Rightarrow> rule_params list \<Rightarrow> string + uuid list" where
  "check_rules so targets [] = Inr targets"
| "check_rules so targets (p # ps) =
     (if lp_RuleType p = ''org'' then Inl ''only administrators may assign tasks tenant-wide''
      else if lp_RuleType p = ''sub_org'' then
        (if lp_TargetID p = Some so then check_rules so targets ps
         else Inl ''you may only assign tasks within your own sub-organization'')
      else if lp_RuleType p = ''user'' then
        (case lp_TargetID p of None \<Rightarrow> Inl ''user assignment rule missing target_id''
         | Some u \<Rightarrow> check_rules so (targets @ [u]) ps)
      else Inl ''invalid rule_type'')"

definition validateRulesForFSO :: "faults \<Rightarrow> rule_params list \<Rightarrow> uuid option \<Rightarrow> db \<Rightarrow> string option" where
  "validateRulesForFSO flt rules sessSubOrg d = (case sessSubOrg of
     None \<Rightarrow> if rules \<noteq> [] then Some ''you must belong to a sub-organization to assign tasks'' else None
   | Some so \<Rightarrow> (case check_rules so [] rules of
       Inl text \<Rightarrow> Some text
     | Inr userTargets \<Rightarrow>
         if userTargets = [] then None
         else (case UsersInSubOrg flt userTargets so d of
            Inl _ \<Rightarrow> Some ''internal error validating assignment''
          | Inr inSubOrg \<Rightarrow> if \<forall>u \<in> set userTargets. u \<in> set inSubOrg then None
              else Some ''you may only assign tasks to users in your own sub-organization'')))"

definition is_admin_session :: "session \<Rightarrow> bool" where
  "is_admin_session sess = (s_UserRole sess = Some ''administrator'')"

text \<open>The tasks as the store gets them: tenant and creator of the session; a sub-organization
  of the body only for administrators.\<close>

definition create_params :: "session \<Rightarrow> uuid \<Rightarrow> uuid \<Rightarrow> task_params \<Rightarrow> task_params" where
  "create_params sess tenantID userID p = p\<lparr>tp_TenantID := tenantID, tp_CreatedByUserID := userID,
     tp_SubOrgID := (if is_admin_session sess then tp_SubOrgID p else s_SubOrgID sess),
     tp_Status := (if tp_Status p = [] then ''active'' else tp_Status p)\<rparr>"

definition CreateTask :: "libs \<Rightarrow> request \<Rightarrow> task_params option \<Rightarrow> (db, task response) state" where
  [http_defs]: "CreateTask L r body = with_member r (\<lambda>sess tenantID userID.
     (case body of None \<Rightarrow> reply invalid_request | Some p \<Rightarrow> do {
        refused \<leftarrow> asks (\<lambda>d. if is_admin_session sess then None
          else validateRulesForFSO (r_flt r) (tp_Rules p) (s_SubOrgID sess) d);
        (case refused of Some text \<Rightarrow> reply (Abort StatusForbidden (Msg text)) | None \<Rightarrow> do {
           created \<leftarrow> on_db (Task_Create (l_pgdate L) (r_flt r) (r_now r) (r_fresh r) (create_params sess tenantID userID p));
           (case created of
              Inl _ \<Rightarrow> reply (Abort StatusInternalServerError (Msg ''failed to create task''))
            | Inr t \<Rightarrow> do {
                (if tk_Status t = ''active'' then do {
                   contacts \<leftarrow> asks (ListAssigneeContacts (r_flt r) (tk_ID t));
                   notify (case contacts of Inl _ \<Rightarrow> [] | Inr cs \<Rightarrow> map (\<lambda>(u, email, name). TaskAssigned u email name) cs)
                 } else reply ());
                task_audit r sess tenantID ''task_created'' [(''task_id'', JId (tk_ID t))];
                reply (Respond StatusCreated t)
              })
         })
      }))"

definition ListTasks ::
  "libs \<Rightarrow> request \<Rightarrow> string \<Rightarrow> string \<Rightarrow> string \<Rightarrow> string \<Rightarrow> string option \<Rightarrow> string option \<Rightarrow> (db, (task_row list \<times> nat) response) state" where
  [http_defs]: "ListTasks L r status priority search sub_org_id limit_q offset_q = with_member r (\<lambda>sess tenantID userID.
     let page = ParsePagination limit_q offset_q 20 in do {
       res \<leftarrow> asks (Task_List (l_ilike L) (r_flt r) \<lparr>tf_TenantID = tenantID, tf_Status = status, tf_Priority = priority,
         tf_Search = search, tf_SubOrgScope = SubOrgScope (l_uuid L) (r_role r) (Some sess) sub_org_id,
         tf_Limit = fst page, tf_Offset = snd page\<rparr>);
       (case res of Inl _ \<Rightarrow> reply (Abort StatusInternalServerError (Msg ''failed to list tasks''))
        | Inr x \<Rightarrow> reply (Respond StatusOK x))
     })"

text \<open>A bound that is absent or no date is none; the upper bound is the last nanosecond of its day.\<close>

definition parseDateRange :: "string \<Rightarrow> string \<Rightarrow> time option \<times> time option" where
  "parseDateRange from_q to_q =
     ((if from_q = [] then None else ParseDate from_q),
      (if to_q = [] then None else map_option (\<lambda>t. t + (24 * hour - 1)) (ParseDate to_q)))"

definition GetTaskStats :: "libs \<Rightarrow> request \<Rightarrow> string \<Rightarrow> string \<Rightarrow> string \<Rightarrow> (db, task_stats response) state" where
  [http_defs]: "GetTaskStats L r from_q to_q sub_org_id = with_member r (\<lambda>sess tenantID userID.
     case parseDateRange from_q to_q of (from, to) \<Rightarrow> do {
       stats \<leftarrow> asks (Task_SummaryStats (r_flt r) tenantID from to (SubOrgScope (l_uuid L) (r_role r) (Some sess) sub_org_id));
       (case stats of Inl _ \<Rightarrow> reply internal_error | Inr x \<Rightarrow> reply (Respond StatusOK x))
     })"

definition task_not_found :: "err \<Rightarrow> 'b response" where
  "task_not_found e = (if e = ErrNotFound then Abort StatusNotFound (Msg ''task not found'') else internal_error)"

definition GetTask :: "libs \<Rightarrow> request \<Rightarrow> string \<Rightarrow> (db, task_detail response) state" where
  [http_defs]: "GetTask L r id_param = with_member r (\<lambda>sess tenantID userID.
     with_uuid L ''invalid task ID'' id_param (\<lambda>taskID. do {
       res \<leftarrow> asks (Task_Get (l_collate L) (r_flt r) tenantID taskID);
       (case res of Inl e \<Rightarrow> reply (task_not_found e) | Inr x \<Rightarrow> reply (Respond StatusOK x))
     }))"

definition ArchiveTask :: "libs \<Rightarrow> request \<Rightarrow> string \<Rightarrow> (db, string response) state" where
  [http_defs]: "ArchiveTask L r id_param = with_member r (\<lambda>sess tenantID userID.
     with_uuid L ''invalid task ID'' id_param (\<lambda>taskID. do {
       res \<leftarrow> on_db (Archive (r_flt r) (r_now r) tenantID taskID);
       (case res of Inl e \<Rightarrow> reply (task_not_found e) | Inr _ \<Rightarrow> do {
          task_audit r sess tenantID ''task_archived'' [(''task_id'', JId taskID)];
          reply (Respond StatusOK ''archived'')
        })
     }))"

definition UnarchiveTask :: "libs \<Rightarrow> request \<Rightarrow> string \<Rightarrow> (db, string response) state" where
  [http_defs]: "UnarchiveTask L r id_param = with_member r (\<lambda>sess tenantID userID.
     with_uuid L ''invalid task ID'' id_param (\<lambda>taskID. do {
       res \<leftarrow> on_db (Unarchive (r_flt r) (r_now r) tenantID taskID);
       (case res of Inl e \<Rightarrow> reply (task_not_found e) | Inr _ \<Rightarrow> do {
          task_audit r sess tenantID ''task_archived'' [(''task_id'', JId taskID), (''action'', JStr ''unarchive'')];
          reply (Respond StatusOK ''active'')
        })
     }))"

text \<open>Approval and rejection differ in the statement, the decision and the audited action.\<close>

definition review_submission ::
  "(faults \<Rightarrow> time \<Rightarrow> uuid \<Rightarrow> uuid \<Rightarrow> db \<Rightarrow> (db, unit) store_result) \<Rightarrow> string \<Rightarrow> string \<Rightarrow>
   libs \<Rightarrow> request \<Rightarrow> string \<Rightarrow> string \<Rightarrow> (db, string response) state" where
  [http_defs]: "review_submission decide decision action L r id_param user_param = with_member r (\<lambda>sess tenantID reviewerUserID.
     with_uuid L ''invalid task ID'' id_param (\<lambda>taskID.
     with_uuid L ''invalid user ID'' user_param (\<lambda>assigneeUserID. do {
       ensured \<leftarrow> on_db (EnsureCompletion (r_flt r) (r_now r) (r_fresh r 0) tenantID taskID assigneeUserID);
       (case ensured of Inl _ \<Rightarrow> reply internal_error | Inr cmpl \<Rightarrow> do {
          decided \<leftarrow> on_db (decide (r_flt r) (r_now r) (tc_ID cmpl) reviewerUserID);
          (case decided of Inl e \<Rightarrow> reply (Abort StatusBadRequest (MsgOf e)) | Inr _ \<Rightarrow> do {
             on_db (ResolveBySource (r_flt r) (r_now r) tenantID ''task_submission'' (tc_ID cmpl));
             contact \<leftarrow> asks (GetUserContact (r_flt r) tenantID assigneeUserID);
             (case contact of Inl _ \<Rightarrow> reply () | Inr (email, name) \<Rightarrow>
                if email \<noteq> [] then notify [TaskReviewed assigneeUserID email name decision] else reply ());
             task_audit r sess tenantID action [(''task_id'', JId taskID), (''assignee_user_id'', JId assigneeUserID)];
             reply (Respond StatusOK decision)
           })
        })
     })))"

definition ApproveSubmission :: "libs \<Rightarrow> request \<Rightarrow> string \<Rightarrow> string \<Rightarrow> (db, string response) state" where
  [http_defs]: "ApproveSubmission = review_submission Approve ''approved'' ''task_approved''"

definition RejectSubmission :: "libs \<Rightarrow> request \<Rightarrow> string \<Rightarrow> string \<Rightarrow> (db, string response) state" where
  [http_defs]: "RejectSubmission = review_submission Reject ''rejected'' ''task_rejected''"

text \<open>No configuration or a failed lookup shows no verifications.\<close>

definition fetchVerifications :: "bool \<Rightarrow> request \<Rightarrow> uuid \<Rightarrow> db \<Rightarrow> (uuid \<times> verification) list" where
  "fetchVerifications configured r completionID d =
     (if \<not> configured then []
      else case ListByCompletion (r_flt r) completionID d of Inl _ \<Rightarrow> [] | Inr vs \<Rightarrow> vs)"

definition GetSubmission ::
  "bool \<Rightarrow> libs \<Rightarrow> request \<Rightarrow> string \<Rightarrow> (db, (admin_submission \<times> (uuid \<times> verification) list) response) state" where
  [http_defs]: "GetSubmission configured L r id_param = with_member r (\<lambda>sess tenantID userID.
     with_uuid L ''invalid completion ID'' id_param (\<lambda>completionID. do {
       res \<leftarrow> asks (AdminGetCompletion (r_flt r) tenantID completionID);
       (case res of
          Inl e \<Rightarrow> reply (if e = ErrNotFound then Abort StatusNotFound (Msg ''submission not found'') else internal_error)
        | Inr sub \<Rightarrow> do {
            vs \<leftarrow> asks (fetchVerifications configured r completionID);
            reply (Respond StatusOK (sub, vs))
          })
     }))"

definition ListUsers :: "libs \<Rightarrow> request \<Rightarrow> string \<Rightarrow> (db, tenant_user list response) state" where
  [http_defs]: "ListUsers L r search = with_member r (\<lambda>sess tenantID userID.
     if \<not> is_admin_session sess \<and> s_SubOrgID sess = None then reply (Respond StatusOK [])
     else do {
       res \<leftarrow> asks (ListTenantUsers (l_ilike L) (l_collate L) (r_flt r) tenantID search
         (if is_admin_session sess then None else s_SubOrgID sess));
       (case res of Inl _ \<Rightarrow> reply internal_error | Inr us \<Rightarrow> reply (Respond StatusOK us))
     })"

definition ListSubOrgs :: "libs \<Rightarrow> request \<Rightarrow> (db, (uuid \<times> string) list response) state" where
  [http_defs]: "ListSubOrgs L r = with_member r (\<lambda>sess tenantID userID. do {
     res \<leftarrow> asks (Store_ListSubOrgs (l_collate L) (r_flt r) tenantID);
     (case res of Inl _ \<Rightarrow> reply internal_error
      | Inr orgs \<Rightarrow> reply (Respond StatusOK (if is_admin_session sess then orgs
          else filter (\<lambda>(i, _). s_SubOrgID sess = Some i) orgs)))
   })"

text \<open>The checks of \<^verbatim>\<open>ExportTasks\<close>; the rows are then written as CSV or PDF.\<close>

definition ExportTasks :: "libs \<Rightarrow> request \<Rightarrow> string \<Rightarrow> string \<Rightarrow> string \<Rightarrow> (db, (string \<times> string \<times> export_row list) response) state" where
  [http_defs]: "ExportTasks L r format from_q to_q = with_member r (\<lambda>sess tenantID userID.
     let bad = (\<lambda>text. reply (Abort StatusBadRequest (Msg text))) in
     if format \<noteq> ''csv'' \<and> format \<noteq> ''pdf'' then bad ''format must be csv or pdf''
     else if from_q = [] \<or> to_q = [] then bad ''from and to date parameters are required''
     else (case ParseDate from_q of None \<Rightarrow> bad ''invalid from date, use YYYY-MM-DD'' | Some from \<Rightarrow>
       (case ParseDate to_q of None \<Rightarrow> bad ''invalid to date, use YYYY-MM-DD'' | Some to_day \<Rightarrow>
         let to = to_day + (24 * hour - second) in
         if to < from then bad ''to must be on or after from''
         else do {
           res \<leftarrow> asks (ExportByDateRange (l_collate L) (r_flt r) tenantID from to);
           (case res of Inl _ \<Rightarrow> reply internal_error
            | Inr rows \<Rightarrow> reply (Respond StatusOK (format, ''tasks_'' @ from_q @ ''_'' @ to_q @ ''.'' @ format, rows)))
         })))"

subsection \<open>Assignees\<close>

definition ListMyTasks :: "libs \<Rightarrow> request \<Rightarrow> string \<Rightarrow> (db, my_task_row list response) state" where
  [http_defs]: "ListMyTasks L r search = with_member r (\<lambda>sess tenantID userID. do {
     res \<leftarrow> asks (Store_ListMyTasks (l_ilike L) (r_flt r) tenantID userID search 0);
     (case res of Inl _ \<Rightarrow> reply internal_error | Inr ts \<Rightarrow> reply (Respond StatusOK ts))
   })"

definition GetMyTaskStats :: "request \<Rightarrow> string \<Rightarrow> string \<Rightarrow> (db, my_stats response) state" where
  [http_defs]: "GetMyTaskStats r from_q to_q = with_member r (\<lambda>sess tenantID userID.
     case parseDateRange from_q to_q of (from, to) \<Rightarrow> do {
       res \<leftarrow> asks (MySummaryStats (r_flt r) tenantID userID from to);
       (case res of Inl _ \<Rightarrow> reply internal_error | Inr x \<Rightarrow> reply (Respond StatusOK x))
     })"

definition GetMyTask ::
  "bool \<Rightarrow> libs \<Rightarrow> request \<Rightarrow> string \<Rightarrow> (db, (my_task_detail \<times> (uuid \<times> verification) list) response) state" where
  [http_defs]: "GetMyTask configured L r id_param = with_member r (\<lambda>sess tenantID userID.
     with_uuid L ''invalid task ID'' id_param (\<lambda>taskID. do {
       res \<leftarrow> on_db (Store_GetMyTask (r_flt r) (r_now r) (r_fresh r 0) tenantID taskID userID);
       (case res of Inl e \<Rightarrow> reply (task_not_found e) | Inr detail \<Rightarrow> do {
          vs \<leftarrow> asks (\<lambda>d. if tc_ID (md_Completion detail) \<noteq> uuid_Nil
            then fetchVerifications configured r (tc_ID (md_Completion detail)) d else []);
          reply (Respond StatusOK (detail, vs))
        })
     }))"

definition Handler_SaveResponses :: "libs \<Rightarrow> request \<Rightarrow> string \<Rightarrow> response_params list option \<Rightarrow> (db, string response) state" where
  [http_defs]: "Handler_SaveResponses L r id_param body = with_member r (\<lambda>sess tenantID userID.
     with_uuid L ''invalid task ID'' id_param (\<lambda>taskID.
     (case body of None \<Rightarrow> reply invalid_request | Some responses \<Rightarrow> do {
        ensured \<leftarrow> on_db (EnsureCompletion (r_flt r) (r_now r) (r_fresh r 0) tenantID taskID userID);
        (case ensured of Inl _ \<Rightarrow> reply internal_error | Inr cmpl \<Rightarrow> do {
           saved \<leftarrow> on_db (SaveResponses (r_flt r) (r_now r) (\<lambda>n. r_fresh r (Suc n)) (tc_ID cmpl) responses);
           (case saved of Inl _ \<Rightarrow> reply internal_error | Inr _ \<Rightarrow> reply (Respond StatusOK ''saved''))
         })
      })))"

definition review_item :: "uuid \<Rightarrow> uuid \<Rightarrow> uuid option \<Rightarrow> string \<Rightarrow> string \<Rightarrow> item_params" where
  "review_item tenantID completionID subOrgID taskTitle userName = \<lparr>ip_TenantID = tenantID,
     ip_SourceType = ''task_submission'', ip_SourceID = Some completionID,
     ip_Title = ''Review task submission: '' @ taskTitle @ '' '' @ [CHR 0xE2, CHR 0x80, CHR 0x94] @ '' '' @ userName,
     ip_Description = userName @ '' has submitted the task '' @ [CHR 0x22] @ taskTitle @ [CHR 0x22] @ '' for review.'',
     ip_Priority = ''medium'', ip_AssignedTo = None, ip_DueDate = None, ip_SubOrgID = subOrgID\<rparr>"

definition SubmitTask :: "libs \<Rightarrow> request \<Rightarrow> string \<Rightarrow> (db, string response) state" where
  [http_defs]: "SubmitTask L r id_param = with_member r (\<lambda>sess tenantID userID.
     with_uuid L ''invalid task ID'' id_param (\<lambda>taskID. do {
       ensured \<leftarrow> on_db (EnsureCompletion (r_flt r) (r_now r) (r_fresh r 0) tenantID taskID userID);
       (case ensured of Inl _ \<Rightarrow> reply internal_error | Inr cmpl \<Rightarrow> do {
          submitted \<leftarrow> on_db (Submit (r_flt r) (r_now r) (tc_ID cmpl));
          (case submitted of Inl e \<Rightarrow> reply (Abort StatusBadRequest (MsgOf e)) | Inr _ \<Rightarrow> do {
             context \<leftarrow> asks (GetSubmissionContext (r_flt r) taskID userID tenantID);
             item \<leftarrow> on_db (ActionItem_Create (r_flt r) (r_now r) (r_fresh r 1)
               (case context of Inl _ \<Rightarrow> review_item tenantID (tc_ID cmpl) (s_SubOrgID sess) ''Unknown Task'' ''Unknown User''
                | Inr (taskTitle, userName) \<Rightarrow> review_item tenantID (tc_ID cmpl) (s_SubOrgID sess) taskTitle userName));
             (case item of Inl _ \<Rightarrow> reply () | Inr v \<Rightarrow> do {
                targets \<leftarrow> asks (ResolveNotifyTargets (l_collate L) (r_flt r) tenantID v);
                notify (map (\<lambda>(u, name, email). ActionItemAssigned u email name (ai_SourceType (iv_Item v))) targets)
              });
             task_audit r sess tenantID ''task_submitted'' [(''task_id'', JId taskID)];
             reply (Respond StatusOK ''submitted'')
           })
        })
     }))"

subsection \<open>Files\<close>

definition isAISupportedContentType :: "string \<Rightarrow> bool" where
  "isAISupportedContentType t = (t \<in> {''application/pdf'', ''image/png'', ''image/jpeg'', ''image/webp''})"

definition maxAIVerifyFileSize :: int where "maxAIVerifyFileSize = 18 * 2 ^ 20"

text \<open>The upload of a task's file, from the parsed requirement and form on: the checks in
  order, then the completion, the storage and the row.\<close>

definition upload_key :: "libs \<Rightarrow> uuid \<Rightarrow> uuid \<Rightarrow> uuid \<Rightarrow> string \<Rightarrow> string" where
  "upload_key L tenantID taskID completionID safeName =
     KeyPrefix (l_uuid_text L) tenantID taskID @ ''/'' @ l_uuid_text L completionID @ ''/'' @ safeName"

definition store_upload ::
  "bool \<Rightarrow> storage_backend \<Rightarrow> libs \<Rightarrow> request \<Rightarrow> uuid \<Rightarrow> uuid \<Rightarrow> uuid \<Rightarrow> requirement \<Rightarrow> form_file \<Rightarrow> string \<Rightarrow> string \<Rightarrow>
   (db, upload response) state" where
  [http_defs]: "store_upload configured sb L r tenantID userID taskID req f safeName contentType = do {
     ensured \<leftarrow> on_db (EnsureCompletion (r_flt r) (r_now r) (r_fresh r 0) tenantID taskID userID);
     (case ensured of Inl _ \<Rightarrow> reply internal_error | Inr cmpl \<Rightarrow>
        let key = upload_key L tenantID taskID (tc_ID cmpl) safeName in do {
          stored \<leftarrow> on_files (sb_Upload sb (r_flt r) key (ff_Content f));
          (case stored of Inl _ \<Rightarrow> reply (Abort StatusInternalServerError (Msg ''upload failed'')) | Inr _ \<Rightarrow>
             let u = \<lparr>up_ID = r_fresh r 1, up_CompletionID = tc_ID cmpl, up_RequirementID = rq_ID req, up_FileName = safeName,
                      up_FileSize = ff_Size f, up_ContentType = contentType, up_StorageKey = key, up_CreatedAt = r_now r\<rparr> in do {
               recorded \<leftarrow> on_db (CreateUpload (r_flt r) u);
               (case recorded of Inl _ \<Rightarrow> reply internal_error | Inr _ \<Rightarrow> do {
                  (if rq_AIVerificationCriteria req \<noteq> [] \<and> configured then do {
                     pending \<leftarrow> on_db (CreatePending (r_flt r) (r_now r) (r_fresh r 2) (up_ID u) tenantID (rq_AIVerificationCriteria req));
                     (case pending of Inl _ \<Rightarrow> reply () | Inr _ \<Rightarrow>
                        if r_flt r ''verifyQueue.Enqueue'' 0 then reply () else notify [VerifyEnqueued (up_ID u)])
                   } else reply ());
                  reply (Respond StatusCreated u)
                })
             })
        })
   }"

definition UploadFile ::
  "bool \<Rightarrow> scanner \<Rightarrow> storage_backend \<Rightarrow> libs \<Rightarrow> request \<Rightarrow> string \<Rightarrow> string \<Rightarrow> form_file option \<Rightarrow> (db, upload response) state" where
  [http_defs]: "UploadFile configured scanner sb L r id_param req_param form = with_member r (\<lambda>sess tenantID userID.
     with_uuid L ''invalid task ID'' id_param (\<lambda>taskID.
     with_uuid L ''invalid requirement ID'' req_param (\<lambda>reqID. do {
       found \<leftarrow> asks (GetRequirement (r_flt r) reqID);
       (case found of Inl _ \<Rightarrow> reply (Abort StatusBadRequest (Msg ''invalid requirement'')) | Inr req \<Rightarrow>
          let aiEnabled = (rq_AIVerificationCriteria req \<noteq> []) in
          (case FormFile form of
             None \<Rightarrow> reply (Abort StatusBadRequest (Msg ''file is required or exceeds size limit''))
           | Some f \<Rightarrow> let safeName = path_base (ff_Filename f) in
               if safeName = ''.'' \<or> safeName = ''/'' \<or> safeName = [] then reply (Abort StatusBadRequest (Msg ''invalid filename''))
               else (case SniffContentType (l_sniff L) (r_flt r) f of
                  Inl _ \<Rightarrow> reply (Abort StatusBadRequest (Msg ''failed to read file''))
                | Inr contentType \<Rightarrow>
                    if aiEnabled \<and> \<not> isAISupportedContentType contentType
                    then reply (Abort StatusBadRequest
                      (Msg ''this task requires PDF, JPG, PNG, or WEBP because AI verification is enabled''))
                    else if aiEnabled \<and> ff_Size f > maxAIVerifyFileSize
                    then reply (Abort StatusBadRequest (Msg ''AI-verified uploads must be 18 MB or smaller''))
                    else (case ScanAndRewind scanner (r_flt r) f of
                       Inl (Infected sig) \<Rightarrow> reply (Abort StatusBadRequest (Msg ''file rejected by malware scanner''))
                     | Inl (Scan_Fault text) \<Rightarrow>
                         reply (Abort StatusServiceUnavailable (Msg ''malware scanner unavailable, please try again''))
                     | Inr _ \<Rightarrow> store_upload configured sb L r tenantID userID taskID req f safeName contentType))))
     })))"

definition upload_not_found :: "err \<Rightarrow> 'b response" where
  "upload_not_found e = (if e = ErrNotFound then Abort StatusNotFound (Msg ''upload not found'') else internal_error)"

text \<open>A redirect to the signed address.\<close>

definition DownloadUpload :: "storage_backend \<Rightarrow> libs \<Rightarrow> request \<Rightarrow> string \<Rightarrow> (db, string response) state" where
  [http_defs]: "DownloadUpload sb L r upload_param = with_member r (\<lambda>sess tenantID userID.
     with_uuid L ''invalid upload ID'' upload_param (\<lambda>uploadID. do {
       res \<leftarrow> asks (GetUploadForDownload (r_flt r) tenantID uploadID);
       (case res of Inl e \<Rightarrow> reply (upload_not_found e) | Inr (key, _, _) \<Rightarrow>
          (case sb_SignedURL sb (r_flt r) key of Inl _ \<Rightarrow> reply internal_error | Inr url \<Rightarrow> reply (Respond StatusFound url)))
     }))"

definition contentTypeForKey :: "string \<Rightarrow> string" where
  "contentTypeForKey key = (let e = ToLower (path_ext key) in
     if e = ''.pdf'' then ''application/pdf''
     else if e = ''.png'' then ''image/png''
     else if e = ''.jpg'' \<or> e = ''.jpeg'' then ''image/jpeg''
     else if e = ''.webp'' then ''image/webp''
     else ''application/octet-stream'')"

record served_file =
  sf_ContentType :: string
  sf_Name :: string
  sf_Content :: string

text \<open>The path parameter comes with its leading slash.\<close>

definition ServeLocalFile :: "storage_backend \<Rightarrow> libs \<Rightarrow> request \<Rightarrow> string \<Rightarrow> (db, served_file response) state" where
  [http_defs]: "ServeLocalFile sb L r key_param = with_member r (\<lambda>sess tenantID userID.
     let key = tl key_param; missing = reply (Abort StatusNotFound (Msg ''file not found'')) in
     if tenantFromKey (l_uuid L) key \<noteq> Some tenantID then missing
     else do {
       res \<leftarrow> asks (\<lambda>d. sb_Download sb (r_flt r) key (d_files d));
       (case res of Inl _ \<Rightarrow> missing
        | Inr content \<Rightarrow> reply (Respond StatusOK \<lparr>sf_ContentType = contentTypeForKey key, sf_Name = path_base key, sf_Content = content\<rparr>))
     })"

definition DeleteUpload :: "storage_backend \<Rightarrow> libs \<Rightarrow> request \<Rightarrow> string \<Rightarrow> (db, unit response) state" where
  [http_defs]: "DeleteUpload sb L r upload_param = with_member r (\<lambda>sess tenantID userID.
     with_uuid L ''invalid upload ID'' upload_param (\<lambda>uploadID. do {
       res \<leftarrow> on_db (Store_DeleteUpload (r_flt r) tenantID uploadID);
       (case res of Inl e \<Rightarrow> reply (upload_not_found e) | Inr key \<Rightarrow> do {
          on_files (sb_Delete sb (r_flt r) key);
          reply (Respond StatusNoContent ())
        })
     }))"

subsection \<open>Action items of submissions\<close>

text \<open>The updaters \<^verbatim>\<open>router.New\<close> registers for task submissions and debriefs.\<close>

definition task_submission_updater :: source_updater where
  "task_submission_updater r tenantID sourceID reviewerID status d =
     (if status = ''processed'' then Approve (r_flt r) (r_now r) sourceID reviewerID d
      else if status = ''rejected'' then Reject (r_flt r) (r_now r) sourceID reviewerID d
      else (d, Inr ()))"

definition travel_debrief_updater :: source_updater where
  "travel_debrief_updater r tenantID sourceID reviewerID status d = (d, Inr ())"

end
