(* ===== verification/Officer_Queue.thy ===== *)
theory Officer_Queue
  imports Action_Items Storage Scan
begin

text \<open>
  What the handlers of life event reports, visit requests and travel reports share: the
  filters of their listings, which the three packages declare with the same fields, the
  malware check of an uploaded file, and the action item that puts a submission on the queue of the security officers and tells them.
\<close>

subsection \<open>Listings\<close>

record list_filters =
  lf_TenantID :: uuid
  lf_UserID :: "uuid option"
  lf_Status :: string
  lf_Search :: string
  lf_SubOrgScope :: "uuid option"
  lf_Limit :: int
  lf_Offset :: int

text \<open>The query parameters \<^verbatim>\<open>status\<close>, \<^verbatim>\<open>search\<close>, \<^verbatim>\<open>sub_org_id\<close>, \<^verbatim>\<open>limit\<close>, \<^verbatim>\<open>offset\<close>.\<close>

record page_query =
  pq_Status :: string
  pq_Search :: string
  pq_SubOrgID :: string
  pq_Limit :: "string option"
  pq_Offset :: "string option"

definition my_filters :: "uuid \<Rightarrow> uuid \<Rightarrow> page_query \<Rightarrow> list_filters" where
  "my_filters tenantID userID q = (let page = ParsePagination (pq_Limit q) (pq_Offset q) 20 in
     \<lparr>lf_TenantID = tenantID, lf_UserID = Some userID, lf_Status = pq_Status q, lf_Search = pq_Search q,
      lf_SubOrgScope = None, lf_Limit = fst page, lf_Offset = snd page\<rparr>)"

definition scope_of :: "libs \<Rightarrow> request \<Rightarrow> session \<Rightarrow> string \<Rightarrow> uuid option" where
  "scope_of L r sess sub_org_id = SubOrgScope (l_uuid L) (r_role r) (Some sess) sub_org_id"

definition admin_filters :: "libs \<Rightarrow> request \<Rightarrow> session \<Rightarrow> uuid \<Rightarrow> page_query \<Rightarrow> list_filters" where
  "admin_filters L r sess tenantID q = (let page = ParsePagination (pq_Limit q) (pq_Offset q) 20 in
     \<lparr>lf_TenantID = tenantID, lf_UserID = None, lf_Status = pq_Status q, lf_Search = pq_Search q,
      lf_SubOrgScope = scope_of L r sess (pq_SubOrgID q), lf_Limit = fst page, lf_Offset = snd page\<rparr>)"

text \<open>The conditions all listings begin with: tenant, owner, status, scope.\<close>

definition row_matches :: "list_filters \<Rightarrow> uuid \<Rightarrow> uuid \<Rightarrow> string \<Rightarrow> uuid option \<Rightarrow> bool" where
  "row_matches f tenantID ownerID status so =
     (tenantID = lf_TenantID f \<and> (case lf_UserID f of None \<Rightarrow> True | Some u \<Rightarrow> ownerID = u) \<and>
      (lf_Status f = [] \<or> status = lf_Status f) \<and> in_scope (lf_SubOrgScope f) so)"

definition page_of :: "list_filters \<Rightarrow> 'r list \<Rightarrow> 'r list" where
  "page_of f rows = sql_page (if lf_Limit f \<le> 0 then 20 else lf_Limit f) (lf_Offset f) rows"

lemma set_page_of: "set (page_of f rows) \<subseteq> set rows"
  unfolding page_of_def by (rule set_sql_page)

lemma length_page_of: "lf_Limit f > 0 \<Longrightarrow> length (page_of f rows) \<le> nat (lf_Limit f)"
  by (simp add: page_of_def sql_page_def)

lemma page_of_admin_limit: "length (page_of (admin_filters L r sess t q) rows) \<le> 200"
proof -
  have "1 \<le> lf_Limit (admin_filters L r sess t q) \<and> lf_Limit (admin_filters L r sess t q) \<le> maxPageLimit"
    using ParsePagination_bounds [of "pq_Limit q" "pq_Offset q" 20]
    by (simp add: admin_filters_def Let_def) (metis prod.collapse)
  then show ?thesis by (auto simp: page_of_def sql_page_def maxPageLimit_def min_le_iff_disj)
qed

text \<open>A user joined with its identity: the name of the one who submitted a row.\<close>

definition name_of :: "db \<Rightarrow> uuid \<Rightarrow> string option" where
  "name_of d u = map_option (\<lambda>(_, i). i_Name i) (contact_of d u)"

text \<open>The end of the checks of an upload: nothing is stored that the scanner has not passed.\<close>

definition scan_first :: "scanner \<Rightarrow> request \<Rightarrow> form_file \<Rightarrow> (db, 'b response) state \<Rightarrow> (db, 'b response) state" where
  "scan_first sc r f m = (case ScanAndRewind sc (r_flt r) f of
     Inl (Infected sig) \<Rightarrow> reply (Abort StatusBadRequest (Msg ''file rejected by malware scanner''))
   | Inl (Scan_Fault text) \<Rightarrow> reply (Abort StatusServiceUnavailable (Msg ''malware scanner unavailable, please try again''))
   | Inr _ \<Rightarrow> m)"

lemma keeps_scan_first: "keeps_inv P m \<Longrightarrow> keeps_inv P (scan_first sc r f m)"
  by (simp add: scan_first_def keeps_reply split: sum.split scan_error.split)

subsection \<open>On the queue\<close>

text \<open>The item of a submission. A failure is only logged; whoever is responsible is told.\<close>

definition queue_item :: "libs \<Rightarrow> request \<Rightarrow> nat \<Rightarrow> item_params \<Rightarrow> (db, unit) state" where
  "queue_item L r n p = do {
     made \<leftarrow> on_db (ActionItem_Create (r_flt r) (r_now r) (r_fresh r n) p);
     (case made of Inl _ \<Rightarrow> reply () | Inr v \<Rightarrow> do {
        targets \<leftarrow> asks (ResolveNotifyTargets (l_collate L) (r_flt r) (ip_TenantID p) v);
        notify (map (\<lambda>(u, name, email). ActionItemAssigned u email name (ai_SourceType (iv_Item v))) targets)
      })
   }"

definition review_params :: "uuid \<Rightarrow> string \<Rightarrow> uuid \<Rightarrow> string \<Rightarrow> string \<Rightarrow> uuid option \<Rightarrow> item_params" where
  "review_params tenantID source_type sourceID title text so = \<lparr>ip_TenantID = tenantID, ip_SourceType = source_type,
     ip_SourceID = Some sourceID, ip_Title = title, ip_Description = text, ip_Priority = ''medium'',
     ip_AssignedTo = None, ip_DueDate = None, ip_SubOrgID = so\<rparr>"

lemma keeps_queue_item:
  assumes "\<And>d t. P (d\<lparr>d_action_items := t\<rparr>) = P d" and "\<And>d t. P (d\<lparr>d_outbox := t\<rparr>) = P d"
  shows "keeps_inv P (queue_item L r n p)"
  unfolding queue_item_def
  by (intro keeps_bind keeps_on_db keeps_sum keeps_reply keeps_asks keeps_notify)
    (auto simp: ActionItem_Create_def Let_def assms)

text \<open>Without faults, an item with a known source, tenant and sub-organization is on the queue.\<close>

lemma queue_item_appends:
  assumes "\<not> r_flt r ''actionitem.Create'' 0" "source_type_check (ip_SourceType p)" "priority_check (ip_Priority p)"
    "tenant_by d (ip_TenantID p) \<noteq> None" "ip_AssignedTo p = None"
    "\<forall>s. ip_SubOrgID p = Some s \<longrightarrow> suborg_by d s \<noteq> None"
    "\<forall>u. primary_fso d (ip_TenantID p) (ip_SubOrgID p) = Some u \<longrightarrow> user_by d u \<noteq> None"
  shows "\<exists>a. d_action_items (snd (run_state (queue_item L r n p) d)) = d_action_items d @ [a] \<and>
     ai_TenantID a = ip_TenantID p \<and> ai_SourceType a = ip_SourceType p \<and> ai_SourceID a = ip_SourceID p \<and>
     ai_Status a = ''pending'' \<and> ai_SubOrgID a = ip_SubOrgID p \<and>
     ai_AssignedTo a = primary_fso d (ip_TenantID p) (ip_SubOrgID p)"
  using assms by (auto simp: queue_item_def ActionItem_Create_def Let_def split: option.splits)

end
