(* ===== verification/Reports.thy ===== *)
theory Reports
  imports Officer_Queue
begin

text \<open>
  \<^verbatim>\<open>backend/internal/report\<close>: the reports of life events and facility changes that cleared
  personnel owe their security officer, and how the officers process them.
\<close>

subsection \<open>Store\<close>

definition ReportTypeLabel :: "string \<Rightarrow> string" where
  "ReportTypeLabel t =
     (case map_of [(''alcohol_drug_treatment'', ''Alcohol/Drug Related Treatment''), (''arrests'', ''Arrests''),
        (''cohabitant'', ''Cohabitant''),
        (''elicitation'', ''Elicitation, Exploitation, Blackmail, Coercion, or Enticement''),
        (''financial'', ''Financial''), (''foreign_activities'', ''Foreign Activities''),
        (''foreign_contacts'', ''Foreign Contacts''), (''marriage_divorce'', ''Marriage/Divorce''),
        (''media_contact'', ''Media Contact''), (''other'', ''Other''),
        (''fcl_change_of_ownership'', ''FCL: Change of Ownership''),
        (''fcl_address_change'', ''FCL: Address Change''),
        (''fcl_unable_to_safeguard'', ''FCL: Unable to Safeguard Classified Information'')] t of
      Some l \<Rightarrow> l | None \<Rightarrow> t)"

definition reporting_for_check :: "string \<Rightarrow> bool" where
  "reporting_for_check s = (s \<in> {''self'', ''other'', ''fcl''})"

definition report_status_check :: "string \<Rightarrow> bool" where
  "report_status_check s = (s \<in> {''unreviewed'', ''under_review'', ''processed''})"

record report_params =
  np_TenantID :: uuid
  np_CreatedByUserID :: uuid
  np_SubOrgID :: "uuid option"
  np_ReportingFor :: string
  np_SubjectName :: string
  np_ReportType :: string
  np_Details :: string

definition GetCreatorName :: "faults \<Rightarrow> uuid \<Rightarrow> uuid \<Rightarrow> db \<Rightarrow> err + string" where
  [store_defs]: "GetCreatorName flt tenantID userID d =
     (if flt ''report.GetCreatorName'' 0 then Inl (Fault ''report.GetCreatorName'')
      else case contact_of d userID of None \<Rightarrow> Inl (ErrMsg ''get creator name'')
      | Some (u, i) \<Rightarrow> if u_TenantID u = tenantID then Inr (i_Name i) else Inl (ErrMsg ''get creator name''))"

definition Report_Create :: "faults \<Rightarrow> time \<Rightarrow> uuid \<Rightarrow> report_params \<Rightarrow> db \<Rightarrow> (db, life_report) store_result" where
  [store_defs]: "Report_Create flt now i p d =
     (if flt ''report.Create'' 0 \<or> \<not> reporting_for_check (np_ReportingFor p) \<or> tenant_by d (np_TenantID p) = None \<or>
         user_by d (np_CreatedByUserID p) = None \<or>
         (case np_SubOrgID p of None \<Rightarrow> False | Some s \<Rightarrow> suborg_by d s = None)
      then (d, Inl (Fault ''report.Create''))
      else let x = \<lparr>le_ID = i, le_TenantID = np_TenantID p, le_CreatedByUserID = np_CreatedByUserID p,
                    le_SubOrgID = np_SubOrgID p, le_ReportingFor = np_ReportingFor p, le_SubjectName = np_SubjectName p,
                    le_ReportType = np_ReportType p, le_Details = np_Details p, le_Status = ''unreviewed'',
                    le_ReviewedBy = None, le_ReviewedAt = None, le_CreatedAt = now, le_UpdatedAt = now\<rparr>
        in (d\<lparr>d_reports := d_reports d @ [x]\<rparr>, Inr x))"

text \<open>A report with the name and address of its creator.\<close>

definition Report_Get :: "faults \<Rightarrow> uuid \<Rightarrow> uuid \<Rightarrow> db \<Rightarrow> err + life_report \<times> string \<times> string" where
  [store_defs]: "Report_Get flt tenantID i d =
     (case query_row flt ''report.Get'' ErrNotFound (\<lambda>x. le_ID x = i \<and> le_TenantID x = tenantID) (d_reports d) of
        Inl e \<Rightarrow> Inl e
      | Inr x \<Rightarrow> (case contact_of d (le_CreatedByUserID x) of None \<Rightarrow> Inl ErrNotFound
                  | Some (_, n) \<Rightarrow> Inr (x\<lparr>le_SubOrgID := None\<rparr>, i_Name n, i_Email n)))"

definition report_matches :: "(string \<Rightarrow> string \<Rightarrow> bool) \<Rightarrow> list_filters \<Rightarrow> db \<Rightarrow> life_report \<Rightarrow> bool" where
  "report_matches ilike f d x =
     (row_matches f (le_TenantID x) (le_CreatedByUserID x) (le_Status x) (le_SubOrgID x) \<and>
      (case name_of d (le_CreatedByUserID x) of None \<Rightarrow> False
       | Some name \<Rightarrow> lf_Search f = [] \<or> ilike (le_ReportType x) (lf_Search f) \<or> ilike name (lf_Search f)))"

definition Report_List ::
  "(string \<Rightarrow> string \<Rightarrow> bool) \<Rightarrow> faults \<Rightarrow> list_filters \<Rightarrow> db \<Rightarrow> err + (life_report \<times> string) list \<times> nat" where
  [store_defs]: "Report_List ilike flt f d =
     (if flt ''report.List.count'' 0 then Inl (Fault ''report.List.count'')
      else if flt ''report.List'' 0 then Inl (Fault ''report.List'')
      else let rows = filter (report_matches ilike f d) (d_reports d) in
        Inr (map (\<lambda>x. (x, the (name_of d (le_CreatedByUserID x)))) (page_of f (sql_desc le_CreatedAt rows)), length rows))"

definition Report_UpdateStatus ::
  "faults \<Rightarrow> time \<Rightarrow> uuid \<Rightarrow> uuid \<Rightarrow> uuid \<Rightarrow> string \<Rightarrow> db \<Rightarrow> (db, unit) store_result" where
  [store_defs]: "Report_UpdateStatus flt now tenantID i reviewerID status d =
     (let P = (\<lambda>x. le_ID x = i \<and> le_TenantID x = tenantID) in
      if sql_exists P (d_reports d) \<and> (\<not> report_status_check status \<or> user_by d reviewerID = None)
      then (d, Inl (Fault ''report.UpdateStatus''))
      else case done_some ErrNotFound (exec_update flt ''report.UpdateStatus'' P
             (\<lambda>x. x\<lparr>le_Status := status, le_ReviewedBy := Some reviewerID, le_ReviewedAt := Some now, le_UpdatedAt := now\<rparr>)
             (d_reports d)) of
        (t, res) \<Rightarrow> (d\<lparr>d_reports := t\<rparr>, res))"

record report_stats =
  rs_Total :: nat
  rs_Unreviewed :: nat
  rs_UnderReview :: nat
  rs_Processed :: nat

definition Report_SummaryStats :: "faults \<Rightarrow> uuid \<Rightarrow> uuid option \<Rightarrow> uuid option \<Rightarrow> db \<Rightarrow> err + report_stats" where
  [store_defs]: "Report_SummaryStats flt tenantID userID scope d =
     (if flt ''report.SummaryStats'' 0 then Inl (Fault ''report.SummaryStats'')
      else let rows = filter (\<lambda>x. le_TenantID x = tenantID \<and>
             (case userID of None \<Rightarrow> True | Some u \<Rightarrow> le_CreatedByUserID x = u) \<and> in_scope scope (le_SubOrgID x)) (d_reports d) in
        Inr \<lparr>rs_Total = length rows, rs_Unreviewed = sql_affected (\<lambda>x. le_Status x = ''unreviewed'') rows,
             rs_UnderReview = sql_affected (\<lambda>x. le_Status x = ''under_review'') rows,
             rs_Processed = sql_affected (\<lambda>x. le_Status x = ''processed'') rows\<rparr>)"

subsection \<open>Handlers\<close>

definition report_not_found :: "err \<Rightarrow> 'b response" where
  "report_not_found e = (if e = ErrNotFound then Abort StatusNotFound (Msg ''report not found'') else internal_error)"

text \<open>Tenant, creator and sub-organization come from the session, never from the body.\<close>

definition Report_Handler_Create :: "libs \<Rightarrow> request \<Rightarrow> report_params option \<Rightarrow> (db, life_report response) state" where
  [http_defs]: "Report_Handler_Create L r req = with_member r (\<lambda>sess tenantID userID.
     (case req of None \<Rightarrow> reply invalid_request | Some q \<Rightarrow> do {
        made \<leftarrow> on_db (Report_Create (r_flt r) (r_now r) (r_fresh r 0)
          (q\<lparr>np_TenantID := tenantID, np_CreatedByUserID := userID, np_SubOrgID := s_SubOrgID sess\<rparr>));
        (case made of Inl _ \<Rightarrow> reply internal_error | Inr x \<Rightarrow> do {
           creator \<leftarrow> asks (GetCreatorName (r_flt r) tenantID userID);
           queue_item L r 1 (review_params tenantID ''report'' (le_ID x)
             (''Process '' @ ReportTypeLabel (le_ReportType x) @ '' for '' @ (case creator of Inl _ \<Rightarrow> ''Unknown'' | Inr n \<Rightarrow> n))
             ''A life event report requires FSO review'' (le_SubOrgID x));
           audit_log r 0 ''report_submitted'' (Some (s_IdentityID sess)) (Some (s_ID sess)) (Some tenantID)
             [(''report_id'', JId (le_ID x)), (''report_type'', JStr (le_ReportType x))];
           reply (Respond StatusCreated x)
         })
      }))"

definition Report_ListMy :: "libs \<Rightarrow> request \<Rightarrow> page_query \<Rightarrow> (db, ((life_report \<times> string) list \<times> nat) response) state" where
  [http_defs]: "Report_ListMy L r q = with_member r (\<lambda>sess tenantID userID. do {
     res \<leftarrow> asks (Report_List (l_ilike L) (r_flt r) (my_filters tenantID userID q));
     (case res of Inl _ \<Rightarrow> reply internal_error | Inr x \<Rightarrow> reply (Respond StatusOK x))
   })"

definition Report_MyStats :: "request \<Rightarrow> (db, report_stats response) state" where
  [http_defs]: "Report_MyStats r = with_member r (\<lambda>sess tenantID userID. do {
     res \<leftarrow> asks (Report_SummaryStats (r_flt r) tenantID (Some userID) None);
     (case res of Inl _ \<Rightarrow> reply internal_error | Inr x \<Rightarrow> reply (Respond StatusOK x))
   })"

definition Report_GetMy :: "libs \<Rightarrow> request \<Rightarrow> string \<Rightarrow> (db, (life_report \<times> string \<times> string) response) state" where
  [http_defs]: "Report_GetMy L r id_param = with_member r (\<lambda>sess tenantID userID.
     with_uuid L ''invalid report ID'' id_param (\<lambda>i. do {
       res \<leftarrow> asks (Report_Get (r_flt r) tenantID i);
       (case res of Inl e \<Rightarrow> reply (report_not_found e)
        | Inr x \<Rightarrow> if le_CreatedByUserID (fst x) \<noteq> userID then reply (Abort StatusNotFound (Msg ''report not found''))
                   else reply (Respond StatusOK x))
     }))"

definition Report_AdminList ::
  "libs \<Rightarrow> request \<Rightarrow> page_query \<Rightarrow> (db, ((life_report \<times> string) list \<times> nat) response) state" where
  [http_defs]: "Report_AdminList L r q = with_member r (\<lambda>sess tenantID userID. do {
     res \<leftarrow> asks (Report_List (l_ilike L) (r_flt r) (admin_filters L r sess tenantID q));
     (case res of Inl _ \<Rightarrow> reply internal_error | Inr x \<Rightarrow> reply (Respond StatusOK x))
   })"

definition Report_AdminStats :: "libs \<Rightarrow> request \<Rightarrow> string \<Rightarrow> (db, report_stats response) state" where
  [http_defs]: "Report_AdminStats L r sub_org_id = with_member r (\<lambda>sess tenantID userID. do {
     res \<leftarrow> asks (Report_SummaryStats (r_flt r) tenantID None (scope_of L r sess sub_org_id));
     (case res of Inl _ \<Rightarrow> reply internal_error | Inr x \<Rightarrow> reply (Respond StatusOK x))
   })"

definition Report_AdminGet :: "libs \<Rightarrow> request \<Rightarrow> string \<Rightarrow> (db, (life_report \<times> string \<times> string) response) state" where
  [http_defs]: "Report_AdminGet L r id_param = with_member r (\<lambda>sess tenantID userID.
     with_uuid L ''invalid report ID'' id_param (\<lambda>i. do {
       res \<leftarrow> asks (Report_Get (r_flt r) tenantID i);
       (case res of Inl e \<Rightarrow> reply (report_not_found e) | Inr x \<Rightarrow> reply (Respond StatusOK x))
     }))"

definition Report_AdminUpdateStatus :: "libs \<Rightarrow> request \<Rightarrow> string \<Rightarrow> string option \<Rightarrow> (db, unit response) state" where
  [http_defs]: "Report_AdminUpdateStatus L r id_param req = with_member r (\<lambda>sess tenantID userID.
     with_uuid L ''invalid report ID'' id_param (\<lambda>i.
     (case req of None \<Rightarrow> reply invalid_request | Some status \<Rightarrow> do {
        upd \<leftarrow> on_db (Report_UpdateStatus (r_flt r) (r_now r) tenantID i userID status);
        (case upd of Inl e \<Rightarrow> reply (report_not_found e) | Inr _ \<Rightarrow> do {
           (if status = ''processed'' then on_db (ResolveBySource (r_flt r) (r_now r) tenantID ''report'' i) else reply (Inr ()));
           audit_log r 0 ''report_reviewed'' (Some (s_IdentityID sess)) (Some (s_ID sess)) (Some tenantID)
             [(''report_id'', JId i), (''status'', JStr status), (''reviewer_id'', JId (s_IdentityID sess))];
           reply (Respond StatusOK ())
         })
      })))"

text \<open>The updater \<^verbatim>\<open>router.New\<close> registers for reports.\<close>

definition report_updater :: source_updater where
  "report_updater r tenantID sourceID reviewerID status d =
     Report_UpdateStatus (r_flt r) (r_now r) tenantID sourceID reviewerID
       (if status = ''approved'' then ''processed'' else status) d"

end
