(* ===== verification/DD254.thy ===== *)
theory DD254
  imports Officer_Queue
begin

text \<open>
  \<^verbatim>\<open>backend/internal/dd254\<close>: the contract security forms, who is read on to them, and
  which of them cover a visit. The joins for display (sub-organization, uploader, number of
  readers) are kept.
\<close>

abbreviation ErrUserNotInTenant :: err where
  "ErrUserNotInTenant \<equiv> ErrMsg ''user does not belong to this tenant''"
abbreviation ErrInvalidMarkings :: err where
  "ErrInvalidMarkings \<equiv> ErrMsg ''dd254 markings must be 'unclassified' (CMMC L1 boundary)''"
abbreviation ErrInvalidClass :: err where
  "ErrInvalidClass \<equiv> ErrMsg ''invalid classification_max''"

subsection \<open>Forms\<close>

definition RequiredMarkings :: string where "RequiredMarkings = ''unclassified''"

definition ValidClassification :: "string \<Rightarrow> bool" where
  "ValidClassification s = (s \<in> {''none'', ''confidential'', ''secret'', ''top_secret'', ''ts_sci''})"

definition form_status_check :: "string \<Rightarrow> bool" where
  "form_status_check s = (s \<in> {''active'', ''expired'', ''superseded''})"

text \<open>A form as it is displayed: sub-organization, uploader, readers not debriefed.\<close>

record form_view =
  fv_Form :: dd254_form
  fv_SubOrgName :: "string option"
  fv_UploadedByName :: string
  fv_ReadOnCount :: nat

definition read_on_count :: "db \<Rightarrow> uuid \<Rightarrow> nat" where
  "read_on_count d i = sql_affected (\<lambda>a. da_DD254ID a = i \<and> da_DebriefedAt a = None) (d_dd254_access d)"

definition form_view_of :: "db \<Rightarrow> nat \<Rightarrow> dd254_form \<Rightarrow> form_view" where
  "form_view_of d readers f = \<lparr>fv_Form = f, fv_SubOrgName = map_option so_Name (Option.bind (dd_SubOrgID f) (suborg_by d)),
     fv_UploadedByName = (case name_of d (dd_UploadedBy f) of None \<Rightarrow> ''(unknown)'' | Some n \<Rightarrow> n), fv_ReadOnCount = readers\<rparr>"

text \<open>The timestamps, the status and the id of the parameters are replaced on insertion.\<close>

definition DD254_Create :: "faults \<Rightarrow> time \<Rightarrow> dd254_form \<Rightarrow> db \<Rightarrow> (db, dd254_form) store_result" where
  [store_defs]: "DD254_Create flt now p d =
     (if dd_Markings p \<noteq> RequiredMarkings then (d, Inl ErrInvalidMarkings)
      else if \<not> ValidClassification (dd_ClassificationMax p) then (d, Inl ErrInvalidClass)
      else if flt ''dd254.Create.checkUser'' 0 then (d, Inl (Fault ''dd254.Create.checkUser''))
      else if \<not> sql_exists (\<lambda>u. u_ID u = dd_UploadedBy p \<and> u_TenantID u = dd_TenantID p) (d_users d)
      then (d, Inl ErrUserNotInTenant)
      else if flt ''dd254.Create'' 0 \<or> tenant_by d (dd_TenantID p) = None \<or>
         (case dd_SubOrgID p of None \<Rightarrow> False | Some s \<Rightarrow> suborg_by d s = None) \<or>
         (case dd_SupersedesID p of None \<Rightarrow> False | Some s \<Rightarrow> \<not> sql_exists (\<lambda>x. dd_ID x = s) (d_dd254 d)) \<or>
         sql_exists (\<lambda>x. dd_ID x = dd_ID p) (d_dd254 d)
      then (d, Inl (Fault ''dd254.Create''))
      else let f = p\<lparr>dd_Status := ''active'', dd_CreatedAt := now, dd_UpdatedAt := now\<rparr>
        in (d\<lparr>d_dd254 := d_dd254 d @ [f]\<rparr>, Inr f))"

record form_filters =
  gf_TenantID :: uuid
  gf_SubOrgScope :: "uuid option"
  gf_SubOrgID :: "uuid option"
  gf_Status :: string
  gf_Class :: string
  gf_Search :: string

definition form_in_scope :: "uuid \<Rightarrow> uuid option \<Rightarrow> uuid option \<Rightarrow> dd254_form \<Rightarrow> bool" where
  "form_in_scope tenantID scope subOrgID f =
     (dd_TenantID f = tenantID \<and> in_scope scope (dd_SubOrgID f) \<and> (subOrgID = None \<or> dd_SubOrgID f = subOrgID))"

definition form_matches :: "(string \<Rightarrow> string \<Rightarrow> bool) \<Rightarrow> form_filters \<Rightarrow> dd254_form \<Rightarrow> bool" where
  "form_matches ilike q f =
     (form_in_scope (gf_TenantID q) (gf_SubOrgScope q) (gf_SubOrgID q) f \<and>
      (gf_Status q = [] \<or> dd_Status f = gf_Status q) \<and>
      (gf_Class q = [] \<or> dd_ClassificationMax f = gf_Class q) \<and>
      (gf_Search q = [] \<or> ilike (dd_ContractNumber f) (gf_Search q) \<or> ilike (dd_PrimeContractor f) (gf_Search q)))"

text \<open>A status or class outside its enumeration makes the query fail.\<close>

definition DD254_List :: "(string \<Rightarrow> string \<Rightarrow> bool) \<Rightarrow> faults \<Rightarrow> form_filters \<Rightarrow> db \<Rightarrow> err + form_view list" where
  [store_defs]: "DD254_List ilike flt q d =
     (if flt ''dd254.List'' 0 \<or> (gf_Status q \<noteq> [] \<and> \<not> form_status_check (gf_Status q)) \<or>
         (gf_Class q \<noteq> [] \<and> \<not> ValidClassification (gf_Class q)) then Inl (Fault ''dd254.List'')
      else Inr (map (\<lambda>f. form_view_of d (read_on_count d (dd_ID f)) f)
        (sql_desc dd_CreatedAt (filter (form_matches ilike q) (d_dd254 d)))))"

record form_stats =
  fs_Active :: nat
  fs_ExpiringSoon :: nat
  fs_Expired :: nat
  fs_NoReadOn :: nat

definition DD254_Stats :: "faults \<Rightarrow> time \<Rightarrow> uuid \<Rightarrow> uuid option \<Rightarrow> uuid option \<Rightarrow> db \<Rightarrow> err + form_stats" where
  [store_defs]: "DD254_Stats flt now tenantID scope subOrgID d =
     (if flt ''dd254.Stats'' 0 then Inl (Fault ''dd254.Stats'')
      else let rows = filter (form_in_scope tenantID scope subOrgID) (d_dd254 d);
               act = (\<lambda>f. dd_Status f = ''active'') in
        Inr \<lparr>fs_Active = sql_affected act rows,
             fs_ExpiringSoon = sql_affected (\<lambda>f. act f \<and> (case dd_PeriodEnd f of None \<Rightarrow> False
                | Some e \<Rightarrow> sql_date now \<le> e \<and> e \<le> sql_date now + 90 * day)) rows,
             fs_Expired = sql_affected (\<lambda>f. dd_Status f = ''expired'') rows,
             fs_NoReadOn = sql_affected (\<lambda>f. act f \<and> read_on_count d (dd_ID f) = 0) rows\<rparr>)"

subsection \<open>Read on\<close>

text \<open>User, name, address, and the grant.\<close>

type_synonym grant_view = "string \<times> string \<times> access_grant"

definition listAccess :: "faults \<Rightarrow> uuid \<Rightarrow> db \<Rightarrow> err + grant_view list" where
  [store_defs]: "listAccess flt i d =
     (if flt ''dd254.listAccess'' 0 then Inl (Fault ''dd254.listAccess'')
      else Inr (map (\<lambda>a. (case contact_of d (da_UserID a) of None \<Rightarrow> (''(unknown)'', [], a) | Some (_, n) \<Rightarrow> (i_Name n, i_Email n, a)))
        (sql_desc da_AddedAt (filter (\<lambda>a. da_DD254ID a = i) (d_dd254_access d)))))"

definition DD254_Get :: "faults \<Rightarrow> uuid \<Rightarrow> uuid \<Rightarrow> uuid option \<Rightarrow> db \<Rightarrow> err + form_view \<times> grant_view list" where
  [store_defs]: "DD254_Get flt tenantID i scope d =
     (case query_row flt ''dd254.Get'' ErrNotFound (\<lambda>f. dd_ID f = i \<and> form_in_scope tenantID scope None f) (d_dd254 d) of
        Inl e \<Rightarrow> Inl e
      | Inr f \<Rightarrow> (case listAccess flt i d of Inl e \<Rightarrow> Inl e
          | Inr grants \<Rightarrow> Inr (form_view_of d (length (filter (\<lambda>(_, _, a). da_DebriefedAt a = None) grants)) f, grants)))"

definition DD254_GrantAccess ::
  "faults \<Rightarrow> time \<Rightarrow> uuid \<Rightarrow> uuid \<Rightarrow> uuid \<Rightarrow> uuid \<Rightarrow> time option \<Rightarrow> time option \<Rightarrow> db \<Rightarrow> (db, unit) store_result" where
  [store_defs]: "DD254_GrantAccess flt now tenantID i userID addedBy briefedAt debriefedAt d =
     (let P = (\<lambda>a. da_DD254ID a = i \<and> da_UserID a = userID) in
      if flt ''dd254.GrantAccess.checkDD254'' 0 then (d, Inl (Fault ''dd254.GrantAccess.checkDD254''))
      else if \<not> sql_exists (\<lambda>f. dd_ID f = i \<and> dd_TenantID f = tenantID) (d_dd254 d) then (d, Inl ErrNotFound)
      else if flt ''dd254.GrantAccess.checkUser'' 0 then (d, Inl (Fault ''dd254.GrantAccess.checkUser''))
      else if \<not> sql_exists (\<lambda>u. u_ID u = userID \<and> u_TenantID u = tenantID) (d_users d) then (d, Inl ErrUserNotInTenant)
      else if flt ''dd254.GrantAccess'' 0 \<or> user_by d addedBy = None then (d, Inl (Fault ''dd254.GrantAccess''))
      else (d\<lparr>d_dd254_access :=
        (if sql_exists P (d_dd254_access d)
         then sql_update P (\<lambda>a. a\<lparr>da_BriefedAt := briefedAt, da_DebriefedAt := debriefedAt, da_AddedBy := addedBy, da_AddedAt := now\<rparr>)
           (d_dd254_access d)
         else d_dd254_access d @ [\<lparr>da_DD254ID = i, da_UserID = userID, da_BriefedAt = briefedAt, da_DebriefedAt = debriefedAt,
           da_AddedBy = addedBy, da_AddedAt = now\<rparr>])\<rparr>, Inr ()))"

definition DD254_RevokeAccess :: "faults \<Rightarrow> uuid \<Rightarrow> uuid \<Rightarrow> uuid \<Rightarrow> db \<Rightarrow> (db, unit) store_result" where
  [store_defs]: "DD254_RevokeAccess flt tenantID i userID d =
     (case done_some ErrNotFound (exec_delete flt ''dd254.RevokeAccess''
             (\<lambda>a. da_DD254ID a = i \<and> da_UserID a = userID \<and>
                  sql_exists (\<lambda>f. dd_ID f = da_DD254ID a \<and> dd_TenantID f = tenantID) (d_dd254 d)) (d_dd254_access d)) of
        (t, res) \<Rightarrow> (d\<lparr>d_dd254_access := t\<rparr>, res))"

text \<open>A deletion keeps the row and marks it superseded.\<close>

definition DD254_Delete :: "faults \<Rightarrow> time \<Rightarrow> uuid \<Rightarrow> uuid \<Rightarrow> db \<Rightarrow> (db, string) store_result" where
  [store_defs]: "DD254_Delete flt now tenantID i d =
     (let P = (\<lambda>f. dd_ID f = i \<and> dd_TenantID f = tenantID) in
      if flt ''dd254.Delete'' 0 then (d, Inl (Fault ''dd254.Delete''))
      else case sql_row P (d_dd254 d) of None \<Rightarrow> (d, Inl ErrNotFound)
      | Some f \<Rightarrow> (d\<lparr>d_dd254 := sql_update P (\<lambda>f. f\<lparr>dd_Status := ''superseded'', dd_UpdatedAt := now\<rparr>) (d_dd254 d)\<rparr>,
                   Inr (dd_StorageKey f)))"

definition UserHasAccess :: "faults \<Rightarrow> uuid \<Rightarrow> uuid \<Rightarrow> uuid \<Rightarrow> db \<Rightarrow> err + bool" where
  [store_defs]: "UserHasAccess flt tenantID userID i d =
     (if flt ''dd254.UserHasAccess'' 0 then Inl (Fault ''dd254.UserHasAccess'')
      else Inr (sql_exists (\<lambda>a. da_DD254ID a = i \<and> da_UserID a = userID \<and> da_DebriefedAt a = None \<and>
        sql_exists (\<lambda>f. dd_ID f = da_DD254ID a \<and> dd_TenantID f = tenantID \<and> dd_Status f = ''active'') (d_dd254 d))
        (d_dd254_access d)))"

text \<open>One row per grant of the user that is not debriefed, in the order of contract numbers.\<close>

definition read_on_forms :: "db \<Rightarrow> uuid \<Rightarrow> uuid \<Rightarrow> dd254_form list" where
  "read_on_forms d tenantID userID =
     concat (map (\<lambda>f. if dd_TenantID f = tenantID \<and> dd_Status f = ''active''
        then map (\<lambda>_. f) (filter (\<lambda>a. da_DD254ID a = dd_ID f \<and> da_UserID a = userID \<and> da_DebriefedAt a = None) (d_dd254_access d))
        else []) (d_dd254 d))"

definition Store_MyAuthorizations :: "(string \<Rightarrow> 'k::linorder) \<Rightarrow> faults \<Rightarrow> uuid \<Rightarrow> uuid \<Rightarrow> db \<Rightarrow> err + dd254_form list" where
  [store_defs]: "Store_MyAuthorizations coll flt tenantID userID d =
     (if flt ''dd254.MyAuthorizations'' 0 then Inl (Fault ''dd254.MyAuthorizations'')
      else Inr (sort_key (\<lambda>f. coll (dd_ContractNumber f)) (read_on_forms d tenantID userID)))"

definition DD254_GetStorageKey ::
  "faults \<Rightarrow> uuid \<Rightarrow> uuid \<Rightarrow> uuid option \<Rightarrow> db \<Rightarrow> err + string \<times> string \<times> string" where
  [store_defs]: "DD254_GetStorageKey flt tenantID i scope d =
     (case query_row flt ''dd254.GetStorageKey'' ErrNotFound (\<lambda>f. dd_ID f = i \<and> form_in_scope tenantID scope None f) (d_dd254 d) of
        Inl e \<Rightarrow> Inl e | Inr f \<Rightarrow> Inr (dd_StorageKey f, dd_Filename f, dd_ContentType f))"

subsection \<open>Contracts for a visit\<close>

definition classOrder :: "string \<Rightarrow> nat option" where
  "classOrder = map_of [(''none'', 0), (''confidential'', 1), (''secret'', 2), (''top_secret'', 3), (''ts_sci'', 4)]"

text \<open>A level the map does not hold ranks zero.\<close>

definition class_rank :: "string \<Rightarrow> nat" where
  "class_rank level = (case classOrder level of None \<Rightarrow> 0 | Some n \<Rightarrow> n)"

datatype match_reason = Exact_class | Above_class

definition covers_period :: "time \<Rightarrow> time \<Rightarrow> dd254_form \<Rightarrow> bool" where
  "covers_period start_date end_date f =
     ((case dd_PeriodStart f of None \<Rightarrow> True | Some s \<Rightarrow> s \<le> start_date) \<and>
      (case dd_PeriodEnd f of None \<Rightarrow> True | Some e \<Rightarrow> e \<ge> end_date))"

definition Store_SuggestForVisit :: "faults \<Rightarrow> uuid \<Rightarrow> uuid \<Rightarrow> db \<Rightarrow> err + (form_view \<times> match_reason) list" where
  [store_defs]: "Store_SuggestForVisit flt tenantID visitID d =
     (case query_row flt ''dd254.SuggestForVisit.visit'' ErrNotFound (\<lambda>v. vi_ID v = visitID \<and> vi_TenantID v = tenantID) (d_visits d) of
        Inl e \<Rightarrow> Inl e
      | Inr v \<Rightarrow>
          if flt ''dd254.SuggestForVisit'' 0 then Inl (Fault ''dd254.SuggestForVisit'')
          else let requiredRank = class_rank (vi_AccessLevel v) in
            Inr (List.map_filter (\<lambda>f. let rank = class_rank (dd_ClassificationMax f) in
                if rank < requiredRank then None
                else Some (form_view_of d 0 f, if rank = requiredRank then Exact_class else Above_class))
              (filter (covers_period (vi_StartDate v) (vi_EndDate v)) (read_on_forms d tenantID (vi_CreatedByUserID v)))))"

definition SetVisitRequestDD254 :: "faults \<Rightarrow> time \<Rightarrow> uuid \<Rightarrow> uuid \<Rightarrow> uuid option \<Rightarrow> db \<Rightarrow> (db, unit) store_result" where
  [store_defs]: "SetVisitRequestDD254 flt now tenantID visitID dd254ID d =
     (if dd254ID \<noteq> None \<and> flt ''dd254.SetVisitRequestDD254.check'' 0 then (d, Inl (Fault ''dd254.SetVisitRequestDD254.check''))
      else if (case dd254ID of None \<Rightarrow> False
         | Some i \<Rightarrow> \<not> sql_exists (\<lambda>f. dd_ID f = i \<and> dd_TenantID f = tenantID) (d_dd254 d)) then (d, Inl ErrNotFound)
      else case done_some ErrNotFound (exec_update flt ''dd254.SetVisitRequestDD254''
             (\<lambda>v. vi_ID v = visitID \<and> vi_TenantID v = tenantID)
             (\<lambda>v. v\<lparr>vi_DD254ID := dd254ID, vi_UpdatedAt := now\<rparr>) (d_visits d)) of
        (t, res) \<Rightarrow> (d\<lparr>d_visits := t\<rparr>, res))"

end
