(* ===== verification/DD254_Handlers.thy ===== *)
theory DD254_Handlers
  imports DD254
begin

text \<open>
  \<^verbatim>\<open>backend/internal/dd254/handler.go\<close>: the requests on contract security forms.
\<close>

definition dd254_maxFileSize :: int where "dd254_maxFileSize = 25 * 2 ^ 20"

definition parseOptDate :: "string \<Rightarrow> time option option" where
  "parseOptDate s = (if s = [] then Some None else map_option Some (ParseDate s))"

definition parseOptUUID :: "libs \<Rightarrow> string \<Rightarrow> uuid option option" where
  "parseOptUUID L s = (if s = [] then Some None else map_option Some (l_uuid L s))"

definition parseOptDateStr :: "string option \<Rightarrow> time option option" where
  "parseOptDateStr p = (case p of None \<Rightarrow> Some None | Some s \<Rightarrow> parseOptDate s)"

definition stringOrEmpty :: "string option \<Rightarrow> string" where
  "stringOrEmpty p = (case p of None \<Rightarrow> [] | Some s \<Rightarrow> s)"

definition dd254_audit :: "request \<Rightarrow> uuid \<Rightarrow> string \<Rightarrow> (string \<times> json) list \<Rightarrow> (db, unit) state" where
  "dd254_audit r tenantID action meta = (case r_session r of None \<Rightarrow> reply ()
     | Some sess \<Rightarrow> audit_log r 0 action (Some (s_IdentityID sess)) (Some (s_ID sess)) (Some tenantID) meta)"

definition dd254_not_found :: "err \<Rightarrow> 'b response" where
  "dd254_not_found e = (if e = ErrNotFound then Abort StatusNotFound (Msg ''not found'') else internal_error)"

text \<open>The sub-organization asked for counts only where no scope applies.\<close>

definition extra_suborg :: "libs \<Rightarrow> uuid option \<Rightarrow> string \<Rightarrow> uuid option" where
  "extra_suborg L scope sub_org_id = (if scope \<noteq> None then None
     else (case parseOptUUID L sub_org_id of Some so \<Rightarrow> so | None \<Rightarrow> None))"

definition DD254_Handler_List ::
  "libs \<Rightarrow> request \<Rightarrow> string \<Rightarrow> string \<Rightarrow> string \<Rightarrow> string \<Rightarrow> (db, form_view list response) state" where
  [http_defs]: "DD254_Handler_List L r status cls search sub_org_id = with_member r (\<lambda>sess tenantID userID.
     let scope = scope_of L r sess sub_org_id in do {
       res \<leftarrow> asks (DD254_List (l_ilike L) (r_flt r) \<lparr>gf_TenantID = tenantID, gf_SubOrgScope = scope,
         gf_SubOrgID = extra_suborg L scope sub_org_id, gf_Status = status, gf_Class = cls, gf_Search = search\<rparr>);
       (case res of Inl _ \<Rightarrow> reply internal_error | Inr x \<Rightarrow> reply (Respond StatusOK x))
     })"

definition DD254_Handler_Stats :: "libs \<Rightarrow> request \<Rightarrow> string \<Rightarrow> (db, form_stats response) state" where
  [http_defs]: "DD254_Handler_Stats L r sub_org_id = with_member r (\<lambda>sess tenantID userID.
     let scope = scope_of L r sess sub_org_id in do {
       res \<leftarrow> asks (DD254_Stats (r_flt r) (r_now r) tenantID scope (extra_suborg L scope sub_org_id));
       (case res of Inl _ \<Rightarrow> reply internal_error | Inr x \<Rightarrow> reply (Respond StatusOK x))
     })"

definition DD254_Handler_Get :: "libs \<Rightarrow> request \<Rightarrow> string \<Rightarrow> string \<Rightarrow> (db, (form_view \<times> grant_view list) response) state" where
  [http_defs]: "DD254_Handler_Get L r sub_org_id id_param = with_member r (\<lambda>sess tenantID userID.
     with_uuid L ''invalid id'' id_param (\<lambda>i. do {
       res \<leftarrow> asks (DD254_Get (r_flt r) tenantID i (scope_of L r sess sub_org_id));
       (case res of Inl e \<Rightarrow> reply (dd254_not_found e) | Inr x \<Rightarrow> reply (Respond StatusOK x))
     }))"

subsection \<open>Upload\<close>

text \<open>The fields of the multipart form beside the file.\<close>

record dd254_fields =
  xf_Markings :: string
  xf_Attestation :: string
  xf_ContractNumber :: string
  xf_PrimeContractor :: string
  xf_ClassificationMax :: string
  xf_PeriodStart :: string
  xf_PeriodEnd :: string
  xf_SubOrgID :: string

definition bad_request :: "string \<Rightarrow> 'b response" where
  "bad_request text = Abort StatusBadRequest (Msg text)"

text \<open>The checks before anything is stored: what is wrong, or contract number, period and
  sub-organization.\<close>

definition check_dd254 ::
  "libs \<Rightarrow> form_file option \<Rightarrow> dd254_fields \<Rightarrow> string + form_file \<times> string \<times> time option \<times> time option \<times> uuid option" where
  "check_dd254 L form q =
     (case form of
        None \<Rightarrow> Inl ''file is required''
      | Some f \<Rightarrow>
          if ff_BodySize f > dd254_maxFileSize then Inl ''file is required''
          else if ToLower (path_ext (ff_Filename f)) \<noteq> ''.pdf'' then Inl ''only PDF files are allowed''
          else if xf_Markings q \<noteq> RequiredMarkings
          then Inl (''DD254 must be marked UNCLASSIFIED '' @ [CHR 0xE2, CHR 0x80, CHR 0x94] @ '' fastFSO is CMMC L1 and does not store CUI'')
          else if xf_Attestation q \<noteq> ''true'' then Inl ''CUI attestation is required''
          else if TrimSpace (xf_ContractNumber q) = [] then Inl ''contract_number is required''
          else if \<not> ValidClassification (xf_ClassificationMax q) then Inl ''invalid classification_max''
          else (case parseOptDate (xf_PeriodStart q) of None \<Rightarrow> Inl ''invalid period_start''
            | Some periodStart \<Rightarrow> (case parseOptDate (xf_PeriodEnd q) of None \<Rightarrow> Inl ''invalid period_end''
              | Some periodEnd \<Rightarrow> (case parseOptUUID L (xf_SubOrgID q) of None \<Rightarrow> Inl ''invalid sub_org_id''
                | Some so \<Rightarrow> Inr (f, TrimSpace (xf_ContractNumber q), periodStart, periodEnd, so)))))"

definition DD254_Upload ::
  "scanner \<Rightarrow> bool \<Rightarrow> storage_backend \<Rightarrow> libs \<Rightarrow> request \<Rightarrow> string \<Rightarrow> form_file option \<Rightarrow> dd254_fields \<Rightarrow>
   (db, (dd254_form \<times> bool) response) state" where
  [http_defs]: "DD254_Upload sc isNoop sb L r sub_org_query form q = with_member r (\<lambda>sess tenantID userID.
     (case check_dd254 L form q of
        Inl text \<Rightarrow> reply (bad_request text)
      | Inr (f, contractNumber, periodStart, periodEnd, so) \<Rightarrow>
          let subOrgID = (case scope_of L r sess sub_org_query of Some s \<Rightarrow> Some s | None \<Rightarrow> so);
              dd254ID = r_fresh r 0;
              key = DD254KeyPrefix (l_uuid_text L) tenantID dd254ID @ ''/'' @ ff_Filename f in
          scan_first sc r f (do {
            stored \<leftarrow> on_files (sb_Upload sb (r_flt r) key (ff_Content f));
            (case stored of Inl _ \<Rightarrow> reply (Abort StatusInternalServerError (Msg ''upload failed'')) | Inr _ \<Rightarrow> do {
               made \<leftarrow> on_db (DD254_Create (r_flt r) (r_now r) \<lparr>dd_ID = dd254ID, dd_TenantID = tenantID, dd_SubOrgID = subOrgID,
                 dd_ContractNumber = contractNumber, dd_PrimeContractor = TrimSpace (xf_PrimeContractor q),
                 dd_ClassificationMax = xf_ClassificationMax q, dd_PeriodStart = periodStart, dd_PeriodEnd = periodEnd,
                 dd_StorageKey = key, dd_Filename = ff_Filename f, dd_ContentType = ''application/pdf'',
                 dd_SizeBytes = ff_Size f, dd_Markings = xf_Markings q, dd_Status = [], dd_SupersedesID = None,
                 dd_UploadedBy = userID, dd_CreatedAt = 0, dd_UpdatedAt = 0,
                 dd_LastExpirationReminderAt = None\<rparr>);
               (case made of Inl _ \<Rightarrow> do {
                  on_files (sb_Delete sb (r_flt r) key);
                  reply internal_error
                }
                | Inr x \<Rightarrow> do {
                  dd254_audit r tenantID ''dd254_uploaded'' [(''dd254_id'', JId (dd_ID x)), (''contract_number'', JStr contractNumber),
                    (''classification'', JStr (xf_ClassificationMax q)), (''size'', JNum (ff_Size f)),
                    (''identity_id'', JId (s_IdentityID sess))];
                  reply (Respond StatusCreated (x, \<not> isNoop))
                })
             })
          })))"

definition DD254_ViewFile ::
  "storage_backend \<Rightarrow> libs \<Rightarrow> request \<Rightarrow> string \<Rightarrow> string \<Rightarrow> (db, (string \<times> string \<times> string) response) state" where
  \<comment> \<open>content type, file name, content\<close>
  [http_defs]: "DD254_ViewFile sb L r sub_org_id id_param = with_member r (\<lambda>sess tenantID userID.
     with_uuid L ''invalid id'' id_param (\<lambda>i. do {
       res \<leftarrow> asks (DD254_GetStorageKey (r_flt r) tenantID i (scope_of L r sess sub_org_id));
       (case res of Inl e \<Rightarrow> reply (dd254_not_found e) | Inr (key, filename, contentType) \<Rightarrow> do {
          got \<leftarrow> asks (\<lambda>d. sb_Download sb (r_flt r) key (d_files d));
          (case got of Inl _ \<Rightarrow> reply internal_error | Inr content \<Rightarrow> do {
             dd254_audit r tenantID ''dd254_viewed'' [(''dd254_id'', JId i)];
             reply (Respond StatusOK (if contentType = [] then ''application/pdf'' else contentType, filename, content))
           })
        })
     }))"

subsection \<open>Changes\<close>

definition DD254_Handler_Delete :: "libs \<Rightarrow> request \<Rightarrow> string \<Rightarrow> (db, unit response) state" where
  [http_defs]: "DD254_Handler_Delete L r id_param = with_member r (\<lambda>sess tenantID userID.
     with_uuid L ''invalid id'' id_param (\<lambda>i. do {
       res \<leftarrow> on_db (DD254_Delete (r_flt r) (r_now r) tenantID i);
       (case res of Inl e \<Rightarrow> reply (dd254_not_found e) | Inr _ \<Rightarrow> do {
          dd254_audit r tenantID ''dd254_deleted'' [(''dd254_id'', JId i), (''identity_id'', JId (s_IdentityID sess))];
          reply (Respond StatusOK ())
        })
     }))"

text \<open>The body of a grant: user, date briefed, date debriefed.\<close>

definition DD254_Handler_GrantAccess ::
  "libs \<Rightarrow> request \<Rightarrow> string \<Rightarrow> (uuid \<times> string option \<times> string option) option \<Rightarrow> (db, unit response) state" where
  [http_defs]: "DD254_Handler_GrantAccess L r id_param req = with_member r (\<lambda>sess tenantID userID.
     with_uuid L ''invalid id'' id_param (\<lambda>i.
     (case req of None \<Rightarrow> reply invalid_request | Some (target, briefed_at, debriefed_at) \<Rightarrow>
       (case parseOptDateStr briefed_at of None \<Rightarrow> reply (bad_request ''invalid briefed_at'') | Some briefed \<Rightarrow>
       (case parseOptDateStr debriefed_at of None \<Rightarrow> reply (bad_request ''invalid debriefed_at'') | Some debriefed \<Rightarrow> do {
          res \<leftarrow> on_db (DD254_GrantAccess (r_flt r) (r_now r) tenantID i target userID briefed debriefed);
          (case res of
             Inl e \<Rightarrow> reply (if e = ErrUserNotInTenant then bad_request ''user does not belong to this tenant'' else dd254_not_found e)
           | Inr _ \<Rightarrow> do {
               dd254_audit r tenantID ''dd254_access_granted''
                 [(''dd254_id'', JId i), (''user_id'', JId target), (''identity_id'', JId (s_IdentityID sess))];
               reply (Respond StatusOK ())
             })
        })))))"

definition DD254_Handler_RevokeAccess :: "libs \<Rightarrow> request \<Rightarrow> string \<Rightarrow> string \<Rightarrow> (db, unit response) state" where
  [http_defs]: "DD254_Handler_RevokeAccess L r id_param user_param = with_member r (\<lambda>sess tenantID userID.
     with_uuid L ''invalid id'' id_param (\<lambda>i.
     with_uuid L ''invalid user id'' user_param (\<lambda>target. do {
       res \<leftarrow> on_db (DD254_RevokeAccess (r_flt r) tenantID i target);
       (case res of Inl e \<Rightarrow> reply (dd254_not_found e) | Inr _ \<Rightarrow> do {
          dd254_audit r tenantID ''dd254_access_revoked''
            [(''dd254_id'', JId i), (''user_id'', JId target), (''identity_id'', JId (s_IdentityID sess))];
          reply (Respond StatusOK ())
        })
     })))"

definition MyAuthorizations :: "libs \<Rightarrow> request \<Rightarrow> (db, dd254_form list response) state" where
  [http_defs]: "MyAuthorizations L r = with_member r (\<lambda>sess tenantID userID. do {
     res \<leftarrow> asks (Store_MyAuthorizations (l_collate L) (r_flt r) tenantID userID);
     (case res of Inl _ \<Rightarrow> reply internal_error | Inr x \<Rightarrow> reply (Respond StatusOK x))
   })"

definition SuggestForVisit :: "libs \<Rightarrow> request \<Rightarrow> string \<Rightarrow> (db, (form_view \<times> match_reason) list response) state" where
  [http_defs]: "SuggestForVisit L r id_param = with_member r (\<lambda>sess tenantID userID.
     with_uuid L ''invalid id'' id_param (\<lambda>i. do {
       res \<leftarrow> asks (Store_SuggestForVisit (r_flt r) tenantID i);
       (case res of
          Inl e \<Rightarrow> reply (if e = ErrNotFound then Abort StatusNotFound (Msg ''visit not found'') else internal_error)
        | Inr x \<Rightarrow> reply (Respond StatusOK x))
     }))"

definition LinkVisitRequest :: "libs \<Rightarrow> request \<Rightarrow> string \<Rightarrow> string option option \<Rightarrow> (db, unit response) state" where
  [http_defs]: "LinkVisitRequest L r id_param req = with_member r (\<lambda>sess tenantID userID.
     with_uuid L ''invalid id'' id_param (\<lambda>i.
     (case req of None \<Rightarrow> reply invalid_request | Some dd_254_id \<Rightarrow>
       (case parseOptUUID L (stringOrEmpty dd_254_id) of None \<Rightarrow> reply (bad_request ''invalid dd_254_id'') | Some dd254ID \<Rightarrow> do {
          res \<leftarrow> on_db (SetVisitRequestDD254 (r_flt r) (r_now r) tenantID i dd254ID);
          (case res of Inl e \<Rightarrow> reply (dd254_not_found e) | Inr _ \<Rightarrow> do {
             dd254_audit r tenantID ''visit_request_reviewed'' [(''visit_request_id'', JId i),
               (''dd254_id'', case dd254ID of None \<Rightarrow> JNull | Some x \<Rightarrow> JId x), (''action'', JStr ''dd254_linked''),
               (''identity_id'', JId (s_IdentityID sess))];
             reply (Respond StatusOK ())
           })
        }))))"

end
