(* ===== verification/Visits.thy ===== *)
theory Visits
  imports DD254_Handlers
begin

text \<open>
  \<^verbatim>\<open>backend/internal/visitrequest\<close>: requests to visit another cleared facility, from
  submission to decision, and the audit export, which reconstructs what authorized a visit
  when it was decided.
\<close>

subsection \<open>Store\<close>

definition access_level_check :: "string \<Rightarrow> bool" where
  "access_level_check s = (s \<in> {''confidential'', ''secret'', ''top_secret'', ''top_secret_sci''})"

definition visit_status_check :: "string \<Rightarrow> bool" where
  "visit_status_check s = (s \<in> {''submitted'', ''under_review'', ''approved'', ''rejected'', ''cancelled''})"

record visit_params = visit_form +
  vp_TenantID :: uuid
  vp_CreatedByUserID :: uuid
  vp_SubOrgID :: "uuid option"
  vp_VisitStartDate :: string
  vp_VisitEndDate :: string

definition new_visit :: "time \<Rightarrow> uuid \<Rightarrow> visit_params \<Rightarrow> time \<Rightarrow> time \<Rightarrow> visit" where
  "new_visit now i p start_date end_date = \<lparr>vi_DestinationName = vi_DestinationName p, vi_DissSmoCode = vi_DissSmoCode p,
     vi_VisitAddress = vi_VisitAddress p, vi_AccessLevel = vi_AccessLevel p, vi_VisitDescription = vi_VisitDescription p,
     vi_Poc = vi_Poc p, vi_SecurityPoc = vi_SecurityPoc p, vi_ClonedFromID = vi_ClonedFromID p, vi_DD254ID = vi_DD254ID p,
     vi_ID = i, vi_TenantID = vp_TenantID p, vi_CreatedByUserID = vp_CreatedByUserID p, vi_SubOrgID = vp_SubOrgID p,
     vi_StartDate = start_date, vi_EndDate = end_date, vi_Status = ''submitted'', vi_ReviewedBy = None, vi_ReviewedAt = None,
     vi_ReviewerNotes = [], vi_CreatedAt = now, vi_UpdatedAt = now\<rparr>"

definition Visit_Create :: "faults \<Rightarrow> time \<Rightarrow> uuid \<Rightarrow> visit_params \<Rightarrow> db \<Rightarrow> (db, visit) store_result" where
  [store_defs]: "Visit_Create flt now i p d =
     (case ParseDate (vp_VisitStartDate p) of None \<Rightarrow> (d, Inl (ErrMsg ''parse visit_start_date''))
      | Some start_date \<Rightarrow> (case ParseDate (vp_VisitEndDate p) of None \<Rightarrow> (d, Inl (ErrMsg ''parse visit_end_date''))
        | Some end_date \<Rightarrow>
            if flt ''visitrequest.Create'' 0 \<or> \<not> access_level_check (vi_AccessLevel p) \<or> tenant_by d (vp_TenantID p) = None \<or>
               user_by d (vp_CreatedByUserID p) = None \<or>
               (case vp_SubOrgID p of None \<Rightarrow> False | Some s \<Rightarrow> suborg_by d s = None) \<or>
               (case vi_ClonedFromID p of None \<Rightarrow> False | Some c \<Rightarrow> \<not> sql_exists (\<lambda>v. vi_ID v = c) (d_visits d)) \<or>
               (case vi_DD254ID p of None \<Rightarrow> False | Some c \<Rightarrow> \<not> sql_exists (\<lambda>f. dd_ID f = c) (d_dd254 d))
            then (d, Inl (Fault ''visitrequest.Create''))
            else let v = new_visit now i p start_date end_date in (d\<lparr>d_visits := d_visits d @ [v]\<rparr>, Inr v)))"

text \<open>The sub-organization is not among the columns read.\<close>

definition Visit_Get :: "faults \<Rightarrow> uuid \<Rightarrow> uuid \<Rightarrow> db \<Rightarrow> err + visit" where
  [store_defs]: "Visit_Get flt tenantID i d =
     (case query_row flt ''visitrequest.Get'' ErrNotFound (\<lambda>v. vi_ID v = i \<and> vi_TenantID v = tenantID) (d_visits d) of
        Inl e \<Rightarrow> Inl e | Inr v \<Rightarrow> Inr (v\<lparr>vi_SubOrgID := None\<rparr>))"

definition visit_matches :: "(string \<Rightarrow> string \<Rightarrow> bool) \<Rightarrow> list_filters \<Rightarrow> visit \<Rightarrow> bool" where
  "visit_matches ilike f v =
     (row_matches f (vi_TenantID v) (vi_CreatedByUserID v) (vi_Status v) (vi_SubOrgID v) \<and>
      (lf_Search f = [] \<or> ilike (vi_DestinationName v) (lf_Search f)))"

text \<open>A row of a listing with the name of the submitter.\<close>

definition with_submitter :: "db \<Rightarrow> visit list \<Rightarrow> (visit \<times> string) list" where
  "with_submitter d = List.map_filter (\<lambda>v. map_option (Pair v) (name_of d (vi_CreatedByUserID v)))"

definition Visit_List ::
  "(string \<Rightarrow> string \<Rightarrow> bool) \<Rightarrow> faults \<Rightarrow> list_filters \<Rightarrow> db \<Rightarrow> err + (visit \<times> string) list \<times> nat" where
  [store_defs]: "Visit_List ilike flt f d =
     (if flt ''visitrequest.List.count'' 0 then Inl (Fault ''visitrequest.List.count'')
      else if flt ''visitrequest.List'' 0 then Inl (Fault ''visitrequest.List'')
      else let rows = filter (visit_matches ilike f) (d_visits d) in
        Inr (page_of f (with_submitter d (sql_desc vi_CreatedAt rows)), length rows))"

definition on_visits :: "db \<Rightarrow> (visit list, 'a) store_result \<Rightarrow> (db, 'a) store_result" where
  "on_visits d r = (d\<lparr>d_visits := fst r\<rparr>, snd r)"

lemma on_visits_simps [simp]: "fst (on_visits d r) = d\<lparr>d_visits := fst r\<rparr>" "snd (on_visits d r) = snd r"
  by (simp_all add: on_visits_def)

definition Visit_Cancel :: "faults \<Rightarrow> time \<Rightarrow> uuid \<Rightarrow> uuid \<Rightarrow> uuid \<Rightarrow> db \<Rightarrow> (db, unit) store_result" where
  [store_defs]: "Visit_Cancel flt now tenantID i userID d =
     on_visits d (done_some ErrNotFound (exec_update flt ''visitrequest.Cancel''
       (\<lambda>v. vi_ID v = i \<and> vi_TenantID v = tenantID \<and> vi_CreatedByUserID v = userID \<and> vi_Status v = ''submitted'')
       (\<lambda>v. v\<lparr>vi_Status := ''cancelled'', vi_UpdatedAt := now\<rparr>) (d_visits d)))"

definition Visit_UpdateStatus ::
  "faults \<Rightarrow> time \<Rightarrow> uuid \<Rightarrow> uuid \<Rightarrow> uuid \<Rightarrow> string \<Rightarrow> string \<Rightarrow> db \<Rightarrow> (db, unit) store_result" where
  [store_defs]: "Visit_UpdateStatus flt now tenantID i reviewerID status notes d =
     (let P = (\<lambda>v. vi_ID v = i \<and> vi_TenantID v = tenantID) in
      if sql_exists P (d_visits d) \<and> (\<not> visit_status_check status \<or> user_by d reviewerID = None)
      then (d, Inl (Fault ''visitrequest.UpdateStatus''))
      else on_visits d (done_some ErrNotFound (exec_update flt ''visitrequest.UpdateStatus'' P
        (\<lambda>v. v\<lparr>vi_Status := status, vi_ReviewerNotes := notes, vi_ReviewedBy := Some reviewerID, vi_ReviewedAt := Some now,
               vi_UpdatedAt := now\<rparr>) (d_visits d))))"

record visit_stats =
  vs_Total :: nat
  vs_Submitted :: nat
  vs_UnderReview :: nat
  vs_Approved :: nat
  vs_Rejected :: nat
  vs_Cancelled :: nat

definition Visit_SummaryStats :: "faults \<Rightarrow> uuid \<Rightarrow> uuid option \<Rightarrow> uuid option \<Rightarrow> db \<Rightarrow> err + visit_stats" where
  [store_defs]: "Visit_SummaryStats flt tenantID userID scope d =
     (if flt ''visitrequest.SummaryStats'' 0 then Inl (Fault ''visitrequest.SummaryStats'')
      else let rows = filter (\<lambda>v. vi_TenantID v = tenantID \<and>
             (case userID of None \<Rightarrow> True | Some u \<Rightarrow> vi_CreatedByUserID v = u) \<and> in_scope scope (vi_SubOrgID v)) (d_visits d);
               num = (\<lambda>s. sql_affected (\<lambda>v. vi_Status v = s) rows) in
        Inr \<lparr>vs_Total = length rows, vs_Submitted = num ''submitted'', vs_UnderReview = num ''under_review'',
             vs_Approved = num ''approved'', vs_Rejected = num ''rejected'', vs_Cancelled = num ''cancelled''\<rparr>)"

definition Visit_ListCloneable :: "faults \<Rightarrow> uuid \<Rightarrow> uuid \<Rightarrow> db \<Rightarrow> err + (visit \<times> string) list" where
  [store_defs]: "Visit_ListCloneable flt tenantID userID d =
     (if flt ''visitrequest.ListCloneable'' 0 then Inl (Fault ''visitrequest.ListCloneable'')
      else Inr (take 50 (with_submitter d (sql_desc vi_CreatedAt (filter (\<lambda>v. vi_TenantID v = tenantID \<and>
        vi_CreatedByUserID v = userID \<and> vi_Status v \<in> {''submitted'', ''under_review'', ''approved''}) (d_visits d))))))"

subsection \<open>Export\<close>

text \<open>The table \<^verbatim>\<open>class_rank\<close> of the query, zero for a level it does not hold.\<close>

definition export_rank :: "string \<Rightarrow> nat" where
  "export_rank level = (case map_of [(''none'', 0), (''confidential'', 1), (''secret'', 2), (''top_secret'', 3),
     (''ts_sci'', 4), (''top_secret_sci'', 3)] level of None \<Rightarrow> 0 | Some n \<Rightarrow> n)"

text \<open>\<^verbatim>\<open>auth_confirmed\<close>: whether the linked contract covered the visit when it was reviewed.\<close>

definition auth_confirmed :: "db \<Rightarrow> visit \<Rightarrow> bool" where
  "auth_confirmed d v = (case (vi_DD254ID v, vi_ReviewedAt v) of
     (Some i, Some reviewed_at) \<Rightarrow>
       (case sql_row (\<lambda>f. dd_ID f = i) (d_dd254 d) of None \<Rightarrow> False
        | Some f \<Rightarrow> export_rank (dd_ClassificationMax f) \<ge> export_rank (vi_AccessLevel v) \<and>
            covers_period (vi_StartDate v) (vi_EndDate v) f \<and>
            sql_exists (\<lambda>a. da_DD254ID a = i \<and> da_UserID a = vi_CreatedByUserID v \<and>
              (case da_BriefedAt a of None \<Rightarrow> True | Some b \<Rightarrow> b \<le> sql_date reviewed_at) \<and>
              (case da_DebriefedAt a of None \<Rightarrow> True | Some b \<Rightarrow> b > sql_date reviewed_at)) (d_dd254_access d))
   | _ \<Rightarrow> False)"

text \<open>The clearance of the visitor that was current at the review.\<close>

definition clearance_at_review :: "db \<Rightarrow> visit \<Rightarrow> clearance_record option" where
  "clearance_at_review d v = (case vi_ReviewedAt v of None \<Rightarrow> None
     | Some reviewed_at \<Rightarrow>
        (case sql_desc cr_RecordedAt (filter (\<lambda>c. cr_UserID c = vi_CreatedByUserID v \<and> cr_RecordedAt c \<le> reviewed_at \<and>
             (case cr_SupersededAt c of None \<Rightarrow> True | Some s \<Rightarrow> s > reviewed_at)) (d_clearances d)) of
           [] \<Rightarrow> None | c # _ \<Rightarrow> Some c))"

record export_row =
  xr_Visit :: visit
  xr_Submitter :: "string \<times> string"
  xr_Clearance :: "clearance_record option"
  xr_DD254 :: "dd254_form option"
  xr_Confirmed :: bool
  xr_Reviewer :: "(string \<times> string) option"

record export_filters =
  xe_TenantID :: uuid
  xe_From :: time
  xe_To :: time
  xe_Statuses :: "string list"
  xe_SubOrgScope :: "uuid option"
  xe_SubOrgID :: "uuid option"

definition decided_at :: "visit \<Rightarrow> time" where
  "decided_at v = (case vi_ReviewedAt v of None \<Rightarrow> vi_CreatedAt v | Some t \<Rightarrow> t)"

definition export_matches :: "export_filters \<Rightarrow> visit \<Rightarrow> bool" where
  "export_matches f v = (vi_TenantID v = xe_TenantID f \<and> xe_From f \<le> decided_at v \<and> decided_at v \<le> xe_To f \<and>
     (xe_Statuses f = [] \<or> vi_Status v \<in> set (xe_Statuses f)) \<and> in_scope (xe_SubOrgScope f) (vi_SubOrgID v) \<and>
     (xe_SubOrgID f = None \<or> vi_SubOrgID v = xe_SubOrgID f))"

definition export_row_of :: "db \<Rightarrow> visit \<Rightarrow> export_row option" where
  "export_row_of d v = map_option (\<lambda>(_, n). \<lparr>xr_Visit = v, xr_Submitter = (i_Name n, i_Email n),
     xr_Clearance = clearance_at_review d v,
     xr_DD254 = Option.bind (vi_DD254ID v) (\<lambda>i. sql_row (\<lambda>f. dd_ID f = i) (d_dd254 d)),
     xr_Confirmed = auth_confirmed d v,
     xr_Reviewer = map_option (\<lambda>(_, n). (i_Name n, i_Email n)) (Option.bind (vi_ReviewedBy v) (contact_of d))\<rparr>)
     (contact_of d (vi_CreatedByUserID v))"

definition ExportEach :: "faults \<Rightarrow> export_filters \<Rightarrow> db \<Rightarrow> err + export_row list" where
  [store_defs]: "ExportEach flt f d =
     (if flt ''visitrequest.Export'' 0 then Inl (Fault ''visitrequest.Export'')
      else Inr (List.map_filter (export_row_of d) (sort_key decided_at (filter (export_matches f) (d_visits d)))))"

end
