(* ===== verification/Visit_Handlers.thy ===== *)
theory Visit_Handlers
  imports Visits
begin

text \<open>
  \<^verbatim>\<open>backend/internal/visitrequest/handler.go\<close>. The rows of the export are the result of its
  request; their layout as CSV is left out.
\<close>

definition visit_not_found :: "err \<Rightarrow> 'b response" where
  "visit_not_found e = (if e = ErrNotFound then Abort StatusNotFound (Msg ''visit request not found'') else internal_error)"

definition visit_audit :: "request \<Rightarrow> session \<Rightarrow> uuid \<Rightarrow> string \<Rightarrow> (string \<times> json) list \<Rightarrow> (db, unit) state" where
  "visit_audit r sess tenantID action meta =
     audit_log r 0 action (Some (s_IdentityID sess)) (Some (s_ID sess)) (Some tenantID) meta"

text \<open>A contract named in the request must be one the visitor is read on to.\<close>

definition Visit_Handler_Create :: "libs \<Rightarrow> request \<Rightarrow> visit_params option \<Rightarrow> (db, visit response) state" where
  [http_defs]: "Visit_Handler_Create L r req = with_member r (\<lambda>sess tenantID userID.
     (case req of None \<Rightarrow> reply invalid_request | Some q \<Rightarrow>
        let p = q\<lparr>vp_TenantID := tenantID, vp_CreatedByUserID := userID, vp_SubOrgID := s_SubOrgID sess\<rparr> in do {
        allowed \<leftarrow> asks (\<lambda>d. case vi_DD254ID p of None \<Rightarrow> Inr True | Some i \<Rightarrow> UserHasAccess (r_flt r) tenantID userID i d);
        (case allowed of
           Inl _ \<Rightarrow> reply internal_error
         | Inr ok \<Rightarrow> if \<not> ok then reply (bad_request ''you are not read-on to the selected DD254'')
             else do {
               made \<leftarrow> on_db (Visit_Create (r_flt r) (r_now r) (r_fresh r 0) p);
               (case made of
                  Inl _ \<Rightarrow> reply (Abort StatusInternalServerError (Msg ''failed to create visit request''))
                | Inr v \<Rightarrow> do {
                    queue_item L r 1 (review_params tenantID ''visit_request'' (vi_ID v) ''Visit Request Submitted''
                      ''A visit request requires FSO review'' (vi_SubOrgID v));
                    visit_audit r sess tenantID ''visit_request_submitted'' [(''visit_request_id'', JId (vi_ID v))];
                    reply (Respond StatusCreated v)
                  })
             })
      }))"

definition Visit_ListMy :: "libs \<Rightarrow> request \<Rightarrow> page_query \<Rightarrow> (db, ((visit \<times> string) list \<times> nat) response) state" where
  [http_defs]: "Visit_ListMy L r q = with_member r (\<lambda>sess tenantID userID. do {
     res \<leftarrow> asks (Visit_List (l_ilike L) (r_flt r) (my_filters tenantID userID q));
     (case res of Inl _ \<Rightarrow> reply internal_error | Inr x \<Rightarrow> reply (Respond StatusOK x))
   })"

definition Visit_MyStats :: "request \<Rightarrow> (db, visit_stats response) state" where
  [http_defs]: "Visit_MyStats r = with_member r (\<lambda>sess tenantID userID. do {
     res \<leftarrow> asks (Visit_SummaryStats (r_flt r) tenantID (Some userID) None);
     (case res of Inl _ \<Rightarrow> reply internal_error | Inr x \<Rightarrow> reply (Respond StatusOK x))
   })"

definition Visit_GetMy :: "libs \<Rightarrow> request \<Rightarrow> string \<Rightarrow> (db, visit response) state" where
  [http_defs]: "Visit_GetMy L r id_param = with_member r (\<lambda>sess tenantID userID.
     with_uuid L ''invalid visit request ID'' id_param (\<lambda>i. do {
       res \<leftarrow> asks (Visit_Get (r_flt r) tenantID i);
       (case res of Inl e \<Rightarrow> reply (visit_not_found e)
        | Inr v \<Rightarrow> if vi_CreatedByUserID v \<noteq> userID then reply (Abort StatusNotFound (Msg ''visit request not found''))
                   else reply (Respond StatusOK v))
     }))"

definition Visit_Handler_ListCloneable :: "request \<Rightarrow> (db, (visit \<times> string) list response) state" where
  [http_defs]: "Visit_Handler_ListCloneable r = with_member r (\<lambda>sess tenantID userID. do {
     res \<leftarrow> asks (Visit_ListCloneable (r_flt r) tenantID userID);
     (case res of Inl _ \<Rightarrow> reply internal_error | Inr x \<Rightarrow> reply (Respond StatusOK x))
   })"

definition Visit_Handler_Cancel :: "libs \<Rightarrow> request \<Rightarrow> string \<Rightarrow> (db, unit response) state" where
  [http_defs]: "Visit_Handler_Cancel L r id_param = with_member r (\<lambda>sess tenantID userID.
     with_uuid L ''invalid visit request ID'' id_param (\<lambda>i. do {
       res \<leftarrow> on_db (Visit_Cancel (r_flt r) (r_now r) tenantID i userID);
       (case res of
          Inl e \<Rightarrow> reply (if e = ErrNotFound then Abort StatusNotFound (Msg ''visit request not found or cannot be cancelled'')
                      else internal_error)
        | Inr _ \<Rightarrow> do {
            visit_audit r sess tenantID ''visit_request_submitted'' [(''visit_request_id'', JId i), (''action'', JStr ''cancelled'')];
            reply (Respond StatusOK ())
          })
     }))"

definition Visit_AdminList :: "libs \<Rightarrow> request \<Rightarrow> page_query \<Rightarrow> (db, ((visit \<times> string) list \<times> nat) response) state" where
  [http_defs]: "Visit_AdminList L r q = with_member r (\<lambda>sess tenantID userID. do {
     res \<leftarrow> asks (Visit_List (l_ilike L) (r_flt r) (admin_filters L r sess tenantID q));
     (case res of Inl _ \<Rightarrow> reply internal_error | Inr x \<Rightarrow> reply (Respond StatusOK x))
   })"

definition Visit_AdminStats :: "libs \<Rightarrow> request \<Rightarrow> string \<Rightarrow> (db, visit_stats response) state" where
  [http_defs]: "Visit_AdminStats L r sub_org_id = with_member r (\<lambda>sess tenantID userID. do {
     res \<leftarrow> asks (Visit_SummaryStats (r_flt r) tenantID None (scope_of L r sess sub_org_id));
     (case res of Inl _ \<Rightarrow> reply internal_error | Inr x \<Rightarrow> reply (Respond StatusOK x))
   })"

definition Visit_AdminGet :: "libs \<Rightarrow> request \<Rightarrow> string \<Rightarrow> (db, visit response) state" where
  [http_defs]: "Visit_AdminGet L r id_param = with_member r (\<lambda>sess tenantID userID.
     with_uuid L ''invalid visit request ID'' id_param (\<lambda>i. do {
       res \<leftarrow> asks (Visit_Get (r_flt r) tenantID i);
       (case res of Inl e \<Rightarrow> reply (visit_not_found e) | Inr v \<Rightarrow> reply (Respond StatusOK v))
     }))"

text \<open>The body: status, notes.\<close>

definition Visit_AdminUpdateStatus :: "libs \<Rightarrow> request \<Rightarrow> string \<Rightarrow> (string \<times> string) option \<Rightarrow> (db, unit response) state" where
  [http_defs]: "Visit_AdminUpdateStatus L r id_param req = with_member r (\<lambda>sess tenantID userID.
     with_uuid L ''invalid visit request ID'' id_param (\<lambda>i.
     (case req of None \<Rightarrow> reply invalid_request | Some (status, notes) \<Rightarrow> do {
        upd \<leftarrow> on_db (Visit_UpdateStatus (r_flt r) (r_now r) tenantID i userID status notes);
        (case upd of Inl e \<Rightarrow> reply (visit_not_found e) | Inr _ \<Rightarrow> do {
           (if status = ''approved'' \<or> status = ''rejected''
            then on_db (ResolveBySource (r_flt r) (r_now r) tenantID ''visit_request'' i) else reply (Inr ()));
           visit_audit r sess tenantID ''visit_request_reviewed'' [(''visit_request_id'', JId i), (''status'', JStr status)];
           reply (Respond StatusOK ())
         })
      })))"

text \<open>The updater \<^verbatim>\<open>router.New\<close> registers for visit requests.\<close>

definition visit_request_updater :: source_updater where
  "visit_request_updater r tenantID sourceID reviewerID status d =
     Visit_UpdateStatus (r_flt r) (r_now r) tenantID sourceID reviewerID status [] d"

subsection \<open>Export\<close>

fun split_comma :: "string \<Rightarrow> string list" where
  "split_comma [] = [[]]"
| "split_comma (c # cs) = (if c = CHR '','' then [] # split_comma cs
     else (case split_comma cs of [] \<Rightarrow> [[c]] | s # ss \<Rightarrow> (c # s) # ss))"

definition parseDateParam :: "string \<Rightarrow> time option" where
  "parseDateParam s = (if s = [] then None else ParseDate s)"

record export_query =
  xq_From :: string
  xq_To :: string
  xq_Status :: string
  xq_SubOrgID :: string
  xq_Detail :: "string option"

definition export_filters_of :: "libs \<Rightarrow> request \<Rightarrow> session \<Rightarrow> uuid \<Rightarrow> export_query \<Rightarrow> time \<Rightarrow> time \<Rightarrow> export_filters" where
  "export_filters_of L r sess tenantID q from to_day = \<lparr>xe_TenantID = tenantID, xe_From = from,
     xe_To = to_day + (24 * hour - second), xe_Statuses = (if xq_Status q \<noteq> [] then split_comma (xq_Status q) else []),
     xe_SubOrgScope = scope_of L r sess (xq_SubOrgID q),
     xe_SubOrgID = (if xq_SubOrgID q \<noteq> [] then l_uuid L (xq_SubOrgID q) else None)\<rparr>"

text \<open>The dates of the audit row are those of the query, which formatting a parsed date
  reproduces. A query that fails leaves a file without rows, with status 200.\<close>

definition Visit_Export ::
  "libs \<Rightarrow> request \<Rightarrow> export_query \<Rightarrow> (db, (string \<times> export_row list) response) state" where
  [http_defs]: "Visit_Export L r q = with_member r (\<lambda>sess tenantID userID.
     (case parseDateParam (xq_From q) of None \<Rightarrow> reply (bad_request ''invalid 'from' (expected YYYY-MM-DD)'') | Some from \<Rightarrow>
     (case parseDateParam (xq_To q) of None \<Rightarrow> reply (bad_request ''invalid 'to' (expected YYYY-MM-DD)'') | Some to_day \<Rightarrow>
        let f = export_filters_of L r sess tenantID q from to_day;
            detail = (case xq_Detail q of None \<Rightarrow> ''full'' | Some s \<Rightarrow> s) in do {
          res \<leftarrow> asks (ExportEach (r_flt r) f);
          let rows = (case res of Inl _ \<Rightarrow> [] | Inr rs \<Rightarrow> rs) in do {
            visit_audit r sess tenantID ''visits_exported'' [(''from'', JStr (xq_From q)), (''to'', JStr (xq_To q)),
              (''statuses'', JStr (xq_Status q)),
              (''sub_org_id'', case xe_SubOrgID f of None \<Rightarrow> JNull | Some s \<Rightarrow> JId s), (''detail'', JStr detail),
              (''row_count'', JNum (int (length rows)))];
            reply (Respond StatusOK (detail, rows))
          }
        })))"

end
