(* ===== verification/Travel.thy ===== *)
theory Travel
  imports DD254_Handlers
begin

text \<open>
  \<^verbatim>\<open>backend/internal/travel/store.go\<close> and \<^verbatim>\<open>debrief.go\<close>: reports of foreign travel with
  their countries and attachments, and the debriefs that follow a trip.
\<close>

abbreviation ErrDebriefNotFound :: err where
  "ErrDebriefNotFound \<equiv> ErrMsg ''travel debrief not found''"

subsection \<open>Reports\<close>

definition trip_status_check :: "string \<Rightarrow> bool" where
  "trip_status_check s = (s \<in> {''draft'', ''submitted'', ''under_review'', ''approved'', ''rejected''})"

definition reason_check :: "string \<Rightarrow> bool" where
  "reason_check s = (s \<in> {[], ''ngo_missionary'', ''official_non_dod'', ''vacation_personal'', ''other''})"

text \<open>Without a list of transportation in the body the slice is nil and the statement inserts
  NULL, which the column refuses.\<close>

record country_params =
  kp_Form :: country_form
  kp_HasTransportation :: bool
  kp_StartDate :: "string option"
  kp_EndDate :: "string option"

record travel_params =
  tp_Tenant :: uuid
  tp_User :: uuid
  tp_SubOrg :: "uuid option"
  tp_Form :: trip_form
  tp_Countries :: "country_params list"

definition travel_parseDate :: "string option \<Rightarrow> time option option" where
  "travel_parseDate s = (case s of None \<Rightarrow> Some None | Some x \<Rightarrow> if x = [] then Some None else map_option Some (ParseDate x))"

text \<open>The loop that inserts the countries of a report, statement by statement; \<open>q\<close> names the
  statement and \<open>n\<close> counts its repetitions. What was inserted before an error stays.\<close>

fun insert_countries ::
  "faults \<Rightarrow> string \<Rightarrow> time \<Rightarrow> (nat \<Rightarrow> uuid) \<Rightarrow> uuid \<Rightarrow> nat \<Rightarrow> country_params list \<Rightarrow> db \<Rightarrow> (db, unit) store_result" where
  "insert_countries flt q now fresh i n [] d = (d, Inr ())"
| "insert_countries flt q now fresh i n (p # ps) d =
     (case travel_parseDate (kp_StartDate p) of None \<Rightarrow> (d, Inl (ErrMsg ''start_date''))
      | Some start_date \<Rightarrow> (case travel_parseDate (kp_EndDate p) of None \<Rightarrow> (d, Inl (ErrMsg ''end_date''))
        | Some end_date \<Rightarrow>
            if flt q n \<or> \<not> reason_check (cy_Reason (kp_Form p)) \<or> \<not> kp_HasTransportation p \<or>
               \<not> sql_exists (\<lambda>x. tv_ID x = i) (d_trips d)
            then (d, Inl (Fault q))
            else insert_countries flt q now fresh i (Suc n) ps
              (d\<lparr>d_countries := d_countries d @ [\<lparr>cy_ID = fresh n, cy_ReportID = i, cy_Form = kp_Form p,
                 cy_StartDate = start_date, cy_EndDate = end_date, cy_CreatedAt = now\<rparr>]\<rparr>)))"

definition Travel_Create ::
  "faults \<Rightarrow> time \<Rightarrow> uuid \<Rightarrow> (nat \<Rightarrow> uuid) \<Rightarrow> travel_params \<Rightarrow> db \<Rightarrow> (db, trip) store_result" where
  [store_defs]: "Travel_Create flt now i fresh p d =
     (if flt ''travel.Create'' 0 \<or> tenant_by d (tp_Tenant p) = None \<or> user_by d (tp_User p) = None \<or>
         (case tp_SubOrg p of None \<Rightarrow> False | Some s \<Rightarrow> suborg_by d s = None)
      then (d, Inl (Fault ''travel.Create''))
      else let x = \<lparr>tv_ID = i, tv_TenantID = tp_Tenant p, tv_UserID = tp_User p, tv_SubOrgID = tp_SubOrg p,
                    tv_Form = tp_Form p, tv_Status = ''draft'', tv_SubmittedAt = None, tv_ReviewedAt = None,
                    tv_ReviewedBy = None, tv_DebriefCreatedAt = None, tv_CreatedAt = now, tv_UpdatedAt = now\<rparr>
        in (case insert_countries flt ''travel.Create.country'' now fresh i 0 (tp_Countries p) (d\<lparr>d_trips := d_trips d @ [x]\<rparr>) of
              (d', Inl e) \<Rightarrow> (d', Inl e) | (d', Inr _) \<Rightarrow> (d', Inr x)))"

record trip_detail =
  rd_Report :: trip
  rd_Countries :: "country list"
  rd_Uploads :: "trip_upload list"
  rd_CreatorName :: string

definition sql_asc :: "('r \<Rightarrow> int) \<Rightarrow> 'r list \<Rightarrow> 'r list" where
  "sql_asc k t = sort_key k t"

definition Travel_ListUploads :: "faults \<Rightarrow> uuid \<Rightarrow> db \<Rightarrow> err + trip_upload list" where
  [store_defs]: "Travel_ListUploads flt i d =
     (if flt ''travel.ListUploads'' 0 then Inl (Fault ''travel.ListUploads'')
      else Inr (sql_asc tl_CreatedAt (filter (\<lambda>u. tl_ReportID u = i) (d_trip_uploads d))))"

definition fetchDetail :: "faults \<Rightarrow> trip \<Rightarrow> string \<Rightarrow> db \<Rightarrow> err + trip_detail" where
  [store_defs]: "fetchDetail flt x creator d =
     (if flt ''travel.Get.countries'' 0 then Inl (Fault ''travel.Get.countries'')
      else if flt ''travel.Get.uploads'' 0 then Inl (Fault ''travel.Get.uploads'')
      else Inr \<lparr>rd_Report = x,
        rd_Countries = sql_asc (\<lambda>c. cy_SortOrder (cy_Form c)) (filter (\<lambda>c. cy_ReportID c = tv_ID x) (d_countries d)),
        rd_Uploads = sql_asc tl_CreatedAt (filter (\<lambda>u. tl_ReportID u = tv_ID x) (d_trip_uploads d)),
        rd_CreatorName = creator\<rparr>)"

text \<open>The sub-organization is read only by the officers' query.\<close>

definition Travel_Get :: "faults \<Rightarrow> uuid \<Rightarrow> uuid \<Rightarrow> uuid \<Rightarrow> db \<Rightarrow> err + trip_detail" where
  [store_defs]: "Travel_Get flt tenantID userID i d =
     (case query_row flt ''travel.Get'' ErrNotFound (\<lambda>x. tv_ID x = i \<and> tv_TenantID x = tenantID \<and> tv_UserID x = userID) (d_trips d) of
        Inl e \<Rightarrow> Inl e
      | Inr x \<Rightarrow> (case name_of d (tv_UserID x) of None \<Rightarrow> Inl ErrNotFound
                  | Some n \<Rightarrow> fetchDetail flt (x\<lparr>tv_SubOrgID := None\<rparr>) n d))"

definition Travel_AdminGet :: "faults \<Rightarrow> uuid \<Rightarrow> uuid \<Rightarrow> db \<Rightarrow> err + trip_detail" where
  [store_defs]: "Travel_AdminGet flt tenantID i d =
     (case query_row flt ''travel.AdminGet'' ErrNotFound (\<lambda>x. tv_ID x = i \<and> tv_TenantID x = tenantID) (d_trips d) of
        Inl e \<Rightarrow> Inl e
      | Inr x \<Rightarrow> (case name_of d (tv_UserID x) of None \<Rightarrow> Inl ErrNotFound | Some n \<Rightarrow> fetchDetail flt x n d))"

record trip_row =
  yw_Report :: trip
  yw_Countries :: string
  yw_EarliestDate :: "time option"
  yw_LatestDate :: "time option"
  yw_CreatorName :: string

text \<open>\<^verbatim>\<open>STRING_AGG(_, ', ')\<close>, and aggregates that ignore NULLs\<close>

fun string_agg :: "string list \<Rightarrow> string" where
  "string_agg [] = []"
| "string_agg [s] = s"
| "string_agg (s # t # ss) = s @ '', '' @ string_agg (t # ss)"

definition sql_min :: "time option list \<Rightarrow> time option" where
  "sql_min ts = (case List.map_filter id ts of [] \<Rightarrow> None | x # xs \<Rightarrow> Some (fold min xs x))"

definition sql_max :: "time option list \<Rightarrow> time option" where
  "sql_max ts = (case List.map_filter id ts of [] \<Rightarrow> None | x # xs \<Rightarrow> Some (fold max xs x))"

definition trip_row_of :: "db \<Rightarrow> trip \<Rightarrow> trip_row option" where
  "trip_row_of d x = map_option (\<lambda>n.
     let cs = sql_asc (\<lambda>c. cy_SortOrder (cy_Form c)) (filter (\<lambda>c. cy_ReportID c = tv_ID x) (d_countries d)) in
     \<lparr>yw_Report = x, yw_Countries = string_agg (map (\<lambda>c. cy_CountryName (cy_Form c)) cs),
      yw_EarliestDate = sql_min (map cy_StartDate cs), yw_LatestDate = sql_max (map cy_EndDate cs), yw_CreatorName = n\<rparr>)
     (name_of d (tv_UserID x))"

definition trip_matches :: "(string \<Rightarrow> string \<Rightarrow> bool) \<Rightarrow> list_filters \<Rightarrow> trip \<Rightarrow> bool" where
  "trip_matches ilike f x =
     (row_matches f (tv_TenantID x) (tv_UserID x) (tv_Status x) (tv_SubOrgID x) \<and>
      (lf_Search f = [] \<or> ilike (tv_TripName (tv_Form x)) (lf_Search f)))"

definition Travel_List :: "(string \<Rightarrow> string \<Rightarrow> bool) \<Rightarrow> faults \<Rightarrow> list_filters \<Rightarrow> db \<Rightarrow> err + trip_row list \<times> nat" where
  [store_defs]: "Travel_List ilike flt f d =
     (if flt ''travel.List.count'' 0 then Inl (Fault ''travel.List.count'')
      else if flt ''travel.List'' 0 then Inl (Fault ''travel.List'')
      else let rows = filter (trip_matches ilike f) (d_trips d) in
        Inr (page_of f (List.map_filter (trip_row_of d) (sql_desc tv_CreatedAt rows)), length rows))"

definition on_trips :: "db \<Rightarrow> (trip list, 'a) store_result \<Rightarrow> (db, 'a) store_result" where
  "on_trips d r = (d\<lparr>d_trips := fst r\<rparr>, snd r)"

lemma on_trips_simps [simp]: "fst (on_trips d r) = d\<lparr>d_trips := fst r\<rparr>" "snd (on_trips d r) = snd r"
  by (simp_all add: on_trips_def)

text \<open>Edits a draft and replaces its countries, in separate statements.\<close>

definition Travel_Update ::
  "faults \<Rightarrow> time \<Rightarrow> (nat \<Rightarrow> uuid) \<Rightarrow> uuid \<Rightarrow> uuid \<Rightarrow> uuid \<Rightarrow> trip_form \<Rightarrow> country_params list \<Rightarrow> db \<Rightarrow> (db, unit) store_result" where
  [store_defs]: "Travel_Update flt now fresh tenantID userID i form countries d =
     (case on_trips d (done_some ErrNotFound (exec_update flt ''travel.Update''
             (\<lambda>x. tv_ID x = i \<and> tv_TenantID x = tenantID \<and> tv_UserID x = userID \<and> tv_Status x = ''draft'')
             (\<lambda>x. x\<lparr>tv_Form := form, tv_UpdatedAt := now\<rparr>) (d_trips d))) of
        (d1, Inl e) \<Rightarrow> (d1, Inl e)
      | (d1, Inr _) \<Rightarrow>
          if flt ''travel.Update.deleteCountries'' 0 then (d1, Inl (Fault ''travel.Update.deleteCountries''))
          else insert_countries flt ''travel.Update.country'' now fresh i 0 countries
            (d1\<lparr>d_countries := sql_delete (\<lambda>c. cy_ReportID c = i) (d_countries d1)\<rparr>))"

definition Travel_Submit :: "faults \<Rightarrow> time \<Rightarrow> uuid \<Rightarrow> uuid \<Rightarrow> uuid \<Rightarrow> db \<Rightarrow> (db, unit) store_result" where
  [store_defs]: "Travel_Submit flt now tenantID userID i d =
     on_trips d (done_some ErrNotFound (exec_update flt ''travel.Submit''
       (\<lambda>x. tv_ID x = i \<and> tv_TenantID x = tenantID \<and> tv_UserID x = userID \<and> tv_Status x = ''draft'')
       (\<lambda>x. x\<lparr>tv_Status := ''submitted'', tv_SubmittedAt := Some now, tv_UpdatedAt := now\<rparr>) (d_trips d)))"

definition MarkUnderReview :: "faults \<Rightarrow> time \<Rightarrow> uuid \<Rightarrow> uuid \<Rightarrow> db \<Rightarrow> (db, unit) store_result" where
  [store_defs]: "MarkUnderReview flt now tenantID i d =
     on_trips d (done_any (exec_update flt ''travel.MarkUnderReview''
       (\<lambda>x. tv_ID x = i \<and> tv_TenantID x = tenantID \<and> tv_Status x = ''submitted'')
       (\<lambda>x. x\<lparr>tv_Status := ''under_review'', tv_UpdatedAt := now\<rparr>) (d_trips d)))"

definition Travel_UpdateStatus ::
  "faults \<Rightarrow> time \<Rightarrow> uuid \<Rightarrow> uuid \<Rightarrow> string \<Rightarrow> uuid \<Rightarrow> db \<Rightarrow> (db, unit) store_result" where
  [store_defs]: "Travel_UpdateStatus flt now tenantID i status reviewedBy d =
     (let P = (\<lambda>x. tv_ID x = i \<and> tv_TenantID x = tenantID) in
      if sql_exists P (d_trips d) \<and> (\<not> trip_status_check status \<or> user_by d reviewedBy = None)
      then (d, Inl (Fault ''travel.UpdateStatus''))
      else on_trips d (done_some ErrNotFound (exec_update flt ''travel.UpdateStatus'' P
        (\<lambda>x. x\<lparr>tv_Status := status, tv_ReviewedAt := Some now, tv_ReviewedBy := Some reviewedBy, tv_UpdatedAt := now\<rparr>)
        (d_trips d))))"

record trip_stats =
  ys_Total :: nat
  ys_Draft :: nat
  ys_Submitted :: nat
  ys_UnderReview :: nat
  ys_Approved :: nat
  ys_Rejected :: nat

definition Travel_SummaryStats :: "faults \<Rightarrow> uuid \<Rightarrow> uuid option \<Rightarrow> uuid option \<Rightarrow> db \<Rightarrow> err + trip_stats" where
  [store_defs]: "Travel_SummaryStats flt tenantID userID scope d =
     (if flt ''travel.SummaryStats'' 0 then Inl (Fault ''travel.SummaryStats'')
      else let rows = filter (\<lambda>x. tv_TenantID x = tenantID \<and>
             (case userID of None \<Rightarrow> True | Some u \<Rightarrow> tv_UserID x = u) \<and> in_scope scope (tv_SubOrgID x)) (d_trips d);
               num = (\<lambda>s. sql_affected (\<lambda>x. tv_Status x = s) rows) in
        Inr \<lparr>ys_Total = length rows, ys_Draft = num ''draft'', ys_Submitted = num ''submitted'',
             ys_UnderReview = num ''under_review'', ys_Approved = num ''approved'', ys_Rejected = num ''rejected''\<rparr>)"

subsection \<open>Attachments\<close>

definition Travel_CreateUpload :: "faults \<Rightarrow> trip_upload \<Rightarrow> db \<Rightarrow> (db, unit) store_result" where
  [store_defs]: "Travel_CreateUpload flt u d =
     (if flt ''travel.CreateUpload'' 0 \<or> \<not> sql_exists (\<lambda>x. tv_ID x = tl_ReportID u) (d_trips d)
      then (d, Inl (Fault ''travel.CreateUpload''))
      else (d\<lparr>d_trip_uploads := d_trip_uploads d @ [u]\<rparr>, Inr ()))"

definition trip_upload_in :: "db \<Rightarrow> uuid \<Rightarrow> uuid \<Rightarrow> trip_upload \<Rightarrow> bool" where
  "trip_upload_in d tenantID uploadID u =
     (tl_ID u = uploadID \<and> sql_exists (\<lambda>x. tv_ID x = tl_ReportID u \<and> tv_TenantID x = tenantID) (d_trips d))"

definition Travel_GetUploadForDownload :: "faults \<Rightarrow> uuid \<Rightarrow> uuid \<Rightarrow> db \<Rightarrow> err + string \<times> string \<times> string" where
  [store_defs]: "Travel_GetUploadForDownload flt tenantID uploadID d =
     (case query_row flt ''travel.GetUploadForDownload'' ErrNotFound (trip_upload_in d tenantID uploadID) (d_trip_uploads d) of
        Inl e \<Rightarrow> Inl e | Inr u \<Rightarrow> Inr (tl_StorageKey u, tl_FileName u, tl_ContentType u))"

definition Travel_DeleteUpload :: "faults \<Rightarrow> uuid \<Rightarrow> uuid \<Rightarrow> db \<Rightarrow> (db, string) store_result" where
  [store_defs]: "Travel_DeleteUpload flt tenantID uploadID d =
     (case query_row flt ''travel.DeleteUpload'' ErrNotFound (trip_upload_in d tenantID uploadID) (d_trip_uploads d) of
        Inl e \<Rightarrow> (d, Inl e)
      | Inr u \<Rightarrow> (d\<lparr>d_trip_uploads := sql_delete (trip_upload_in d tenantID uploadID) (d_trip_uploads d)\<rparr>, Inr (tl_StorageKey u)))"

text \<open>Empty strings for a user not found.\<close>

definition Travel_GetUserContact :: "faults \<Rightarrow> uuid \<Rightarrow> uuid \<Rightarrow> db \<Rightarrow> err + string \<times> string" where
  [store_defs]: "Travel_GetUserContact flt tenantID userID d =
     (if flt ''travel.GetUserContact'' 0 then Inl (Fault ''travel.GetUserContact'')
      else case contact_of d userID of None \<Rightarrow> Inr ([], [])
      | Some (u, n) \<Rightarrow> if u_TenantID u = tenantID then Inr (i_Email n, i_Name n) else Inr ([], []))"

subsection \<open>Debriefs\<close>

text \<open>The statements the loop of the cron job issues for every report are told apart, for the
  fault oracle, by the id of the report.\<close>

definition CreateDebrief ::
  "faults \<Rightarrow> time \<Rightarrow> uuid \<Rightarrow> uuid \<Rightarrow> uuid \<Rightarrow> uuid \<Rightarrow> time option \<Rightarrow> db \<Rightarrow> (db, debrief) store_result" where
  [store_defs]: "CreateDebrief flt now i reportID tenantID userID dueDate d =
     (if flt ''travel.CreateDebrief'' reportID \<or> \<not> sql_exists (\<lambda>x. tv_ID x = reportID) (d_trips d) \<or>
         tenant_by d tenantID = None \<or> user_by d userID = None
      then (d, Inl (Fault ''travel.CreateDebrief''))
      else let x = \<lparr>de_ID = i, de_ReportID = reportID, de_TenantID = tenantID, de_UserID = userID, de_Status = ''pending'',
                    de_DueDate = map_option sql_date dueDate, de_Answers = replicate 4 (None, []), de_SubmittedAt = None,
                    de_CreatedAt = now, de_UpdatedAt = now\<rparr>
        in (d\<lparr>d_debriefs := d_debriefs d @ [x]\<rparr>, Inr x))"

definition MarkDebriefCreated :: "faults \<Rightarrow> time \<Rightarrow> uuid \<Rightarrow> db \<Rightarrow> (db, unit) store_result" where
  [store_defs]: "MarkDebriefCreated flt now reportID d =
     (if flt ''travel.MarkDebriefCreated'' reportID then (d, Inl (Fault ''travel.MarkDebriefCreated''))
      else (d\<lparr>d_trips := sql_update (\<lambda>x. tv_ID x = reportID) (\<lambda>x. x\<lparr>tv_DebriefCreatedAt := Some now\<rparr>) (d_trips d)\<rparr>, Inr ()))"

text \<open>Approved, not debriefed, with a country that has an end date, and every country's end
  date known and past.\<close>

definition trip_over :: "time \<Rightarrow> db \<Rightarrow> trip \<Rightarrow> bool" where
  "trip_over now d x = (let cs = filter (\<lambda>c. cy_ReportID c = tv_ID x) (d_countries d) in
     tv_Status x = ''approved'' \<and> tv_DebriefCreatedAt x = None \<and> list_ex (\<lambda>c. cy_EndDate c \<noteq> None) cs \<and>
     \<not> list_ex (\<lambda>c. case cy_EndDate c of None \<Rightarrow> True | Some e \<Rightarrow> e \<ge> sql_date now) cs)"

definition ListPendingDebriefReports :: "faults \<Rightarrow> time \<Rightarrow> db \<Rightarrow> err + trip list" where
  [store_defs]: "ListPendingDebriefReports flt now d =
     (if flt ''travel.ListPendingDebriefReports'' 0 then Inl (Fault ''travel.ListPendingDebriefReports'')
      else Inr (filter (trip_over now d) (d_trips d)))"

text \<open>A debrief with the name of its trip.\<close>

definition debrief_view :: "db \<Rightarrow> debrief \<Rightarrow> (debrief \<times> string) option" where
  "debrief_view d x = map_option (\<lambda>r. (x, tv_TripName (tv_Form r))) (sql_row (\<lambda>r. tv_ID r = de_ReportID x) (d_trips d))"

definition ListMyDebriefs :: "faults \<Rightarrow> uuid \<Rightarrow> uuid \<Rightarrow> db \<Rightarrow> err + (debrief \<times> string) list" where
  [store_defs]: "ListMyDebriefs flt tenantID userID d =
     (if flt ''travel.ListMyDebriefs'' 0 then Inl (Fault ''travel.ListMyDebriefs'')
      else Inr (List.map_filter (debrief_view d)
        (sql_desc de_CreatedAt (filter (\<lambda>x. de_TenantID x = tenantID \<and> de_UserID x = userID) (d_debriefs d)))))"

definition the_debrief :: "db \<Rightarrow> err + debrief \<Rightarrow> err + debrief \<times> string" where
  "the_debrief d res = (case res of Inl e \<Rightarrow> Inl e
     | Inr x \<Rightarrow> (case debrief_view d x of None \<Rightarrow> Inl ErrDebriefNotFound | Some v \<Rightarrow> Inr v))"

definition GetDebrief :: "faults \<Rightarrow> uuid \<Rightarrow> uuid \<Rightarrow> uuid \<Rightarrow> db \<Rightarrow> err + debrief \<times> string" where
  [store_defs]: "GetDebrief flt tenantID userID i d = the_debrief d (query_row flt ''travel.GetDebrief'' ErrDebriefNotFound
     (\<lambda>x. de_ID x = i \<and> de_TenantID x = tenantID \<and> de_UserID x = userID) (d_debriefs d))"

definition GetDebriefAdmin :: "faults \<Rightarrow> uuid \<Rightarrow> uuid \<Rightarrow> db \<Rightarrow> err + debrief \<times> string" where
  [store_defs]: "GetDebriefAdmin flt tenantID i d = the_debrief d (query_row flt ''travel.GetDebriefAdmin'' ErrDebriefNotFound
     (\<lambda>x. de_ID x = i \<and> de_TenantID x = tenantID) (d_debriefs d))"

text \<open>The answers: for each of the four questions a flag and details.\<close>

type_synonym debrief_answers = "(bool \<times> string) list"

definition Store_SubmitDebrief :: "faults \<Rightarrow> time \<Rightarrow> uuid \<Rightarrow> debrief_answers \<Rightarrow> db \<Rightarrow> (db, unit) store_result" where
  [store_defs]: "Store_SubmitDebrief flt now i answers d =
     (case done_some ErrDebriefNotFound (exec_update flt ''travel.SubmitDebrief''
             (\<lambda>x. de_ID x = i \<and> de_Status x = ''pending'')
             (\<lambda>x. x\<lparr>de_Status := ''submitted'', de_Answers := map (\<lambda>(v, s). (Some v, s)) answers,
                    de_SubmittedAt := Some now, de_UpdatedAt := now\<rparr>) (d_debriefs d)) of
        (t, res) \<Rightarrow> (d\<lparr>d_debriefs := t\<rparr>, res))"

end
