(* ===== verification/Travel_Handlers.thy ===== *)
theory Travel_Handlers
  imports Travel
begin

text \<open>
  \<^verbatim>\<open>backend/internal/travel/handler.go\<close> and \<^verbatim>\<open>cron.go\<close>: the requests on travel
  reports and debriefs, and the daily job that asks travellers for a debrief.
\<close>

definition travel_audit :: "request \<Rightarrow> session \<Rightarrow> uuid \<Rightarrow> string \<Rightarrow> (string \<times> json) list \<Rightarrow> (db, unit) state" where
  "travel_audit r sess tenantID action meta =
     audit_log r 0 action (Some (s_IdentityID sess)) (Some (s_ID sess)) (Some tenantID) meta"

definition trip_not_found :: "string \<Rightarrow> err \<Rightarrow> 'b response" where
  "trip_not_found text e = (if e = ErrNotFound then Abort StatusNotFound (Msg text) else internal_error)"

subsection \<open>Travellers\<close>

definition CreateReport :: "libs \<Rightarrow> request \<Rightarrow> travel_params option \<Rightarrow> (db, trip response) state" where
  [http_defs]: "CreateReport L r req = with_member r (\<lambda>sess tenantID userID.
     (case req of None \<Rightarrow> reply invalid_request | Some q \<Rightarrow> do {
        made \<leftarrow> on_db (Travel_Create (r_flt r) (r_now r) (r_fresh r 0) (\<lambda>n. r_fresh r (Suc n))
          (q\<lparr>tp_Tenant := tenantID, tp_User := userID, tp_SubOrg := s_SubOrgID sess\<rparr>));
        (case made of Inl _ \<Rightarrow> reply internal_error | Inr x \<Rightarrow> do {
           travel_audit r sess tenantID ''travel_report_created'' [(''report_id'', JId (tv_ID x))];
           reply (Respond StatusCreated x)
         })
      }))"

definition ListMyReports :: "libs \<Rightarrow> request \<Rightarrow> page_query \<Rightarrow> (db, (trip_row list \<times> nat) response) state" where
  [http_defs]: "ListMyReports L r q = with_member r (\<lambda>sess tenantID userID. do {
     res \<leftarrow> asks (Travel_List (l_ilike L) (r_flt r) (my_filters tenantID userID q));
     (case res of Inl _ \<Rightarrow> reply internal_error | Inr x \<Rightarrow> reply (Respond StatusOK x))
   })"

definition GetMyStats :: "request \<Rightarrow> (db, trip_stats response) state" where
  [http_defs]: "GetMyStats r = with_member r (\<lambda>sess tenantID userID. do {
     res \<leftarrow> asks (Travel_SummaryStats (r_flt r) tenantID (Some userID) None);
     (case res of Inl _ \<Rightarrow> reply internal_error | Inr x \<Rightarrow> reply (Respond StatusOK x))
   })"

definition GetReport :: "libs \<Rightarrow> request \<Rightarrow> string \<Rightarrow> (db, trip_detail response) state" where
  [http_defs]: "GetReport L r id_param = with_member r (\<lambda>sess tenantID userID.
     with_uuid L ''invalid report ID'' id_param (\<lambda>i. do {
       res \<leftarrow> asks (Travel_Get (r_flt r) tenantID userID i);
       (case res of Inl e \<Rightarrow> reply (trip_not_found ''report not found'' e) | Inr x \<Rightarrow> reply (Respond StatusOK x))
     }))"

definition UpdateReport ::
  "libs \<Rightarrow> request \<Rightarrow> string \<Rightarrow> (trip_form \<times> country_params list) option \<Rightarrow> (db, unit response) state" where
  [http_defs]: "UpdateReport L r id_param req = with_member r (\<lambda>sess tenantID userID.
     with_uuid L ''invalid report ID'' id_param (\<lambda>i.
     (case req of None \<Rightarrow> reply invalid_request | Some (form, countries) \<Rightarrow> do {
        upd \<leftarrow> on_db (Travel_Update (r_flt r) (r_now r) (r_fresh r) tenantID userID i form countries);
        (case upd of Inl e \<Rightarrow> reply (trip_not_found ''report not found or not a draft'' e) | Inr _ \<Rightarrow> reply (Respond StatusOK ()))
      })))"

definition SubmitReport :: "libs \<Rightarrow> request \<Rightarrow> string \<Rightarrow> (db, unit response) state" where
  [http_defs]: "SubmitReport L r id_param = with_member r (\<lambda>sess tenantID userID.
     with_uuid L ''invalid report ID'' id_param (\<lambda>i. do {
       upd \<leftarrow> on_db (Travel_Submit (r_flt r) (r_now r) tenantID userID i);
       (case upd of Inl e \<Rightarrow> reply (trip_not_found ''report not found or not a draft'' e) | Inr _ \<Rightarrow> do {
          queue_item L r 0 (review_params tenantID ''travel_report'' i ''Travel Report Submitted''
            ''A travel report requires FSO review'' (s_SubOrgID sess));
          travel_audit r sess tenantID ''travel_report_submitted'' [(''report_id'', JId i)];
          reply (Respond StatusOK ())
        })
     }))"

definition Travel_UploadFile ::
  "scanner \<Rightarrow> storage_backend \<Rightarrow> libs \<Rightarrow> request \<Rightarrow> string \<Rightarrow> form_file option \<Rightarrow> (db, trip_upload response) state" where
  [http_defs]: "Travel_UploadFile sc sb L r id_param form = with_member r (\<lambda>sess tenantID userID.
     with_uuid L ''invalid report ID'' id_param (\<lambda>i.
     (case FormFile form of None \<Rightarrow> reply (bad_request ''file is required or exceeds size limit'') | Some f \<Rightarrow>
        let safeName = path_base (ff_Filename f) in
        if safeName = ''.'' \<or> safeName = ''/'' \<or> safeName = [] then reply (bad_request ''invalid filename'')
        else (case SniffContentType (l_sniff L) (r_flt r) f of
           Inl _ \<Rightarrow> reply (bad_request ''failed to read file'')
         | Inr contentType \<Rightarrow> scan_first sc r f (
             let key = TravelKeyPrefix (l_uuid_text L) tenantID i @ ''/'' @ safeName in do {
               stored \<leftarrow> on_files (sb_Upload sb (r_flt r) key (ff_Content f));
               (case stored of Inl _ \<Rightarrow> reply (Abort StatusInternalServerError (Msg ''upload failed'')) | Inr _ \<Rightarrow>
                  let u = \<lparr>tl_ID = r_fresh r 0, tl_ReportID = i, tl_FileName = safeName, tl_FileSize = ff_Size f,
                           tl_ContentType = contentType, tl_StorageKey = key, tl_CreatedAt = r_now r\<rparr> in do {
                    recorded \<leftarrow> on_db (Travel_CreateUpload (r_flt r) u);
                    (case recorded of Inl _ \<Rightarrow> reply internal_error | Inr _ \<Rightarrow> reply (Respond StatusCreated u))
                  })
             })))))"

definition Travel_Handler_DeleteUpload :: "storage_backend \<Rightarrow> libs \<Rightarrow> request \<Rightarrow> string \<Rightarrow> (db, unit response) state" where
  [http_defs]: "Travel_Handler_DeleteUpload sb L r upload_param = with_member r (\<lambda>sess tenantID userID.
     with_uuid L ''invalid upload ID'' upload_param (\<lambda>u. do {
       res \<leftarrow> on_db (Travel_DeleteUpload (r_flt r) tenantID u);
       (case res of Inl e \<Rightarrow> reply (trip_not_found ''upload not found'' e) | Inr key \<Rightarrow> do {
          on_files (sb_Delete sb (r_flt r) key);
          reply (Respond StatusNoContent ())
        })
     }))"

definition Travel_DownloadUpload :: "storage_backend \<Rightarrow> libs \<Rightarrow> request \<Rightarrow> string \<Rightarrow> (db, string response) state" where
  [http_defs]: "Travel_DownloadUpload sb L r upload_param = with_member r (\<lambda>sess tenantID userID.
     with_uuid L ''invalid upload ID'' upload_param (\<lambda>u. do {
       res \<leftarrow> asks (Travel_GetUploadForDownload (r_flt r) tenantID u);
       (case res of Inl e \<Rightarrow> reply (trip_not_found ''upload not found'' e) | Inr (key, _, _) \<Rightarrow>
          (case sb_SignedURL sb (r_flt r) key of Inl _ \<Rightarrow> reply internal_error | Inr url \<Rightarrow> reply (Respond StatusFound url)))
     }))"

subsection \<open>Debriefs\<close>

definition GetMyDebriefs :: "request \<Rightarrow> (db, (debrief \<times> string) list response) state" where
  [http_defs]: "GetMyDebriefs r = with_member r (\<lambda>sess tenantID userID. do {
     res \<leftarrow> asks (ListMyDebriefs (r_flt r) tenantID userID);
     (case res of Inl _ \<Rightarrow> reply internal_error | Inr x \<Rightarrow> reply (Respond StatusOK x))
   })"

abbreviation newline :: string where "newline \<equiv> [CHR 0x0A]"
abbreviation quoted :: "string \<Rightarrow> string" where "quoted s \<equiv> [CHR 0x22] @ s @ [CHR 0x22]"

definition yn :: "bool \<Rightarrow> string" where "yn v = (if v then ''Yes'' else ''No'')"

definition debrief_detail :: "bool \<Rightarrow> string \<Rightarrow> string" where
  "debrief_detail v s = (if v \<and> s \<noteq> [] then '' '' @ [CHR 0xE2, CHR 0x80, CHR 0x94] @ '' '' @ s else [])"

definition debrief_questions :: "string list" where
  "debrief_questions = [''1. Approached or contacted by a foreign national seeking sensitive information?'',
     ''2. Observed any suspicious surveillance or monitoring?'',
     ''3. Equipment, device, or sensitive material lost, stolen, or compromised?'',
     ''4. Received unusual or unexpected requests for information or access?'']"

definition buildDebriefDescription :: "string \<Rightarrow> debrief_answers \<Rightarrow> string" where
  "buildDebriefDescription tripName answers = ''Post-travel debrief submitted for trip '' @ quoted tripName @ ''.'' @
     concat (map (\<lambda>(q, v, s). newline @ newline @ q @ newline @ ''   '' @ yn v @ debrief_detail v s) (zip debrief_questions answers))"

definition SubmitDebrief :: "libs \<Rightarrow> request \<Rightarrow> string \<Rightarrow> debrief_answers option \<Rightarrow> (db, unit response) state" where
  [http_defs]: "SubmitDebrief L r id_param req = with_member r (\<lambda>sess tenantID userID.
     with_uuid L ''invalid debrief ID'' id_param (\<lambda>i.
     (case req of None \<Rightarrow> reply invalid_request | Some answers \<Rightarrow> do {
        found \<leftarrow> asks (GetDebrief (r_flt r) tenantID userID i);
        (case found of
           Inl e \<Rightarrow> reply (if e = ErrDebriefNotFound then Abort StatusNotFound (Msg ''debrief not found'') else internal_error)
         | Inr (x, tripName) \<Rightarrow> do {
             upd \<leftarrow> on_db (Store_SubmitDebrief (r_flt r) (r_now r) i answers);
             (case upd of
                Inl e \<Rightarrow> reply (if e = ErrDebriefNotFound
                  then Abort StatusConflict (Msg ''debrief already submitted or not found'') else internal_error)
              | Inr _ \<Rightarrow> do {
                  on_db (ResolveBySource (r_flt r) (r_now r) tenantID ''travel_debrief'' i);
                  parent \<leftarrow> asks (Travel_AdminGet (r_flt r) tenantID (de_ReportID x));
                  queue_item L r 0 (review_params tenantID ''travel_debrief'' i (''Process Post-Travel Debrief: '' @ tripName)
                    (buildDebriefDescription tripName answers)
                    (case parent of Inl _ \<Rightarrow> None | Inr y \<Rightarrow> tv_SubOrgID (rd_Report y)));
                  reply (Respond StatusOK ())
                })
           })
      })))"

definition AdminGetDebrief :: "libs \<Rightarrow> request \<Rightarrow> string \<Rightarrow> (db, (debrief \<times> string) response) state" where
  [http_defs]: "AdminGetDebrief L r id_param = with_member r (\<lambda>sess tenantID userID.
     with_uuid L ''invalid debrief ID'' id_param (\<lambda>i. do {
       res \<leftarrow> asks (GetDebriefAdmin (r_flt r) tenantID i);
       (case res of
          Inl e \<Rightarrow> reply (if e = ErrDebriefNotFound then Abort StatusNotFound (Msg ''debrief not found'') else internal_error)
        | Inr x \<Rightarrow> reply (Respond StatusOK x))
     }))"

subsection \<open>Officers\<close>

definition ListReports :: "libs \<Rightarrow> request \<Rightarrow> page_query \<Rightarrow> (db, (trip_row list \<times> nat) response) state" where
  [http_defs]: "ListReports L r q = with_member r (\<lambda>sess tenantID userID. do {
     res \<leftarrow> asks (Travel_List (l_ilike L) (r_flt r) (admin_filters L r sess tenantID q));
     (case res of Inl _ \<Rightarrow> reply internal_error | Inr x \<Rightarrow> reply (Respond StatusOK x))
   })"

definition GetStats :: "libs \<Rightarrow> request \<Rightarrow> string \<Rightarrow> (db, trip_stats response) state" where
  [http_defs]: "GetStats L r sub_org_id = with_member r (\<lambda>sess tenantID userID. do {
     res \<leftarrow> asks (Travel_SummaryStats (r_flt r) tenantID None (scope_of L r sess sub_org_id));
     (case res of Inl _ \<Rightarrow> reply internal_error | Inr x \<Rightarrow> reply (Respond StatusOK x))
   })"

text \<open>Opening a submitted report puts it under review.\<close>

definition AdminGetReport :: "libs \<Rightarrow> request \<Rightarrow> string \<Rightarrow> (db, trip_detail response) state" where
  [http_defs]: "AdminGetReport L r id_param = with_member r (\<lambda>sess tenantID userID.
     with_uuid L ''invalid report ID'' id_param (\<lambda>i. do {
       on_db (MarkUnderReview (r_flt r) (r_now r) tenantID i);
       res \<leftarrow> asks (Travel_AdminGet (r_flt r) tenantID i);
       (case res of Inl e \<Rightarrow> reply (trip_not_found ''report not found'' e) | Inr x \<Rightarrow> reply (Respond StatusOK x))
     }))"

text \<open>Approval and rejection differ in the status and the audited action.\<close>

definition decide_report :: "string \<Rightarrow> string \<Rightarrow> libs \<Rightarrow> request \<Rightarrow> string \<Rightarrow> (db, unit response) state" where
  [http_defs]: "decide_report status action L r id_param = with_member r (\<lambda>sess tenantID userID.
     with_uuid L ''invalid report ID'' id_param (\<lambda>i. do {
       upd \<leftarrow> on_db (Travel_UpdateStatus (r_flt r) (r_now r) tenantID i status userID);
       (case upd of Inl e \<Rightarrow> reply (trip_not_found ''report not found'' e) | Inr _ \<Rightarrow> do {
          on_db (ResolveBySource (r_flt r) (r_now r) tenantID ''travel_report'' i);
          travel_audit r sess tenantID action [(''report_id'', JId i)];
          reply (Respond StatusOK ())
        })
     }))"

definition ApproveReport :: "libs \<Rightarrow> request \<Rightarrow> string \<Rightarrow> (db, unit response) state" where
  [http_defs]: "ApproveReport = decide_report ''approved'' ''travel_report_approved''"

definition RejectReport :: "libs \<Rightarrow> request \<Rightarrow> string \<Rightarrow> (db, unit response) state" where
  [http_defs]: "RejectReport = decide_report ''rejected'' ''travel_report_rejected''"

text \<open>The updater \<^verbatim>\<open>router.New\<close> registers for travel reports.\<close>

definition travel_report_updater :: source_updater where
  "travel_report_updater r tenantID sourceID reviewerID status d =
     Travel_UpdateStatus (r_flt r) (r_now r) tenantID sourceID status reviewerID d"

subsection \<open>Business days\<close>

text \<open>\<^verbatim>\<open>time.Weekday\<close> of a time in UTC, Sunday zero; the first of January 1970 was a Thursday.\<close>

definition Weekday :: "time \<Rightarrow> int" where
  "Weekday t = (t div day + 4) mod 7"

definition weekend :: "time \<Rightarrow> bool" where
  "weekend t = (Weekday t = 6 \<or> Weekday t = 0)"

lemma Weekday_add: "Weekday (t + day) = (Weekday t + 1) mod 7"
proof -
  have "(t + day) div day = t div day + 1" by simp
  then show ?thesis by (simp only: Weekday_def) presburger
qed

lemmas Weekday_next [simp] = Weekday_add [simplified]

lemma Weekday_range: "0 \<le> Weekday t" "Weekday t < 7"
  by (simp_all add: Weekday_def)

text \<open>The loop: a day forward at a time, counting the days that are no weekend. The measure
  counts three for each business day to come and the weekend days right ahead.\<close>

definition weekend_ahead :: "time \<Rightarrow> nat" where
  "weekend_ahead t = (if Weekday t = 5 then 2 else if Weekday t = 6 then 1 else 0)"

lemma weekend_ahead_less: "weekend (t + day) \<Longrightarrow> weekend_ahead (t + day) < weekend_ahead t"
proof -
  assume "weekend (t + day)"
  moreover have "\<And>w :: int. 0 \<le> w \<Longrightarrow> w < 7 \<Longrightarrow> (w + 1) mod 7 = 6 \<or> (w + 1) mod 7 = 0 \<Longrightarrow> w = 5 \<or> w = 6" by presburger
  ultimately have "Weekday t = 5 \<or> Weekday t = 6"
    using Weekday_range [of t] by (simp add: weekend_def)
  then show ?thesis by (auto simp: weekend_ahead_def)
qed

function addBusinessDays :: "time \<Rightarrow> int \<Rightarrow> time" where
  "addBusinessDays t n = (if n \<le> 0 then t
     else addBusinessDays (t + day) (if weekend (t + day) then n else n - 1))"
  by auto
termination
proof (relation "measure (\<lambda>(t, n). 3 * nat n + weekend_ahead t)")
  fix t n :: int
  assume n: "\<not> n \<le> 0"
  show "((t + day, if weekend (t + day) then n else n - 1), (t, n)) \<in> measure (\<lambda>(t, n). 3 * nat n + weekend_ahead t)"
  proof (cases "weekend (t + day)")
    case True
    then show ?thesis using weekend_ahead_less [of t] by simp
  next
    case False
    have "weekend_ahead (t + day) \<le> 2" by (simp add: weekend_ahead_def)
    moreover have "nat n = nat (n - 1) + 1" using n by simp
    ultimately show ?thesis using False by simp
  qed
qed simp

declare addBusinessDays.simps [simp del]

subsection \<open>The job\<close>

definition debrief_item :: "trip \<Rightarrow> uuid \<Rightarrow> time \<Rightarrow> item_params" where
  "debrief_item x debriefID dueDate = (review_params (tv_TenantID x) ''travel_debrief'' debriefID
     (''Post-Travel Debrief Pending: '' @ tv_TripName (tv_Form x))
     (''IC has been sent a post-travel debrief questionnaire for trip '' @ quoted (tv_TripName (tv_Form x)) @
      ''. Awaiting IC submission.'') (tv_SubOrgID x))\<lparr>ip_DueDate := Some dueDate\<rparr>"

text \<open>The body of the loop; \<open>n\<close> counts the reports, each of which takes two ids. The result is
  whether a debrief was created.\<close>

definition debrief_one :: "libs \<Rightarrow> request \<Rightarrow> time \<Rightarrow> nat \<Rightarrow> trip \<Rightarrow> (db, bool) state" where
  [http_defs]: "debrief_one L r dueDate n x = do {
     made \<leftarrow> on_db (CreateDebrief (r_flt r) (r_now r) (r_fresh r (2 * n)) (tv_ID x) (tv_TenantID x) (tv_UserID x) (Some dueDate));
     (case made of Inl _ \<Rightarrow> reply False | Inr y \<Rightarrow> do {
        on_db (MarkDebriefCreated (r_flt r) (r_now r) (tv_ID x));
        contact \<leftarrow> asks (Travel_GetUserContact (r_flt r) (tv_TenantID x) (tv_UserID x));
        (case contact of Inl _ \<Rightarrow> reply ()
         | Inr (email, name) \<Rightarrow> if email \<noteq> [] then notify [DebriefAssigned (tv_UserID x) email name (de_ID y)] else reply ());
        queue_item L r (2 * n + 1) (debrief_item x (de_ID y) dueDate);
        reply True
      })
   }"

fun debrief_all :: "libs \<Rightarrow> request \<Rightarrow> time \<Rightarrow> nat \<Rightarrow> trip list \<Rightarrow> (db, nat) state" where
  "debrief_all L r dueDate n [] = reply 0"
| "debrief_all L r dueDate n (x # xs) = do {
     created \<leftarrow> debrief_one L r dueDate n x;
     rest \<leftarrow> debrief_all L r dueDate (Suc n) xs;
     reply ((if created then 1 else 0) + rest)
   }"

definition DebriefCron :: "libs \<Rightarrow> request \<Rightarrow> (db, nat response) state" where
  [http_defs]: "DebriefCron L r = do {
     found \<leftarrow> asks (ListPendingDebriefReports (r_flt r) (r_now r));
     (case found of Inl _ \<Rightarrow> reply internal_error | Inr reports \<Rightarrow> do {
        created \<leftarrow> debrief_all L r (addBusinessDays (r_now r) 5) 0 reports;
        reply (Respond StatusOK created)
      })
   }"

end
