(* ===== verification/Source_Updaters.thy ===== *)
theory Source_Updaters
  imports Task_Handlers Reports Visit_Handlers Travel_Handlers
begin

text \<open>
  The map of source updaters \<^verbatim>\<open>router.New\<close> hands to the action-item handler: how the decision
  on an item reaches the row the item stands for.
\<close>

definition source_updaters :: "string \<Rightarrow> source_updater option" where
  "source_updaters source_type =
     (if source_type = ''visit_request'' then Some visit_request_updater
      else if source_type = ''travel_report'' then Some travel_report_updater
      else if source_type = ''report'' then Some report_updater
      else if source_type = ''task_submission'' then Some task_submission_updater
      else if source_type = ''travel_debrief'' then Some travel_debrief_updater else None)"

lemmas source_updater_defs = visit_request_updater_def travel_report_updater_def report_updater_def
  task_submission_updater_def travel_debrief_updater_def

text \<open>Every updater touches the table of its source only.\<close>

lemma Report_UpdateStatus_frame:
  "fst (Report_UpdateStatus flt now t i u st d) = d\<lparr>d_reports := d_reports (fst (Report_UpdateStatus flt now t i u st d))\<rparr>"
  by (auto simp: Report_UpdateStatus_def Let_def split: prod.split)

lemma Visit_UpdateStatus_frame:
  "fst (Visit_UpdateStatus flt now t i u st n d) = d\<lparr>d_visits := d_visits (fst (Visit_UpdateStatus flt now t i u st n d))\<rparr>"
  by (auto simp: Visit_UpdateStatus_def Let_def)

lemma Travel_UpdateStatus_frame:
  "fst (Travel_UpdateStatus flt now t i st u d) = d\<lparr>d_trips := d_trips (fst (Travel_UpdateStatus flt now t i st u d))\<rparr>"
  by (auto simp: Travel_UpdateStatus_def Let_def)

lemma same_completions [simp]:
  "d_completions (fst (Report_UpdateStatus flt now t i u st d)) = d_completions d"
  "d_completions (fst (Visit_UpdateStatus flt now t i u st n d)) = d_completions d"
  "d_completions (fst (Travel_UpdateStatus flt now t i st u d)) = d_completions d"
  by (subst Report_UpdateStatus_frame Visit_UpdateStatus_frame Travel_UpdateStatus_frame; simp)+

lemma same_items [simp]:
  "d_action_items (fst (Report_UpdateStatus flt now t i u st d)) = d_action_items d"
  "d_action_items (fst (Visit_UpdateStatus flt now t i u st n d)) = d_action_items d"
  "d_action_items (fst (Travel_UpdateStatus flt now t i st u d)) = d_action_items d"
  by (subst Report_UpdateStatus_frame Visit_UpdateStatus_frame Travel_UpdateStatus_frame; simp)+

end
