(* ===== verification/Team.thy ===== *)
theory Team
  imports DD254_Handlers
begin

text \<open>
  \<^verbatim>\<open>backend/internal/team\<close>: the members of a tenant with their clearances, the history of
  each, and the recording of a new clearance.
\<close>

abbreviation ErrInvalidClearance :: err where
  "ErrInvalidClearance \<equiv> ErrMsg ''invalid clearance level''"
abbreviation ErrInvalidInvestType :: err where
  "ErrInvalidInvestType \<equiv> ErrMsg ''invalid investigation type''"

definition ValidClearance :: "string \<Rightarrow> bool" where
  "ValidClearance s = (s \<in> {''none'', ''confidential'', ''secret'', ''top_secret'', ''ts_sci''})"

definition ValidInvestigationType :: "string \<Rightarrow> bool" where
  "ValidInvestigationType s = (s \<in> {''T3'', ''T3R'', ''T5'', ''T5R''})"

subsection \<open>Members\<close>

text \<open>A member with its sub-organizations (id, name) and its current clearance.\<close>

record member =
  mb_User :: user
  mb_Name :: string
  mb_Email :: string
  mb_Suspended :: bool
  mb_SubOrgs :: "(uuid \<times> string) list"
  mb_Clearance :: "clearance_record option"

definition clearance_by :: "db \<Rightarrow> uuid \<Rightarrow> clearance_record option" where
  "clearance_by d i = sql_row (\<lambda>c. cr_ID c = i) (d_clearances d)"

definition current_clearance :: "db \<Rightarrow> user \<Rightarrow> clearance_record option" where
  "current_clearance d u = Option.bind (u_CurrentClearanceID u) (clearance_by d)"

definition suborg_refs :: "(string \<Rightarrow> 'k::linorder) \<Rightarrow> db \<Rightarrow> uuid \<Rightarrow> (uuid \<times> string) list" where
  "suborg_refs coll d u = sort_key (\<lambda>(_, n). coll n) (List.map_filter
     (\<lambda>(m, s). if m = u then map_option (\<lambda>x. (so_ID x, so_Name x)) (suborg_by d s) else None) (d_members d))"

definition member_of :: "(string \<Rightarrow> 'k::linorder) \<Rightarrow> db \<Rightarrow> user \<Rightarrow> member option" where
  "member_of coll d u = map_option (\<lambda>n. \<lparr>mb_User = u, mb_Name = i_Name n, mb_Email = i_Email n,
     mb_Suspended = (i_SuspendedAt n \<noteq> None), mb_SubOrgs = suborg_refs coll d (u_ID u), mb_Clearance = current_clearance d u\<rparr>)
     (identity_by d (u_IdentityID u))"

record team_filters =
  eq_TenantID :: uuid
  eq_SubOrgScope :: "uuid option"
  eq_SubOrgID :: "uuid option"
  eq_Clearance :: string
  eq_DueWithinDays :: "int option"
  eq_Search :: string
  eq_Limit :: int
  eq_Offset :: int

definition in_suborg :: "db \<Rightarrow> uuid option \<Rightarrow> user \<Rightarrow> bool" where
  "in_suborg d so u = (case so of None \<Rightarrow> True | Some s \<Rightarrow> (u_ID u, s) \<in> set (d_members d))"

definition clearance_matches :: "string \<Rightarrow> clearance_record option \<Rightarrow> bool" where
  "clearance_matches q c = (if q = [] then True
     else if q = ''none_or_missing'' then (case c of None \<Rightarrow> True | Some x \<Rightarrow> cr_Clearance x = ''none'')
     else (case c of None \<Rightarrow> False | Some x \<Rightarrow> cr_Clearance x = q))"

definition due_by :: "time \<Rightarrow> clearance_record option \<Rightarrow> bool" where
  "due_by limit c = (case Option.bind c cr_NextInvestigationDate of None \<Rightarrow> False | Some t \<Rightarrow> t \<le> limit)"

definition member_matches :: "(string \<Rightarrow> string \<Rightarrow> bool) \<Rightarrow> time \<Rightarrow> team_filters \<Rightarrow> db \<Rightarrow> user \<Rightarrow> bool" where
  "member_matches ilike now q d u =
     (u_TenantID u = eq_TenantID q \<and> in_suborg d (eq_SubOrgScope q) u \<and> in_suborg d (eq_SubOrgID q) u \<and>
      clearance_matches (eq_Clearance q) (current_clearance d u) \<and>
      (case eq_DueWithinDays q of None \<Rightarrow> True | Some n \<Rightarrow> due_by (sql_date now + n * day) (current_clearance d u)) \<and>
      (case identity_by d (u_IdentityID u) of None \<Rightarrow> False
       | Some n \<Rightarrow> eq_Search q = [] \<or> ilike (i_Name n) (eq_Search q) \<or> ilike (i_Email n) (eq_Search q)))"

text \<open>The query fails on a clearance outside its enumeration, on a number of days that is no
  32-bit integer, and on a day outside the range of timestamps, which ends 106751983 days after
  the first of January 2000.\<close>

definition team_query_fails :: "time \<Rightarrow> team_filters \<Rightarrow> bool" where
  "team_query_fails now q =
     (eq_Clearance q \<notin> {[], ''none_or_missing''} \<and> \<not> ValidClearance (eq_Clearance q) \<or>
      (case eq_DueWithinDays q of None \<Rightarrow> False | Some n \<Rightarrow> n \<ge> 2 ^ 31 \<or> now div day - 10957 + n \<ge> 106751983))"

definition Team_List ::
  "(string \<Rightarrow> string \<Rightarrow> bool) \<Rightarrow> (string \<Rightarrow> 'k::linorder) \<Rightarrow> faults \<Rightarrow> time \<Rightarrow> team_filters \<Rightarrow> db \<Rightarrow> err + member list \<times> nat" where
  [store_defs]: "Team_List ilike coll flt now q d =
     (if flt ''team.List.count'' 0 \<or> team_query_fails now q then Inl (Fault ''team.List.count'')
      else if flt ''team.List'' 0 then Inl (Fault ''team.List'')
      else let rows = filter (member_matches ilike now q d) (d_users d);
               limit = (if eq_Limit q \<le> 0 then 50 else eq_Limit q) in
        Inr (sql_page limit (eq_Offset q) (sort_key (\<lambda>m. coll (mb_Name m)) (List.map_filter (member_of coll d) rows)), length rows))"

record team_stats =
  es_Members :: nat
  es_DueWithin90 :: nat
  es_Overdue :: nat

definition Team_Stats :: "faults \<Rightarrow> time \<Rightarrow> uuid \<Rightarrow> uuid option \<Rightarrow> uuid option \<Rightarrow> db \<Rightarrow> err + team_stats" where
  [store_defs]: "Team_Stats flt now tenantID scope subOrgID d =
     (if flt ''team.Stats'' 0 then Inl (Fault ''team.Stats'')
      else let rows = filter (\<lambda>u. u_TenantID u = tenantID \<and> in_suborg d scope u \<and> in_suborg d subOrgID u) (d_users d);
               next = (\<lambda>u. Option.bind (current_clearance d u) cr_NextInvestigationDate) in
        Inr \<lparr>es_Members = length rows,
             es_DueWithin90 = sql_affected (\<lambda>u. case next u of None \<Rightarrow> False
                | Some t \<Rightarrow> sql_date now \<le> t \<and> t \<le> sql_date now + 90 * day) rows,
             es_Overdue = sql_affected (\<lambda>u. case next u of None \<Rightarrow> False | Some t \<Rightarrow> t < sql_date now) rows\<rparr>)"

text \<open>A record with the name of its recorder.\<close>

definition clearance_history :: "faults \<Rightarrow> uuid \<Rightarrow> db \<Rightarrow> err + (clearance_record \<times> string) list" where
  [store_defs]: "clearance_history flt userID d =
     (if flt ''team.Get.history'' 0 then Inl (Fault ''team.Get.history'')
      else Inr (map (\<lambda>c. (c, case name_of d (cr_RecordedBy c) of None \<Rightarrow> ''(unknown)'' | Some n \<Rightarrow> n))
        (sql_desc cr_RecordedAt (filter (\<lambda>c. cr_UserID c = userID) (d_clearances d)))))"

definition Team_Get ::
  "(string \<Rightarrow> 'k::linorder) \<Rightarrow> faults \<Rightarrow> uuid \<Rightarrow> uuid \<Rightarrow> uuid option \<Rightarrow> db \<Rightarrow> err + member \<times> (clearance_record \<times> string) list" where
  [store_defs]: "Team_Get coll flt tenantID userID scope d =
     (let P = (\<lambda>u. u_ID u = userID \<and> u_TenantID u = tenantID) in
      if scope \<noteq> None \<and> flt ''team.Get.scopeCheck'' 0 then Inl (Fault ''team.Get.scopeCheck'')
      else if scope \<noteq> None \<and> \<not> sql_exists (\<lambda>u. P u \<and> in_suborg d scope u) (d_users d) then Inl ErrNotFound
      else if flt ''team.Get'' 0 then Inl (Fault ''team.Get'')
      else case Option.bind (sql_row P (d_users d)) (member_of coll d) of
        None \<Rightarrow> Inl ErrNotFound
      | Some m \<Rightarrow> (case clearance_history flt userID d of Inl e \<Rightarrow> Inl e | Inr h \<Rightarrow> Inr (m, h)))"

subsection \<open>Recording a clearance\<close>

record clearance_params =
  cp_Clearance :: string
  cp_InvestigationType :: "string option"
  cp_EligibilityDate :: "string option"
  cp_LastInvestigationDate :: "string option"
  cp_NextInvestigationDate :: "string option"
  cp_Notes :: string

definition parseOptionalDate :: "string option \<Rightarrow> time option option" where
  "parseOptionalDate s = (case s of None \<Rightarrow> Some None | Some x \<Rightarrow> if x = [] then Some None else map_option Some (ParseDate x))"

definition supersede :: "faults \<Rightarrow> time \<Rightarrow> uuid \<Rightarrow> db \<Rightarrow> (db, unit) store_result" where
  [store_defs]: "supersede flt now userID d =
     (case done_any (exec_update flt ''team.SetClearance.supersede'' (\<lambda>c. cr_UserID c = userID \<and> cr_SupersededAt c = None)
             (\<lambda>c. c\<lparr>cr_SupersededAt := Some now\<rparr>) (d_clearances d)) of
        (t, res) \<Rightarrow> (d\<lparr>d_clearances := t\<rparr>, res))"

definition insert_clearance :: "faults \<Rightarrow> clearance_record \<Rightarrow> db \<Rightarrow> (db, unit) store_result" where
  [store_defs]: "insert_clearance flt c d =
     (if flt ''team.SetClearance.insert'' 0 \<or> user_by d (cr_UserID c) = None \<or> user_by d (cr_RecordedBy c) = None
      then (d, Inl (Fault ''team.SetClearance.insert''))
      else (d\<lparr>d_clearances := d_clearances d @ [c]\<rparr>, Inr ()))"

definition repoint :: "faults \<Rightarrow> time \<Rightarrow> uuid \<Rightarrow> uuid \<Rightarrow> db \<Rightarrow> (db, unit) store_result" where
  [store_defs]: "repoint flt now i userID d =
     (case done_any (exec_update flt ''team.SetClearance.repoint'' (\<lambda>u. u_ID u = userID)
             (\<lambda>u. u\<lparr>u_CurrentClearanceID := Some i, u_UpdatedAt := now\<rparr>) (d_users d)) of
        (t, res) \<Rightarrow> (d\<lparr>d_users := t\<rparr>, res))"

text \<open>What is checked before anything changes: the row to be inserted, or the error.\<close>

definition clearance_row :: "time \<Rightarrow> uuid \<Rightarrow> uuid \<Rightarrow> uuid \<Rightarrow> clearance_params \<Rightarrow> err + clearance_record" where
  "clearance_row now i userID recordedBy p =
     (let inv = (case cp_InvestigationType p of None \<Rightarrow> None | Some s \<Rightarrow> if s = [] then None else Some s) in
      if \<not> ValidClearance (cp_Clearance p) then Inl ErrInvalidClearance
      else if (case inv of None \<Rightarrow> False | Some s \<Rightarrow> \<not> ValidInvestigationType s) then Inl ErrInvalidInvestType
      else (case parseOptionalDate (cp_EligibilityDate p) of None \<Rightarrow> Inl (ErrMsg ''eligibility_date'') | Some eligibility \<Rightarrow>
           (case parseOptionalDate (cp_LastInvestigationDate p) of None \<Rightarrow> Inl (ErrMsg ''last_investigation_date'') | Some lst \<Rightarrow>
           (case parseOptionalDate (cp_NextInvestigationDate p) of None \<Rightarrow> Inl (ErrMsg ''next_investigation_date'') | Some nxt \<Rightarrow>
              Inr \<lparr>cr_ID = i, cr_UserID = userID, cr_Clearance = cp_Clearance p, cr_InvestigationType = inv,
                   cr_EligibilityDate = eligibility, cr_LastInvestigationDate = lst, cr_NextInvestigationDate = nxt,
                   cr_Notes = cp_Notes p, cr_RecordedBy = recordedBy, cr_RecordedAt = now, cr_SupersededAt = None,
                   cr_LastDueReminderAt = None\<rparr>))))"

text \<open>Three statements, each committed by itself.\<close>

definition Team_SetClearance ::
  "faults \<Rightarrow> time \<Rightarrow> uuid \<Rightarrow> uuid \<Rightarrow> uuid \<Rightarrow> uuid \<Rightarrow> clearance_params \<Rightarrow> db \<Rightarrow> (db, clearance_record) store_result" where
  [store_defs]: "Team_SetClearance flt now i tenantID userID recordedBy p d =
     (case clearance_row now i userID recordedBy p of Inl e \<Rightarrow> (d, Inl e) | Inr c \<Rightarrow>
        if flt ''team.SetClearance.exists'' 0 then (d, Inl (Fault ''team.SetClearance.exists''))
        else if \<not> sql_exists (\<lambda>u. u_ID u = userID \<and> u_TenantID u = tenantID) (d_users d) then (d, Inl ErrNotFound)
        else (case supersede flt now userID d of (d1, Inl e) \<Rightarrow> (d1, Inl e) | (d1, Inr _) \<Rightarrow>
             (case insert_clearance flt c d1 of (d2, Inl e) \<Rightarrow> (d2, Inl e) | (d2, Inr _) \<Rightarrow>
             (case repoint flt now i userID d2 of (d3, Inl e) \<Rightarrow> (d3, Inl e) | (d3, Inr _) \<Rightarrow> (d3, Inr c)))))"

subsection \<open>Handlers\<close>

text \<open>\<^verbatim>\<open>strconv.Atoi\<close> with its error looked at\<close>

definition checked_Atoi :: "string \<Rightarrow> int option" where
  "checked_Atoi s = (case (case s of [] \<Rightarrow> None
       | c # cs \<Rightarrow> if c = CHR ''-'' then map_option uminus (read_number cs)
                   else if c = CHR ''+'' then read_number cs else read_number s) of
     None \<Rightarrow> None | Some n \<Rightarrow> if - (2 ^ 63) \<le> n \<and> n < 2 ^ 63 then Some n else None)"

record team_query =
  ek_Clearance :: string
  ek_Search :: string
  ek_SubOrgID :: string
  ek_DueWithinDays :: string
  ek_Limit :: string
  ek_Offset :: string

definition team_filters_of :: "libs \<Rightarrow> request \<Rightarrow> session \<Rightarrow> uuid \<Rightarrow> team_query \<Rightarrow> team_filters" where
  "team_filters_of L r sess tenantID q =
     (let scope = scope_of L r sess (ek_SubOrgID q);
          limit = (case checked_Atoi (ek_Limit q) of None \<Rightarrow> 50 | Some l \<Rightarrow> if l > 0 then l else 50) in
      \<lparr>eq_TenantID = tenantID, eq_SubOrgScope = scope,
       eq_SubOrgID = (if ek_SubOrgID q \<noteq> [] \<and> scope = None then l_uuid L (ek_SubOrgID q) else None),
       eq_Clearance = ek_Clearance q,
       eq_DueWithinDays = (case checked_Atoi (ek_DueWithinDays q) of None \<Rightarrow> None | Some n \<Rightarrow> if n \<ge> 0 then Some n else None),
       eq_Search = ek_Search q, eq_Limit = (if limit > 200 then 200 else limit),
       eq_Offset = (case checked_Atoi (ek_Offset q) of None \<Rightarrow> 0 | Some n \<Rightarrow> if n > 0 then n else 0)\<rparr>)"

definition Team_Handler_List :: "libs \<Rightarrow> request \<Rightarrow> team_query \<Rightarrow> (db, (member list \<times> nat) response) state" where
  [http_defs]: "Team_Handler_List L r q = with_member r (\<lambda>sess tenantID userID. do {
     res \<leftarrow> asks (Team_List (l_ilike L) (l_collate L) (r_flt r) (r_now r) (team_filters_of L r sess tenantID q));
     (case res of Inl _ \<Rightarrow> reply internal_error | Inr x \<Rightarrow> reply (Respond StatusOK x))
   })"

definition Team_Handler_Stats :: "libs \<Rightarrow> request \<Rightarrow> string \<Rightarrow> (db, team_stats response) state" where
  [http_defs]: "Team_Handler_Stats L r sub_org_id = with_member r (\<lambda>sess tenantID userID.
     let scope = scope_of L r sess sub_org_id in do {
       res \<leftarrow> asks (Team_Stats (r_flt r) (r_now r) tenantID scope
         (if sub_org_id \<noteq> [] \<and> scope = None then l_uuid L sub_org_id else None));
       (case res of Inl _ \<Rightarrow> reply internal_error | Inr x \<Rightarrow> reply (Respond StatusOK x))
     })"

definition member_not_found :: "err \<Rightarrow> 'b response" where
  "member_not_found e = (if e = ErrNotFound then Abort StatusNotFound (Msg ''member not found'') else internal_error)"

definition Team_Handler_Get ::
  "libs \<Rightarrow> request \<Rightarrow> string \<Rightarrow> string \<Rightarrow> (db, (member \<times> (clearance_record \<times> string) list) response) state" where
  [http_defs]: "Team_Handler_Get L r sub_org_id id_param = with_member r (\<lambda>sess tenantID userID.
     with_uuid L ''invalid user id'' id_param (\<lambda>i. do {
       res \<leftarrow> asks (Team_Get (l_collate L) (r_flt r) tenantID i (scope_of L r sess sub_org_id));
       (case res of Inl e \<Rightarrow> reply (member_not_found e) | Inr x \<Rightarrow> reply (Respond StatusOK x))
     }))"

text \<open>An officer with a scope must find the member in it before changing anything.\<close>

definition SetClearance ::
  "libs \<Rightarrow> request \<Rightarrow> string \<Rightarrow> string \<Rightarrow> clearance_params option \<Rightarrow> (db, clearance_record response) state" where
  [http_defs]: "SetClearance L r sub_org_id id_param req = with_member r (\<lambda>sess tenantID recorderID.
     with_uuid L ''invalid user id'' id_param (\<lambda>i. do {
       seen \<leftarrow> asks (\<lambda>d. let scope = scope_of L r sess sub_org_id in if scope = None then Inr ()
         else (case Team_Get (l_collate L) (r_flt r) tenantID i scope d of Inl e \<Rightarrow> Inl e | Inr _ \<Rightarrow> Inr ()));
       (case seen of Inl e \<Rightarrow> reply (member_not_found e) | Inr _ \<Rightarrow>
       (case req of None \<Rightarrow> reply invalid_request | Some p \<Rightarrow> do {
          res \<leftarrow> on_db (Team_SetClearance (r_flt r) (r_now r) (r_fresh r 0) tenantID i recorderID p);
          (case res of
             Inl e \<Rightarrow> reply (if e = ErrInvalidClearance then bad_request ''invalid clearance level''
               else if e = ErrInvalidInvestType then bad_request ''invalid investigation type'' else member_not_found e)
           | Inr c \<Rightarrow> do {
               audit_log r 0 ''clearance_updated'' (Some (s_IdentityID sess)) (Some (s_ID sess)) (Some tenantID)
                 [(''user_id'', JId i), (''clearance'', JStr (cr_Clearance c)), (''record_id'', JId (cr_ID c))];
               reply (Respond StatusOK c)
             })
        }))
     }))"

end
