(* ===== verification/Assistant.thy ===== *)
theory Assistant
  imports Verification
begin

text \<open>
  \<^verbatim>\<open>backend/internal/chat\<close>: the assistant. The language model is an argument: what it
  streams for a system prompt and a conversation, as a list of events. The text of the
  constant \<^verbatim>\<open>systemPrompt\<close> and the formatting of a date are arguments too.
\<close>

subsection \<open>Store\<close>

definition chat_role_check :: "string \<Rightarrow> bool" where
  "chat_role_check s = (s \<in> {''user'', ''assistant''})"

definition SaveMessage :: "faults \<Rightarrow> nat \<Rightarrow> time \<Rightarrow> uuid \<Rightarrow> uuid \<Rightarrow> uuid \<Rightarrow> string \<Rightarrow> string \<Rightarrow> db \<Rightarrow> (db, unit) store_result" where
  \<comment> \<open>the second argument counts the messages saved in the request\<close>
  [store_defs]: "SaveMessage flt n now i tenantID userID role content d =
     (if flt ''chat.SaveMessage'' n \<or> \<not> chat_role_check role \<or> tenant_by d tenantID = None \<or> user_by d userID = None
      then (d, Inl (Fault ''chat.SaveMessage''))
      else (d\<lparr>d_chat := d_chat d @ [\<lparr>ch_ID = i, ch_TenantID = tenantID, ch_UserID = userID, ch_Role = role, ch_Content = content,
        ch_CreatedAt = now\<rparr>]\<rparr>, Inr ()))"

abbreviation retention :: time where "retention \<equiv> 30 * day"

definition GetHistory :: "faults \<Rightarrow> time \<Rightarrow> uuid \<Rightarrow> uuid \<Rightarrow> nat \<Rightarrow> db \<Rightarrow> err + chat_message list" where
  [store_defs]: "GetHistory flt now tenantID userID limit d =
     (if flt ''chat.GetHistory'' 0 then Inl (Fault ''chat.GetHistory'')
      else Inr (rev (take limit (sql_desc ch_CreatedAt (filter (\<lambda>m. ch_TenantID m = tenantID \<and> ch_UserID m = userID \<and>
        ch_CreatedAt m > now - retention) (d_chat d))))))"

definition CleanupOld :: "faults \<Rightarrow> time \<Rightarrow> db \<Rightarrow> (db, nat) store_result" where
  [store_defs]: "CleanupOld flt now d =
     (case exec_delete flt ''chat.CleanupOld'' (\<lambda>m. ch_CreatedAt m < now - retention) (d_chat d) of
        (t, res) \<Rightarrow> (d\<lparr>d_chat := t\<rparr>, res))"

subsection \<open>Prompts\<close>

text \<open>The constant prompt, the formatting of a date.\<close>

record chat_texts =
  ct_systemPrompt :: string
  ct_date :: "time \<Rightarrow> string"

definition lf :: string where "lf = [CHR 0x0A]"

definition buildICPrompt :: "chat_texts \<Rightarrow> my_task_row list \<Rightarrow> string" where
  "buildICPrompt T tasks =
     (if tasks = [] then ct_systemPrompt T @ lf @ lf @ ''The user currently has no tasks assigned to them.''
      else ct_systemPrompt T @ lf @ lf @ ''## User's Assigned Tasks'' @ lf @ lf @
        concat (map (\<lambda>t. ''- **'' @ tk_Title (mt_Task t) @ ''** (status: '' @ status_text (mt_Status t) @
          '', priority: '' @ tk_Priority (mt_Task t) @
          (if tk_Description (mt_Task t) \<noteq> [] then '', details: '' @ tk_Description (mt_Task t) else []) @ '')'' @ lf) tasks))"

definition buildAdminPrompt :: "chat_texts \<Rightarrow> item_row list \<Rightarrow> string" where
  "buildAdminPrompt T items =
     (if items = [] then ct_systemPrompt T @ lf @ lf @ ''There are currently no action items.''
      else ct_systemPrompt T @ lf @ lf @ ''## Action Items'' @ lf @ lf @
        concat (map (\<lambda>x. let it = iv_Item (ir_View x) in
          ''- **'' @ ai_Title it @ ''** (status: '' @ ai_Status it @ '', priority: '' @ ai_Priority it @
          '', sub-org: '' @ (case ir_SubOrgName x of Some n \<Rightarrow> n | None \<Rightarrow> ''tenant-wide'') @
          '', assigned to: '' @ (case iv_Assignee (ir_View x) of Some (n, _) \<Rightarrow> n | None \<Rightarrow> ''unassigned'') @
          (case ai_DueDate it of Some t \<Rightarrow> '', due: '' @ ct_date T t | None \<Rightarrow> []) @
          (if ai_Description it \<noteq> [] then '', details: '' @ ai_Description it else []) @ '')'' @ lf) items))"

text \<open>Contributors see their tasks, officers the items in the sub-organization of their session,
  everybody else the items of the tenant.\<close>

definition fetchContext :: "chat_texts \<Rightarrow> libs \<Rightarrow> request \<Rightarrow> session \<Rightarrow> uuid \<Rightarrow> uuid \<Rightarrow> db \<Rightarrow> err + string" where
  "fetchContext T L r sess tenantID userID d =
     (let role = (case s_UserRole sess of None \<Rightarrow> [] | Some x \<Rightarrow> x) in
      if role = ''individual_contributor''
      then (case Store_ListMyTasks (l_ilike L) (r_flt r) tenantID userID [] 50 d of
              Inl e \<Rightarrow> Inl e | Inr tasks \<Rightarrow> Inr (buildICPrompt T tasks))
      else (case ActionItem_List (l_ilike L) (r_flt r) \<lparr>af_TenantID = tenantID, af_SourceType = [], af_Status = [], af_Search = [],
                af_SubOrgScope = (if role = ''fso'' \<or> role = ''read_only_fso'' then s_SubOrgID sess else None),
                af_AssignedTo = None, af_Limit = 50, af_Offset = 0\<rparr> d of
              Inl e \<Rightarrow> Inl e | Inr (items, _) \<Rightarrow> Inr (buildAdminPrompt T items)))"

subsection \<open>The conversation\<close>

text \<open>An event of the stream: pieces of text with the token counts so far, if given, or an error,
  such as the cancellation of the request.\<close>

datatype stream_event = Chunk "string list" "(int \<times> int) option" | Stream_Error

text \<open>System prompt, conversation (true for the model's turns), stream.\<close>

type_synonym chat_model = "string \<Rightarrow> (bool \<times> string) list \<Rightarrow> stream_event list"

datatype sent_event = Sent_Text string | Sent_Error | Sent_Done

definition chatFeature :: string where "chatFeature = ''chat''"
definition chatDailyMessageLimit :: nat where "chatDailyMessageLimit = 100"

definition startOfUTCDay :: "time \<Rightarrow> time" where
  "startOfUTCDay now = sql_date now"

text \<open>The loop over the stream: what is sent, and unless an error ended it, the reply and the last
  token counts.\<close>

fun consume :: "stream_event list \<Rightarrow> string \<Rightarrow> int \<times> int \<Rightarrow> sent_event list \<times> (string \<times> int \<times> int) option" where
  "consume [] acc tokens = ([Sent_Done], Some (acc, tokens))"
| "consume (Stream_Error # es) acc tokens = ([Sent_Error], None)"
| "consume (Chunk parts u # es) acc tokens =
     (let texts = filter (\<lambda>s. s \<noteq> []) parts;
          res = consume es (acc @ concat texts) (case u of None \<Rightarrow> tokens | Some t \<Rightarrow> t)
      in (map Sent_Text texts @ fst res, snd res))"

definition Chat ::
  "chat_texts \<Rightarrow> chat_model option \<Rightarrow> libs \<Rightarrow> request \<Rightarrow> string option \<Rightarrow> (db, sent_event list response) state" where
  [http_defs]: "Chat T client L r body =
     (case client of None \<Rightarrow> reply (Abort StatusServiceUnavailable (Msg ''AI assistant is not configured in this environment''))
      | Some model \<Rightarrow> with_member r (\<lambda>sess tenantID userID.
     (case body of None \<Rightarrow> reply (Abort StatusBadRequest (Msg ''message is required'')) | Some message \<Rightarrow>
      if TrimSpace message = [] then reply (Abort StatusBadRequest (Msg ''message is required''))
      else do {
        count \<leftarrow> asks (CountUserSince (r_flt r) userID chatFeature (startOfUTCDay (r_now r)));
        (case count of Inl _ \<Rightarrow> reply internal_error | Inr used \<Rightarrow>
         if used \<ge> chatDailyMessageLimit
         then reply (Abort StatusTooManyRequests (Msg ''daily AI chat limit reached, resets at 00:00 UTC''))
         else do {
           context \<leftarrow> asks (fetchContext T L r sess tenantID userID);
           (case context of Inl _ \<Rightarrow> reply internal_error | Inr fullSystem \<Rightarrow> do {
              history \<leftarrow> asks (GetHistory (r_flt r) (r_now r) tenantID userID 40);
              (case history of Inl _ \<Rightarrow> reply internal_error | Inr msgs \<Rightarrow>
                 let contents = map (\<lambda>m. (ch_Role m = ''assistant'', ch_Content m)) msgs @ [(False, message)] in do {
                 on_db (SaveMessage (r_flt r) 0 (r_now r) (r_fresh r 0) tenantID userID ''user'' message);
                 (case consume (model fullSystem contents) [] (0, 0) of
                    (sent, None) \<Rightarrow> reply (Respond StatusOK sent)
                  | (sent, Some (answer, prompt_tokens, response_tokens)) \<Rightarrow> do {
                      (if answer \<noteq> [] then on_db (SaveMessage (r_flt r) 1 (r_now r) (r_fresh r 1) tenantID userID ''assistant'' answer)
                       else reply (Inr ()));
                      on_db (Usage_Record (r_flt r) (r_now r) (r_fresh r 2) tenantID userID chatFeature prompt_tokens response_tokens);
                      reply (Respond StatusOK sent)
                    })
               })
            })
         })
      })))"

definition Usage :: "request \<Rightarrow> (db, (nat \<times> nat) response) state" where
  [http_defs]: "Usage r = (case r_session r of None \<Rightarrow> reply no_session | Some sess \<Rightarrow>
     (case s_UserID sess of None \<Rightarrow> reply no_session | Some userID \<Rightarrow> do {
        count \<leftarrow> asks (CountUserSince (r_flt r) userID chatFeature (startOfUTCDay (r_now r)));
        (case count of Inl _ \<Rightarrow> reply internal_error | Inr used \<Rightarrow> reply (Respond StatusOK (used, chatDailyMessageLimit)))
      }))"

text \<open>Role, content and time of each message.\<close>

definition History :: "request \<Rightarrow> (db, (string \<times> string \<times> time) list response) state" where
  [http_defs]: "History r = with_member r (\<lambda>sess tenantID userID. do {
     res \<leftarrow> asks (GetHistory (r_flt r) (r_now r) tenantID userID 40);
     (case res of Inl _ \<Rightarrow> reply internal_error
      | Inr msgs \<Rightarrow> reply (Respond StatusOK (map (\<lambda>m. (ch_Role m, ch_Content m, ch_CreatedAt m)) msgs)))
   })"

definition CleanupCron :: "request \<Rightarrow> (db, nat response) state" where
  [http_defs]: "CleanupCron r = do {
     res \<leftarrow> on_db (CleanupOld (r_flt r) (r_now r));
     (case res of Inl _ \<Rightarrow> reply (Abort StatusInternalServerError (Msg ''cleanup failed'')) | Inr n \<Rightarrow> reply (Respond StatusOK n))
   }"

end
