(* ===== verification/Officer_System.thy ===== *)
theory Officer_System
  imports Source_Updaters Team Assistant
begin

text \<open>
  The requests on reports, visits, travel, contracts, clearances and the assistant that
  change something, as one system: what keeps its tables well typed, and what keeps the
  tenants apart.
\<close>

subsection \<open>Requests\<close>

record officer_env =
  oe_libs :: libs
  oe_scanner :: scanner
  oe_noop :: bool
  oe_storage :: storage_backend
  oe_texts :: chat_texts
  oe_model :: "chat_model option"

datatype officer_call =
    O_Report "report_params option"
  | O_ReviewReport string "string option"
  | O_Visit "visit_params option"
  | O_CancelVisit string
  | O_ReviewVisit string "(string \<times> string) option"
  | O_Export export_query
  | O_LinkVisit string "string option option"
  | O_Trip "travel_params option"
  | O_EditTrip string "(trip_form \<times> country_params list) option"
  | O_SubmitTrip string
  | O_Attach string "form_file option"
  | O_Detach string
  | O_OpenTrip string
  | O_ApproveTrip string
  | O_RejectTrip string
  | O_Debrief string "debrief_answers option"
  | O_Form string "form_file option" dd254_fields
  | O_ViewForm string string
  | O_DeleteForm string
  | O_Grant string "(uuid \<times> string option \<times> string option) option"
  | O_Revoke string string
  | O_Clearance string string "clearance_params option"
  | O_Item string "(string \<times> string) option"
  | O_Chat "string option"

fun officer_serve :: "officer_env \<Rightarrow> request \<Rightarrow> officer_call \<Rightarrow> (db, http) state" where
  "officer_serve E r (O_Report b) = do { x \<leftarrow> Report_Handler_Create (oe_libs E) r b; reply (resp_code x) }"
| "officer_serve E r (O_ReviewReport i b) = do { x \<leftarrow> Report_AdminUpdateStatus (oe_libs E) r i b; reply (resp_code x) }"
| "officer_serve E r (O_Visit b) = do { x \<leftarrow> Visit_Handler_Create (oe_libs E) r b; reply (resp_code x) }"
| "officer_serve E r (O_CancelVisit i) = do { x \<leftarrow> Visit_Handler_Cancel (oe_libs E) r i; reply (resp_code x) }"
| "officer_serve E r (O_ReviewVisit i b) = do { x \<leftarrow> Visit_AdminUpdateStatus (oe_libs E) r i b; reply (resp_code x) }"
| "officer_serve E r (O_Export q) = do { x \<leftarrow> Visit_Export (oe_libs E) r q; reply (resp_code x) }"
| "officer_serve E r (O_LinkVisit i b) = do { x \<leftarrow> LinkVisitRequest (oe_libs E) r i b; reply (resp_code x) }"
| "officer_serve E r (O_Trip b) = do { x \<leftarrow> CreateReport (oe_libs E) r b; reply (resp_code x) }"
| "officer_serve E r (O_EditTrip i b) = do { x \<leftarrow> UpdateReport (oe_libs E) r i b; reply (resp_code x) }"
| "officer_serve E r (O_SubmitTrip i) = do { x \<leftarrow> SubmitReport (oe_libs E) r i; reply (resp_code x) }"
| "officer_serve E r (O_Attach i f) =
     do { x \<leftarrow> Travel_UploadFile (oe_scanner E) (oe_storage E) (oe_libs E) r i f; reply (resp_code x) }"
| "officer_serve E r (O_Detach i) = do { x \<leftarrow> Travel_Handler_DeleteUpload (oe_storage E) (oe_libs E) r i; reply (resp_code x) }"
| "officer_serve E r (O_OpenTrip i) = do { x \<leftarrow> AdminGetReport (oe_libs E) r i; reply (resp_code x) }"
| "officer_serve E r (O_ApproveTrip i) = do { x \<leftarrow> ApproveReport (oe_libs E) r i; reply (resp_code x) }"
| "officer_serve E r (O_RejectTrip i) = do { x \<leftarrow> RejectReport (oe_libs E) r i; reply (resp_code x) }"
| "officer_serve E r (O_Debrief i b) = do { x \<leftarrow> SubmitDebrief (oe_libs E) r i b; reply (resp_code x) }"
| "officer_serve E r (O_Form so f q) =
     do { x \<leftarrow> DD254_Upload (oe_scanner E) (oe_noop E) (oe_storage E) (oe_libs E) r so f q; reply (resp_code x) }"
| "officer_serve E r (O_ViewForm so i) = do { x \<leftarrow> DD254_ViewFile (oe_storage E) (oe_libs E) r so i; reply (resp_code x) }"
| "officer_serve E r (O_DeleteForm i) = do { x \<leftarrow> DD254_Handler_Delete (oe_libs E) r i; reply (resp_code x) }"
| "officer_serve E r (O_Grant i b) = do { x \<leftarrow> DD254_Handler_GrantAccess (oe_libs E) r i b; reply (resp_code x) }"
| "officer_serve E r (O_Revoke i u) = do { x \<leftarrow> DD254_Handler_RevokeAccess (oe_libs E) r i u; reply (resp_code x) }"
| "officer_serve E r (O_Clearance so i b) = do { x \<leftarrow> SetClearance (oe_libs E) r so i b; reply (resp_code x) }"
| "officer_serve E r (O_Item i b) =
     do { x \<leftarrow> ActionItem_Handler_UpdateStatus source_updaters (oe_libs E) r i b; reply (resp_code x) }"
| "officer_serve E r (O_Chat b) = do { x \<leftarrow> Chat (oe_texts E) (oe_model E) (oe_libs E) r b; reply (resp_code x) }"

text \<open>What other rows may refer to: tenants, sub-organizations, users with their tenant, trips,
  contracts with their tenant, clearances with their user.\<close>

record refs =
  rf_tenants :: "uuid set"
  rf_suborgs :: "uuid set"
  rf_users :: "(uuid \<times> uuid) set"
  rf_trips :: "uuid set"
  rf_forms :: "(uuid \<times> uuid) set"
  rf_clearances :: "(uuid \<times> uuid) set"

definition refs_of :: "db \<Rightarrow> refs" where
  "refs_of d = \<lparr>rf_tenants = tn_ID ` set (d_tenants d), rf_suborgs = so_ID ` set (d_suborgs d),
     rf_users = (\<lambda>u. (u_ID u, u_TenantID u)) ` set (d_users d), rf_trips = tv_ID ` set (d_trips d),
     rf_forms = (\<lambda>f. (dd_ID f, dd_TenantID f)) ` set (d_dd254 d),
     rf_clearances = (\<lambda>c. (cr_ID c, cr_UserID c)) ` set (d_clearances d)\<rparr>"

definition refs_le :: "refs \<Rightarrow> refs \<Rightarrow> bool" where
  "refs_le K K' = (rf_tenants K \<subseteq> rf_tenants K' \<and> rf_suborgs K \<subseteq> rf_suborgs K' \<and> rf_users K \<subseteq> rf_users K' \<and>
     rf_trips K \<subseteq> rf_trips K' \<and> rf_forms K \<subseteq> rf_forms K' \<and> rf_clearances K \<subseteq> rf_clearances K')"

text \<open>The session of a request is a membership of its user, as \<open>tenancy_is_membership\<close> shows of
  every session the login hands out.\<close>

definition seated :: "request \<Rightarrow> refs \<Rightarrow> bool" where
  "seated r K = (case r_session r of None \<Rightarrow> True | Some s \<Rightarrow>
     (case (s_UserID s, s_TenantID s) of (Some u, Some t) \<Rightarrow> (u, t) \<in> rf_users K | _ \<Rightarrow> True))"

text \<open>Requests of members, and the daily jobs, in any order.\<close>

inductive officer_run :: "officer_env \<Rightarrow> db \<Rightarrow> db \<Rightarrow> bool" for E where
  off_start: "officer_run E d d"
| off_request: "officer_run E d d1 \<Longrightarrow> seated r (refs_of d1) \<Longrightarrow> officer_run E d (snd (run_state (officer_serve E r c) d1))"
| off_debriefs: "officer_run E d d1 \<Longrightarrow> officer_run E d (snd (run_state (DebriefCron (oe_libs E) r) d1))"
| off_cleanup: "officer_run E d d1 \<Longrightarrow> officer_run E d (snd (run_state (CleanupCron r) d1))"

subsection \<open>Well-typed rows\<close>

definition ref_ok :: "('k \<Rightarrow> bool) \<Rightarrow> 'k option \<Rightarrow> bool" where
  "ref_ok P k = (case k of None \<Rightarrow> True | Some i \<Rightarrow> P i)"

lemma ref_ok_simps [simp]: "ref_ok P None" "ref_ok P (Some i) = P i"
  by (simp_all add: ref_ok_def)

definition a_user :: "refs \<Rightarrow> uuid \<Rightarrow> bool" where "a_user K u = (u \<in> fst ` rf_users K)"
definition a_form :: "refs \<Rightarrow> uuid \<Rightarrow> bool" where "a_form K i = (i \<in> fst ` rf_forms K)"

definition owned_ok :: "refs \<Rightarrow> uuid \<Rightarrow> uuid \<Rightarrow> uuid option \<Rightarrow> bool" where
  "owned_ok K t u so = (t \<in> rf_tenants K \<and> (u, t) \<in> rf_users K \<and> ref_ok (\<lambda>s. s \<in> rf_suborgs K) so)"

definition report_ok :: "refs \<Rightarrow> life_report \<Rightarrow> bool" where
  "report_ok K x = (owned_ok K (le_TenantID x) (le_CreatedByUserID x) (le_SubOrgID x) \<and>
     reporting_for_check (le_ReportingFor x) \<and> report_status_check (le_Status x) \<and> ref_ok (a_user K) (le_ReviewedBy x) \<and>
     (le_Status x \<noteq> ''unreviewed'' \<longrightarrow> le_ReviewedBy x \<noteq> None \<and> le_ReviewedAt x \<noteq> None))"

definition visit_ok :: "refs \<Rightarrow> visit \<Rightarrow> bool" where
  "visit_ok K v = (owned_ok K (vi_TenantID v) (vi_CreatedByUserID v) (vi_SubOrgID v) \<and>
     access_level_check (vi_AccessLevel v) \<and> visit_status_check (vi_Status v) \<and>
     ref_ok (a_form K) (vi_DD254ID v) \<and> ref_ok (a_user K) (vi_ReviewedBy v) \<and>
     (vi_Status v \<notin> {''submitted'', ''cancelled''} \<longrightarrow> vi_ReviewedBy v \<noteq> None \<and> vi_ReviewedAt v \<noteq> None))"

definition trip_ok :: "refs \<Rightarrow> trip \<Rightarrow> bool" where
  "trip_ok K x = (owned_ok K (tv_TenantID x) (tv_UserID x) (tv_SubOrgID x) \<and> trip_status_check (tv_Status x) \<and>
     ref_ok (a_user K) (tv_ReviewedBy x) \<and>
     (tv_Status x \<in> {''approved'', ''rejected''} \<longrightarrow> tv_ReviewedBy x \<noteq> None \<and> tv_ReviewedAt x \<noteq> None))"

definition country_ok :: "refs \<Rightarrow> country \<Rightarrow> bool" where
  "country_ok K c = (cy_ReportID c \<in> rf_trips K \<and> reason_check (cy_Reason (cy_Form c)))"

definition attachment_ok :: "refs \<Rightarrow> trip_upload \<Rightarrow> bool" where
  "attachment_ok K u = (tl_ReportID u \<in> rf_trips K)"

definition debrief_ok :: "refs \<Rightarrow> debrief \<Rightarrow> bool" where
  "debrief_ok K x = (de_ReportID x \<in> rf_trips K \<and> de_TenantID x \<in> rf_tenants K \<and> a_user K (de_UserID x) \<and>
     de_Status x \<in> {''pending'', ''submitted''} \<and> (de_Status x = ''submitted'' \<longleftrightarrow> de_SubmittedAt x \<noteq> None))"

definition clearance_ok :: "refs \<Rightarrow> clearance_record \<Rightarrow> bool" where
  "clearance_ok K c = (a_user K (cr_UserID c) \<and> a_user K (cr_RecordedBy c) \<and> ValidClearance (cr_Clearance c) \<and>
     ref_ok ValidInvestigationType (cr_InvestigationType c))"

definition pointer_ok :: "refs \<Rightarrow> user \<Rightarrow> bool" where
  "pointer_ok K u = ref_ok (\<lambda>i. (i, u_ID u) \<in> rf_clearances K) (u_CurrentClearanceID u)"

definition form_ok :: "refs \<Rightarrow> dd254_form \<Rightarrow> bool" where
  "form_ok K f = (owned_ok K (dd_TenantID f) (dd_UploadedBy f) (dd_SubOrgID f) \<and> dd_Markings f = RequiredMarkings \<and>
     ValidClassification (dd_ClassificationMax f) \<and> form_status_check (dd_Status f))"

definition grant_ok :: "refs \<Rightarrow> access_grant \<Rightarrow> bool" where
  "grant_ok K a = ((\<exists>t. (da_DD254ID a, t) \<in> rf_forms K \<and> (da_UserID a, t) \<in> rf_users K) \<and> a_user K (da_AddedBy a))"

definition message_ok :: "refs \<Rightarrow> chat_message \<Rightarrow> bool" where
  "message_ok K m = (ch_TenantID m \<in> rf_tenants K \<and> a_user K (ch_UserID m) \<and> chat_role_check (ch_Role m))"

definition typed_in :: "refs \<Rightarrow> db \<Rightarrow> bool" where
  "typed_in K d = (list_all (report_ok K) (d_reports d) \<and> list_all (visit_ok K) (d_visits d) \<and> list_all (trip_ok K) (d_trips d) \<and>
     list_all (country_ok K) (d_countries d) \<and> list_all (attachment_ok K) (d_trip_uploads d) \<and>
     list_all (debrief_ok K) (d_debriefs d) \<and> list_all (clearance_ok K) (d_clearances d) \<and> list_all (pointer_ok K) (d_users d) \<and>
     list_all (form_ok K) (d_dd254 d) \<and> list_all (grant_ok K) (d_dd254_access d) \<and> list_all (message_ok K) (d_chat d) \<and>
     distinct (map (\<lambda>a. (da_DD254ID a, da_UserID a)) (d_dd254_access d)))"

definition well_typed :: "db \<Rightarrow> bool" where
  "well_typed d = typed_in (refs_of d) d"

lemmas ok_defs = owned_ok_def report_ok_def visit_ok_def trip_ok_def country_ok_def attachment_ok_def debrief_ok_def
  clearance_ok_def pointer_ok_def form_ok_def grant_ok_def message_ok_def

lemma ref_ok_mono: "ref_ok P k \<Longrightarrow> (\<And>i. P i \<Longrightarrow> Q i) \<Longrightarrow> ref_ok Q k"
  by (cases k) auto

text \<open>More rows to refer to do no harm.\<close>

lemma refs_leD:
  assumes "refs_le K K'"
  shows "t \<in> rf_tenants K \<Longrightarrow> t \<in> rf_tenants K'" "s \<in> rf_suborgs K \<Longrightarrow> s \<in> rf_suborgs K'" "ut \<in> rf_users K \<Longrightarrow> ut \<in> rf_users K'"
    "i \<in> rf_trips K \<Longrightarrow> i \<in> rf_trips K'" "ft \<in> rf_forms K \<Longrightarrow> ft \<in> rf_forms K'" "cu \<in> rf_clearances K \<Longrightarrow> cu \<in> rf_clearances K'"
    "a_user K u \<Longrightarrow> a_user K' u" "a_form K f \<Longrightarrow> a_form K' f"
  using assms unfolding refs_le_def a_user_def a_form_def by blast+

lemma owned_ok_mono: "refs_le K K' \<Longrightarrow> owned_ok K t u so \<Longrightarrow> owned_ok K' t u so"
  by (auto simp: owned_ok_def elim: ref_ok_mono dest: refs_leD)

lemma row_ok_mono:
  assumes le: "refs_le K K'"
  shows "report_ok K x1 \<Longrightarrow> report_ok K' x1" "visit_ok K x2 \<Longrightarrow> visit_ok K' x2" "trip_ok K x3 \<Longrightarrow> trip_ok K' x3"
    "country_ok K x4 \<Longrightarrow> country_ok K' x4" "attachment_ok K x5 \<Longrightarrow> attachment_ok K' x5" "debrief_ok K x6 \<Longrightarrow> debrief_ok K' x6"
    "clearance_ok K x7 \<Longrightarrow> clearance_ok K' x7" "pointer_ok K x8 \<Longrightarrow> pointer_ok K' x8" "form_ok K x9 \<Longrightarrow> form_ok K' x9"
    "grant_ok K x10 \<Longrightarrow> grant_ok K' x10" "message_ok K x11 \<Longrightarrow> message_ok K' x11"
  unfolding report_ok_def visit_ok_def trip_ok_def country_ok_def attachment_ok_def debrief_ok_def clearance_ok_def
    pointer_ok_def form_ok_def grant_ok_def message_ok_def
  using refs_leD [OF le] owned_ok_mono [OF le]
  by (blast intro: ref_ok_mono)+

lemma typed_in_mono: "refs_le K K' \<Longrightarrow> typed_in K d \<Longrightarrow> typed_in K' d"
  unfolding typed_in_def by (blast intro: row_ok_mono list.pred_mono_strong)

lemma list_all_update:
  "list_all R t \<Longrightarrow> (\<And>r. r \<in> set t \<Longrightarrow> P r \<Longrightarrow> R r \<Longrightarrow> R (f r)) \<Longrightarrow> list_all R (sql_update P f t)"
  by (induction t) auto

lemma list_all_delete: "list_all R t \<Longrightarrow> list_all R (sql_delete P t)"
  by (auto simp: list_all_iff)

lemma image_sql_update: "(\<And>r. k (f r) = k r) \<Longrightarrow> k ` set (sql_update P f t) = k ` set t"
  by (induction t) auto

lemma by_None: "tenant_by d t = None \<longleftrightarrow> t \<notin> rf_tenants (refs_of d)" "user_by d u = None \<longleftrightarrow> \<not> a_user (refs_of d) u"
  "suborg_by d s = None \<longleftrightarrow> s \<notin> rf_suborgs (refs_of d)"
  by (auto simp: tenant_by_def user_by_def suborg_by_def sql_row_None refs_of_def a_user_def image_image)

lemma a_userI: "(u, t) \<in> rf_users K \<Longrightarrow> a_user K u"
  unfolding a_user_def by force

lemma a_formI: "(i, t) \<in> rf_forms K \<Longrightarrow> a_form K i"
  unfolding a_form_def by force

text \<open>A database with the references \<open>K\<close> whose rows are typed, and what a new table must satisfy.\<close>

definition typed_as :: "refs \<Rightarrow> db \<Rightarrow> bool" where
  "typed_as K d = (refs_of d = K \<and> typed_in K d)"

lemma typed_as_frame [simp]:
  "typed_as K (d\<lparr>d_audit := t1\<rparr>) = typed_as K d" "typed_as K (d\<lparr>d_outbox := t2\<rparr>) = typed_as K d"
  "typed_as K (d\<lparr>d_action_items := t3\<rparr>) = typed_as K d" "typed_as K (d\<lparr>d_files := t4\<rparr>) = typed_as K d"
  "typed_as K (d\<lparr>d_ai_usage := t5\<rparr>) = typed_as K d" "typed_as K (d\<lparr>d_completions := t6\<rparr>) = typed_as K d"
  by (simp_all add: typed_as_def typed_in_def refs_of_def)

lemma typed_as_set:
  assumes "typed_as K d"
  shows "typed_as K (d\<lparr>d_reports := t1\<rparr>) = list_all (report_ok K) t1" "typed_as K (d\<lparr>d_visits := t2\<rparr>) = list_all (visit_ok K) t2"
    "typed_as K (d\<lparr>d_countries := t3\<rparr>) = list_all (country_ok K) t3"
    "typed_as K (d\<lparr>d_trip_uploads := t4\<rparr>) = list_all (attachment_ok K) t4"
    "typed_as K (d\<lparr>d_debriefs := t5\<rparr>) = list_all (debrief_ok K) t5" "typed_as K (d\<lparr>d_chat := t6\<rparr>) = list_all (message_ok K) t6"
    "typed_as K (d\<lparr>d_dd254_access := t7\<rparr>) =
       (list_all (grant_ok K) t7 \<and> distinct (map (\<lambda>a. (da_DD254ID a, da_UserID a)) t7))"
  using assms by (simp_all add: typed_as_def typed_in_def refs_of_def)

text \<open>An update that keeps the keys other rows refer to.\<close>

lemma typed_as_update:
  assumes "typed_as K d"
  shows "(\<And>x. tv_ID (f1 x) = tv_ID x) \<Longrightarrow>
      typed_as K (d\<lparr>d_trips := sql_update P1 f1 (d_trips d)\<rparr>) = list_all (trip_ok K) (sql_update P1 f1 (d_trips d))"
    "(\<And>x. dd_ID (f2 x) = dd_ID x \<and> dd_TenantID (f2 x) = dd_TenantID x) \<Longrightarrow>
      typed_as K (d\<lparr>d_dd254 := sql_update P2 f2 (d_dd254 d)\<rparr>) = list_all (form_ok K) (sql_update P2 f2 (d_dd254 d))"
    "(\<And>x. cr_ID (f3 x) = cr_ID x \<and> cr_UserID (f3 x) = cr_UserID x) \<Longrightarrow>
      typed_as K (d\<lparr>d_clearances := sql_update P3 f3 (d_clearances d)\<rparr>) = list_all (clearance_ok K) (sql_update P3 f3 (d_clearances d))"
    "(\<And>x. u_ID (f4 x) = u_ID x \<and> u_TenantID (f4 x) = u_TenantID x) \<Longrightarrow>
      typed_as K (d\<lparr>d_users := sql_update P4 f4 (d_users d)\<rparr>) = list_all (pointer_ok K) (sql_update P4 f4 (d_users d))"
  using assms by (simp_all add: typed_as_def typed_in_def refs_of_def image_sql_update)

lemma typed_rows:
  assumes "typed_as K d"
  shows "list_all (report_ok K) (d_reports d)" "list_all (visit_ok K) (d_visits d)" "list_all (trip_ok K) (d_trips d)"
    "list_all (country_ok K) (d_countries d)" "list_all (attachment_ok K) (d_trip_uploads d)" "list_all (debrief_ok K) (d_debriefs d)"
    "list_all (clearance_ok K) (d_clearances d)" "list_all (pointer_ok K) (d_users d)" "list_all (form_ok K) (d_dd254 d)"
    "list_all (grant_ok K) (d_dd254_access d)" "list_all (message_ok K) (d_chat d)"
    "distinct (map (\<lambda>a. (da_DD254ID a, da_UserID a)) (d_dd254_access d))"
  using assms by (simp_all add: typed_as_def typed_in_def)

lemma typed_refs:
  assumes "typed_as K d"
  shows "(tenant_by d t = None) = (t \<notin> rf_tenants K)" "(user_by d u = None) = (\<not> a_user K u)"
    "(suborg_by d s = None) = (s \<notin> rf_suborgs K)" "(\<exists>x \<in> set (d_trips d). tv_ID x = i) = (i \<in> rf_trips K)"
    "(\<exists>f \<in> set (d_dd254 d). dd_ID f = j) = a_form K j"
    "(\<exists>f \<in> set (d_dd254 d). dd_ID f = j \<and> dd_TenantID f = t) = ((j, t) \<in> rf_forms K)"
    "(\<exists>u \<in> set (d_users d). u_ID u = k \<and> u_TenantID u = t) = ((k, t) \<in> rf_users K)"
  using assms by (auto simp: typed_as_def by_None refs_of_def a_form_def image_iff)

text \<open>The operations, table by table.\<close>

lemma Report_Create_typed:
  assumes "typed_as K d" "(np_CreatedByUserID p, np_TenantID p) \<in> rf_users K"
  shows "typed_as K (fst (Report_Create flt now i p d))"
  using assms typed_rows [OF assms(1)]
  by (auto simp: Report_Create_def Let_def typed_as_set typed_refs [OF assms(1)] report_ok_def owned_ok_def
      ref_ok_def report_status_check_def split: option.splits)

lemma Report_UpdateStatus_typed:
  assumes "typed_as K d"
  shows "typed_as K (fst (Report_UpdateStatus flt now t i u st d))"
  using assms typed_rows(1) [OF assms]
  by (auto simp: Report_UpdateStatus_def Let_def typed_as_set typed_refs [OF assms] fst_exec_update
        case_prod_beta report_ok_def intro!: list_all_update)

lemma Visit_Create_typed:
  assumes "typed_as K d" "(vp_CreatedByUserID q, vp_TenantID q) \<in> rf_users K"
  shows "typed_as K (fst (Visit_Create flt now i q d))"
  using assms typed_rows(2) [OF assms(1)]
  by (auto simp: Visit_Create_def Let_def typed_as_set typed_refs [OF assms(1)] visit_ok_def owned_ok_def
        ref_ok_def visit_status_check_def new_visit_def split: option.splits)

lemma visit_updates_typed:
  assumes "typed_as K d"
  shows "typed_as K (fst (Visit_Cancel flt now t i u d))" "typed_as K (fst (Visit_UpdateStatus flt now t i u st n d))"
    "typed_as K (fst (SetVisitRequestDD254 flt now t i f d))"
proof -
  have cancelled: "visit_status_check ''cancelled''" by (simp add: visit_status_check_def)
  show "typed_as K (fst (Visit_Cancel flt now t i u d))"
    using assms typed_rows(2) [OF assms] cancelled
    by (auto simp: Visit_Cancel_def typed_as_set fst_exec_update visit_ok_def intro!: list_all_update)
  show "typed_as K (fst (Visit_UpdateStatus flt now t i u st n d))"
    using assms typed_rows(2) [OF assms]
    by (auto simp: Visit_UpdateStatus_def Let_def typed_as_set typed_refs [OF assms] fst_exec_update visit_ok_def intro!: list_all_update)
  show "typed_as K (fst (SetVisitRequestDD254 flt now t i f d))"
    using assms typed_rows(2) [OF assms]
    by (auto simp: SetVisitRequestDD254_def typed_as_set typed_refs [OF assms] fst_exec_update case_prod_beta visit_ok_def
        intro!: list_all_update intro: a_formI split: option.splits)
qed

lemma trip_updates_typed:
  assumes "typed_as K d"
  shows "typed_as K (fst (Travel_Submit flt now t u i d))" "typed_as K (fst (MarkUnderReview flt now t i d))"
    "typed_as K (fst (Travel_UpdateStatus flt now t i st u d))" "typed_as K (fst (MarkDebriefCreated flt now i d))"
proof -
  have st: "trip_status_check ''submitted''" "trip_status_check ''under_review''" by (simp_all add: trip_status_check_def)
  show "typed_as K (fst (Travel_Submit flt now t u i d))" "typed_as K (fst (MarkUnderReview flt now t i d))"
    "typed_as K (fst (MarkDebriefCreated flt now i d))"
    using assms typed_rows(3) [OF assms] st
    by (auto simp: Travel_Submit_def MarkUnderReview_def MarkDebriefCreated_def typed_as_update
        fst_exec_update trip_ok_def intro!: list_all_update)
  show "typed_as K (fst (Travel_UpdateStatus flt now t i st u d))"
    using assms typed_rows(3) [OF assms]
    by (auto simp: Travel_UpdateStatus_def Let_def typed_as_update typed_refs [OF assms] fst_exec_update trip_ok_def
        intro!: list_all_update)
qed

lemma insert_countries_typed:
  "typed_as K d \<Longrightarrow> typed_as K (fst (insert_countries flt q now fresh i n ps d))"
proof (induction ps arbitrary: n d)
  case (Cons p ps)
  have "typed_as K (d\<lparr>d_countries := d_countries d @ [c]\<rparr>)" if "country_ok K c" for c
    using that typed_rows(4) [OF Cons.prems] by (simp add: typed_as_set [OF Cons.prems])
  then show ?case
    using Cons by (auto simp: typed_refs [OF Cons.prems] country_ok_def split: option.split)
qed simp

lemma debrief_ops_typed:
  assumes "typed_as K d"
  shows "typed_as K (fst (CreateDebrief flt now i k t u due d))" "typed_as K (fst (Store_SubmitDebrief flt now i ans d))"
  using assms typed_rows(6) [OF assms]
  by (auto simp: CreateDebrief_def Store_SubmitDebrief_def Let_def typed_as_set typed_refs [OF assms] fst_exec_update
      case_prod_beta debrief_ok_def intro!: list_all_update)

lemma attachment_ops_typed:
  assumes "typed_as K d"
  shows "typed_as K (fst (Travel_CreateUpload flt up d))" "typed_as K (fst (Travel_DeleteUpload flt t i d))"
  using assms typed_rows(5) [OF assms]
  by (auto simp: Travel_CreateUpload_def Travel_DeleteUpload_def typed_as_set typed_refs [OF assms] attachment_ok_def
      split: sum.split intro!: list_all_delete)

lemma form_updates_typed:
  assumes "typed_as K d"
  shows "typed_as K (fst (DD254_Delete flt now t i d))"
  using assms typed_rows(9) [OF assms]
  by (auto simp: DD254_Delete_def Let_def typed_as_update form_ok_def form_status_check_def split: option.split intro!: list_all_update)

lemma grant_ops_typed:
  assumes "typed_as K d"
  shows "typed_as K (fst (DD254_RevokeAccess flt t i u d))"
  using assms typed_rows(10,12) [OF assms]
  by (auto simp: DD254_RevokeAccess_def typed_as_set fst_exec_delete case_prod_beta intro: list_all_delete distinct_sql_delete)

lemma message_ops_typed:
  assumes "typed_as K d"
  shows "typed_as K (fst (SaveMessage flt n now i t u role text d))" "typed_as K (fst (CleanupOld flt now d))"
  using assms typed_rows(11) [OF assms]
  by (auto simp: SaveMessage_def CleanupOld_def typed_as_set typed_refs [OF assms] message_ok_def fst_exec_delete
      case_prod_beta intro: list_all_delete)

text \<open>What grows the references.\<close>

definition typed_from :: "refs \<Rightarrow> db \<Rightarrow> bool" where
  "typed_from K d = (refs_le K (refs_of d) \<and> well_typed d)"

lemma refs_le_refl [simp]: "refs_le K K"
  by (simp add: refs_le_def)

lemma refs_le_trans: "refs_le K1 K2 \<Longrightarrow> refs_le K2 K3 \<Longrightarrow> refs_le K1 K3"
  by (auto simp: refs_le_def)

lemma typed_from_as: "typed_from K d \<longleftrightarrow> (\<exists>K'. refs_le K K' \<and> typed_as K' d)"
  by (auto simp: typed_from_def typed_as_def well_typed_def)

lemma typed_from_trans: "refs_le K K' \<Longrightarrow> typed_from K' d \<Longrightarrow> typed_from K d"
  by (auto simp: typed_from_def intro: refs_le_trans)

lemma typed_from_grow:
  assumes "typed_in K d" "refs_le K (refs_of d')" "typed_in K d \<Longrightarrow> typed_in (refs_of d') d \<Longrightarrow> typed_in (refs_of d') d'"
  shows "typed_from K d'"
  using assms typed_in_mono by (auto simp: typed_from_def well_typed_def)

lemma typed_from_new_trip:
  assumes "typed_as K d" "trip_ok K x"
  shows "typed_from K (d\<lparr>d_trips := d_trips d @ [x]\<rparr>)"
proof (rule typed_from_grow)
  show "refs_le K (refs_of (d\<lparr>d_trips := d_trips d @ [x]\<rparr>))"
    using assms by (auto simp: typed_as_def refs_le_def refs_of_def)
  with assms show "typed_in (refs_of (d\<lparr>d_trips := d_trips d @ [x]\<rparr>)) (d\<lparr>d_trips := d_trips d @ [x]\<rparr>)"
    if "typed_in (refs_of (d\<lparr>d_trips := d_trips d @ [x]\<rparr>)) d"
    using that row_ok_mono(3) by (simp add: typed_in_def)
qed (use assms in \<open>simp add: typed_as_def\<close>)

lemma typed_from_new_form:
  assumes "typed_as K d" "form_ok K x"
  shows "typed_from K (d\<lparr>d_dd254 := d_dd254 d @ [x]\<rparr>)"
proof (rule typed_from_grow)
  show "refs_le K (refs_of (d\<lparr>d_dd254 := d_dd254 d @ [x]\<rparr>))"
    using assms by (auto simp: typed_as_def refs_le_def refs_of_def)
  with assms show "typed_in (refs_of (d\<lparr>d_dd254 := d_dd254 d @ [x]\<rparr>)) (d\<lparr>d_dd254 := d_dd254 d @ [x]\<rparr>)"
    if "typed_in (refs_of (d\<lparr>d_dd254 := d_dd254 d @ [x]\<rparr>)) d"
    using that row_ok_mono(9) by (simp add: typed_in_def)
qed (use assms in \<open>simp add: typed_as_def\<close>)

lemma typed_from_new_clearance:
  assumes "typed_as K d" "clearance_ok K x"
  shows "typed_from K (d\<lparr>d_clearances := d_clearances d @ [x]\<rparr>)"
proof (rule typed_from_grow)
  show "refs_le K (refs_of (d\<lparr>d_clearances := d_clearances d @ [x]\<rparr>))"
    using assms by (auto simp: typed_as_def refs_le_def refs_of_def)
  with assms show "typed_in (refs_of (d\<lparr>d_clearances := d_clearances d @ [x]\<rparr>)) (d\<lparr>d_clearances := d_clearances d @ [x]\<rparr>)"
    if "typed_in (refs_of (d\<lparr>d_clearances := d_clearances d @ [x]\<rparr>)) d"
    using that row_ok_mono(7) by (simp add: typed_in_def)
qed (use assms in \<open>simp add: typed_as_def\<close>)

lemma typed_from_step:
  assumes "typed_from K d" "\<And>K'. refs_le K K' \<Longrightarrow> typed_as K' d \<Longrightarrow> typed_from K' d'"
  shows "typed_from K d'"
  using assms by (auto simp: typed_from_as intro: refs_le_trans)

lemma typed_as_from: "typed_as K d \<Longrightarrow> typed_from K d"
  unfolding typed_from_as by (rule exI [of _ K]) simp

lemma Travel_Create_typed:
  assumes "typed_as K d" "(tp_User p, tp_Tenant p) \<in> rf_users K"
  shows "typed_from K (fst (Travel_Create flt now i fresh p d))"
proof (cases "flt ''travel.Create'' 0 \<or> tenant_by d (tp_Tenant p) = None \<or> user_by d (tp_User p) = None \<or>
         (case tp_SubOrg p of None \<Rightarrow> False | Some s \<Rightarrow> suborg_by d s = None)")
  case False
  let ?x = "\<lparr>tv_ID = i, tv_TenantID = tp_Tenant p, tv_UserID = tp_User p, tv_SubOrgID = tp_SubOrg p,
     tv_Form = tp_Form p, tv_Status = ''draft'', tv_SubmittedAt = None, tv_ReviewedAt = None,
     tv_ReviewedBy = None, tv_DebriefCreatedAt = None, tv_CreatedAt = now, tv_UpdatedAt = now\<rparr>"
  have "trip_ok K ?x"
    using False assms(2) typed_refs [OF assms(1)]
    by (auto simp: trip_ok_def owned_ok_def trip_status_check_def ref_ok_def split: option.splits)
  from typed_from_new_trip [OF assms(1) this]
  have "typed_from K (fst (insert_countries flt ''travel.Create.country'' now fresh i 0 (tp_Countries p) (d\<lparr>d_trips := d_trips d @ [?x]\<rparr>)))"
    by (rule typed_from_step) (blast intro: typed_as_from insert_countries_typed)
  with False show ?thesis by (auto simp: Travel_Create_def Let_def split: prod.splits sum.splits)
qed (use assms typed_as_from in \<open>auto simp: Travel_Create_def\<close>)

lemma DD254_Create_typed:
  assumes "typed_as K d"
  shows "typed_from K (fst (DD254_Create flt now p d))"
  using assms typed_as_from [OF assms]
  by (auto simp: DD254_Create_def Let_def typed_refs [OF assms] form_ok_def owned_ok_def form_status_check_def ref_ok_def
      intro!: typed_from_new_form split: option.splits)

lemma Travel_Update_typed:
  assumes "typed_as K d"
  shows "typed_as K (fst (Travel_Update flt now fresh t u i form cs d))"
proof -
  let ?r = "on_trips d (done_some ErrNotFound (exec_update flt ''travel.Update''
             (\<lambda>x. tv_ID x = i \<and> tv_TenantID x = t \<and> tv_UserID x = u \<and> tv_Status x = ''draft'')
             (\<lambda>x. x\<lparr>tv_Form := form, tv_UpdatedAt := now\<rparr>) (d_trips d)))"
  have 1: "typed_as K (fst ?r)"
    using assms typed_rows(3) [OF assms]
    by (auto simp: typed_as_update fst_exec_update trip_ok_def intro!: list_all_update)
  then have "typed_as K ((fst ?r)\<lparr>d_countries := sql_delete P (d_countries (fst ?r))\<rparr>)" for P
    using typed_rows(4) [OF 1] by (simp add: typed_as_set list_all_delete)
  then show ?thesis
    using 1 by (cases ?r) (auto simp: Travel_Update_def insert_countries_typed split: sum.split)
qed

lemma distinct_map_snoc: "distinct (map k t) \<Longrightarrow> (\<And>x. x \<in> set t \<Longrightarrow> k x \<noteq> k y) \<Longrightarrow> distinct (map k (t @ [y]))"
  by simp (metis imageE)

lemma GrantAccess_typed:
  assumes "typed_as K d"
  shows "typed_as K (fst (DD254_GrantAccess flt now t i u by b db d))"
  using assms typed_rows(10,12) [OF assms]
  by (auto simp: DD254_GrantAccess_def Let_def typed_as_set typed_refs [OF assms] grant_ok_def map_sql_update
      intro!: list_all_update distinct_map_snoc)

lemma supersede_typed: "typed_as K d \<Longrightarrow> typed_as K (fst (supersede flt now u d))"
  using typed_rows(7) [of K d]
  by (auto simp: supersede_def case_prod_beta typed_as_update fst_exec_update clearance_ok_def intro!: list_all_update)

lemma repoint_typed: "typed_as K d \<Longrightarrow> (i, u) \<in> rf_clearances K \<Longrightarrow> typed_as K (fst (repoint flt now i u d))"
  using typed_rows(8) [of K d]
  by (auto simp: repoint_def case_prod_beta typed_as_update fst_exec_update pointer_ok_def intro!: list_all_update)

lemma insert_clearance_typed:
  assumes "typed_as K d" "ValidClearance (cr_Clearance c)" "ref_ok ValidInvestigationType (cr_InvestigationType c)"
  shows "typed_from K (fst (insert_clearance flt c d))"
    "insert_clearance flt c d = (d', Inr ()) \<Longrightarrow> (cr_ID c, cr_UserID c) \<in> rf_clearances (refs_of d')"
proof -
  show "typed_from K (fst (insert_clearance flt c d))"
    using assms typed_as_from [OF assms(1)]
    by (auto simp: insert_clearance_def clearance_ok_def typed_refs [OF assms(1)] intro!: typed_from_new_clearance)
qed (auto simp: insert_clearance_def refs_of_def split: if_splits)

lemma SetClearance_typed:
  assumes "typed_as K d"
  shows "typed_from K (fst (Team_SetClearance flt now i t u by p d))"
proof (cases "clearance_row now i u by p")
  case (Inl e)
  then show ?thesis using typed_as_from [OF assms] by (simp add: Team_SetClearance_def)
next
  case (Inr c)
  have c: "cr_ID c = i" "cr_UserID c = u" "ValidClearance (cr_Clearance c)" "ref_ok ValidInvestigationType (cr_InvestigationType c)"
    using Inr by (auto simp: clearance_row_def Let_def ref_ok_def split: if_splits option.splits)
  obtain d1 r1 where s1: "supersede flt now u d = (d1, r1)" by (cases "supersede flt now u d")
  obtain d2 r2 where s2: "insert_clearance flt c d1 = (d2, r2)" by (cases "insert_clearance flt c d1")
  obtain d3 r3 where s3: "repoint flt now i u d2 = (d3, r3)" by (cases "repoint flt now i u d2")
  have 1: "typed_as K d1" using supersede_typed [OF assms, of flt now u] s1 by simp
  have 2: "typed_from K d2" using insert_clearance_typed(1) [OF 1 c(3,4), of flt] s2 by simp
  have 3: "typed_from K d3" if "r2 = Inr ()"
  proof (rule typed_from_step [OF 2])
    fix K' assume "typed_as K' d2"
    moreover from this have "(i, u) \<in> rf_clearances K'"
      using insert_clearance_typed(2) [OF 1 c(3,4), of flt d2] s2 that c by (simp add: typed_as_def)
    ultimately show "typed_from K' d3"
      using repoint_typed [of K' d2 i u flt now] s3 by (simp add: typed_as_from)
  qed
  show ?thesis
    using 1 2 3 assms Inr s1 s2 s3 typed_as_from
    by (auto simp: Team_SetClearance_def split: sum.split)
qed

subsection \<open>Every request keeps them\<close>

lemma typed_from_frame [simp]:
  "typed_from K (d\<lparr>d_audit := t1\<rparr>) = typed_from K d" "typed_from K (d\<lparr>d_outbox := t2\<rparr>) = typed_from K d"
  "typed_from K (d\<lparr>d_action_items := t3\<rparr>) = typed_from K d" "typed_from K (d\<lparr>d_files := t4\<rparr>) = typed_from K d"
  "typed_from K (d\<lparr>d_ai_usage := t5\<rparr>) = typed_from K d" "typed_from K (d\<lparr>d_completions := t6\<rparr>) = typed_from K d"
  by (simp_all add: typed_from_as)

lemma keeps_typed:
  "(\<And>K' d. refs_le K K' \<Longrightarrow> typed_as K' d \<Longrightarrow> typed_from K' (fst (f d))) \<Longrightarrow> keeps_inv (typed_from K) (on_db f)"
  by (rule keeps_on_db) (blast intro: typed_from_step)

lemma keeps_typed_as: "(\<And>K' d. typed_as K' d \<Longrightarrow> typed_as K' (fst (f d))) \<Longrightarrow> keeps_inv (typed_from K) (on_db f)"
  by (rule keeps_typed) (blast intro: typed_as_from)

lemmas typed_ops = Report_UpdateStatus_typed visit_updates_typed trip_updates_typed debrief_ops_typed
  attachment_ops_typed form_updates_typed grant_ops_typed message_ops_typed Travel_Update_typed GrantAccess_typed

lemma keeps_typed_ops:
  "keeps_inv (typed_from K) (on_db (Report_UpdateStatus flt now t i u st))"
  "keeps_inv (typed_from K) (on_db (Visit_Cancel flt now t i u))"
  "keeps_inv (typed_from K) (on_db (Visit_UpdateStatus flt now t i u st n))"
  "keeps_inv (typed_from K) (on_db (SetVisitRequestDD254 flt now t i f))"
  "keeps_inv (typed_from K) (on_db (Travel_Submit flt now t u i))"
  "keeps_inv (typed_from K) (on_db (MarkUnderReview flt now t i))"
  "keeps_inv (typed_from K) (on_db (Travel_UpdateStatus flt now t i st u))"
  "keeps_inv (typed_from K) (on_db (MarkDebriefCreated flt now i))"
  "keeps_inv (typed_from K) (on_db (CreateDebrief flt now i k t u due))"
  "keeps_inv (typed_from K) (on_db (Store_SubmitDebrief flt now i ans))"
  "keeps_inv (typed_from K) (on_db (Travel_CreateUpload flt up))"
  "keeps_inv (typed_from K) (on_db (Travel_DeleteUpload flt t i))"
  "keeps_inv (typed_from K) (on_db (DD254_Delete flt now t i))"
  "keeps_inv (typed_from K) (on_db (DD254_RevokeAccess flt t i u))"
  "keeps_inv (typed_from K) (on_db (SaveMessage flt m now i t u role text))"
  "keeps_inv (typed_from K) (on_db (CleanupOld flt now))"
  "keeps_inv (typed_from K) (on_db (Travel_Update flt now fresh t u i form cs))"
  "keeps_inv (typed_from K) (on_db (DD254_GrantAccess flt now t i u by b db))"
  by (rule keeps_typed_as, rule typed_ops, assumption)+

lemma keeps_typed_growth:
  "keeps_inv (typed_from K) (on_db (DD254_Create flt now f))"
  "keeps_inv (typed_from K) (on_db (Team_SetClearance flt now i t u by p))"
  by (rule keeps_typed, rule DD254_Create_typed SetClearance_typed, assumption)+

lemma keeps_typed_owned:
  "(np_CreatedByUserID p, np_TenantID p) \<in> rf_users K \<Longrightarrow> keeps_inv (typed_from K) (on_db (Report_Create flt now i p))"
  "(vp_CreatedByUserID q, vp_TenantID q) \<in> rf_users K \<Longrightarrow> keeps_inv (typed_from K) (on_db (Visit_Create flt now i q))"
  "(tp_User w, tp_Tenant w) \<in> rf_users K \<Longrightarrow> keeps_inv (typed_from K) (on_db (Travel_Create flt now i fresh w))"
  by (rule keeps_typed; blast intro: typed_as_from Report_Create_typed Visit_Create_typed Travel_Create_typed refs_leD)+

lemma keeps_typed_other:
  "keeps_inv (typed_from K) (on_db (ResolveBySource flt now t ty i))"
  "keeps_inv (typed_from K) (on_db (ActionItem_UpdateStatus flt now t i st n))"
  "keeps_inv (typed_from K) (on_db (Usage_Record flt now i t u feat a b))"
  "keeps_inv (typed_from K) (on_files op)"
  "keeps_inv (typed_from K) (audit_log r m a' i' s' t' meta)"
  "keeps_inv (typed_from K) (notify ns)"
  "keeps_inv (typed_from K) (queue_item L r m ip)"
  by (rule keeps_on_db keeps_on_files keeps_audit_log keeps_notify keeps_queue_item; simp add: ResolveBySource_def
      ActionItem_UpdateStatus_def Usage_Record_def on_items_def Let_def case_prod_beta)+

lemma review_typed: "typed_from K d \<Longrightarrow> typed_from K (fst (review q text st flt now i u d))"
  by (auto simp: review_def Let_def on_completions_def)

lemma source_updaters_typed:
  "source_updaters ty = Some f \<Longrightarrow> typed_from K d \<Longrightarrow> typed_from K (fst (f r t i u st d))"
  using keeps_typed_ops(1,3,7) [of K]
  by (auto simp: source_updaters_def source_updater_defs Approve_def Reject_def triple_def review_typed split: if_splits)

lemmas keeps_types = keeps_with keeps_bind keeps_reply keeps_asks keeps_if keeps_option keeps_sum keeps_prod
  keeps_typed_ops keeps_typed_growth keeps_typed_other keeps_scan_first

lemma keeps_typed_cascade:
  "keeps_inv (typed_from K) (case (st, src, source_updaters ty) of
     (c # cs, Some i, Some f) \<Rightarrow> on_db (f r a i u (c # cs)) | _ \<Rightarrow> reply x)"
  by (auto intro!: keeps_on_db keeps_reply source_updaters_typed split: list.split option.split)

lemma seatedD:
  "seated r K \<Longrightarrow> r_session r = Some sess \<Longrightarrow> s_TenantID sess = Some t \<Longrightarrow> s_UserID sess = Some u \<Longrightarrow> (u, t) \<in> rf_users K"
  by (simp add: seated_def)

lemma keeps_typed_creates:
  assumes "seated r K"
  shows "keeps_inv (typed_from K) (Report_Handler_Create L r b1)"
    "keeps_inv (typed_from K) (Visit_Handler_Create L r b2)" "keeps_inv (typed_from K) (CreateReport L r b3)"
  unfolding Report_Handler_Create_def Visit_Handler_Create_def CreateReport_def visit_audit_def travel_audit_def Let_def
  by (intro keeps_types keeps_typed_owned; simp add: seatedD [OF assms])+

lemma keeps_typed_handlers:
  "keeps_inv (typed_from K) (Report_AdminUpdateStatus L r i b1)"
  "keeps_inv (typed_from K) (Visit_Handler_Cancel L r i)"
  "keeps_inv (typed_from K) (Visit_AdminUpdateStatus L r i b2)"
  "keeps_inv (typed_from K) (Visit_Export L r q)"
  "keeps_inv (typed_from K) (LinkVisitRequest L r i b3)"
  "keeps_inv (typed_from K) (UpdateReport L r i b4)"
  "keeps_inv (typed_from K) (SubmitReport L r i)"
  "keeps_inv (typed_from K) (Travel_UploadFile sc sb L r i f)"
  "keeps_inv (typed_from K) (Travel_Handler_DeleteUpload sb L r i)"
  "keeps_inv (typed_from K) (AdminGetReport L r i)"
  "keeps_inv (typed_from K) (ApproveReport L r i)"
  "keeps_inv (typed_from K) (RejectReport L r i)"
  "keeps_inv (typed_from K) (SubmitDebrief L r i b5)"
  "keeps_inv (typed_from K) (DD254_Upload sc noop sb L r so f q6)"
  "keeps_inv (typed_from K) (DD254_ViewFile sb L r so i)"
  "keeps_inv (typed_from K) (DD254_Handler_Delete L r i)"
  "keeps_inv (typed_from K) (DD254_Handler_GrantAccess L r i b6)"
  "keeps_inv (typed_from K) (DD254_Handler_RevokeAccess L r i k)"
  "keeps_inv (typed_from K) (SetClearance L r so i b7)"
  "keeps_inv (typed_from K) (Chat T mo L r b8)"
  unfolding http_defs visit_audit_def travel_audit_def dd254_audit_def Let_def by (intro keeps_types)+

lemma keeps_typed_item: "keeps_inv (typed_from K) (ActionItem_Handler_UpdateStatus source_updaters L r i b)"
  unfolding ActionItem_Handler_UpdateStatus_def item_audit_def
  by (intro keeps_with keeps_bind keeps_reply keeps_option keeps_prod keeps_asks keeps_sum keeps_typed_other keeps_typed_cascade)

lemma officer_serve_typed: "seated r K \<Longrightarrow> keeps_inv (typed_from K) (officer_serve E r c)"
  by (cases c) (simp_all only: officer_serve.simps, (intro keeps_bind keeps_reply keeps_typed_handlers keeps_typed_item
      keeps_typed_creates; assumption)+)

lemma keeps_typed_jobs:
  "keeps_inv (typed_from K) (CleanupCron r)" "keeps_inv (typed_from K) (debrief_all L r due n xs)"
  "keeps_inv (typed_from K) (DebriefCron L r)"
proof -
  show all: "keeps_inv (typed_from K) (debrief_all L r due n xs)" for due n xs
    by (induction xs arbitrary: n) (simp_all only: debrief_all.simps debrief_one_def, (intro keeps_types | assumption)+)
  show "keeps_inv (typed_from K) (CleanupCron r)" "keeps_inv (typed_from K) (DebriefCron L r)"
    unfolding CleanupCron_def DebriefCron_def by (intro keeps_types all)+
qed

end
