(* ===== verification/Officer_Demo.thy ===== *)
theory Officer_Demo
  imports Officer_System
begin

text \<open>The concrete rows and requests to which the theorems on the officers' side are applied.\<close>

text \<open>A database with two tenants: in the first a report, a cancelled visit, a contract of another
  sub-organization than the officer's and the items of both; in the second a trip.\<close>

definition demo_report :: life_report where
  "demo_report = \<lparr>le_ID = 61, le_TenantID = 3, le_CreatedByUserID = 5, le_SubOrgID = Some 21, le_ReportingFor = ''self'',
     le_SubjectName = [], le_ReportType = ''arrests'', le_Details = [], le_Status = ''unreviewed'', le_ReviewedBy = None,
     le_ReviewedAt = None, le_CreatedAt = 0, le_UpdatedAt = 0\<rparr>"

definition demo_visit :: visit where
  "demo_visit = \<lparr>vi_DestinationName = ''Lab'', vi_DissSmoCode = [], vi_VisitAddress = [], vi_AccessLevel = ''secret'',
     vi_VisitDescription = [], vi_Poc = ([], [], []), vi_SecurityPoc = ([], [], []), vi_ClonedFromID = None, vi_DD254ID = None,
     vi_ID = 62, vi_TenantID = 3, vi_CreatedByUserID = 5, vi_SubOrgID = Some 21, vi_StartDate = 0, vi_EndDate = day,
     vi_Status = ''cancelled'', vi_ReviewedBy = None, vi_ReviewedAt = None, vi_ReviewerNotes = [], vi_CreatedAt = 0, vi_UpdatedAt = 0\<rparr>"

definition demo_trip :: trip where
  "demo_trip = \<lparr>tv_ID = 63, tv_TenantID = 4, tv_UserID = 6, tv_SubOrgID = None, tv_Form = \<lparr>tv_TripName = ''Paris'',
     tv_MultiCountry = False, tv_PassportNumber = [], tv_EmergencyFirstName = [], tv_EmergencyLastName = [], tv_EmergencyPhone = [],
     tv_AdditionalComments = []\<rparr>, tv_Status = ''draft'', tv_SubmittedAt = None, tv_ReviewedAt = None, tv_ReviewedBy = None,
     tv_DebriefCreatedAt = None, tv_CreatedAt = 0, tv_UpdatedAt = 0\<rparr>"

definition demo_form :: dd254_form where
  "demo_form = \<lparr>dd_ID = 65, dd_TenantID = 3, dd_SubOrgID = Some 20, dd_ContractNumber = ''C-1'', dd_PrimeContractor = ''P'',
     dd_ClassificationMax = ''secret'', dd_PeriodStart = None, dd_PeriodEnd = None, dd_StorageKey = ''k'', dd_Filename = ''f.pdf'',
     dd_ContentType = ''application/pdf'', dd_SizeBytes = 1, dd_Markings = ''unclassified'', dd_Status = ''active'',
     dd_SupersedesID = None, dd_UploadedBy = 5, dd_CreatedAt = 0, dd_UpdatedAt = 0,
     dd_LastExpirationReminderAt = None\<rparr>"

definition demo_grant :: access_grant where
  "demo_grant = \<lparr>da_DD254ID = 65, da_UserID = 5, da_BriefedAt = Some 0, da_DebriefedAt = None, da_AddedBy = 5, da_AddedAt = 0\<rparr>"

definition office_db :: db where
  "office_db = demo_db\<lparr>
     d_tenants := d_tenants demo_db @ [\<lparr>tn_ID = 4, tn_Name = ''B'', tn_CreatedAt = 0, tn_UpdatedAt = 0, tn_SuspendedAt = None, tn_DeletedAt = None\<rparr>],
     d_users := d_users demo_db @ [\<lparr>u_ID = 6, u_TenantID = 4, u_Role = ''fso'', u_IdentityID = 7, u_CurrentClearanceID = None, u_CreatedAt = 0, u_UpdatedAt = 0\<rparr>],
     d_reports := [demo_report], d_visits := [demo_visit], d_trips := [demo_trip], d_dd254 := [demo_form], d_dd254_access := [demo_grant],
     d_action_items := [demo_item\<lparr>ai_ID := 71, ai_SourceType := ''report'', ai_SourceID := Some 61\<rparr>,
       demo_item\<lparr>ai_ID := 72, ai_SourceType := ''visit_request'', ai_SourceID := Some 62\<rparr>]\<rparr>"

abbreviation path_to :: "nat \<Rightarrow> string" where "path_to i \<equiv> replicate i (CHR ''a'')"

definition demo_office :: officer_env where
  "demo_office = \<lparr>oe_libs = demo_libs, oe_scanner = Noop_Scan, oe_noop = True, oe_storage = NewLocal ''/srv'',
     oe_texts = \<lparr>ct_systemPrompt = ''You help.'', ct_date = (\<lambda>_. ''today'')\<rparr>, oe_model = None\<rparr>"

lemma demo_office_simps [simp]: "oe_libs demo_office = demo_libs" "oe_scanner demo_office = Noop_Scan" "oe_noop demo_office = True"
  "oe_storage demo_office = NewLocal ''/srv''" "oe_model demo_office = None"
  by (simp_all add: demo_office_def)

lemmas office_rows = demo_report_def demo_visit_def demo_trip_def demo_form_def demo_grant_def

lemma office_db_simps [simp]:
  "d_reports office_db = [demo_report]" "d_visits office_db = [demo_visit]" "d_trips office_db = [demo_trip]"
  "d_dd254 office_db = [demo_form]" "d_dd254_access office_db = [demo_grant]" "d_members office_db = d_members demo_db"
  "d_suborgs office_db = d_suborgs demo_db" "d_identities office_db = [demo_identity]" "d_countries office_db = []"
  "d_trip_uploads office_db = []" "d_debriefs office_db = []" "d_clearances office_db = []" "d_chat office_db = []"
  "d_audit office_db = []" "d_outbox office_db = []" "d_ai_usage office_db = []"
  "d_action_items office_db = [demo_item\<lparr>ai_ID := 71, ai_SourceType := ''report'', ai_SourceID := Some 61\<rparr>,
       demo_item\<lparr>ai_ID := 72, ai_SourceType := ''visit_request'', ai_SourceID := Some 62\<rparr>]"
  "d_users office_db = d_users demo_db @ [\<lparr>u_ID = 6, u_TenantID = 4, u_Role = ''fso'', u_IdentityID = 7, u_CurrentClearanceID = None, u_CreatedAt = 0, u_UpdatedAt = 0\<rparr>]"
  "d_tenants office_db = d_tenants demo_db @ [\<lparr>tn_ID = 4, tn_Name = ''B'', tn_CreatedAt = 0, tn_UpdatedAt = 0, tn_SuspendedAt = None, tn_DeletedAt = None\<rparr>]"
  by (simp_all add: office_db_def)

lemma path_to_uuid [simp]: "l_uuid demo_libs (replicate (Suc n) (CHR ''a'')) = Some (Suc n)"
  by (simp add: demo_libs_def)

lemma office_typed: "well_typed office_db"
  by (simp add: well_typed_def typed_in_def refs_of_def report_ok_def visit_ok_def trip_ok_def form_ok_def grant_ok_def pointer_ok_def
      owned_ok_def office_rows reporting_for_check_def report_status_check_def access_level_check_def visit_status_check_def
      trip_status_check_def ValidClassification_def form_status_check_def RequiredMarkings_def a_user_def)

lemma office_seated: "seated member_request (refs_of office_db)"
  by (simp add: seated_def refs_of_def)

lemma office_found [simp]:
  "tenant_by office_db 3 = Some (hd (d_tenants demo_db))" "user_by office_db 5 = Some (hd (d_users demo_db))"
  "tenant_by office_db 4 \<noteq> None" "user_by office_db 6 \<noteq> None" "suborg_by office_db 21 = Some (hd (tl (d_suborgs demo_db)))"
  "primary_fso office_db 3 (Some 21) = None"
  by (simp_all add: tenant_by_def user_by_def suborg_by_def primary_fso_def)

definition demo_report_params :: report_params where
  "demo_report_params = \<lparr>np_TenantID = 4, np_CreatedByUserID = 6, np_SubOrgID = None, np_ReportingFor = ''self'',
     np_SubjectName = [], np_ReportType = ''arrests'', np_Details = ''d''\<rparr>"

definition demo_visit_params :: visit_params where
  "demo_visit_params = \<lparr>vi_DestinationName = ''Lab'', vi_DissSmoCode = [], vi_VisitAddress = [], vi_AccessLevel = ''secret'',
     vi_VisitDescription = [], vi_Poc = ([], [], []), vi_SecurityPoc = ([], [], []), vi_ClonedFromID = None, vi_DD254ID = Some 65,
     vp_TenantID = 4, vp_CreatedByUserID = 6, vp_SubOrgID = None, vp_VisitStartDate = ''2026-01-05'', vp_VisitEndDate = ''2026-01-06''\<rparr>"

lemma demo_visit_dates: "ParseDate ''2026-01-05'' \<noteq> None" "ParseDate ''2026-01-06'' \<noteq> None"
  by code_simp+

end
