(* ===== verification/Contract_Properties.thy ===== *)
theory Contract_Properties
  imports Officer_Demo
begin

text \<open>
  Which contracts cover a visit: the suggestions an officer gets while deciding, against
  what the audit export says afterwards about the contract that was linked.
\<close>

lemma in_map_filter: "y \<in> set (List.map_filter f xs) \<longleftrightarrow> (\<exists>x \<in> set xs. f x = Some y)"
  by (force simp: List.map_filter_def)

definition held :: "db \<Rightarrow> uuid \<Rightarrow> uuid \<Rightarrow> bool" where
  "held d i u = list_ex (\<lambda>a. da_DD254ID a = i \<and> da_UserID a = u \<and> da_DebriefedAt a = None) (d_dd254_access d)"

lemma in_read_on_forms:
  "f \<in> set (read_on_forms d t u) \<longleftrightarrow> f \<in> set (d_dd254 d) \<and> dd_TenantID f = t \<and> dd_Status f = ''active'' \<and> held d (dd_ID f) u"
  by (auto simp: read_on_forms_def held_def list_ex_iff filter_empty_conv split: if_splits)

lemma suggested:
  assumes "Store_SuggestForVisit flt t i d = Inr xs" "sql_row (\<lambda>v. vi_ID v = i \<and> vi_TenantID v = t) (d_visits d) = Some v"
  shows "(f, why) \<in> (\<lambda>(x, y). (fv_Form x, y)) ` set xs \<longleftrightarrow>
     f \<in> set (d_dd254 d) \<and> dd_TenantID f = t \<and> dd_Status f = ''active'' \<and> held d (dd_ID f) (vi_CreatedByUserID v) \<and>
     covers_period (vi_StartDate v) (vi_EndDate v) f \<and> class_rank (dd_ClassificationMax f) \<ge> class_rank (vi_AccessLevel v) \<and>
     why = (if class_rank (dd_ClassificationMax f) = class_rank (vi_AccessLevel v) then Exact_class else Above_class)"
proof -
  have xs: "xs = List.map_filter (\<lambda>f. let rank = class_rank (dd_ClassificationMax f) in
                if rank < class_rank (vi_AccessLevel v) then None
                else Some (form_view_of d 0 f, if rank = class_rank (vi_AccessLevel v) then Exact_class else Above_class))
              (filter (covers_period (vi_StartDate v) (vi_EndDate v)) (read_on_forms d t (vi_CreatedByUserID v)))"
    using assms by (auto simp: Store_SuggestForVisit_def query_row_def Let_def split: if_splits option.splits)
  have view: "fv_Form (form_view_of d 0 f) = f" for f by (simp add: form_view_of_def)
  show ?thesis
    unfolding xs by (force simp: image_iff in_map_filter Let_def view in_read_on_forms split: if_splits)
qed

lemma suggested_form:
  "f \<in> (\<lambda>(x, y). fv_Form x) ` S \<longleftrightarrow> (\<exists>why. (f, why) \<in> (\<lambda>(x, y). (fv_Form x, y)) ` S)"
  by force

text \<open>The suggestions for a visit are exactly the active contracts of the tenant to which the visitor
  is read on, whose period covers the visit and whose classification ranks at least as high as
  the access the visit needs; the reason given tells whether it ranks the same.\<close>

theorem suggestions_exact:
  assumes "Store_SuggestForVisit flt t i d = Inr xs"
  shows "\<exists>v \<in> set (d_visits d). vi_ID v = i \<and> vi_TenantID v = t \<and>
     (\<forall>f why. (f, why) \<in> (\<lambda>(x, y). (fv_Form x, y)) ` set xs \<longleftrightarrow>
        f \<in> set (d_dd254 d) \<and> dd_TenantID f = t \<and> dd_Status f = ''active'' \<and> held d (dd_ID f) (vi_CreatedByUserID v) \<and>
        covers_period (vi_StartDate v) (vi_EndDate v) f \<and> class_rank (dd_ClassificationMax f) \<ge> class_rank (vi_AccessLevel v) \<and>
        why = (if class_rank (dd_ClassificationMax f) = class_rank (vi_AccessLevel v) then Exact_class else Above_class))"
proof -
  obtain v where v: "sql_row (\<lambda>v. vi_ID v = i \<and> vi_TenantID v = t) (d_visits d) = Some v"
    using assms by (auto simp: Store_SuggestForVisit_def query_row_def split: if_splits option.splits)
  then show ?thesis
    using sql_row_Some [OF v] suggested [OF assms v] by auto
qed

theorem suggestions_exact_witness:
  "\<exists>xs. Store_SuggestForVisit no_faults 3 62 office_db = Inr xs \<and> (demo_form, Exact_class) \<in> (\<lambda>(x, y). (fv_Form x, y)) ` set xs"
proof -
  obtain xs where xs: "Store_SuggestForVisit no_faults 3 62 office_db = Inr xs"
    by (simp add: Store_SuggestForVisit_def query_row_def demo_visit_def Let_def)
  from suggestions_exact [OF this] have "(demo_form, Exact_class) \<in> (\<lambda>(x, y). (fv_Form x, y)) ` set xs"
    by (simp add: demo_visit_def demo_form_def demo_grant_def held_def covers_period_def)
  with xs show ?thesis by blast
qed

text \<open>Both tables rank the classes of contracts and the access levels alike, but for one level.\<close>

lemma ranks_agree: "ValidClassification c \<Longrightarrow> export_rank c = class_rank c"
  by (auto simp: ValidClassification_def export_rank_def class_rank_def classOrder_def)

lemma levels_agree: "access_level_check l \<Longrightarrow> l \<noteq> ''top_secret_sci'' \<Longrightarrow> export_rank l = class_rank l"
  by (auto simp: access_level_check_def export_rank_def class_rank_def classOrder_def)

definition reviewed :: "visit \<Rightarrow> uuid \<Rightarrow> time \<Rightarrow> visit" where
  "reviewed v i now = v\<lparr>vi_DD254ID := Some i, vi_ReviewedAt := Some now\<rparr>"

text \<open>[C12] The suggestion and the audit agree: when a visit below compartmented access is linked to an
  active contract of the tenant that the visitor holds and reviewed after the briefing, the export
  confirms the authorization exactly if the contract was suggested for the visit.\<close>

theorem suggestion_agrees_with_audit:
  assumes sug: "Store_SuggestForVisit flt t i d = Inr xs"
    and v: "sql_row (\<lambda>v. vi_ID v = i \<and> vi_TenantID v = t) (d_visits d) = Some v" "access_level_check (vi_AccessLevel v)"
      "vi_AccessLevel v \<noteq> ''top_secret_sci''"
    and f: "sql_row (\<lambda>g. dd_ID g = dd_ID f) (d_dd254 d) = Some f" "dd_TenantID f = t" "dd_Status f = ''active''"
      "ValidClassification (dd_ClassificationMax f)"
    and a: "a \<in> set (d_dd254_access d)" "da_DD254ID a = dd_ID f" "da_UserID a = vi_CreatedByUserID v" "da_DebriefedAt a = None"
      "case da_BriefedAt a of None \<Rightarrow> True | Some b \<Rightarrow> b \<le> sql_date now"
  shows "auth_confirmed d (reviewed v (dd_ID f) now) \<longleftrightarrow> f \<in> (\<lambda>(x, y). fv_Form x) ` set xs"
proof -
  have mem: "f \<in> set (d_dd254 d)" using sql_row_Some [OF f(1)] by simp
  have held: "held d (dd_ID f) (vi_CreatedByUserID v)" using a by (auto simp: held_def list_ex_iff)
  have "f \<in> (\<lambda>(x, y). fv_Form x) ` set xs \<longleftrightarrow> covers_period (vi_StartDate v) (vi_EndDate v) f \<and>
      class_rank (vi_AccessLevel v) \<le> class_rank (dd_ClassificationMax f)"
    unfolding suggested_form suggested [OF sug v(1)] using mem held f by auto
  moreover have "auth_confirmed d (reviewed v (dd_ID f) now) \<longleftrightarrow> covers_period (vi_StartDate v) (vi_EndDate v) f \<and>
      class_rank (vi_AccessLevel v) \<le> class_rank (dd_ClassificationMax f)"
    using f a ranks_agree [OF f(4)] levels_agree [OF v(2,3)] by (auto simp: auth_confirmed_def reviewed_def)
  ultimately show ?thesis by simp
qed

theorem suggestion_agrees_with_audit_witness:
  "auth_confirmed office_db (reviewed demo_visit 65 100) \<and> demo_form \<in> (\<lambda>(x, y). fv_Form x) ` set (projr (Store_SuggestForVisit no_faults 3 62 office_db))"
proof -
  obtain xs where xs: "Store_SuggestForVisit no_faults 3 62 office_db = Inr xs"
    by (simp add: Store_SuggestForVisit_def query_row_def demo_visit_def Let_def)
  have "auth_confirmed office_db (reviewed demo_visit (dd_ID demo_form) 100) \<longleftrightarrow> demo_form \<in> (\<lambda>(x, y). fv_Form x) ` set xs"
    by (rule suggestion_agrees_with_audit [OF xs, where a = demo_grant])
      (simp_all add: demo_visit_def demo_form_def demo_grant_def access_level_check_def ValidClassification_def sql_date_def)
  moreover have "auth_confirmed office_db (reviewed demo_visit 65 100)"
    by (simp add: auth_confirmed_def reviewed_def demo_visit_def demo_form_def demo_grant_def export_rank_def covers_period_def sql_date_def)
  ultimately show ?thesis by (simp add: xs demo_form_def)
qed

text \<open>For compartmented access they disagree: for a visit that needs \<^verbatim>\<open>top_secret_sci\<close> every contract
  the visitor holds and whose period covers the visit is suggested, an unclassified one
  included, while the export never confirms one below top secret.\<close>

theorem compartmented_visits_unranked:
  assumes v: "sql_row (\<lambda>v. vi_ID v = i \<and> vi_TenantID v = t) (d_visits d) = Some v" "vi_AccessLevel v = ''top_secret_sci''"
    and f: "sql_row (\<lambda>g. dd_ID g = dd_ID f) (d_dd254 d) = Some f" "dd_TenantID f = t" "dd_Status f = ''active''"
      "held d (dd_ID f) (vi_CreatedByUserID v)" "covers_period (vi_StartDate v) (vi_EndDate v) f"
      "dd_ClassificationMax f \<in> {''none'', ''confidential'', ''secret''}"
  shows "(\<exists>xs. Store_SuggestForVisit no_faults t i d = Inr xs \<and> f \<in> (\<lambda>(x, y). fv_Form x) ` set xs) \<and>
     \<not> auth_confirmed d (reviewed v (dd_ID f) now)"
proof -
  have 0: "class_rank ''top_secret_sci'' = 0" by (simp add: class_rank_def classOrder_def)
  obtain xs where xs: "Store_SuggestForVisit no_faults t i d = Inr xs"
    by (simp add: Store_SuggestForVisit_def query_row_def v Let_def)
  then have "f \<in> (\<lambda>(x, y). fv_Form x) ` set xs"
    unfolding suggested_form suggested [OF xs v(1)] using sql_row_Some [OF f(1)] f 0 v(2) by simp
  moreover have "\<not> auth_confirmed d (reviewed v (dd_ID f) now)"
    using f(1,6) by (auto simp: auth_confirmed_def reviewed_def v export_rank_def)
  ultimately show ?thesis using xs by simp
qed

theorem compartmented_visits_unranked_witness:
  "\<exists>xs. Store_SuggestForVisit no_faults 3 62 (office_db\<lparr>d_visits := [demo_visit\<lparr>vi_AccessLevel := ''top_secret_sci''\<rparr>]\<rparr>) = Inr xs \<and>
     demo_form \<in> (\<lambda>(x, y). fv_Form x) ` set xs"
  using compartmented_visits_unranked [of 62 3 "office_db\<lparr>d_visits := [demo_visit\<lparr>vi_AccessLevel := ''top_secret_sci''\<rparr>]\<rparr>"
      "demo_visit\<lparr>vi_AccessLevel := ''top_secret_sci''\<rparr>" demo_form 100]
  by (simp add: demo_visit_def demo_form_def demo_grant_def held_def covers_period_def)

end
