(* ===== verification/Formats.thy ===== *)
theory Formats
  imports Go_Std
begin

text \<open>
  What the exports use of the Go standard library: \<^verbatim>\<open>time.Format\<close> with the layouts
  \<^verbatim>\<open>2006-01-02\<close> and \<^verbatim>\<open>RFC3339\<close>, and the writer of \<^verbatim>\<open>encoding/csv\<close>. A reader of
  comma-separated files after RFC 4180 is the specification the writer is proved against.
\<close>

subsection \<open>Decimal numbers\<close>

definition digit_char :: "nat \<Rightarrow> char" where
  "digit_char n = char_of (48 + n)"

fun decimal :: "nat \<Rightarrow> string" where
  "decimal n = (if n < 10 then [digit_char n] else decimal (n div 10) @ [digit_char (n mod 10)])"

declare decimal.simps [simp del]

definition zero_pad :: "nat \<Rightarrow> string \<Rightarrow> string" where
  "zero_pad w s = replicate (w - length s) (CHR ''0'') @ s"

text \<open>The number format of \<^verbatim>\<open>time.Format\<close>: at least \<open>w\<close> digits.\<close>

definition padded :: "nat \<Rightarrow> int \<Rightarrow> string" where
  "padded w n = (if n < 0 then CHR ''-'' # zero_pad w (decimal (nat (- n))) else zero_pad w (decimal (nat n)))"

lemma digit_value_digit_char [simp]: "n < 10 \<Longrightarrow> digit_value (digit_char n) = Some (int n)"
  by (simp add: digit_value_def digit_char_def Let_def)

lemma digit_value_zero [simp]: "digit_value (CHR ''0'') = Some 0"
  by (simp add: digit_value_def of_char_def)

lemma digit_value_range: "digit_value c = Some v \<Longrightarrow> 0 \<le> v \<and> v < 10"
  by (auto simp: digit_value_def Let_def split: if_splits)

lemma digit_value_inj: "digit_value c = Some v \<Longrightarrow> digit_value c' = Some v \<Longrightarrow> c = c'"
  by (auto simp: digit_value_def Let_def split: if_splits)

lemma read_digits_append:
  "read_digits a (s @ s') = (case read_digits a s of None \<Rightarrow> None | Some b \<Rightarrow> read_digits b s')"
  by (induction s arbitrary: a) (auto split: option.split)

lemma read_digits_decimal: "read_digits 0 (decimal n) = Some (int n)"
proof (induction n rule: less_induct)
  case (less n)
  show ?case
  proof (cases "n < 10")
    case False
    then have "read_digits 0 (decimal (n div 10)) = Some (int (n div 10))" using less by simp
    moreover have "10 * int (n div 10) + int (n mod 10) = int n"
      by (simp only: of_nat_mod of_nat_div) simp
    ultimately show ?thesis
      using False by (simp add: decimal.simps [of n] read_digits_append)
  qed (simp add: decimal.simps [of n])
qed

lemma read_digits_zeros [simp]: "read_digits 0 (replicate k (CHR ''0'') @ s) = read_digits 0 s"
  by (induction k) simp_all

lemma decimal_not_empty [simp]: "decimal n \<noteq> []"
  by (simp add: decimal.simps [of n])

lemma length_zero_pad [simp]: "length s \<le> w \<Longrightarrow> length (zero_pad w s) = w"
  by (simp add: zero_pad_def)

lemma length_decimal: "n < 10 ^ k \<Longrightarrow> 0 < k \<Longrightarrow> length (decimal n) \<le> k"
proof (induction n arbitrary: k rule: less_induct)
  case (less n)
  show ?case
  proof (cases "n < 10")
    case False
    then have "k \<noteq> 1" using less.prems by auto
    then have "n div 10 < 10 ^ (k - 1)" "0 < k - 1"
      using less.prems by (cases k; auto simp: less_mult_imp_div_less mult.commute)+
    then have "length (decimal (n div 10)) \<le> k - 1" using less.IH [of "n div 10" "k - 1"] False by simp
    then show ?thesis using False less.prems by (simp add: decimal.simps [of n])
  qed (use less.prems in \<open>simp add: decimal.simps [of n] Suc_leI\<close>)
qed

lemma read_padded: "0 \<le> n \<Longrightarrow> read_number (padded w n) = Some n"
  by (simp add: read_number_def padded_def zero_pad_def read_digits_decimal)

lemma length_padded: "0 \<le> n \<Longrightarrow> n < 10 ^ w \<Longrightarrow> 0 < w \<Longrightarrow> length (padded w n) = w"
  using length_decimal [of "nat n" w] by (simp add: padded_def nat_less_iff)

text \<open>Two texts of the same length that read as the same number are the same.\<close>

lemma read_digits_inj:
  "read_digits a s = Some n \<Longrightarrow> read_digits b s' = Some n \<Longrightarrow> length s = length s' \<Longrightarrow> a = b \<and> s = s'"
proof (induction s arbitrary: a b s')
  case (Cons c cs)
  obtain c' cs' where s': "s' = c' # cs'" "length cs = length cs'" using Cons.prems(3) by (cases s') auto
  obtain v v' where v: "digit_value c = Some v" "digit_value c' = Some v'"
    "read_digits (10 * a + v) cs = Some n" "read_digits (10 * b + v') cs' = Some n"
    using Cons.prems s' by (auto split: option.splits)
  then have eq: "10 * a + v = 10 * b + v'" "cs = cs'" using Cons.IH s'(2) by blast+
  moreover have "0 \<le> v" "v < 10" "0 \<le> v'" "v' < 10" using digit_value_range v(1,2) by blast+
  ultimately have ab: "a = b" by presburger
  then have "v = v'" using eq by simp
  then show ?case using digit_value_inj v(1,2) s' eq(2) ab by blast
qed simp

lemma read_number_inj: "read_number s = Some n \<Longrightarrow> read_number s' = Some n \<Longrightarrow> length s = length s' \<Longrightarrow> s = s'"
  using read_digits_inj [of 0 s n 0 s'] by (auto simp: read_number_def split: if_splits)

lemma read_number_bound: "read_number s = Some n \<Longrightarrow> n < 10 ^ length s"
proof -
  have "read_digits a t = Some m \<Longrightarrow> m < (a + 1) * 10 ^ length t" for a t m
  proof (induction t arbitrary: a)
    case (Cons c cs)
    then obtain v where v: "digit_value c = Some v" "read_digits (10 * a + v) cs = Some m" by (auto split: option.splits)
    then have "m < (10 * a + v + 1) * 10 ^ length cs" using Cons.IH by blast
    also have "\<dots> \<le> (10 * a + 10) * 10 ^ length cs"
      using digit_value_range [OF v(1)] by (intro mult_right_mono) simp_all
    finally show ?case by (simp add: algebra_simps)
  qed simp
  from this [of 0 s n] show "read_number s = Some n \<Longrightarrow> n < 10 ^ length s"
    by (auto simp: read_number_def split: if_splits)
qed

lemma read_number_nonneg: "read_number s = Some n \<Longrightarrow> 0 \<le> n"
proof -
  have "read_digits a t = Some m \<Longrightarrow> 0 \<le> a \<Longrightarrow> 0 \<le> m" for a t m
  proof (induction t arbitrary: a)
    case (Cons c cs)
    then obtain v where "digit_value c = Some v" "read_digits (10 * a + v) cs = Some m" by (auto split: option.splits)
    then show ?case using Cons.IH [of "10 * a + v"] Cons.prems(2) digit_value_range [of c v] by simp
  qed simp
  then show "read_number s = Some n \<Longrightarrow> 0 \<le> n" by (auto simp: read_number_def split: if_splits)
qed

subsection \<open>Dates\<close>

text \<open>The date of a day number: the 400-year cycle it falls in, then year and month by
  their lengths.\<close>

definition year_days :: "int \<Rightarrow> int" where
  "year_days y = (if leap y then 366 else 365)"

function year_of :: "int \<Rightarrow> int \<Rightarrow> int \<times> int" where
  "year_of y r = (if r < year_days y then (y, r) else year_of (y + 1) (r - year_days y))"
  by pat_completeness auto
termination by (relation "measure (\<lambda>(y, r). nat r)") (auto simp: year_days_def split: if_splits)

function month_of :: "int \<Rightarrow> int \<Rightarrow> int \<Rightarrow> int \<times> int" where
  "month_of y m r = (if 12 \<le> m \<or> r < days_in y m then (m, r) else month_of y (m + 1) (r - days_in y m))"
  by pat_completeness auto
termination by (relation "measure (\<lambda>(y, m, r). nat (12 - m))") auto

declare year_of.simps [simp del] month_of.simps [simp del]

definition civil :: "int \<Rightarrow> int \<times> int \<times> int" where
  "civil n = (let (y, r) = year_of (400 * ((n + 719162) div 146097) + 1) ((n + 719162) mod 146097);
                  (m, k) = month_of y 1 r in (y, m, k + 1))"

definition FormatDate :: "time \<Rightarrow> string" where
  "FormatDate t = (case civil (t div day) of (y, m, d) \<Rightarrow> padded 4 y @ ''-'' @ padded 2 m @ ''-'' @ padded 2 d)"

definition FormatRFC3339 :: "time \<Rightarrow> string" where
  "FormatRFC3339 t = (let s = t mod day div second in
     FormatDate t @ ''T'' @ padded 2 (s div 3600) @ '':'' @ padded 2 (s div 60 mod 60) @ '':'' @ padded 2 (s mod 60) @ ''Z'')"

lemma days_before_year_step: "days_before_year (y + 1) = days_before_year y + year_days y"
  by (simp add: days_before_next_year year_days_def)

lemma year_of_correct:
  "year_of y r = (y', r') \<Longrightarrow> 0 \<le> r \<Longrightarrow>
   days_before_year y' + r' = days_before_year y + r \<and> 0 \<le> r' \<and> r' < year_days y'"
proof (induction y r rule: year_of.induct)
  case (1 y r)
  show ?case
  proof (cases "r < year_days y")
    case False
    then show ?thesis using 1 by (simp add: year_of.simps [of y r] days_before_year_step)
  qed (use 1 in \<open>simp add: year_of.simps [of y r]\<close>)
qed

definition days_from :: "int \<Rightarrow> int \<Rightarrow> int" where
  "days_from y m = (\<Sum>k \<leftarrow> [m..12]. days_in y k)"

lemma days_from_step: "m \<le> 12 \<Longrightarrow> days_from y m = days_in y m + days_from y (m + 1)"
  by (simp add: days_from_def upto_rec1)

lemma days_from_year: "days_from y 1 = year_days y"
  by (simp add: days_from_def year_days_def upto.simps days_in_def)

lemma days_from_end: "days_from y 13 = 0"
  by (simp add: days_from_def)

lemma month_of_correct:
  "month_of y m r = (m', r') \<Longrightarrow> 1 \<le> m \<Longrightarrow> m \<le> 12 \<Longrightarrow> 0 \<le> r \<Longrightarrow> r < days_from y m \<Longrightarrow>
   day_number y m' (r' + 1) = day_number y m (r + 1) \<and> 1 \<le> m' \<and> m' \<le> 12 \<and> 0 \<le> r' \<and> r' < days_in y m'"
proof (induction y m r rule: month_of.induct)
  case (1 y m r)
  consider (stop) "r < days_in y m" | (last) "12 \<le> m" "\<not> r < days_in y m" | (go) "m < 12" "\<not> r < days_in y m" by linarith
  then show ?case
  proof cases
    case last
    then have "m = 12" using 1 by simp
    then show ?thesis using 1(6) last days_from_step [of 12 y] by (simp add: days_from_end)
  next
    case go
    then have "r - days_in y m < days_from y (m + 1)" using 1(6) days_from_step [of m y] by simp
    moreover have "day_number y (m + 1) (r - days_in y m + 1) = day_number y m (r + 1)"
      using day_number_next_month [of m y] 1(3) by (simp add: day_number_def)
    ultimately show ?thesis using 1 go by (simp add: month_of.simps [of y m r])
  qed (use 1 in \<open>simp add: month_of.simps [of y m r]\<close>)
qed

lemma cycle_start: "days_before_year (400 * c + 1) = 146097 * c - 719162"
proof -
  have "4 * (100 * c) div 4 = 100 * c" "100 * (4 * c) div 100 = 4 * c" "400 * c div 400 = c"
    by (rule nonzero_mult_div_cancel_left; simp)+
  then have "400 * c div 4 = 100 * c" "400 * c div 100 = 4 * c" "400 * c div 400 = c"
    by (simp_all add: mult.assoc [symmetric])
  then show ?thesis by (simp add: days_before_year_def)
qed

definition is_date :: "int \<Rightarrow> int \<Rightarrow> int \<Rightarrow> bool" where
  "is_date y m d = (1 \<le> m \<and> m \<le> 12 \<and> 1 \<le> d \<and> d \<le> days_in y m)"

lemma civil_correct:
  assumes "civil n = (y, m, d)"
  shows "is_date y m d" "day_number y m d = n"
proof -
  define c where "c = (n + 719162) div 146097"
  obtain r where y: "year_of (400 * c + 1) ((n + 719162) mod 146097) = (y, r)" and m: "month_of y 1 r = (m, d - 1)"
    using assms by (auto simp: civil_def c_def Let_def split: prod.splits)
  have r: "days_before_year y + r = n" "0 \<le> r" "r < year_days y"
    using year_of_correct [OF y] by (auto simp: cycle_start c_def) (simp add: mod_div_mult_eq [symmetric] minus_mod_eq_mult_div [symmetric])
  have "day_number y 1 (r + 1) = n" using r by (simp add: day_number_def)
  then show "is_date y m d" "day_number y m d = n"
    using month_of_correct [OF m] r by (auto simp: is_date_def days_from_year)
qed

text \<open>A date has one day number and no other date has it.\<close>

lemma days_in_pos: "28 \<le> days_in y m"
  by (simp add: days_in_def)

lemma days_before_year_mono: "y \<le> y' \<Longrightarrow> days_before_year y \<le> days_before_year y'"
proof (induction y' rule: int_ge_induct)
  case (step i)
  then show ?case by (simp add: days_before_year_step year_days_def split: if_splits)
qed simp

lemma days_before_month_step: "1 \<le> m \<Longrightarrow> day_number y (m + 1) 1 = day_number y m 1 + days_in y m"
  using day_number_next_month [of m y] by (simp add: day_number_def)

lemma day_number_month_mono: "m \<le> m' \<Longrightarrow> 1 \<le> m \<Longrightarrow> day_number y m 1 \<le> day_number y m' 1"
proof (induction m' rule: int_ge_induct)
  case (step i)
  then show ?case using days_in_pos [of y i] by (simp add: days_before_month_step)
qed simp

lemma day_number_day: "day_number y m d = day_number y m 1 + (d - 1)"
  by (simp add: day_number_def)

lemma day_number_in_month: "is_date y m d \<Longrightarrow> day_number y m 1 \<le> day_number y m d \<and> day_number y m d < day_number y (m + 1) 1"
  by (auto simp: is_date_def days_before_month_step day_number_day [of y m d])

lemma day_number_in_year: "is_date y m d \<Longrightarrow> days_before_year y \<le> day_number y m d \<and> day_number y m d < days_before_year (y + 1)"
  using day_number_in_month [of y m d] day_number_month_mono [of 1 m y] day_number_month_mono [of "m + 1" 13 y]
    day_number_next_month [of 12 y] day_number_next_year [of y]
  by (auto simp: is_date_def day_number_def [of _ 1 1] day_number_day [of y 12 31] days_in_def [of y 12] day_number_day [of y 12 "days_in y 12"])

lemma day_number_inj:
  assumes "is_date y m d" "is_date y' m' d'" "day_number y m d = day_number y' m' d'"
  shows "y = y' \<and> m = m' \<and> d = d'"
proof -
  have y: "y = y'"
    using day_number_in_year [OF assms(1)] day_number_in_year [OF assms(2)] assms(3)
      days_before_year_mono [of "y + 1" y'] days_before_year_mono [of "y' + 1" y] by linarith
  have m: "m = m'"
    using day_number_in_month [OF assms(1)] day_number_in_month [OF assms(2)] assms y
      day_number_month_mono [of "m + 1" m' y] day_number_month_mono [of "m' + 1" m y]
    by (cases m m' rule: linorder_cases) (auto simp: is_date_def)
  then show ?thesis using y assms(3) by (simp add: day_number_def)
qed

lemma civil_day_number: "is_date y m d \<Longrightarrow> civil (day_number y m d) = (y, m, d)"
proof -
  obtain y' m' d' where c: "civil (day_number y m d) = (y', m', d')" by (cases "civil (day_number y m d)")
  then show "is_date y m d \<Longrightarrow> civil (day_number y m d) = (y, m, d)"
    using day_number_inj [of y m d y' m' d'] civil_correct [OF c] by simp
qed

text \<open>The years whose number has four digits.\<close>

definition four_digit_year :: "time \<Rightarrow> bool" where
  "four_digit_year t = (let y = fst (civil (t div day)) in 0 \<le> y \<and> y < 10000)"

lemma ParseDate_parts:
  "ParseDate s = Some t \<longleftrightarrow> length s = 10 \<and> s ! 4 = CHR ''-'' \<and> s ! 7 = CHR ''-'' \<and>
     (\<exists>y m d. read_number (take 4 s) = Some y \<and> read_number (take 2 (drop 5 s)) = Some m \<and>
       read_number (drop 8 s) = Some d \<and> is_date y m d \<and> t = day_number y m d * day)"
  by (auto simp: ParseDate_def is_date_def split: option.splits)

lemma FormatDate_split:
  assumes "civil (t div day) = (y, m, d)" "four_digit_year t"
  shows "length (padded 4 y) = 4" "length (padded 2 m) = 2" "length (padded 2 d) = 2" "is_date y m d" "0 \<le> y"
    "FormatDate t = padded 4 y @ ''-'' @ padded 2 m @ ''-'' @ padded 2 d"
proof -
  show d: "is_date y m d" using civil_correct(1) [OF assms(1)] .
  then have "1 \<le> m" "m < 100" "1 \<le> d" "d < 100" by (auto simp: is_date_def days_in_def split: if_splits)
  then show "length (padded 2 m) = 2" "length (padded 2 d) = 2" by (simp_all add: length_padded)
  show "0 \<le> y" "length (padded 4 y) = 4" using assms by (simp_all add: four_digit_year_def length_padded)
  show "FormatDate t = padded 4 y @ ''-'' @ padded 2 m @ ''-'' @ padded 2 d" using assms(1) by (simp add: FormatDate_def)
qed

lemma ParseDate_FormatDate:
  assumes "four_digit_year t"
  shows "ParseDate (FormatDate t) = Some (sql_date t)"
proof -
  obtain y m d where c: "civil (t div day) = (y, m, d)" by (cases "civil (t div day)")
  note f = FormatDate_split [OF c assms]
  have "read_number (padded 4 y) = Some y" "read_number (padded 2 m) = Some m" "read_number (padded 2 d) = Some d"
    using f(4,5) by (simp_all add: read_padded is_date_def)
  moreover have "day_number y m d * day = sql_date t" using civil_correct(2) [OF c] by (simp add: sql_date_def)
  ultimately show ?thesis using f by (simp add: ParseDate_parts nth_append)
qed

lemma FormatDate_ParseDate:
  assumes "ParseDate s = Some t"
  shows "FormatDate t = s"
proof -
  obtain y m d where s: "length s = 10" "s ! 4 = CHR ''-''" "s ! 7 = CHR ''-''" "read_number (take 4 s) = Some y"
    "read_number (take 2 (drop 5 s)) = Some m" "read_number (drop 8 s) = Some d" "is_date y m d" "t = day_number y m d * day"
    using assms by (auto simp: ParseDate_parts)
  have c: "civil (t div day) = (y, m, d)" using civil_day_number s(7,8) by simp
  have y: "0 \<le> y" using read_number_nonneg s(4) by blast
  have p: "y < 10000" using read_number_bound [OF s(4)] s(1) by simp
  then have t: "four_digit_year t" using c y by (simp add: four_digit_year_def)
  note f = FormatDate_split [OF c t]
  have "take 4 s = padded 4 y" "take 2 (drop 5 s) = padded 2 m" "drop 8 s = padded 2 d"
    using f s by (auto intro!: read_number_inj simp: read_padded is_date_def)
  moreover have "s = take 4 s @ [s ! 4] @ take 2 (drop 5 s) @ [s ! 7] @ drop 8 s"
    using s(1) id_take_nth_drop [of 4 s] id_take_nth_drop [of 2 "drop 5 s"] by simp
  ultimately show ?thesis using f(6) s(2,3) by simp
qed

subsection \<open>Comma-separated files\<close>

abbreviation CR :: char where "CR \<equiv> CHR 0x0D"
abbreviation LF :: char where "LF \<equiv> CHR 0x0A"
abbreviation quote_char :: char where "quote_char \<equiv> CHR 0x22"

text \<open>Whether the first rune of a UTF-8 text is a space to \<^verbatim>\<open>unicode.IsSpace\<close>.\<close>

definition starts_with_space :: "string \<Rightarrow> bool" where
  "starts_with_space s = (case map (of_char :: char \<Rightarrow> nat) (take 3 s) of
     [] \<Rightarrow> False
   | b # bs \<Rightarrow> b \<in> {9, 10, 11, 12, 13, 32} \<or> (b = 0xC2 \<and> take 1 bs \<in> {[0x85], [0xA0]}) \<or>
       (b # bs) \<in> {[0xE1, 0x9A, 0x80], [0xE2, 0x80, 0xA8], [0xE2, 0x80, 0xA9], [0xE2, 0x80, 0xAF], [0xE2, 0x81, 0x9F], [0xE3, 0x80, 0x80]} \<or>
       (b = 0xE2 \<and> (case bs of [x, y] \<Rightarrow> x = 0x80 \<and> 0x80 \<le> y \<and> y \<le> 0x8A | _ \<Rightarrow> False)))"

definition fieldNeedsQuotes :: "string \<Rightarrow> bool" where
  "fieldNeedsQuotes f = (f \<noteq> [] \<and> (f = [CHR 0x5C, CHR ''.''] \<or>
     list_ex (\<lambda>c. c = LF \<or> c = CR \<or> c = quote_char \<or> c = CHR '','') f \<or> starts_with_space f))"

text \<open>\<open>crlf\<close> is the flag \<^verbatim>\<open>UseCRLF\<close>: inside quotes a carriage return is then dropped and a
  line feed written as both.\<close>

definition quoted_char :: "bool \<Rightarrow> char \<Rightarrow> string" where
  "quoted_char crlf c = (if c = quote_char then [quote_char, quote_char]
     else if c = CR then (if crlf then [] else [CR])
     else if c = LF then (if crlf then [CR, LF] else [LF]) else [c])"

definition csv_field :: "bool \<Rightarrow> string \<Rightarrow> string" where
  "csv_field crlf f = (if fieldNeedsQuotes f then quote_char # concat (map (quoted_char crlf) f) @ [quote_char] else f)"

fun csv_fields :: "bool \<Rightarrow> string list \<Rightarrow> string" where
  "csv_fields crlf [] = []"
| "csv_fields crlf [f] = csv_field crlf f"
| "csv_fields crlf (f # g # fs) = csv_field crlf f @ '','' @ csv_fields crlf (g # fs)"

definition csv_record :: "bool \<Rightarrow> string list \<Rightarrow> string" where
  "csv_record crlf fs = csv_fields crlf fs @ (if crlf then [CR, LF] else [LF])"

text \<open>A reader after RFC 4180. It is in the middle of a field that is not quoted, of a quoted
  one, behind the closing quote of one, or before the first character of a field; records end
  with a line feed, which a carriage return may precede.\<close>

datatype csv_mode = At_record | At_field | In_plain | In_quotes | After_quotes

fun csv_scan :: "csv_mode \<Rightarrow> string \<Rightarrow> string list \<Rightarrow> string \<Rightarrow> string list list option" where
  "csv_scan md f fs [] = (case md of At_record \<Rightarrow> Some [] | In_quotes \<Rightarrow> None | _ \<Rightarrow> Some [fs @ [f]])"
| "csv_scan md f fs (c # cs) =
     (if md = In_quotes then (if c = quote_char then csv_scan After_quotes f fs cs else csv_scan In_quotes (f @ [c]) fs cs)
      else if c = CHR '','' then csv_scan At_field [] (fs @ [f]) cs
      else if c = LF then map_option ((#) (fs @ [f])) (csv_scan At_record [] [] cs)
      else if c = CR \<and> take 1 cs = [LF] then csv_scan md f fs cs
      else if c = quote_char then
        (if md = After_quotes then csv_scan In_quotes (f @ [quote_char]) fs cs
         else if md = In_plain then None else csv_scan In_quotes [] fs cs)
      else if md = After_quotes then None
      else csv_scan In_plain (f @ [c]) fs cs)"

definition csv_read :: "string \<Rightarrow> string list list option" where
  "csv_read s = csv_scan At_record [] [] s"

text \<open>What a reader gets back of a field.\<close>

definition line_ends :: "bool \<Rightarrow> string \<Rightarrow> string" where
  "line_ends crlf f = (if crlf then concat (map (\<lambda>c. if c = CR then [] else if c = LF then [CR, LF] else [c]) f) else f)"

lemma line_ends_id: "\<not> crlf \<or> (CR \<notin> set f \<and> LF \<notin> set f) \<Longrightarrow> line_ends crlf f = f"
  by (induction f) (auto simp: line_ends_def)

lemma scan_quoted:
  "csv_scan In_quotes g fs (concat (map (quoted_char crlf) f) @ quote_char # rest) =
   csv_scan After_quotes (g @ line_ends crlf f) fs rest"
  by (induction f arbitrary: g) (auto simp: quoted_char_def line_ends_def)

definition field_end :: "string \<Rightarrow> bool" where
  "field_end s = (case s of [] \<Rightarrow> True | c # cs \<Rightarrow> c = CHR '','' \<or> c = LF \<or> (c = CR \<and> take 1 cs = [LF]))"

text \<open>Behind a field it no longer matters how it was written.\<close>

lemma scan_field_end:
  assumes "md \<noteq> In_quotes" "md \<noteq> At_record" "field_end rest" "rest \<noteq> []"
  shows "csv_scan md f fs rest = csv_scan In_plain f fs rest"
proof -
  obtain c cs where r: "rest = c # cs" using assms(4) by (cases rest) auto
  show ?thesis
  proof (cases "c = CR")
    case True
    then obtain cs' where "cs = LF # cs'" using assms(3) r by (cases cs) (auto simp: field_end_def)
    then show ?thesis using assms(1) r True by simp
  qed (use assms r in \<open>auto simp: field_end_def\<close>)
qed

lemma scan_record_end:
  assumes "field_end rest" "rest \<noteq> []"
  shows "csv_scan At_record f fs rest = csv_scan In_plain f fs rest"
proof -
  obtain c cs where r: "rest = c # cs" using assms(2) by (cases rest) auto
  show ?thesis
  proof (cases "c = CR")
    case True
    then obtain cs' where "cs = LF # cs'" using assms(1) r by (cases cs) (auto simp: field_end_def)
    then show ?thesis using r True by simp
  qed (use assms r in \<open>auto simp: field_end_def\<close>)
qed

lemma scan_plain:
  assumes "\<forall>c \<in> set f. c \<noteq> LF \<and> c \<noteq> CR \<and> c \<noteq> quote_char \<and> c \<noteq> CHR '',''"
  shows "csv_scan In_plain g fs (f @ rest) = csv_scan In_plain (g @ f) fs rest"
  using assms by (induction f arbitrary: g) auto

lemma scan_field:
  assumes "md \<in> {At_record, At_field}" "field_end rest" "rest \<noteq> []"
  shows "csv_scan md [] fs (csv_field crlf f @ rest) = csv_scan In_plain (line_ends crlf f) fs rest"
proof (cases "fieldNeedsQuotes f")
  case True
  then show ?thesis
    using assms scan_quoted [of "[]" fs crlf f rest] scan_field_end [of After_quotes rest]
    by (auto simp: csv_field_def)
next
  case False
  then have plain: "\<forall>c \<in> set f. c \<noteq> LF \<and> c \<noteq> CR \<and> c \<noteq> quote_char \<and> c \<noteq> CHR '',''"
    by (cases f) (auto simp: fieldNeedsQuotes_def list_ex_iff)
  then have le: "line_ends crlf f = f" by (intro line_ends_id) auto
  show ?thesis
  proof (cases f)
    case Nil
    then show ?thesis using assms False scan_field_end [of At_field rest] scan_record_end [of rest]
      by (auto simp: csv_field_def line_ends_def)
  next
    case (Cons c cs)
    then have "csv_scan md [] fs (f @ rest) = csv_scan In_plain [c] fs (cs @ rest)" using plain assms(1) by auto
    then show ?thesis using scan_plain [of cs "[c]" fs rest] plain Cons False le by (simp add: csv_field_def)
  qed
qed

lemma scan_fields:
  assumes "fs \<noteq> []" "md \<in> {At_record, At_field}" "field_end rest" "rest \<noteq> []" "take 1 rest \<noteq> '',''"
  shows "csv_scan md [] gs (csv_fields crlf fs @ rest) =
    csv_scan In_plain (line_ends crlf (last fs)) (gs @ map (line_ends crlf) (butlast fs)) rest"
  using assms
proof (induction crlf fs arbitrary: md gs rule: csv_fields.induct)
  case (3 crlf f g fs)
  have "csv_scan md [] gs (csv_field crlf f @ (CHR '','' # csv_fields crlf (g # fs) @ rest)) =
      csv_scan In_plain (line_ends crlf f) gs (CHR '','' # csv_fields crlf (g # fs) @ rest)"
    using "3.prems" by (intro scan_field) (simp_all add: field_end_def)
  then show ?case using 3 by simp
qed (simp_all add: scan_field)

lemma scan_record:
  assumes "fs \<noteq> []"
  shows "csv_scan At_record [] [] (csv_record crlf fs @ rest) =
    map_option ((#) (map (line_ends crlf) fs)) (csv_scan At_record [] [] rest)"
proof -
  have "map (line_ends crlf) (butlast fs) @ [line_ends crlf (last fs)] = map (line_ends crlf) fs"
    using assms by (metis append_butlast_last_id map_append list.map(1) list.map(2))
  moreover have "csv_scan At_record [] [] (csv_record crlf fs @ rest) =
      csv_scan In_plain (line_ends crlf (last fs)) (map (line_ends crlf) (butlast fs)) ((if crlf then [CR, LF] else [LF]) @ rest)"
    using assms scan_fields [of fs At_record "(if crlf then [CR, LF] else [LF]) @ rest" "[]" crlf]
    by (auto simp: csv_record_def field_end_def)
  ultimately show ?thesis by (cases crlf) simp_all
qed

text \<open>A file of records that are not empty reads back as these records.\<close>

lemma csv_read_records:
  "[] \<notin> set rows \<Longrightarrow> csv_read (concat (map (csv_record crlf) rows)) = Some (map (map (line_ends crlf)) rows)"
proof (induction rows)
  case (Cons r rows)
  then show ?case using scan_record [of r crlf "concat (map (csv_record crlf) rows)"] by (auto simp: csv_read_def)
qed (simp add: csv_read_def)

lemma csv_examples:
  "csv_record False [''a,b'', [], [CHR ''x'', quote_char]] =
     [quote_char] @ ''a,b'' @ [quote_char] @ '',,'' @ [quote_char, CHR ''x'', quote_char, quote_char, quote_char, LF]"
  by code_simp

end
