(* ===== verification/Dev_Tools.thy ===== *)
theory Dev_Tools
  imports Formats "HOL-Library.Multiset"
begin

text \<open>
  The parts of the developers' tool \<^verbatim>\<open>tools/dev\<close> that decide something: which images of the
  registry are pruned and how the workers that delete them account for them (\<^verbatim>\<open>registry.go\<close>),
  the counting of lines (\<^verbatim>\<open>loc.go\<close>), and the searches for a port, for the root of the repository
  and for the database (\<^verbatim>\<open>config.go\<close>). Commands it starts are arguments.
\<close>

subsection \<open>Pruning the registry\<close>

record ar_image =
  im_Package :: string
  im_Version :: string
  im_CreateTime :: string
  im_Tags :: "string list"
  im_Size :: int

definition protectedTags :: "string list" where
  "protectedTags = [''latest'', ''staging'', ''prod'']"

text \<open>\<open>parse\<close> is \<^verbatim>\<open>time.Parse(time.RFC3339, _)\<close>. The result are the images to delete and the number
  of those spared for a tag.\<close>

fun prune_loop :: "(string \<Rightarrow> time option) \<Rightarrow> time \<Rightarrow> ar_image list \<Rightarrow> ar_image list \<times> nat" where
  "prune_loop parse cutoff [] = ([], 0)"
| "prune_loop parse cutoff (img # imgs) = (let (chosen, skipped) = prune_loop parse cutoff imgs in
     (case parse (im_CreateTime img) of
        None \<Rightarrow> (chosen, skipped)
      | Some created \<Rightarrow>
          if created > cutoff then (chosen, skipped)
          else if list_ex (\<lambda>tag. tag \<in> set protectedTags) (im_Tags img) then (chosen, skipped + 1)
          else (img # chosen, skipped)))"

definition select_images :: "(string \<Rightarrow> time option) \<Rightarrow> time \<Rightarrow> ar_image list \<Rightarrow> ar_image list \<times> nat" where
  "select_images parse now imgs = prune_loop parse (now - 30 * day) imgs"

text \<open>The workers: each takes an image from the channel and looks whether the user has interrupted; if so it ends, and
  what it took is dropped; otherwise it deletes the image and reports the outcome. \<open>fails\<close> says which
  deletions the registry refuses.\<close>

record prune_state =
  ps_work :: "ar_image list"
  ps_busy :: "ar_image list"
  ps_results :: "(ar_image \<times> bool) list"   \<comment> \<open>with whether it was deleted\<close>
  ps_dropped :: "ar_image list"
  ps_idle :: nat
  ps_interrupted :: bool

definition maxWorkers :: nat where "maxWorkers = 8"

definition prune_start :: "ar_image list \<Rightarrow> prune_state" where
  "prune_start imgs = \<lparr>ps_work = imgs, ps_busy = [], ps_results = [], ps_dropped = [],
     ps_idle = min maxWorkers (length imgs), ps_interrupted = False\<rparr>"

inductive prune_step :: "(ar_image \<Rightarrow> bool) \<Rightarrow> prune_state \<Rightarrow> prune_state \<Rightarrow> bool" for fails where
  take: "ps_work s = img # rest \<Longrightarrow> 0 < ps_idle s \<Longrightarrow> \<not> ps_interrupted s \<Longrightarrow>
    prune_step fails s (s\<lparr>ps_work := rest, ps_busy := img # ps_busy s, ps_idle := ps_idle s - 1\<rparr>)"
| quit: "ps_work s = img # rest \<Longrightarrow> 0 < ps_idle s \<Longrightarrow> ps_interrupted s \<Longrightarrow>
    prune_step fails s (s\<lparr>ps_work := rest, ps_dropped := img # ps_dropped s, ps_idle := ps_idle s - 1\<rparr>)"
| finish: "ps_busy s = before @ img # after \<Longrightarrow>
    prune_step fails s (s\<lparr>ps_busy := before @ after, ps_results := ps_results s @ [(img, \<not> fails img)], ps_idle := ps_idle s + 1\<rparr>)"
| retire: "ps_work s = [] \<Longrightarrow> 0 < ps_idle s \<Longrightarrow> prune_step fails s (s\<lparr>ps_idle := ps_idle s - 1\<rparr>)"
| interrupt: "prune_step fails s (s\<lparr>ps_interrupted := True\<rparr>)"

text \<open>All workers have ended.\<close>

definition prune_done :: "prune_state \<Rightarrow> bool" where
  "prune_done s = (ps_busy s = [] \<and> ps_idle s = 0)"

definition prune_inv :: "(ar_image \<Rightarrow> bool) \<Rightarrow> ar_image list \<Rightarrow> prune_state \<Rightarrow> bool" where
  "prune_inv fails imgs s = (
     mset (ps_work s) + mset (ps_busy s) + mset (map fst (ps_results s)) + mset (ps_dropped s) = mset imgs \<and>
     (\<forall>(img, ok) \<in> set (ps_results s). ok \<longleftrightarrow> \<not> fails img) \<and>
     length (ps_busy s) + ps_idle s \<le> maxWorkers \<and>
     (\<not> ps_interrupted s \<longrightarrow> ps_dropped s = [] \<and> (ps_work s \<noteq> [] \<longrightarrow> 0 < length (ps_busy s) + ps_idle s)))"

lemma prune_inv_start: "prune_inv fails imgs (prune_start imgs)"
  by (auto simp: prune_inv_def prune_start_def maxWorkers_def)

lemma prune_inv_step: "prune_step fails s s' \<Longrightarrow> prune_inv fails imgs s \<Longrightarrow> prune_inv fails imgs s'"
  by (induction rule: prune_step.induct) (auto simp: prune_inv_def)

lemma prune_inv_run: "(prune_step fails)\<^sup>*\<^sup>* (prune_start imgs) s \<Longrightarrow> prune_inv fails imgs s"
  by (induction rule: rtranclp_induct) (auto intro: prune_inv_start prune_inv_step)

lemma selected_images:
  "prune_loop parse cutoff imgs = (chosen, skipped) \<Longrightarrow>
   chosen = filter (\<lambda>img. (\<exists>created. parse (im_CreateTime img) = Some created \<and> created \<le> cutoff) \<and>
     set (im_Tags img) \<inter> set protectedTags = {}) imgs"
  by (induction imgs arbitrary: chosen skipped)
    (auto simp: list_ex_iff Let_def split: prod.splits option.splits if_splits)

text \<open>[C28] Pruning never touches what is deployed. At every moment of a run, whatever the interleaving of the workers
  and wherever the user interrupts, the images worked on or deleted are over thirty days old, with a readable
  date, and carry none of the protected tags; each image chosen is in exactly one place, at most eight
  are being deleted at once, and when all workers have ended without interruption every chosen
  image has exactly one outcome, deleted unless the registry refused.\<close>

theorem prune_spares_deployed:
  assumes "select_images parse now imgs = (chosen, skipped)" "(prune_step fails)\<^sup>*\<^sup>* (prune_start chosen) s"
  shows "(\<forall>img \<in> set (ps_busy s) \<union> fst ` set (ps_results s).
      img \<in> set imgs \<and> set (im_Tags img) \<inter> {''latest'', ''staging'', ''prod''} = {} \<and>
      (\<exists>created. parse (im_CreateTime img) = Some created \<and> created \<le> now - 30 * day)) \<and>
    mset (ps_work s) + mset (ps_busy s) + mset (map fst (ps_results s)) + mset (ps_dropped s) = mset chosen \<and>
    length (ps_busy s) \<le> 8 \<and>
    (prune_done s \<and> \<not> ps_interrupted s \<longrightarrow>
       mset (ps_results s) = image_mset (\<lambda>img. (img, \<not> fails img)) (mset chosen))"
proof -
  have inv: "prune_inv fails chosen s" using prune_inv_run assms(2) by blast
  then have all: "mset (ps_work s) + mset (ps_busy s) + mset (map fst (ps_results s)) + mset (ps_dropped s) = mset chosen"
    by (simp add: prune_inv_def)
  have sel: "\<forall>img \<in> set chosen. img \<in> set imgs \<and> set (im_Tags img) \<inter> {''latest'', ''staging'', ''prod''} = {} \<and>
      (\<exists>created. parse (im_CreateTime img) = Some created \<and> created \<le> now - 30 * day)"
    using selected_images [OF assms(1) [unfolded select_images_def]] by (auto simp: protectedTags_def)
  have "set (ps_busy s) \<union> fst ` set (ps_results s) \<subseteq> set chosen"
    using arg_cong [OF all, of set_mset] by auto
  moreover have "mset (ps_results s) = image_mset (\<lambda>img. (img, \<not> fails img)) (mset chosen)"
    if "prune_done s" "\<not> ps_interrupted s"
  proof -
    have "ps_work s = []" "ps_busy s = []" "ps_dropped s = []" using inv that by (auto simp: prune_inv_def prune_done_def)
    then have "mset chosen = mset (map fst (ps_results s))" using all by simp
    moreover have "map (\<lambda>x. (fst x, \<not> fails (fst x))) (ps_results s) = ps_results s"
      using inv by (intro map_idI) (auto simp: prune_inv_def)
    ultimately show ?thesis by (metis (no_types, lifting) comp_apply list.map_comp map_eq_conv mset_map)
  qed
  moreover have "length (ps_busy s) \<le> 8" using inv by (simp add: prune_inv_def maxWorkers_def)
  ultimately show ?thesis using sel all by blast
qed

definition stale_image :: ar_image where
  "stale_image = \<lparr>im_Package = ''api'', im_Version = ''v1'', im_CreateTime = ''old'', im_Tags = [''abc''], im_Size = 1\<rparr>"

definition deployed_image :: ar_image where
  "deployed_image = \<lparr>im_Package = ''api'', im_Version = ''v2'', im_CreateTime = ''old'', im_Tags = [''abc'', ''prod''], im_Size = 1\<rparr>"

theorem prune_spares_deployed_witness:
  "select_images (\<lambda>_. Some 0) (31 * day) [stale_image, deployed_image] = ([stale_image], 1) \<and>
   (\<exists>s. (prune_step (\<lambda>_. False))\<^sup>*\<^sup>* (prune_start [stale_image]) s \<and> prune_done s \<and> mset (ps_results s) = {#(stale_image, True)#})"
proof -
  have sel: "select_images (\<lambda>_. Some 0) (31 * day) [stale_image, deployed_image] = ([stale_image], 1)"
    by (simp add: select_images_def stale_image_def deployed_image_def protectedTags_def)
  let ?s0 = "prune_start [stale_image]"
  let ?s1 = "?s0\<lparr>ps_work := [], ps_busy := [stale_image], ps_idle := 0\<rparr>"
  let ?s2 = "?s1\<lparr>ps_busy := [], ps_results := [(stale_image, True)], ps_idle := 1\<rparr>"
  let ?s3 = "?s2\<lparr>ps_idle := 0\<rparr>"
  have "prune_step (\<lambda>_. False) ?s0 ?s1"
    using prune_step.take [of ?s0 stale_image "[]" "\<lambda>_. False"] by (simp add: prune_start_def maxWorkers_def)
  moreover have "prune_step (\<lambda>_. False) ?s1 ?s2"
    using prune_step.finish [of ?s1 "[]" stale_image "[]" "\<lambda>_. False"] by (simp add: prune_start_def maxWorkers_def)
  moreover have "prune_step (\<lambda>_. False) ?s2 ?s3"
    using prune_step.retire [of ?s2 "\<lambda>_. False"] by (simp add: prune_start_def maxWorkers_def)
  ultimately have run: "(prune_step (\<lambda>_. False))\<^sup>*\<^sup>* ?s0 ?s3" by (meson rtranclp.rtrancl_into_rtrancl rtranclp.rtrancl_refl)
  have "prune_done ?s3" "\<not> ps_interrupted ?s3" by (simp_all add: prune_done_def prune_start_def)
  then have "mset (ps_results ?s3) = {#(stale_image, True)#}"
    using prune_spares_deployed [OF sel run] by simp
  with sel run \<open>prune_done ?s3\<close> show ?thesis by blast
qed

subsection \<open>Counting lines\<close>

record lang_row =
  lr_prod :: nat
  lr_test :: nat

definition lang_total :: "lang_row \<Rightarrow> nat" where
  "lang_total r = lr_prod r + lr_test r"

text \<open>\<^verbatim>\<open>merge\<close>: the rows are a map by language, the source the pairs of one run of \<^verbatim>\<open>cloc\<close>.\<close>

definition merge_one :: "bool \<Rightarrow> string \<times> nat \<Rightarrow> (string \<rightharpoonup> lang_row) \<Rightarrow> (string \<rightharpoonup> lang_row)" where
  "merge_one isTest = (\<lambda>(lang, code) rows.
     let r = (case rows lang of None \<Rightarrow> \<lparr>lr_prod = 0, lr_test = 0\<rparr> | Some r \<Rightarrow> r) in
     rows(lang \<mapsto> (if isTest then r\<lparr>lr_test := lr_test r + code\<rparr> else r\<lparr>lr_prod := lr_prod r + code\<rparr>)))"

definition merge_rows :: "bool \<Rightarrow> (string \<times> nat) list \<Rightarrow> (string \<rightharpoonup> lang_row) \<Rightarrow> (string \<rightharpoonup> lang_row)" where
  "merge_rows isTest = fold (merge_one isTest)"

definition lines_of :: "(string \<rightharpoonup> lang_row) \<Rightarrow> string \<Rightarrow> nat \<times> nat" where
  "lines_of rows lang = (case rows lang of None \<Rightarrow> (0, 0) | Some r \<Rightarrow> (lr_prod r, lr_test r))"

text \<open>Every line counted is in the row of its language, as test or as product.\<close>

lemma lines_of_merge_one:
  "lines_of (merge_one isTest (l, code) rows) lang =
    (case lines_of rows lang of (p, t) \<Rightarrow> if l \<noteq> lang then (p, t) else if isTest then (p, t + code) else (p + code, t))"
  by (simp add: lines_of_def merge_one_def Let_def split: option.split)

lemma lines_of_merge:
  "lines_of (merge_rows isTest src rows) lang =
    (let n = sum_list (map snd (filter (\<lambda>(l, _). l = lang) src)) in
     case lines_of rows lang of (p, t) \<Rightarrow> if isTest then (p, t + n) else (p + n, t))"
proof (induction src arbitrary: rows)
  case (Cons x xs)
  obtain l code where "x = (l, code)" by (cases x)
  then show ?case using Cons.IH [of "merge_one isTest x rows"]
    by (auto simp: merge_rows_def lines_of_merge_one Let_def split: prod.splits)
qed (simp add: merge_rows_def Let_def split: prod.split)

text \<open>\<^verbatim>\<open>fmtNum\<close> for a number that is not negative: the loop takes three digits off the end.\<close>

function group_digits :: "string \<Rightarrow> string list \<Rightarrow> string list" where
  "group_digits s parts = (if length s > 3 then group_digits (take (length s - 3) s) (drop (length s - 3) s # parts) else s # parts)"
  by pat_completeness auto
termination by (relation "measure (\<lambda>(s, _). length s)") auto

declare group_digits.simps [simp del]

fun join_commas :: "string list \<Rightarrow> string" where
  "join_commas [] = []"
| "join_commas [p] = p"
| "join_commas (p # q # ps) = p @ '','' @ join_commas (q # ps)"

definition fmtNum :: "nat \<Rightarrow> string" where
  "fmtNum n = (let s = decimal n in if length s \<le> 3 then s else join_commas (group_digits s []))"

lemma concat_group_digits: "concat (group_digits s parts) = s @ concat parts"
proof (induction s parts rule: group_digits.induct)
  case (1 s parts)
  then show ?case by (cases "length s > 3") (simp_all add: group_digits.simps [of s parts])
qed

lemma group_sizes:
  "\<forall>p \<in> set parts. length p = 3 \<Longrightarrow> s \<noteq> [] \<Longrightarrow>
   \<exists>g gs. group_digits s parts = g # gs \<and> g \<noteq> [] \<and> length g \<le> 3 \<and> (\<forall>p \<in> set gs. length p = 3)"
proof (induction s parts rule: group_digits.induct)
  case (1 s parts)
  show ?case
  proof (cases "length s > 3")
    case True
    then have "take (length s - 3) s \<noteq> []" "\<forall>p \<in> set (drop (length s - 3) s # parts). length p = 3" using 1(2) by auto
    from 1(1) [OF True this(2,1)] show ?thesis using True by (simp add: group_digits.simps [of s parts])
  qed (use 1(2,3) in \<open>simp add: group_digits.simps [of s parts]\<close>)
qed

lemma join_commas_digits: "\<forall>p \<in> set ps. CHR '','' \<notin> set p \<Longrightarrow> filter (\<lambda>c. c \<noteq> CHR '','') (join_commas ps) = concat ps"
  by (induction ps rule: join_commas.induct) (auto simp: filter_id_conv)

lemma decimal_no_comma: "CHR '','' \<notin> set (decimal n)"
proof (induction n rule: less_induct)
  case (less n)
  have d: "CHR '','' \<noteq> digit_char k" if "k < 10" for k
  proof
    assume "CHR '','' = digit_char k"
    then have "digit_value (CHR '','') = Some (int k)" using that by simp
    then show False by (simp add: digit_value_def of_char_def)
  qed
  show ?case
  proof (cases "n < 10")
    case False
    then show ?thesis using less d [of "n mod 10"] by (simp add: decimal.simps [of n])
  qed (use d in \<open>simp add: decimal.simps [of n]\<close>)
qed

text \<open>Without its commas a formatted number is the number again, and the commas stand between groups of three digits
  after a first group of one to three.\<close>

lemma fmtNum_reads_back: "read_number (filter (\<lambda>c. c \<noteq> CHR '','') (fmtNum n)) = Some (int n)"
proof -
  have "CHR '','' \<notin> set p" if "p \<in> set (group_digits (decimal n) [])" for p
    using that concat_group_digits [of "decimal n" "[]"] decimal_no_comma [of n] by (metis UN_I append_Nil2 concat.simps(1) set_concat)
  then have "filter (\<lambda>c. c \<noteq> CHR '','') (join_commas (group_digits (decimal n) [])) = decimal n"
    by (simp add: join_commas_digits concat_group_digits)
  moreover have "filter (\<lambda>c. c \<noteq> CHR '','') (decimal n) = decimal n" using decimal_no_comma [of n] by (auto simp: filter_id_conv)
  ultimately show ?thesis by (simp add: fmtNum_def Let_def read_number_def read_digits_decimal)
qed

subsection \<open>Configuration of the tool\<close>

record db_config =
  dc_Host :: string
  dc_Port :: string
  dc_User :: string
  dc_Password :: string
  dc_Name :: string
  dc_SSLMode :: string
  dc_External :: bool

definition envOr :: "(string \<Rightarrow> string) \<Rightarrow> string \<Rightarrow> string \<Rightarrow> string" where
  "envOr E key fallback = (if E key \<noteq> [] then E key else fallback)"

text \<open>What \<^verbatim>\<open>net/url\<close> makes of the address: host name, port, user, password, path and the parameter
  \<^verbatim>\<open>sslmode\<close>, or an error.\<close>

record parsed_url =
  pu_Hostname :: string
  pu_Port :: string
  pu_Username :: string
  pu_Password :: string
  pu_Path :: string
  pu_SSLMode :: string

definition parseDBURL :: "parsed_url option \<Rightarrow> db_config" where
  "parseDBURL u = (case u of
     None \<Rightarrow> \<lparr>dc_Host = ''localhost'', dc_Port = ''5432'', dc_User = ''fastfso'', dc_Password = ''fastfso'', dc_Name = ''fastfso'',
       dc_SSLMode = ''disable'', dc_External = True\<rparr>
   | Some u \<Rightarrow> \<lparr>dc_Host = pu_Hostname u, dc_Port = (if pu_Port u = [] then ''5432'' else pu_Port u), dc_User = pu_Username u,
       dc_Password = pu_Password u, dc_Name = TrimPrefix (pu_Path u) ''/'',
       dc_SSLMode = (if pu_SSLMode u = [] then ''disable'' else pu_SSLMode u), dc_External = True\<rparr>)"

definition dbDefaultPort :: nat where "dbDefaultPort = 5433"

text \<open>\<open>parse\<close> is the parser above and \<open>container\<close> the port the running container answers, if any.\<close>

definition loadDBConfig :: "(string \<Rightarrow> parsed_url option) \<Rightarrow> string option \<Rightarrow> (string \<Rightarrow> string) \<Rightarrow> db_config" where
  "loadDBConfig parse container E = (if E ''DATABASE_URL'' \<noteq> [] then parseDBURL (parse (E ''DATABASE_URL''))
     else let c = \<lparr>dc_Host = ''localhost'', dc_Port = (case container of Some p \<Rightarrow> p | None \<Rightarrow> decimal dbDefaultPort),
            dc_User = envOr E ''DB_USER'' ''fastfso'', dc_Password = envOr E ''DB_PASSWORD'' ''fastfso'',
            dc_Name = envOr E ''DB_NAME'' ''fastfso'', dc_SSLMode = envOr E ''DB_SSLMODE'' ''disable'', dc_External = False\<rparr> in
       if E ''DB_HOST'' \<noteq> [] then c\<lparr>dc_Host := E ''DB_HOST'', dc_Port := envOr E ''DB_PORT'' ''5432'', dc_External := True\<rparr>
       else c)"

definition config_URL :: "db_config \<Rightarrow> string" where
  "config_URL c = ''postgres://'' @ dc_User c @ '':'' @ dc_Password c @ ''@'' @ dc_Host c @ '':'' @ dc_Port c @ ''/'' @ dc_Name c @
     ''?sslmode='' @ dc_SSLMode c"

definition WithName :: "db_config \<Rightarrow> string \<Rightarrow> db_config" where
  "WithName c name = c\<lparr>dc_Name := name\<rparr>"

text \<open>The tool manages a container only for a database that is its own.\<close>

lemma container_only_for_local:
  "\<not> dc_External (loadDBConfig parse container E) \<Longrightarrow>
   E ''DATABASE_URL'' = [] \<and> E ''DB_HOST'' = [] \<and> dc_Host (loadDBConfig parse container E) = ''localhost''"
  by (auto simp: loadDBConfig_def parseDBURL_def Let_def split: if_splits option.splits)

text \<open>\<^verbatim>\<open>findAvailablePort\<close> probes ten ports; \<open>free\<close> says which can be listened on.\<close>

fun find_port :: "(int \<Rightarrow> bool) \<Rightarrow> int \<Rightarrow> nat \<Rightarrow> int option" where
  "find_port free port 0 = None"
| "find_port free port (Suc n) = (if free port then Some port else find_port free (port + 1) n)"

definition findAvailablePort :: "(int \<Rightarrow> bool) \<Rightarrow> int \<Rightarrow> int option" where
  "findAvailablePort free startPort = find_port free startPort 10"

lemma find_port_Some:
  "find_port free port n = Some p \<longleftrightarrow> port \<le> p \<and> p < port + int n \<and> free p \<and> (\<forall>q. port \<le> q \<and> q < p \<longrightarrow> \<not> free q)"
proof (induction n arbitrary: port)
  case (Suc n)
  show ?case
  proof (cases "free port")
    case True
    then show ?thesis by (auto simp: order.order_iff_strict)
  next
    case False
    then have "(\<forall>q. port \<le> q \<and> q < p \<longrightarrow> \<not> free q) \<longleftrightarrow> (\<forall>q. port + 1 \<le> q \<and> q < p \<longrightarrow> \<not> free q)"
      by (metis add1_zle_eq order_le_less)
    moreover have "port \<le> p \<and> free p \<longleftrightarrow> port + 1 \<le> p \<and> free p" using False by (metis add1_zle_eq order_le_less)
    ultimately show ?thesis using Suc [of "port + 1"] False by auto
  qed
qed auto

lemma findAvailablePort_least:
  "findAvailablePort free s = Some p \<longleftrightarrow> s \<le> p \<and> p < s + 10 \<and> free p \<and> (\<forall>q. s \<le> q \<and> q < p \<longrightarrow> \<not> free q)"
  by (simp add: findAvailablePort_def find_port_Some)

lemma findAvailablePort_none: "findAvailablePort free s = None \<longleftrightarrow> (\<forall>q. s \<le> q \<and> q < s + 10 \<longrightarrow> \<not> free q)"
proof -
  have "find_port free p n = None \<longleftrightarrow> (\<forall>q. p \<le> q \<and> q < p + int n \<longrightarrow> \<not> free q)" for p n
  proof (induction n arbitrary: p)
    case (Suc n)
    have "(\<forall>q. p \<le> q \<and> q < p + int (Suc n) \<longrightarrow> \<not> free q) \<longleftrightarrow> \<not> free p \<and> (\<forall>q. p + 1 \<le> q \<and> q < p + 1 + int n \<longrightarrow> \<not> free q)"
    proof
      assume "\<forall>q. p \<le> q \<and> q < p + int (Suc n) \<longrightarrow> \<not> free q"
      then show "\<not> free p \<and> (\<forall>q. p + 1 \<le> q \<and> q < p + 1 + int n \<longrightarrow> \<not> free q)" by simp
    next
      assume a: "\<not> free p \<and> (\<forall>q. p + 1 \<le> q \<and> q < p + 1 + int n \<longrightarrow> \<not> free q)"
      have "\<not> free q" if "p \<le> q" "q < p + int (Suc n)" for q
        using a that by (cases "q = p") simp_all
      then show "\<forall>q. p \<le> q \<and> q < p + int (Suc n) \<longrightarrow> \<not> free q" by blast
    qed
    then show ?case using Suc [of "p + 1"] by simp
  qed auto
  from this [of s 10] show ?thesis by (simp add: findAvailablePort_def)
qed

text \<open>\<^verbatim>\<open>repoRoot\<close> climbs from the working directory, whose path is given by its segments, to the root of the file
  system; \<open>has_git\<close> is the test for a directory \<^verbatim>\<open>.git\<close>.\<close>

function climb :: "(string list \<Rightarrow> bool) \<Rightarrow> string list \<Rightarrow> string list option" where
  "climb has_git dir = (if has_git dir then Some dir else if dir = [] then None else climb has_git (butlast dir))"
  by pat_completeness auto
termination by (relation "measure (\<lambda>(_, dir). length dir)") auto

declare climb.simps [simp del]

lemma climb_nearest:
  "climb has_git dir = Some root \<longleftrightarrow>
   (\<exists>rest. dir = root @ rest \<and> has_git root \<and> (\<forall>k. length root < k \<and> k \<le> length dir \<longrightarrow> \<not> has_git (take k dir)))"
proof (induction has_git dir rule: climb.induct)
  case (1 has_git dir)
  show ?case
  proof (cases "has_git dir")
    case True
    then show ?thesis by (auto simp: climb.simps [of has_git dir] dest: spec [of _ "length dir"])
  next
    case False
    show ?thesis
    proof (cases dir rule: rev_cases)
      case Nil
      then have "climb has_git dir = None" using False climb.simps [of has_git "[]"] by simp
      then show ?thesis using False Nil by auto
    next
      case (snoc up seg)
      have step: "climb has_git dir = climb has_git up" using False snoc climb.simps [of has_git "up @ [seg]"] by simp
      have IH: "climb has_git up = Some root \<longleftrightarrow> (\<exists>rest. up = root @ rest \<and> has_git root \<and>
          (\<forall>k. length root < k \<and> k \<le> length up \<longrightarrow> \<not> has_git (take k up)))"
        using 1 False snoc by simp
      have "(\<exists>rest. dir = root @ rest \<and> has_git root \<and> (\<forall>k. length root < k \<and> k \<le> length dir \<longrightarrow> \<not> has_git (take k dir))) \<longleftrightarrow>
        (\<exists>rest. up = root @ rest \<and> has_git root \<and> (\<forall>k. length root < k \<and> k \<le> length up \<longrightarrow> \<not> has_git (take k up)))" (is "?L \<longleftrightarrow> ?R")
      proof
        assume ?L
        then obtain rest where r: "dir = root @ rest" "has_git root"
          "\<forall>k. length root < k \<and> k \<le> length dir \<longrightarrow> \<not> has_git (take k dir)" by blast
        then have "rest \<noteq> []" using False by auto
        then have "up = root @ butlast rest" using r(1) snoc by (metis butlast_append butlast_snoc)
        moreover have "\<not> has_git (take k up)" if "length root < k" "k \<le> length up" for k
          using r(3) [rule_format, of k] that snoc by simp
        ultimately show ?R using r(2) by blast
      next
        assume ?R
        then obtain rest where r: "up = root @ rest" "has_git root"
          "\<forall>k. length root < k \<and> k \<le> length up \<longrightarrow> \<not> has_git (take k up)" by blast
        have "\<not> has_git (take k dir)" if "length root < k" "k \<le> length dir" for k
          using r(3) [rule_format, of k] that False snoc by (cases "k = length dir") auto
        then show ?L using r(1,2) snoc by auto
      qed
      then show ?thesis using step IH by simp
    qed
  qed
qed

subsection \<open>Statistics of the registry and the Terraform command line\<close>

text \<open>\<^verbatim>\<open>cmdRegistry\<close>: the breakdown per package, ordered by size (the order of equal sizes is not fixed by
  the code; here it is that of first occurrence), and the newest images.\<close>

definition package_stats :: "ar_image list \<Rightarrow> (string \<times> nat \<times> int) list" where
  "package_stats imgs = sort_key (\<lambda>(_, _, bytes). - bytes) (map (\<lambda>pkg.
     let own = filter (\<lambda>img. im_Package img = pkg) imgs in (pkg, length own, sum_list (map im_Size own)))
     (remdups (map im_Package imgs)))"

definition total_bytes :: "ar_image list \<Rightarrow> int" where
  "total_bytes imgs = sum_list (map im_Size imgs)"

lemma sum_by_package:
  fixes f :: "ar_image \<Rightarrow> 'n::comm_monoid_add"
  shows "(\<Sum>pkg \<in> im_Package ` set imgs. sum_list (map f (filter (\<lambda>img. im_Package img = pkg) imgs))) = sum_list (map f imgs)"
proof (induction imgs)
  case (Cons x xs)
  let ?g = "\<lambda>ys pkg. sum_list (map f (filter (\<lambda>img. im_Package img = pkg) ys))"
  let ?P = "im_Package ` set (x # xs)"
  have "(\<Sum>pkg \<in> ?P. ?g (x # xs) pkg) = (\<Sum>pkg \<in> ?P. (if im_Package x = pkg then f x else 0) + ?g xs pkg)"
    by (rule sum.cong) simp_all
  also have "\<dots> = f x + (\<Sum>pkg \<in> ?P. ?g xs pkg)" by (simp add: sum.distrib)
  also have "(\<Sum>pkg \<in> ?P. ?g xs pkg) = (\<Sum>pkg \<in> im_Package ` set xs. ?g xs pkg)"
  proof (rule sum.mono_neutral_right)
    show "\<forall>pkg \<in> ?P - im_Package ` set xs. ?g xs pkg = 0"
    proof
      fix pkg
      assume "pkg \<in> ?P - im_Package ` set xs"
      then have "filter (\<lambda>img. im_Package img = pkg) xs = []" by (auto simp: filter_empty_conv)
      then show "?g xs pkg = 0" by simp
    qed
  qed auto
  finally show ?case using Cons by simp
qed simp

text \<open>The breakdown adds up to the summary above it.\<close>

lemma package_stats_add_up:
  "sum_list (map (\<lambda>(_, n, _). n) (package_stats imgs)) = length imgs"
  "sum_list (map (\<lambda>(_, _, bytes). bytes) (package_stats imgs)) = total_bytes imgs"
proof -
  have s: "sum_list (map h (sort_key k xs)) = sum_list (map h xs)" for h :: "'a \<Rightarrow> 'b::comm_monoid_add" and k :: "'a \<Rightarrow> int" and xs
    by (metis mset_map mset_sort sum_mset_sum_list)
  have d: "sum_list (map h (remdups (map im_Package imgs))) = (\<Sum>pkg \<in> im_Package ` set imgs. h pkg)" for h :: "string \<Rightarrow> 'n::comm_monoid_add"
    by (simp add: sum_list_distinct_conv_sum_set)
  have "(\<Sum>pkg \<in> im_Package ` set imgs. length (filter (\<lambda>img. im_Package img = pkg) imgs)) = length imgs"
    using sum_by_package [of "\<lambda>_. 1 :: nat" imgs] by (simp add: sum_list_triv)
  then show "sum_list (map (\<lambda>(_, n, _). n) (package_stats imgs)) = length imgs"
    by (simp add: package_stats_def s comp_def Let_def d)
  show "sum_list (map (\<lambda>(_, _, bytes). bytes) (package_stats imgs)) = total_bytes imgs"
    using sum_by_package [of im_Size imgs] by (simp add: package_stats_def s comp_def Let_def d total_bytes_def)
qed

definition infra_command :: "string list \<Rightarrow> string list \<Rightarrow> bool \<Rightarrow> string + string list" where
  \<comment> \<open>environments, arguments behind \<^verbatim>\<open>infra\<close>, whether standard input is a terminal\<close>
  "infra_command envs args isTTY = (case args of
     [] \<Rightarrow> Inl ''usage''
   | [e] \<Rightarrow> if e \<notin> set envs then Inl ''unknown environment'' else Inl ''missing action''
   | e # action # extra \<Rightarrow>
       if e \<notin> set envs then Inl ''unknown environment''
       else if action \<notin> {''plan'', ''deploy'', ''apply'', ''destroy''} then Inl ''unknown action''
       else Inr ([if action = ''plan'' then ''plan'' else if action = ''destroy'' then ''destroy'' else ''apply''] @
         (if isTTY then [] else [''-input=false'']) @ extra))"

lemma infra_destroys_only_when_told:
  "infra_command envs (e # action # extra) isTTY = Inr (''destroy'' # rest) \<longleftrightarrow>
   e \<in> set envs \<and> action = ''destroy'' \<and> rest = (if isTTY then [] else [''-input=false'']) @ extra"
  by (auto simp: infra_command_def)

end
