(* ===== verification/Error_Reports.thy ===== *)
theory Error_Reports
  imports SubOrg_Handlers Formats
begin

text \<open>
  \<^verbatim>\<open>backend/internal/errorreport\<close>: the endpoint that takes error reports from browsers, and the
  limiter in front of it, which keeps one token bucket per address in memory and forgets the
  addresses that have been quiet for five minutes. The buckets are those of
  \<^verbatim>\<open>golang.org/x/time/rate\<close>, which is not under the source tree: their two operations are arguments.
\<close>

subsection \<open>The limiter\<close>

text \<open>\<open>new\<close> is \<^verbatim>\<open>rate.NewLimiter(rate.Every(time.Minute/10), 5)\<close> and \<open>allow now\<close> is
  \<^verbatim>\<open>Allow\<close> at that time: the bucket after it and the answer.\<close>

type_synonym 'l limiters = "string \<rightharpoonup> 'l \<times> time"

definition limiter_get :: "'l \<Rightarrow> time \<Rightarrow> string \<Rightarrow> 'l limiters \<Rightarrow> 'l limiters \<times> 'l" where
  "limiter_get new now ip S = (let l = (case S ip of None \<Rightarrow> new | Some (l, _) \<Rightarrow> l) in (S(ip \<mapsto> (l, now)), l))"

definition limiter_cleanup :: "time \<Rightarrow> 'l limiters \<Rightarrow> 'l limiters" where
  "limiter_cleanup now S = (\<lambda>ip. case S ip of None \<Rightarrow> None
     | Some (l, lastSeen) \<Rightarrow> if now - lastSeen > 5 * minute then None else Some (l, lastSeen))"

text \<open>The middleware for one request: whether the handler is reached. The bucket is shared by reference, so that
  \<^verbatim>\<open>Allow\<close> changes the one in the map.\<close>

definition report_limit :: "'l \<Rightarrow> (time \<Rightarrow> 'l \<Rightarrow> 'l \<times> bool) \<Rightarrow> time \<Rightarrow> string \<Rightarrow> 'l limiters \<Rightarrow> 'l limiters \<times> bool" where
  "report_limit new allow now ip S = (case limiter_get new now ip S of (S', l) \<Rightarrow>
     case allow now l of (l', ok) \<Rightarrow> (S'(ip \<mapsto> (l', now)), ok))"

datatype limiter_event = Report_from string | Tick

fun serve_reports :: "'l \<Rightarrow> (time \<Rightarrow> 'l \<Rightarrow> 'l \<times> bool) \<Rightarrow> 'l limiters \<Rightarrow> (time \<times> limiter_event) list \<Rightarrow> bool list" where
  "serve_reports new allow S [] = []"
| "serve_reports new allow S ((now, Report_from ip) # es) =
     (case report_limit new allow now ip S of (S', ok) \<Rightarrow> ok # serve_reports new allow S' es)"
| "serve_reports new allow S ((now, Tick) # es) = serve_reports new allow (limiter_cleanup now S) es"

text \<open>The reference: one bucket per address that is never forgotten, so that an answer depends on the times of
  the requests of that address alone.\<close>

fun answers :: "(time \<Rightarrow> 'l \<Rightarrow> 'l \<times> bool) \<Rightarrow> 'l \<Rightarrow> time list \<Rightarrow> bool list" where
  "answers allow l [] = []"
| "answers allow l (t # ts) = (case allow t l of (l', ok) \<Rightarrow> ok # answers allow l' ts)"

fun bucket_after :: "(time \<Rightarrow> 'l \<Rightarrow> 'l \<times> bool) \<Rightarrow> 'l \<Rightarrow> time list \<Rightarrow> 'l" where
  "bucket_after allow l [] = l"
| "bucket_after allow l (t # ts) = bucket_after allow (fst (allow t l)) ts"

fun reference_answers :: "'l \<Rightarrow> (time \<Rightarrow> 'l \<Rightarrow> 'l \<times> bool) \<Rightarrow> (string \<Rightarrow> time list) \<Rightarrow> (time \<times> limiter_event) list \<Rightarrow> bool list" where
  "reference_answers new allow H [] = []"
| "reference_answers new allow H ((now, Report_from ip) # es) =
     snd (allow now (bucket_after allow new (H ip))) # reference_answers new allow (H(ip := H ip @ [now])) es"
| "reference_answers new allow H ((now, Tick) # es) = reference_answers new allow H es"

text \<open>What the documentation of the bucket gives: with a burst of five and a token every six seconds it is full again
  after half a minute, so that one that has been left alone for over five minutes answers as a new one.\<close>

definition refills :: "'l \<Rightarrow> (time \<Rightarrow> 'l \<Rightarrow> 'l \<times> bool) \<Rightarrow> bool" where
  "refills new allow = (\<forall>past t0 ts. sorted (past @ t0 # ts) \<and> (\<forall>t \<in> set ts. t > t0 + 5 * minute) \<longrightarrow>
     answers allow (bucket_after allow new (past @ [t0])) ts = answers allow new ts)"

lemma bucket_after_append: "bucket_after allow l (xs @ ys) = bucket_after allow (bucket_after allow l xs) ys"
  by (induction xs arbitrary: l) auto

text \<open>Two buckets that answer alike from a time on.\<close>

definition alike :: "(time \<Rightarrow> 'l \<Rightarrow> 'l \<times> bool) \<Rightarrow> time \<Rightarrow> 'l \<Rightarrow> 'l \<Rightarrow> bool" where
  "alike allow now l l' = (\<forall>ts. sorted ts \<and> (\<forall>t \<in> set ts. now \<le> t) \<longrightarrow> answers allow l ts = answers allow l' ts)"

lemma alike_step:
  assumes "alike allow now l l'" "now \<le> t"
  shows "snd (allow t l) = snd (allow t l')" "alike allow t (fst (allow t l)) (fst (allow t l'))"
proof -
  have a: "answers allow l (t # ts) = answers allow l' (t # ts)" if "sorted ts" "\<forall>u \<in> set ts. t \<le> u" for ts
  proof -
    have "sorted (t # ts)" "\<forall>u \<in> set (t # ts). now \<le> u" using assms(2) that by force+
    then show ?thesis using assms(1) unfolding alike_def by blast
  qed
  from a [of "[]"] show "snd (allow t l) = snd (allow t l')" by (simp split: prod.splits)
  show "alike allow t (fst (allow t l)) (fst (allow t l'))"
    unfolding alike_def
  proof (intro allI impI)
    fix ts
    assume "sorted ts \<and> (\<forall>u \<in> set ts. t \<le> u)"
    then show "answers allow (fst (allow t l)) ts = answers allow (fst (allow t l')) ts"
      using a [of ts] by (simp split: prod.splits)
  qed
qed

lemma alike_later: "alike allow now l l' \<Longrightarrow> now \<le> t \<Longrightarrow> alike allow t l l'"
  by (force simp: alike_def)

text \<open>The map against the histories: an address that is kept has a bucket that answers as the one that saw its whole
  history; one that is not kept has no history, or a history that ended over five minutes ago.\<close>

definition tracked :: "'l \<Rightarrow> (time \<Rightarrow> 'l \<Rightarrow> 'l \<times> bool) \<Rightarrow> time \<Rightarrow> ('l \<times> time) option \<Rightarrow> time list \<Rightarrow> bool" where
  "tracked new allow now st h = (sorted h \<and> (\<forall>t \<in> set h. t \<le> now) \<and>
     (case st of
        Some (l, lastSeen) \<Rightarrow> h \<noteq> [] \<and> lastSeen = last h \<and> alike allow now l (bucket_after allow new h)
      | None \<Rightarrow> h = [] \<or> now > last h + 5 * minute))"

definition tracks :: "'l \<Rightarrow> (time \<Rightarrow> 'l \<Rightarrow> 'l \<times> bool) \<Rightarrow> time \<Rightarrow> 'l limiters \<Rightarrow> (string \<Rightarrow> time list) \<Rightarrow> bool" where
  "tracks new allow now S H = (\<forall>ip. tracked new allow now (S ip) (H ip))"

lemma idle_bucket_is_new:
  assumes "refills new allow" "sorted h" "h = [] \<or> now > last h + 5 * minute"
  shows "alike allow now new (bucket_after allow new h)"
proof (cases h rule: rev_cases)
  case (snoc past t0)
  have "answers allow new ts = answers allow (bucket_after allow new h) ts" if ts: "sorted ts" "\<forall>t \<in> set ts. now \<le> t" for ts
  proof -
    have late: "\<forall>t \<in> set ts. t > t0 + 5 * minute" using ts assms(3) snoc by force
    then have "sorted (past @ t0 # ts)" using ts assms(2) snoc by (force simp: sorted_append)
    then show ?thesis using assms(1) late snoc by (simp add: refills_def)
  qed
  then show ?thesis by (simp add: alike_def)
qed (simp add: alike_def)

lemma tracks_later:
  assumes "tracks new allow now S H" "now \<le> t"
  shows "tracks new allow t S H"
proof -
  have "tracked new allow t st h" if tr: "tracked new allow now st h" for st h
  proof (cases st)
    case None
    then show ?thesis using tr assms(2) by (force simp: tracked_def)
  next
    case (Some p)
    then show ?thesis using tr assms(2) alike_later [of allow now "fst p" "bucket_after allow new h" t]
      by (cases p) (force simp: tracked_def)
  qed
  then show ?thesis using assms(1) by (simp add: tracks_def)
qed

lemma tracks_cleanup:
  assumes "tracks new allow now S H"
  shows "tracks new allow now (limiter_cleanup now S) H"
proof -
  have "tracked new allow now (limiter_cleanup now S ip) (H ip)" if "tracked new allow now (S ip) (H ip)" for ip
    using that by (cases "S ip") (auto simp: tracked_def limiter_cleanup_def)
  then show ?thesis using assms by (simp add: tracks_def)
qed

lemma tracks_report:
  assumes "refills new allow" "tracks new allow now S H" "report_limit new allow now ip S = (S', ok)"
  shows "ok = snd (allow now (bucket_after allow new (H ip)))" "tracks new allow now S' (H(ip := H ip @ [now]))"
proof -
  let ?l = "case S ip of None \<Rightarrow> new | Some (l, _) \<Rightarrow> l"
  have S': "S' = S(ip \<mapsto> (fst (allow now ?l), now))" "ok = snd (allow now ?l)"
    using assms(3) by (auto simp: report_limit_def limiter_get_def Let_def split: prod.splits)
  have tr: "tracked new allow now (S ip) (H ip)" using assms(2) by (simp add: tracks_def)
  then have h: "sorted (H ip)" "\<forall>t \<in> set (H ip). t \<le> now" by (simp_all add: tracked_def)
  have like: "alike allow now ?l (bucket_after allow new (H ip))"
  proof (cases "S ip")
    case None
    then have "H ip = [] \<or> now > last (H ip) + 5 * minute" using tr by (simp add: tracked_def)
    then show ?thesis using None idle_bucket_is_new [OF assms(1) h(1)] by simp
  next
    case (Some p)
    then show ?thesis using tr by (cases p) (simp add: tracked_def)
  qed
  from alike_step [OF like] S' show "ok = snd (allow now (bucket_after allow new (H ip)))" by simp
  from alike_step(2) [OF like order_refl]
  have "alike allow now (fst (allow now ?l)) (bucket_after allow new (H ip @ [now]))" by (simp add: bucket_after_append)
  then show "tracks new allow now S' (H(ip := H ip @ [now]))"
    using assms(2) h S'(1) by (auto simp: tracks_def tracked_def sorted_append)
qed

lemma serve_reports_reference:
  assumes "refills new allow" "tracks new allow now S H" "sorted (now # map fst es)"
  shows "serve_reports new allow S es = reference_answers new allow H es"
  using assms(2,3)
proof (induction es arbitrary: now S H)
  case (Cons x es)
  obtain t e where x: "x = (t, e)" by (cases x)
  have later: "tracks new allow t S H" using tracks_later [OF Cons.prems(1)] Cons.prems(2) x by simp
  have rest: "sorted (t # map fst es)" using Cons.prems(2) x by simp
  show ?case
  proof (cases e)
    case (Report_from ip)
    obtain S' ok where r: "report_limit new allow t ip S = (S', ok)" by (cases "report_limit new allow t ip S")
    note step = tracks_report [OF assms(1) later r]
    show ?thesis using Cons.IH [OF step(2) rest] step(1) r by (simp add: x Report_from del: fun_upd_apply)
  next
    case Tick
    then show ?thesis using Cons.IH [OF tracks_cleanup [OF later] rest] by (simp add: x)
  qed
qed simp

text \<open>[C27] Forgetting quiet addresses is invisible: whenever the cleanup runs and however the requests of all addresses
  interleave, every request gets the answer a bucket of its address alone would give that was kept from
  the first request on. So the memory the cleanup frees never buys a client an extra report,
  and no address is slowed down by another.\<close>

theorem eviction_is_invisible:
  assumes "refills new allow" "sorted (map fst es)"
  shows "serve_reports new allow Map.empty es = reference_answers new allow (\<lambda>_. []) es"
proof (cases es)
  case (Cons x xs)
  then have "sorted (fst x # map fst es)" using assms(2) by simp
  then show ?thesis using serve_reports_reference [OF assms(1), of "fst x" Map.empty "\<lambda>_. []" es] by (simp add: tracks_def tracked_def)
qed simp

text \<open>A bucket as documented, counting its credit in time: a token is six seconds, the credit at most thirty.\<close>

definition bucket_allow :: "time \<Rightarrow> time \<times> time option \<Rightarrow> (time \<times> time option) \<times> bool" where
  "bucket_allow now b = (case b of (credit, seen) \<Rightarrow>
     let c = (case seen of None \<Rightarrow> credit | Some t \<Rightarrow> min (30 * second) (credit + (now - t))) in
     if c \<ge> 6 * second then ((c - 6 * second, Some now), True) else ((c, Some now), False))"

definition full_bucket :: "time \<times> time option" where
  "full_bucket = (30 * second, None)"

definition bucket_ok :: "time \<Rightarrow> time \<times> time option \<Rightarrow> bool" where
  "bucket_ok now b = (0 \<le> fst b \<and> (case snd b of None \<Rightarrow> b = full_bucket | Some t \<Rightarrow> t \<le> now))"

lemma bucket_ok_allow: "bucket_ok now b \<Longrightarrow> bucket_ok now (fst (bucket_allow now b)) \<and> snd (fst (bucket_allow now b)) = Some now"
  by (auto simp: bucket_ok_def bucket_allow_def Let_def full_bucket_def split: option.splits prod.split)

lemma bucket_ok_later: "bucket_ok now b \<Longrightarrow> now \<le> t \<Longrightarrow> bucket_ok t b"
  by (auto simp: bucket_ok_def split: option.splits)

lemma bucket_reached:
  "bucket_ok now b \<Longrightarrow> sorted (now # past @ [t0]) \<Longrightarrow>
   bucket_ok t0 (bucket_after bucket_allow b (past @ [t0])) \<and> snd (bucket_after bucket_allow b (past @ [t0])) = Some t0"
proof (induction past arbitrary: now b)
  case (Cons t past)
  then have "bucket_ok t (fst (bucket_allow t b))" using bucket_ok_allow [OF bucket_ok_later [of now b t]] by simp
  then show ?case using Cons by simp
next
  case Nil
  then show ?case using bucket_ok_allow [OF bucket_ok_later [of now b t0]] by simp
qed

lemma bucket_refills: "refills full_bucket bucket_allow"
  unfolding refills_def
proof (intro allI impI)
  fix past :: "time list" and t0 ts
  assume s: "sorted (past @ t0 # ts) \<and> (\<forall>t \<in> set ts. t > t0 + 5 * minute)"
  define b where "b = bucket_after bucket_allow full_bucket (past @ [t0])"
  have "sorted (hd (past @ [t0]) # past @ [t0])" using s by (cases past) (auto simp: sorted_append)
  then have b: "bucket_ok t0 b" "snd b = Some t0"
    using bucket_reached [of "hd (past @ [t0])" full_bucket past t0] by (auto simp: b_def bucket_ok_def full_bucket_def)
  show "answers bucket_allow (bucket_after bucket_allow full_bucket (past @ [t0])) ts = answers bucket_allow full_bucket ts"
  proof (cases ts)
    case (Cons t us)
    then have "t > t0 + 5 * minute" using s by simp
    then have "bucket_allow t b = bucket_allow t full_bucket"
      using b by (cases b) (simp add: bucket_allow_def full_bucket_def bucket_ok_def Let_def)
    then show ?thesis by (simp add: Cons b_def)
  qed simp
qed

theorem eviction_is_invisible_witness:
  "serve_reports full_bucket bucket_allow Map.empty
     [(0, Report_from ''a''), (1, Report_from ''a''), (2, Report_from ''b''), (3, Report_from ''a''), (4, Report_from ''a''),
      (5, Report_from ''a''), (6, Report_from ''a''), (7, Tick), (400 * second, Tick), (401 * second, Report_from ''a'')] =
   [True, True, True, True, True, True, False, True]"
proof -
  let ?es = "[(0, Report_from ''a''), (1, Report_from ''a''), (2, Report_from ''b''), (3, Report_from ''a''), (4, Report_from ''a''),
      (5, Report_from ''a''), (6, Report_from ''a''), (7, Tick), (400 * second, Tick), (401 * second, Report_from ''a'')] :: (time \<times> limiter_event) list"
  have "reference_answers full_bucket bucket_allow (\<lambda>_. []) ?es = [True, True, True, True, True, True, False, True]"
    unfolding reference_answers.simps by (simp add: bucket_allow_def full_bucket_def)
  moreover have "sorted (map fst ?es)" by simp
  ultimately show ?thesis using eviction_is_invisible [OF bucket_refills, of ?es] by simp
qed

subsection \<open>The endpoint\<close>

record last_call =
  la_Method :: string
  la_URL :: string
  la_Status :: int
  la_ResponseBody :: string

record report_request =
  rr_Message :: string
  rr_Stack :: "string option"
  rr_URL :: string
  rr_Timestamp :: string
  rr_Source :: string
  rr_IdentityID :: "string option"
  rr_UserID :: "string option"
  rr_TenantID :: "string option"
  rr_LastAPICall :: "last_call option"
  rr_ComponentName :: "string option"

text \<open>The length the validator counts is that of the runes of a UTF-8 text.\<close>

definition rune_count :: "string \<Rightarrow> nat" where
  "rune_count s = length (filter (\<lambda>c. \<not> (0x80 \<le> (of_char c :: nat) \<and> (of_char c :: nat) < 0xC0)) s)"

definition at_most :: "nat \<Rightarrow> string option \<Rightarrow> bool" where
  "at_most n s = (case s of None \<Rightarrow> True | Some x \<Rightarrow> rune_count x \<le> n)"

definition report_sources :: "string list" where
  "report_sources = [''window.onerror'', ''unhandledrejection'', ''error_boundary'', ''manual'']"

text \<open>The \<^verbatim>\<open>binding\<close> tags\<close>

definition report_binding :: "report_request \<Rightarrow> bool" where
  "report_binding q = (rr_Message q \<noteq> [] \<and> rune_count (rr_Message q) \<le> 2048 \<and> at_most 8192 (rr_Stack q) \<and>
     rr_URL q \<noteq> [] \<and> rune_count (rr_URL q) \<le> 2048 \<and> rr_Timestamp q \<noteq> [] \<and> rr_Source q \<in> set report_sources \<and>
     at_most 36 (rr_IdentityID q) \<and> at_most 36 (rr_UserID q) \<and> at_most 36 (rr_TenantID q) \<and> at_most 256 (rr_ComponentName q))"

datatype attr = AStr string string | AInt string int | AGroup string "attr list"

definition optional_attr :: "string \<Rightarrow> string option \<Rightarrow> attr list" where
  "optional_attr key v = (case v of None \<Rightarrow> [] | Some s \<Rightarrow> [AStr key s])"

definition report_message :: "report_request \<Rightarrow> string" where
  "report_message q = (case rr_Stack q of None \<Rightarrow> rr_Message q | Some s \<Rightarrow> rr_Message q @ [LF] @ s)"

definition report_attrs :: "string \<Rightarrow> string \<Rightarrow> string \<Rightarrow> report_request \<Rightarrow> attr list" where
  "report_attrs version userAgent ip q =
     [AStr ''@type'' ''type.googleapis.com/google.devtools.clouderrorreporting.v1beta1.ReportedErrorEvent'',
      AStr ''message'' (report_message q),
      AGroup ''serviceContext'' [AStr ''service'' ''fastfso-frontend'', AStr ''version'' version],
      AGroup ''context''
        [AGroup ''httpRequest'' [AStr ''url'' (rr_URL q), AStr ''userAgent'' userAgent, AStr ''remoteIp'' ip],
         AStr ''user'' (case rr_IdentityID q of None \<Rightarrow> ''anonymous'' | Some i \<Rightarrow> i)],
      AStr ''error_source'' (rr_Source q), AStr ''client_timestamp'' (rr_Timestamp q)] @
     optional_attr ''identity_id'' (rr_IdentityID q) @ optional_attr ''user_id'' (rr_UserID q) @
     optional_attr ''tenant_id'' (rr_TenantID q) @ optional_attr ''component_name'' (rr_ComponentName q) @
     (case rr_LastAPICall q of None \<Rightarrow> []
      | Some a \<Rightarrow> [AGroup ''last_api_call'' [AStr ''method'' (la_Method a), AStr ''url'' (la_URL a), AInt ''status'' (la_Status a),
          AStr ''response_body'' (la_ResponseBody a)]])"

text \<open>The handler: its answer, and what it logs and counts. The request is \<open>None\<close> where the body is no such object.\<close>

definition ErrorReport_Handler ::
  "string \<Rightarrow> string \<Rightarrow> string \<Rightarrow> report_request option \<Rightarrow> http option \<times> attr list list \<times> string list" where
  \<comment> \<open>\<open>None\<close> is status 202, which the other handlers do not use\<close>
  "ErrorReport_Handler version userAgent ip body = (case body of
     None \<Rightarrow> (Some StatusBadRequest, [], [])
   | Some q \<Rightarrow> if \<not> report_binding q then (Some StatusBadRequest, [], [])
       else (None, [report_attrs version userAgent ip q], [rr_Source q]))"

lemma rune_count_append: "rune_count (s @ t) = rune_count s + rune_count t"
  by (simp add: rune_count_def)

text \<open>What is logged is bounded in all but the time stamp and the last call; the counter of reports has four labels.\<close>

lemma logged_message_bound: "report_binding q \<Longrightarrow> rune_count (report_message q) \<le> 2048 + 1 + 8192"
proof -
  have "rune_count [LF] \<le> 1" by (simp add: rune_count_def)
  then show "report_binding q \<Longrightarrow> rune_count (report_message q) \<le> 2048 + 1 + 8192"
    using rune_count_append [of "rr_Message q" "[LF] @ the (rr_Stack q)"] rune_count_append [of "[LF]" "the (rr_Stack q)"]
    by (cases "rr_Stack q") (simp_all add: report_binding_def report_message_def at_most_def)
qed

lemma refused_report_is_not_logged:
  "ErrorReport_Handler version userAgent ip body = (Some code, logged, counted) \<Longrightarrow> logged = [] \<and> counted = []"
  by (auto simp: ErrorReport_Handler_def split: option.splits if_splits)

lemma counted_labels: "ErrorReport_Handler version userAgent ip body = (code, logged, counted) \<Longrightarrow> set counted \<subseteq> set report_sources"
  by (auto simp: ErrorReport_Handler_def report_binding_def split: option.splits if_splits)

lemma response_body_is_not_bounded:
  "\<exists>q. report_binding q \<and> n \<le> rune_count (case rr_LastAPICall q of None \<Rightarrow> [] | Some a \<Rightarrow> la_ResponseBody a)"
  by (rule exI [of _ "\<lparr>rr_Message = ''m'', rr_Stack = None, rr_URL = ''u'', rr_Timestamp = ''t'', rr_Source = ''manual'',
        rr_IdentityID = None, rr_UserID = None, rr_TenantID = None,
        rr_LastAPICall = Some \<lparr>la_Method = [], la_URL = [], la_Status = 0, la_ResponseBody = replicate n (CHR ''x'')\<rparr>,
        rr_ComponentName = None\<rparr>"])
    (simp add: report_binding_def rune_count_def at_most_def report_sources_def of_char_def)

end
