(* ===== verification/Exports.thy ===== *)
theory Exports
  imports Formats Task_Handlers Visit_Handlers
begin

text \<open>
  The files the two exports send: \<^verbatim>\<open>writeCSV\<close> and \<^verbatim>\<open>writePDF\<close> of
  \<^verbatim>\<open>backend/internal/task/export.go\<close> and the audit file of
  \<^verbatim>\<open>backend/internal/visitrequest/csv.go\<close>, byte for byte over the rows the handlers
  select. The document library is not under the source tree, so a PDF is the list of calls
  made to it.
\<close>

subsection \<open>Training tasks\<close>

definition formatDate :: "time option \<Rightarrow> string" where
  "formatDate t = (case t of None \<Rightarrow> [] | Some x \<Rightarrow> FormatDate x)"

definition task_columns :: "string list" where
  "task_columns = [''Task'', ''Sub-Organization'', ''Assignee'', ''Email'', ''Status'', ''Due Date'', ''Completed Date'']"

definition task_cells :: "Tasks.export_row \<Rightarrow> string list" where
  "task_cells x = [ex_TaskTitle x, ex_SubOrgName x, ex_AssigneeName x, ex_AssigneeEmail x, status_text (ex_Status x),
     formatDate (ex_DueDate x), formatDate (ex_CompletedAt x)]"

definition writeCSV :: "Tasks.export_row list \<Rightarrow> string" where
  "writeCSV rows = csv_record False task_columns @ concat (map (\<lambda>x. csv_record False (task_cells x)) rows)"

text \<open>The texts are bytes: a cell is cut inside a character that has several.\<close>

definition ellipsis :: string where
  "ellipsis = [CHR 0xE2, CHR 0x80, CHR 0xA6]"

definition truncate_text :: "string \<Rightarrow> nat \<Rightarrow> string" where
  "truncate_text s n = (if length s \<le> n then s else take (n - 1) s @ ellipsis)"

datatype pdf_call =
    SetMargins int int int
  | AddPage
  | SetFont string string int
  | CellFormat int int string string int bool  \<comment> \<open>width, height, text, border, next position, fill; always aligned left and without a link\<close>
  | Ln int
  | SetFillColor int int int
  | SetTextColor int int int

definition pdf_columns :: "(string \<times> int) list" where
  "pdf_columns = [(''Task'', 70), (''Sub-Org'', 35), (''Assignee'', 35), (''Email'', 55), (''Status'', 22), (''Due Date'', 25),
     (''Completed'', 25)]"

definition pdf_row :: "bool \<Rightarrow> Tasks.export_row \<Rightarrow> pdf_call list" where
  "pdf_row fill x = (if fill then SetFillColor 243 244 246 else SetFillColor 255 255 255) #
     map (\<lambda>((_, w), cell). CellFormat w 6 (truncate_text cell 40) ''1'' 0 True) (zip pdf_columns (task_cells x)) @ [Ln (- 1)]"

fun pdf_rows :: "bool \<Rightarrow> Tasks.export_row list \<Rightarrow> pdf_call list" where
  "pdf_rows fill [] = []"
| "pdf_rows fill (x # xs) = pdf_row fill x @ pdf_rows (\<not> fill) xs"

definition writePDF :: "string \<Rightarrow> string \<Rightarrow> Tasks.export_row list \<Rightarrow> pdf_call list" where
  "writePDF from_q to_q rows =
     [SetMargins 12 12 12, AddPage, SetFont ''Helvetica'' ''B'' 14, CellFormat 0 8 ''Training Task Report'' [] 1 False,
      SetFont ''Helvetica'' [] 9, CellFormat 0 6 (''Date range: '' @ from_q @ '' to '' @ to_q) [] 1 False, Ln 4,
      SetFont ''Helvetica'' ''B'' 8, SetFillColor 59 130 246, SetTextColor 255 255 255] @
     map (\<lambda>(name, w). CellFormat w 7 name ''1'' 0 True) pdf_columns @
     [Ln (- 1), SetFont ''Helvetica'' [] 8, SetTextColor 0 0 0] @
     pdf_rows False rows @
     (if rows = [] then [SetFont ''Helvetica'' ''I'' 8, CellFormat 0 6 ''No tasks found for the selected date range.'' [] 1 False]
      else [])"

text \<open>The last step of \<^verbatim>\<open>ExportTasks\<close>: what follows the headers.\<close>

datatype export_file = CSV string | PDF "pdf_call list"

definition export_file_of :: "string \<Rightarrow> string \<Rightarrow> string \<Rightarrow> Tasks.export_row list \<Rightarrow> export_file" where
  "export_file_of format from_q to_q rows = (if format = ''csv'' then CSV (writeCSV rows) else PDF (writePDF from_q to_q rows))"

lemma length_truncate_text: "0 < n \<Longrightarrow> length (truncate_text s n) \<le> n + 2"
  by (auto simp: truncate_text_def ellipsis_def)

lemma truncate_text_short [simp]: "length s \<le> n \<Longrightarrow> truncate_text s n = s"
  by (simp add: truncate_text_def)

lemma truncate_text_beginning: "n < length s \<Longrightarrow> truncate_text s n = take (n - 1) s @ ellipsis"
  by (simp add: truncate_text_def)

subsection \<open>Visits\<close>

definition strDeref :: "string option \<Rightarrow> string" where
  "strDeref s = (case s of None \<Rightarrow> [] | Some x \<Rightarrow> x)"

definition fmtTime :: "time option \<Rightarrow> string" where
  "fmtTime t = (case t of None \<Rightarrow> [] | Some x \<Rightarrow> FormatDate x)"

definition boolStr :: "bool \<Rightarrow> string" where
  "boolStr b = (if b then ''true'' else ''false'')"

definition visit_columns :: "string \<Rightarrow> string list" where
  "visit_columns detail = (if detail = ''summary''
     then [''visit_id'', ''submitted_at'', ''submitter_name'', ''destination'', ''access_level'', ''status'', ''reviewed_at'',
           ''reviewer_name'']
     else [''visit_id'', ''destination_name'', ''diss_smo_code'', ''visit_address'', ''visit_start_date'', ''visit_end_date'',
           ''access_level'', ''visit_description'', ''submitted_at'', ''status'', ''submitter_name'', ''submitter_email'',
           ''submitter_clearance_at_review'', ''submitter_investigation_type_at_review'',
           ''submitter_next_investigation_at_review'', ''dd254_contract_number'', ''dd254_prime_contractor'',
           ''dd254_classification_max'', ''dd254_period_start'', ''dd254_period_end'', ''authorization_confirmed_at_review'',
           ''reviewer_name'', ''reviewer_email'', ''reviewed_at'', ''reviewer_notes''])"

definition visit_cells :: "(uuid \<Rightarrow> string) \<Rightarrow> string \<Rightarrow> Visits.export_row \<Rightarrow> string list" where
  "visit_cells uuid_text detail x = (let v = xr_Visit x in
     if detail = ''summary''
     then [uuid_text (vi_ID v), FormatRFC3339 (vi_CreatedAt v), fst (xr_Submitter x), vi_DestinationName v, vi_AccessLevel v,
           vi_Status v, fmtTime (vi_ReviewedAt v), strDeref (map_option fst (xr_Reviewer x))]
     else [uuid_text (vi_ID v), vi_DestinationName v, vi_DissSmoCode v, vi_VisitAddress v, FormatDate (vi_StartDate v),
           FormatDate (vi_EndDate v), vi_AccessLevel v, vi_VisitDescription v, FormatRFC3339 (vi_CreatedAt v), vi_Status v,
           fst (xr_Submitter x), snd (xr_Submitter x), strDeref (map_option cr_Clearance (xr_Clearance x)),
           strDeref (Option.bind (xr_Clearance x) cr_InvestigationType),
           fmtTime (Option.bind (xr_Clearance x) cr_NextInvestigationDate),
           strDeref (map_option dd_ContractNumber (xr_DD254 x)), strDeref (map_option dd_PrimeContractor (xr_DD254 x)),
           strDeref (map_option dd_ClassificationMax (xr_DD254 x)), fmtTime (Option.bind (xr_DD254 x) dd_PeriodStart),
           fmtTime (Option.bind (xr_DD254 x) dd_PeriodEnd), boolStr (xr_Confirmed x), strDeref (map_option fst (xr_Reviewer x)),
           strDeref (map_option snd (xr_Reviewer x)), fmtTime (vi_ReviewedAt v), vi_ReviewerNotes v])"

definition writeExportHeader :: "string \<Rightarrow> string" where
  "writeExportHeader detail = csv_record True (visit_columns detail)"

definition writeExportRow :: "(uuid \<Rightarrow> string) \<Rightarrow> string \<Rightarrow> Visits.export_row \<Rightarrow> string" where
  "writeExportRow uuid_text detail x = csv_record True (visit_cells uuid_text detail x)"

text \<open>The body of the answer of \<^verbatim>\<open>Export\<close>, with the byte order mark in front.\<close>

definition utf8_bom :: string where
  "utf8_bom = [CHR 0xEF, CHR 0xBB, CHR 0xBF]"

definition visit_file :: "(uuid \<Rightarrow> string) \<Rightarrow> string \<Rightarrow> Visits.export_row list \<Rightarrow> string" where
  "visit_file uuid_text detail rows =
     utf8_bom @ writeExportHeader detail @ concat (map (writeExportRow uuid_text detail) rows)"

text \<open>The cell below a column.\<close>

definition visit_cell :: "(uuid \<Rightarrow> string) \<Rightarrow> string \<Rightarrow> Visits.export_row \<Rightarrow> string \<Rightarrow> string option" where
  "visit_cell uuid_text detail x = map_of (zip (visit_columns detail) (visit_cells uuid_text detail x))"

lemma visit_cells_length: "length (visit_cells uuid_text detail x) = length (visit_columns detail)"
  by (simp add: visit_cells_def visit_columns_def Let_def)

lemma visit_columns_count: "length (visit_columns ''summary'') = 8" "length (visit_columns ''full'') = 25"
  by (simp_all add: visit_columns_def)

lemma visit_columns_not_empty [simp]: "visit_columns detail \<noteq> []" "visit_cells uuid_text detail x \<noteq> []"
  by (simp_all add: visit_columns_def visit_cells_def Let_def)

lemma visit_columns_plain [simp]: "map (line_ends True) (visit_columns detail) = visit_columns detail"
proof -
  have "map (line_ends True) (visit_columns ''summary'') = visit_columns ''summary''"
    "map (line_ends True) (visit_columns ''full'') = visit_columns ''full''" by code_simp+
  then show ?thesis by (cases "detail = ''summary''") (simp_all add: visit_columns_def)
qed

lemma confirmation_cell:
  "detail \<noteq> ''summary'' \<Longrightarrow> visit_cell uuid_text detail x ''authorization_confirmed_at_review'' = Some (boolStr (xr_Confirmed x))"
  by (simp add: visit_cell_def visit_cells_def visit_columns_def Let_def)

end
