(* ===== verification/Task_Properties.thy ===== *)
theory Task_Properties
  imports Source_Updaters
begin

text \<open>
  Properties of the task subsystem: the life cycle of a submission through every request and
  every statement of overlapping requests, who a task can be assigned to, what review and
  resubmission do, and the files behind uploads.
\<close>

subsection \<open>The life cycle of a submission\<close>

inductive completion_step :: "completion_status \<Rightarrow> completion_status \<Rightarrow> bool" where
  save_draft: "s \<in> {To_do, Rejected} \<Longrightarrow> completion_step s In_progress"
| submit: "s \<in> {To_do, In_progress, Rejected} \<Longrightarrow> completion_step s Submitted"
| approve: "completion_step Submitted Approved"
| reject: "completion_step Submitted Rejected"

inductive_cases approved_stepE: "completion_step Approved s"

lemma approved_final: "completion_step\<^sup>*\<^sup>* Approved s \<Longrightarrow> s = Approved"
  by (induction rule: rtranclp_induct) (auto elim: approved_stepE)

text \<open>What the timestamps say about the status.\<close>

definition review_of :: "completion \<Rightarrow> time option \<times> time option \<times> uuid option" where
  "review_of c = (tc_SubmittedAt c, tc_ReviewedAt c, tc_ReviewedBy c)"

definition documented :: "completion \<Rightarrow> bool" where
  "documented c =
     ((tc_Status c \<in> {Submitted, Approved, Rejected} \<longrightarrow> tc_SubmittedAt c \<noteq> None) \<and>
      (tc_Status c \<in> {Approved, Rejected} \<longrightarrow> tc_ReviewedAt c \<noteq> None \<and> tc_ReviewedBy c \<noteq> None))"

definition moves :: "completion \<Rightarrow> completion \<Rightarrow> bool" where
  "moves c c' = (tc_ID c' = tc_ID c \<and> tc_TaskID c' = tc_TaskID c \<and> tc_UserID c' = tc_UserID c \<and>
     completion_step\<^sup>*\<^sup>* (tc_Status c) (tc_Status c') \<and> (documented c \<longrightarrow> documented c') \<and>
     (tc_Status c = Approved \<longrightarrow> review_of c' = review_of c))"

lemma moves_refl [simp]: "moves c c"
  by (simp add: moves_def)

lemma moves_trans: "moves a b \<Longrightarrow> moves b c \<Longrightarrow> moves a c"
  by (auto simp: moves_def dest: approved_final)

definition born :: "completion \<Rightarrow> bool" where
  "born c = (\<exists>c0. tc_Status c0 = To_do \<and> documented c0 \<and> moves c0 c)"

lemma born_moves: "born a \<Longrightarrow> moves a b \<Longrightarrow> born b"
  by (auto simp: born_def intro: moves_trans)

lemma born_new [simp]: "born (new_completion now i t u)"
  unfolding born_def by (rule exI [of _ "new_completion now i t u"]) (simp add: new_completion_def documented_def)

lemma list_all2_right: "list_all2 R xs ys \<Longrightarrow> y \<in> set ys \<Longrightarrow> \<exists>x \<in> set xs. R x y"
  by (induction rule: list_all2_induct) auto

lemma list_all2_left: "list_all2 R xs ys \<Longrightarrow> x \<in> set xs \<Longrightarrow> \<exists>y \<in> set ys. R x y"
  by (induction rule: list_all2_induct) auto

definition advances :: "completion list \<Rightarrow> completion list \<Rightarrow> bool" where
  "advances xs ys = (\<exists>old new. ys = old @ new \<and> list_all2 moves xs old \<and> (\<forall>c \<in> set new. born c))"

lemma advances_refl [simp]: "advances xs xs"
  unfolding advances_def by (rule exI [of _ xs], rule exI [of _ "[]"]) (simp add: list_all2_same)

lemma advances_trans:
  assumes "advances xs ys" "advances ys zs"
  shows "advances xs zs"
proof -
  obtain o1 n1 where 1: "ys = o1 @ n1" "list_all2 moves xs o1" "\<forall>c \<in> set n1. born c"
    using assms(1) by (auto simp: advances_def)
  obtain o2 n2 where 2: "zs = o2 @ n2" "list_all2 moves (o1 @ n1) o2" "\<forall>c \<in> set n2. born c"
    using assms(2) 1 by (auto simp: advances_def)
  obtain p q where pq: "o2 = p @ q" "list_all2 moves o1 p" "list_all2 moves n1 q"
    using 2(2) by (auto simp: list_all2_append1)
  have "list_all2 moves xs p"
    using list_all2_trans [OF moves_trans 1(2) pq(2)] by simp
  moreover have "\<forall>c \<in> set q. born c"
    using list_all2_right [OF pq(3)] 1(3) by (auto intro: born_moves)
  ultimately show ?thesis
    using 2 pq unfolding advances_def by (intro exI [of _ p] exI [of _ "q @ n2"]) auto
qed

lemma advances_update: "(\<And>c. P c \<Longrightarrow> moves c (f c)) \<Longrightarrow> advances xs (sql_update P f xs)"
  unfolding advances_def by (rule exI [of _ "sql_update P f xs"], rule exI [of _ "[]"])
    (auto simp: sql_update_def list_all2_conv_all_nth)

lemma advances_new: "born c \<Longrightarrow> advances xs (xs @ [c])"
  unfolding advances_def by (rule exI [of _ xs], rule exI [of _ "[c]"]) (simp add: list_all2_same)

lemma advancesE:
  assumes "advances xs ys" "c \<in> set xs"
  obtains c' where "c' \<in> set ys" "moves c c'"
proof -
  obtain old new where "ys = old @ new" "list_all2 moves xs old" using assms(1) by (auto simp: advances_def)
  with list_all2_left [OF this(2) assms(2)] that show thesis by auto
qed

lemma advances_documented:
  assumes "advances xs ys" "\<forall>c \<in> set xs. documented c" "c \<in> set ys"
  shows "documented c"
proof -
  have m: "documented b" if "moves a b" "documented a" for a b
    using that by (simp add: moves_def)
  have "documented b" if "born b" for b
    using that m by (auto simp: born_def)
  then show ?thesis
    using assms m by (auto simp: advances_def dest!: list_all2_right)
qed

text \<open>The statements on completions.\<close>

lemma step_intros:
  "tc_Status c \<in> {To_do, Rejected} \<Longrightarrow> completion_step\<^sup>*\<^sup>* (tc_Status c) In_progress"
  "tc_Status c \<in> {To_do, In_progress, Rejected} \<Longrightarrow> completion_step\<^sup>*\<^sup>* (tc_Status c) Submitted"
  "completion_step\<^sup>*\<^sup>* Submitted Approved" "completion_step\<^sup>*\<^sup>* Submitted Rejected"
  by (blast intro: completion_step.intros)+

lemma moves_touch: "moves c (c\<lparr>tc_UpdatedAt := now\<rparr>)" "moves c (c\<lparr>tc_ViewedAt := v, tc_UpdatedAt := now\<rparr>)"
  by (simp_all add: moves_def documented_def review_of_def)

lemma moves_save:
  "tc_Status c \<in> {To_do, Rejected} \<Longrightarrow> moves c (c\<lparr>tc_Status := In_progress, tc_UpdatedAt := now\<rparr>)"
  "tc_Status c \<in> {To_do, In_progress, Rejected} \<Longrightarrow>
     moves c (c\<lparr>tc_Status := Submitted, tc_SubmittedAt := Some now, tc_UpdatedAt := now\<rparr>)"
  using step_intros by (auto simp: moves_def documented_def review_of_def)

lemma moves_review:
  "tc_Status c = Submitted \<Longrightarrow> st \<in> {Approved, Rejected} \<Longrightarrow>
     moves c (c\<lparr>tc_Status := st, tc_ReviewedAt := Some now, tc_ReviewedBy := Some u, tc_UpdatedAt := now\<rparr>)"
  using step_intros by (auto simp: moves_def documented_def review_of_def)

lemma advances_ops:
  "advances (d_completions d) (d_completions (fst (EnsureCompletion flt now i t k u d)))"
  "advances (d_completions d) (d_completions (fst (MarkViewed flt now i d)))"
  "advances (d_completions d) (d_completions (fst (Submit flt now i d)))"
  "st \<in> {Approved, Rejected} \<Longrightarrow> advances (d_completions d) (d_completions (fst (review q text st flt now i u d)))"
  by (auto simp: EnsureCompletion_def MarkViewed_def Submit_def review_def on_completions_def fst_exec_update Let_def
      intro!: advances_update advances_new moves_touch moves_save moves_review split: option.split)

lemma advances_decide:
  "advances (d_completions d) (d_completions (fst (Approve flt now i u d)))"
  "advances (d_completions d) (d_completions (fst (Reject flt now i u d)))"
  by (simp_all add: Approve_def Reject_def advances_ops(4))

lemma save_each_completions [simp]: "d_completions (fst (save_each flt fresh n i ps d)) = d_completions d"
  by (induction ps arbitrary: n d) auto

lemma advances_save: "advances (d_completions d) (d_completions (fst (SaveResponses flt now fresh i ps d)))"
proof -
  obtain d1 r where d1: "save_each flt fresh 0 i ps d = (d1, r)" by (cases "save_each flt fresh 0 i ps d")
  then have "d_completions d1 = d_completions d" using save_each_completions [of flt fresh 0 i ps d] by simp
  then show ?thesis
    by (cases r) (auto simp: SaveResponses_def d1 on_completions_def fst_exec_update intro!: advances_update moves_save)
qed

lemma advances_get_mine: "advances (d_completions d) (d_completions (fst (Store_GetMyTask flt now i t k u d)))"
  using advances_ops(1) [of d flt now i t k u] advances_ops(2)
  by (auto simp: Store_GetMyTask_def Let_def intro: advances_trans split: sum.split prod.split)

text \<open>The other statements leave completions alone.\<close>

lemma insert_completions [simp]:
  "d_completions (fst (insert_requirements flt fresh t n ps d)) = d_completions d"
  "d_completions (fst (insert_rules flt fresh t n qs d)) = d_completions d"
  by (induction ps arbitrary: n d, auto simp: Let_def) (induction qs arbitrary: n d, auto)

lemma other_ops_completions [simp]:
  "d_completions (fst (Task_Create date flt now fresh p d)) = d_completions d"
proof -
  have "d_completions d1 = d_completions d0"
    if "insert_requirements flt fresh t n ps d0 = (d1, r)" for t n ps d0 d1 and r :: "err + unit"
    using insert_completions(1) [of flt fresh t n ps d0] that by simp
  moreover have "d_completions d1 = d_completions d0"
    if "insert_rules flt g t n ps d0 = (d1, r)" for g t n ps d0 d1 and r :: "err + unit"
    using insert_completions(2) [of flt g t n ps d0] that by simp
  ultimately show ?thesis
    by (auto simp: Task_Create_def Let_def split: prod.split sum.split) (metis+)?
qed

lemma more_ops_completions [simp]:
  "d_completions (fst (Archive flt now t k d)) = d_completions d"
  "d_completions (fst (Unarchive flt now t k d)) = d_completions d"
  "d_completions (fst (ResolveBySource flt now t ty i d)) = d_completions d"
  "d_completions (fst (ActionItem_Create flt now i p d)) = d_completions d"
  "d_completions (fst (ActionItem_UpdateStatus flt now t i st n d)) = d_completions d"
  "d_completions (fst (CreateUpload flt up d)) = d_completions d"
  "d_completions (fst (CreatePending flt now i u t cr d)) = d_completions d"
  "d_completions (fst (Store_DeleteUpload flt t u' d)) = d_completions d"
  "d_completions (fst (MarkSucceeded flt now i m v d)) = d_completions d"
  "d_completions (fst (MarkFailed flt now i text d)) = d_completions d"
  "d_completions (fst (Usage_Record flt now i t u'' f a b d)) = d_completions d"
  "d_completions (fst (RecordFeedback flt now i u'' fb d)) = d_completions d"
  "d_completions (fst (on_table d_files d_files_update op d)) = d_completions d"
  by (auto simp: store_defs on_tasks_def on_items_def on_verifications_def on_table_def Let_def split: option.split prod.split)

subsection \<open>Requests and overlapping statements\<close>

text \<open>What the task routes are configured with.\<close>

record task_env =
  te_libs :: libs
  te_verification :: bool
  te_scanner :: scanner
  te_storage :: storage_backend
  te_gemini :: gemini

datatype task_call =
    T_Create "task_params option"
  | T_Archive string
  | T_Unarchive string
  | T_Approve string string
  | T_Reject string string
  | T_GetMine string
  | T_Save string "response_params list option"
  | T_Submit string
  | T_Upload string string "form_file option"
  | T_DeleteUpload string
  | T_ItemStatus string "(string \<times> string) option"
  | T_Verify "uuid option"
  | T_Feedback string "string option"

fun task_serve :: "task_env \<Rightarrow> request \<Rightarrow> task_call \<Rightarrow> (db, http) state" where
  "task_serve E r (T_Create b) = do { x \<leftarrow> CreateTask (te_libs E) r b; reply (resp_code x) }"
| "task_serve E r (T_Archive i) = do { x \<leftarrow> ArchiveTask (te_libs E) r i; reply (resp_code x) }"
| "task_serve E r (T_Unarchive i) = do { x \<leftarrow> UnarchiveTask (te_libs E) r i; reply (resp_code x) }"
| "task_serve E r (T_Approve i u) = do { x \<leftarrow> ApproveSubmission (te_libs E) r i u; reply (resp_code x) }"
| "task_serve E r (T_Reject i u) = do { x \<leftarrow> RejectSubmission (te_libs E) r i u; reply (resp_code x) }"
| "task_serve E r (T_GetMine i) = do { x \<leftarrow> GetMyTask (te_verification E) (te_libs E) r i; reply (resp_code x) }"
| "task_serve E r (T_Save i b) = do { x \<leftarrow> Handler_SaveResponses (te_libs E) r i b; reply (resp_code x) }"
| "task_serve E r (T_Submit i) = do { x \<leftarrow> SubmitTask (te_libs E) r i; reply (resp_code x) }"
| "task_serve E r (T_Upload i q f) =
     do { x \<leftarrow> UploadFile (te_verification E) (te_scanner E) (te_storage E) (te_libs E) r i q f; reply (resp_code x) }"
| "task_serve E r (T_DeleteUpload i) = do { x \<leftarrow> DeleteUpload (te_storage E) (te_libs E) r i; reply (resp_code x) }"
| "task_serve E r (T_ItemStatus i b) =
     do { x \<leftarrow> ActionItem_Handler_UpdateStatus source_updaters (te_libs E) r i b; reply (resp_code x) }"
| "task_serve E r (T_Verify b) = do { x \<leftarrow> HandleVerifyTask (te_gemini E) (te_storage E) r b; reply (resp_code x) }"
| "task_serve E r (T_Feedback i b) = do { x \<leftarrow> HandleFeedback (te_libs E) r i b; reply (resp_code x) }"

lemma keeps_advances:
  "(\<And>d. advances (d_completions d) (d_completions (fst (f d)))) \<Longrightarrow>
     keeps_inv (\<lambda>d. advances t0 (d_completions d)) (on_db f)"
  by (rule keeps_on_db) (blast intro: advances_trans)

lemma keeps_same_completions:
  "(\<And>d. d_completions (fst (f d)) = d_completions d) \<Longrightarrow> keeps_inv (\<lambda>d. advances t0 (d_completions d)) (on_db f)"
  by (rule keeps_on_db) simp

lemma keeps_log_notify:
  "keeps_inv (\<lambda>d. advances t0 (d_completions d)) (audit_log r n a i s t m)"
  "keeps_inv (\<lambda>d. advances t0 (d_completions d)) (notify ns)"
  by (rule keeps_audit_log keeps_notify; simp)+

lemma source_updaters_advance:
  "source_updaters ty = Some f \<Longrightarrow> advances (d_completions d) (d_completions (fst (f r a b c s d)))"
  by (auto simp: source_updaters_def source_updater_defs advances_decide split: if_splits)

lemmas task_ops = advances_ops advances_decide advances_save advances_get_mine

lemma keeps_task_ops:
  "keeps_inv (\<lambda>d. advances t0 (d_completions d)) (on_db (EnsureCompletion flt now i t k u))"
  "keeps_inv (\<lambda>d. advances t0 (d_completions d)) (on_db (Submit flt now i))"
  "keeps_inv (\<lambda>d. advances t0 (d_completions d)) (on_db (Approve flt now i u))"
  "keeps_inv (\<lambda>d. advances t0 (d_completions d)) (on_db (Reject flt now i u))"
  "keeps_inv (\<lambda>d. advances t0 (d_completions d)) (on_db (SaveResponses flt now fresh i ps))"
  "keeps_inv (\<lambda>d. advances t0 (d_completions d)) (on_db (Store_GetMyTask flt now i t k u))"
  by (rule keeps_advances, rule task_ops)+

lemma keeps_other_ops:
  "keeps_inv (\<lambda>d. advances t0 (d_completions d)) (on_db (Task_Create date flt now fresh p))"
  "keeps_inv (\<lambda>d. advances t0 (d_completions d)) (on_db (Archive flt now t k))"
  "keeps_inv (\<lambda>d. advances t0 (d_completions d)) (on_db (Unarchive flt now t k))"
  "keeps_inv (\<lambda>d. advances t0 (d_completions d)) (on_db (ResolveBySource flt now t ty i))"
  "keeps_inv (\<lambda>d. advances t0 (d_completions d)) (on_db (ActionItem_Create flt now i ip))"
  "keeps_inv (\<lambda>d. advances t0 (d_completions d)) (on_db (ActionItem_UpdateStatus flt now t i st n))"
  "keeps_inv (\<lambda>d. advances t0 (d_completions d)) (on_db (CreateUpload flt up))"
  "keeps_inv (\<lambda>d. advances t0 (d_completions d)) (on_db (CreatePending flt now i u t cr))"
  "keeps_inv (\<lambda>d. advances t0 (d_completions d)) (on_db (Store_DeleteUpload flt t u))"
  "keeps_inv (\<lambda>d. advances t0 (d_completions d)) (on_db (MarkSucceeded flt now i m v))"
  "keeps_inv (\<lambda>d. advances t0 (d_completions d)) (on_db (MarkFailed flt now i text))"
  "keeps_inv (\<lambda>d. advances t0 (d_completions d)) (on_db (Usage_Record flt now i t u f a b))"
  "keeps_inv (\<lambda>d. advances t0 (d_completions d)) (on_db (RecordFeedback flt now i u fb))"
  "keeps_inv (\<lambda>d. advances t0 (d_completions d)) (on_files op)"
  unfolding on_files_def by (rule keeps_same_completions, simp)+

lemma keeps_cascade:
  "keeps_inv (\<lambda>d. advances t0 (d_completions d)) (case (st, src, source_updaters ty) of
     (c # cs, Some i, Some f) \<Rightarrow> on_db (f r a i u (c # cs)) | _ \<Rightarrow> reply x)"
  by (auto intro!: keeps_advances keeps_reply source_updaters_advance split: list.split option.split)

lemmas keeps_life_cycle = keeps_with keeps_bind keeps_reply keeps_asks keeps_if keeps_option keeps_sum keeps_prod
  keeps_log_notify keeps_task_ops keeps_other_ops

lemma keeps_handlers:
  "keeps_inv (\<lambda>d. advances t0 (d_completions d)) (CreateTask L r b)"
  "keeps_inv (\<lambda>d. advances t0 (d_completions d)) (ArchiveTask L r i)"
  "keeps_inv (\<lambda>d. advances t0 (d_completions d)) (UnarchiveTask L r i)"
  "keeps_inv (\<lambda>d. advances t0 (d_completions d)) (ApproveSubmission L r i k)"
  "keeps_inv (\<lambda>d. advances t0 (d_completions d)) (RejectSubmission L r i k)"
  "keeps_inv (\<lambda>d. advances t0 (d_completions d)) (GetMyTask conf L r i)"
  "keeps_inv (\<lambda>d. advances t0 (d_completions d)) (Handler_SaveResponses L r i ps)"
  "keeps_inv (\<lambda>d. advances t0 (d_completions d)) (SubmitTask L r i)"
  "keeps_inv (\<lambda>d. advances t0 (d_completions d)) (DeleteUpload sb L r i)"
  "keeps_inv (\<lambda>d. advances t0 (d_completions d)) (HandleVerifyTask g sb r u)"
  "keeps_inv (\<lambda>d. advances t0 (d_completions d)) (HandleFeedback L r i fb)"
  unfolding http_defs task_audit_def Let_def by (intro keeps_life_cycle)+

lemma keeps_upload: "keeps_inv (\<lambda>d. advances t0 (d_completions d)) (UploadFile conf sc sb L r i q f)"
proof -
  have "keeps_inv (\<lambda>d. advances t0 (d_completions d)) (store_upload conf sb L r t u k req ff name ty)" for t u k req ff name ty
    unfolding store_upload_def Let_def by (intro keeps_life_cycle)
  then show ?thesis
    unfolding UploadFile_def Let_def by (intro keeps_life_cycle) (auto intro: keeps_reply split: scan_error.split)
qed

lemma keeps_item_status:
  "keeps_inv (\<lambda>d. advances t0 (d_completions d)) (ActionItem_Handler_UpdateStatus source_updaters L r i b)"
  unfolding ActionItem_Handler_UpdateStatus_def item_audit_def
  by (intro keeps_with keeps_bind keeps_reply keeps_option keeps_prod keeps_asks keeps_sum keeps_log_notify
      keeps_other_ops keeps_cascade)

lemma task_serve_advances: "keeps_inv (\<lambda>d. advances t0 (d_completions d)) (task_serve E r c)"
  by (cases c) (simp_all only: task_serve.simps, (intro keeps_bind keeps_reply keeps_handlers keeps_upload keeps_item_status)+)

text \<open>Requests, and single statements of requests that overlap, in any order.\<close>

inductive task_run :: "task_env \<Rightarrow> db \<Rightarrow> db \<Rightarrow> bool" for E where
  run_start: "task_run E d d"
| run_request: "task_run E d d1 \<Longrightarrow> task_run E d (snd (run_state (task_serve E r c) d1))"
| run_ensure: "task_run E d d1 \<Longrightarrow> task_run E d (fst (EnsureCompletion flt now i t k u d1))"
| run_viewed: "task_run E d d1 \<Longrightarrow> task_run E d (fst (MarkViewed flt now i d1))"
| run_save: "task_run E d d1 \<Longrightarrow> task_run E d (fst (SaveResponses flt now fresh i ps d1))"
| run_submit: "task_run E d d1 \<Longrightarrow> task_run E d (fst (Submit flt now i d1))"
| run_approve: "task_run E d d1 \<Longrightarrow> task_run E d (fst (Approve flt now i u d1))"
| run_reject: "task_run E d d1 \<Longrightarrow> task_run E d (fst (Reject flt now i u d1))"

lemma task_run_advances: "task_run E d d' \<Longrightarrow> advances (d_completions d) (d_completions d')"
proof (induction rule: task_run.induct)
  case (run_request d d1 r c)
  show ?case
    using tripleD [OF task_serve_advances run_request.IH] by simp
qed (auto intro: advances_trans task_ops)

text \<open>[C3] Every request of the task routes and every interleaving of their statements moves a
  submission along the arrows of its life cycle only, and a submission keeps its identity, task
  and user. An approved submission stays approved by the same reviewer at the same time for
  good; and if the recorded dates supported every status before, they do afterwards.\<close>

theorem submission_life_cycle:
  assumes "task_run E d d'" "c \<in> set (d_completions d)"
  shows "(\<exists>c' \<in> set (d_completions d'). tc_ID c' = tc_ID c \<and> tc_TaskID c' = tc_TaskID c \<and> tc_UserID c' = tc_UserID c \<and>
      completion_step\<^sup>*\<^sup>* (tc_Status c) (tc_Status c') \<and>
      (tc_Status c = Approved \<longrightarrow> tc_Status c' = Approved \<and> review_of c' = review_of c)) \<and>
    ((\<forall>x \<in> set (d_completions d). documented x) \<longrightarrow> (\<forall>x \<in> set (d_completions d'). documented x))"
proof -
  note ev = task_run_advances [OF assms(1)]
  obtain c' where "c' \<in> set (d_completions d')" "moves c c'"
    using advancesE [OF ev assms(2)] .
  then show ?thesis
    using advances_documented [OF ev] approved_final by (fastforce simp: moves_def)
qed

subsection \<open>Examples\<close>

definition demo_task :: task where
  "demo_task = \<lparr>tk_ID = 70, tk_TenantID = 3, tk_CreatedByUserID = Some 5, tk_SubOrgID = Some 21, tk_Title = ''Training'',
     tk_Description = [], tk_Priority = ''medium'', tk_DueDate = None, tk_Status = ''active'', tk_CreatedAt = 1, tk_UpdatedAt = 1\<rparr>"

definition demo_requirement :: requirement where
  "demo_requirement = \<lparr>rq_ID = 71, rq_TaskID = 70, rq_Kind = ''file_upload'', rq_Label = ''Certificate'', rq_Description = [],
     rq_Required = True, rq_SortOrder = 0, rq_AIVerificationCriteria = ''name matches''\<rparr>"

definition demo_completion :: completion where
  "demo_completion = \<lparr>tc_ID = 60, tc_TaskID = 70, tc_UserID = 5, tc_Status = Submitted, tc_ViewedAt = Some 2,
     tc_SubmittedAt = Some 3, tc_ReviewedAt = None, tc_ReviewedBy = None, tc_CreatedAt = 2, tc_UpdatedAt = 3\<rparr>"

definition approved_completion :: completion where
  "approved_completion = demo_completion\<lparr>tc_Status := Approved, tc_ReviewedAt := Some 4, tc_ReviewedBy := Some 5\<rparr>"

definition task_db :: "completion \<Rightarrow> db" where
  "task_db c = demo_db\<lparr>d_tasks := [demo_task], d_requirements := [demo_requirement], d_completions := [c],
     d_action_items := [demo_item]\<rparr>"

lemma task_db_simps [simp]: "d_tasks (task_db c) = [demo_task]" "d_requirements (task_db c) = [demo_requirement]"
  "d_completions (task_db c) = [c]" "d_action_items (task_db c) = [demo_item]" "d_users (task_db c) = d_users demo_db"
  "d_identities (task_db c) = d_identities demo_db" "d_tenants (task_db c) = d_tenants demo_db" "d_responses (task_db c) = []"
  "d_members (task_db c) = [(5, 21)]" "d_rules (task_db c) = []"
  by (simp_all add: task_db_def)

theorem submission_life_cycle_witness:
  "\<exists>c' \<in> set (d_completions (fst (Reject no_faults 200 60 5 (fst (Approve no_faults 100 60 5 (task_db demo_completion)))))).
     tc_ID c' = 60 \<and> completion_step\<^sup>*\<^sup>* Submitted (tc_Status c')"
proof -
  have "task_run E (task_db demo_completion) (fst (Reject no_faults 200 60 5 (fst (Approve no_faults 100 60 5 (task_db demo_completion)))))"
    for E by (intro task_run.intros)
  from submission_life_cycle [OF this, of demo_completion] show ?thesis
    by (auto simp: demo_completion_def)
qed

subsection \<open>Review\<close>

text \<open>Marking the action item of a submission as processed never approves the submission: the
  request succeeds and the item is processed, but no completion changes, because the handler
  passes the updater the word it has mapped processed to, which the updater does not know.\<close>

theorem processed_item_approves_nothing:
  assumes "run_state (ActionItem_Handler_UpdateStatus source_updaters L r i (Some (''processed'', note))) d = (Respond StatusOK (), d')"
  shows "d_completions d' = d_completions d \<and>
    (\<exists>a \<in> set (d_action_items d'). l_uuid L i = Some (ai_ID a) \<and> ai_Status a = ''processed'')"
proof -
  obtain sess t u where sess: "r_session r = Some sess" "s_TenantID sess = Some t" "s_UserID sess = Some u"
    using assms by (auto simp: ActionItem_Handler_UpdateStatus_def with_member_def with_tenant_def split: option.splits)
  obtain k where k: "l_uuid L i = Some k"
    using assms by (auto simp: ActionItem_Handler_UpdateStatus_def sess with_uuid_def split: option.splits)
  obtain v where v: "ActionItem_Get (r_flt r) t k d = Inr v"
    using assms by (auto simp: ActionItem_Handler_UpdateStatus_def sess k item_not_found_def split: sum.splits if_splits)
  let ?upd = "ActionItem_UpdateStatus (r_flt r) (r_now r) t k ''processed'' note d"
  have ok: "snd ?upd = Inr ()"
    using assms by (auto simp: ActionItem_Handler_UpdateStatus_def sess k v item_not_found_def split: sum.splits if_splits)
  have same: "d_completions (fst (f r t s u ''approved'' d1)) = d_completions d1 \<and>
      d_action_items (fst (f r t s u ''approved'' d1)) = d_action_items d1" if "source_updaters ty = Some f" for f ty s d1
    using that by (auto simp: source_updaters_def source_updater_defs split: if_splits)
  have "d_completions d' = d_completions (fst ?upd) \<and> d_action_items d' = d_action_items (fst ?upd)"
    using same assms by (auto simp: ActionItem_Handler_UpdateStatus_def sess k v ok cascade_status_def item_audit_def
        split: option.splits)
  moreover have "\<exists>a \<in> set (d_action_items (fst ?upd)). ai_ID a = k \<and> ai_Status a = ''processed''"
    using ok by (auto simp: ActionItem_UpdateStatus_def on_items_def done_some_def exec_update_def bex_sql_update Let_def
        item_status_check_def sql_affected_def filter_empty_conv split: if_splits)
  ultimately show ?thesis using k by auto
qed

theorem processed_item_approves_nothing_witness:
  "d_completions (snd (run_state (ActionItem_Handler_UpdateStatus source_updaters demo_libs member_request (replicate 50 (CHR ''a''))
     (Some (''processed'', []))) (task_db demo_completion))) = [demo_completion]"
proof -
  let ?h = "ActionItem_Handler_UpdateStatus source_updaters demo_libs member_request (replicate 50 (CHR ''a'')) (Some (''processed'', []))"
  have "run_state ?h (task_db demo_completion) = (Respond StatusOK (), snd (run_state ?h (task_db demo_completion)))"
    by (simp add: ActionItem_Handler_UpdateStatus_def ActionItem_Get_def query_row_def demo_item_def
        ActionItem_UpdateStatus_def on_items_def done_some_def exec_update_def item_status_check_def sql_affected_def
        item_view_of_def cascade_status_def source_updaters_def task_submission_updater_def demo_libs_def demo_request_def
        item_audit_def)
  from processed_item_approves_nothing [OF this] show ?thesis by simp
qed

text \<open>Approval does not freeze what was approved: the assignee of an approved submission can
  still save answers; the request succeeds, the new answer replaces the one reviewed, and the
  submission stays approved by the same reviewer.\<close>

theorem answers_change_after_approval:
  assumes sess: "r_session r = Some sess" "s_TenantID sess = Some t" "s_UserID sess = Some u" "l_uuid L i = Some k"
    and calm: "r_flt r = no_faults"
    and task: "\<exists>x \<in> set (d_tasks d). tk_ID x = k \<and> tk_TenantID x = t" "keyed tc_ID (d_completions d)"
      "completion_of d k u = Some c" "tc_Status c = Approved" "\<exists>q \<in> set (d_requirements d). rq_ID q = sp_RequirementID p"
  shows "\<exists>d'. run_state (Handler_SaveResponses L r i (Some [p])) d = (Respond StatusOK ''saved'', d') \<and>
    (\<exists>x \<in> set (d_responses d'). tr_CompletionID x = tc_ID c \<and> tr_RequirementID x = sp_RequirementID p \<and>
       tr_TextValue x = sp_TextValue p \<and> tr_BoolValue x = sp_BoolValue p) \<and>
    (\<exists>c' \<in> set (d_completions d'). tc_ID c' = tc_ID c \<and> tc_Status c' = Approved \<and> review_of c' = review_of c)"
proof -
  let ?touch = "sql_update (\<lambda>x. tc_TaskID x = k \<and> tc_UserID x = u) (\<lambda>x. x\<lparr>tc_UpdatedAt := r_now r\<rparr>) (d_completions d)"
  let ?P = "\<lambda>x. tc_ID x = tc_ID c \<and> tc_Status x \<in> {To_do, Rejected}"
  have c: "c \<in> set (d_completions d)" "tc_TaskID c = k" "tc_UserID c = u"
    using task(3) sql_row_Some [of _ "d_completions d" c] by (auto simp: completion_of_def)
  have none: "\<not> ?P x" if "x \<in> set ?touch" for x
  proof -
    obtain x0 where "x0 \<in> set (d_completions d)" "tc_ID x = tc_ID x0" "tc_Status x = tc_Status x0"
      using \<open>x \<in> set ?touch\<close> by (auto elim!: sql_updateE)
    then show ?thesis using keyed_unique [OF task(2) _ c(1), of x0] task(4) by (cases "x0 = c") auto
  qed
  let ?d1 = "d\<lparr>d_completions := ?touch\<rparr>"
  let ?d2 = "?d1\<lparr>d_responses := upsert_response (r_fresh r (Suc 0)) (tc_ID c) p (d_responses d)\<rparr>"
  have "EnsureCompletion (r_flt r) (r_now r) (r_fresh r 0) t k u d = (?d1, Inr (c\<lparr>tc_UpdatedAt := r_now r\<rparr>))"
    using task by (auto simp: EnsureCompletion_def calm)
  moreover have "SaveResponses (r_flt r) (r_now r) (\<lambda>n. r_fresh r (Suc n)) (tc_ID c) [p] ?d1 = (?d2, Inr ())"
  proof -
    have "\<exists>x \<in> set ?touch. tc_ID x = tc_ID c" using c(1) by (auto simp: bex_sql_update)
    then have "save_each (r_flt r) (\<lambda>n. r_fresh r (Suc n)) 0 (tc_ID c) [p] ?d1 = (?d2, Inr ())"
      using task(5) by (simp add: calm)
    moreover have "sql_update ?P f ?touch = ?touch" for f
      by (rule sql_update_none) (rule none)
    ultimately show ?thesis
      by (simp only: SaveResponses_def prod.case sum.case) (simp add: calm on_completions_def done_any_def exec_update_def)
  qed
  ultimately have run: "run_state (Handler_SaveResponses L r i (Some [p])) d = (Respond StatusOK ''saved'', ?d2)"
    by (simp add: Handler_SaveResponses_def sess)
  have "\<exists>x \<in> set (upsert_response n ci p rs). tr_CompletionID x = ci \<and> tr_RequirementID x = sp_RequirementID p \<and>
      tr_TextValue x = sp_TextValue p \<and> tr_BoolValue x = sp_BoolValue p" for n ci rs
    by (auto simp: upsert_response_def Let_def bex_sql_update)
  moreover have "\<exists>c' \<in> set ?touch. tc_ID c' = tc_ID c \<and> tc_Status c' = Approved \<and> review_of c' = review_of c"
    using c task(4) by (auto simp: bex_sql_update review_of_def intro!: bexI [of _ c])
  ultimately show ?thesis using run by (intro exI [of _ ?d2]) simp
qed

theorem answers_change_after_approval_witness:
  "\<exists>d'. run_state (Handler_SaveResponses demo_libs member_request (replicate 70 (CHR ''a''))
      (Some [\<lparr>sp_RequirementID = 71, sp_TextValue = Some ''forged'', sp_BoolValue = None\<rparr>])) (task_db approved_completion) =
      (Respond StatusOK ''saved'', d') \<and>
    (\<exists>x \<in> set (d_responses d'). tr_TextValue x = Some ''forged'') \<and> (\<exists>c' \<in> set (d_completions d'). tc_Status c' = Approved)"
proof -
  let ?p = "\<lparr>sp_RequirementID = 71, sp_TextValue = Some ''forged'', sp_BoolValue = None\<rparr>"
  have "\<exists>d'. run_state (Handler_SaveResponses demo_libs member_request (replicate 70 (CHR ''a'')) (Some [?p])) (task_db approved_completion) =
      (Respond StatusOK ''saved'', d') \<and>
    (\<exists>x \<in> set (d_responses d'). tr_CompletionID x = tc_ID approved_completion \<and> tr_RequirementID x = sp_RequirementID ?p \<and>
       tr_TextValue x = sp_TextValue ?p \<and> tr_BoolValue x = sp_BoolValue ?p) \<and>
    (\<exists>c' \<in> set (d_completions d'). tc_ID c' = tc_ID approved_completion \<and> tc_Status c' = Approved \<and>
       review_of c' = review_of approved_completion)"
    by (rule answers_change_after_approval [where sess = demo_member and t = 3 and u = 5 and k = 70])
      (simp_all add: demo_libs_def demo_request_def demo_task_def demo_requirement_def approved_completion_def
        demo_completion_def completion_of_def keyed_def)
  then show ?thesis by force
qed

subsection \<open>Assignment\<close>

lemma check_rules_targets:
  "check_rules so ts ps = Inr us \<Longrightarrow> set ts \<subseteq> set us \<and>
     (\<forall>p \<in> set ps. lp_RuleType p = ''sub_org'' \<and> lp_TargetID p = Some so \<or>
        lp_RuleType p = ''user'' \<and> (\<exists>u \<in> set us. lp_TargetID p = Some u))"
proof (induction ps arbitrary: ts)
  case (Cons p ps)
  then show ?case by (fastforce split: if_splits option.splits)
qed simp

lemma validated_rules:
  assumes "validateRulesForFSO flt rules so_opt d = None" "p \<in> set rules"
  shows "\<exists>so. so_opt = Some so \<and> (lp_RuleType p = ''sub_org'' \<and> lp_TargetID p = Some so \<or>
    lp_RuleType p = ''user'' \<and> (\<exists>u. lp_TargetID p = Some u \<and> (u, so) \<in> set (d_members d)))"
proof -
  obtain so us where so: "so_opt = Some so" "check_rules so [] rules = Inr us"
    using assms by (auto simp: validateRulesForFSO_def split: option.splits sum.splits if_splits)
  have "u \<in> set us \<Longrightarrow> (u, so) \<in> set (d_members d)" for u
    using assms(1) so by (fastforce simp: validateRulesForFSO_def UsersInSubOrg_def split: if_splits sum.splits)
  then show ?thesis using check_rules_targets [OF so(2)] assms(2) so(1) by blast
qed

lemma insert_rules_Inr:
  "insert_rules flt fresh k n ps d = (d', Inr x) \<Longrightarrow> \<exists>new. d' = d\<lparr>d_rules := d_rules d @ new\<rparr> \<and>
     (\<forall>r \<in> set new. \<exists>p \<in> set ps. ar_TaskID r = k \<and> ar_RuleType r = lp_RuleType p \<and> ar_TargetID r = lp_TargetID p)"
proof (induction ps arbitrary: n d)
  case (Cons p ps)
  let ?r = "\<lparr>ar_ID = fresh n, ar_TaskID = k, ar_RuleType = lp_RuleType p, ar_TargetID = lp_TargetID p\<rparr>"
  from Cons.prems have "insert_rules flt fresh k (Suc n) ps (d\<lparr>d_rules := d_rules d @ [?r]\<rparr>) = (d', Inr x)"
    by (simp split: if_splits)
  from Cons.IH [OF this] obtain new where
    "d' = d\<lparr>d_rules := d_rules d @ ?r # new\<rparr>" "\<forall>r \<in> set new. \<exists>p \<in> set ps. ar_TaskID r = k \<and> ar_RuleType r = lp_RuleType p \<and> ar_TargetID r = lp_TargetID p"
    by auto
  then show ?case by (intro exI [of _ "?r # new"]) auto
qed auto

lemma insert_requirements_frame:
  "d_rules (fst (insert_requirements flt fresh k n ps d)) = d_rules d \<and>
   d_members (fst (insert_requirements flt fresh k n ps d)) = d_members d"
  by (induction ps arbitrary: n d) (auto simp: Let_def)

lemma Task_Create_Inr:
  assumes "Task_Create date flt now fresh p d = (d', Inr t)"
  shows "tk_ID t = fresh 0 \<and> d_members d' = d_members d \<and> (\<exists>new. d_rules d' = d_rules d @ new \<and>
    (\<forall>r \<in> set new. \<exists>q \<in> set (tp_Rules p). ar_RuleType r = lp_RuleType q \<and> ar_TargetID r = lp_TargetID q))"
proof -
  obtain t0 d1 where 1: "insert_requirements flt fresh (fresh 0) 0 (tp_Requirements p) (d\<lparr>d_tasks := d_tasks d @ [t0]\<rparr>) = (d1, Inr ())"
    and 2: "insert_rules flt (\<lambda>i. fresh (1 + length (tp_Requirements p) + i)) (fresh 0) 0 (tp_Rules p) d1 = (d', Inr ())"
    and t: "tk_ID t = fresh 0"
    using assms by (auto simp: Task_Create_def Let_def split: if_splits prod.splits sum.splits)
  from 1 insert_requirements_frame [of flt fresh "fresh 0" 0 "tp_Requirements p" "d\<lparr>d_tasks := d_tasks d @ [t0]\<rparr>"]
  have "d_rules d1 = d_rules d" "d_members d1 = d_members d" by simp_all
  with insert_rules_Inr [OF 2] t show ?thesis by force
qed

text \<open>[C6] An officer cannot assign a task outside the own sub-organization: whoever a task created by
  a session without the administrator role is assigned to, through any of its rules, is a member
  of the sub-organization of that session.\<close>

theorem officers_assign_within_suborg:
  assumes "run_state (CreateTask L r body) d = (Respond StatusCreated t, d')"
    and "r_session r = Some sess" "s_UserRole sess \<noteq> Some ''administrator''"
    and "r_fresh r 0 \<notin> ar_TaskID ` set (d_rules d)"
    and "(tk_ID t, x, how) \<in> set (task_assigned_users d')"
  shows "\<exists>so. s_SubOrgID sess = Some so \<and> (x, so) \<in> set (d_members d')"
proof -
  obtain p tid uid where p: "body = Some p" and s: "s_TenantID sess = Some tid" "s_UserID sess = Some uid"
    using assms(1) by (auto simp: CreateTask_def with_member_def with_tenant_def assms(2) split: option.splits)
  have valid: "validateRulesForFSO (r_flt r) (tp_Rules p) (s_SubOrgID sess) d = None"
    using assms(1,3) by (auto simp: CreateTask_def assms(2) p s is_admin_session_def split: option.splits)
  obtain d1 where c: "Task_Create (l_pgdate L) (r_flt r) (r_now r) (r_fresh r) (create_params sess tid uid p) d = (d1, Inr t)"
    and d': "d_rules d' = d_rules d1" "d_members d' = d_members d1" "d_users d' = d_users d1" "d_tasks d' = d_tasks d1"
    using assms(1,3)
    by (cases "Task_Create (l_pgdate L) (r_flt r) (r_now r) (r_fresh r) (create_params sess tid uid p) d")
      (auto simp: CreateTask_def assms(2) p s is_admin_session_def valid task_audit_def split: sum.splits if_splits)
  from Task_Create_Inr [OF c] obtain new where new: "tk_ID t = r_fresh r 0" "d_members d1 = d_members d"
    "d_rules d1 = d_rules d @ new"
    "\<forall>q \<in> set new. \<exists>l \<in> set (tp_Rules p). ar_RuleType q = lp_RuleType l \<and> ar_TargetID q = lp_TargetID l"
    by (auto simp: create_params_def)
  obtain q where q: "q \<in> set (d_rules d')" "ar_TaskID q = tk_ID t" "x \<in> set (rule_users d' q)"
    using assms(5) by (auto simp: task_assigned_users_def)
  then have "q \<notin> set (d_rules d)" using assms(4) new(1) by (metis image_eqI)
  then have "q \<in> set new" using q(1) new(3) d'(1) by simp
  then obtain l where l: "l \<in> set (tp_Rules p)" "ar_RuleType q = lp_RuleType l" "ar_TargetID q = lp_TargetID l"
    using new by auto
  from validated_rules [OF valid l(1)] obtain so where "s_SubOrgID sess = Some so"
    "lp_RuleType l = ''sub_org'' \<and> lp_TargetID l = Some so \<or>
     lp_RuleType l = ''user'' \<and> (\<exists>u. lp_TargetID l = Some u \<and> (u, so) \<in> set (d_members d))"
    by auto
  then show ?thesis
    using q(3) l(2,3) new(2) d'(2) by (auto simp: rule_users_def split: if_splits)
qed

definition demo_task_params :: task_params where
  "demo_task_params = \<lparr>tp_TenantID = 0, tp_CreatedByUserID = 0, tp_SubOrgID = None, tp_Title = ''Training'', tp_Description = [],
     tp_Priority = ''medium'', tp_DueDate = None, tp_Status = [], tp_Requirements = [],
     tp_Rules = [\<lparr>lp_RuleType = ''user'', lp_TargetID = Some 5\<rparr>]\<rparr>"

theorem officers_assign_within_suborg_witness:
  "(5, 21) \<in> set (d_members (snd (run_state (CreateTask demo_libs member_request (Some demo_task_params)) demo_db)))"
proof -
  let ?run = "run_state (CreateTask demo_libs member_request (Some demo_task_params)) demo_db"
  have valid: "validateRulesForFSO no_faults (tp_Rules demo_task_params) (Some 21) demo_db = None"
    by (simp add: validateRulesForFSO_def UsersInSubOrg_def demo_task_params_def)
  obtain t d1 where c: "Task_Create ParseDate no_faults 100 (\<lambda>n. 1000 + n) (create_params demo_member 3 5 demo_task_params) demo_db = (d1, Inr t)"
    and t: "tk_ID t = 1000" "tk_Status t = ''active''"
    and d1: "d_rules d1 = [\<lparr>ar_ID = 1001, ar_TaskID = 1000, ar_RuleType = ''user'', ar_TargetID = Some 5\<rparr>]"
    by (simp add: demo_task_params_def Task_Create_def create_params_def is_admin_session_def priority_check_def
        task_status_check_def tenant_by_def user_by_def suborg_by_def rule_type_check_def Let_def)
  obtain d' where run: "?run = (Respond StatusCreated t, d')" and "d_rules d' = d_rules d1"
    by (simp add: CreateTask_def is_admin_session_def task_audit_def demo_request_def demo_libs_def c t(2) valid)
  with d1 have x: "(1000, 5, ''user'') \<in> set (task_assigned_users d')"
    by (simp add: task_assigned_users_def rule_users_def)
  have "\<exists>so. s_SubOrgID demo_member = Some so \<and> (5, so) \<in> set (d_members d')"
    by (rule officers_assign_within_suborg [OF run, of demo_member 5 "''user''"]) (use t x in \<open>simp_all add: demo_request_def\<close>)
  with run show ?thesis by simp
qed


end
