(* ===== verification/Export_Properties.thy ===== *)
theory Export_Properties
  imports Exports Task_Properties Officer_Demo "HOL-Library.Multiset"
begin

text \<open>
  What the exported files say, read back by a reader of comma-separated files: the training
  report of a date range and the audit file of the visits.
\<close>

subsection \<open>Training report\<close>

text \<open>The line of a completion in the report of a tenant, for tasks created from \<open>from\<close> to \<open>to\<close>.\<close>

definition report_line :: "db \<Rightarrow> uuid \<Rightarrow> time \<Rightarrow> time \<Rightarrow> completion \<Rightarrow> Tasks.export_row option" where
  "report_line d tenantID from to c = (case (task_by d (tc_TaskID c), contact_of d (tc_UserID c)) of
     (Some t, Some (_, i)) \<Rightarrow>
       if tk_TenantID t = tenantID \<and> from \<le> tk_CreatedAt t \<and> tk_CreatedAt t \<le> to
       then Some \<lparr>ex_TaskTitle = tk_Title t,
         ex_SubOrgName = (case Option.bind (tk_SubOrgID t) (suborg_by d) of None \<Rightarrow> [] | Some s \<Rightarrow> so_Name s),
         ex_AssigneeName = i_Name i, ex_AssigneeEmail = i_Email i, ex_Status = tc_Status c,
         ex_DueDate = tk_DueDate t, ex_CompletedAt = tc_SubmittedAt c\<rparr>
       else None
   | _ \<Rightarrow> None)"

lemma mset_map_filter_snd:
  "image_mset snd (mset (List.map_filter f xs)) = mset (List.map_filter (\<lambda>x. map_option snd (f x)) xs)"
  by (induction xs) (auto simp: List.map_filter_simps split: option.split)

lemma ExportByDateRange_lines:
  assumes "ExportByDateRange coll flt tenantID from to d = Inr rows"
  shows "mset rows = mset (List.map_filter (report_line d tenantID from to) (d_completions d))"
proof -
  obtain f :: "completion \<Rightarrow> (task \<times> Tasks.export_row) option"
    where rows: "mset rows = image_mset snd (mset (List.map_filter f (d_completions d)))"
    and f: "\<And>c. map_option snd (f c) = report_line d tenantID from to c"
  proof -
    let ?f = "\<lambda>c. case (task_by d (tc_TaskID c), contact_of d (tc_UserID c)) of
      (Some t, Some (_, i)) \<Rightarrow> if tk_TenantID t = tenantID \<and> from \<le> tk_CreatedAt t \<and> tk_CreatedAt t \<le> to
        then map_option (Pair t) (report_line d tenantID from to c) else None | _ \<Rightarrow> None"
    have "mset rows = image_mset snd (mset (List.map_filter ?f (d_completions d)))"
      using assms by (auto simp: ExportByDateRange_def mset_map report_line_def split: if_splits option.split prod.split
          intro!: arg_cong [where f = "image_mset snd"] arg_cong [where f = mset] arg_cong2 [where f = List.map_filter] ext)
    moreover have "map_option snd (?f c) = report_line d tenantID from to c" for c
      by (auto simp: report_line_def option.map_comp comp_def split: option.split prod.split)
    ultimately show thesis using that [of ?f] by blast
  qed
  then show ?thesis by (simp add: mset_map_filter_snd)
qed

lemma writeCSV_reads_back: "csv_read (writeCSV rows) = Some (task_columns # map task_cells rows)"
proof -
  have "writeCSV rows = concat (map (csv_record False) (task_columns # map task_cells rows))"
    by (simp add: writeCSV_def comp_def)
  moreover have "[] \<notin> set (task_columns # map task_cells rows)" by (auto simp: task_columns_def task_cells_def)
  ultimately show ?thesis using csv_read_records [of "task_columns # map task_cells rows" False]
    by (simp add: line_ends_id map_idI comp_def)
qed



subsection \<open>Audit file of the visits\<close>

lemma visit_file_reads_back:
  "csv_read (drop (length utf8_bom) (visit_file uuid_text detail rows)) =
   Some (visit_columns detail # map (map (line_ends True) \<circ> visit_cells uuid_text detail) rows)"
proof -
  let ?rows = "visit_columns detail # map (visit_cells uuid_text detail) rows"
  have "drop (length utf8_bom) (visit_file uuid_text detail rows) = concat (map (csv_record True) ?rows)"
    by (simp add: visit_file_def writeExportHeader_def writeExportRow_def [abs_def] comp_def)
  moreover have "[] \<notin> set ?rows" by (auto dest: sym)
  ultimately show ?thesis using csv_read_records [of ?rows True] by simp
qed


text \<open>A visit to compartmented information that a top secret contract confirms: the query ranks
  the two access levels alike.\<close>

definition reviewed_visit :: visit where
  "reviewed_visit = demo_visit\<lparr>vi_AccessLevel := ''top_secret_sci'', vi_DD254ID := Some 65, vi_Status := ''approved'',
     vi_ReviewedBy := Some 5, vi_ReviewedAt := Some day\<rparr>"

definition reviewed_db :: db where
  "reviewed_db = office_db\<lparr>d_visits := [reviewed_visit], d_dd254 := [demo_form\<lparr>dd_ClassificationMax := ''top_secret''\<rparr>]\<rparr>"

definition visits_of_1970 :: export_filters where
  "visits_of_1970 = \<lparr>xe_TenantID = 3, xe_From = 0, xe_To = 365 * day, xe_Statuses = [''approved''], xe_SubOrgScope = None, xe_SubOrgID = None\<rparr>"


end
