(* ===== verification/Officer_Properties.thy ===== *)
theory Officer_Properties
  imports Officer_Demo
begin

text \<open>
  What the requests on reports, visits, travel, contracts, clearances and the assistant
  promise, and where they fall short: the type of the database, the separation of tenants,
  the way of a submission to the officers and of their decision back.
\<close>

subsection \<open>Types\<close>

text \<open>[C4] Whatever the members of a tenant send and whichever statements the database refuses, the
  tables stay well typed: every status is one the code knows, a decided submission names who
  decided it and when, every owner is a user of the tenant of its row, a user's current
  clearance is a record of that user, a contract is marked unclassified and was uploaded by a
  user of its tenant, a grant joins a user and a contract of one tenant, at most one grant
  per contract and user; and nothing another row refers to disappears.\<close>

theorem database_stays_well_typed:
  assumes "officer_run E d d'" and "well_typed d"
  shows "well_typed d' \<and> refs_le (refs_of d) (refs_of d')"
proof -
  have "typed_from (refs_of d) d'"
    using assms
  proof (induction rule: officer_run.induct)
    case (off_start d)
    then show ?case by (simp add: typed_from_def)
  next
    case (off_request d d1 r c)
    then have IH: "refs_le (refs_of d) (refs_of d1)" "typed_from (refs_of d1) d1" by (simp_all add: typed_from_def)
    from tripleD [OF officer_serve_typed [OF off_request.hyps(2)] IH(2)] IH(1) show ?case
      by (blast intro: typed_from_trans)
  next
    case (off_debriefs d d1 r)
    with tripleD [OF keeps_typed_jobs(3)] show ?case by simp
  next
    case (off_cleanup d d1 r)
    with tripleD [OF keeps_typed_jobs(1)] show ?case by simp
  qed
  then show ?thesis by (simp add: typed_from_def)
qed

theorem database_stays_well_typed_witness:
  "well_typed (snd (run_state (officer_serve demo_office member_request (O_Report (Some demo_report_params))) office_db))"
proof -
  have "officer_run demo_office office_db (snd (run_state (officer_serve demo_office member_request (O_Report (Some demo_report_params))) office_db))"
    by (intro off_request off_start office_seated)
  from database_stays_well_typed [OF this office_typed] show ?thesis by simp
qed

subsection \<open>Tenants\<close>

lemma filter_update_other:
  "(\<And>r. r \<in> set t \<Longrightarrow> P r \<Longrightarrow> \<not> Q r) \<Longrightarrow> (\<And>r. r \<in> set t \<Longrightarrow> P r \<Longrightarrow> \<not> Q (f r)) \<Longrightarrow>
     filter Q (sql_update P f t) = filter Q t"
  by (induction t) auto

text \<open>The rows that belong to the other tenants; \<open>U\<close> are the users with their tenants.\<close>

record other_rows =
  ot_reports :: "life_report list"
  ot_visits :: "visit list"
  ot_trips :: "trip list"
  ot_debriefs :: "debrief list"
  ot_forms :: "dd254_form list"
  ot_clearances :: "clearance_record list"
  ot_items :: "action_item list"
  ot_messages :: "chat_message list"

definition others :: "uuid \<Rightarrow> (uuid \<times> uuid) set \<Rightarrow> db \<Rightarrow> other_rows" where
  "others t U d = \<lparr>ot_reports = filter (\<lambda>x. le_TenantID x \<noteq> t) (d_reports d), ot_visits = filter (\<lambda>v. vi_TenantID v \<noteq> t) (d_visits d),
     ot_trips = filter (\<lambda>x. tv_TenantID x \<noteq> t) (d_trips d), ot_debriefs = filter (\<lambda>x. de_TenantID x \<noteq> t) (d_debriefs d),
     ot_forms = filter (\<lambda>f. dd_TenantID f \<noteq> t) (d_dd254 d),
     ot_clearances = filter (\<lambda>c. (cr_UserID c, t) \<notin> U) (d_clearances d),
     ot_items = filter (\<lambda>a. ai_TenantID a \<noteq> t) (d_action_items d),
     ot_messages = filter (\<lambda>m. ch_TenantID m \<noteq> t) (d_chat d)\<rparr>"

definition apart :: "uuid \<Rightarrow> (uuid \<times> uuid) set \<Rightarrow> other_rows \<Rightarrow> db \<Rightarrow> bool" where
  "apart t U X d = (others t U d = X \<and> rf_users (refs_of d) = U \<and> keyed de_ID (d_debriefs d))"

lemma apart_frame [simp]:
  "apart t U X (d\<lparr>d_audit := t1\<rparr>) = apart t U X d" "apart t U X (d\<lparr>d_outbox := t2\<rparr>) = apart t U X d"
  "apart t U X (d\<lparr>d_files := t3\<rparr>) = apart t U X d" "apart t U X (d\<lparr>d_ai_usage := t4\<rparr>) = apart t U X d"
  "apart t U X (d\<lparr>d_completions := t5\<rparr>) = apart t U X d" "apart t U X (d\<lparr>d_countries := t6\<rparr>) = apart t U X d"
  "apart t U X (d\<lparr>d_trip_uploads := t7\<rparr>) = apart t U X d" "apart t U X (d\<lparr>d_dd254_access := t8\<rparr>) = apart t U X d"
  by (simp_all add: apart_def others_def refs_of_def)

lemma apart_set:
  assumes "apart t U X d"
  shows "filter (\<lambda>x. le_TenantID x \<noteq> t) t1 = filter (\<lambda>x. le_TenantID x \<noteq> t) (d_reports d) \<Longrightarrow> apart t U X (d\<lparr>d_reports := t1\<rparr>)"
    "filter (\<lambda>v. vi_TenantID v \<noteq> t) t2 = filter (\<lambda>v. vi_TenantID v \<noteq> t) (d_visits d) \<Longrightarrow> apart t U X (d\<lparr>d_visits := t2\<rparr>)"
    "filter (\<lambda>x. tv_TenantID x \<noteq> t) t3 = filter (\<lambda>x. tv_TenantID x \<noteq> t) (d_trips d) \<Longrightarrow> apart t U X (d\<lparr>d_trips := t3\<rparr>)"
    "filter (\<lambda>f. dd_TenantID f \<noteq> t) t4 = filter (\<lambda>f. dd_TenantID f \<noteq> t) (d_dd254 d) \<Longrightarrow> apart t U X (d\<lparr>d_dd254 := t4\<rparr>)"
    "filter (\<lambda>c. (cr_UserID c, t) \<notin> U) t5 = filter (\<lambda>c. (cr_UserID c, t) \<notin> U) (d_clearances d) \<Longrightarrow> apart t U X (d\<lparr>d_clearances := t5\<rparr>)"
    "filter (\<lambda>a. ai_TenantID a \<noteq> t) t6 = filter (\<lambda>a. ai_TenantID a \<noteq> t) (d_action_items d) \<Longrightarrow> apart t U X (d\<lparr>d_action_items := t6\<rparr>)"
    "filter (\<lambda>m. ch_TenantID m \<noteq> t) t7 = filter (\<lambda>m. ch_TenantID m \<noteq> t) (d_chat d) \<Longrightarrow> apart t U X (d\<lparr>d_chat := t7\<rparr>)"
    "filter (\<lambda>x. de_TenantID x \<noteq> t) t8 = filter (\<lambda>x. de_TenantID x \<noteq> t) (d_debriefs d) \<Longrightarrow> keyed de_ID t8 \<Longrightarrow> apart t U X (d\<lparr>d_debriefs := t8\<rparr>)"
  using assms by (simp_all add: apart_def others_def refs_of_def)

lemma keeps_apart_ops:
  "keeps_inv (apart t U X) (on_db (Report_UpdateStatus flt now t i u st))"
  "keeps_inv (apart t U X) (on_db (Visit_Cancel flt now t i u))"
  "keeps_inv (apart t U X) (on_db (Visit_UpdateStatus flt now t i u st n))"
  "keeps_inv (apart t U X) (on_db (SetVisitRequestDD254 flt now t i f))"
  "keeps_inv (apart t U X) (on_db (Travel_Submit flt now t u i))"
  "keeps_inv (apart t U X) (on_db (MarkUnderReview flt now t i))"
  "keeps_inv (apart t U X) (on_db (Travel_UpdateStatus flt now t i st u))"
  "keeps_inv (apart t U X) (on_db (DD254_Delete flt now t i))"
  "keeps_inv (apart t U X) (on_db (SaveMessage flt m now i t u role text))"
  "keeps_inv (apart t U X) (on_db (ResolveBySource flt now t ty i))"
  "keeps_inv (apart t U X) (on_db (ActionItem_UpdateStatus flt now t i st n))"
  by (rule keeps_on_db; auto simp: Report_UpdateStatus_def Visit_Cancel_def Visit_UpdateStatus_def SetVisitRequestDD254_def
      Travel_Submit_def MarkUnderReview_def Travel_UpdateStatus_def DD254_Delete_def SaveMessage_def ResolveBySource_def
      ActionItem_UpdateStatus_def on_items_def Let_def case_prod_beta fst_exec_update split: option.split
      intro!: apart_set filter_update_other)+

lemma insert_countries_apart: "apart t U X d \<Longrightarrow> apart t U X (fst (insert_countries flt q now fresh i n ps d))"
  by (induction ps arbitrary: n d) (auto split: option.split)

lemma keeps_apart_creates:
  "np_TenantID p = t \<Longrightarrow> keeps_inv (apart t U X) (on_db (Report_Create flt now i p))"
  "vp_TenantID q = t \<Longrightarrow> keeps_inv (apart t U X) (on_db (Visit_Create flt now i q))"
  "tp_Tenant w = t \<Longrightarrow> keeps_inv (apart t U X) (on_db (Travel_Create flt now i fresh w))"
  "dd_TenantID f = t \<Longrightarrow> keeps_inv (apart t U X) (on_db (DD254_Create flt now f))"
  "ip_TenantID ip = t \<Longrightarrow> keeps_inv (apart t U X) (on_db (ActionItem_Create flt now i ip))"
proof -
  show "keeps_inv (apart t U X) (on_db (Report_Create flt now i p))" if "np_TenantID p = t"
    using that by (auto intro!: keeps_on_db apart_set simp: Report_Create_def Let_def)
  show "keeps_inv (apart t U X) (on_db (Visit_Create flt now i q))" if "vp_TenantID q = t"
    using that by (auto intro!: keeps_on_db apart_set simp: Visit_Create_def Let_def new_visit_def split: option.split)
  show "keeps_inv (apart t U X) (on_db (DD254_Create flt now f))" if "dd_TenantID f = t"
    using that by (auto intro!: keeps_on_db apart_set simp: DD254_Create_def Let_def)
  show "keeps_inv (apart t U X) (on_db (ActionItem_Create flt now i ip))" if "ip_TenantID ip = t"
    using that by (auto intro!: keeps_on_db apart_set simp: ActionItem_Create_def Let_def)
  show "keeps_inv (apart t U X) (on_db (Travel_Create flt now i fresh w))" if "tp_Tenant w = t"
  proof (rule keeps_on_db)
    fix d assume d: "apart t U X d"
    then have "apart t U X (d\<lparr>d_trips := d_trips d @ [x]\<rparr>)" if "tv_TenantID x = t" for x
      using that by (auto intro!: apart_set)
    then have "apart t U X (fst (insert_countries flt q now fresh i 0 cs (d\<lparr>d_trips := d_trips d @ [x]\<rparr>)))"
      if "tv_TenantID x = t" for x q cs
      using that by (intro insert_countries_apart)
    with d \<open>tp_Tenant w = t\<close> show "apart t U X (fst (Travel_Create flt now i fresh w d))"
      by (simp add: Travel_Create_def Let_def case_prod_beta split: sum.split)
  qed
qed

lemma keeps_apart_other:
  "keeps_inv (apart t U X) (on_db (Travel_CreateUpload flt up))"
  "keeps_inv (apart t U X) (on_db (Travel_DeleteUpload flt t' i))"
  "keeps_inv (apart t U X) (on_db (DD254_RevokeAccess flt t' i u))"
  "keeps_inv (apart t U X) (on_db (DD254_GrantAccess flt now t' i u by b db))"
  "keeps_inv (apart t U X) (on_db (Usage_Record flt now i t' u feat x y))"
  "keeps_inv (apart t U X) (on_files op)"
  "keeps_inv (apart t U X) (audit_log r m a' i' s' t'' meta)"
  "keeps_inv (apart t U X) (notify ns)"
  by (rule keeps_on_db keeps_on_files keeps_audit_log keeps_notify; auto simp: Travel_CreateUpload_def Travel_DeleteUpload_def
      DD254_RevokeAccess_def DD254_GrantAccess_def Usage_Record_def Let_def case_prod_beta split: sum.split)+

lemma keeps_apart_queue: "ip_TenantID ip = t \<Longrightarrow> keeps_inv (apart t U X) (queue_item L r m ip)"
  unfolding queue_item_def by (intro keeps_bind keeps_sum keeps_reply keeps_asks keeps_apart_creates keeps_apart_other)

lemma keeps_apart_edit: "keeps_inv (apart t U X) (on_db (Travel_Update flt now fresh t u i form cs))"
proof (rule keeps_on_db)
  fix d assume d: "apart t U X d"
  let ?r = "on_trips d (done_some ErrNotFound (exec_update flt ''travel.Update''
             (\<lambda>x. tv_ID x = i \<and> tv_TenantID x = t \<and> tv_UserID x = u \<and> tv_Status x = ''draft'')
             (\<lambda>x. x\<lparr>tv_Form := form, tv_UpdatedAt := now\<rparr>) (d_trips d)))"
  have "apart t U X (fst ?r)"
    using d by (auto simp: fst_exec_update intro!: apart_set filter_update_other)
  then show "apart t U X (fst (Travel_Update flt now fresh t u i form cs d))"
    by (cases ?r) (auto simp: Travel_Update_def insert_countries_apart split: sum.split)
qed

lemma keeps_apart_clearance: "keeps_inv (apart t U X) (on_db (Team_SetClearance flt now i t u by p))"
proof (rule keeps_on_db)
  fix d assume d: "apart t U X d"
  show "apart t U X (fst (Team_SetClearance flt now i t u by p d))"
  proof (cases "clearance_row now i u by p")
    case (Inr c)
    then have c: "cr_UserID c = u" by (auto simp: clearance_row_def Let_def split: if_splits option.splits)
    show ?thesis
    proof (cases "(u, t) \<in> U")
      case u: True
      obtain d1 r1 where s1: "supersede flt now u d = (d1, r1)" by (cases "supersede flt now u d")
      obtain d2 r2 where s2: "insert_clearance flt c d1 = (d2, r2)" by (cases "insert_clearance flt c d1")
      obtain d3 r3 where s3: "repoint flt now i u d2 = (d3, r3)" by (cases "repoint flt now i u d2")
      have "apart t U X (fst (supersede flt now u d))"
        using d u by (auto simp: supersede_def case_prod_beta fst_exec_update intro!: apart_set filter_update_other)
      then have 1: "apart t U X d1" using s1 by simp
      have "apart t U X (fst (insert_clearance flt c d1))"
        using 1 u c by (auto simp: insert_clearance_def intro!: apart_set)
      then have 2: "apart t U X d2" using s2 by simp
      have "apart t U X (fst (repoint flt now i u d2))"
        using 2 by (auto simp: repoint_def case_prod_beta fst_exec_update apart_def others_def refs_of_def image_sql_update)
      then have 3: "apart t U X d3" using s3 by simp
      show ?thesis
        using d 1 2 3 Inr s1 s2 s3 by (auto simp: Team_SetClearance_def split: sum.split)
    next
      case False
      then have "\<not> sql_exists (\<lambda>x. u_ID x = u \<and> u_TenantID x = t) (d_users d)"
        using d by (force simp: apart_def refs_of_def)
      then show ?thesis using d Inr by (auto simp: Team_SetClearance_def)
    qed
  qed (use d in \<open>simp add: Team_SetClearance_def\<close>)
qed

lemma keeps_member:
  assumes "r_session r = Some sess" "s_TenantID sess = Some t"
    "\<And>u. s_UserID sess = Some u \<Longrightarrow> keeps_inv P (h sess t u)"
  shows "keeps_inv P (with_member r h)"
  using assms by (auto simp: with_member_def keeps_reply split: option.split)

lemmas keeps_apart = keeps_with(3) keeps_bind keeps_reply keeps_asks keeps_if keeps_option keeps_sum keeps_prod
  keeps_apart_ops keeps_apart_creates keeps_apart_other keeps_apart_queue keeps_apart_edit keeps_apart_clearance keeps_scan_first

lemma keeps_apart_handlers:
  assumes "r_session r = Some sess" "s_TenantID sess = Some t"
  shows "keeps_inv (apart t U X) (Report_Handler_Create L r b1)"
  "keeps_inv (apart t U X) (Visit_Handler_Create L r b2)"
  "keeps_inv (apart t U X) (CreateReport L r b3)"
  "keeps_inv (apart t U X) (Report_AdminUpdateStatus L r i b4)"
  "keeps_inv (apart t U X) (Visit_Handler_Cancel L r i)"
  "keeps_inv (apart t U X) (Visit_AdminUpdateStatus L r i b5)"
  "keeps_inv (apart t U X) (Visit_Export L r q)"
  "keeps_inv (apart t U X) (LinkVisitRequest L r i b6)"
  "keeps_inv (apart t U X) (UpdateReport L r i b7)"
  "keeps_inv (apart t U X) (SubmitReport L r i)"
  "keeps_inv (apart t U X) (Travel_UploadFile sc sb L r i f)"
  "keeps_inv (apart t U X) (Travel_Handler_DeleteUpload sb L r i)"
  "keeps_inv (apart t U X) (AdminGetReport L r i)"
  "keeps_inv (apart t U X) (ApproveReport L r i)"
  "keeps_inv (apart t U X) (RejectReport L r i)"
  "keeps_inv (apart t U X) (DD254_Upload sc noop sb L r so f q6)"
  "keeps_inv (apart t U X) (DD254_ViewFile sb L r so i)"
  "keeps_inv (apart t U X) (DD254_Handler_Delete L r i)"
  "keeps_inv (apart t U X) (DD254_Handler_GrantAccess L r i b8)"
  "keeps_inv (apart t U X) (DD254_Handler_RevokeAccess L r i k)"
  "keeps_inv (apart t U X) (SetClearance L r so i b9)"
  "keeps_inv (apart t U X) (Chat T mo L r b10)"
  unfolding http_defs visit_audit_def travel_audit_def dd254_audit_def Let_def
  by (intro keeps_member [OF assms] keeps_apart; simp add: review_params_def)+

text \<open>The answers to a debrief are stored by its id alone; the row found before is of the tenant.\<close>

lemma keeps_apart_debrief:
  assumes "r_session r = Some sess" "s_TenantID sess = Some t"
  shows "keeps_inv (apart t U X) (SubmitDebrief L r i b)"
proof -
  have store: "apart t U X (fst (Store_SubmitDebrief flt now k ans d))"
    if d: "apart t U X d" and found: "GetDebrief flt' t u k d = Inr v" for flt flt' now k u ans d v
  proof -
    obtain x0 where x0: "x0 \<in> set (d_debriefs d)" "de_ID x0 = k" "de_TenantID x0 = t"
      using found sql_row_Some [of _ "d_debriefs d"]
      by (auto simp: GetDebrief_def the_debrief_def query_row_def split: sum.splits if_splits option.splits)
    have "de_TenantID x = t" if "x \<in> set (d_debriefs d)" "de_ID x = k" for x
      using that x0 d keyed_unique [of de_ID "d_debriefs d" x x0] by (simp add: apart_def)
    moreover have "keyed de_ID (d_debriefs d)" using d by (simp add: apart_def)
    ultimately show ?thesis
      using d by (auto simp: Store_SubmitDebrief_def case_prod_beta fst_exec_update intro!: apart_set keyed_update filter_update_other)
  qed
  have asked: "keeps_inv P (State_Monad.bind (asks g) f)" if "\<And>a. triple (\<lambda>d. P d \<and> g d = a) (f a) (\<lambda>_. P)"
    for P g and f :: "err + debrief \<times> string \<Rightarrow> (db, unit response) state"
    using that by (auto simp: triple_def)
  have stored: "triple (\<lambda>d. apart t U X d \<and> GetDebrief flt' t u k d = Inr v) (on_db (Store_SubmitDebrief flt now k ans)) (\<lambda>_. apart t U X)"
    for flt flt' now k u ans v
    unfolding triple_def run_state_on snd_conv by (blast intro: store)
  show ?thesis
    unfolding SubmitDebrief_def
  proof (intro keeps_member [OF assms] keeps_with(3) keeps_option keeps_reply asked)
    fix u k ans a
    assume "s_UserID sess = Some u"
    show "triple (\<lambda>d. apart t U X d \<and> GetDebrief (r_flt r) t u k d = a)
       (case a of Inl e \<Rightarrow> reply (if e = ErrDebriefNotFound then Abort StatusNotFound (Msg ''debrief not found'') else internal_error)
         | Inr (x, tripName) \<Rightarrow> do {
             upd \<leftarrow> on_db (Store_SubmitDebrief (r_flt r) (r_now r) k ans);
             (case upd of
                Inl e \<Rightarrow> reply (if e = ErrDebriefNotFound
                  then Abort StatusConflict (Msg ''debrief already submitted or not found'') else internal_error)
              | Inr _ \<Rightarrow> do {
                  on_db (ResolveBySource (r_flt r) (r_now r) t ''travel_debrief'' k);
                  parent \<leftarrow> asks (Travel_AdminGet (r_flt r) t (de_ReportID x));
                  queue_item L r 0 (review_params t ''travel_debrief'' k (''Process Post-Travel Debrief: '' @ tripName)
                    (buildDebriefDescription tripName ans)
                    (case parent of Inl _ \<Rightarrow> None | Inr y \<Rightarrow> tv_SubOrgID (rd_Report y)));
                  reply (Respond StatusOK ())
                })
           }) (\<lambda>_. apart t U X)"
    proof (cases a)
      case (Inl e)
      then show ?thesis by (simp add: triple_def)
    next
      case (Inr v)
      show ?thesis
        unfolding Inr sum.case by (cases v) (auto intro!: triple_bind [OF stored] keeps_apart simp: review_params_def)
    qed
  qed
qed

lemma keeps_apart_cascade:
  "keeps_inv (apart t U X) (case (st, src, source_updaters ty) of
     (c # cs, Some i, Some f) \<Rightarrow> on_db (f r t i u (c # cs)) | _ \<Rightarrow> reply x)"
proof -
  have "apart t U X (fst (review q e st' flt now i u d))" if "apart t U X d" for q e st' flt now i u d
    using that by (auto simp: review_def Let_def on_completions_def)
  then have "keeps_inv (apart t U X) (on_db (f r t i u s))" if "source_updaters ty = Some f" for f i s
    using that keeps_apart_ops(1,3,7) [of t U X]
    by (auto simp: source_updaters_def source_updater_defs Approve_def Reject_def triple_def split: if_splits)
  then show ?thesis by (auto intro!: keeps_reply split: list.split option.split)
qed

lemma keeps_apart_item:
  assumes "r_session r = Some sess" "s_TenantID sess = Some t"
  shows "keeps_inv (apart t U X) (ActionItem_Handler_UpdateStatus source_updaters L r i b)"
  unfolding ActionItem_Handler_UpdateStatus_def item_audit_def
  by (intro keeps_member [OF assms] keeps_with(3) keeps_bind keeps_reply keeps_option keeps_prod keeps_asks keeps_sum keeps_apart_other
      keeps_apart_ops keeps_apart_cascade)

text \<open>[C5] No request reaches over the border of its tenant: reports, visits, trips, debriefs, contracts,
  clearances, work items and chat messages of every tenant but the session's are exactly what
  they were, whatever ids the request names and whatever goes wrong.\<close>

theorem requests_stay_in_tenant:
  assumes sess: "r_session r = Some sess" "s_TenantID sess = Some t" and "keyed de_ID (d_debriefs d)"
  shows "others t (rf_users (refs_of d)) (snd (run_state (officer_serve E r c) d)) = others t (rf_users (refs_of d)) d"
proof -
  have "keeps_inv (apart t U X) (officer_serve E r c)" for U X
    by (cases c) (simp_all only: officer_serve.simps, (intro keeps_bind keeps_reply keeps_apart_handlers [OF sess]
        keeps_apart_debrief [OF sess] keeps_apart_item [OF sess])+)
  from tripleD [OF this, of "rf_users (refs_of d)" "others t (rf_users (refs_of d)) d" d] assms(3) show ?thesis
    by (simp add: apart_def)
qed

theorem requests_stay_in_tenant_witness:
  "d_trips (snd (run_state (officer_serve demo_office member_request (O_ApproveTrip (path_to 63))) office_db)) = [demo_trip]"
proof -
  let ?d = "snd (run_state (officer_serve demo_office member_request (O_ApproveTrip (path_to 63))) office_db)"
  have "others 3 (rf_users (refs_of office_db)) ?d = others 3 (rf_users (refs_of office_db)) office_db"
    by (rule requests_stay_in_tenant [where sess = demo_member]) (simp_all add: keyed_def)
  then have "filter (\<lambda>x. tv_TenantID x \<noteq> 3) (d_trips ?d) = [demo_trip]"
    by (simp add: others_def demo_trip_def)
  moreover have "length (d_trips ?d) = 1"
    by (simp add: ApproveReport_def decide_report_def demo_libs_def Travel_UpdateStatus_def Let_def trip_status_check_def
        trip_not_found_def demo_trip_def done_some_def exec_update_def sql_affected_def)
  ultimately show ?thesis by (cases "d_trips ?d") (auto split: if_splits)
qed

text \<open>[C36] The attachments of trips are not behind that border: any member of any tenant can attach a file
  to a trip of another tenant whose id it knows; the request succeeds and the officers of the
  other tenant see the file among the attachments of the trip.\<close>

theorem attachment_crosses_tenants:
  assumes sess: "r_session r = Some sess" "s_TenantID sess = Some t" "s_UserID sess = Some u" "l_uuid L p = Some i"
    and calm: "r_flt r = no_faults"
    and trip: "sql_row (\<lambda>x. tv_ID x = i \<and> tv_TenantID x = t') (d_trips d) = Some x" "t' \<noteq> t" "name_of d (tv_UserID x) \<noteq> None"
    and attached: "ff_BodySize f \<le> MaxUploadSize" "path_base (ff_Filename f) \<notin> {[], ''.'', ''/''}"
    and passed: "sc no_faults (reads_of (ff_Content f)) = Inr ()" "\<And>key fs. snd (sb_Upload sb no_faults key (ff_Content f) fs) = Inr ()"
  shows "\<exists>a d' det. run_state (Travel_UploadFile sc sb L r p (Some f)) d = (Respond StatusCreated a, d') \<and>
     tl_StorageKey a = TravelKeyPrefix (l_uuid_text L) t i @ ''/'' @ path_base (ff_Filename f) \<and>
     Travel_AdminGet no_faults t' i d' = Inr det \<and> a \<in> set (rd_Uploads det)"
proof -
  have "\<exists>x \<in> set (d_trips d). tv_ID x = i" "tv_ID x = i"
    using trip(1) sql_row_Some [of _ "d_trips d" x] by auto
  then show ?thesis
    using trip attached(2) by (auto simp: Travel_UploadFile_def sess calm attached(1) FormFile_def SniffContentType_def scan_first_def ScanAndRewind_def
        passed on_files_def on_table_def Travel_CreateUpload_def Travel_AdminGet_def query_row_def fetchDetail_def sql_asc_def
        name_of_def contact_of_def user_by_def identity_by_def Let_def split: option.splits)
qed

theorem attachment_crosses_tenants_witness:
  "\<exists>a d' det. run_state (Travel_UploadFile Noop_Scan (NewLocal ''/srv'') demo_libs member_request (path_to 63)
       (Some \<lparr>ff_Filename = ''x.pdf'', ff_Content = ''data'', ff_BodySize = 400\<rparr>)) office_db = (Respond StatusCreated a, d') \<and>
     Travel_AdminGet no_faults 4 63 d' = Inr det \<and> a \<in> set (rd_Uploads det)"
proof -
  have "path_base ''x.pdf'' \<notin> {[], ''.'', ''/''}" by code_simp
  then show ?thesis
    using attachment_crosses_tenants [of member_request demo_member 3 5 demo_libs "path_to 63" 63 4 office_db demo_trip
        "\<lparr>ff_Filename = ''x.pdf'', ff_Content = ''data'', ff_BodySize = 400\<rparr>" Noop_Scan "NewLocal ''/srv''"]
    by (simp add: demo_request_def demo_trip_def name_of_def contact_of_def user_by_def identity_by_def demo_identity_def MaxUploadSize_def
        Noop_Scan_def Local_Upload_def demo_libs_def) metis
qed

subsection \<open>To the officers and back\<close>

text \<open>[C35] A report of a life event goes on the queue of the officers: the request of a member stores it
  unreviewed under the member's own tenant, user and sub-organization, whatever the body says,
  and puts one pending item for it on the queue, assigned to the primary officer of that
  sub-organization.\<close>

theorem submitted_report_is_queued:
  assumes sess: "r_session r = Some sess" "s_TenantID sess = Some t" "s_UserID sess = Some u" "s_SubOrgID sess = Some so"
    and calm: "r_flt r = no_faults"
    and known: "tenant_by d t \<noteq> None" "user_by d u \<noteq> None" "suborg_by d so \<noteq> None" "reporting_for_check (np_ReportingFor p)"
    and fso: "\<forall>k. primary_fso d t (Some so) = Some k \<longrightarrow> user_by d k \<noteq> None"
  shows "\<exists>x a d'. run_state (Report_Handler_Create L r (Some p)) d = (Respond StatusCreated x, d') \<and>
     d_reports d' = d_reports d @ [x] \<and> le_Status x = ''unreviewed'' \<and>
     le_TenantID x = t \<and> le_CreatedByUserID x = u \<and> le_SubOrgID x = Some so \<and>
     d_action_items d' = d_action_items d @ [a] \<and> ai_TenantID a = t \<and> ai_SourceType a = ''report'' \<and>
     ai_SourceID a = Some (le_ID x) \<and> ai_Status a = ''pending'' \<and> ai_AssignedTo a = primary_fso d t (Some so)"
proof -
  let ?p = "p\<lparr>np_TenantID := t, np_CreatedByUserID := u, np_SubOrgID := Some so\<rparr>"
  obtain d1 x where x: "Report_Create no_faults (r_now r) (r_fresh r 0) ?p d = (d1, Inr x)"
    "d1 = d\<lparr>d_reports := d_reports d @ [x]\<rparr>" "le_Status x = ''unreviewed''" "le_TenantID x = t" "le_CreatedByUserID x = u"
    "le_SubOrgID x = Some so"
    using known by (auto simp: Report_Create_def Let_def)
  have same: "tenant_by d1 = tenant_by d" "user_by d1 = user_by d" "suborg_by d1 = suborg_by d" "primary_fso d1 = primary_fso d"
    by (simp_all add: x(2) fun_eq_iff tenant_by_def user_by_def suborg_by_def primary_fso_def split: option.split)
  have "\<exists>a. d_action_items (snd (run_state (queue_item L r 1 (review_params t ''report'' (le_ID x) title
        ''A life event report requires FSO review'' (Some so))) d1)) = d_action_items d1 @ [a] \<and>
      ai_TenantID a = t \<and> ai_SourceType a = ''report'' \<and> ai_SourceID a = Some (le_ID x) \<and> ai_Status a = ''pending'' \<and>
      ai_SubOrgID a = Some so \<and> ai_AssignedTo a = primary_fso d t (Some so)" for title
    using queue_item_appends [of r "review_params t ''report'' (le_ID x) title ''A life event report requires FSO review'' (Some so)" d1 L 1]
      known fso by (simp add: calm same review_params_def source_type_check_def priority_check_def)
  moreover have "d_reports (snd (run_state (queue_item L r n ip) d1)) = d_reports d1" for n ip
    using tripleD [OF keeps_queue_item [of "\<lambda>e. d_reports e = d_reports d1" L r n ip]] by simp
  ultimately show ?thesis
    using x by (simp add: Report_Handler_Create_def sess calm Let_def split_beta) metis
qed

theorem submitted_report_is_queued_witness:
  "\<exists>x a d'. run_state (Report_Handler_Create demo_libs member_request (Some demo_report_params)) office_db = (Respond StatusCreated x, d') \<and>
     le_TenantID x = 3 \<and> le_CreatedByUserID x = 5 \<and> ai_SourceID a = Some (le_ID x) \<and> a \<in> set (d_action_items d')"
proof -
  have "\<exists>x a d'. run_state (Report_Handler_Create demo_libs member_request (Some demo_report_params)) office_db = (Respond StatusCreated x, d') \<and>
     d_reports d' = d_reports office_db @ [x] \<and> le_Status x = ''unreviewed'' \<and> le_TenantID x = 3 \<and> le_CreatedByUserID x = 5 \<and>
     le_SubOrgID x = Some 21 \<and> d_action_items d' = d_action_items office_db @ [a] \<and> ai_TenantID a = 3 \<and> ai_SourceType a = ''report'' \<and>
     ai_SourceID a = Some (le_ID x) \<and> ai_Status a = ''pending'' \<and> ai_AssignedTo a = primary_fso office_db 3 (Some 21)"
    by (rule submitted_report_is_queued [where sess = demo_member])
      (simp_all add: demo_request_def demo_report_params_def reporting_for_check_def)
  then show ?thesis by (elim exE conjE) (intro exI conjI, assumption+, simp)
qed

text \<open>What the request on an item does to the source of the item.\<close>

lemma item_decision:
  assumes sess: "r_session r = Some sess" "s_TenantID sess = Some t" "s_UserID sess = Some u" "l_uuid L i = Some k"
    and calm: "r_flt r = no_faults"
    and item: "sql_row (\<lambda>a. ai_ID a = k \<and> ai_TenantID a = t) (d_action_items d) = Some a" "ai_SourceID a = Some src"
      "source_updaters (ai_SourceType a) = Some f"
    and status: "status \<in> {''under_review'', ''processed'', ''rejected''}"
  obtains items logs where
    "run_state (ActionItem_Handler_UpdateStatus source_updaters L r i (Some (status, nt))) d =
       (Respond StatusOK (), (fst (f r t src u (cascade_status status) (d\<lparr>d_action_items := items\<rparr>)))\<lparr>d_audit := logs\<rparr>)"
    "\<exists>b \<in> set items. ai_ID b = k \<and> ai_Status b = status"
proof -
  let ?items = "sql_update (\<lambda>a. ai_ID a = k \<and> ai_TenantID a = t) (\<lambda>a. a\<lparr>ai_Status := status, ai_Notes := nt, ai_UpdatedAt := r_now r\<rparr>)
     (d_action_items d)"
  have a: "a \<in> set (d_action_items d)" "ai_ID a = k" "ai_TenantID a = t"
    using item(1) sql_row_Some [of _ "d_action_items d" a] by auto
  have upd: "ActionItem_UpdateStatus no_faults (r_now r) t k status nt d = (d\<lparr>d_action_items := ?items\<rparr>, Inr ())"
    using a status by (auto simp: ActionItem_UpdateStatus_def item_status_check_def on_items_def done_some_def exec_update_def
        sql_affected_def filter_empty_conv Let_def)
  have "\<exists>b \<in> set ?items. ai_ID b = k \<and> ai_Status b = status"
    using a by (auto simp: bex_sql_update)
  moreover have "iv_Item (item_view_of d a) = a" by (simp add: item_view_of_def)
  moreover obtain c cs where "cascade_status status = c # cs"
    using status by (auto simp: cascade_status_def)
  ultimately show thesis
    using status by (intro that) (auto simp: ActionItem_Handler_UpdateStatus_def sess calm ActionItem_Get_def query_row_def item upd
        item_audit_def)
qed



text \<open>[C37] The rejection of a report is lost: marking its work item rejected answers with success and
  closes the item as rejected, but no report changes, because \<^verbatim>\<open>rejected\<close> is not among the
  states a report may have and the refused update is only logged.\<close>

theorem report_rejection_is_lost:
  assumes sess: "r_session r = Some sess" "s_TenantID sess = Some t" "s_UserID sess = Some u" "l_uuid L i = Some k"
    and calm: "r_flt r = no_faults"
    and item: "sql_row (\<lambda>a. ai_ID a = k \<and> ai_TenantID a = t) (d_action_items d) = Some a" "ai_SourceID a = Some src"
      "ai_SourceType a = ''report''"
  shows "\<exists>d'. run_state (ActionItem_Handler_UpdateStatus source_updaters L r i (Some (''rejected'', nt))) d = (Respond StatusOK (), d') \<and>
     d_reports d' = d_reports d \<and> (\<exists>b \<in> set (d_action_items d'). ai_ID b = k \<and> ai_Status b = ''rejected'')"
proof -
  have f: "source_updaters (ai_SourceType a) = Some report_updater" by (simp add: source_updaters_def item(3))
  have c: "cascade_status ''rejected'' = ''rejected''" by (simp add: cascade_status_def)
  have st: "''rejected'' \<in> {''under_review'', ''processed'', ''rejected''}" by simp
  obtain items logs where run: "run_state (ActionItem_Handler_UpdateStatus source_updaters L r i (Some (''rejected'', nt))) d =
       (Respond StatusOK (), (fst (report_updater r t src u ''rejected'' (d\<lparr>d_action_items := items\<rparr>)))\<lparr>d_audit := logs\<rparr>)"
    and items: "\<exists>b \<in> set items. ai_ID b = k \<and> ai_Status b = ''rejected''"
    by (rule item_decision [OF sess calm item(1,2) f st, unfolded c])
  have "d_reports (fst (report_updater r t src u ''rejected'' (d\<lparr>d_action_items := items\<rparr>))) = d_reports d"
    by (auto simp: report_updater_def Report_UpdateStatus_def report_status_check_def calm Let_def case_prod_beta fst_exec_update
        sql_update_none)
  moreover have "d_action_items (fst (report_updater r t src u ''rejected'' (d\<lparr>d_action_items := items\<rparr>))) = items"
    by (simp add: report_updater_def)
  ultimately show ?thesis using run items by simp
qed

theorem report_rejection_is_lost_witness:
  "\<exists>d'. run_state (ActionItem_Handler_UpdateStatus source_updaters demo_libs member_request (path_to 71) (Some (''rejected'', []))) office_db =
     (Respond StatusOK (), d') \<and> d_reports d' = [demo_report]"
  using report_rejection_is_lost [of member_request demo_member 3 5 demo_libs "path_to 71" 71 office_db
      "demo_item\<lparr>ai_ID := 71, ai_SourceType := ''report'', ai_SourceID := Some 61\<rparr>" 61 "[]"]
  by (auto simp: demo_request_def demo_item_def demo_libs_def)

subsection \<open>Contracts\<close>

text \<open>[C11] A visit request cannot name a contract the visitor is not read on to: whatever the body of the
  request and whatever fails, every visit the request adds names no contract or an active
  contract of the visitor's tenant to which the visitor was given access and from which nobody
  has debriefed them.\<close>

theorem declared_contract_is_held:
  assumes sess: "r_session r = Some sess" "s_TenantID sess = Some t" "s_UserID sess = Some u"
    and new: "v \<in> set (d_visits (snd (run_state (Visit_Handler_Create L r q) d)))" "v \<notin> set (d_visits d)"
  shows "vi_TenantID v = t \<and> vi_CreatedByUserID v = u \<and> vi_Status v = ''submitted'' \<and>
     (vi_DD254ID v = None \<or> (\<exists>a \<in> set (d_dd254_access d). \<exists>f \<in> set (d_dd254 d). vi_DD254ID v = Some (dd_ID f) \<and>
        dd_TenantID f = t \<and> dd_Status f = ''active'' \<and> da_DD254ID a = dd_ID f \<and> da_UserID a = u \<and> da_DebriefedAt a = None))"
proof -
  obtain q0 where q: "q = Some q0"
    using new by (cases q) (auto simp: Visit_Handler_Create_def sess)
  let ?p = "q0\<lparr>vp_TenantID := t, vp_CreatedByUserID := u, vp_SubOrgID := s_SubOrgID sess\<rparr>"
  have same: "d_visits (snd (run_state (queue_item L r n ip) d1)) = d_visits d1" for n ip d1
    using tripleD [OF keeps_queue_item [of "\<lambda>e. d_visits e = d_visits d1" L r n ip]] by simp
  have ok: "(case vi_DD254ID q0 of None \<Rightarrow> Inr True | Some i \<Rightarrow> UserHasAccess (r_flt r) t u i d) = Inr True"
    using new by (auto simp: Visit_Handler_Create_def sess q Let_def split: sum.splits if_splits option.splits)
  have "v \<in> set (d_visits (fst (Visit_Create (r_flt r) (r_now r) (r_fresh r 0) ?p d)))"
    using new by (auto simp: Visit_Handler_Create_def sess q Let_def ok same visit_audit_def split_beta split: sum.splits)
  then obtain s e where v: "v = new_visit (r_now r) (r_fresh r 0) ?p s e"
    using new(2) by (auto simp: Visit_Create_def Let_def split: option.splits if_splits)
  show ?thesis
    using ok by (auto simp: v new_visit_def UserHasAccess_def split: option.splits if_splits) metis
qed

theorem declared_contract_is_held_witness:
  "\<exists>v \<in> set (d_visits (snd (run_state (Visit_Handler_Create demo_libs member_request (Some demo_visit_params)) office_db))).
     vi_DD254ID v = Some 65 \<and> da_UserID demo_grant = vi_CreatedByUserID v"
proof -
  let ?d = "snd (run_state (Visit_Handler_Create demo_libs member_request (Some demo_visit_params)) office_db)"
  obtain s e where dates: "ParseDate ''2026-01-05'' = Some s" "ParseDate ''2026-01-06'' = Some e"
    using demo_visit_dates by auto
  have same: "d_visits (snd (run_state (queue_item L r n ip) d1)) = d_visits d1" for L r n ip d1
    using tripleD [OF keeps_queue_item [of "\<lambda>e. d_visits e = d_visits d1" L r n ip]] by simp
  have vs: "d_visits ?d = [demo_visit, new_visit 100 1000 (demo_visit_params\<lparr>vp_TenantID := 3, vp_CreatedByUserID := 5, vp_SubOrgID := Some 21\<rparr>) s e]"
    by (simp add: Visit_Handler_Create_def demo_visit_params_def UserHasAccess_def demo_grant_def demo_form_def demo_request_def Visit_Create_def
        dates access_level_check_def same visit_audit_def split_beta Let_def)
  have "vi_TenantID (d_visits ?d ! 1) = 3 \<and> vi_CreatedByUserID (d_visits ?d ! 1) = 5"
    using declared_contract_is_held [of member_request demo_member 3 5 "d_visits ?d ! 1" demo_libs "Some demo_visit_params" office_db]
    by (simp add: vs) (simp add: new_visit_def demo_visit_def)
  then show ?thesis by (simp add: vs) (simp add: new_visit_def demo_visit_params_def demo_grant_def)
qed

text \<open>The sub-organization of an officer limits what the officer sees of contracts, not what the officer
  changes: for a contract of another sub-organization of the tenant the request to see it
  answers that there is none, while the request to delete it succeeds and retires the contract
  for everybody.\<close>

theorem contract_writes_ignore_scope:
  assumes sess: "r_session r = Some sess" "s_TenantID sess = Some t" "s_UserID sess = Some u" "l_uuid L i = Some k"
    and calm: "r_flt r = no_faults"
    and form: "f \<in> set (d_dd254 d)" "dd_ID f = k" "dd_TenantID f = t" "keyed dd_ID (d_dd254 d)"
    and scope: "scope_of L r sess so = Some s" "dd_SubOrgID f = Some s'" "s' \<noteq> s"
  shows "fst (run_state (DD254_Handler_Get L r so i) d) = Abort StatusNotFound (Msg ''not found'') \<and>
     (\<exists>d'. run_state (DD254_Handler_Delete L r i) d = (Respond StatusOK (), d') \<and>
        (\<forall>g \<in> set (d_dd254 d'). dd_ID g = k \<longrightarrow> dd_Status g = ''superseded''))"
proof
  have only: "g = f" if "g \<in> set (d_dd254 d)" "dd_ID g = k" for g
    using that form keyed_unique [of dd_ID "d_dd254 d" g f] by simp
  then have "sql_row (\<lambda>f. dd_ID f = k \<and> form_in_scope t (Some s) None f) (d_dd254 d) = None"
    using scope by (auto simp: sql_row_None form_in_scope_def in_scope_def)
  then show "fst (run_state (DD254_Handler_Get L r so i) d) = Abort StatusNotFound (Msg ''not found'')"
    by (simp add: DD254_Handler_Get_def sess calm DD254_Get_def query_row_def scope dd254_not_found_def)
  obtain g where "sql_row (\<lambda>f. dd_ID f = k \<and> dd_TenantID f = t) (d_dd254 d) = Some g"
    using form sql_row_None [of "\<lambda>f. dd_ID f = k \<and> dd_TenantID f = t" "d_dd254 d"] by fastforce
  let ?forms = "sql_update (\<lambda>f. dd_ID f = k \<and> dd_TenantID f = t) (\<lambda>f. f\<lparr>dd_Status := ''superseded'', dd_UpdatedAt := r_now r\<rparr>) (d_dd254 d)"
  have "DD254_Delete no_faults (r_now r) t k d = (d\<lparr>d_dd254 := ?forms\<rparr>, Inr (dd_StorageKey g))"
    using \<open>sql_row _ _ = Some g\<close> by (simp add: DD254_Delete_def)
  then obtain d' where d': "run_state (DD254_Handler_Delete L r i) d = (Respond StatusOK (), d')" "d_dd254 d' = ?forms"
    by (simp add: DD254_Handler_Delete_def sess calm dd254_audit_def)
  moreover have "\<forall>g \<in> set ?forms. dd_ID g = k \<longrightarrow> dd_Status g = ''superseded''"
    unfolding ball_sql_update using only form(3) by auto
  ultimately show "\<exists>d'. run_state (DD254_Handler_Delete L r i) d = (Respond StatusOK (), d') \<and>
        (\<forall>g \<in> set (d_dd254 d'). dd_ID g = k \<longrightarrow> dd_Status g = ''superseded'')"
    by (intro exI [of _ d'] conjI d'(1)) (simp only: d'(2))
qed

theorem contract_writes_ignore_scope_witness:
  "\<exists>d'. run_state (DD254_Handler_Delete demo_libs member_request (path_to 65)) office_db = (Respond StatusOK (), d') \<and>
     map dd_Status (d_dd254 d') = [''superseded'']"
proof -
  let ?r = "run_state (DD254_Handler_Delete demo_libs member_request (path_to 65)) office_db"
  obtain d' where d': "?r = (Respond StatusOK (), d')" "\<forall>g \<in> set (d_dd254 d'). dd_ID g = 65 \<longrightarrow> dd_Status g = ''superseded''"
    using contract_writes_ignore_scope [of member_request demo_member 3 5 demo_libs "path_to 65" 65 demo_form office_db "[]" 21 20]
    by (auto simp: demo_request_def demo_form_def keyed_def scope_of_def SubOrgScope_def demo_libs_def)
  have "map dd_ID (d_dd254 (snd ?r)) = [65]"
    by (simp add: DD254_Handler_Delete_def DD254_Delete_def dd254_audit_def demo_request_def demo_form_def demo_libs_def)
  then show ?thesis using d' by (cases "d_dd254 d'") auto
qed

end
