(* ===== verification/Auth_Properties.thy ===== *)
theory Auth_Properties
  imports Auth_Handlers
begin

text \<open>
  What the login, second-factor, reset and invite handlers guarantee, one request at a time.
\<close>

lemma GetByEmail_flt: "Identity_GetByEmail lower flt e t = Inr i \<Longrightarrow> i \<in> set t"
  by (simp add: GetByEmail_ok)

lemma run_login_refuse [simp]:
  "fst (run_state (login_refuse r i m c t) d) = Abort c (Msg t)"
  "d_sessions (snd (run_state (login_refuse r i m c t) d)) = d_sessions d"
  "d_identities (snd (run_state (login_refuse r i m c t) d)) = d_identities d"
  "d_codes (snd (run_state (login_refuse r i m c t) d)) = d_codes d"
  "d_totp (snd (run_state (login_refuse r i m c t) d)) = d_totp d"
  by (simp_all add: login_refuse_def)

lemma run_if [simp]: "run_state (if b then m else n) s = (if b then run_state m s else run_state n s)"
  by simp

definition login_ok :: "libs \<Rightarrow> request \<Rightarrow> login_request \<Rightarrow> identity \<Rightarrow> bool" where
  "login_ok L r q ident = (HasPassword ident \<and> \<not> IsLocked (r_now r) ident \<and>
     l_CheckPassword L (the (i_PasswordHash ident)) (lq_Password q) \<and> \<not> IsSuspended ident)"

text \<open>The outcome of a login request, by cases.\<close>

lemma Login_cases:
  assumes "run_state (Login L r (Some q)) d = (resp, d')"
  obtains
    (refused) c m where "resp = Abort c m" "d_sessions d' = d_sessions d"
  | (accepted) ident csrf s where
      "Identity_GetByEmail (l_lower L) (r_flt r) (lq_Email q) (d_identities d) = Inr ident"
      "login_ok L r q ident" "r_csrf r = Some csrf"
      "d_sessions d' = d_sessions d @ [s]"
      "s = session_row (r_fresh r 0) (r_now r) \<lparr>p_IdentityID = i_ID ident,
         p_State = (if fst (get2FAMethods (r_flt r) (i_ID ident) d) then Pre_Auth else Setup2FA),
         p_IPAddress = r_ip r, p_UserAgent = r_ua r, p_AuthMethod = ''password'', p_CSRFToken = csrf\<rparr>"
      "resp = Respond StatusOK \<lparr>lr_State = s_State s,
         lr_Available2FA = (if fst (get2FAMethods (r_flt r) (i_ID ident) d)
           then Some (snd (get2FAMethods (r_flt r) (i_ID ident) d)) else None),
         lr_SessionCookie = s_ID s, lr_CSRFCookie = csrf\<rparr>"
proof (cases "Identity_GetByEmail (l_lower L) (r_flt r) (lq_Email q) (d_identities d)")
  case (Inl e)
  have "resp = fst (run_state (Login L r (Some q)) d)" "d' = snd (run_state (Login L r (Some q)) d)"
    using assms by simp_all
  with Inl show ?thesis by (intro refused) (simp_all add: Login_def)
next
  case (Inr ident)
  have resp: "resp = fst (run_state (Login L r (Some q)) d)" and d': "d' = snd (run_state (Login L r (Some q)) d)"
    using assms by simp_all
  have m: "get2FAMethods flt i (d\<lparr>d_audit := a, d_identities := t\<rparr>) = get2FAMethods flt i d" for flt i a t
    by (simp add: get2FAMethods_def)
  show ?thesis
  proof (cases "login_ok L r q ident \<and> r_csrf r \<noteq> None \<and> \<not> r_flt r ''session.Create'' 0")
    case False
    with Inr show ?thesis
      unfolding resp d'
      by (intro refused [of "resp_code (fst (run_state (Login L r (Some q)) d))"
            "case fst (run_state (Login L r (Some q)) d) of Abort _ m \<Rightarrow> m"])
        (auto simp: Login_def login_ok_def resp d' Session_Create_def split: option.split)
  next
    case True
    then obtain csrf where "r_csrf r = Some csrf" by blast
    with True Inr show ?thesis
      unfolding resp d'
      by (intro accepted [of ident csrf]) (auto simp: Login_def login_ok_def resp d' Session_Create_def m Let_def session_row_def)
  qed
qed

text \<open>A password never gets past the second factor: a login that is answered with a session
  found an identity whose password matches, that is neither locked nor suspended, and added
  exactly one session, which waits for a second factor or for its enrolment, lives fifteen
  minutes, and carries no tenant and no administrator flag; a refused login adds none.\<close>

theorem login_waits_for_second_factor:
  assumes run: "run_state (Login L r (Some q)) d = (resp, d')"
  shows "(\<not> succeeded resp \<longrightarrow> d_sessions d' = d_sessions d) \<and>
    (succeeded resp \<longrightarrow> (\<exists>s ident. d_sessions d' = d_sessions d @ [s] \<and>
       Identity_GetByEmail (l_lower L) (r_flt r) (lq_Email q) (d_identities d) = Inr ident \<and>
       HasPassword ident \<and> l_CheckPassword L (the (i_PasswordHash ident)) (lq_Password q) \<and>
       \<not> IsLocked (r_now r) ident \<and> \<not> IsSuspended ident \<and>
       s_IdentityID s = i_ID ident \<and> s_State s < PreTenant \<and> s_SecondFactor s = None \<and>
       s_ExpiresAt s = r_now r + 15 * minute \<and> s_TenantID s = None \<and> \<not> s_IsSuperAdmin s))"
  using run
proof (cases rule: Login_cases)
  case (accepted ident csrf s)
  have "s_IdentityID s = i_ID ident \<and> s_State s < PreTenant \<and> s_SecondFactor s = None \<and>
       s_ExpiresAt s = r_now r + 15 * minute \<and> s_TenantID s = None \<and> \<not> s_IsSuperAdmin s"
    unfolding accepted(5) by (simp add: session_row_def less_sstate_def preAuthSessionDuration_def)
  with accepted show ?thesis by (simp add: login_ok_def)
qed simp

definition demo_login :: login_request where
  "demo_login = \<lparr>lq_Email = ''a@b.c'', lq_Password = ''h''\<rparr>"

lemmas demo_defs = demo_libs_def demo_login_def demo_request_def demo_identity_def

theorem login_waits_for_second_factor_witness:
  "\<exists>s. d_sessions (snd (run_state (Login demo_libs demo_request (Some demo_login)) demo_db)) = d_sessions demo_db @ [s]"
proof -
  let ?run = "run_state (Login demo_libs demo_request (Some demo_login)) demo_db"
  have "succeeded (fst ?run)"
    by (simp add: Login_def demo_defs Identity_GetByEmail_def query_row_def HasPassword_def IsLocked_def
        IsSuspended_def Session_Create_def Let_def)
  with login_waits_for_second_factor [of demo_libs demo_request demo_login demo_db "fst ?run" "snd ?run"]
  show ?thesis by auto
qed

text \<open>An outsider cannot tell why a login failed, except by locking the account: the answers
  to an unknown address, to an account without a password and to a wrong password on an
  unlocked account are the same; a locked account is answered differently, and so reveals
  that it exists.\<close>

theorem login_anti_enumeration:
  "(fst (run_state (Login L r (Some q)) d) = Abort StatusUnauthorized (Msg ''invalid credentials'') \<longleftrightarrow>
      (case Identity_GetByEmail (l_lower L) (r_flt r) (lq_Email q) (d_identities d) of
         Inl _ \<Rightarrow> True
       | Inr i \<Rightarrow> \<not> HasPassword i \<or>
           (\<not> IsLocked (r_now r) i \<and> \<not> l_CheckPassword L (the (i_PasswordHash i)) (lq_Password q)))) \<and>
   (resp_code (fst (run_state (Login L r (Some q)) d)) = StatusTooManyRequests \<longleftrightarrow>
      (\<exists>i. Identity_GetByEmail (l_lower L) (r_flt r) (lq_Email q) (d_identities d) = Inr i \<and>
           HasPassword i \<and> IsLocked (r_now r) i))"
  by (auto simp: Login_def Session_Create_def Let_def split: sum.split option.split)

theorem login_anti_enumeration_witness:
  "fst (run_state (Login demo_libs demo_request (Some (demo_login\<lparr>lq_Password := ''x''\<rparr>))) demo_db) =
     Abort StatusUnauthorized (Msg ''invalid credentials'')"
  by (subst login_anti_enumeration [THEN conjunct1])
    (simp add: demo_defs Identity_GetByEmail_def query_row_def HasPassword_def IsLocked_def)

text \<open>The login handler plays the lockout automaton: for an identity found by its address and
  a wrong password, the identity table afterwards holds exactly the automaton's next state of
  that identity, and the password was compared exactly when the automaton says so.\<close>

theorem wrong_password_is_a_guess:
  assumes found: "Identity_GetByEmail (l_lower L) (r_flt r) (lq_Email q) (d_identities d) = Inr ident"
    and pw: "HasPassword ident" "\<not> l_CheckPassword L (the (i_PasswordHash ident)) (lq_Password q)"
    and ok: "\<not> r_flt r ''identity.RecordFailedLogin'' 0" and key: "keyed i_ID (d_identities d)"
  shows "d_identities (snd (run_state (Login L r (Some q)) d)) =
      map (\<lambda>i. if i = ident then fst (guess (r_now r) i) else i) (d_identities d) \<and>
    (resp_code (fst (run_state (Login L r (Some q)) d)) = StatusTooManyRequests \<longleftrightarrow> \<not> snd (guess (r_now r) ident))"
proof -
  from found have mem: "ident \<in> set (d_identities d)" by (rule GetByEmail_flt)
  have same: "i_ID i = i_ID ident \<longleftrightarrow> i = ident" if "i \<in> set (d_identities d)" for i
    using keyed_unique [OF key that mem] by auto
  show ?thesis
  proof (cases "IsLocked (r_now r) ident")
    case True
    then have "map (\<lambda>i. if i = ident then fst (guess (r_now r) i) else i) (d_identities d) = d_identities d"
      by (intro map_idI) (simp add: guess_def)
    with True found pw show ?thesis by (simp add: Login_def guess_def)
  next
    case False
    have "sql_update (\<lambda>i. i_ID i = i_ID ident) (failed_login_row (r_now r)) (d_identities d) =
        map (\<lambda>i. if i = ident then fst (guess (r_now r) i) else i) (d_identities d)"
      unfolding sql_update_def using same False by (intro map_cong) (auto simp: guess_def)
    with False found pw ok show ?thesis
      by (simp add: Login_def guess_def Identity_RecordFailedLogin_def sql_simps)
  qed
qed

theorem wrong_password_is_a_guess_witness:
  "i_FailedLoginAttempts (hd (d_identities (snd (run_state
     (Login demo_libs demo_request (Some (demo_login\<lparr>lq_Password := ''x''\<rparr>))) demo_db)))) = 1"
  by (subst wrong_password_is_a_guess [where ident = demo_identity, THEN conjunct1])
    (simp_all add: demo_defs Identity_GetByEmail_def query_row_def HasPassword_def keyed_def guess_def IsLocked_def)

text \<open>Every failed login spends two of the limiter's events: after a login that is refused
  for its credentials, the number of recent events of the address has grown by two (the
  attempt and the failure), so a limit of fifteen stops an address at its eighth failure.\<close>

theorem failed_login_counts_twice:
  assumes refused: "resp_code (fst (run_state (Login L r (Some q)) d)) = StatusUnauthorized"
    and ip: "r_ip r \<noteq> []" and logged: "\<not> r_flt r ''audit.Log'' 0" "\<not> r_flt r ''audit.Log'' 1"
    and before: "CountRecentByIP no_faults (r_ip r) limiter_actions since (d_audit d) = Inr n" and recent: "since < r_now r"
  shows "CountRecentByIP no_faults (r_ip r) limiter_actions since
      (d_audit (snd (run_state (Login L r (Some q)) d))) = Inr (n + 2)"
proof (cases "Identity_GetByEmail (l_lower L) (r_flt r) (lq_Email q) (d_identities d)")
  case (Inl e)
  then show ?thesis
    using ip logged before recent
    by (auto simp: Login_def login_refuse_def Audit_Log_def CountRecentByIP_def limiter_actions_def nullIfEmpty_def)
next
  case (Inr i)
  then show ?thesis
    using ip logged before recent refused
    by (auto simp: Login_def login_refuse_def Audit_Log_def CountRecentByIP_def limiter_actions_def nullIfEmpty_def
        Session_Create_def Let_def split: if_splits option.splits)
qed

theorem failed_login_counts_twice_witness:
  "CountRecentByIP no_faults ''10.0.0.1'' limiter_actions 0 (d_audit (snd (run_state
     (Login demo_libs demo_request (Some (demo_login\<lparr>lq_Password := ''x''\<rparr>))) demo_db))) = Inr (0 + 2)"
  using failed_login_counts_twice [of demo_libs demo_request "demo_login\<lparr>lq_Password := ''x''\<rparr>" demo_db 0 0]
  by (simp add: Login_def demo_defs Identity_GetByEmail_def query_row_def HasPassword_def IsLocked_def
      CountRecentByIP_def)

subsection \<open>Second factors\<close>

lemma Totp_VerifyHandler_wrong:
  assumes "r_session r = Some sess"
    and "\<forall>t \<in> set (d_totp d). ts_IdentityID t = s_IdentityID sess \<longrightarrow> \<not> l_totp L code (ts_Secret t)"
  shows "d_sessions (snd (run_state (Totp_VerifyHandler L r (Some code)) d)) = d_sessions d \<and>
    d_totp (snd (run_state (Totp_VerifyHandler L r (Some code)) d)) = d_totp d \<and>
    d_identities (snd (run_state (Totp_VerifyHandler L r (Some code)) d)) = d_identities d"
  using assms
  by (auto simp: Totp_VerifyHandler_def dest!: GetByIdentity_ok split: sum.split)

text \<open>A run of verification requests of one session, with their codes.\<close>

fun totp_attempts :: "libs \<Rightarrow> (request \<times> string) list \<Rightarrow> db \<Rightarrow> db" where
  "totp_attempts L [] d = d"
| "totp_attempts L ((r, code) # as) d = totp_attempts L as (snd (run_state (Totp_VerifyHandler L r (Some code)) d))"

lemma totp_attempts_wrong:
  assumes "\<forall>(r, code) \<in> set as. (\<exists>sess. r_session r = Some sess \<and> s_IdentityID sess = idn) \<and>
      (\<forall>t \<in> set (d_totp d). ts_IdentityID t = idn \<longrightarrow> \<not> l_totp L code (ts_Secret t))"
  shows "d_sessions (totp_attempts L as d) = d_sessions d \<and> d_totp (totp_attempts L as d) = d_totp d \<and>
    d_identities (totp_attempts L as d) = d_identities d"
  using assms
proof (induction as arbitrary: d)
  case (Cons a as)
  obtain r code where a: "a = (r, code)" by (cases a)
  let ?d = "snd (run_state (Totp_VerifyHandler L r (Some code)) d)"
  from Cons.prems a obtain sess where r: "r_session r = Some sess" "s_IdentityID sess = idn" by auto
  have same: "d_sessions ?d = d_sessions d \<and> d_totp ?d = d_totp d \<and> d_identities ?d = d_identities d"
    using Cons.prems a r by (intro Totp_VerifyHandler_wrong [OF r(1)]) auto
  have "d_sessions (totp_attempts L as ?d) = d_sessions ?d \<and> d_totp (totp_attempts L as ?d) = d_totp ?d \<and>
    d_identities (totp_attempts L as ?d) = d_identities ?d"
    using Cons.prems same by (intro Cons.IH) auto
  with same a show ?case by simp
qed simp

text \<open>Wrong authenticator codes cost nothing: after any number of them, in any requests of a
  session waiting for its second factor, neither the session nor the secret nor the identity
  has changed, and the right code is then accepted and makes it past the second factor; the
  lockout of passwords has no counterpart here.\<close>

theorem totp_guesses_are_free:
  assumes wrong: "\<forall>(r', code) \<in> set as. (\<exists>s. r_session r' = Some s \<and> s_IdentityID s = s_IdentityID sess) \<and>
      (\<forall>t \<in> set (d_totp d). ts_IdentityID t = s_IdentityID sess \<longrightarrow> \<not> l_totp L code (ts_Secret t))"
    and sess: "r_session r = Some sess" "sess \<in> set (d_sessions d)"
    and secret: "Totp_GetByIdentity (r_flt r) (s_IdentityID sess) (d_totp d) = Inr ts" "l_totp L code (ts_Secret ts)"
    and ok: "\<not> r_flt r ''session.SetSecondFactor'' 0"
  shows "fst (run_state (Totp_VerifyHandler L r (Some code)) (totp_attempts L as d)) = Respond StatusOK PreTenant \<and>
    sess\<lparr>s_SecondFactor := Some ''totp'', s_State := PreTenant, s_ExpiresAt := r_now r + sessionDuration\<rparr>
      \<in> set (d_sessions (snd (run_state (Totp_VerifyHandler L r (Some code)) (totp_attempts L as d))))"
proof -
  let ?d = "totp_attempts L as d"
  have same: "d_sessions ?d = d_sessions d" "d_totp ?d = d_totp d"
    using totp_attempts_wrong [OF wrong] by simp_all
  have "sess\<lparr>s_SecondFactor := Some ''totp'', s_State := PreTenant, s_ExpiresAt := r_now r + sessionDuration\<rparr>
      \<in> set (sql_update (\<lambda>s. s_ID s = s_ID sess) (\<lambda>s. s\<lparr>s_SecondFactor := Some ''totp'', s_State := PreTenant,
            s_ExpiresAt := r_now r + sessionDuration\<rparr>) (d_sessions d))"
    using sess(2) by (force simp: sql_update_def)
  then show ?thesis
    using sess(1) secret ok same
    by (simp add: Totp_VerifyHandler_def Session_SetSecondFactor_def sql_simps)
qed

definition waiting_session :: session where
  "waiting_session = session_row 1 0 demo_params"

definition totp_db :: db where
  "totp_db = demo_db\<lparr>d_sessions := [waiting_session], d_totp := [demo_secret]\<rparr>"

lemma totp_db_simps [simp]: "d_sessions totp_db = [waiting_session]" "d_totp totp_db = [demo_secret]"
  "d_identities totp_db = [demo_identity]" "d_codes totp_db = []" "d_audit totp_db = []" "d_passkeys totp_db = []"
  by (simp_all add: totp_db_def)

lemma waiting_session_simps [simp]: "s_IdentityID waiting_session = 7" "s_ID waiting_session = 1"
  by (simp_all add: waiting_session_def session_row_def demo_params_def)

theorem totp_guesses_are_free_witness:
  "fst (run_state (Totp_VerifyHandler demo_libs (demo_request\<lparr>r_session := Some waiting_session\<rparr>) (Some ''old''))
     (totp_attempts demo_libs [(demo_request\<lparr>r_session := Some waiting_session\<rparr>, ''000000''),
        (demo_request\<lparr>r_session := Some waiting_session\<rparr>, ''000001'')] totp_db)) = Respond StatusOK PreTenant"
  by (rule totp_guesses_are_free [where sess = waiting_session and ts = demo_secret, THEN conjunct1])
    (simp_all add: demo_defs demo_secret_def Totp_GetByIdentity_def query_row_def)

subsection \<open>Password reset\<close>

lemma run_set_new_password:
  "run_state (set_new_password L r pw tid idn) d = (resp, d') \<Longrightarrow>
    (succeeded resp \<longleftrightarrow> (\<exists>h. l_HashPassword L pw = Some h \<and>
       is_ok (snd (Identity_UpdatePassword (r_flt r) (r_now r) idn h (d_identities d))))) \<and>
    (\<not> succeeded resp \<longrightarrow> d_sessions d' = d_sessions d \<and> d_codes d' = d_codes d \<and> d_identities d' = d_identities d) \<and>
    (succeeded resp \<longrightarrow> (\<exists>h. l_HashPassword L pw = Some h \<and>
       d_identities d' = fst (Identity_UpdatePassword (r_flt r) (r_now r) idn h (d_identities d)) \<and>
       d_codes d' = fst (Invite_MarkUsed (r_flt r) (r_now r) tid (d_codes d)) \<and>
       d_sessions d' = fst (Session_RevokeByIdentity (r_flt r) (r_now r) idn ''password_reset'' (d_sessions d))))"
  using identity_set_failed [of "r_flt r" "''identity.UpdatePassword''" "r_now r" "\<lambda>r. i_ID r = idn"]
  by (fastforce simp: set_new_password_def Identity_UpdatePassword_def split: option.splits sum.splits)

lemma ConfirmPasswordReset_ok:
  assumes "run_state (ConfirmPasswordReset L r (Some q)) d = (resp, d')" "succeeded resp"
  shows "\<exists>tid idn. 8 \<le> length (rr_Password q) \<and>
    ValidatePasswordReset (l_sha256 L) (r_flt r) (r_now r) (rr_Token q) (d_codes d) = Inr (tid, idn) \<and>
    (\<exists>has. HasVerifiedTOTP (r_flt r) idn (d_totp d) = Inr has \<and>
       (has \<longrightarrow> rr_TOTPCode q \<noteq> [] \<and> Totp_ValidateCode (l_totp L) (r_flt r) idn (rr_TOTPCode q) (d_totp d) = Inr True)) \<and>
    run_state (set_new_password L r (rr_Password q) tid idn) d = (resp, d')"
  using assms
  by (auto simp: ConfirmPasswordReset_def split: if_splits sum.splits prod.splits)

text \<open>[C34] What a password reset needs and does: it is answered with success only for a password
  of at least eight bytes, a token that validates, and, when the identity has a confirmed
  authenticator, a code of it; then the identity's hash is the new one, and provided the two
  clean-up statements are carried out the token never validates again and every session of the
  identity that was alive is revoked. A reset that is refused changes no password, token or
  session.\<close>

theorem reset_needs_second_factor:
  assumes run: "run_state (ConfirmPasswordReset L r (Some q)) d = (resp, d')"
  shows "(\<not> succeeded resp \<longrightarrow> d_identities d' = d_identities d \<and> d_codes d' = d_codes d \<and> d_sessions d' = d_sessions d) \<and>
    (succeeded resp \<longrightarrow> (\<exists>tid idn hash. 8 \<le> length (rr_Password q) \<and> l_HashPassword L (rr_Password q) = Some hash \<and>
      ValidatePasswordReset (l_sha256 L) (r_flt r) (r_now r) (rr_Token q) (d_codes d) = Inr (tid, idn) \<and>
      (HasVerifiedTOTP (r_flt r) idn (d_totp d) = Inr True \<longrightarrow>
         Totp_ValidateCode (l_totp L) (r_flt r) idn (rr_TOTPCode q) (d_totp d) = Inr True) \<and>
      (\<forall>i \<in> set (d_identities d'). i_ID i = idn \<longrightarrow> i_PasswordHash i = Some hash) \<and>
      (\<not> r_flt r ''invite.MarkUsed'' 0 \<longrightarrow>
         (\<forall>hs flt now tok x. ValidatePasswordReset hs flt now tok (d_codes d') \<noteq> Inr (tid, x))) \<and>
      (\<not> r_flt r ''session.RevokeByIdentity'' 0 \<longrightarrow>
         (\<forall>s \<in> set (d_sessions d'). s_IdentityID s = idn \<longrightarrow> \<not> IsValid (r_now r) s))))"
proof (intro conjI impI)
  assume "\<not> succeeded resp"
  then show "d_identities d' = d_identities d" "d_codes d' = d_codes d" "d_sessions d' = d_sessions d"
    using run run_set_new_password [of L r "rr_Password q"]
    by (auto simp: ConfirmPasswordReset_def split: if_splits sum.splits prod.splits)
next
  assume ok: "succeeded resp"
  from ConfirmPasswordReset_ok [OF run ok] obtain tid idn has where
    q: "8 \<le> length (rr_Password q)"
      "ValidatePasswordReset (l_sha256 L) (r_flt r) (r_now r) (rr_Token q) (d_codes d) = Inr (tid, idn)"
      "HasVerifiedTOTP (r_flt r) idn (d_totp d) = Inr has"
      "has \<longrightarrow> Totp_ValidateCode (l_totp L) (r_flt r) idn (rr_TOTPCode q) (d_totp d) = Inr True"
    and snp: "run_state (set_new_password L r (rr_Password q) tid idn) d = (resp, d')" by blast
  from run_set_new_password [OF snp] ok obtain hash where h: "l_HashPassword L (rr_Password q) = Some hash"
      "is_ok (snd (Identity_UpdatePassword (r_flt r) (r_now r) idn hash (d_identities d)))"
    and d': "d_identities d' = fst (Identity_UpdatePassword (r_flt r) (r_now r) idn hash (d_identities d))"
      "d_codes d' = fst (Invite_MarkUsed (r_flt r) (r_now r) tid (d_codes d))"
      "d_sessions d' = fst (Session_RevokeByIdentity (r_flt r) (r_now r) idn ''password_reset'' (d_sessions d))"
    by auto
  have q4: "HasVerifiedTOTP (r_flt r) idn (d_totp d) = Inr True \<longrightarrow>
      Totp_ValidateCode (l_totp L) (r_flt r) idn (rr_TOTPCode q) (d_totp d) = Inr True"
    using q(3,4) by auto
  have "\<forall>i \<in> set (d_identities d'). i_ID i = idn \<longrightarrow> i_PasswordHash i = Some hash"
    using h(2) unfolding d'(1)
    by (auto simp: Identity_UpdatePassword_def identity_set_def sql_simps ball_sql_update split: if_splits)
  moreover have "\<forall>hs flt now tok x. ValidatePasswordReset hs flt now tok (d_codes d') \<noteq> Inr (tid, x)"
    if "\<not> r_flt r ''invite.MarkUsed'' 0"
  proof -
    have "snd (Invite_MarkUsed (r_flt r) (r_now r) tid (d_codes d)) = Inr ()"
      using that by (simp add: Invite_MarkUsed_def Code_MarkUsed_def sql_simps)
    from resets.consume_spends [OF this] show ?thesis
      unfolding d'(2) by (intro allI resets.check_spent)
  qed
  moreover have "\<forall>s \<in> set (d_sessions d'). s_IdentityID s = idn \<longrightarrow> \<not> IsValid (r_now r) s"
    if "\<not> r_flt r ''session.RevokeByIdentity'' 0"
    unfolding d'(3) using that
    by (simp add: Session_RevokeByIdentity_def exec_update_def ball_sql_update IsValid_def)
  ultimately show "\<exists>tid idn hash. 8 \<le> length (rr_Password q) \<and> l_HashPassword L (rr_Password q) = Some hash \<and>
      ValidatePasswordReset (l_sha256 L) (r_flt r) (r_now r) (rr_Token q) (d_codes d) = Inr (tid, idn) \<and>
      (HasVerifiedTOTP (r_flt r) idn (d_totp d) = Inr True \<longrightarrow>
         Totp_ValidateCode (l_totp L) (r_flt r) idn (rr_TOTPCode q) (d_totp d) = Inr True) \<and>
      (\<forall>i \<in> set (d_identities d'). i_ID i = idn \<longrightarrow> i_PasswordHash i = Some hash) \<and>
      (\<not> r_flt r ''invite.MarkUsed'' 0 \<longrightarrow>
         (\<forall>hs flt now tok x. ValidatePasswordReset hs flt now tok (d_codes d') \<noteq> Inr (tid, x))) \<and>
      (\<not> r_flt r ''session.RevokeByIdentity'' 0 \<longrightarrow>
         (\<forall>s \<in> set (d_sessions d'). s_IdentityID s = idn \<longrightarrow> \<not> IsValid (r_now r) s))"
    using q(1,2) q4 h(1) by blast
qed

definition reset_db :: db where
  "reset_db = totp_db\<lparr>d_codes := fst (GeneratePasswordReset id no_faults 10 (Some ''tok'') 3 7 [])\<rparr>"

definition demo_reset :: reset_request where
  "demo_reset = \<lparr>rr_Token = ''tok'', rr_Password = ''12345678'', rr_TOTPCode = ''old''\<rparr>"

lemma reset_db_simps [simp]:
  "d_codes reset_db = fst (GeneratePasswordReset id no_faults 10 (Some ''tok'') 3 7 [])"
  "d_totp reset_db = [demo_secret]" "d_identities reset_db = [demo_identity]" "d_sessions reset_db = [waiting_session]"
  by (simp_all add: reset_db_def)

lemma demo_token: "ValidatePasswordReset id no_faults 100 ''tok'' (d_codes reset_db) = Inr (3, 7)"
  by (simp add: GeneratePasswordReset_def issue_code_def sql_simps ValidatePasswordReset_def validate_token_def
      latest_def sql_desc_def resetExpiry_def)

theorem reset_needs_second_factor_witness:
  "\<exists>tid idn. ValidatePasswordReset id no_faults 100 ''tok'' (d_codes reset_db) = Inr (tid, idn) \<and>
     (let d' = snd (run_state (ConfirmPasswordReset demo_libs demo_request (Some demo_reset)) reset_db)
      in ValidatePasswordReset id no_faults 100 ''tok'' (d_codes d') \<noteq> Inr (tid, idn))"
proof -
  let ?run = "run_state (ConfirmPasswordReset demo_libs demo_request (Some demo_reset)) reset_db"
  have "succeeded (fst ?run)"
    using demo_token
    by (simp add: ConfirmPasswordReset_def demo_defs demo_reset_def HasVerifiedTOTP_def Totp_ValidateCode_def
        Totp_GetByIdentity_def query_row_def demo_secret_def set_new_password_def Identity_UpdatePassword_def
        identity_set_def sql_simps sql_affected_def del: reset_db_simps(1))
  with reset_needs_second_factor [of demo_libs demo_request demo_reset reset_db "fst ?run" "snd ?run"]
  show ?thesis by (simp add: demo_defs demo_reset_def Let_def del: reset_db_simps(1)) blast
qed

subsection \<open>Invites\<close>

lemma Invite_Accept_ok:
  assumes "run_state (Invite_Accept L r (Some q)) d = (resp, d')" "succeeded resp"
  shows "\<exists>c ident csrf t. Invite_Validate (l_sha256 L) (r_flt r) (r_now r) (aq_Token q) (d_codes d) = Inr c \<and>
    Identity_GetByID (r_flt r) (c_IdentityID c) (d_identities d) = Inr ident \<and> \<not> i_Activated ident \<and> \<not> IsSuspended ident \<and>
    snd (Identity_Activate (r_flt r) (r_now r) (i_ID ident) t) = Inr () \<and>
    d_identities d' = fst (Identity_Activate (r_flt r) (r_now r) (i_ID ident) t) \<and>
    d_sessions d' = d_sessions d @ [session_row (r_fresh r 0) (r_now r) \<lparr>p_IdentityID = i_ID ident, p_State = PreTenant,
       p_IPAddress = r_ip r, p_UserAgent = r_ua r, p_AuthMethod = ''invite'', p_CSRFToken = csrf\<rparr>]"
  using assms
  by (auto simp: Invite_Accept_def Session_Create_def Let_def split: if_splits sum.splits option.splits; blast)

lemma Activate_all:
  "snd (Identity_Activate flt now i t) = Inr () \<Longrightarrow>
     \<forall>r \<in> set (fst (Identity_Activate flt now i t)). i_ID r = i \<longrightarrow> i_Activated r"
  by (auto simp: Identity_Activate_def identity_set_def sql_simps ball_sql_update split: if_splits)

lemma Invite_Accept_activated:
  assumes "Invite_Validate (l_sha256 L) (r_flt r) (r_now r) (aq_Token q) (d_codes d) = Inr c"
    and "\<forall>i \<in> set (d_identities d). i_ID i = c_IdentityID c \<longrightarrow> i_Activated i"
  shows "\<not> succeeded (fst (run_state (Invite_Accept L r (Some q)) d))"
  using assms by (auto simp: Invite_Accept_def dest!: GetByID_ok split: sum.split)

text \<open>An invite is accepted once: an accepted invite found an identity that was neither active
  nor suspended, makes it active, and adds one session, already past the second-factor step
  and without any second factor; and whatever became of the token, every later acceptance with
  a token of that identity is turned away.\<close>

theorem invite_accepted_once:
  assumes run: "run_state (Invite_Accept L r (Some q)) d = (resp, d')" and ok: "succeeded resp"
  shows "\<exists>c s. Invite_Validate (l_sha256 L) (r_flt r) (r_now r) (aq_Token q) (d_codes d) = Inr c \<and>
    (\<exists>i \<in> set (d_identities d). i_ID i = c_IdentityID c \<and> \<not> i_Activated i \<and> \<not> IsSuspended i) \<and>
    d_sessions d' = d_sessions d @ [s] \<and> s_IdentityID s = c_IdentityID c \<and> s_State s = PreTenant \<and> s_SecondFactor s = None \<and>
    (\<forall>i \<in> set (d_identities d'). i_ID i = c_IdentityID c \<longrightarrow> i_Activated i) \<and>
    (\<forall>(L2 :: libs) (r2 :: request) (q2 :: accept_request) c2. Invite_Validate (l_sha256 L2) (r_flt r2) (r_now r2) (aq_Token q2) (d_codes d') = Inr c2 \<longrightarrow>
       c_IdentityID c2 = c_IdentityID c \<longrightarrow>
       \<not> succeeded (fst (run_state (Invite_Accept L2 r2 (Some q2)) d')))"
proof -
  from Invite_Accept_ok [OF run ok] obtain c ident csrf t where
    c: "Invite_Validate (l_sha256 L) (r_flt r) (r_now r) (aq_Token q) (d_codes d) = Inr c"
    and ident: "Identity_GetByID (r_flt r) (c_IdentityID c) (d_identities d) = Inr ident"
      "\<not> i_Activated ident" "\<not> IsSuspended ident"
    and act: "snd (Identity_Activate (r_flt r) (r_now r) (i_ID ident) t) = Inr ()"
      "d_identities d' = fst (Identity_Activate (r_flt r) (r_now r) (i_ID ident) t)"
    and sess: "d_sessions d' = d_sessions d @ [session_row (r_fresh r 0) (r_now r) \<lparr>p_IdentityID = i_ID ident,
       p_State = PreTenant, p_IPAddress = r_ip r, p_UserAgent = r_ua r, p_AuthMethod = ''invite'', p_CSRFToken = csrf\<rparr>]"
    by blast
  from GetByID_ok [OF ident(1)] have id: "ident \<in> set (d_identities d)" "i_ID ident = c_IdentityID c" by simp_all
  have all: "\<forall>i \<in> set (d_identities d'). i_ID i = c_IdentityID c \<longrightarrow> i_Activated i"
    unfolding act(2) using Activate_all [OF act(1)] id(2) by simp
  show ?thesis
  proof (intro exI conjI allI impI)
    show "d_sessions d' = d_sessions d @ [session_row (r_fresh r 0) (r_now r) \<lparr>p_IdentityID = i_ID ident,
       p_State = PreTenant, p_IPAddress = r_ip r, p_UserAgent = r_ua r, p_AuthMethod = ''invite'', p_CSRFToken = csrf\<rparr>]"
      by (rule sess)
  next
    fix L2 :: libs and r2 :: request and q2 :: accept_request and c2
    assume v: "Invite_Validate (l_sha256 L2) (r_flt r2) (r_now r2) (aq_Token q2) (d_codes d') = Inr c2"
      and "c_IdentityID c2 = c_IdentityID c"
    with all have "\<forall>i \<in> set (d_identities d'). i_ID i = c_IdentityID c2 \<longrightarrow> i_Activated i" by simp
    with v show "\<not> succeeded (fst (run_state (Invite_Accept L2 r2 (Some q2)) d'))"
      by (rule Invite_Accept_activated)
  qed (use c ident id all in \<open>auto simp: session_row_def\<close>)
qed

definition invite_db :: db where
  "invite_db = demo_db\<lparr>d_identities := [demo_identity\<lparr>i_Activated := False\<rparr>],
     d_codes := fst (Invite_Generate id no_faults 10 (Some ''tok'') 3 7 [])\<rparr>"

theorem invite_accepted_once_witness:
  "\<exists>s. d_sessions (snd (run_state (Invite_Accept demo_libs demo_request
        (Some \<lparr>aq_Token = ''tok'', aq_Password = ''12345678'', aq_Name = []\<rparr>)) invite_db)) = d_sessions invite_db @ [s] \<and>
     s_State s = PreTenant"
proof -
  let ?run = "run_state (Invite_Accept demo_libs demo_request
        (Some \<lparr>aq_Token = ''tok'', aq_Password = ''12345678'', aq_Name = []\<rparr>)) invite_db"
  have "succeeded (fst ?run)"
    by (simp add: Invite_Accept_def invite_db_def Invite_Generate_def issue_code_def sql_simps Invite_Validate_def
        validate_token_def latest_def sql_desc_def tokenExpiry_def demo_defs Identity_GetByID_def IsSuspended_def
        Identity_UpdatePassword_def Identity_Activate_def identity_set_def sql_affected_def Session_Create_def Let_def)
  from invite_accepted_once [OF prod.collapse [symmetric] this] show ?thesis by auto
qed

end
