(* ===== verification/Auth_System.thy ===== *)
theory Auth_System
  imports Auth_Properties
begin

text \<open>
  The authentication part of the server as a transition system: the routes of
  \<^verbatim>\<open>router.go\<close> (middleware chain and handler) on one database, interleaved with the
  statements of the administration panel and the cron job, and the invariants of every
  reachable database.
\<close>

subsection \<open>Routes\<close>

text \<open>What a client sends beside path and body.\<close>

record wire =
  w_cookie :: "string option"
  w_csrf :: string

definition auth_gates :: "sstate list \<Rightarrow> bool \<Rightarrow> string \<Rightarrow> string \<Rightarrow> session \<Rightarrow> unit mw" where
  "auth_gates states csrf verb header sess =
     mw_bind (RequireState states (Some sess))
       (\<lambda>_. if csrf then CSRFMiddleware verb header (Some sess) else Next ())"

definition guarded ::
  "libs \<Rightarrow> request \<Rightarrow> wire \<Rightarrow> (session \<Rightarrow> unit mw) \<Rightarrow> (request \<Rightarrow> (db, 'b response) state) \<Rightarrow> (db, 'b response) state" where
  "guarded L r w gates h = do {
     m \<leftarrow> on_sessions (RequireSession Session_GetValid Session_TouchLastActive Session_Revoke
            (l_uuid L) (r_flt r) (r_now r) (w_cookie w));
     (case m of AbortWith c e \<Rightarrow> reply (Abort c e)
      | Next sess \<Rightarrow> (case gates sess of AbortWith c e \<Rightarrow> reply (Abort c e)
          | Next _ \<Rightarrow> h (r\<lparr>r_session := Some sess\<rparr>)))
   }"

definition limited :: "request \<Rightarrow> nat \<Rightarrow> time \<Rightarrow> (db, 'b response) state \<Rightarrow> (db, 'b response) state" where
  "limited r k window h = do {
     ok \<leftarrow> asks (\<lambda>d. RateLimiter_Allow (Some CountRecentByIP) k window (r_flt r) (r_now r) (r_ip r) (d_audit d));
     (if ok then h else reply (Abort StatusTooManyRequests (Msg ''too many requests, please try again later'')))
   }"

datatype auth_call =
    CallLogin "login_request option"
  | CallAccept "accept_request option"
  | CallResetRequest "string option" "string option"
  | CallResetConfirm "reset_request option"
  | CallTotpVerify "string option"
  | CallEmailVerify "string option"
  | CallSelectTenant "uuid option"
  | CallSelectAdmin
  | CallEnroll "string \<Rightarrow> (string \<times> string) option"
  | CallConfirmEnroll "string option"
  | CallLogout
  | CallSwitchContext
  | CallRevokeSession string
  | CallRevokeOthers
  | CallTotpRemove
  | CallMe
  | CallListTenants
  | CallListSessions

text \<open>\<^verbatim>\<open>NewRateLimiter(auditStore, 15, 15*time.Minute)\<close> guards the public group.\<close>

definition serve :: "libs \<Rightarrow> request \<Rightarrow> wire \<Rightarrow> auth_call \<Rightarrow> db \<Rightarrow> db" where
  "serve L r w call d = (case call of
     CallLogin q \<Rightarrow> snd (run_state (limited r 15 (15 * minute) (Login L r q)) d)
   | CallAccept q \<Rightarrow> snd (run_state (limited r 15 (15 * minute) (Invite_Accept L r q)) d)
   | CallResetRequest raw q \<Rightarrow> snd (run_state (limited r 15 (15 * minute) (RequestPasswordReset L r raw q)) d)
   | CallResetConfirm q \<Rightarrow> snd (run_state (limited r 15 (15 * minute) (ConfirmPasswordReset L r q)) d)
   | CallTotpVerify q \<Rightarrow>
       snd (run_state (guarded L r w (auth_gates [Pre_Auth] False ''POST'' (w_csrf w)) (\<lambda>r. Totp_VerifyHandler L r q)) d)
   | CallEmailVerify q \<Rightarrow>
       snd (run_state (guarded L r w (auth_gates [Pre_Auth] False ''POST'' (w_csrf w)) (\<lambda>r. EmailCode_VerifyHandler L r q)) d)
   | CallSelectTenant q \<Rightarrow>
       snd (run_state (guarded L r w (auth_gates [PreTenant] True ''POST'' (w_csrf w)) (\<lambda>r. SelectTenant r q)) d)
   | CallSelectAdmin \<Rightarrow>
       snd (run_state (guarded L r w (auth_gates [PreTenant] True ''POST'' (w_csrf w)) SelectAdmin) d)
   | CallEnroll gen \<Rightarrow>
       snd (run_state (guarded L r w (auth_gates [Setup2FA, Authenticated] True ''POST'' (w_csrf w)) (Totp_Enroll gen)) d)
   | CallConfirmEnroll q \<Rightarrow>
       snd (run_state (guarded L r w (auth_gates [Setup2FA, Authenticated] True ''POST'' (w_csrf w)) (\<lambda>r. Totp_ConfirmEnroll L r q)) d)
   | CallLogout \<Rightarrow>
       snd (run_state (guarded L r w (auth_gates [Authenticated] True ''POST'' (w_csrf w)) Logout) d)
   | CallSwitchContext \<Rightarrow>
       snd (run_state (guarded L r w (auth_gates [Authenticated] True ''POST'' (w_csrf w)) SwitchContext) d)
   | CallRevokeSession i \<Rightarrow>
       snd (run_state (guarded L r w (auth_gates [Authenticated] True ''DELETE'' (w_csrf w)) (\<lambda>r. RevokeSession L r i)) d)
   | CallRevokeOthers \<Rightarrow>
       snd (run_state (guarded L r w (auth_gates [Authenticated] True ''DELETE'' (w_csrf w)) RevokeAllOtherSessions) d)
   | CallTotpRemove \<Rightarrow>
       snd (run_state (guarded L r w (auth_gates [Authenticated] True ''DELETE'' (w_csrf w)) Totp_Remove) d)
   | CallMe \<Rightarrow> snd (run_state (guarded L r w (\<lambda>_. Next ()) (Me L)) d)
   | CallListTenants \<Rightarrow> snd (run_state (guarded L r w (auth_gates [PreTenant] False ''GET'' (w_csrf w)) (ListTenants L)) d)
   | CallListSessions \<Rightarrow> snd (run_state (guarded L r w (auth_gates [Authenticated] True ''GET'' (w_csrf w)) ListSessions) d))"

subsection \<open>Steps and reachable databases\<close>

text \<open>Beside the routes: the cron job; logins by passkey, SAML and OIDC, which create sessions
  of their own methods; and the store operations behind the administration panel.\<close>

inductive auth_step :: "libs \<Rightarrow> db \<Rightarrow> db \<Rightarrow> bool" for L where
  step_call: "r_fresh r 0 \<notin> s_ID ` set (d_sessions d) \<Longrightarrow> auth_step L d (serve L r w call d)"
| step_cleanup: "auth_step L d (d\<lparr>d_sessions := fst (Session_CleanupExpired flt now (d_sessions d))\<rparr>)"
| step_other_login: "p_AuthMethod p \<noteq> ''password'' \<Longrightarrow> p_State p \<noteq> Authenticated \<Longrightarrow>
    i \<notin> s_ID ` set (d_sessions d) \<Longrightarrow>
    auth_step L d (d\<lparr>d_sessions := fst (Session_Create flt now i p (d_sessions d))\<rparr>)"
| step_passkey_factor: "auth_step L d (d\<lparr>d_sessions := fst (Session_SetSecondFactor flt now i ''passkey'' (d_sessions d))\<rparr>)"
| step_revoke_others: "auth_step L d (d\<lparr>d_sessions := fst (Session_RevokeByIdentityExcept flt now i j why (d_sessions d))\<rparr>)"
| step_identities: "map i_ID t = map i_ID (d_identities d) \<Longrightarrow> auth_step L d (d\<lparr>d_identities := t\<rparr>)"
| step_new_identity: "auth_step L d (d\<lparr>d_identities := fst (Identity_Create lower flt now i e n pw (d_identities d))\<rparr>)"
| step_delete_identity: "auth_step L d (fst (Identity_Delete flt i d))"
| step_revoke: "auth_step L d (d\<lparr>d_sessions := fst (Session_Revoke flt now i by why (d_sessions d))\<rparr>)"
| step_revoke_tenant: "auth_step L d (d\<lparr>d_sessions := fst (Session_RevokeByTenant flt now t why (d_sessions d))\<rparr>)"
| step_revoke_identity: "auth_step L d (d\<lparr>d_sessions := fst (Session_RevokeByIdentity flt now i why (d_sessions d))\<rparr>)"
| step_update_suborg: "auth_step L d (d\<lparr>d_sessions := fst (Session_UpdateSubOrg flt now u so (d_sessions d))\<rparr>)"
| step_tenant: "auth_step L d (fst (on_tenants flt q m now P f d))"
| step_new_tenant: "auth_step L d (fst (Auth_CreateTenant flt now i so n d))"
| step_add_member: "i \<notin> u_ID ` set (d_users d) \<Longrightarrow> auth_step L d (fst (AddIdentityToTenant flt now i idn t role d))"
| step_member_role: "auth_step L d (fst (UpdateMemberRole flt now u t role d))"
| step_remove_member: "auth_step L d (fst (RemoveMember flt u t d))"
| step_set_suborg: "auth_step L d (fst (SubOrg_SetUserSubOrg flt t u so d))"
| step_delete_suborg: "auth_step L d (fst (SubOrg_Delete cf flt t so d))"
| step_primary_fso: "auth_step L d (fst (SubOrg_SetPrimaryFSO flt now t so u d))"

inductive auth_reachable :: "libs \<Rightarrow> db \<Rightarrow> bool" for L where
  reach_init: "d_sessions d = [] \<Longrightarrow> keyed u_ID (d_users d) \<Longrightarrow> auth_reachable L d"
| reach_step: "auth_reachable L d \<Longrightarrow> auth_step L d d' \<Longrightarrow> auth_reachable L d'"

subsection \<open>The invariant\<close>

definition second_factor_done :: "session \<Rightarrow> bool" where
  "second_factor_done s = (s_SecondFactor s \<noteq> None \<or> s_AuthMethod s \<noteq> ''password'')"

definition membership_of :: "user list \<Rightarrow> session \<Rightarrow> bool" where
  "membership_of us s = (case (s_TenantID s, s_UserID s) of
     (None, None) \<Rightarrow> True
   | (Some t, Some u) \<Rightarrow> list_ex (\<lambda>x. u_ID x = u \<and> u_TenantID x = t \<and> u_IdentityID x = s_IdentityID s) us
   | _ \<Rightarrow> False)"

definition sess_ok :: "user list \<Rightarrow> session \<Rightarrow> bool" where
  "sess_ok us s =
     ((PreTenant \<le> s_State s \<longrightarrow> second_factor_done s) \<and>
      (s_State s < PreTenant \<longrightarrow> s_ExpiresAt s = s_CreatedAt s + preAuthSessionDuration) \<and>
      (s_State s = Authenticated \<longrightarrow> s_IsSuperAdmin s \<or> s_TenantID s \<noteq> None) \<and>
      membership_of us s)"

definition auth_inv :: "db \<Rightarrow> bool" where
  "auth_inv d = (keyed s_ID (d_sessions d) \<and> keyed u_ID (d_users d) \<and> (\<forall>s \<in> set (d_sessions d). sess_ok (d_users d) s))"

lemma auth_inv_frame [simp]:
  "auth_inv (d\<lparr>d_audit := x1\<rparr>) = auth_inv d" "auth_inv (d\<lparr>d_codes := x2\<rparr>) = auth_inv d"
  "auth_inv (d\<lparr>d_totp := x3\<rparr>) = auth_inv d" "auth_inv (d\<lparr>d_identities := x4\<rparr>) = auth_inv d"
  "auth_inv (d\<lparr>d_outbox := x5\<rparr>) = auth_inv d" "auth_inv (d\<lparr>d_tenants := x6\<rparr>) = auth_inv d"
  "auth_inv (d\<lparr>d_suborgs := x7\<rparr>) = auth_inv d" "auth_inv (d\<lparr>d_members := x8\<rparr>) = auth_inv d"
  by (simp_all add: auth_inv_def)

text \<open>Updates of the session table.\<close>

lemma auth_inv_update:
  assumes "auth_inv d" "\<And>s. s_ID (f s) = s_ID s"
    and "\<And>s. s \<in> set (d_sessions d) \<Longrightarrow> P s \<Longrightarrow> sess_ok (d_users d) s \<Longrightarrow> sess_ok (d_users d) (f s)"
  shows "auth_inv (d\<lparr>d_sessions := sql_update P f (d_sessions d)\<rparr>)"
  using assms by (simp add: auth_inv_def keyed_update ball_sql_update)

lemma auth_inv_exec_update:
  assumes "auth_inv d" "\<And>s. s_ID (f s) = s_ID s"
    and "\<And>s. s \<in> set (d_sessions d) \<Longrightarrow> P s \<Longrightarrow> sess_ok (d_users d) s \<Longrightarrow> sess_ok (d_users d) (f s)"
  shows "auth_inv (d\<lparr>d_sessions := fst (exec_update flt q P f (d_sessions d))\<rparr>)"
  using auth_inv_update [OF assms] assms(1) by (simp add: fst_exec_update)

text \<open>Fields the invariant does not read.\<close>

lemma sess_ok_frame [simp]:
  "sess_ok us (s\<lparr>s_LastActiveAt := x1\<rparr>) = sess_ok us s"
  "sess_ok us (s\<lparr>s_RevokedAt := x2\<rparr>) = sess_ok us s"
  "sess_ok us (s\<lparr>s_RevokedBy := x3\<rparr>) = sess_ok us s"
  "sess_ok us (s\<lparr>s_RevokeReason := x4\<rparr>) = sess_ok us s"
  "sess_ok us (s\<lparr>s_SubOrgID := x5\<rparr>) = sess_ok us s"
  by (simp_all add: sess_ok_def second_factor_done_def membership_of_def split: option.split)

lemma auth_inv_revokes:
  "auth_inv d \<Longrightarrow> auth_inv (d\<lparr>d_sessions := fst (Session_Revoke flt now i by why (d_sessions d))\<rparr>)"
  "auth_inv d \<Longrightarrow> auth_inv (d\<lparr>d_sessions := fst (Session_TouchLastActive flt now i (d_sessions d))\<rparr>)"
  "auth_inv d \<Longrightarrow> auth_inv (d\<lparr>d_sessions := fst (Session_RevokeByTenant flt now t why (d_sessions d))\<rparr>)"
  "auth_inv d \<Longrightarrow> auth_inv (d\<lparr>d_sessions := fst (Session_RevokeByIdentity flt now i why (d_sessions d))\<rparr>)"
  "auth_inv d \<Longrightarrow> auth_inv (d\<lparr>d_sessions := fst (Session_RevokeByIdentityExcept flt now i j why (d_sessions d))\<rparr>)"
  "auth_inv d \<Longrightarrow> auth_inv (d\<lparr>d_sessions := fst (Session_UpdateSubOrg flt now u so (d_sessions d))\<rparr>)"
  by (simp_all add: store_defs auth_inv_exec_update)

lemma auth_inv_create:
  assumes "auth_inv d" "i \<notin> s_ID ` set (d_sessions d)" "PreTenant \<le> p_State p \<longrightarrow> p_AuthMethod p \<noteq> ''password''"
    "p_State p \<noteq> Authenticated"
  shows "auth_inv (d\<lparr>d_sessions := fst (Session_Create flt now i p (d_sessions d))\<rparr>)"
proof -
  have "sess_ok (d_users d) (session_row i now p)"
    using assms(3,4)
    by (cases "p_State p") (auto simp: sess_ok_def session_row_def second_factor_done_def membership_of_def
        less_sstate_def less_eq_sstate_def)
  then show ?thesis
    using assms(1,2) by (simp add: auth_inv_def Session_Create_def Let_def keyed_insert session_row_def)
qed

lemma auth_inv_cleanup:
  assumes "auth_inv d"
  shows "auth_inv (d\<lparr>d_sessions := fst (Session_CleanupExpired flt now (d_sessions d))\<rparr>)"
proof -
  let ?t1 = "fst (exec_update flt ''session.CleanupExpired.revoke''
         (\<lambda>s. s_RevokedAt s = None \<and> s_ExpiresAt s < now)
         (\<lambda>s. s\<lparr>s_RevokedAt := Some now, s_RevokeReason := Some ''expired''\<rparr>) (d_sessions d))"
  have t1: "auth_inv (d\<lparr>d_sessions := ?t1\<rparr>)"
    using assms by (rule auth_inv_exec_update) simp_all
  then have "auth_inv (d\<lparr>d_sessions := sql_delete P ?t1\<rparr>)" for P
    by (simp add: auth_inv_def keyed_delete)
  with t1 CleanupExpired_fst [of flt now "d_sessions d"] assms show ?thesis
    by (auto simp: fst_exec_delete)
qed

subsection \<open>Users, identities, sub-organizations\<close>

lemma sess_ok_mono:
  assumes "sess_ok us s"
    and "\<And>x. x \<in> set us \<Longrightarrow> s_UserID s = Some (u_ID x) \<Longrightarrow>
      \<exists>y \<in> set us'. u_ID y = u_ID x \<and> u_TenantID y = u_TenantID x \<and> u_IdentityID y = u_IdentityID x"
  shows "sess_ok us' s"
  using assms by (fastforce simp: sess_ok_def membership_of_def list_ex_iff split: option.splits)

lemma auth_inv_delete_users:
  assumes "auth_inv d"
  shows "auth_inv (delete_users P d)"
proof -
  let ?us = "d_users (delete_users P d)"
  have "sess_ok ?us s" if s: "s \<in> set (d_sessions (delete_users P d))" for s
  proof (rule sess_ok_mono [where us = "d_users d"])
    show "sess_ok (d_users d) s" using assms s by (simp add: auth_inv_def delete_users_sessions)
    show "\<exists>y \<in> set ?us. u_ID y = u_ID x \<and> u_TenantID y = u_TenantID x \<and> u_IdentityID y = u_IdentityID x"
      if "x \<in> set (d_users d)" "s_UserID s = Some (u_ID x)" for x
      using that s by (intro bexI [of _ x]) (auto simp: delete_users_sessions)
  qed
  moreover have "keyed s_ID (d_sessions (delete_users P d))"
    using assms by (simp add: auth_inv_def delete_users_def Let_def keyed_delete)
  ultimately show ?thesis using assms by (simp add: auth_inv_def keyed_delete)
qed

lemma auth_inv_sessions_map:
  assumes "auth_inv d" "\<And>s. s_ID (f s) = s_ID s" "\<And>us s. sess_ok us (f s) = sess_ok us s"
  shows "auth_inv (d\<lparr>d_sessions := map f (d_sessions d)\<rparr>)"
  using assms by (simp add: auth_inv_def keyed_def comp_def)

lemma auth_inv_delete_sessions: "auth_inv d \<Longrightarrow> auth_inv (delete_sessions P d)"
  by (simp add: delete_sessions_def Let_def) (simp add: auth_inv_def keyed_delete)

lemma auth_inv_other_tables [simp]:
  "auth_inv (d\<lparr>d_passkeys := x1\<rparr>) = auth_inv d" "auth_inv (d\<lparr>d_tasks := x2\<rparr>) = auth_inv d"
  "auth_inv (d\<lparr>d_action_items := x3\<rparr>) = auth_inv d" "auth_inv (d\<lparr>d_completions := x4\<rparr>) = auth_inv d"
  by (simp_all add: auth_inv_def)

lemma auth_inv_delete_identity:
  assumes "auth_inv d"
  shows "auth_inv (delete_identity i d)"
proof -
  let ?d = "delete_sessions (\<lambda>s. s_IdentityID s = i) (delete_users (\<lambda>u. u_IdentityID u = i) d)"
  have "auth_inv ?d" using assms by (intro auth_inv_delete_sessions auth_inv_delete_users)
  then have "auth_inv (?d\<lparr>d_sessions := map (\<lambda>s. s\<lparr>s_RevokedBy := forget [i] (s_RevokedBy s)\<rparr>) (d_sessions ?d)\<rparr>)"
    by (rule auth_inv_sessions_map) simp_all
  then show ?thesis unfolding delete_identity_def Let_def by (simp add: auth_inv_def)
qed

lemma auth_inv_delete_suborgs:
  assumes "auth_inv d"
  shows "auth_inv (delete_suborgs P d)"
proof -
  have "auth_inv (d\<lparr>d_sessions := map (\<lambda>s. s\<lparr>s_SubOrgID := forget xs (s_SubOrgID s)\<rparr>) (d_sessions d)\<rparr>)" for xs
    using assms by (rule auth_inv_sessions_map) simp_all
  then show ?thesis unfolding delete_suborgs_def Let_def by (simp add: auth_inv_def)
qed

lemma auth_inv_directory:
  assumes "auth_inv d"
  shows "auth_inv (fst (Identity_Delete flt i d))" "auth_inv (fst (SubOrg_SetPrimaryFSO flt now t so uo d))"
    "auth_inv (fst (on_tenants flt q m now P f d))" "auth_inv (fst (Auth_CreateTenant flt now i so n d))"
    "auth_inv (fst (SubOrg_SetUserSubOrg flt t u so d))"
  using assms
  by (simp_all add: Identity_Delete_def auth_inv_delete_identity SubOrg_SetPrimaryFSO_def on_tenants_def
      Auth_CreateTenant_def SubOrg_SetUserSubOrg_def Let_def case_prod_beta)

lemma auth_inv_remove_member:
  assumes "auth_inv d"
  shows "auth_inv (fst (RemoveMember flt u t d))"
proof -
  have "auth_inv (fst (remove_orphan flt i d'))" if "auth_inv d'" for i d'
    using that by (simp add: remove_orphan_def auth_inv_delete_identity split: option.split)
  then show ?thesis using assms
    by (simp add: RemoveMember_def Let_def auth_inv_delete_users split: option.split)
qed

lemma auth_inv_suborg_delete: "auth_inv d \<Longrightarrow> auth_inv (fst (SubOrg_Delete cf flt t so d))"
  by (simp add: SubOrg_Delete_def Let_def auth_inv_delete_suborgs split: option.split)

lemma auth_inv_member_role:
  assumes "auth_inv d"
  shows "auth_inv (fst (UpdateMemberRole flt now u t role d))"
proof -
  let ?f = "\<lambda>x. x\<lparr>u_Role := role, u_UpdatedAt := now\<rparr>"
  have row: "\<exists>y \<in> set (sql_update Q ?f us). u_ID y = u_ID x \<and> u_TenantID y = u_TenantID x \<and> u_IdentityID y = u_IdentityID x"
    if "x \<in> set us" for x us Q
    using that unfolding bex_sql_update by (intro bexI [of _ x]) simp_all
  have "sess_ok (sql_update Q ?f (d_users d)) s" if "s \<in> set (d_sessions d)" for s Q
  proof (rule sess_ok_mono)
    show "sess_ok (d_users d) s" using assms that by (simp add: auth_inv_def)
  qed (rule row)
  with assms have "auth_inv (d\<lparr>d_users := sql_update Q ?f (d_users d)\<rparr>)" for Q
    by (simp add: auth_inv_def keyed_update)
  with assms show ?thesis
    by (simp add: UpdateMemberRole_def Let_def case_prod_beta fst_exec_update)
qed

lemma auth_inv_add_member:
  assumes "auth_inv d" "i \<notin> u_ID ` set (d_users d)"
  shows "auth_inv (fst (AddIdentityToTenant flt now i idn t role d))"
proof -
  have "sess_ok (d_users d @ [x]) s" if "s \<in> set (d_sessions d)" for s x
  proof (rule sess_ok_mono)
    show "sess_ok (d_users d) s" using assms that by (simp add: auth_inv_def)
    show "\<exists>z \<in> set (d_users d @ [x]). u_ID z = u_ID y \<and> u_TenantID z = u_TenantID y \<and> u_IdentityID z = u_IdentityID y"
      if "y \<in> set (d_users d)" for y using that by (intro bexI [of _ y]) simp_all
  qed
  with assms show ?thesis by (simp add: AddIdentityToTenant_def auth_inv_def keyed_insert)
qed

subsection \<open>Handlers\<close>

lemma auth_inv_cong: "d_sessions d' = d_sessions d \<Longrightarrow> d_users d' = d_users d \<Longrightarrow> auth_inv d' = auth_inv d"
  by (simp add: auth_inv_def)

lemma membership_of_frame [simp]:
  "membership_of us (s\<lparr>s_State := x1\<rparr>) = membership_of us s"
  "membership_of us (s\<lparr>s_SecondFactor := x2\<rparr>) = membership_of us s"
  "membership_of us (s\<lparr>s_ExpiresAt := x3\<rparr>) = membership_of us s"
  "membership_of us (s\<lparr>s_IsSuperAdmin := x4\<rparr>) = membership_of us s"
  "membership_of us (s\<lparr>s_SubOrgID := x5\<rparr>) = membership_of us s"
  "membership_of us (s\<lparr>s_UserRole := x6\<rparr>) = membership_of us s"
  by (simp_all add: membership_of_def split: option.split)

lemma auth_inv_second_factor:
  "auth_inv d \<Longrightarrow> auth_inv (d\<lparr>d_sessions := fst (Session_SetSecondFactor flt now i f (d_sessions d))\<rparr>)"
  unfolding Session_SetSecondFactor_def fst_done_any
  by (rule auth_inv_exec_update)
    (simp_all add: sess_ok_def second_factor_done_def)

lemma auth_frame:
  "keeps_inv auth_inv (audit_log r n a i s t m)"
  "keeps_inv auth_inv (notify ns)"
  "keeps_inv auth_inv (on_identities f1)"
  "keeps_inv auth_inv (on_codes f2)"
  "keeps_inv auth_inv (on_totp f3)"
  by (simp_all add: keeps_tables)

lemma auth_session_ops:
  "keeps_inv auth_inv (on_sessions (Session_Revoke flt now i by why))"
  "keeps_inv auth_inv (on_sessions (Session_RevokeByIdentity flt now i why))"
  "keeps_inv auth_inv (on_sessions (Session_RevokeByIdentityExcept flt now i j why))"
  "keeps_inv auth_inv (on_sessions (Session_SetSecondFactor flt now i f))"
  by (simp_all add: keeps_on_sessions auth_inv_revokes auth_inv_second_factor)

lemma auth_keeps:
  "keeps_inv auth_inv (RequestPasswordReset L r raw q)"
  "keeps_inv auth_inv (ConfirmPasswordReset L r q2)"
  "keeps_inv auth_inv (Totp_VerifyHandler L r q3)"
  "keeps_inv auth_inv (EmailCode_VerifyHandler L r q4)"
  "keeps_inv auth_inv (Totp_Enroll gen r)"
  "keeps_inv auth_inv (Totp_ConfirmEnroll L r q5)"
  "keeps_inv auth_inv (Logout r)"
  "keeps_inv auth_inv (RevokeSession L r i)"
  "keeps_inv auth_inv (RevokeAllOtherSessions r)"
  "keeps_inv auth_inv (Totp_Remove r)"
  "keeps_inv auth_inv (Me L r)"
  "keeps_inv auth_inv (ListTenants L r)"
  "keeps_inv auth_inv (ListSessions r)"
  unfolding http_defs set_new_password_def
  by (intro frame_rules auth_frame auth_session_ops)+

text \<open>The database a guarded handler runs on: the session of its context has a row with the
  same id, identity and state.\<close>

definition serving :: "session \<Rightarrow> db \<Rightarrow> bool" where
  "serving sess d = (auth_inv d \<and> (\<exists>s \<in> set (d_sessions d).
     s_ID s = s_ID sess \<and> s_IdentityID s = s_IdentityID sess \<and> s_State s = s_State sess))"

lemma serving_row:
  assumes "serving sess d" "s \<in> set (d_sessions d)" "s_ID s = s_ID sess"
  shows "s_IdentityID s = s_IdentityID sess \<and> s_State s = s_State sess \<and> sess_ok (d_users d) s"
proof -
  from assms(1) obtain s0 where s0: "s0 \<in> set (d_sessions d)" "s_ID s0 = s_ID sess"
      "s_IdentityID s0 = s_IdentityID sess" "s_State s0 = s_State sess" "auth_inv d"
    by (auto simp: serving_def)
  then have "s = s0" using assms(2,3) keyed_unique [of s_ID "d_sessions d" s s0] by (simp add: auth_inv_def)
  with s0 show ?thesis by (simp add: auth_inv_def)
qed

lemma serving_update:
  assumes "serving sess d" "\<And>s. s_ID (f s) = s_ID s"
    and "\<And>s. s_IdentityID s = s_IdentityID sess \<Longrightarrow> s_State s = s_State sess \<Longrightarrow> sess_ok (d_users d) s \<Longrightarrow> sess_ok (d_users d) (f s)"
  shows "auth_inv (d\<lparr>d_sessions := fst (exec_update flt q (\<lambda>s. s_ID s = s_ID sess) f (d_sessions d))\<rparr>)"
proof (rule auth_inv_exec_update)
  show "auth_inv d" using assms(1) by (simp add: serving_def)
  show "sess_ok (d_users d) (f s)" if "s \<in> set (d_sessions d)" "s_ID s = s_ID sess" for s
    using serving_row [OF assms(1) that] assms(3) by blast
qed (rule assms(2))

lemma SwitchContext_keeps:
  assumes "serving sess d" "s_State sess = Authenticated"
  shows "auth_inv (snd (run_state (SwitchContext (r\<lparr>r_session := Some sess\<rparr>)) d))"
proof -
  have "auth_inv (d\<lparr>d_sessions := fst (Session_ResetContext flt (s_ID sess) (d_sessions d))\<rparr>)" for flt
    unfolding Session_ResetContext_def fst_done_any
    using assms(1) by (rule serving_update)
      (use assms(2) in \<open>auto simp: sess_ok_def second_factor_done_def membership_of_def past_second_factor less_sstate_def\<close>)
  then show ?thesis by (simp add: SwitchContext_def split: sum.split)
qed

lemma SelectAdmin_keeps:
  assumes "serving sess d" "s_State sess = PreTenant"
  shows "auth_inv (snd (run_state (SelectAdmin (r\<lparr>r_session := Some sess\<rparr>)) d))"
proof -
  have "auth_inv (d\<lparr>d_sessions := fst (Session_SetSuperAdmin flt now (s_ID sess) (d_sessions d))\<rparr>)" for flt now
    unfolding Session_SetSuperAdmin_def fst_done_any
    using assms(1) by (rule serving_update)
      (use assms(2) in \<open>auto simp: sess_ok_def second_factor_done_def past_second_factor less_sstate_def\<close>)
  moreover have "auth_inv d" using assms(1) by (simp add: serving_def)
  ultimately show ?thesis by (simp add: SelectAdmin_def split: sum.split)
qed

lemma GetUserInTenant_ok:
  "GetUserInTenant flt idn t d = Inr u \<Longrightarrow>
     list_ex (\<lambda>x. u_ID x = uw_UserID u \<and> u_TenantID x = t \<and> u_IdentityID x = idn) (d_users d)"
  by (auto simp: GetUserInTenant_def user_tenant_row_def list_ex_iff bind_eq_Some_conv
      dest!: sql_row_Some split: if_splits option.splits)

lemma SelectTenant_keeps:
  assumes "serving sess d" "s_State sess = PreTenant"
  shows "auth_inv (snd (run_state (SelectTenant (r\<lparr>r_session := Some sess\<rparr>) q) d))"
proof -
  have "auth_inv (d\<lparr>d_sessions := fst (Session_SetTenant flt now (s_ID sess) t (uw_UserID u) so ro (d_sessions d))\<rparr>)"
    if "GetUserInTenant flt' (s_IdentityID sess) t d = Inr u" for flt flt' now t u so ro
    unfolding Session_SetTenant_def fst_done_any
    using assms(1) by (rule serving_update)
      (use assms(2) GetUserInTenant_ok [OF that] in
        \<open>auto simp: sess_ok_def second_factor_done_def membership_of_def past_second_factor less_sstate_def\<close>)
  moreover have "auth_inv d" using assms(1) by (simp add: serving_def)
  ultimately show ?thesis by (simp add: SelectTenant_def split: sum.split option.split)
qed

lemma keeps_users:
  "keeps_inv (\<lambda>d. d_users d = us) (Login L r q)"
  "keeps_inv (\<lambda>d. d_users d = us) (Invite_Accept L r q2)"
  unfolding Login_def Invite_Accept_def login_refuse_def
  by (intro frame_rules keeps_tables; simp)+

lemma created_session_ok:
  assumes "auth_inv d" "r_fresh r 0 \<notin> s_ID ` set (d_sessions d)" "d_users d' = d_users d"
    and "d_sessions d' = d_sessions d @ [session_row (r_fresh r 0) now p]"
    and "PreTenant \<le> p_State p \<longrightarrow> p_AuthMethod p \<noteq> ''password''" "p_State p \<noteq> Authenticated"
  shows "auth_inv d'"
  using auth_inv_create [OF assms(1,2,5,6), of no_faults now] assms(3,4)
  by (simp add: auth_inv_def Session_Create_def Let_def)

lemma Login_keeps:
  assumes "auth_inv d" "r_fresh r 0 \<notin> s_ID ` set (d_sessions d)"
  shows "auth_inv (snd (run_state (Login L r q) d))"
proof (cases q)
  case (Some q)
  let ?run = "run_state (Login L r (Some q)) d"
  have us: "d_users (snd ?run) = d_users d" using tripleD [OF keeps_users(1) refl] .
  have "run_state (Login L r (Some q)) d = (fst ?run, snd ?run)" by simp
  then have "auth_inv (snd ?run)"
  proof (cases rule: Login_cases)
    case (accepted ident csrf s)
    show ?thesis by (rule created_session_ok [OF assms us accepted(4) [unfolded accepted(5)]])
        (simp_all add: less_eq_sstate_def)
  qed (use assms(1) us in \<open>simp add: auth_inv_def\<close>)
  with Some show ?thesis by simp
qed (use assms in \<open>simp add: Login_def\<close>)

lemma Invite_Accept_failed:
  "run_state (Invite_Accept L r q) d = (resp, d') \<Longrightarrow> \<not> succeeded resp \<Longrightarrow> d_sessions d' = d_sessions d"
  by (auto simp: Invite_Accept_def Session_Create_def Let_def split: if_splits sum.splits option.splits)

lemma Accept_keeps:
  assumes "auth_inv d" "r_fresh r 0 \<notin> s_ID ` set (d_sessions d)"
  shows "auth_inv (snd (run_state (Invite_Accept L r q) d))"
proof (cases "succeeded (fst (run_state (Invite_Accept L r q) d))")
  case True
  then obtain q' where q: "q = Some q'" by (cases q) (auto simp: Invite_Accept_def)
  have us: "d_users (snd (run_state (Invite_Accept L r q) d)) = d_users d"
    using tripleD [OF keeps_users(2) refl] .
  from Invite_Accept_ok [OF prod.collapse [symmetric] True [unfolded q]] obtain ident :: identity and csrf where
    "d_sessions (snd (run_state (Invite_Accept L r (Some q')) d)) = d_sessions d @ [session_row (r_fresh r 0) (r_now r)
       \<lparr>p_IdentityID = i_ID ident, p_State = PreTenant, p_IPAddress = r_ip r, p_UserAgent = r_ua r,
        p_AuthMethod = ''invite'', p_CSRFToken = csrf\<rparr>]" by blast
  from created_session_ok [OF assms us this [folded q]] show ?thesis by simp
next
  case False
  from Invite_Accept_failed [OF prod.collapse [symmetric] this] tripleD [OF keeps_users(2) refl] assms(1) show ?thesis
    by (simp add: auth_inv_def)
qed

subsection \<open>The middleware around the handlers\<close>

lemma RequireSession_keeps:
  assumes "auth_inv d"
    and req: "RequireSession Session_GetValid Session_TouchLastActive Session_Revoke parse flt now cookie (d_sessions d) = (t, m)"
  shows "auth_inv (d\<lparr>d_sessions := t\<rparr>) \<and> (\<forall>sess. m = Next sess \<longrightarrow> serving sess (d\<lparr>d_sessions := t\<rparr>))"
proof -
  have inv: "auth_inv (d\<lparr>d_sessions := t\<rparr>)"
    using assms auth_inv_revokes(1,2) [OF assms(1)]
    by (auto simp: RequireSession_def split: option.splits sum.splits if_splits)
  moreover have "serving sess (d\<lparr>d_sessions := t\<rparr>)" if "m = Next sess" for sess
  proof -
    from req that obtain sid where "Session_GetValid flt now sid (d_sessions d) = Inr sess"
      and t: "t = d_sessions d \<or> t = fst (Session_TouchLastActive flt now (s_ID sess) (d_sessions d))"
      by (auto simp: RequireSession_def split: option.splits sum.splits if_splits)
    then have "sess \<in> set (d_sessions d)" by (simp add: GetValid_Inr)
    with t have "\<exists>s \<in> set t. s_ID s = s_ID sess \<and> s_IdentityID s = s_IdentityID sess \<and> s_State s = s_State sess"
      by (auto simp: Session_TouchLastActive_def fst_exec_update bex_sql_update)
    with inv show ?thesis by (simp add: serving_def)
  qed
  ultimately show ?thesis by blast
qed

lemma guarded_keeps:
  assumes "auth_inv d"
    and "\<And>sess d1. serving sess d1 \<Longrightarrow> gates sess = Next () \<Longrightarrow> auth_inv (snd (run_state (h (r\<lparr>r_session := Some sess\<rparr>)) d1))"
  shows "auth_inv (snd (run_state (guarded L r w gates h) d))"
proof -
  obtain t m where req: "RequireSession Session_GetValid Session_TouchLastActive Session_Revoke (l_uuid L) (r_flt r)
      (r_now r) (w_cookie w) (d_sessions d) = (t, m)" by fastforce
  from RequireSession_keeps [OF assms(1) req] assms(2) show ?thesis
    by (auto simp: guarded_def req split: mw.split)
qed

lemma auth_gates_state: "auth_gates states csrf verb header sess = Next () \<Longrightarrow> s_State sess \<in> set states"
  by (auto simp: auth_gates_def mw_bind_Next RequireState_pass)

lemma limited_keeps:
  "auth_inv d \<Longrightarrow> auth_inv (snd (run_state h d)) \<Longrightarrow> auth_inv (snd (run_state (limited r k window h) d))"
  by (simp add: limited_def)

lemma serve_keeps:
  assumes "auth_inv d" "r_fresh r 0 \<notin> s_ID ` set (d_sessions d)"
  shows "auth_inv (serve L r w call d)"
proof -
  have inv: "serving sess d1 \<Longrightarrow> auth_inv d1" for sess d1 by (simp add: serving_def)
  show ?thesis
    by (cases call)
      (use assms(2) in \<open>auto simp: serve_def assms(1) simp del: image_iff intro!: limited_keeps guarded_keeps Login_keeps Accept_keeps SelectTenant_keeps
        SelectAdmin_keeps SwitchContext_keeps auth_keeps [THEN tripleD] dest!: auth_gates_state dest: inv\<close>)
qed

subsection \<open>Every reachable database\<close>

lemma auth_step_keeps: "auth_step L d d' \<Longrightarrow> auth_inv d \<Longrightarrow> auth_inv d'"
proof (induction rule: auth_step.induct)
  case (step_call r d w call)
  then show ?case by (simp add: serve_keeps)
next
  case (step_other_login p i d flt now)
  then show ?case by (simp add: auth_inv_create)
next
  case (step_new_identity d lower flt now i e n pw)
  then show ?case by simp
next
  case (step_add_member i d flt now idn t role)
  then show ?case by (simp add: auth_inv_add_member)
qed (simp_all add: auth_inv_cleanup auth_inv_second_factor auth_inv_revokes auth_inv_directory
    auth_inv_member_role auth_inv_remove_member auth_inv_suborg_delete)

lemma auth_reachable_inv: "auth_reachable L d \<Longrightarrow> auth_inv d"
proof (induction rule: auth_reachable.induct)
  case (reach_init d)
  then show ?case by (simp add: auth_inv_def)
qed (rule auth_step_keeps)

lemma auth_reachable_sess_ok: "auth_reachable L d \<Longrightarrow> s \<in> set (d_sessions d) \<Longrightarrow> sess_ok (d_users d) s"
  using auth_reachable_inv [of L d] by (simp add: auth_inv_def)

text \<open>[C1] No way around the second factor: in every database the server can reach, whatever the
  order of requests and whichever statements the database refuses, a session that a password
  login began and that has come as far as choosing a tenant, or further, carries a second
  factor.\<close>

theorem second_factor_enforced:
  assumes "auth_reachable L d" "s \<in> set (d_sessions d)" "s_AuthMethod s = ''password''" "PreTenant \<le> s_State s"
  shows "s_SecondFactor s \<noteq> None"
  using auth_reachable_sess_ok [OF assms(1,2)] assms(3,4)
  by (simp add: sess_ok_def second_factor_done_def)

text \<open>[C2] A session acts only where its identity is a member: in every reachable database a
  session's tenant and user come from a membership of the session's own identity, and a full
  session has one or is a super administrator's.\<close>

theorem tenancy_is_membership:
  assumes "auth_reachable L d" "s \<in> set (d_sessions d)"
  shows "(\<forall>t. s_TenantID s = Some t \<longrightarrow> (\<exists>u \<in> set (d_users d). s_UserID s = Some (u_ID u) \<and> u_TenantID u = t \<and>
       u_IdentityID u = s_IdentityID s)) \<and>
    (s_State s = Authenticated \<longrightarrow> s_IsSuperAdmin s \<or> s_TenantID s \<noteq> None)"
  using auth_reachable_sess_ok [OF assms(1,2)]
  by (auto simp: sess_ok_def membership_of_def list_ex_iff split: option.splits)

text \<open>A session that waits for its second factor or for its enrolment is short-lived, in every
  reachable database: it expires fifteen minutes after it was created.\<close>

theorem waiting_sessions_are_short:
  assumes "auth_reachable L d" "s \<in> set (d_sessions d)" "s_State s < PreTenant" "IsValid now s"
  shows "now < s_CreatedAt s + 15 * minute"
  using auth_reachable_sess_ok [OF assms(1,2)] assms(3,4)
  by (simp add: sess_ok_def IsValid_def preAuthSessionDuration_def)

subsection \<open>A run\<close>

text \<open>A login, the authenticator code, and the choice of the tenant.\<close>

definition run_libs :: libs where
  "run_libs = demo_libs\<lparr>l_uuid := (\<lambda>_. Some 1000)\<rparr>"

definition run_wire :: wire where
  "run_wire = \<lparr>w_cookie = Some ''c'', w_csrf = ''csrf''\<rparr>"

definition run_start :: db where
  "run_start = demo_db\<lparr>d_sessions := [], d_totp := [demo_secret]\<rparr>"

definition run_login :: db where
  "run_login = serve run_libs demo_request run_wire (CallLogin (Some demo_login)) run_start"

definition run_factor :: db where
  "run_factor = serve run_libs (demo_request\<lparr>r_fresh := (\<lambda>n. 2000 + n)\<rparr>) run_wire (CallTotpVerify (Some ''old'')) run_login"

definition run_session :: session where
  "run_session = session_row 1000 100 \<lparr>p_IdentityID = 7, p_State = Pre_Auth, p_IPAddress = ''10.0.0.1'',
     p_UserAgent = ''ua'', p_AuthMethod = ''password'', p_CSRFToken = ''csrf''\<rparr>"

lemma run_login_tables:
  "d_sessions run_login = [run_session]" "d_totp run_login = [demo_secret]" "d_users run_login = d_users demo_db"
  "d_tenants run_login = d_tenants demo_db" "d_members run_login = d_members demo_db"
  "d_identities run_login = [demo_identity\<lparr>i_UpdatedAt := 100\<rparr>]"
  by (simp_all add: run_login_def serve_def limited_def RateLimiter_Allow_def CountRecentByIP_def run_start_def run_libs_def
      Login_def demo_defs demo_secret_def Identity_GetByEmail_def query_row_def HasPassword_def IsLocked_def IsSuspended_def
      get2FAMethods_def HasVerifiedTOTP_def Passkey_CountByIdentity_def sql_affected_def Session_Create_def Let_def
      Totp_GetByIdentity_def Identity_ClearFailedLogin_def sql_simps run_session_def)

lemma run_factor_tables:
  "d_sessions run_factor = [run_session\<lparr>s_SecondFactor := Some ''totp'', s_State := PreTenant, s_ExpiresAt := 100 + sessionDuration\<rparr>]"
  "d_users run_factor = d_users demo_db" "d_tenants run_factor = d_tenants demo_db" "d_members run_factor = d_members demo_db"
  "d_identities run_factor = [demo_identity\<lparr>i_UpdatedAt := 100\<rparr>]"
  by (simp_all add: run_factor_def serve_def guarded_def run_login_tables run_libs_def run_wire_def demo_defs demo_secret_def
      RequireSession_def Session_GetValid_def query_row_def run_session_def session_row_def session_durations
      touchDebounce_def auth_gates_def mw_bind_def RequireState_def Totp_VerifyHandler_def Totp_GetByIdentity_def
      Session_SetSecondFactor_def sql_simps)

lemma run_reachable: "auth_reachable run_libs run_login" "auth_reachable run_libs run_factor"
proof -
  have "auth_reachable run_libs run_start" by (rule reach_init) (simp_all add: run_start_def keyed_def)
  then show login: "auth_reachable run_libs run_login"
    unfolding run_login_def by (rule reach_step) (simp add: step_call run_start_def)
  show "auth_reachable run_libs run_factor"
    unfolding run_factor_def using login
    by (rule reach_step) (simp add: step_call run_login_tables run_session_def session_row_def demo_request_def)
qed

theorem second_factor_enforced_witness:
  "\<exists>s \<in> set (d_sessions run_factor). s_State s = PreTenant \<and> s_SecondFactor s \<noteq> None"
  using second_factor_enforced [OF run_reachable(2), of "hd (d_sessions run_factor)"]
  by (simp add: run_factor_tables run_session_def session_row_def)

theorem waiting_sessions_are_short_witness:
  "\<exists>s \<in> set (d_sessions run_login). IsValid 200 s \<and> 200 < s_CreatedAt s + 15 * minute"
  using waiting_sessions_are_short [OF run_reachable(1), of run_session 200]
  by (simp add: run_login_tables run_session_def session_row_def less_sstate_def IsValid_def session_durations)

definition run_tenant :: db where
  "run_tenant = serve run_libs (demo_request\<lparr>r_fresh := (\<lambda>n. 3000 + n)\<rparr>) run_wire (CallSelectTenant (Some 3)) run_factor"

theorem tenancy_is_membership_witness:
  "\<exists>s \<in> set (d_sessions run_tenant). s_State s = Authenticated \<and> s_TenantID s = Some 3 \<and>
     (\<exists>u \<in> set (d_users run_tenant). s_UserID s = Some (u_ID u) \<and> u_TenantID u = 3)"
proof -
  have "d_sessions run_tenant = [run_session\<lparr>s_SecondFactor := Some ''totp'', s_State := Authenticated,
      s_ExpiresAt := 100 + sessionDuration, s_TenantID := Some 3, s_UserID := Some 5, s_SubOrgID := Some 21,
      s_UserRole := Some ''fso''\<rparr>]"
    by (simp add: run_tenant_def serve_def guarded_def run_factor_tables run_libs_def run_wire_def demo_defs
      RequireSession_def Session_GetValid_def query_row_def run_session_def session_row_def session_durations
      touchDebounce_def auth_gates_def mw_bind_def RequireState_def CSRFMiddleware_def SelectTenant_def GetUserInTenant_def
      user_tenant_row_def tenant_by_def identity_by_def suborg_of_user_def IsTenantSuspended_def
      Session_SetTenant_def sql_simps)
  moreover have "auth_reachable run_libs run_tenant"
    unfolding run_tenant_def using run_reachable(2)
    by (rule reach_step) (simp add: step_call run_factor_tables run_session_def session_row_def demo_request_def)
  ultimately show ?thesis
    using tenancy_is_membership [of run_libs run_tenant "hd (d_sessions run_tenant)"] by simp blast
qed

end
