(* ===== verification/Routes.thy ===== *)
theory Routes
  imports Auth_System
begin

text \<open>
  \<^verbatim>\<open>backend/internal/router/router.go\<close>: every route with the middleware before its handler, and
  what that middleware does. A gate is one call of \<^verbatim>\<open>Use\<close>; \<open>through\<close> runs them in order around
  a handler.
\<close>

subsection \<open>Gates\<close>

datatype gate =
    Limited                 \<comment> \<open>\<^verbatim>\<open>authLimiter.Middleware()\<close>\<close>
  | HasSession              \<comment> \<open>\<^verbatim>\<open>requireSession\<close>\<close>
  | InState "sstate list"
  | InTenant
  | CSRF
  | SuperAdmin
  | HasRole "string list"
  | Scheduler
  | QueueCaller
  | ErrorLimited            \<comment> \<open>\<^verbatim>\<open>errorreport.RateLimitMiddleware()\<close>\<close>

text \<open>What the client sends beside path and body, and where the server runs. Whether the limiter
  of error reports, which is in memory, lets the request pass is part of it.\<close>

record call = wire +
  cl_method :: string
  cl_scheduler :: string
  cl_authorization :: string
  cl_errors_left :: bool

record host =
  ho_cloud :: bool
  ho_sendgrid :: bool
  ho_backend :: string
  ho_account :: string
  ho_validate :: "string \<Rightarrow> string \<Rightarrow> string option option" \<comment> \<open>\<^verbatim>\<open>idtoken.Validate\<close>\<close>
  ho_passkeys :: bool   \<comment> \<open>whether \<^verbatim>\<open>passkey.NewHandler\<close> succeeded\<close>
  ho_model :: bool      \<comment> \<open>whether the client of the language model is there\<close>

definition after :: "'a mw \<Rightarrow> ('a \<Rightarrow> (db, 'b response) state) \<Rightarrow> (db, 'b response) state" where
  "after m k = (case m of AbortWith c e \<Rightarrow> reply (Abort c e) | Next a \<Rightarrow> k a)"

lemma after_simps [simp]: "after (Next a) k = k a" "after (AbortWith c e) k = reply (Abort c e)"
  by (simp_all add: after_def)

definition gate_step ::
  "host \<Rightarrow> libs \<Rightarrow> call \<Rightarrow> gate \<Rightarrow> request \<Rightarrow> (request \<Rightarrow> (db, 'b response) state) \<Rightarrow> (db, 'b response) state" where
  "gate_step H L c g r k = (case g of
     Limited \<Rightarrow> limited r 15 (15 * minute) (k r)
   | HasSession \<Rightarrow> do {
       m \<leftarrow> on_sessions (RequireSession Session_GetValid Session_TouchLastActive Session_Revoke
              (l_uuid L) (r_flt r) (r_now r) (w_cookie c));
       after m (\<lambda>sess. k (r\<lparr>r_session := Some sess\<rparr>))
     }
   | InState states \<Rightarrow> after (RequireState states (r_session r)) (\<lambda>_. k r)
   | InTenant \<Rightarrow> after (RequireTenant (r_session r)) (\<lambda>_. k r)
   | CSRF \<Rightarrow> after (CSRFMiddleware (cl_method c) (w_csrf c) (r_session r)) (\<lambda>_. k r)
   | SuperAdmin \<Rightarrow> after (RequireSuperAdmin (r_session r)) (\<lambda>_. k r)
   | HasRole roles \<Rightarrow> do {
       m \<leftarrow> asks (\<lambda>d. RequireRole (\<lambda>u. Auth_GetUserRole (r_flt r) u d) roles (r_session r));
       after m (\<lambda>(_, role). k (r\<lparr>r_role := Some role\<rparr>))
     }
   | Scheduler \<Rightarrow> after (RequireCloudScheduler (ho_cloud H) (cl_scheduler c)) (\<lambda>_. k r)
   | QueueCaller \<Rightarrow> after (RequireCloudTasks (ho_validate H) (ho_cloud H) (ho_backend H) (ho_account H) (cl_authorization c)) (\<lambda>_. k r)
   | ErrorLimited \<Rightarrow> if cl_errors_left c then k r else reply (Abort StatusTooManyRequests (Msg ''rate limit exceeded'')))"

fun through ::
  "host \<Rightarrow> libs \<Rightarrow> call \<Rightarrow> gate list \<Rightarrow> (request \<Rightarrow> (db, 'b response) state) \<Rightarrow> request \<Rightarrow> (db, 'b response) state" where
  "through H L c [] h r = h r"
| "through H L c (g # gs) h r = gate_step H L c g r (through H L c gs h)"

subsection \<open>The table\<close>

record route =
  rt_method :: string
  rt_path :: string
  rt_gates :: "gate list"
  rt_handler :: string

definition group :: "string \<Rightarrow> gate list \<Rightarrow> (string \<times> string \<times> string) list \<Rightarrow> route list" where
  "group base gates = map (\<lambda>(verb, path, handler).
     \<lparr>rt_method = verb, rt_path = base @ path, rt_gates = gates, rt_handler = handler\<rparr>)"

definition member_gates :: "gate list" where "member_gates = [HasSession, InTenant, CSRF]"
definition role_gates :: "string list \<Rightarrow> gate list" where "role_gates roles = member_gates @ [HasRole roles]"
definition readers :: "string list" where "readers = [''administrator'', ''fso'', ''read_only_fso'']"
definition writers :: "string list" where "writers = [''administrator'', ''fso'']"
definition super_gates :: "gate list" where "super_gates = [HasSession, CSRF, SuperAdmin]"

definition when_routes :: "bool \<Rightarrow> 'a list \<Rightarrow> 'a list" where
  "when_routes b rs = (if b then rs else [])"

definition public_routes :: "route list" where
  "public_routes =
     group [] [] [(''GET'', ''/health'', ''health'')] @
     group ''/api/v1'' [ErrorLimited] [(''POST'', ''/errors'', ''errorreport.Handler'')]"

definition queue_routes :: "host \<Rightarrow> route list" where
  "queue_routes H = when_routes (ho_cloud H) (group ''/api/tasks'' [QueueCaller]
     (when_routes (ho_sendgrid H) [(''POST'', ''/send-email'', ''email.HandleSendTask'')] @
      when_routes (ho_model H) [(''POST'', ''/verify-upload'', ''verification.HandleVerifyTask'')]))"

definition cron_routes :: "route list" where
  "cron_routes = group ''/api/cron'' [Scheduler]
     [(''POST'', ''/session-cleanup'', ''session.CleanupHandler''), (''POST'', ''/travel-debrief'', ''travel.DebriefCron''),
      (''POST'', ''/chat-cleanup'', ''chat.CleanupCron''), (''POST'', ''/daily-digest'', ''digest.CronHandler''),
      (''POST'', ''/task-reminders'', ''reminders.CronHandler'')]"

definition auth_routes :: "host \<Rightarrow> route list" where
  "auth_routes H =
     group ''/api/auth'' [Limited]
       ([(''POST'', ''/login'', ''auth.Login''), (''POST'', ''/login/identify'', ''auth.Identify'')] @
        when_routes (ho_passkeys H)
          [(''POST'', ''/login/passkey/begin'', ''passkey.BeginLogin''), (''POST'', ''/login/passkey/finish'', ''passkey.FinishLogin'')] @
        [(''POST'', ''/invite/info'', ''invite.Info''), (''POST'', ''/invite/accept'', ''invite.Accept''),
         (''POST'', ''/password-reset/request'', ''auth.RequestPasswordReset''),
         (''POST'', ''/password-reset/confirm'', ''auth.ConfirmPasswordReset''),
         (''GET'', ''/sso/:tenant_slug'', ''sso.InitiateSSO''), (''GET'', ''/sso/callback/oidc'', ''sso.OIDCCallback''),
         (''POST'', ''/sso/callback/saml'', ''sso.SAMLCallback'')]) @
     group ''/api/auth/2fa'' [HasSession, InState [Pre_Auth]]
       ([(''GET'', ''/methods'', ''auth.Get2FAMethods''), (''POST'', ''/totp/verify'', ''totp.Verify''),
         (''POST'', ''/email/send'', ''emailcode.Send''), (''POST'', ''/email/verify'', ''emailcode.Verify'')] @
        when_routes (ho_passkeys H)
          [(''POST'', ''/passkey/begin'', ''passkey.Begin2FA''), (''POST'', ''/passkey/finish'', ''passkey.Finish2FA'')]) @
     group ''/api/auth'' [HasSession, InState [PreTenant]] [(''GET'', ''/tenants'', ''auth.ListTenants'')] @
     group ''/api/auth'' [HasSession, InState [PreTenant], CSRF]
       [(''POST'', ''/select-tenant'', ''auth.SelectTenant''), (''POST'', ''/select-admin'', ''auth.SelectAdmin'')] @
     group ''/api/auth'' [HasSession, InState [Setup2FA, Authenticated], CSRF]
       [(''POST'', ''/totp/enroll'', ''totp.Enroll''), (''POST'', ''/totp/confirm'', ''totp.ConfirmEnroll'')] @
     group ''/api/auth'' [HasSession] [(''GET'', ''/me'', ''auth.Me'')] @
     group ''/api/auth'' member_gates
       ([(''POST'', ''/logout'', ''auth.Logout''), (''POST'', ''/switch-context'', ''auth.SwitchContext''),
         (''GET'', ''/sessions'', ''auth.ListSessions''), (''DELETE'', ''/sessions'', ''auth.RevokeAllOtherSessions''),
         (''DELETE'', ''/sessions/:id'', ''auth.RevokeSession''), (''DELETE'', ''/totp'', ''totp.Remove'')] @
        when_routes (ho_passkeys H)
          [(''POST'', ''/passkeys/register/begin'', ''passkey.BeginRegistration''),
           (''POST'', ''/passkeys/register/finish'', ''passkey.FinishRegistration''), (''GET'', ''/passkeys'', ''passkey.List''),
           (''DELETE'', ''/passkeys/:id'', ''passkey.Remove'')] @
        [(''POST'', ''/change-password'', ''auth.ChangePassword''), (''GET'', ''/security'', ''auth.SecurityOverview''),
         (''GET'', ''/user-settings'', ''auth.GetUserSettings''), (''PUT'', ''/user-settings'', ''auth.UpdateUserSettings'')])"

definition super_admin_routes :: "host \<Rightarrow> route list" where
  "super_admin_routes H = group ''/api/admin'' super_gates
     ([(''GET'', ''/sessions'', ''auth.AdminListSessions''), (''DELETE'', ''/sessions/:id'', ''auth.AdminRevokeSession''),
       (''GET'', ''/audit'', ''auth.AdminListAudit''), (''GET'', ''/tenants'', ''auth.AdminListTenants''),
       (''POST'', ''/tenants'', ''auth.AdminCreateTenant''), (''GET'', ''/tenants/:id'', ''auth.AdminGetTenant''),
       (''PUT'', ''/tenants/:id'', ''auth.AdminUpdateTenant''), (''DELETE'', ''/tenants/:id'', ''auth.AdminDeleteTenant''),
       (''POST'', ''/tenants/:id/suspend'', ''auth.AdminSuspendTenant''),
       (''POST'', ''/tenants/:id/unsuspend'', ''auth.AdminUnsuspendTenant''),
       (''POST'', ''/tenants/:id/invite'', ''auth.AdminInviteAdmin''), (''GET'', ''/tenants/:id/ai-usage'', ''aiusage.AdminTenantUsage''),
       (''GET'', ''/tenants/:id/sso'', ''sso.GetSSOConfig''), (''PUT'', ''/tenants/:id/sso'', ''sso.UpdateSSOConfig''),
       (''GET'', ''/tenants/:id/sso/domains'', ''sso.ListEmailDomains''), (''POST'', ''/tenants/:id/sso/domains'', ''sso.AddEmailDomain''),
       (''DELETE'', ''/tenants/:id/sso/domains/:domain'', ''sso.RemoveEmailDomain''),
       (''GET'', ''/identities'', ''auth.AdminListIdentities''), (''POST'', ''/identities'', ''auth.AdminCreateIdentity''),
       (''GET'', ''/identities/:id'', ''auth.AdminGetIdentity''), (''DELETE'', ''/identities/:id'', ''auth.AdminDeleteIdentity''),
       (''POST'', ''/identities/:id/reset-password'', ''auth.AdminResetPassword''),
       (''POST'', ''/identities/:id/super-admin'', ''auth.AdminSetSuperAdmin''),
       (''POST'', ''/identities/:id/suspend'', ''auth.AdminSuspendIdentity''),
       (''POST'', ''/identities/:id/unsuspend'', ''auth.AdminUnsuspendIdentity''),
       (''POST'', ''/identities/:id/tenants'', ''auth.AdminAddIdentityToTenant''),
       (''POST'', ''/identities/:id/resend-invite'', ''auth.AdminResendInvite''),
       (''PUT'', ''/identities/:id/email'', ''auth.AdminChangeEmail''),
       (''GET'', ''/identities/:id/passkeys'', ''passkey.AdminListPasskeys''),
       (''DELETE'', ''/identities/:id/passkeys/:passkey_id'', ''passkey.AdminDeletePasskey'')] @
      when_routes (ho_passkeys H)
        [(''POST'', ''/passkeys/register/begin'', ''passkey.BeginRegistration''),
         (''POST'', ''/passkeys/register/finish'', ''passkey.FinishRegistration''), (''GET'', ''/passkeys'', ''passkey.List''),
         (''DELETE'', ''/passkeys/:id'', ''passkey.Remove'')])"

definition tenant_admin_routes :: "route list" where
  "tenant_admin_routes = group ''/api/v1/admin'' (role_gates [''administrator''])
     [(''POST'', ''/suspend'', ''auth.AdminSuspendTenant''), (''POST'', ''/unsuspend'', ''auth.AdminUnsuspendTenant''),
      (''POST'', ''/invite'', ''auth.AdminInviteAdmin''), (''POST'', ''/invite/bulk'', ''auth.AdminBulkInvite''),
      (''GET'', ''/members'', ''auth.TenantListMembers''), (''PATCH'', ''/members/:user_id/role'', ''auth.TenantUpdateMemberRole''),
      (''PUT'', ''/members/:user_id/sub-org'', ''suborg.SetUserSubOrg''), (''DELETE'', ''/members/:user_id'', ''auth.TenantRemoveMember''),
      (''GET'', ''/sub-orgs'', ''suborg.List''), (''POST'', ''/sub-orgs'', ''suborg.Create''), (''PUT'', ''/sub-orgs/:id'', ''suborg.Update''),
      (''DELETE'', ''/sub-orgs/:id'', ''suborg.Delete''), (''PUT'', ''/sub-orgs/:id/primary-fso'', ''suborg.SetPrimaryFSO''),
      (''GET'', ''/sso'', ''sso.GetSSOConfig''), (''PUT'', ''/sso'', ''sso.UpdateSSOConfig''),
      (''GET'', ''/sso/domains'', ''sso.ListEmailDomains''), (''POST'', ''/sso/domains'', ''sso.AddEmailDomain''),
      (''DELETE'', ''/sso/domains/:domain'', ''sso.RemoveEmailDomain'')]"

definition team_routes :: "route list" where
  "team_routes =
     group ''/api/v1/team'' (role_gates readers)
       [(''GET'', ''/'', ''team.List''), (''GET'', ''/stats'', ''team.Stats''), (''GET'', ''/:user_id'', ''team.Get'')] @
     group ''/api/v1/team'' (role_gates writers) [(''PUT'', ''/:user_id/clearance'', ''team.SetClearance'')] @
     group ''/api/v1/dd254'' (role_gates readers)
       [(''GET'', ''/'', ''dd254.List''), (''GET'', ''/stats'', ''dd254.Stats''), (''GET'', ''/:id'', ''dd254.Get''),
        (''GET'', ''/:id/file'', ''dd254.ViewFile'')] @
     group ''/api/v1/dd254'' (role_gates writers)
       [(''POST'', ''/'', ''dd254.Upload''), (''DELETE'', ''/:id'', ''dd254.Delete''), (''POST'', ''/:id/access'', ''dd254.GrantAccess''),
        (''DELETE'', ''/:id/access/:user_id'', ''dd254.RevokeAccess'')] @
     group ''/api/v1/admin/audit'' (role_gates writers) [(''GET'', ''/'', ''auth.TenantAuditLog'')]"

definition task_routes :: "host \<Rightarrow> route list" where
  "task_routes H =
     group ''/api/v1/admin/tasks'' (role_gates readers)
       [(''GET'', ''/'', ''task.ListTasks''), (''GET'', ''/stats'', ''task.GetTaskStats''), (''GET'', ''/users'', ''task.ListUsers''),
        (''GET'', ''/sub-orgs'', ''task.ListSubOrgs''), (''GET'', ''/completions/:completion_id'', ''task.GetSubmission''),
        (''GET'', ''/uploads/:upload_id/download'', ''task.DownloadUpload''), (''GET'', ''/export'', ''task.ExportTasks''),
        (''GET'', ''/:id'', ''task.GetTask'')] @
     group ''/api/v1/admin/tasks'' (role_gates writers)
       ([(''POST'', ''/'', ''task.CreateTask''), (''POST'', ''/:id/archive'', ''task.ArchiveTask''),
         (''POST'', ''/:id/unarchive'', ''task.UnarchiveTask''),
         (''POST'', ''/:id/assignees/:user_id/approve'', ''task.ApproveSubmission''),
         (''POST'', ''/:id/assignees/:user_id/reject'', ''task.RejectSubmission'')] @
        when_routes (ho_model H) [(''POST'', ''/uploads/:upload_id/verification/feedback'', ''verification.HandleFeedback'')]) @
     group ''/api/v1/me'' member_gates
       [(''GET'', ''/fso'', ''suborg.GetMyFSO''), (''GET'', ''/dd254-authorizations'', ''dd254.MyAuthorizations''),
        (''POST'', ''/chat'', ''chat.Chat''), (''GET'', ''/chat/history'', ''chat.History''), (''GET'', ''/chat/usage'', ''chat.Usage'')] @
     group ''/api/v1/tasks'' member_gates
       [(''GET'', ''/'', ''task.ListMyTasks''), (''GET'', ''/stats'', ''task.GetMyTaskStats''), (''GET'', ''/:id'', ''task.GetMyTask''),
        (''POST'', ''/:id/responses'', ''task.SaveResponses''), (''POST'', ''/:id/submit'', ''task.SubmitTask''),
        (''POST'', ''/:id/upload/:requirement_id'', ''task.UploadFile''), (''DELETE'', ''/:id/upload/:upload_id'', ''task.DeleteUpload''),
        (''GET'', ''/files/*key'', ''task.ServeLocalFile'')] @
     group ''/api/v1/admin/action-items'' (role_gates readers)
       [(''GET'', ''/'', ''actionitem.List''), (''GET'', ''/stats'', ''actionitem.GetStats''),
        (''GET'', ''/fso-users'', ''actionitem.ListFSOUsers''), (''GET'', ''/:id'', ''actionitem.Get'')] @
     group ''/api/v1/admin/action-items'' (role_gates writers)
       [(''POST'', ''/:id/status'', ''actionitem.UpdateStatus''), (''POST'', ''/:id/notes'', ''actionitem.UpdateNotes''),
        (''PATCH'', ''/:id/assignee'', ''actionitem.Reassign'')]"

definition officer_routes :: "route list" where
  "officer_routes =
     group ''/api/v1/travel'' member_gates
       [(''POST'', ''/'', ''travel.CreateReport''), (''GET'', ''/'', ''travel.ListMyReports''), (''GET'', ''/stats'', ''travel.GetMyStats''),
        (''GET'', ''/debriefs'', ''travel.GetMyDebriefs''), (''POST'', ''/debriefs/:id/submit'', ''travel.SubmitDebrief''),
        (''GET'', ''/:id'', ''travel.GetReport''), (''PUT'', ''/:id'', ''travel.UpdateReport''),
        (''POST'', ''/:id/submit'', ''travel.SubmitReport''), (''POST'', ''/:id/upload'', ''travel.UploadFile''),
        (''DELETE'', ''/:id/upload/:upload_id'', ''travel.DeleteUpload'')] @
     group ''/api/v1/admin/travel'' (role_gates readers)
       [(''GET'', ''/'', ''travel.ListReports''), (''GET'', ''/stats'', ''travel.GetStats''),
        (''GET'', ''/debriefs/:id'', ''travel.AdminGetDebrief''), (''GET'', ''/uploads/:upload_id/download'', ''travel.DownloadUpload''),
        (''GET'', ''/:id'', ''travel.AdminGetReport'')] @
     group ''/api/v1/admin/travel'' (role_gates writers)
       [(''POST'', ''/:id/approve'', ''travel.ApproveReport''), (''POST'', ''/:id/reject'', ''travel.RejectReport'')] @
     group ''/api/v1/visits'' member_gates
       [(''POST'', ''/'', ''visitrequest.Create''), (''GET'', ''/'', ''visitrequest.ListMy''), (''GET'', ''/stats'', ''visitrequest.MyStats''),
        (''GET'', ''/cloneable'', ''visitrequest.ListCloneable''), (''GET'', ''/:id'', ''visitrequest.GetMy''),
        (''POST'', ''/:id/cancel'', ''visitrequest.Cancel'')] @
     group ''/api/v1/admin/visits'' (role_gates readers)
       [(''GET'', ''/'', ''visitrequest.AdminList''), (''GET'', ''/stats'', ''visitrequest.AdminStats''),
        (''GET'', ''/export'', ''visitrequest.Export''), (''GET'', ''/:id'', ''visitrequest.AdminGet''),
        (''GET'', ''/:id/dd254-suggestions'', ''dd254.SuggestForVisit'')] @
     group ''/api/v1/admin/visits'' (role_gates writers)
       [(''POST'', ''/:id/status'', ''visitrequest.AdminUpdateStatus''), (''PUT'', ''/:id/dd254'', ''dd254.LinkVisitRequest'')] @
     group ''/api/v1/reports'' member_gates
       [(''POST'', ''/'', ''report.Create''), (''GET'', ''/'', ''report.ListMy''), (''GET'', ''/stats'', ''report.MyStats''),
        (''GET'', ''/:id'', ''report.GetMy'')] @
     group ''/api/v1/admin/reports'' (role_gates readers)
       [(''GET'', ''/'', ''report.AdminList''), (''GET'', ''/stats'', ''report.AdminStats''), (''GET'', ''/:id'', ''report.AdminGet'')] @
     group ''/api/v1/admin/reports'' (role_gates writers) [(''POST'', ''/:id/status'', ''report.AdminUpdateStatus'')]"

definition wiki_routes :: "route list" where
  "wiki_routes =
     group ''/api/v1/wiki'' member_gates
       [(''GET'', ''/'', ''wiki.ListPublished''), (''GET'', ''/fso'', ''wiki.GetFSOInfo''), (''GET'', ''/files/:file_id'', ''wiki.ViewFile''),
        (''GET'', ''/local-files/*key'', ''wiki.ServeLocalFile'')] @
     group ''/api/v1/admin/wiki'' (role_gates readers)
       [(''GET'', ''/'', ''wiki.AdminList''), (''GET'', ''/:id'', ''wiki.AdminGet'')] @
     group ''/api/v1/admin/wiki'' (role_gates writers)
       [(''POST'', ''/'', ''wiki.AdminCreate''), (''PUT'', ''/:id'', ''wiki.AdminUpdate''), (''DELETE'', ''/:id'', ''wiki.AdminDelete''),
        (''POST'', ''/:id/files'', ''wiki.AdminUploadFile''), (''DELETE'', ''/files/:file_id'', ''wiki.AdminDeleteFile'')]"

definition routes :: "host \<Rightarrow> route list" where
  "routes H = public_routes @ queue_routes H @ cron_routes @ auth_routes H @ super_admin_routes H @ tenant_admin_routes @ team_routes @
     task_routes H @ officer_routes @ wiki_routes"

end
