(* ===== verification/Route_Properties.thy ===== *)
theory Route_Properties
  imports Routes Action_Items "HOL-Library.Sublist"
begin

text \<open>
  What the table of routes and the middleware in front of each handler come to: which routes are
  open, which need a role, and that a handler behind a role or behind the super-admin gate runs for
  nobody else.
\<close>

subsection \<open>The table\<close>

lemma list_all_group:
  "list_all P (group base gates xs) = list_all (\<lambda>(verb, path, handler).
     P \<lparr>rt_method = verb, rt_path = base @ path, rt_gates = gates, rt_handler = handler\<rparr>) xs"
  by (induction xs) (auto simp: group_def)

lemma list_all_when: "list_all P xs \<Longrightarrow> list_all P (when_routes b xs)"
  by (simp add: when_routes_def)

lemmas route_tables = public_routes_def queue_routes_def cron_routes_def auth_routes_def super_admin_routes_def tenant_admin_routes_def team_routes_def
  task_routes_def officer_routes_def wiki_routes_def

definition has_gate :: "gate \<Rightarrow> route \<Rightarrow> bool" where
  "has_gate g rt = (g \<in> set (rt_gates rt))"

definition under :: "string \<Rightarrow> route \<Rightarrow> bool" where
  "under p rt = prefix p (rt_path rt)"

definition well_guarded :: "route \<Rightarrow> bool" where
  "well_guarded rt =
     ((under ''/api/admin/'' rt \<longrightarrow> rt_gates rt = super_gates) \<and>
      (under ''/api/v1/admin/'' rt \<longrightarrow>
         rt_gates rt = role_gates [''administrator''] \<or> rt_gates rt = role_gates writers \<or>
         rt_gates rt = role_gates readers \<and> rt_method rt = ''GET'') \<and>
      (under ''/api/v1/'' rt \<and> \<not> under ''/api/v1/errors'' rt \<longrightarrow> take 3 (rt_gates rt) = member_gates) \<and>
      (has_gate HasSession rt \<and> rt_method rt \<noteq> ''GET'' \<longrightarrow> has_gate CSRF rt \<or> under ''/api/auth/2fa/'' rt) \<and>
      rt_method rt \<in> {''GET'', ''POST'', ''PUT'', ''PATCH'', ''DELETE''})"

lemma guarded_tables:
  "list_all well_guarded public_routes" "list_all well_guarded (queue_routes H)" "list_all well_guarded cron_routes" "list_all well_guarded (auth_routes H)"
  "list_all well_guarded (super_admin_routes H)" "list_all well_guarded tenant_admin_routes"
  "list_all well_guarded team_routes" "list_all well_guarded (task_routes H)"
  "list_all well_guarded officer_routes" "list_all well_guarded wiki_routes"
  unfolding route_tables list_all_append list_all_group
  by (auto simp: list_all_group when_routes_def well_guarded_def under_def has_gate_def role_gates_def member_gates_def writers_def readers_def super_gates_def)


subsection \<open>What passes a chain of gates\<close>

text \<open>The answer of a gate behind the session check, by the session, the header and the role the
  database has.\<close>

definition admits :: "faults \<Rightarrow> db \<Rightarrow> call \<Rightarrow> session \<Rightarrow> gate \<Rightarrow> bool" where
  "admits flt d c sess g = (case g of
     InState states \<Rightarrow> s_State sess \<in> set states
   | InTenant \<Rightarrow> s_State sess = Authenticated
   | CSRF \<Rightarrow> cl_method c \<in> {''GET'', ''HEAD'', ''OPTIONS''} \<or> w_csrf c \<noteq> [] \<and> w_csrf c = s_CSRFToken sess
   | SuperAdmin \<Rightarrow> s_IsSuperAdmin sess
   | HasRole roles \<Rightarrow> (\<exists>u role. s_UserID sess = Some u \<and> Auth_GetUserRole flt u d = Inr role \<and> role \<in> set roles)
   | _ \<Rightarrow> False)"

definition seat_gate :: "gate \<Rightarrow> bool" where
  "seat_gate g = (case g of InState _ \<Rightarrow> True | InTenant \<Rightarrow> True | CSRF \<Rightarrow> True | SuperAdmin \<Rightarrow> True | HasRole _ \<Rightarrow> True | _ \<Rightarrow> False)"

definition refused :: "(db, 'b response) state \<Rightarrow> db \<Rightarrow> bool" where
  "refused m d = (\<exists>code e. run_state m d = (Abort code e, d))"

lemma gate_refuses:
  "seat_gate g \<Longrightarrow> r_session r = Some sess \<Longrightarrow> \<not> admits (r_flt r) d c sess g \<Longrightarrow> refused (gate_step H L c g r k) d"
  by (cases g) (auto simp: seat_gate_def admits_def gate_step_def refused_def RequireState_def RequireTenant_def CSRFMiddleware_def
      RequireSuperAdmin_def RequireRole_def split: option.split sum.split)

lemma gate_admits:
  "seat_gate g \<Longrightarrow> r_session r = Some sess \<Longrightarrow> admits (r_flt r) d c sess g \<Longrightarrow>
     \<exists>role. run_state (gate_step H L c g r k) d = run_state (k (r\<lparr>r_role := role\<rparr>)) d \<and>
       (case g of HasRole roles \<Rightarrow> (\<exists>u v. role = Some v \<and> s_UserID sess = Some u \<and> Auth_GetUserRole (r_flt r) u d = Inr v \<and> v \<in> set roles)
          | _ \<Rightarrow> role = r_role r)"
  by (cases g) (auto simp: seat_gate_def admits_def gate_step_def RequireState_def RequireTenant_def CSRFMiddleware_def
      RequireSuperAdmin_def RequireRole_def)

lemma through_refuses:
  "list_all seat_gate gs \<Longrightarrow> r_session r = Some sess \<Longrightarrow> \<not> list_all (admits (r_flt r) d c sess) gs \<Longrightarrow>
     refused (through H L c gs h r) d"
proof (induction gs arbitrary: r)
  case (Cons g gs)
  show ?case
  proof (cases "admits (r_flt r) d c sess g")
    case True
    from gate_admits [OF _ Cons.prems(2) this] Cons.prems(1) obtain role where
      "run_state (gate_step H L c g r (through H L c gs h)) d = run_state (through H L c gs h (r\<lparr>r_role := role\<rparr>)) d"
      by fastforce
    moreover have "refused (through H L c gs h (r\<lparr>r_role := role\<rparr>)) d"
      using Cons.prems True by (intro Cons.IH) simp_all
    ultimately show ?thesis by (simp add: refused_def)
  next
    case False
    with Cons.prems show ?thesis by (auto intro: gate_refuses)
  qed
qed simp

lemma through_role:
  assumes "r_session r = Some sess" "list_all (admits (r_flt r) d c sess) [InTenant, CSRF, HasRole roles]"
  shows "\<exists>u role. s_UserID sess = Some u \<and> Auth_GetUserRole (r_flt r) u d = Inr role \<and> role \<in> set roles \<and>
    run_state (through H L c [InTenant, CSRF, HasRole roles] h r) d = run_state (h (r\<lparr>r_role := Some role\<rparr>)) d"
  using assms by (auto simp: admits_def gate_step_def RequireState_def RequireTenant_def CSRFMiddleware_def RequireRole_def)

lemma through_super:
  assumes "r_session r = Some sess" "list_all (admits (r_flt r) d c sess) [CSRF, SuperAdmin]"
  shows "run_state (through H L c [CSRF, SuperAdmin] h r) d = run_state (h r) d"
  using assms by (auto simp: admits_def gate_step_def CSRFMiddleware_def RequireSuperAdmin_def)

text \<open>The session check in front: it refuses, or hands a live session on.\<close>

definition only_sessions :: "db \<Rightarrow> db \<Rightarrow> bool" where
  "only_sessions d d' = (\<exists>t. d' = d\<lparr>d_sessions := t\<rparr> \<and> map (\<lambda>s. (s_ID s, s_IdentityID s, s_State s)) t =
     map (\<lambda>s. (s_ID s, s_IdentityID s, s_State s)) (d_sessions d))"

definition live :: "call \<Rightarrow> libs \<Rightarrow> request \<Rightarrow> db \<Rightarrow> session \<Rightarrow> bool" where
  "live c L r d sess = (sess \<in> set (d_sessions d) \<and> IsValid (r_now r) sess \<and> r_now r - s_LastActiveAt sess \<le> IdleTimeout \<and>
     Option.bind (w_cookie c) (l_uuid L) = Some (s_ID sess))"

lemma require_session_cases:
  obtains code e d' where "run_state (gate_step H L c HasSession r k) d = (Abort code e, d')" "only_sessions d d'"
  | sess d' where "live c L r d sess" "only_sessions d d'"
      "run_state (gate_step H L c HasSession r k) d = run_state (k (r\<lparr>r_session := Some sess\<rparr>)) d'"
proof -
  obtain t m where req: "RequireSession Session_GetValid Session_TouchLastActive Session_Revoke (l_uuid L) (r_flt r) (r_now r)
      (w_cookie c) (d_sessions d) = (t, m)" by fastforce
  have "only_sessions d (d\<lparr>d_sessions := t\<rparr>)"
    using req by (auto simp: only_sessions_def RequireSession_def Session_TouchLastActive_def Session_Revoke_def fst_exec_update
        sql_update_def comp_def split: option.splits sum.splits if_splits)
  moreover have "live c L r d sess" if "m = Next sess" for sess
    using req that by (auto simp: live_def RequireSession_def dest!: GetValid_Inr split: option.splits sum.splits if_splits)
      (auto simp: IsValid_def)
  ultimately show thesis
    using that by (cases m) (auto simp: gate_step_def req)
qed

lemma only_sessions_trans: "only_sessions d d1 \<Longrightarrow> only_sessions d1 d2 \<Longrightarrow> only_sessions d d2"
  by (auto simp: only_sessions_def)

lemma only_sessions_role: "only_sessions d d1 \<Longrightarrow> Auth_GetUserRole flt u d1 = Auth_GetUserRole flt u d"
  by (auto simp: only_sessions_def Auth_GetUserRole_def user_by_def)

lemma behind_session:
  assumes run: "run_state (through H L c (HasSession # gs) h r) d = (resp, d')" and gs: "list_all seat_gate gs"
  shows "(\<exists>code e. resp = Abort code e \<and> only_sessions d d') \<or>
    (\<exists>sess d1. live c L r d sess \<and> only_sessions d d1 \<and> list_all (admits (r_flt r) d1 c sess) gs \<and>
      run_state (through H L c gs h (r\<lparr>r_session := Some sess\<rparr>)) d1 = (resp, d'))"
proof (cases rule: require_session_cases [of H L c r "through H L c gs h" d])
  case (1 code e d1)
  then show ?thesis using run by auto
next
  case (2 sess d1)
  show ?thesis
  proof (cases "list_all (admits (r_flt r) d1 c sess) gs")
    case True
    then show ?thesis using 2 run by auto
  next
    case False
    then have "refused (through H L c gs h (r\<lparr>r_session := Some sess\<rparr>)) d1"
      by (intro through_refuses [OF gs]) simp_all
    with 2 run show ?thesis by (auto simp: refused_def)
  qed
qed

lemma route_guarded: "rt \<in> set (routes H) \<Longrightarrow> well_guarded rt"
  using guarded_tables by (auto simp: routes_def list_all_iff)

definition changes :: "string \<Rightarrow> bool" where
  "changes verb = (verb \<in> {''POST'', ''PUT'', ''PATCH'', ''DELETE''})"

lemma token_matches: "admits flt d c sess CSRF \<Longrightarrow> changes (cl_method c) \<Longrightarrow> w_csrf c = s_CSRFToken sess"
  by (auto simp: admits_def changes_def)

lemma route_verb: "well_guarded rt \<Longrightarrow> rt_method rt = ''GET'' \<or> changes (rt_method rt)"
  unfolding well_guarded_def changes_def by blast

lemma role_gates_split: "role_gates roles = HasSession # [InTenant, CSRF, HasRole roles]"
  by (simp add: role_gates_def member_gates_def)

lemma write_gates:
  assumes "well_guarded rt" "under ''/api/v1/admin/'' rt" "rt_method rt \<noteq> ''GET''"
  shows "\<exists>roles. set roles \<subseteq> {''administrator'', ''fso''} \<and> rt_gates rt = HasSession # [InTenant, CSRF, HasRole roles]"
proof -
  have "rt_gates rt = role_gates [''administrator''] \<or> rt_gates rt = role_gates writers"
    using assms unfolding well_guarded_def by blast
  moreover have "set [''administrator''] \<subseteq> {''administrator'', ''fso''}" "set writers \<subseteq> {''administrator'', ''fso''}"
    by (simp_all add: writers_def)
  ultimately show ?thesis unfolding role_gates_split by blast
qed

text \<open>A host and a call for the examples.\<close>

definition demo_host :: host where
  "demo_host = \<lparr>ho_cloud = False, ho_sendgrid = False, ho_backend = [], ho_account = [], ho_validate = (\<lambda>_ _. None),
     ho_passkeys = True, ho_model = False\<rparr>"

definition demo_call :: "string \<Rightarrow> call" where
  "demo_call token = \<lparr>w_cookie = Some ''a'', w_csrf = token, cl_method = [], cl_scheduler = [], cl_authorization = [], cl_errors_left = True\<rparr>"

definition ok_handler :: "request \<Rightarrow> (db, unit response) state" where
  "ok_handler r = reply (Respond StatusOK ())"

lemma demo_request_flt: "r_flt demo_request = no_faults"
  by (simp add: demo_request_def)

lemma pair_of: "fst x = a \<Longrightarrow> x = (a, snd x)"
  by (cases x) simp

lemmas demo_run_defs = demo_libs_def demo_request_def demo_params_def Session_GetValid_def Session_TouchLastActive_def
  fst_exec_update query_row_def session_row_def session_durations RequireTenant_def RequireState_def CSRFMiddleware_def
  RequireRole_def RequireSuperAdmin_def Auth_GetUserRole_def user_by_def ok_handler_def touchDebounce_def no_faults_def
  readers_def writers_def

text \<open>[C21] A write to the administration of a tenant needs the role of the moment: under
  \<^verbatim>\<open>/api/v1/admin\<close>, whatever the handler behind a route that is not a \<^verbatim>\<open>GET\<close>, the request is refused and
  leaves all but the bookkeeping of sessions as it was, or it has a live session of a tenant, brings
  the CSRF token of that session, and the database has its user as administrator or FSO at that
  moment; the role of the session does not count. Only then the handler runs, on that session and role.\<close>

theorem admin_writes_need_current_role:
  assumes "rt \<in> set (routes H)" "under ''/api/v1/admin/'' rt" "rt_method rt \<noteq> ''GET''"
    and "run_state (through H L (c\<lparr>cl_method := rt_method rt\<rparr>) (rt_gates rt) h r) d = (resp, d')"
  shows "(\<exists>code e. resp = Abort code e \<and> only_sessions d d') \<or>
    (\<exists>sess u role d1. live c L r d sess \<and> s_State sess = Authenticated \<and> w_csrf c = s_CSRFToken sess \<and>
       s_UserID sess = Some u \<and> Auth_GetUserRole (r_flt r) u d = Inr role \<and> role \<in> {''administrator'', ''fso''} \<and>
       only_sessions d d1 \<and> run_state (h (r\<lparr>r_session := Some sess, r_role := Some role\<rparr>)) d1 = (resp, d'))"
proof -
  let ?c = "c\<lparr>cl_method := rt_method rt\<rparr>"
  from write_gates [OF route_guarded [OF assms(1)] assms(2,3)] obtain roles where
    roles: "set roles \<subseteq> {''administrator'', ''fso''}" and gates: "rt_gates rt = HasSession # [InTenant, CSRF, HasRole roles]"
    by blast
  have verb: "changes (cl_method ?c)" using route_verb [OF route_guarded [OF assms(1)]] assms(3) by simp
  have seats: "list_all seat_gate [InTenant, CSRF, HasRole roles]" by (simp add: seat_gate_def)
  from behind_session [OF assms(4) [unfolded gates] seats] show ?thesis
  proof (elim disjE exE conjE)
    fix sess d1
    assume live: "live ?c L r d sess" and d1: "only_sessions d d1"
      and ok: "list_all (admits (r_flt r) d1 ?c sess) [InTenant, CSRF, HasRole roles]"
      and run: "run_state (through H L ?c [InTenant, CSRF, HasRole roles] h (r\<lparr>r_session := Some sess\<rparr>)) d1 = (resp, d')"
    from ok have st: "s_State sess = Authenticated" and csrf: "admits (r_flt r) d1 ?c sess CSRF"
      by (simp_all add: admits_def [of _ _ _ _ InTenant])
    from token_matches [OF csrf verb] have tok: "w_csrf c = s_CSRFToken sess" by simp
    let ?r = "r\<lparr>r_session := Some sess\<rparr>"
    have sess: "r_session ?r = Some sess" "r_flt ?r = r_flt r" by simp_all
    from through_role [OF sess(1), unfolded sess(2), OF ok, of H L h] run obtain u role where
      u: "s_UserID sess = Some u" "Auth_GetUserRole (r_flt r) u d1 = Inr role" "role \<in> set roles"
        "run_state (h (?r\<lparr>r_role := Some role\<rparr>)) d1 = (resp, d')" by auto
    have lv: "live c L r d sess" using live by (simp add: live_def)
    have "Auth_GetUserRole (r_flt r) u d = Inr role" using u(2) only_sessions_role [OF d1] by simp
    with st tok u(1,3,4) lv roles d1 show ?thesis by blast
  qed blast
qed

text \<open>[C22] Nobody but a super administrator reaches the panel: under \<^verbatim>\<open>/api/admin\<close>, whatever the
  handler, the request is refused and leaves all but the bookkeeping of sessions as it was, or it
  has a live session in which its identity chose to act as super administrator, and a request that
  is no \<^verbatim>\<open>GET\<close> brings the CSRF token of that session.\<close>

theorem panel_needs_super_admin:
  assumes "rt \<in> set (routes H)" "under ''/api/admin/'' rt"
    and "run_state (through H L (c\<lparr>cl_method := rt_method rt\<rparr>) (rt_gates rt) h r) d = (resp, d')"
  shows "(\<exists>code e. resp = Abort code e \<and> only_sessions d d') \<or>
    (\<exists>sess d1. live c L r d sess \<and> s_IsSuperAdmin sess \<and> (rt_method rt = ''GET'' \<or> w_csrf c = s_CSRFToken sess) \<and>
       only_sessions d d1 \<and> run_state (h (r\<lparr>r_session := Some sess\<rparr>)) d1 = (resp, d'))"
proof -
  let ?c = "c\<lparr>cl_method := rt_method rt\<rparr>"
  have gates: "rt_gates rt = HasSession # [CSRF, SuperAdmin]"
    using route_guarded [OF assms(1)] assms(2) unfolding well_guarded_def super_gates_def by blast
  have seats: "list_all seat_gate [CSRF, SuperAdmin]" by (simp add: seat_gate_def)
  from behind_session [OF assms(3) [unfolded gates] seats] show ?thesis
  proof (elim disjE exE conjE)
    fix sess d1
    assume live: "live ?c L r d sess" and d1: "only_sessions d d1"
      and ok: "list_all (admits (r_flt r) d1 ?c sess) [CSRF, SuperAdmin]"
      and run: "run_state (through H L ?c [CSRF, SuperAdmin] h (r\<lparr>r_session := Some sess\<rparr>)) d1 = (resp, d')"
    let ?r = "r\<lparr>r_session := Some sess\<rparr>"
    have sess: "r_session ?r = Some sess" "r_flt ?r = r_flt r" by simp_all
    from through_super [OF sess(1), unfolded sess(2), OF ok, of H L h] run
    have h: "run_state (h ?r) d1 = (resp, d')" by simp
    have sup: "s_IsSuperAdmin sess" using ok by (simp add: admits_def [of _ _ _ _ SuperAdmin])
    have tok: "rt_method rt = ''GET'' \<or> w_csrf c = s_CSRFToken sess"
      using ok route_verb [OF route_guarded [OF assms(1)]] token_matches [of "r_flt r" d1 ?c sess] by auto
    have "live c L r d sess" using live by (simp add: live_def)
    with h sup tok d1 show ?thesis by blast
  qed blast
qed

theorem admin_writes_need_current_role_witness:
  "\<exists>(sess :: session) u role. s_State sess = Authenticated \<and> s_UserID sess = Some u \<and> Auth_GetUserRole no_faults u demo_db = Inr role \<and>
     role \<in> {''administrator'', ''fso''}"
proof -
  let ?rt = "\<lparr>rt_method = ''POST'', rt_path = ''/api/v1/admin/wiki/'', rt_gates = role_gates writers, rt_handler = ''wiki.AdminCreate''\<rparr>"
  let ?run = "run_state (through demo_host demo_libs ((demo_call ''tok'')\<lparr>cl_method := rt_method ?rt\<rparr>) (rt_gates ?rt) ok_handler demo_request) demo_db"
  have rt: "?rt \<in> set (routes demo_host)" by (simp add: routes_def wiki_routes_def group_def)
  have path: "under ''/api/v1/admin/'' ?rt" "rt_method ?rt \<noteq> ''GET''" by (simp_all add: under_def)
  have "fst ?run = Respond StatusOK ()"
    by (simp add: role_gates_split gate_step_def RequireSession_def demo_call_def demo_run_defs)
  then have run: "?run = (Respond StatusOK (), snd ?run)" by (rule pair_of)
  show ?thesis
    using admin_writes_need_current_role [OF rt path run] unfolding demo_request_flt
    by (elim disjE exE conjE) (simp, blast)
qed

theorem panel_needs_super_admin_witness:
  "\<exists>sess. live (demo_call ''tok'') demo_libs demo_request (demo_db\<lparr>d_sessions := [demo_member\<lparr>s_IsSuperAdmin := True\<rparr>]\<rparr>) sess \<and>
     s_IsSuperAdmin sess"
proof -
  let ?rt = "\<lparr>rt_method = ''GET'', rt_path = ''/api/admin/tenants'', rt_gates = super_gates, rt_handler = ''auth.AdminListTenants''\<rparr>"
  let ?d = "demo_db\<lparr>d_sessions := [demo_member\<lparr>s_IsSuperAdmin := True\<rparr>]\<rparr>"
  let ?run = "run_state (through demo_host demo_libs ((demo_call ''tok'')\<lparr>cl_method := rt_method ?rt\<rparr>) (rt_gates ?rt) ok_handler demo_request) ?d"
  have rt: "?rt \<in> set (routes demo_host)" by (simp add: routes_def super_admin_routes_def group_def)
  have path: "under ''/api/admin/'' ?rt" by (simp add: under_def)
  have "fst ?run = Respond StatusOK ()"
    by (simp add: super_gates_def gate_step_def RequireSession_def demo_call_def demo_run_defs demo_member_def)
  then have run: "?run = (Respond StatusOK (), snd ?run)" by (rule pair_of)
  show ?thesis
    using panel_needs_super_admin [OF rt path run] by (auto simp: demo_request_flt)
qed

end
