(* ===== verification/Admin.thy ===== *)
theory Admin
  imports SubOrg_Handlers "HOL-Library.List_Lexorder" "HOL-Library.Char_ord"
begin

text \<open>
  The statements of \<^verbatim>\<open>backend/internal/auth/store.go\<close> that list sessions, tenants,
  identities and members for the administration panel, and the store of
  \<^verbatim>\<open>auth/usersettings.go\<close>. Those that change tenants and memberships are in \<open>Directory\<close>.
\<close>

subsection \<open>Listings\<close>

text \<open>A session with address and name of its identity.\<close>

record admin_session_row =
  asr_Session :: session
  asr_Email :: string
  asr_Name :: string

definition ListAllActiveSessions :: "faults \<Rightarrow> time \<Rightarrow> int \<Rightarrow> int \<Rightarrow> db \<Rightarrow> err + admin_session_row list" where
  [store_defs]: "ListAllActiveSessions flt now limit offset d =
     (if flt ''auth.ListAllActiveSessions'' 0 then Inl (Fault ''auth.ListAllActiveSessions'')
      else Inr (sql_page limit offset (sql_desc (\<lambda>r. s_LastActiveAt (asr_Session r)) (List.map_filter
        (\<lambda>s. if active now s then map_option (\<lambda>i. \<lparr>asr_Session = s, asr_Email = i_Email i, asr_Name = i_Name i\<rparr>)
               (identity_by d (s_IdentityID s)) else None) (d_sessions d)))))"

record admin_tenant_row =
  at_ID :: uuid
  at_Name :: string
  at_CreatedAt :: time
  at_UpdatedAt :: time
  at_UserCount :: nat
  at_SuspendedAt :: "time option"

definition admin_tenant_row_of :: "db \<Rightarrow> tenant \<Rightarrow> admin_tenant_row" where
  "admin_tenant_row_of d t = \<lparr>at_ID = tn_ID t, at_Name = tn_Name t, at_CreatedAt = tn_CreatedAt t, at_UpdatedAt = tn_UpdatedAt t,
     at_UserCount = sql_affected (\<lambda>u. u_TenantID u = tn_ID t) (d_users d), at_SuspendedAt = tn_SuspendedAt t\<rparr>"

definition ListAllTenants :: "(string \<Rightarrow> int) \<Rightarrow> faults \<Rightarrow> db \<Rightarrow> err + admin_tenant_row list" where
  [store_defs]: "ListAllTenants coll flt d =
     (if flt ''auth.ListAllTenants'' 0 then Inl (Fault ''auth.ListAllTenants'')
      else Inr (sort_key (\<lambda>t. coll (at_Name t)) (map (admin_tenant_row_of d) (filter (\<lambda>t. tn_DeletedAt t = None) (d_tenants d)))))"

record tenant_user_row =
  atu_UserID :: uuid
  atu_Email :: string
  atu_Name :: string
  atu_Role :: string
  atu_IdentityID :: uuid

record admin_tenant_detail =
  ad_Tenant :: tenant
  ad_Users :: "tenant_user_row list"

definition GetTenantDetail :: "(string \<Rightarrow> int) \<Rightarrow> faults \<Rightarrow> uuid \<Rightarrow> db \<Rightarrow> err + admin_tenant_detail" where
  [store_defs]: "GetTenantDetail coll flt tenantID d =
     (case query_row flt ''auth.GetTenantDetail'' ErrNoRows (\<lambda>t. tn_ID t = tenantID \<and> tn_DeletedAt t = None) (d_tenants d) of
        Inl e \<Rightarrow> Inl e
      | Inr t \<Rightarrow> if flt ''auth.GetTenantDetail.users'' 0 then Inl (Fault ''auth.GetTenantDetail.users'')
          else Inr \<lparr>ad_Tenant = t, ad_Users = sort_key (\<lambda>r. coll (atu_Name r)) (List.map_filter
            (\<lambda>u. if u_TenantID u = tenantID then map_option (\<lambda>i. \<lparr>atu_UserID = u_ID u, atu_Email = i_Email i,
                    atu_Name = i_Name i, atu_Role = u_Role u, atu_IdentityID = u_IdentityID u\<rparr>) (identity_by d (u_IdentityID u))
                  else None) (d_users d))\<rparr>)"

record admin_identity_row =
  air_Identity :: identity
  air_TenantCount :: nat

definition ListAllIdentities :: "(string \<Rightarrow> int) \<Rightarrow> faults \<Rightarrow> int \<Rightarrow> int \<Rightarrow> db \<Rightarrow> err + admin_identity_row list" where
  [store_defs]: "ListAllIdentities coll flt limit offset d =
     (if flt ''auth.ListAllIdentities'' 0 then Inl (Fault ''auth.ListAllIdentities'')
      else Inr (sql_page limit offset (sort_key (\<lambda>r. coll (i_Email (air_Identity r)))
        (map (\<lambda>i. \<lparr>air_Identity = i, air_TenantCount = sql_affected (\<lambda>u. u_IdentityID u = i_ID i) (d_users d)\<rparr>) (d_identities d)))))"

text \<open>The memberships in the detail of an identity include those in deleted tenants, and leave
  \<^verbatim>\<open>Suspended\<close> at its zero value.\<close>

record admin_identity_detail =
  id_Identity :: identity
  id_Tenants :: "tenant_membership list"

definition GetIdentityDetail :: "(string \<Rightarrow> int) \<Rightarrow> faults \<Rightarrow> uuid \<Rightarrow> db \<Rightarrow> err + admin_identity_detail" where
  [store_defs]: "GetIdentityDetail coll flt identityID d =
     (case query_row flt ''auth.GetIdentityDetail'' ErrNoRows (\<lambda>i. i_ID i = identityID) (d_identities d) of
        Inl e \<Rightarrow> Inl e
      | Inr i \<Rightarrow> if flt ''auth.GetIdentityDetail.tenants'' 0 then Inl (Fault ''auth.GetIdentityDetail.tenants'')
          else Inr \<lparr>id_Identity = i, id_Tenants = sort_key (\<lambda>m. coll (tm_Name m)) (List.map_filter
            (\<lambda>u. if u_IdentityID u = identityID then map_option (\<lambda>t. \<lparr>tm_TenantID = tn_ID t, tm_Name = tn_Name t,
                    tm_Role = u_Role u, tm_Suspended = False\<rparr>) (tenant_by d (u_TenantID u))
                  else None) (d_users d))\<rparr>)"

record tenant_member_row =
  mr_UserID :: uuid
  mr_Name :: string
  mr_Email :: string
  mr_Role :: string
  mr_SubOrg :: "(uuid \<times> string) option"

text \<open>\<^verbatim>\<open>DISTINCT ON (u.id) ... ORDER BY u.id, s.name\<close> keeps, for every user, the first of
  their sub-organizations by name; the rows are then sorted by name byte for byte.\<close>

definition first_suborg :: "(string \<Rightarrow> int) \<Rightarrow> db \<Rightarrow> uuid \<Rightarrow> (uuid \<times> string) option" where
  "first_suborg coll d u = (case sort_key (\<lambda>s. coll (so_Name s)) (List.map_filter
     (\<lambda>m. if fst m = u then suborg_by d (snd m) else None) (d_members d)) of
     [] \<Rightarrow> None | s # _ \<Rightarrow> Some (so_ID s, so_Name s))"

definition ListTenantMembers ::
  "(string \<Rightarrow> int) \<Rightarrow> (string \<Rightarrow> string \<Rightarrow> bool) \<Rightarrow> faults \<Rightarrow> uuid \<Rightarrow> string \<Rightarrow> db \<Rightarrow> err + tenant_member_row list" where
  [store_defs]: "ListTenantMembers coll ilike flt tenantID search d =
     (if flt ''auth.ListTenantMembers'' 0 then Inl (Fault ''auth.ListTenantMembers'')
      else Inr (sort_key mr_Name (List.map_filter
        (\<lambda>u. if u_TenantID u \<noteq> tenantID then None else (case identity_by d (u_IdentityID u) of None \<Rightarrow> None | Some i \<Rightarrow>
               if search = [] \<or> ilike (i_Name i) search \<or> ilike (i_Email i) search
               then Some \<lparr>mr_UserID = u_ID u, mr_Name = i_Name i, mr_Email = i_Email i, mr_Role = u_Role u,
                           mr_SubOrg = first_suborg coll d (u_ID u)\<rparr>
               else None)) (sort_key u_ID (d_users d)))))"

subsection \<open>Settings of a user\<close>

definition FrequencyEveryTask :: string where "FrequencyEveryTask = ''every_task''"
definition FrequencyDailySummary :: string where "FrequencyDailySummary = ''daily_summary''"

definition frequency_check :: "string \<Rightarrow> bool" where
  "frequency_check f = (f \<in> {''every_task'', ''daily_summary''})"

text \<open>A user without a row has the default.\<close>

definition UserSettings_Get :: "faults \<Rightarrow> uuid \<Rightarrow> db \<Rightarrow> err + string" where
  [store_defs]: "UserSettings_Get flt userID d =
     (if flt ''usersettings.Get'' 0 then Inl (Fault ''usersettings.Get'')
      else Inr (case sql_row (\<lambda>x. pf_UserID x = userID) (d_user_settings d) of
        None \<Rightarrow> ''every_task'' | Some x \<Rightarrow> pf_NotificationFrequency x))"

definition NotificationFrequency :: "faults \<Rightarrow> uuid \<Rightarrow> db \<Rightarrow> err + string" where
  [store_defs]: "NotificationFrequency flt userID d = UserSettings_Get flt userID d"

definition UserSettings_Upsert :: "faults \<Rightarrow> time \<Rightarrow> uuid \<Rightarrow> string \<Rightarrow> db \<Rightarrow> (db, unit) store_result" where
  [store_defs]: "UserSettings_Upsert flt now userID f d =
     (if flt ''usersettings.Upsert'' 0 \<or> user_by d userID = None \<or> \<not> frequency_check f then (d, Inl (Fault ''usersettings.Upsert''))
      else (d\<lparr>d_user_settings := (if sql_exists (\<lambda>x. pf_UserID x = userID) (d_user_settings d)
         then sql_update (\<lambda>x. pf_UserID x = userID) (\<lambda>x. x\<lparr>pf_NotificationFrequency := f, pf_UpdatedAt := now\<rparr>) (d_user_settings d)
         else d_user_settings d @ [\<lparr>pf_UserID = userID, pf_NotificationFrequency = f, pf_LastDigestSentAt = None, pf_UpdatedAt = now\<rparr>])\<rparr>,
       Inr ()))"

text \<open>What was stored is read back, and nobody else's settings change.\<close>

lemma settings_roundtrip:
  assumes "UserSettings_Upsert flt now u f d = (d', Inr ())"
  shows "UserSettings_Get no_faults v d' = (if v = u then Inr f else UserSettings_Get no_faults v d)"
proof (cases "\<exists>x \<in> set (d_user_settings d). pf_UserID x = u")
  case True
  let ?f = "\<lambda>x. x\<lparr>pf_NotificationFrequency := f, pf_UpdatedAt := now\<rparr>"
  obtain y where y: "sql_row (\<lambda>x. pf_UserID x = u) (d_user_settings d) = Some y"
    using True by (cases "sql_row (\<lambda>x. pf_UserID x = u) (d_user_settings d)") (auto simp: sql_row_None)
  have d': "d_user_settings d' = sql_update (\<lambda>x. pf_UserID x = u) ?f (d_user_settings d)"
    using assms True by (auto simp: UserSettings_Upsert_def split: if_splits)
  have "sql_row (\<lambda>x. pf_UserID x = v) (d_user_settings d') =
      map_option (\<lambda>x. if pf_UserID x = u then ?f x else x) (sql_row (\<lambda>x. pf_UserID x = v) (d_user_settings d))"
    unfolding d' by (rule sql_row_update_key) simp
  with y sql_row_Some [OF y] show ?thesis
    by (cases "v = u") (auto simp: UserSettings_Get_def split: option.split dest!: sql_row_Some)
next
  case False
  then have "sql_row (\<lambda>x. pf_UserID x = u) (d_user_settings d) = None" by (auto simp: sql_row_None)
  moreover have "d_user_settings d' = d_user_settings d @
      [\<lparr>pf_UserID = u, pf_NotificationFrequency = f, pf_LastDigestSentAt = None, pf_UpdatedAt = now\<rparr>]"
    using assms False by (auto simp: UserSettings_Upsert_def split: if_splits)
  ultimately show ?thesis by (auto simp: UserSettings_Get_def sql_row_append split: option.split)
qed

end
