(* ===== verification/Admin_Handlers.thy ===== *)
theory Admin_Handlers
  imports Admin
begin

text \<open>
  \<^verbatim>\<open>backend/internal/auth/admin.go\<close>: the panel of the super administrators and the
  management of members by the administrators of a tenant; \<^verbatim>\<open>auth/settings.go\<close> and the
  handlers of \<^verbatim>\<open>auth/usersettings.go\<close>. The identifier in the path is a string as it
  arrives; on the routes of a tenant's own administrators it is empty. Mailer, invite store and
  sub-organization store are configured, as \<^verbatim>\<open>router.New\<close> does.
\<close>

definition with_session :: "request \<Rightarrow> (session \<Rightarrow> (db, 'b response) state) \<Rightarrow> (db, 'b response) state" where
  "with_session r h = (case r_session r of None \<Rightarrow> reply no_session | Some sess \<Rightarrow> h sess)"

lemma with_session_Some [simp]: "r_session r = Some sess \<Longrightarrow> with_session r h = h sess"
  by (simp add: with_session_def)

lemma keeps_with_session [frame_rules]:
  "(\<And>sess. r_session r = Some sess \<Longrightarrow> keeps_inv P (h sess)) \<Longrightarrow> keeps_inv P (with_session r h)"
  by (auto simp: with_session_def keeps_reply split: option.split)

definition admin_audit :: "request \<Rightarrow> session \<Rightarrow> uuid option \<Rightarrow> string \<Rightarrow> (string \<times> json) list \<Rightarrow> (db, unit) state" where
  "admin_audit r sess tenantID action meta =
     audit_log r 0 action (Some (s_IdentityID sess)) (Some (s_ID sess)) tenantID meta"

lemma keeps_admin_audit [frame_rules]:
  "(\<And>d t. P (d\<lparr>d_audit := t\<rparr>) = P d) \<Longrightarrow> keeps_inv P (admin_audit r sess tid action meta)"
  unfolding admin_audit_def by (rule keeps_audit_log)

abbreviation bad :: "string \<Rightarrow> 'b response" where "bad text \<equiv> Abort StatusBadRequest (Msg text)"
abbreviation missing :: "string \<Rightarrow> 'b response" where "missing text \<equiv> Abort StatusNotFound (Msg text)"

subsection \<open>Sessions and the log\<close>

definition AdminListSessions :: "request \<Rightarrow> string option \<Rightarrow> string option \<Rightarrow> (db, admin_session_row list response) state" where
  [http_defs]: "AdminListSessions r limit_q offset_q = (let page = ParsePagination limit_q offset_q 50 in do {
     found \<leftarrow> asks (ListAllActiveSessions (r_flt r) (r_now r) (fst page) (snd page));
     (case found of Inl _ \<Rightarrow> reply internal_error | Inr ss \<Rightarrow> reply (Respond StatusOK ss))
   })"

definition AdminRevokeSession :: "libs \<Rightarrow> request \<Rightarrow> string \<Rightarrow> (db, unit response) state" where
  [http_defs]: "AdminRevokeSession L r id_param = with_session r (\<lambda>sess. with_uuid L ''invalid session ID'' id_param (\<lambda>targetID. do {
     done \<leftarrow> on_sessions (Session_Revoke (r_flt r) (r_now r) targetID (Some (s_IdentityID sess)) ''admin_revoked'');
     (case done of Inl _ \<Rightarrow> reply (missing ''session not found'') | Inr _ \<Rightarrow> reply (Respond StatusOK ()))
   }))"

text \<open>An identity that does not parse is ignored: the whole log is listed.\<close>

definition AdminListAudit :: "libs \<Rightarrow> request \<Rightarrow> string \<Rightarrow> string option \<Rightarrow> string option \<Rightarrow> (db, audit_row list response) state" where
  [http_defs]: "AdminListAudit L r id_q limit_q offset_q = (let page = ParsePagination limit_q offset_q 50;
       identityID = (if id_q = [] then None else l_uuid L id_q) in do {
     found \<leftarrow> asks (\<lambda>d. Audit_Query (r_flt r) identityID (fst page) (snd page) (d_audit d));
     (case found of Inl _ \<Rightarrow> reply internal_error | Inr es \<Rightarrow> reply (Respond StatusOK es))
   })"

definition TenantAuditLog ::
  "(string \<Rightarrow> string) \<Rightarrow> libs \<Rightarrow> request \<Rightarrow> string \<Rightarrow> string \<Rightarrow> string option \<Rightarrow> string option \<Rightarrow>
   (db, ((audit_row \<times> string \<times> string) list \<times> nat) response) state" where
  [http_defs]: "TenantAuditLog inet_text L r action search limit_q offset_q = with_tenant r (\<lambda>sess tid.
     let page = ParsePagination limit_q offset_q 50 in do {
     found \<leftarrow> asks (\<lambda>d. Audit_QueryByTenant inet_text (l_ilike L)
       (\<lambda>i. map_option (\<lambda>x. (i_Name x, i_Email x)) (identity_by d i))
       (\<lambda>i. sql_exists (\<lambda>u. u_IdentityID u = i \<and> u_TenantID u = tid) (d_users d))
       (r_flt r) tid action search (fst page) (snd page) (d_audit d));
     (case found of Inl _ \<Rightarrow> reply internal_error | Inr es \<Rightarrow> reply (Respond StatusOK es))
   })"

subsection \<open>Tenants\<close>

definition AdminListTenants :: "libs \<Rightarrow> request \<Rightarrow> (db, admin_tenant_row list response) state" where
  [http_defs]: "AdminListTenants L r = do {
     found \<leftarrow> asks (ListAllTenants (l_collate L) (r_flt r));
     (case found of Inl _ \<Rightarrow> reply internal_error | Inr ts \<Rightarrow> reply (Respond StatusOK ts))
   }"

definition AdminDeleteTenant :: "libs \<Rightarrow> request \<Rightarrow> string \<Rightarrow> (db, unit response) state" where
  [http_defs]: "AdminDeleteTenant L r id_param = with_session r (\<lambda>sess. with_uuid L ''invalid tenant ID'' id_param (\<lambda>tenantID. do {
     done \<leftarrow> on_db (Auth_DeleteTenant (r_flt r) (r_now r) tenantID);
     (case done of Inl _ \<Rightarrow> reply (missing ''tenant not found'') | Inr _ \<Rightarrow> do {
        admin_audit r sess (Some tenantID) ''tenant_deleted'' [];
        reply (Respond StatusOK ())
      })
   }))"

definition AdminCreateTenant :: "request \<Rightarrow> string option \<Rightarrow> (db, admin_tenant_row response) state" where
  [http_defs]: "AdminCreateTenant r body = with_session r (\<lambda>sess. (case body of None \<Rightarrow> reply (bad ''name is required'') | Some raw \<Rightarrow>
     let name = TrimSpace raw in
     if name = [] then reply (bad ''name is required'')
     else do {
       made \<leftarrow> on_db (Auth_CreateTenant (r_flt r) (r_now r) (r_fresh r 0) (r_fresh r 1) name);
       (case made of Inl _ \<Rightarrow> reply internal_error | Inr t \<Rightarrow> do {
          admin_audit r sess None ''tenant_created'' [(''tenant_id'', JId (tn_ID t)), (''tenant_name'', JStr (tn_Name t))];
          reply (Respond StatusCreated \<lparr>at_ID = tn_ID t, at_Name = tn_Name t, at_CreatedAt = tn_CreatedAt t,
            at_UpdatedAt = tn_UpdatedAt t, at_UserCount = 0, at_SuspendedAt = None\<rparr>)
        })
     }))"

definition AdminGetTenant :: "libs \<Rightarrow> request \<Rightarrow> string \<Rightarrow> (db, admin_tenant_detail response) state" where
  [http_defs]: "AdminGetTenant L r id_param = with_uuid L ''invalid tenant ID'' id_param (\<lambda>tenantID. do {
     found \<leftarrow> asks (GetTenantDetail (l_collate L) (r_flt r) tenantID);
     (case found of Inl _ \<Rightarrow> reply (missing ''tenant not found'') | Inr x \<Rightarrow> reply (Respond StatusOK x))
   })"

definition AdminUpdateTenant :: "libs \<Rightarrow> request \<Rightarrow> string \<Rightarrow> string option \<Rightarrow> (db, unit response) state" where
  [http_defs]: "AdminUpdateTenant L r id_param body = with_session r (\<lambda>sess. with_uuid L ''invalid tenant ID'' id_param (\<lambda>tenantID.
     (case body of None \<Rightarrow> reply (bad ''name is required'') | Some raw \<Rightarrow>
     let name = TrimSpace raw in
     if name = [] then reply (bad ''name is required'')
     else do {
       done \<leftarrow> on_db (Auth_UpdateTenant (r_flt r) (r_now r) tenantID name);
       (case done of Inl _ \<Rightarrow> reply (missing ''tenant not found'') | Inr _ \<Rightarrow> do {
          admin_audit r sess (Some tenantID) ''tenant_updated'' [(''new_name'', JStr name)];
          reply (Respond StatusOK ())
        })
     })))"

text \<open>\<^verbatim>\<open>adminTenantID\<close>: the tenant of the path for a super administrator, of the session
  for the administrator of a tenant.\<close>

definition adminTenantID :: "libs \<Rightarrow> request \<Rightarrow> string \<Rightarrow> (uuid \<Rightarrow> (db, 'b response) state) \<Rightarrow> (db, 'b response) state" where
  "adminTenantID L r id_param h =
     (if id_param \<noteq> [] then with_uuid L ''invalid tenant ID'' id_param h
      else (case Option.bind (r_session r) s_TenantID of
        None \<Rightarrow> reply (Abort StatusForbidden (Msg ''no tenant'')) | Some t \<Rightarrow> h t))"

lemma keeps_adminTenantID [frame_rules]: "(\<And>t. keeps_inv P (h t)) \<Longrightarrow> keeps_inv P (adminTenantID L r i h)"
  by (auto simp: adminTenantID_def with_uuid_def keeps_reply split: option.split)

text \<open>The suspension comes first, the sessions after it; when they cannot be revoked, that is
  only logged.\<close>

definition AdminSuspendTenant :: "libs \<Rightarrow> request \<Rightarrow> string \<Rightarrow> (db, nat response) state" where
  [http_defs]: "AdminSuspendTenant L r id_param = with_session r (\<lambda>sess. adminTenantID L r id_param (\<lambda>tenantID. do {
     done \<leftarrow> on_db (Auth_SuspendTenant (r_flt r) (r_now r) tenantID);
     (case done of Inl _ \<Rightarrow> reply (bad ''tenant not found or already suspended'') | Inr _ \<Rightarrow> do {
        res \<leftarrow> on_sessions (Session_RevokeByTenant (r_flt r) (r_now r) tenantID ''tenant_suspended'');
        (let revoked = (case res of Inl _ \<Rightarrow> 0 | Inr n \<Rightarrow> n) in do {
           admin_audit r sess (Some tenantID) ''tenant_suspended'' [(''sessions_revoked'', JNum (int revoked))];
           reply (Respond StatusOK revoked)
         })
      })
   }))"

definition AdminUnsuspendTenant :: "libs \<Rightarrow> request \<Rightarrow> string \<Rightarrow> (db, unit response) state" where
  [http_defs]: "AdminUnsuspendTenant L r id_param = with_session r (\<lambda>sess. adminTenantID L r id_param (\<lambda>tenantID. do {
     done \<leftarrow> on_db (Auth_UnsuspendTenant (r_flt r) (r_now r) tenantID);
     (case done of Inl _ \<Rightarrow> reply (bad ''tenant not found or not suspended'') | Inr _ \<Rightarrow> do {
        admin_audit r sess (Some tenantID) ''tenant_unsuspended'' [];
        reply (Respond StatusOK ())
      })
   }))"

subsection \<open>Identities\<close>

definition AdminListIdentities :: "libs \<Rightarrow> request \<Rightarrow> string option \<Rightarrow> string option \<Rightarrow> (db, admin_identity_row list response) state" where
  [http_defs]: "AdminListIdentities L r limit_q offset_q = (let page = ParsePagination limit_q offset_q 50 in do {
     found \<leftarrow> asks (ListAllIdentities (l_collate L) (r_flt r) (fst page) (snd page));
     (case found of Inl _ \<Rightarrow> reply internal_error | Inr is \<Rightarrow> reply (Respond StatusOK is))
   })"

record identity_request =
  qi_Email :: string
  qi_Name :: string
  qi_Password :: string

definition AdminCreateIdentity :: "libs \<Rightarrow> request \<Rightarrow> identity_request option \<Rightarrow> (db, identity response) state" where
  [http_defs]: "AdminCreateIdentity L r body = with_session r (\<lambda>sess. (case body of
     None \<Rightarrow> reply (bad ''email, name, and password (min 8 chars) are required'') | Some q \<Rightarrow>
     (case l_HashPassword L (qi_Password q) of None \<Rightarrow> reply internal_error | Some hash \<Rightarrow> do {
        made \<leftarrow> on_identities (Identity_Create (l_lower L) (r_flt r) (r_now r) (r_fresh r 0) (qi_Email q) (qi_Name q) (Some hash));
        (case made of Inl _ \<Rightarrow> reply (Abort StatusConflict (Msg ''identity already exists or invalid data'')) | Inr ident \<Rightarrow> do {
           admin_audit r sess None ''identity_created'' [(''created_identity_id'', JId (i_ID ident)), (''email'', JStr (i_Email ident))];
           reply (Respond StatusCreated ident)
         })
      })))"

definition AdminGetIdentity :: "libs \<Rightarrow> request \<Rightarrow> string \<Rightarrow> (db, admin_identity_detail response) state" where
  [http_defs]: "AdminGetIdentity L r id_param = with_uuid L ''invalid identity ID'' id_param (\<lambda>identityID. do {
     found \<leftarrow> asks (GetIdentityDetail (l_collate L) (r_flt r) identityID);
     (case found of Inl _ \<Rightarrow> reply (missing ''identity not found'') | Inr x \<Rightarrow> reply (Respond StatusOK x))
   })"

definition AdminResetPassword :: "libs \<Rightarrow> request \<Rightarrow> string \<Rightarrow> string option \<Rightarrow> (db, unit response) state" where
  [http_defs]: "AdminResetPassword L r id_param body = with_session r (\<lambda>sess. with_uuid L ''invalid identity ID'' id_param (\<lambda>identityID.
     (case body of None \<Rightarrow> reply (bad ''password (min 8 chars) is required'') | Some password \<Rightarrow>
     (case l_HashPassword L password of None \<Rightarrow> reply internal_error | Some hash \<Rightarrow> do {
        done \<leftarrow> on_identities (Identity_UpdatePassword (r_flt r) (r_now r) identityID hash);
        (case done of Inl _ \<Rightarrow> reply (missing ''identity not found'') | Inr _ \<Rightarrow> do {
           admin_audit r sess None ''password_reset'' [(''target_identity_id'', JId identityID)];
           reply (Respond StatusOK ())
         })
      }))))"

definition validRoles :: "string \<Rightarrow> bool" where
  "validRoles role = (role \<in> {''administrator'', ''fso'', ''read_only_fso'', ''individual_contributor''})"

definition AdminAddIdentityToTenant :: "libs \<Rightarrow> request \<Rightarrow> string \<Rightarrow> (uuid \<times> string) option \<Rightarrow> (db, unit response) state" where
  [http_defs]: "AdminAddIdentityToTenant L r id_param body = with_session r (\<lambda>sess. with_uuid L ''invalid identity ID'' id_param (\<lambda>identityID.
     (case body of None \<Rightarrow> reply (bad ''tenant_id and role are required'') | Some (tenantID, role) \<Rightarrow>
     if \<not> validRoles role then reply (bad ''invalid role'')
     else do {
       done \<leftarrow> on_db (AddIdentityToTenant (r_flt r) (r_now r) (r_fresh r 0) identityID tenantID role);
       (case done of Inl _ \<Rightarrow> reply (Abort StatusConflict (Msg ''identity already in this tenant or invalid tenant'')) | Inr _ \<Rightarrow> do {
          admin_audit r sess (Some tenantID) ''identity_added_to_tenant'' [(''target_identity_id'', JId identityID), (''role'', JStr role)];
          reply (Respond StatusCreated ())
        })
     })))"

definition AdminSetSuperAdmin :: "libs \<Rightarrow> request \<Rightarrow> string \<Rightarrow> bool option \<Rightarrow> (db, unit response) state" where
  [http_defs]: "AdminSetSuperAdmin L r id_param body = with_session r (\<lambda>sess. with_uuid L ''invalid identity ID'' id_param (\<lambda>identityID.
     (case body of None \<Rightarrow> reply (bad ''is_super_admin is required'') | Some isSuperAdmin \<Rightarrow>
     if identityID = s_IdentityID sess \<and> \<not> isSuperAdmin then reply (bad ''cannot remove your own super admin status'')
     else do {
       done \<leftarrow> on_identities (Identity_SetSuperAdmin (r_flt r) (r_now r) identityID isSuperAdmin);
       (case done of Inl _ \<Rightarrow> reply (missing ''identity not found'') | Inr _ \<Rightarrow> do {
          admin_audit r sess None ''super_admin_set'' [(''target_identity_id'', JId identityID), (''is_super_admin'', JBool isSuperAdmin)];
          reply (Respond StatusOK ())
        })
     })))"

text \<open>The check both the suspension and the deletion of an identity make first: not oneself, and
  not the last active super administrator. Between the count and the statement that follows it
  other requests may run.\<close>

definition spare_last_admin ::
  "request \<Rightarrow> session \<Rightarrow> uuid \<Rightarrow> string \<Rightarrow> string \<Rightarrow> (identity \<Rightarrow> (db, 'b response) state) \<Rightarrow> (db, 'b response) state" where
  "spare_last_admin r sess identityID self last_one h =
     (if identityID = s_IdentityID sess then reply (bad self)
      else do {
        found \<leftarrow> asks (\<lambda>d. Identity_GetByID (r_flt r) identityID (d_identities d));
        (case found of Inl _ \<Rightarrow> reply (missing ''identity not found'') | Inr ident \<Rightarrow>
           if \<not> i_IsSuperAdmin ident then h ident
           else do {
             count \<leftarrow> asks (\<lambda>d. Identity_CountActiveSuperAdmins (r_flt r) (d_identities d));
             (case count of Inl _ \<Rightarrow> reply internal_error | Inr n \<Rightarrow> if n \<le> 1 then reply (bad last_one) else h ident)
           })
      })"

definition AdminSuspendIdentity :: "libs \<Rightarrow> request \<Rightarrow> string \<Rightarrow> (db, nat response) state" where
  [http_defs]: "AdminSuspendIdentity L r id_param = with_session r (\<lambda>sess. with_uuid L ''invalid identity ID'' id_param (\<lambda>identityID.
     spare_last_admin r sess identityID ''cannot suspend yourself'' ''cannot suspend the last active super admin'' (\<lambda>ident. do {
       done \<leftarrow> on_identities (Identity_Suspend (r_flt r) (r_now r) identityID);
       (case done of Inl _ \<Rightarrow> reply (bad ''identity not found or already suspended'') | Inr _ \<Rightarrow> do {
          res \<leftarrow> on_sessions (Session_RevokeByIdentity (r_flt r) (r_now r) identityID ''identity_suspended'');
          (let revoked = (case res of Inl _ \<Rightarrow> 0 | Inr n \<Rightarrow> n) in do {
             admin_audit r sess None ''identity_suspended'' [(''target_identity_id'', JId identityID), (''sessions_revoked'', JNum (int revoked))];
             reply (Respond StatusOK revoked)
           })
        })
     })))"

definition AdminUnsuspendIdentity :: "libs \<Rightarrow> request \<Rightarrow> string \<Rightarrow> (db, unit response) state" where
  [http_defs]: "AdminUnsuspendIdentity L r id_param = with_session r (\<lambda>sess. with_uuid L ''invalid identity ID'' id_param (\<lambda>identityID. do {
     done \<leftarrow> on_identities (Identity_Unsuspend (r_flt r) (r_now r) identityID);
     (case done of Inl _ \<Rightarrow> reply (bad ''identity not found or not suspended'') | Inr _ \<Rightarrow> do {
        admin_audit r sess None ''identity_unsuspended'' [(''target_identity_id'', JId identityID)];
        reply (Respond StatusOK ())
      })
   }))"

definition AdminDeleteIdentity :: "libs \<Rightarrow> request \<Rightarrow> string \<Rightarrow> (db, unit response) state" where
  [http_defs]: "AdminDeleteIdentity L r id_param = with_session r (\<lambda>sess. with_uuid L ''invalid identity ID'' id_param (\<lambda>identityID.
     spare_last_admin r sess identityID ''cannot delete yourself'' ''cannot delete the last active super admin'' (\<lambda>ident. do {
       done \<leftarrow> on_db (Identity_Delete (r_flt r) identityID);
       (case done of Inl _ \<Rightarrow> reply (Abort StatusInternalServerError (Msg ''failed to delete identity'')) | Inr _ \<Rightarrow> do {
          admin_audit r sess None ''identity_deleted'' [(''deleted_identity_id'', JId identityID), (''email'', JStr (i_Email ident))];
          reply (Respond StatusOK ())
        })
     })))"

subsection \<open>Members of a tenant\<close>

definition with_tenant_403 :: "request \<Rightarrow> (session \<Rightarrow> uuid \<Rightarrow> (db, 'b response) state) \<Rightarrow> (db, 'b response) state" where
  "with_tenant_403 r h = (case r_session r of None \<Rightarrow> reply (Abort StatusForbidden (Msg ''no tenant'')) | Some sess \<Rightarrow>
     (case s_TenantID sess of None \<Rightarrow> reply (Abort StatusForbidden (Msg ''no tenant'')) | Some t \<Rightarrow> h sess t))"

lemma with_tenant_403_Some [simp]: "r_session r = Some sess \<Longrightarrow> s_TenantID sess = Some t \<Longrightarrow> with_tenant_403 r h = h sess t"
  by (simp add: with_tenant_403_def)

lemma keeps_with_tenant_403 [frame_rules]:
  "(\<And>sess t. r_session r = Some sess \<Longrightarrow> s_TenantID sess = Some t \<Longrightarrow> keeps_inv P (h sess t)) \<Longrightarrow> keeps_inv P (with_tenant_403 r h)"
  by (auto simp: with_tenant_403_def keeps_reply split: option.split)

definition TenantListMembers :: "libs \<Rightarrow> request \<Rightarrow> string \<Rightarrow> (db, tenant_member_row list response) state" where
  [http_defs]: "TenantListMembers L r search = with_tenant_403 r (\<lambda>sess tid. do {
     found \<leftarrow> asks (ListTenantMembers (l_collate L) (l_ilike L) (r_flt r) tid search);
     (case found of Inl _ \<Rightarrow> reply internal_error | Inr ms \<Rightarrow> reply (Respond StatusOK ms))
   })"

definition TenantUpdateMemberRole :: "libs \<Rightarrow> request \<Rightarrow> string \<Rightarrow> string option \<Rightarrow> (db, unit response) state" where
  [http_defs]: "TenantUpdateMemberRole L r user_param body = with_tenant_403 r (\<lambda>sess tid. with_uuid L ''invalid user ID'' user_param (\<lambda>userID.
     (case body of None \<Rightarrow> reply (bad ''role is required'') | Some role \<Rightarrow>
     if \<not> validRoles role then reply (bad ''invalid role'')
     else do {
       done \<leftarrow> on_db (UpdateMemberRole (r_flt r) (r_now r) userID tid role);
       (case done of Inl _ \<Rightarrow> reply (missing ''member not found'') | Inr _ \<Rightarrow> do {
          admin_audit r sess (Some tid) ''member_role_updated'' [(''user_id'', JId userID), (''new_role'', JStr role)];
          reply (Respond StatusOK ())
        })
     })))"

text \<open>When only the clean-up of the orphaned identity failed, the removal counts as done.\<close>

definition TenantRemoveMember :: "libs \<Rightarrow> request \<Rightarrow> string \<Rightarrow> (db, unit response) state" where
  [http_defs]: "TenantRemoveMember L r user_param = with_tenant_403 r (\<lambda>sess tid. with_uuid L ''invalid user ID'' user_param (\<lambda>userID. do {
     done \<leftarrow> on_db (RemoveMember (r_flt r) userID tid);
     (case done of
        Inl e \<Rightarrow> if e = ErrMemberNotFound then reply (missing ''member not found'')
          else if \<not> IsOrphanCleanupError e then reply (Abort StatusInternalServerError (Msg ''failed to remove member''))
          else do {
            admin_audit r sess (Some tid) ''member_removed'' [(''user_id'', JId userID)];
            reply (Respond StatusOK ())
          }
      | Inr _ \<Rightarrow> do {
          admin_audit r sess (Some tid) ''member_removed'' [(''user_id'', JId userID)];
          reply (Respond StatusOK ())
        })
   }))"

subsection \<open>Invites\<close>

record invite_request =
  qv_Email :: string
  qv_Name :: string
  qv_Role :: string
  qv_SubOrgID :: "string option"

record invite_params =
  io_Email :: string
  io_Name :: string
  io_Role :: string
  io_SubOrgID :: "uuid option"
  io_SkipEmail :: bool

record invite_result =
  ix_IdentityID :: uuid
  ix_UserID :: uuid
  ix_IdentityCreated :: bool

text \<open>The errors of an invite, by the text they are wrapped in, which is what the handlers look for.\<close>

datatype invite_error = Invalid_Role | Create_Identity err | Already_Member err | Assign_SubOrg err

definition the_role :: "string \<Rightarrow> string" where
  "the_role role = (if role = [] then ''administrator'' else role)"

text \<open>The name of somebody invited without one: the local part of the address, its first
  letter in upper case.\<close>

definition upper_char :: "char \<Rightarrow> char" where
  "upper_char c = (let n = (of_char c :: nat) in if 97 \<le> n \<and> n \<le> 122 then char_of (n - 32) else c)"

definition default_name :: "string \<Rightarrow> string" where
  "default_name email = (let p = takeWhile (\<lambda>c. c \<noteq> CHR ''@'') email in
     if p \<noteq> email \<and> p \<noteq> [] then upper_char (hd p) # tl p else email)"

text \<open>Domain of an address, in lower case; empty for a malformed one.\<close>

definition emailDomain :: "libs \<Rightarrow> string \<Rightarrow> string" where
  "emailDomain L addr = email_domain (l_normalise L addr)"

text \<open>Which mail an invited person gets. \<open>raw\<close> is the token the process draws. No error of
  it ends the invite.\<close>

definition sendInviteEmail ::
  "libs \<Rightarrow> request \<Rightarrow> string option \<Rightarrow> uuid \<Rightarrow> string \<Rightarrow> string \<Rightarrow> identity \<Rightarrow> bool \<Rightarrow> (db, unit) state" where
  [http_defs]: "sendInviteEmail L r raw tenantID email tenantName ident created = (let domain = emailDomain L email in do {
     matched \<leftarrow> asks (\<lambda>d. domain \<noteq> [] \<and>
       (case HasEnabledSSODomain (l_lower L) (r_flt r) tenantID domain d of Inl _ \<Rightarrow> False | Inr b \<Rightarrow> b));
     (if matched then notify [InviteSSOMail email tenantName]
      else if created \<or> \<not> HasPassword ident then do {
        gen \<leftarrow> on_codes (Invite_Generate (l_sha256 L) (r_flt r) (r_now r) raw (r_fresh r 2) (i_ID ident));
        (case gen of Inl _ \<Rightarrow> reply () | Inr token \<Rightarrow> notify [AdminInviteSetupMail email tenantName token])
      }
      else notify [AdminInviteMail email tenantName])
   })"

text \<open>Any failure of the lookup, not only a missing row, starts the creation of an identity. When
  the sub-organization is refused, the membership is removed again, with whatever that entails.\<close>

definition inviteOneMember ::
  "libs \<Rightarrow> request \<Rightarrow> string option \<Rightarrow> uuid \<Rightarrow> invite_params \<Rightarrow> (db, invite_error + invite_result) state" where
  [http_defs]: "inviteOneMember L r raw tenantID p =
     (if \<not> validRoles (the_role (io_Role p)) then reply (Inl Invalid_Role)
      else do {
        found \<leftarrow> asks (\<lambda>d. Identity_GetByEmail (l_lower L) (r_flt r) (io_Email p) (d_identities d));
        got \<leftarrow> (case found of
           Inr ident \<Rightarrow> reply (Inr ident)
         | Inl _ \<Rightarrow> on_identities (Identity_Create (l_lower L) (r_flt r) (r_now r) (r_fresh r 0) (io_Email p)
             (if io_Name p = [] then default_name (io_Email p) else io_Name p) None));
        (case got of Inl e \<Rightarrow> reply (Inl (Create_Identity e)) | Inr ident \<Rightarrow> do {
           added \<leftarrow> on_db (AddIdentityToTenant (r_flt r) (r_now r) (r_fresh r 1) (i_ID ident) tenantID (the_role (io_Role p)));
           (case added of Inl e \<Rightarrow> reply (Inl (Already_Member e)) | Inr userID \<Rightarrow> do {
              moved \<leftarrow> (case io_SubOrgID p of None \<Rightarrow> reply (Inr ())
                | Some so \<Rightarrow> on_db (SubOrg_SetUserSubOrg (r_flt r) tenantID userID so));
              (case moved of
                 Inl e \<Rightarrow> do {
                   on_db (RemoveMember (r_flt r) userID tenantID);
                   reply (Inl (Assign_SubOrg e))
                 }
               | Inr _ \<Rightarrow> do {
                   (if io_SkipEmail p then reply ()
                    else do {
                      detail \<leftarrow> asks (GetTenantDetail (l_collate L) (r_flt r) tenantID);
                      (case detail of Inl _ \<Rightarrow> reply ()
                       | Inr x \<Rightarrow> sendInviteEmail L r raw tenantID (io_Email p) (tn_Name (ad_Tenant x)) ident (\<not> is_ok found))
                    });
                   reply (Inr \<lparr>ix_IdentityID = i_ID ident, ix_UserID = userID, ix_IdentityCreated = (\<not> is_ok found)\<rparr>)
                 })
            })
         })
      })"

definition admin_parseSubOrgID :: "libs \<Rightarrow> string option \<Rightarrow> uuid option option" where
  "admin_parseSubOrgID L raw = (case raw of None \<Rightarrow> Some None
     | Some s \<Rightarrow> if s = [] then Some None else map_option Some (l_uuid L s))"

definition invite_meta :: "invite_request \<Rightarrow> invite_result \<Rightarrow> (string \<times> json) list" where
  "invite_meta q x = [(''invited_email'', JStr (qv_Email q)), (''role'', JStr (the_role (qv_Role q))),
     (''identity_created'', JBool (ix_IdentityCreated x))]"

definition AdminInviteAdmin ::
  "libs \<Rightarrow> request \<Rightarrow> string option \<Rightarrow> string \<Rightarrow> invite_request option \<Rightarrow> (db, (bool \<times> uuid) response) state" where
  [http_defs]: "AdminInviteAdmin L r raw id_param body = with_session r (\<lambda>sess. adminTenantID L r id_param (\<lambda>tenantID.
     (case body of None \<Rightarrow> reply (bad ''email is required'') | Some q \<Rightarrow>
     (case admin_parseSubOrgID L (qv_SubOrgID q) of None \<Rightarrow> reply (bad ''invalid sub_org_id'') | Some so \<Rightarrow> do {
        res \<leftarrow> inviteOneMember L r raw tenantID \<lparr>io_Email = qv_Email q, io_Name = qv_Name q, io_Role = qv_Role q,
          io_SubOrgID = so, io_SkipEmail = False\<rparr>;
        (case res of
           Inl Invalid_Role \<Rightarrow> reply (bad ''invalid role'')
         | Inl (Already_Member _) \<Rightarrow> reply (Abort StatusConflict (Msg ''identity already in this tenant''))
         | Inl (Assign_SubOrg _) \<Rightarrow> reply (bad ''invalid sub-organization'')
         | Inl (Create_Identity _) \<Rightarrow> reply (Abort StatusInternalServerError (Msg ''failed to invite member''))
         | Inr x \<Rightarrow> do {
             admin_audit r sess (Some tenantID) ''admin_invited'' (invite_meta q x);
             reply (Respond StatusCreated (ix_IdentityCreated x, ix_IdentityID x))
           })
      }))))"

definition bulkReason :: "invite_error \<Rightarrow> string" where
  "bulkReason e = (case e of Invalid_Role \<Rightarrow> ''invalid role'' | Already_Member _ \<Rightarrow> ''already a member''
     | Assign_SubOrg _ \<Rightarrow> ''invalid sub-organization'' | Create_Identity _ \<Rightarrow> ''could not create identity'')"

text \<open>Each round of the loop has its own share of the ids and faults of the request.\<close>

definition round_of :: "request \<Rightarrow> nat \<Rightarrow> request" where
  "round_of r n = r\<lparr>r_flt := (\<lambda>q k. r_flt r q (1000 * n + k)), r_fresh := (\<lambda>k. r_fresh r (1000 * n + k))\<rparr>"

lemma round_of_simps [simp]: "r_now (round_of r n) = r_now r" "r_session (round_of r n) = r_session r"
  "r_ip (round_of r n) = r_ip r" "r_ua (round_of r n) = r_ua r" "r_role (round_of r n) = r_role r"
  by (simp_all add: round_of_def)

definition invite_row ::
  "libs \<Rightarrow> request \<Rightarrow> string option \<Rightarrow> session \<Rightarrow> uuid \<Rightarrow> bool \<Rightarrow> invite_request \<Rightarrow> (db, string option) state" where
  [http_defs]: "invite_row L r raw sess tenantID skip q =
     (case admin_parseSubOrgID L (qv_SubOrgID q) of None \<Rightarrow> reply (Some ''invalid sub_org_id'') | Some so \<Rightarrow> do {
        res \<leftarrow> inviteOneMember L r raw tenantID \<lparr>io_Email = qv_Email q, io_Name = qv_Name q, io_Role = qv_Role q,
          io_SubOrgID = so, io_SkipEmail = skip\<rparr>;
        (case res of Inl e \<Rightarrow> reply (Some (bulkReason e)) | Inr x \<Rightarrow> do {
           admin_audit r sess (Some tenantID) ''admin_invited''
             (invite_meta q x @ [(''bulk'', JBool True), (''skip_email'', JBool skip)]);
           reply None
         })
      })"

text \<open>The reply: how many succeeded, and address and reason of the others.\<close>

fun invite_rows ::
  "libs \<Rightarrow> request \<Rightarrow> (nat \<Rightarrow> string option) \<Rightarrow> session \<Rightarrow> uuid \<Rightarrow> bool \<Rightarrow> nat \<Rightarrow> invite_request list \<Rightarrow>
   (db, nat \<times> (string \<times> string) list) state" where
  "invite_rows L r raw sess tenantID skip n [] = reply (0, [])"
| "invite_rows L r raw sess tenantID skip n (q # qs) = do {
     failed \<leftarrow> invite_row L (round_of r n) (raw n) sess tenantID skip q;
     (ok, bads) \<leftarrow> invite_rows L r raw sess tenantID skip (Suc n) qs;
     reply (case failed of None \<Rightarrow> (Suc ok, bads) | Some why \<Rightarrow> (ok, (qv_Email q, why) # bads))
   }"

definition AdminBulkInvite ::
  "libs \<Rightarrow> request \<Rightarrow> (nat \<Rightarrow> string option) \<Rightarrow> string \<Rightarrow> (invite_request list \<times> bool) option \<Rightarrow>
   (db, (nat \<times> (string \<times> string) list) response) state" where
  [http_defs]: "AdminBulkInvite L r raw id_param body = with_session r (\<lambda>sess. adminTenantID L r id_param (\<lambda>tenantID.
     (case body of None \<Rightarrow> reply invalid_request | Some (invites, skip) \<Rightarrow>
     if invites = [] \<or> length invites > 500 then reply invalid_request
     else do {
       res \<leftarrow> invite_rows L r raw sess tenantID skip 0 invites;
       reply (Respond StatusOK res)
     })))"

definition AdminResendInvite :: "libs \<Rightarrow> request \<Rightarrow> string option \<Rightarrow> string \<Rightarrow> (db, unit response) state" where
  [http_defs]: "AdminResendInvite L r raw id_param = with_session r (\<lambda>sess. with_uuid L ''invalid identity ID'' id_param (\<lambda>identityID. do {
     found \<leftarrow> asks (\<lambda>d. Identity_GetByID (r_flt r) identityID (d_identities d));
     (case found of Inl _ \<Rightarrow> reply (missing ''identity not found'') | Inr ident \<Rightarrow>
        if i_Activated ident then reply (bad ''already activated, cannot resend'')
        else do {
          gen \<leftarrow> on_codes (Invite_Generate (l_sha256 L) (r_flt r) (r_now r) raw (r_fresh r 0) identityID);
          (case gen of Inl _ \<Rightarrow> reply internal_error | Inr token \<Rightarrow> do {
             name \<leftarrow> asks (tenantLookup L (r_flt r) identityID);
             notify [AdminInviteSetupMail (i_Email ident) name token];
             admin_audit r sess None ''invite_resent'' [(''target_identity_id'', JId identityID)];
             reply (Respond StatusOK ())
           })
        })
   }))"

definition AdminChangeEmail :: "libs \<Rightarrow> request \<Rightarrow> string \<Rightarrow> string option \<Rightarrow> (db, unit response) state" where
  [http_defs]: "AdminChangeEmail L r id_param body = with_session r (\<lambda>sess. with_uuid L ''invalid identity ID'' id_param (\<lambda>identityID.
     (case body of None \<Rightarrow> reply (bad ''valid email is required'') | Some email \<Rightarrow> do {
        found \<leftarrow> asks (\<lambda>d. Identity_GetByID (r_flt r) identityID (d_identities d));
        (case found of Inl _ \<Rightarrow> reply (missing ''identity not found'') | Inr ident \<Rightarrow>
           if i_Activated ident then reply (bad ''cannot change email after activation'')
           else do {
             done \<leftarrow> on_identities (Identity_UpdateEmail (l_lower L) (r_flt r) (r_now r) identityID email);
             (case done of Inl _ \<Rightarrow> reply (Abort StatusConflict (Msg ''email already in use or invalid'')) | Inr _ \<Rightarrow> do {
                admin_audit r sess None ''email_changed'' [(''target_identity_id'', JId identityID), (''new_email'', JStr email)];
                reply (Respond StatusOK ())
              })
           })
      })))"

subsection \<open>One's own settings\<close>

definition ChangePassword :: "libs \<Rightarrow> request \<Rightarrow> (string \<times> string) option \<Rightarrow> (db, unit response) state" where
  [http_defs]: "ChangePassword L r body = with_session r (\<lambda>sess. (case body of
     None \<Rightarrow> reply (bad ''current_password and new_password (min 8 chars) are required'') | Some (current, new) \<Rightarrow> do {
     found \<leftarrow> asks (\<lambda>d. Identity_GetByID (r_flt r) (s_IdentityID sess) (d_identities d));
     (case found of Inl _ \<Rightarrow> reply internal_error | Inr ident \<Rightarrow>
        if \<not> HasPassword ident then reply (bad ''account does not have a password set'')
        else if \<not> l_CheckPassword L (the (i_PasswordHash ident)) current
        then reply (Abort StatusForbidden (Msg ''current password is incorrect''))
        else (case l_HashPassword L new of None \<Rightarrow> reply internal_error | Some hash \<Rightarrow> do {
          done \<leftarrow> on_identities (Identity_UpdatePassword (r_flt r) (r_now r) (i_ID ident) hash);
          (case done of Inl _ \<Rightarrow> reply internal_error | Inr _ \<Rightarrow> do {
             admin_audit r sess None ''password_changed'' [];
             reply (Respond StatusOK ())
           })
        }))
   }))"

definition SecurityOverview :: "request \<Rightarrow> (db, (bool \<times> bool \<times> nat) response) state" where
  [http_defs]: "SecurityOverview r = with_session r (\<lambda>sess. do {
     found \<leftarrow> asks (\<lambda>d. Identity_GetByID (r_flt r) (s_IdentityID sess) (d_identities d));
     (case found of Inl _ \<Rightarrow> reply internal_error | Inr ident \<Rightarrow> do {
        hasTOTP \<leftarrow> asks (\<lambda>d. HasVerifiedTOTP (r_flt r) (s_IdentityID sess) (d_totp d));
        count \<leftarrow> asks (\<lambda>d. Passkey_CountByIdentity (r_flt r) (s_IdentityID sess) (d_passkeys d));
        reply (Respond StatusOK (HasPassword ident, case hasTOTP of Inl _ \<Rightarrow> False | Inr b \<Rightarrow> b, case count of Inl _ \<Rightarrow> 0 | Inr n \<Rightarrow> n))
      })
   })"

definition with_user :: "request \<Rightarrow> (session \<Rightarrow> uuid \<Rightarrow> (db, 'b response) state) \<Rightarrow> (db, 'b response) state" where
  "with_user r h = (case r_session r of None \<Rightarrow> reply no_session | Some sess \<Rightarrow>
     (case s_UserID sess of None \<Rightarrow> reply no_session | Some u \<Rightarrow> h sess u))"

lemma with_user_Some [simp]: "r_session r = Some sess \<Longrightarrow> s_UserID sess = Some u \<Longrightarrow> with_user r h = h sess u"
  by (simp add: with_user_def)

definition GetUserSettings :: "request \<Rightarrow> (db, string response) state" where
  [http_defs]: "GetUserSettings r = with_user r (\<lambda>sess u. do {
     found \<leftarrow> asks (UserSettings_Get (r_flt r) u);
     (case found of Inl _ \<Rightarrow> reply internal_error | Inr f \<Rightarrow> reply (Respond StatusOK f))
   })"

definition UpdateUserSettings :: "request \<Rightarrow> string option \<Rightarrow> (db, string response) state" where
  [http_defs]: "UpdateUserSettings r body = with_user r (\<lambda>sess u. (case body of None \<Rightarrow> reply invalid_request | Some f \<Rightarrow>
     if f \<notin> {''every_task'', ''daily_summary''} then reply (bad ''invalid notification_frequency'')
     else do {
       done \<leftarrow> on_db (UserSettings_Upsert (r_flt r) (r_now r) u f);
       (case done of Inl _ \<Rightarrow> reply internal_error | Inr _ \<Rightarrow> reply (Respond StatusOK f))
     }))"

end
