(* ===== verification/Panel_Properties.thy ===== *)
theory Panel_Properties
  imports Route_Properties Admin_Handlers
begin

text \<open>
  Properties of the super-admin panel and of invitations: that the last active super administrator
  survives, what a demotion and the deletion of a tenant leave open, and the accounts of a bulk invite.
\<close>

subsection \<open>Super administrators\<close>

definition acting_admin :: "identity \<Rightarrow> bool" where
  "acting_admin x = (i_IsSuperAdmin x \<and> i_SuspendedAt x = None)"

lemma two_admins:
  assumes "keyed i_ID t" "sql_affected acting_admin t > 1"
  shows "\<exists>x \<in> set t. acting_admin x \<and> i_ID x \<noteq> j"
proof (rule ccontr)
  assume "\<not> ?thesis"
  then have all: "\<forall>x \<in> set (filter acting_admin t). i_ID x = j" by auto
  have "distinct (map i_ID (filter acting_admin t))"
    using assms(1) by (simp add: keyed_def distinct_map_filter)
  moreover have "set (map i_ID (filter acting_admin t)) \<subseteq> {j}" using all by auto
  ultimately have "length (map i_ID (filter acting_admin t)) \<le> card {j}"
    by (metis card_mono distinct_card finite.emptyI finite.insertI)
  with assms(2) show False by (simp add: sql_affected_def)
qed

text \<open>What the check lets through.\<close>

lemma spared:
  assumes key: "keyed i_ID (d_identities d)" and some: "\<exists>x \<in> set (d_identities d). acting_admin x"
    and run: "run_state (spare_last_admin r sess j a b h) d = (Respond c x, d')"
  shows "\<exists>ident. run_state (h ident) d = (Respond c x, d') \<and> (\<exists>x \<in> set (d_identities d). acting_admin x \<and> i_ID x \<noteq> j)"
proof -
  from run obtain ident where found: "Identity_GetByID (r_flt r) j (d_identities d) = Inr ident"
    and h: "run_state (h ident) d = (Respond c x, d')"
    and count: "i_IsSuperAdmin ident \<Longrightarrow> sql_affected acting_admin (d_identities d) > 1"
    by (auto simp: spare_last_admin_def Identity_CountActiveSuperAdmins_def acting_admin_def [abs_def] split: if_splits sum.splits)
  have "\<exists>x \<in> set (d_identities d). acting_admin x \<and> i_ID x \<noteq> j"
  proof (cases "i_IsSuperAdmin ident")
    case True
    then show ?thesis using two_admins [OF key count] by blast
  next
    case False
    from some obtain y where y: "y \<in> set (d_identities d)" "acting_admin y" by blast
    have "i_ID y \<noteq> j"
      using GetByID_ok [OF found] y False keyed_unique [OF key, of y ident] by (auto simp: acting_admin_def)
    with y show ?thesis by blast
  qed
  with h show ?thesis by blast
qed

text \<open>[C25] The last one stays: when the panel suspends or deletes an identity, an active super
  administrator is left if there was one, whoever the target and whatever its own state.\<close>

theorem last_super_admin_survives:
  assumes "keyed i_ID (d_identities d)" "\<exists>x \<in> set (d_identities d). acting_admin x"
    and "run_state (AdminSuspendIdentity L r i) d = (Respond c n, d') \<or> run_state (AdminDeleteIdentity L r i) d = (Respond c (), d')"
  shows "\<exists>x \<in> set (d_identities d'). acting_admin x"
proof -
  have "\<exists>j y. y \<in> set (d_identities d) \<and> acting_admin y \<and> i_ID y \<noteq> j \<and>
      (\<forall>x \<in> set (d_identities d). i_ID x \<noteq> j \<longrightarrow> x \<in> set (d_identities d'))"
    using assms(3)
  proof
    assume "run_state (AdminSuspendIdentity L r i) d = (Respond c n, d')"
    then obtain sess j where "run_state (spare_last_admin r sess j ''cannot suspend yourself'' ''cannot suspend the last active super admin'' (\<lambda>ident. do {
       done \<leftarrow> on_identities (Identity_Suspend (r_flt r) (r_now r) j);
       (case done of Inl _ \<Rightarrow> reply (bad ''identity not found or already suspended'') | Inr _ \<Rightarrow> do {
          res \<leftarrow> on_sessions (Session_RevokeByIdentity (r_flt r) (r_now r) j ''identity_suspended'');
          (let revoked = (case res of Inl _ \<Rightarrow> 0 | Inr n \<Rightarrow> n) in do {
             admin_audit r sess None ''identity_suspended'' [(''target_identity_id'', JId j), (''sessions_revoked'', JNum (int revoked))];
             reply (Respond StatusOK revoked)
           })
        })
     })) d = (Respond c n, d')"
      by (auto simp: AdminSuspendIdentity_def with_session_def with_uuid_def split: option.splits)
    from spared [OF assms(1,2) this] show ?thesis
      by (fastforce simp: Identity_Suspend_def identity_set_def fst_exec_update admin_audit_def Let_def sql_update_def image_iff
          split: sum.splits if_splits)
  next
    assume "run_state (AdminDeleteIdentity L r i) d = (Respond c (), d')"
    then obtain sess j where "run_state (spare_last_admin r sess j ''cannot delete yourself'' ''cannot delete the last active super admin'' (\<lambda>ident. do {
       done \<leftarrow> on_db (Identity_Delete (r_flt r) j);
       (case done of Inl _ \<Rightarrow> reply (Abort StatusInternalServerError (Msg ''failed to delete identity'')) | Inr _ \<Rightarrow> do {
          admin_audit r sess None ''identity_deleted'' [(''deleted_identity_id'', JId j), (''email'', JStr (i_Email ident))];
          reply (Respond StatusOK ())
        })
     })) d = (Respond c (), d')"
      by (auto simp: AdminDeleteIdentity_def with_session_def with_uuid_def split: option.splits)
    from spared [OF assms(1,2) this] show ?thesis
      by (fastforce simp: Identity_Delete_def admin_audit_def delete_identity_facts split: sum.splits if_splits)
  qed
  then show ?thesis by blast
qed

text \<open>A live session passes every chain of gates that admits it.\<close>

lemma through_live:
  assumes "keyed s_ID (d_sessions d)" "live c L r d sess" "\<not> r_flt r ''session.GetValid'' 0"
    and "r_now r - s_LastActiveAt sess \<le> touchDebounce"
  shows "run_state (through H L c (HasSession # gs) h r) d = run_state (through H L c gs h (r\<lparr>r_session := Some sess\<rparr>)) d"
proof -
  from assms(2) obtain ck where ck: "w_cookie c = Some ck" "l_uuid L ck = Some (s_ID sess)"
    by (auto simp: live_def Option.bind_eq_Some_conv)
  have "Session_GetValid (r_flt r) (r_now r) (s_ID sess) (d_sessions d) = Inr sess"
  proof -
    have "is_ok (Session_GetValid (r_flt r) (r_now r) (s_ID sess) (d_sessions d))"
      using assms(2,3) by (auto simp: GetValid_ok live_def IsValid_def)
    then obtain s where s: "Session_GetValid (r_flt r) (r_now r) (s_ID sess) (d_sessions d) = Inr s" by blast
    with GetValid_Inr [OF s] assms(1,2) show ?thesis by (auto simp: live_def intro: keyed_unique)
  qed
  then have "RequireSession Session_GetValid Session_TouchLastActive Session_Revoke (l_uuid L) (r_flt r) (r_now r)
      (w_cookie c) (d_sessions d) = (d_sessions d, Next sess)"
    using assms(2,4) by (simp add: RequireSession_def ck live_def)
  then show ?thesis by (simp add: gate_step_def)
qed

definition panel_call :: "call \<Rightarrow> session \<Rightarrow> bool" where
  "panel_call c sess = (w_csrf c = s_CSRFToken sess \<and> w_csrf c \<noteq> [])"

text \<open>[C24] A demotion does not reach the panel sessions that are open: after the panel has answered
  that an identity is no longer super administrator, a live panel session of that identity still
  passes the gates of the panel, and with it the identity makes itself super administrator again.\<close>

theorem demoted_admin_promotes_itself:
  assumes demoted: "run_state (AdminSetSuperAdmin L r1 i (Some False)) d = (Respond StatusOK (), d1)" "l_uuid L i = Some j"
    and session: "keyed s_ID (d_sessions d)" "live c L r2 d sess" "s_IsSuperAdmin sess" "s_IdentityID sess = j"
    and request: "r_flt r2 = no_faults" "r_now r2 - s_LastActiveAt sess \<le> touchDebounce" "panel_call c sess"
    and route: "rt \<in> set (routes H)" "rt_handler rt = ''auth.AdminSetSuperAdmin''"
  shows "(\<forall>x \<in> set (d_identities d1). i_ID x = j \<longrightarrow> \<not> i_IsSuperAdmin x) \<and>
    (\<exists>d2. run_state (through H L c (rt_gates rt) (\<lambda>r. AdminSetSuperAdmin L r i (Some True)) r2) d1 = (Respond StatusOK (), d2) \<and>
       (\<forall>x \<in> set (d_identities d2). i_ID x = j \<longrightarrow> i_IsSuperAdmin x))"
proof -
  let ?set = "\<lambda>now b. sql_update (\<lambda>x. i_ID x = j) (\<lambda>x. x\<lparr>i_IsSuperAdmin := b, i_UpdatedAt := now\<rparr>)"
  have d1: "d_identities d1 = ?set (r_now r1) False (d_identities d)" "d_sessions d1 = d_sessions d"
    and ex: "\<exists>x \<in> set (d_identities d). i_ID x = j"
    using demoted by (auto simp: AdminSetSuperAdmin_def with_session_def with_uuid_def admin_audit_def Identity_SetSuperAdmin_def
        identity_set_def done_some_def exec_update_def sql_affected_def filter_empty_conv split: option.splits sum.splits if_splits)
  let ?r = "r2\<lparr>r_session := Some sess\<rparr>"
  have "rt_gates rt = HasSession # [CSRF, SuperAdmin]"
    using route by (auto simp: routes_def route_tables group_def when_routes_def super_gates_def split: if_splits)
  moreover have "keyed s_ID (d_sessions d1)" "live c L r2 d1 sess" using session d1 by (simp_all add: live_def)
  ultimately have "run_state (through H L c (rt_gates rt) (\<lambda>r. AdminSetSuperAdmin L r i (Some True)) r2) d1 =
      run_state (through H L c [CSRF, SuperAdmin] (\<lambda>r. AdminSetSuperAdmin L r i (Some True)) ?r) d1"
    using through_live request by (metis no_faults_def)
  also have "\<dots> = run_state (AdminSetSuperAdmin L ?r i (Some True)) d1"
    using session request(3) by (intro through_super) (auto simp: admits_def panel_call_def)
  finally have run: "run_state (through H L c (rt_gates rt) (\<lambda>r. AdminSetSuperAdmin L r i (Some True)) r2) d1 =
      run_state (AdminSetSuperAdmin L ?r i (Some True)) d1" .
  have "sql_affected (\<lambda>x. i_ID x = j) (d_identities d1) > 0"
    using ex d1 by (auto simp: sql_affected_def filter_empty_conv sql_update_def)
  then show ?thesis
    unfolding run using request(1) demoted(2) d1
    by (auto simp: AdminSetSuperAdmin_def with_uuid_def admin_audit_def Identity_SetSuperAdmin_def
        identity_set_def done_some_def exec_update_def no_faults_def ball_sql_update)
qed

subsection \<open>Tenants\<close>

text \<open>[C39] Suspending a tenant ends its sessions, deleting it does not: after a suspension whose second
  statement was carried out no session in the tenant is valid at any later time; after a deletion, which
  only marks the tenant, the table of sessions and the roles of its members are what they were, so
  that its sessions stay valid.\<close>

theorem deleted_tenant_stays_open:
  assumes "l_uuid L i = Some t" "i \<noteq> []"
  shows "(run_state (AdminSuspendTenant L r i) d = (Respond StatusOK n, d1) \<longrightarrow> \<not> r_flt r ''session.RevokeByTenant'' 0 \<longrightarrow>
      s \<in> set (d_sessions d1) \<longrightarrow> s_TenantID s = Some t \<longrightarrow> r_now r \<le> now \<longrightarrow> \<not> IsValid now s) \<and>
    (run_state (AdminDeleteTenant L r i) d = (Respond StatusOK (), d2) \<longrightarrow>
      d_sessions d2 = d_sessions d \<and> Auth_GetUserRole flt u d2 = Auth_GetUserRole flt u d \<and>
      (\<exists>x \<in> set (d_tenants d2). tn_ID x = t \<and> tn_DeletedAt x = Some (r_now r)))"
proof (intro conjI impI)
  assume run: "run_state (AdminSuspendTenant L r i) d = (Respond StatusOK n, d1)" and flt: "\<not> r_flt r ''session.RevokeByTenant'' 0"
    and s: "s \<in> set (d_sessions d1)" "s_TenantID s = Some t" "r_now r \<le> now"
  have "d_sessions d1 = sql_update (\<lambda>s. s_TenantID s = Some t \<and> active (r_now r) s)
     (\<lambda>s. s\<lparr>s_RevokedAt := Some (r_now r), s_RevokeReason := Some ''tenant_suspended''\<rparr>) (d_sessions d)"
    using run flt assms
    by (auto simp: AdminSuspendTenant_def with_session_def adminTenantID_def with_uuid_def admin_audit_def Auth_SuspendTenant_def
        on_tenants_def Session_RevokeByTenant_def exec_update_def Let_def case_prod_beta split: option.splits sum.splits if_splits)
  with s show "\<not> IsValid now s"
    by (auto simp: IsValid_def sql_update_def split: if_splits)
next
  assume run: "run_state (AdminDeleteTenant L r i) d = (Respond StatusOK (), d2)"
  then show "d_sessions d2 = d_sessions d" "Auth_GetUserRole flt u d2 = Auth_GetUserRole flt u d"
    "\<exists>x \<in> set (d_tenants d2). tn_ID x = t \<and> tn_DeletedAt x = Some (r_now r)"
    using assms
    by (auto simp: AdminDeleteTenant_def with_session_def with_uuid_def admin_audit_def Auth_DeleteTenant_def on_tenants_def
        done_some_def exec_update_def sql_affected_def filter_empty_conv case_prod_beta Auth_GetUserRole_def user_by_def bex_sql_update
        split: option.splits sum.splits if_splits) force
qed

subsection \<open>Invitations\<close>

lemma invite_rows_account:
  "run_state (invite_rows L r raw sess t skip n qs) d = ((ok, bads), d') \<Longrightarrow>
     ok + length bads = length qs \<and> subseq (map fst bads) (map qv_Email qs)"
proof (induction qs arbitrary: n d ok bads d')
  case (Cons q qs)
  obtain fl d1 where row: "run_state (invite_row L (round_of r n) (raw n) sess t skip q) d = (fl, d1)" by fastforce
  obtain ok1 bads1 d2 where rest: "run_state (invite_rows L r raw sess t skip (Suc n) qs) d1 = ((ok1, bads1), d2)"
    by (metis prod.collapse)
  from Cons.prems Cons.IH [OF rest] show ?case
    by (cases fl) (auto simp: row rest)
qed simp

text \<open>The reply of a bulk invite accounts for every row: it has between one and five hundred, what
  succeeded and what failed add up to them, and the failures are named in the order of the rows.\<close>

theorem bulk_invite_accounts:
  assumes "run_state (AdminBulkInvite L r raw i (Some (invites, skip))) d = (Respond c (ok, bads), d')"
  shows "ok + length bads = length invites \<and> subseq (map fst bads) (map qv_Email invites) \<and>
    0 < length invites \<and> length invites \<le> 500"
proof -
  from assms obtain sess t d1 where "run_state (invite_rows L r raw sess t skip 0 invites) d1 = ((ok, bads), d')"
    and "invites \<noteq> []" "length invites \<le> 500"
    by (auto simp: AdminBulkInvite_def with_session_def adminTenantID_def with_uuid_def Let_def split: option.splits if_splits prod.splits)
  with invite_rows_account show ?thesis by blast
qed

text \<open>[C40] An invitation that names a foreign sub-organization deletes an account: when the address belongs
  to an identity that has no membership and is no super administrator, the invitation that is refused because
  of the sub-organization takes the membership back, and the identity with it.\<close>

theorem refused_invite_deletes_account:
  assumes found: "Identity_GetByEmail (l_lower L) no_faults (io_Email p) (d_identities d) = Inr ident"
    and orphan: "\<not> i_IsSuperAdmin ident" "\<forall>u \<in> set (d_users d). u_IdentityID u \<noteq> i_ID ident" "keyed i_ID (d_identities d)"
    and request: "r_flt r = no_faults" "validRoles (the_role (io_Role p))" "io_SubOrgID p = Some so"
    and foreign: "\<forall>s \<in> set (d_suborgs d). so_ID s = so \<longrightarrow> so_TenantID s \<noteq> t"
    and added: "AddIdentityToTenant no_faults (r_now r) (r_fresh r 1) (i_ID ident) t (the_role (io_Role p)) d = (d1, Inr (r_fresh r 1))"
    and new: "\<forall>u \<in> set (d_users d). u_ID u \<noteq> r_fresh r 1" "users_removable (\<lambda>u. u_ID u = r_fresh r 1 \<and> u_TenantID u = t) d1"
  shows "\<exists>d2. run_state (inviteOneMember L r raw t p) d = (Inl (Assign_SubOrg ErrNotFound), d2) \<and> identity_by d2 (i_ID ident) = None"
proof -
  let ?P = "\<lambda>u. u_ID u = r_fresh r 1 \<and> u_TenantID u = t"
  have ident: "ident \<in> set (d_identities d)"
    using found by (auto simp: Identity_GetByEmail_def query_row_def dest: sql_row_Some split: if_splits option.splits)
  obtain u where d1: "d_users d1 = d_users d @ [u]" "u_ID u = r_fresh r 1" "u_TenantID u = t" "u_IdentityID u = i_ID ident"
    "d_identities d1 = d_identities d" "d_suborgs d1 = d_suborgs d"
    using added by (auto simp: AddIdentityToTenant_def split: if_splits)
  have row: "sql_row ?P (d_users d1) = Some u"
  proof (cases "sql_row ?P (d_users d1)")
    case None
    then show ?thesis using d1 by (auto simp: sql_row_None)
  next
    case (Some v)
    from sql_row_Some [OF this] d1 new(1) show ?thesis using Some by auto
  qed
  have me: "identity_by (delete_users ?P d1) (i_ID ident) = Some ident"
    using sql_row_key [OF orphan(3) ident] by (simp add: identity_by_def d1)
  have "sql_affected (\<lambda>u. u_IdentityID u = i_ID ident) (d_users (delete_users ?P d1)) = 0"
    using orphan(2) d1 by (auto simp: sql_affected_def delete_users_def Let_def filter_empty_conv)
  with me orphan(1) row new(2) have "RemoveMember no_faults (r_fresh r 1) t d1 = (delete_identity (i_ID ident) (delete_users ?P d1), Inr ())"
    by (simp add: RemoveMember_def remove_orphan_def no_faults_def Let_def d1(4))
  moreover have "SubOrg_SetUserSubOrg no_faults t (r_fresh r 1) so d1 = (d1, Inl ErrNotFound)"
    using foreign d1 by (auto simp: SubOrg_SetUserSubOrg_def no_faults_def)
  ultimately have "run_state (inviteOneMember L r raw t p) d = (Inl (Assign_SubOrg ErrNotFound), delete_identity (i_ID ident) (delete_users ?P d1))"
    using request found added by (simp add: inviteOneMember_def)
  moreover have "identity_by (delete_identity (i_ID ident) (delete_users ?P d1)) (i_ID ident) = None"
    by (auto simp: identity_by_def delete_identity_facts sql_row_None)
  ultimately show ?thesis by blast
qed

subsection \<open>Examples\<close>

text \<open>Two super administrators, 7 and 2, each with a panel session.\<close>

definition panel_session :: "uuid \<Rightarrow> uuid \<Rightarrow> session" where
  "panel_session k j = (session_row k 0 demo_params)\<lparr>s_IdentityID := j, s_IsSuperAdmin := True, s_State := Authenticated\<rparr>"

definition bob :: identity where
  "bob = demo_identity\<lparr>i_ID := 2, i_Email := ''bob@acme.com'', i_IsSuperAdmin := True\<rparr>"

definition panel_db :: db where
  "panel_db = demo_db\<lparr>d_identities := [demo_identity\<lparr>i_IsSuperAdmin := True\<rparr>, bob],
     d_sessions := [panel_session 1 7, panel_session 4 2]\<rparr>"

definition alice_request :: request where
  "alice_request = demo_request\<lparr>r_session := Some (panel_session 1 7)\<rparr>"

lemmas panel_defs = panel_session_def bob_def panel_db_def alice_request_def demo_identity_def demo_libs_def demo_request_def
  session_row_def session_durations demo_params_def with_uuid_def with_session_def admin_audit_def identity_set_def sql_simps sql_affected_def

theorem last_super_admin_survives_witness:
  "\<exists>x \<in> set (d_identities (snd (run_state (AdminSuspendIdentity demo_libs alice_request ''aa'') panel_db))). acting_admin x"
proof -
  let ?run = "run_state (AdminSuspendIdentity demo_libs alice_request ''aa'') panel_db"
  have "fst ?run = Respond StatusOK 1"
    by (simp add: AdminSuspendIdentity_def spare_last_admin_def Identity_GetByID_def Identity_CountActiveSuperAdmins_def
        Identity_Suspend_def Session_RevokeByIdentity_def Let_def panel_defs)
  then have run: "?run = (Respond StatusOK 1, snd ?run)" by (rule pair_of)
  show ?thesis
    by (rule last_super_admin_survives [OF _ _ disjI1 [OF run]])
      (simp_all add: panel_db_def keyed_def acting_admin_def bob_def demo_identity_def)
qed

theorem demoted_admin_promotes_itself_witness:
  "\<exists>d1 d2 :: db. \<not> list_ex (\<lambda>x. i_ID x = 2 \<and> i_IsSuperAdmin x) (d_identities d1) \<and>
     run_state (through demo_host demo_libs ((demo_call ''tok'')\<lparr>w_cookie := Some ''aaaa'', cl_method := ''POST''\<rparr>) super_gates
       (\<lambda>r. AdminSetSuperAdmin demo_libs r ''aa'' (Some True)) demo_request) d1 = (Respond StatusOK (), d2)"
proof -
  let ?run = "run_state (AdminSetSuperAdmin demo_libs alice_request ''aa'' (Some False)) panel_db"
  let ?c = "(demo_call ''tok'')\<lparr>w_cookie := Some ''aaaa'', cl_method := ''POST''\<rparr>"
  let ?rt = "\<lparr>rt_method = ''POST'', rt_path = ''/api/admin/identities/:id/super-admin'', rt_gates = super_gates,
    rt_handler = ''auth.AdminSetSuperAdmin''\<rparr>"
  have "fst ?run = Respond StatusOK ()"
    by (simp add: AdminSetSuperAdmin_def Identity_SetSuperAdmin_def panel_defs)
  then have run: "?run = (Respond StatusOK (), snd ?run)" by (rule pair_of)
  have uuid: "l_uuid demo_libs ''aa'' = Some 2" by (simp add: demo_libs_def)
  have keyed: "keyed s_ID (d_sessions panel_db)" by (simp add: panel_defs keyed_def)
  have live: "live ?c demo_libs demo_request panel_db (panel_session 4 2)"
    by (simp add: live_def panel_defs demo_call_def IsValid_def)
  have rest: "s_IsSuperAdmin (panel_session 4 2)" "s_IdentityID (panel_session 4 2) = 2" "r_flt demo_request = no_faults"
    "r_now demo_request - s_LastActiveAt (panel_session 4 2) \<le> touchDebounce" "panel_call ?c (panel_session 4 2)"
    by (simp_all add: panel_defs touchDebounce_def panel_call_def demo_call_def)
  have rt: "?rt \<in> set (routes demo_host)" "rt_handler ?rt = ''auth.AdminSetSuperAdmin''"
    by (simp_all add: routes_def super_admin_routes_def group_def)
  from demoted_admin_promotes_itself [OF run uuid keyed live rest rt] show ?thesis
    by (rule_tac exI [where x = "snd ?run"]) (auto simp: list_ex_iff)
qed

theorem deleted_tenant_stays_open_witness:
  "d_sessions (snd (run_state (AdminDeleteTenant demo_libs alice_request ''aaa'') panel_db)) = [panel_session 1 7, panel_session 4 2] \<and>
   (\<exists>x \<in> set (d_tenants (snd (run_state (AdminDeleteTenant demo_libs alice_request ''aaa'') panel_db))). tn_ID x = 3 \<and> tn_DeletedAt x = Some 100)"
proof -
  let ?run = "run_state (AdminDeleteTenant demo_libs alice_request ''aaa'') panel_db"
  have "fst ?run = Respond StatusOK ()"
    by (simp add: AdminDeleteTenant_def Auth_DeleteTenant_def on_tenants_def panel_defs)
  then have run: "?run = (Respond StatusOK (), snd ?run)" by (rule pair_of)
  have "l_uuid demo_libs ''aaa'' = Some 3" "''aaa'' \<noteq> []" by (simp_all add: demo_libs_def)
  from deleted_tenant_stays_open [OF this, THEN conjunct2, rule_format, OF run] show ?thesis
    by (simp add: panel_db_def alice_request_def demo_request_def)
qed

theorem bulk_invite_accounts_witness:
  "\<exists>ok bads. fst (run_state (AdminBulkInvite demo_libs alice_request (\<lambda>_. None) ''aaa''
     (Some ([\<lparr>qv_Email = ''x@y.z'', qv_Name = [], qv_Role = ''boss'', qv_SubOrgID = None\<rparr>], True))) panel_db) = Respond StatusOK (ok, bads) \<and>
     ok + length bads = 1"
proof -
  let ?q = "\<lparr>qv_Email = ''x@y.z'', qv_Name = [], qv_Role = ''boss'', qv_SubOrgID = None\<rparr>"
  let ?run = "run_state (AdminBulkInvite demo_libs alice_request (\<lambda>_. None) ''aaa'' (Some ([?q], True))) panel_db"
  have fst: "fst ?run = Respond StatusOK (0, [(''x@y.z'', ''invalid role'')])"
    by (simp add: AdminBulkInvite_def adminTenantID_def invite_row_def admin_parseSubOrgID_def inviteOneMember_def the_role_def
        validRoles_def bulkReason_def panel_defs)
  from bulk_invite_accounts [OF pair_of [OF this]] fst show ?thesis by simp
qed

lemma nothing_refers:
  assumes "d_verifications d = []" "d_visits d = []" "d_clearances d = []" "d_dd254 d = []" "d_dd254_access d = []"
    and "\<forall>u \<in> set (d_users d). u_CurrentClearanceID u = None"
  shows "users_removable P d"
  using assms by (auto simp: users_removable_def Let_def delete_users_def delete_sessions_def delete_completions_def list_ex_iff)

text \<open>Bob has no membership, and is invited into tenant 3 with a sub-organization that does not exist.\<close>

theorem refused_invite_deletes_account_witness:
  "identity_by (snd (run_state (inviteOneMember demo_libs alice_request None 3
     \<lparr>io_Email = ''bob@acme.com'', io_Name = [], io_Role = ''fso'', io_SubOrgID = Some 99, io_SkipEmail = True\<rparr>)
     (panel_db\<lparr>d_identities := [demo_identity, bob\<lparr>i_IsSuperAdmin := False\<rparr>]\<rparr>))) 2 = None"
proof -
  let ?d = "panel_db\<lparr>d_identities := [demo_identity, bob\<lparr>i_IsSuperAdmin := False\<rparr>]\<rparr>"
  let ?b = "bob\<lparr>i_IsSuperAdmin := False\<rparr>"
  let ?p = "\<lparr>io_Email = ''bob@acme.com'', io_Name = [], io_Role = ''fso'', io_SubOrgID = Some 99, io_SkipEmail = True\<rparr>"
  let ?add = "AddIdentityToTenant no_faults (r_now alice_request) (r_fresh alice_request 1) (i_ID ?b) 3 (the_role (io_Role ?p)) ?d"
  have found: "Identity_GetByEmail (l_lower demo_libs) no_faults (io_Email ?p) (d_identities ?d) = Inr ?b"
    by (simp add: Identity_GetByEmail_def panel_defs)
  have orphan: "\<not> i_IsSuperAdmin ?b" "\<forall>u \<in> set (d_users ?d). u_IdentityID u \<noteq> i_ID ?b" "keyed i_ID (d_identities ?d)"
    by (simp_all add: panel_defs keyed_def)
  have request: "r_flt alice_request = no_faults" "validRoles (the_role (io_Role ?p))" "io_SubOrgID ?p = Some 99"
    by (simp_all add: panel_defs validRoles_def the_role_def)
  have foreign: "\<forall>s \<in> set (d_suborgs ?d). so_ID s = 99 \<longrightarrow> so_TenantID s \<noteq> 3" by (simp add: panel_db_def)
  have ok: "snd ?add = Inr (r_fresh alice_request 1)"
    by (simp add: AddIdentityToTenant_def role_check_def the_role_def identity_by_def tenant_by_def panel_defs)
  then have added: "?add = (fst ?add, Inr (r_fresh alice_request 1))" by (metis prod.collapse)
  have new: "\<forall>u \<in> set (d_users ?d). u_ID u \<noteq> r_fresh alice_request 1" by (simp add: panel_defs)
  have removable: "users_removable (\<lambda>u. u_ID u = r_fresh alice_request 1 \<and> u_TenantID u = 3) (fst ?add)"
    by (rule nothing_refers) (simp_all add: AddIdentityToTenant_def panel_db_def)
  from refused_invite_deletes_account [where raw = None, OF found orphan request foreign added new removable] show ?thesis
    by (auto simp: bob_def)
qed

end
