(* ===== verification/Feature_Frame.thy ===== *)
theory Feature_Frame
  imports Officer_System Task_Properties Auth_System
begin

text \<open>
  What the requests of the features - tasks, reports, visits, trips, contracts, clearances, action
  items, the assistant - leave alone: the sessions, and who is a user of which tenant.
\<close>

definition seats :: "db \<Rightarrow> session list \<times> (uuid \<times> uuid \<times> uuid) list" where
  "seats d = (d_sessions d, map (\<lambda>u. (u_ID u, u_TenantID u, u_IdentityID u)) (d_users d))"

lemma seats_frame [simp]:
  "seats (d\<lparr>d_audit := x1\<rparr>) = seats d" "seats (d\<lparr>d_outbox := x2\<rparr>) = seats d" "seats (d\<lparr>d_files := x3\<rparr>) = seats d"
  "seats (d\<lparr>d_action_items := x4\<rparr>) = seats d" "seats (d\<lparr>d_tasks := x5\<rparr>) = seats d" "seats (d\<lparr>d_completions := x6\<rparr>) = seats d"
  "seats (d\<lparr>d_reports := x7\<rparr>) = seats d" "seats (d\<lparr>d_visits := x8\<rparr>) = seats d" "seats (d\<lparr>d_trips := x9\<rparr>) = seats d"
  "seats (d\<lparr>d_countries := x10\<rparr>) = seats d" "seats (d\<lparr>d_trip_uploads := x11\<rparr>) = seats d" "seats (d\<lparr>d_debriefs := x12\<rparr>) = seats d"
  "seats (d\<lparr>d_clearances := x13\<rparr>) = seats d" "seats (d\<lparr>d_dd254 := x14\<rparr>) = seats d" "seats (d\<lparr>d_dd254_access := x15\<rparr>) = seats d"
  "seats (d\<lparr>d_chat := x16\<rparr>) = seats d" "seats (d\<lparr>d_ai_usage := x17\<rparr>) = seats d"
  by (simp_all add: seats_def)

lemma seats_pointer:
  "(\<And>u. u_ID (f u) = u_ID u \<and> u_TenantID (f u) = u_TenantID u \<and> u_IdentityID (f u) = u_IdentityID u) \<Longrightarrow>
     seats (d\<lparr>d_users := sql_update P f (d_users d)\<rparr>) = seats d"
  by (simp add: seats_def sql_update_def)

text \<open>Sessions and seats are all the invariant reads.\<close>

lemma list_ex_map: "list_ex P (map f xs) = list_ex (P \<circ> f) xs"
  by (induction xs) simp_all

lemma auth_inv_seats: "seats d' = seats d \<Longrightarrow> auth_inv d' = auth_inv d"
proof -
  assume eq: "seats d' = seats d"
  have member: "membership_of us s = (case (s_TenantID s, s_UserID s) of
     (None, None) \<Rightarrow> True
   | (Some t, Some u) \<Rightarrow> list_ex (\<lambda>(i, t', n). i = u \<and> t' = t \<and> n = s_IdentityID s) (map (\<lambda>u. (u_ID u, u_TenantID u, u_IdentityID u)) us)
   | _ \<Rightarrow> False)" for us s
    by (simp add: membership_of_def list_ex_map comp_def split: option.split)
  have keys: "map u_ID us = map fst (map (\<lambda>u. (u_ID u, u_TenantID u, u_IdentityID u)) us)" for us
    by simp
  from eq have s: "d_sessions d' = d_sessions d"
    and u: "map (\<lambda>u. (u_ID u, u_TenantID u, u_IdentityID u)) (d_users d') = map (\<lambda>u. (u_ID u, u_TenantID u, u_IdentityID u)) (d_users d)"
    by (simp_all add: seats_def)
  have "sess_ok (d_users d') x = sess_ok (d_users d) x" for x
    unfolding sess_ok_def member u ..
  then show ?thesis
    unfolding auth_inv_def s keyed_def keys u by simp
qed

subsection \<open>Store operations\<close>

lemma seats_officer_ops [simp]:
  "seats (fst (Report_Create flt now i p1 d)) = seats d"
  "seats (fst (Report_UpdateStatus flt now t i u st d)) = seats d"
  "seats (fst (Visit_Create flt now i p2 d)) = seats d"
  "seats (fst (Visit_Cancel flt now t i u d)) = seats d"
  "seats (fst (Visit_UpdateStatus flt now t i u st n d)) = seats d"
  "seats (fst (SetVisitRequestDD254 flt now t i f d)) = seats d"
  "seats (fst (Travel_Submit flt now t u i d)) = seats d"
  "seats (fst (MarkUnderReview flt now t i d)) = seats d"
  "seats (fst (Travel_UpdateStatus flt now t i st u d)) = seats d"
  "seats (fst (MarkDebriefCreated flt now i d)) = seats d"
  "seats (fst (CreateDebrief flt now i k t u due d)) = seats d"
  "seats (fst (Store_SubmitDebrief flt now i ans d)) = seats d"
  "seats (fst (Travel_CreateUpload flt up d)) = seats d"
  "seats (fst (Travel_DeleteUpload flt t i d)) = seats d"
  "seats (fst (DD254_Create flt now p3 d)) = seats d"
  "seats (fst (DD254_Delete flt now t i d)) = seats d"
  "seats (fst (DD254_RevokeAccess flt t i u d)) = seats d"
  "seats (fst (DD254_GrantAccess flt now t i u by1 b db1 d)) = seats d"
  "seats (fst (SaveMessage flt m now i t u role msg d)) = seats d"
  "seats (fst (CleanupOld flt now d)) = seats d"
  by (auto simp: store_defs Let_def case_prod_beta on_items_def on_trips_def Report_Create_def Report_UpdateStatus_def Visit_Create_def Visit_Cancel_def Visit_UpdateStatus_def
      SetVisitRequestDD254_def Travel_CreateUpload_def Travel_DeleteUpload_def DD254_Create_def DD254_Delete_def
      DD254_RevokeAccess_def DD254_GrantAccess_def SaveMessage_def CleanupOld_def split: option.split sum.split)

lemma seats_countries [simp]: "seats (fst (insert_countries flt q now fresh i n cs d)) = seats d"
  by (induction cs arbitrary: n d) (auto split: option.split)

lemma seats_trips [simp]:
  "seats (fst (Travel_Create flt now i fresh p d)) = seats d"
  "seats (fst (Travel_Update flt now fresh t u i form cs d)) = seats d"
  by (auto simp: Travel_Create_def Travel_Update_def on_trips_def Let_def case_prod_beta split: option.split sum.split)

lemma seats_clearance [simp]: "seats (fst (Team_SetClearance flt now i t u by1 p d)) = seats d"
proof -
  have "seats (fst (supersede flt now u d)) = seats d" "seats (fst (insert_clearance flt c d)) = seats d"
    "seats (fst (repoint flt now i u d)) = seats d" for c d
    by (auto simp: supersede_def insert_clearance_def repoint_def case_prod_beta fst_exec_update seats_pointer Let_def)
  then show ?thesis
    by (auto simp: Team_SetClearance_def split: sum.split prod.split) (metis fst_conv)+
qed

lemma seats_task_ops [simp]:
  "seats (fst (EnsureCompletion flt now i t k u d)) = seats d"
  "seats (fst (Submit flt now i d)) = seats d"
  "seats (fst (Approve flt now i u d)) = seats d"
  "seats (fst (Reject flt now i u d)) = seats d"
  "seats (fst (MarkViewed flt now i d)) = seats d"
  "seats (fst (Archive flt now t k d)) = seats d"
  "seats (fst (Unarchive flt now t k d)) = seats d"
  "seats (fst (ResolveBySource flt now t ty i d)) = seats d"
  "seats (fst (ActionItem_Create flt now i ip d)) = seats d"
  "seats (fst (ActionItem_UpdateStatus flt now t i st n d)) = seats d"
  "seats (fst (ActionItem_UpdateNotes flt now t i n d)) = seats d"
  "seats (fst (UpdateAssignedTo flt now t i v d)) = seats d"
  "seats (fst (CreateUpload flt up d)) = seats d"
  "seats (fst (CreatePending flt now i u t cr d)) = seats d"
  "seats (fst (Store_DeleteUpload flt t u d)) = seats d"
  "seats (fst (MarkSucceeded flt now i m w d)) = seats d"
  "seats (fst (MarkFailed flt now i msg d)) = seats d"
  "seats (fst (Usage_Record flt now i t u f a b d)) = seats d"
  "seats (fst (RecordFeedback flt now i u fb d)) = seats d"
  by (auto simp: store_defs review_def on_completions_def on_tasks_def on_items_def on_verifications_def Let_def case_prod_beta
      seats_def split: option.split prod.split)

lemma seats_loops [simp]:
  "seats (fst (insert_requirements flt fresh k n ps d)) = seats d"
  "seats (fst (insert_rules flt fresh k n qs d)) = seats d"
  "seats (fst (save_each flt fresh n i ws d)) = seats d"
proof -
  show "seats (fst (insert_requirements flt fresh k n ps d)) = seats d"
    by (induction ps arbitrary: n d) (auto simp: Let_def seats_def)
  show "seats (fst (insert_rules flt fresh k n qs d)) = seats d"
    by (induction qs arbitrary: n d) (auto simp: seats_def)
  show "seats (fst (save_each flt fresh n i ws d)) = seats d"
    by (induction ws arbitrary: n d) (auto simp: seats_def)
qed

lemma seats_task_rows [simp]:
  "seats (fst (Task_Create date flt now fresh p d)) = seats d"
  "seats (fst (SaveResponses flt now fresh i ps d)) = seats d"
  "seats (fst (Store_GetMyTask flt now i t k u d)) = seats d"
  by (auto simp: Task_Create_def SaveResponses_def Store_GetMyTask_def Let_def on_completions_def case_prod_beta split: sum.split)

subsection \<open>Handlers\<close>

lemma keeps_seats: "(\<And>d. seats (fst (f d)) = seats d) \<Longrightarrow> keeps_inv (\<lambda>d. seats d = X) (on_db f)"
  by (rule keeps_on_db) simp

lemma seats_updaters: "source_updaters ty = Some f \<Longrightarrow> seats (fst (f r a b c st d)) = seats d"
  by (auto simp: source_updaters_def source_updater_defs split: if_splits)

lemma keeps_seats_cascade:
  "keeps_inv (\<lambda>d. seats d = X) (case (st, src, source_updaters ty) of
     (c # cs, Some i, Some f) \<Rightarrow> on_db (f r a i u (c # cs)) | _ \<Rightarrow> reply x)"
  by (auto intro!: keeps_seats keeps_reply seats_updaters split: list.split option.split)

lemma keeps_seats_tables:
  "keeps_inv (\<lambda>d. seats d = X) (audit_log r n a i s t m)" "keeps_inv (\<lambda>d. seats d = X) (notify ns)"
  "keeps_inv (\<lambda>d. seats d = X) (on_files op)" "keeps_inv (\<lambda>d. seats d = X) (queue_item L r k ip)"
proof -
  show "keeps_inv (\<lambda>d. seats d = X) (audit_log r n a i s t m)" by (simp add: keeps_audit_log)
  show n: "keeps_inv (\<lambda>d. seats d = X) (notify ns)" for ns by (simp add: keeps_notify)
  show "keeps_inv (\<lambda>d. seats d = X) (on_files op)" by (simp add: keeps_on_files)
  show "keeps_inv (\<lambda>d. seats d = X) (queue_item L r k ip)"
    unfolding queue_item_def by (intro frame_rules keeps_seats n; simp)
qed

lemma keeps_seats_officers:
  "keeps_inv (\<lambda>d. seats d = X) (Report_Handler_Create L r b1)"
  "keeps_inv (\<lambda>d. seats d = X) (Visit_Handler_Create L r b2)"
  "keeps_inv (\<lambda>d. seats d = X) (CreateReport L r b3)"
  "keeps_inv (\<lambda>d. seats d = X) (Report_AdminUpdateStatus L r i b4)"
  "keeps_inv (\<lambda>d. seats d = X) (Visit_Handler_Cancel L r i)"
  "keeps_inv (\<lambda>d. seats d = X) (Visit_AdminUpdateStatus L r i b5)"
  "keeps_inv (\<lambda>d. seats d = X) (Visit_Export L r q)"
  "keeps_inv (\<lambda>d. seats d = X) (LinkVisitRequest L r i b6)"
  "keeps_inv (\<lambda>d. seats d = X) (UpdateReport L r i b7)"
  "keeps_inv (\<lambda>d. seats d = X) (SubmitReport L r i)"
  "keeps_inv (\<lambda>d. seats d = X) (Travel_UploadFile sc sb L r i f)"
  "keeps_inv (\<lambda>d. seats d = X) (Travel_Handler_DeleteUpload sb L r i)"
  "keeps_inv (\<lambda>d. seats d = X) (AdminGetReport L r i)"
  "keeps_inv (\<lambda>d. seats d = X) (ApproveReport L r i)"
  "keeps_inv (\<lambda>d. seats d = X) (RejectReport L r i)"
  "keeps_inv (\<lambda>d. seats d = X) (SubmitDebrief L r i b8)"
  "keeps_inv (\<lambda>d. seats d = X) (DD254_Upload sc noop sb L r so f q6)"
  "keeps_inv (\<lambda>d. seats d = X) (DD254_ViewFile sb L r so i)"
  "keeps_inv (\<lambda>d. seats d = X) (DD254_Handler_Delete L r i)"
  "keeps_inv (\<lambda>d. seats d = X) (DD254_Handler_GrantAccess L r i b9)"
  "keeps_inv (\<lambda>d. seats d = X) (DD254_Handler_RevokeAccess L r i k)"
  "keeps_inv (\<lambda>d. seats d = X) (SetClearance L r so i b10)"
  "keeps_inv (\<lambda>d. seats d = X) (Chat T mo L r b11)"
  unfolding http_defs visit_audit_def travel_audit_def dd254_audit_def Let_def
  by (intro frame_rules keeps_seats keeps_seats_tables keeps_scan_first; simp)+

lemma keeps_seats_tasks:
  "keeps_inv (\<lambda>d. seats d = X) (CreateTask L r b)"
  "keeps_inv (\<lambda>d. seats d = X) (ArchiveTask L r i)"
  "keeps_inv (\<lambda>d. seats d = X) (UnarchiveTask L r i)"
  "keeps_inv (\<lambda>d. seats d = X) (ApproveSubmission L r i k)"
  "keeps_inv (\<lambda>d. seats d = X) (RejectSubmission L r i k)"
  "keeps_inv (\<lambda>d. seats d = X) (GetMyTask conf L r i)"
  "keeps_inv (\<lambda>d. seats d = X) (Handler_SaveResponses L r i ps)"
  "keeps_inv (\<lambda>d. seats d = X) (SubmitTask L r i)"
  "keeps_inv (\<lambda>d. seats d = X) (DeleteUpload sb L r i)"
  "keeps_inv (\<lambda>d. seats d = X) (HandleVerifyTask g sb r u)"
  "keeps_inv (\<lambda>d. seats d = X) (HandleFeedback L r i fb)"
  unfolding http_defs task_audit_def Let_def
  by (intro frame_rules keeps_seats keeps_seats_tables; simp)+

lemma keeps_seats_upload: "keeps_inv (\<lambda>d. seats d = X) (UploadFile conf sc sb L r i q f)"
proof -
  have "keeps_inv (\<lambda>d. seats d = X) (store_upload conf sb L r t u k req ff name ty)" for t u k req ff name ty
    unfolding store_upload_def Let_def by (intro frame_rules keeps_seats keeps_seats_tables; simp)
  then show ?thesis
    unfolding UploadFile_def Let_def by (intro frame_rules) (auto intro: keeps_reply split: scan_error.split)
qed

lemma keeps_seats_items:
  "keeps_inv (\<lambda>d. seats d = X) (ActionItem_Handler_UpdateStatus source_updaters L r i b)"
  "keeps_inv (\<lambda>d. seats d = X) (ActionItem_Handler_UpdateNotes L r i n)"
  "keeps_inv (\<lambda>d. seats d = X) (ActionItem_Handler_Reassign L r i v)"
proof -
  show "keeps_inv (\<lambda>d. seats d = X) (ActionItem_Handler_UpdateStatus source_updaters L r i b)"
    unfolding ActionItem_Handler_UpdateStatus_def item_audit_def
    by (intro keeps_with keeps_bind keeps_reply keeps_option keeps_prod keeps_asks keeps_sum keeps_seats keeps_seats_tables
        keeps_seats_cascade; simp)
  show "keeps_inv (\<lambda>d. seats d = X) (ActionItem_Handler_UpdateNotes L r i n)"
    "keeps_inv (\<lambda>d. seats d = X) (ActionItem_Handler_Reassign L r i v)"
    unfolding http_defs item_audit_def Let_def by (intro frame_rules keeps_seats keeps_seats_tables; simp)+
qed

lemma officer_serve_seats: "keeps_inv (\<lambda>d. seats d = X) (officer_serve E r c)"
  by (cases c) (simp_all only: officer_serve.simps, (intro keeps_bind keeps_reply keeps_seats_officers keeps_seats_items)+)

lemma task_serve_seats: "keeps_inv (\<lambda>d. seats d = X) (task_serve E r c)"
  by (cases c) (simp_all only: task_serve.simps,
      (intro keeps_bind keeps_reply keeps_seats_tasks keeps_seats_upload keeps_seats_items)+)

lemma keeps_seats_jobs: "keeps_inv (\<lambda>d. seats d = X) (DebriefCron L r)" "keeps_inv (\<lambda>d. seats d = X) (CleanupCron r)"
proof -
  have all: "keeps_inv (\<lambda>d. seats d = X) (debrief_all L r due n xs)" for due n xs
    by (induction xs arbitrary: n)
      (simp_all only: debrief_all.simps debrief_one_def, (intro frame_rules keeps_seats keeps_seats_tables | assumption | simp)+)
  show "keeps_inv (\<lambda>d. seats d = X) (DebriefCron L r)" "keeps_inv (\<lambda>d. seats d = X) (CleanupCron r)"
    unfolding DebriefCron_def CleanupCron_def by (intro frame_rules keeps_seats all; simp)+
qed

text \<open>So they keep the invariant of sessions and memberships.\<close>

lemma auth_of_seats: "(\<And>X. keeps_inv (\<lambda>d. seats d = X) m) \<Longrightarrow> keeps_inv auth_inv m"
  unfolding triple_def using auth_inv_seats by blast

lemma auth_keeps_features:
  "keeps_inv auth_inv (officer_serve E1 r1 c1)" "keeps_inv auth_inv (task_serve E2 r2 c2)"
  "keeps_inv auth_inv (DebriefCron L3 r3)" "keeps_inv auth_inv (CleanupCron r4)"
  "keeps_inv auth_inv (ActionItem_Handler_UpdateNotes L5 r5 i5 n5)" "keeps_inv auth_inv (ActionItem_Handler_Reassign L6 r6 i6 v6)"
  by (rule auth_of_seats, rule officer_serve_seats task_serve_seats keeps_seats_jobs keeps_seats_items)+

end
