(* ===== verification/Passkeys.thy ===== *)
theory Passkeys
  imports Admin_Handlers "HOL-Library.Word"
begin

text \<open>
  \<^verbatim>\<open>backend/internal/passkey\<close>: the stored credentials, the ceremonies in progress, and the
  requests that register a passkey, log in with one or use one as second factor. What the
  WebAuthn library does is an argument: what it begins (with the challenge it draws) and what it
  makes of the answer of the client. The data of a ceremony is the text the library gave out.
\<close>

subsection \<open>Store\<close>

definition Passkey_Create :: "faults \<Rightarrow> time \<Rightarrow> uuid \<Rightarrow> passkey \<Rightarrow> db \<Rightarrow> (db, passkey) store_result" where
  [store_defs]: "Passkey_Create flt now i p d =
     (if flt ''passkey.Create'' 0 \<or> identity_by d (pk_IdentityID p) = None \<or>
         sql_exists (\<lambda>x. pk_CredentialID x = pk_CredentialID p) (d_passkeys d)
      then (d, Inl (Fault ''passkey.Create''))
      else let x = p\<lparr>pk_ID := i, pk_LastUsedAt := None, pk_CreatedAt := now\<rparr> in
        (d\<lparr>d_passkeys := d_passkeys d @ [x]\<rparr>, Inr x))"

definition Passkey_ListByIdentity :: "faults \<Rightarrow> uuid \<Rightarrow> passkey list \<Rightarrow> err + passkey list" where
  [store_defs]: "Passkey_ListByIdentity flt identityID t =
     (if flt ''passkey.ListByIdentity'' 0 then Inl (Fault ''passkey.ListByIdentity'')
      else Inr (sort_key pk_CreatedAt (filter (\<lambda>p. pk_IdentityID p = identityID) t)))"

definition Passkey_GetByCredentialID :: "faults \<Rightarrow> string \<Rightarrow> passkey list \<Rightarrow> err + passkey" where
  [store_defs]: "Passkey_GetByCredentialID flt credentialID t =
     query_row flt ''passkey.GetByCredentialID'' ErrNotFound (\<lambda>p. pk_CredentialID p = credentialID) t"

record passkey_info =
  py_ID :: uuid
  py_FriendlyName :: "string option"
  py_LastUsedAt :: "time option"
  py_CreatedAt :: time

definition Passkey_Public :: "passkey \<Rightarrow> passkey_info" where
  "Passkey_Public p = \<lparr>py_ID = pk_ID p, py_FriendlyName = pk_FriendlyName p, py_LastUsedAt = pk_LastUsedAt p,
     py_CreatedAt = pk_CreatedAt p\<rparr>"

subsection \<open>Ceremonies\<close>

definition webAuthnSessionTTL :: time where "webAuthnSessionTTL = 5 * minute"

definition saveWebAuthnSession :: "faults \<Rightarrow> time \<Rightarrow> string \<Rightarrow> string \<Rightarrow> ceremony list \<Rightarrow> (ceremony list, unit) store_result" where
  [store_defs]: "saveWebAuthnSession flt now i data t =
     (if flt ''marshal webauthn session'' 0 then (t, Inl (Fault ''marshal webauthn session''))
      else if flt ''passkey.saveWebAuthnSession'' 0 then (t, Inl (Fault ''passkey.saveWebAuthnSession''))
      else if sql_exists (\<lambda>c. ce_ID c = i) t
      then (sql_update (\<lambda>c. ce_ID c = i) (\<lambda>c. c\<lparr>ce_Data := data, ce_ExpiresAt := now + webAuthnSessionTTL\<rparr>) t, Inr ())
      else (t @ [\<lparr>ce_ID = i, ce_Data = data, ce_ExpiresAt = now + webAuthnSessionTTL\<rparr>], Inr ()))"

text \<open>The row is gone even when its data cannot be read.\<close>

definition loadAndDeleteWebAuthnSession :: "faults \<Rightarrow> time \<Rightarrow> string \<Rightarrow> ceremony list \<Rightarrow> (ceremony list, string) store_result" where
  [store_defs]: "loadAndDeleteWebAuthnSession flt now i t =
     (let P = (\<lambda>c. ce_ID c = i \<and> ce_ExpiresAt c > now) in
      case query_row flt ''passkey.loadAndDeleteWebAuthnSession'' ErrNotFound P t of
        Inl e \<Rightarrow> (t, Inl e)
      | Inr c \<Rightarrow> (sql_delete P t, if flt ''unmarshal webauthn session'' 0 then Inl (Fault ''unmarshal webauthn session'') else Inr (ce_Data c)))"

definition CleanupExpiredWebAuthnSessions :: "faults \<Rightarrow> time \<Rightarrow> ceremony list \<Rightarrow> (ceremony list, unit) store_result" where
  [store_defs]: "CleanupExpiredWebAuthnSessions flt now t =
     done_any (exec_delete flt ''passkey.CleanupExpiredWebAuthnSessions'' (\<lambda>c. ce_ExpiresAt c \<le> now) t)"

definition on_ceremonies :: "(ceremony list \<Rightarrow> ceremony list \<times> 'a) \<Rightarrow> (db, 'a) state" where
  "on_ceremonies f = on_db (on_table d_ceremonies d_ceremonies_update f)"

definition on_passkeys :: "(passkey list \<Rightarrow> passkey list \<times> 'a) \<Rightarrow> (db, 'a) state" where
  "on_passkeys f = on_db (on_table d_passkeys d_passkeys_update f)"

lemma run_state_on_ceremonies [simp]:
  "run_state (on_ceremonies f) d = (snd (f (d_ceremonies d)), d\<lparr>d_ceremonies := fst (f (d_ceremonies d))\<rparr>)"
  "run_state (on_passkeys g) d = (snd (g (d_passkeys d)), d\<lparr>d_passkeys := fst (g (d_passkeys d))\<rparr>)"
  by (simp_all add: on_ceremonies_def on_passkeys_def on_table_def)

lemma keeps_on_ceremonies:
  "(\<And>d t. P (d\<lparr>d_ceremonies := t\<rparr>) = P d) \<Longrightarrow> keeps_inv P (on_ceremonies f)"
  "(\<And>d t. P (d\<lparr>d_passkeys := t\<rparr>) = P d) \<Longrightarrow> keeps_inv P (on_passkeys g)"
  by (simp_all add: triple_def)

subsection \<open>The library\<close>

text \<open>\<^verbatim>\<open>webauthn.Credential\<close>; the attestation type is always empty.\<close>

record credential =
  wc_ID :: string
  wc_PublicKey :: string
  wc_Transport :: "string list"
  wc_BackupEligible :: bool
  wc_BackupState :: bool
  wc_AAGUID :: string
  wc_SignCount :: "32 word"

record webauthn_user =
  wn_id :: uuid
  wn_name :: string
  wn_displayName :: string
  wn_credentials :: "credential list"

record webauthn =
  wa_BeginRegistration :: "webauthn_user \<Rightarrow> (string \<times> string) option"        \<comment> \<open>creation options, session data\<close>
  wa_FinishRegistration :: "webauthn_user \<Rightarrow> string \<Rightarrow> string \<Rightarrow> credential option" \<comment> \<open>session data, body\<close>
  wa_BeginDiscoverableLogin :: "(string \<times> string \<times> string) option"            \<comment> \<open>assertion, session data, challenge\<close>
  wa_ParseResponse :: "string \<Rightarrow> (string \<times> string) option"                      \<comment> \<open>credential id, challenge\<close>
  wa_ValidateDiscoverableLogin :: "webauthn_user \<Rightarrow> string \<Rightarrow> string \<Rightarrow> credential option"
  wa_BeginLogin :: "webauthn_user \<Rightarrow> (string \<times> string) option"
  wa_FinishLogin :: "webauthn_user \<Rightarrow> string \<Rightarrow> string \<Rightarrow> credential option"

definition credential_of :: "passkey \<Rightarrow> credential" where
  "credential_of p = \<lparr>wc_ID = pk_CredentialID p, wc_PublicKey = pk_PublicKey p, wc_Transport = pk_Transports p,
     wc_BackupEligible = pk_BackupEligible p, wc_BackupState = pk_BackupState p, wc_AAGUID = pk_AAGUID p,
     wc_SignCount = word_of_int (pk_SignCount p)\<rparr>"

definition newWebAuthnUser :: "uuid \<Rightarrow> string \<Rightarrow> string \<Rightarrow> passkey list \<Rightarrow> webauthn_user" where
  "newWebAuthnUser i email name passkeys =
     \<lparr>wn_id = i, wn_name = email, wn_displayName = name, wn_credentials = map credential_of passkeys\<rparr>"

definition loadCredentials :: "faults \<Rightarrow> identity \<Rightarrow> passkey list \<Rightarrow> err + webauthn_user" where
  [store_defs]: "loadCredentials flt ident t =
     map_sum id (newWebAuthnUser (i_ID ident) (i_Email ident) (i_Name ident)) (Passkey_ListByIdentity flt (i_ID ident) t)"

subsection \<open>Registration\<close>

definition reg_key :: "libs \<Rightarrow> uuid \<Rightarrow> string" where "reg_key L i = ''reg:'' @ l_uuid_text L i"
definition login_key :: "string \<Rightarrow> string" where "login_key challenge = ''login:'' @ challenge"
definition factor_key :: "libs \<Rightarrow> uuid \<Rightarrow> string" where "factor_key L i = ''2fa:'' @ l_uuid_text L i"

definition BeginRegistration :: "webauthn \<Rightarrow> libs \<Rightarrow> request \<Rightarrow> (db, string response) state" where
  [http_defs]: "BeginRegistration W L r = with_session r (\<lambda>sess. do {
     found \<leftarrow> asks (\<lambda>d. Identity_GetByID (r_flt r) (s_IdentityID sess) (d_identities d));
     (case found of Inl _ \<Rightarrow> reply internal_error | Inr ident \<Rightarrow> do {
        loaded \<leftarrow> asks (\<lambda>d. loadCredentials (r_flt r) ident (d_passkeys d));
        (case loaded of Inl _ \<Rightarrow> reply internal_error | Inr user \<Rightarrow>
           (case wa_BeginRegistration W user of None \<Rightarrow> reply internal_error | Some (creation, data) \<Rightarrow> do {
              saved \<leftarrow> on_ceremonies (saveWebAuthnSession (r_flt r) (r_now r) (reg_key L (s_IdentityID sess)) data);
              (case saved of Inl _ \<Rightarrow> reply internal_error | Inr _ \<Rightarrow> reply (Respond StatusOK creation))
            }))
      })
   })"

definition new_passkey :: "uuid \<Rightarrow> credential \<Rightarrow> string \<Rightarrow> passkey" where
  "new_passkey identityID c name = \<lparr>pk_ID = 0, pk_IdentityID = identityID, pk_CredentialID = wc_ID c,
     pk_PublicKey = wc_PublicKey c, pk_AAGUID = wc_AAGUID c, pk_SignCount = uint (wc_SignCount c),
     pk_BackupEligible = wc_BackupEligible c, pk_BackupState = wc_BackupState c, pk_Transports = wc_Transport c,
     pk_FriendlyName = (if name = [] then None else Some name), pk_LastUsedAt = None, pk_CreatedAt = 0\<rparr>"

text \<open>\<open>query\<close> is the name in the query, \<open>rest\<close> the one decoded from what the library left of the body.\<close>

definition FinishRegistration ::
  "webauthn \<Rightarrow> libs \<Rightarrow> request \<Rightarrow> string \<Rightarrow> string \<Rightarrow> string \<Rightarrow> (db, passkey_info response) state" where
  [http_defs]: "FinishRegistration W L r body query rest = with_session r (\<lambda>sess. do {
     found \<leftarrow> asks (\<lambda>d. Identity_GetByID (r_flt r) (s_IdentityID sess) (d_identities d));
     (case found of Inl _ \<Rightarrow> reply internal_error | Inr ident \<Rightarrow> do {
        data \<leftarrow> on_ceremonies (loadAndDeleteWebAuthnSession (r_flt r) (r_now r) (reg_key L (s_IdentityID sess)));
        (case data of Inl _ \<Rightarrow> reply (bad ''no registration in progress'') | Inr sd \<Rightarrow> do {
           loaded \<leftarrow> asks (\<lambda>d. loadCredentials (r_flt r) ident (d_passkeys d));
           (case loaded of Inl _ \<Rightarrow> reply internal_error | Inr user \<Rightarrow>
              (case wa_FinishRegistration W user sd body of None \<Rightarrow> reply (bad ''registration failed'') | Some c \<Rightarrow> do {
                 made \<leftarrow> on_db (Passkey_Create (r_flt r) (r_now r) (r_fresh r 0)
                   (new_passkey (s_IdentityID sess) c (if query = [] then rest else query)));
                 (case made of Inl _ \<Rightarrow> reply internal_error | Inr p \<Rightarrow> do {
                    admin_audit r sess None ''passkey_registered'' [];
                    reply (Respond StatusOK (Passkey_Public p))
                  })
               }))
         })
      })
   })"

subsection \<open>Login\<close>

definition BeginLogin :: "webauthn \<Rightarrow> request \<Rightarrow> (db, string response) state" where
  [http_defs]: "BeginLogin W r = (case wa_BeginDiscoverableLogin W of None \<Rightarrow> reply internal_error
     | Some (assertion, data, challenge) \<Rightarrow> do {
         saved \<leftarrow> on_ceremonies (saveWebAuthnSession (r_flt r) (r_now r) (login_key challenge) data);
         (case saved of Inl _ \<Rightarrow> reply internal_error | Inr _ \<Rightarrow> reply (Respond StatusOK assertion))
       })"

text \<open>What follows when the answer is valid: the counter, the session and its cookies.\<close>

definition passkey_session :: "request \<Rightarrow> identity \<Rightarrow> passkey \<Rightarrow> credential \<Rightarrow> (db, login_reply response) state" where
  [http_defs]: "passkey_session r ident p c = do {
     on_passkeys (Passkey_UpdateSignCount (r_flt r) (r_now r) (pk_ID p) (uint (wc_SignCount c)));
     (case r_csrf r of None \<Rightarrow> reply internal_error | Some csrfToken \<Rightarrow> do {
        created \<leftarrow> on_sessions (Session_Create (r_flt r) (r_now r) (r_fresh r 0)
          \<lparr>p_IdentityID = i_ID ident, p_State = PreTenant, p_IPAddress = r_ip r, p_UserAgent = r_ua r,
           p_AuthMethod = ''passkey'', p_CSRFToken = csrfToken\<rparr>);
        (case created of Inl _ \<Rightarrow> reply internal_error | Inr sess \<Rightarrow> do {
           audit_log r 0 ''login_success'' (Some (i_ID ident)) (Some (s_ID sess)) None [(''auth_method'', JStr ''passkey'')];
           reply (Respond StatusOK \<lparr>lr_State = PreTenant, lr_Available2FA = None, lr_SessionCookie = s_ID sess,
             lr_CSRFCookie = csrfToken\<rparr>)
         })
      })
   }"

definition FinishLogin :: "webauthn \<Rightarrow> request \<Rightarrow> string \<Rightarrow> (db, login_reply response) state" where
  [http_defs]: "FinishLogin W r body = (case wa_ParseResponse W body of
     None \<Rightarrow> reply (bad ''invalid credential response'')
   | Some (rawID, challenge) \<Rightarrow> do {
       got \<leftarrow> asks (\<lambda>d. Passkey_GetByCredentialID (r_flt r) rawID (d_passkeys d));
       (case got of Inl _ \<Rightarrow> reply (Abort StatusUnauthorized (Msg ''unknown credential'')) | Inr p \<Rightarrow> do {
          found \<leftarrow> asks (\<lambda>d. Identity_GetByID (r_flt r) (pk_IdentityID p) (d_identities d));
          (case found of Inl _ \<Rightarrow> reply internal_error | Inr ident \<Rightarrow>
             if IsSuspended ident then reply (Abort StatusForbidden (Msg ''account is suspended''))
             else do {
               loaded \<leftarrow> asks (\<lambda>d. loadCredentials (r_flt r) ident (d_passkeys d));
               (case loaded of Inl _ \<Rightarrow> reply internal_error | Inr user \<Rightarrow> do {
                  data \<leftarrow> on_ceremonies (loadAndDeleteWebAuthnSession (r_flt r) (r_now r) (login_key challenge));
                  (case data of Inl _ \<Rightarrow> reply (Abort StatusUnauthorized (Msg ''authentication failed'')) | Inr sd \<Rightarrow>
                     (case wa_ValidateDiscoverableLogin W user sd body of
                        None \<Rightarrow> do {
                          audit_log r 0 ''login_failure'' (Some (i_ID ident)) None None
                            [(''auth_method'', JStr ''passkey''), (''reason'', JStr ''validation_failed'')];
                          reply (Abort StatusUnauthorized (Msg ''authentication failed''))
                        }
                      | Some c \<Rightarrow> passkey_session r ident p c))
                })
             })
        })
     })"

subsection \<open>Second factor\<close>

definition Begin2FA :: "webauthn \<Rightarrow> libs \<Rightarrow> request \<Rightarrow> (db, string response) state" where
  [http_defs]: "Begin2FA W L r = with_session r (\<lambda>sess. do {
     found \<leftarrow> asks (\<lambda>d. Identity_GetByID (r_flt r) (s_IdentityID sess) (d_identities d));
     (case found of Inl _ \<Rightarrow> reply internal_error | Inr ident \<Rightarrow> do {
        loaded \<leftarrow> asks (\<lambda>d. loadCredentials (r_flt r) ident (d_passkeys d));
        (case loaded of Inl _ \<Rightarrow> reply (bad ''no passkeys configured'') | Inr user \<Rightarrow>
           if wn_credentials user = [] then reply (bad ''no passkeys configured'')
           else (case wa_BeginLogin W user of None \<Rightarrow> reply internal_error | Some (assertion, data) \<Rightarrow> do {
              saved \<leftarrow> on_ceremonies (saveWebAuthnSession (r_flt r) (r_now r) (factor_key L (s_ID sess)) data);
              (case saved of Inl _ \<Rightarrow> reply internal_error | Inr _ \<Rightarrow> reply (Respond StatusOK assertion))
            }))
      })
   })"

definition Finish2FA :: "webauthn \<Rightarrow> libs \<Rightarrow> request \<Rightarrow> string \<Rightarrow> (db, sstate response) state" where
  [http_defs]: "Finish2FA W L r body = with_session r (\<lambda>sess. do {
     data \<leftarrow> on_ceremonies (loadAndDeleteWebAuthnSession (r_flt r) (r_now r) (factor_key L (s_ID sess)));
     (case data of Inl _ \<Rightarrow> reply (bad ''no 2FA challenge in progress'') | Inr sd \<Rightarrow> do {
        found \<leftarrow> asks (\<lambda>d. Identity_GetByID (r_flt r) (s_IdentityID sess) (d_identities d));
        (case found of Inl _ \<Rightarrow> reply internal_error | Inr ident \<Rightarrow> do {
           loaded \<leftarrow> asks (\<lambda>d. loadCredentials (r_flt r) ident (d_passkeys d));
           (case loaded of Inl _ \<Rightarrow> reply internal_error | Inr user \<Rightarrow>
              (case wa_FinishLogin W user sd body of
                 None \<Rightarrow> do {
                   admin_audit r sess None ''2fa_failure'' [(''method'', JStr ''passkey''), (''reason'', JStr ''validation_failed'')];
                   reply (Abort StatusUnauthorized (Msg ''authentication failed''))
                 }
               | Some c \<Rightarrow> do {
                   got \<leftarrow> asks (\<lambda>d. Passkey_GetByCredentialID (r_flt r) (wc_ID c) (d_passkeys d));
                   (case got of Inl _ \<Rightarrow> reply (Inr ())
                    | Inr p \<Rightarrow> on_passkeys (Passkey_UpdateSignCount (r_flt r) (r_now r) (pk_ID p) (uint (wc_SignCount c))));
                   done \<leftarrow> on_sessions (Session_SetSecondFactor (r_flt r) (r_now r) (s_ID sess) ''passkey'');
                   (case done of Inl _ \<Rightarrow> reply internal_error | Inr _ \<Rightarrow> do {
                      admin_audit r sess None ''2fa_success'' [(''method'', JStr ''passkey'')];
                      reply (Respond StatusOK PreTenant)
                    })
                 }))
         })
      })
   })"

subsection \<open>Management\<close>

definition AdminListPasskeys :: "libs \<Rightarrow> request \<Rightarrow> string \<Rightarrow> (db, passkey_info list response) state" where
  [http_defs]: "AdminListPasskeys L r id_param = with_uuid L ''invalid identity ID'' id_param (\<lambda>identityID. do {
     res \<leftarrow> asks (\<lambda>d. Passkey_ListByIdentity (r_flt r) identityID (d_passkeys d));
     (case res of Inl _ \<Rightarrow> reply internal_error | Inr ps \<Rightarrow> reply (Respond StatusOK (map Passkey_Public ps)))
   })"

definition AdminDeletePasskey :: "libs \<Rightarrow> request \<Rightarrow> string \<Rightarrow> string \<Rightarrow> (db, unit response) state" where
  [http_defs]: "AdminDeletePasskey L r id_param passkey_id = with_session r (\<lambda>sess.
     with_uuid L ''invalid identity ID'' id_param (\<lambda>identityID.
     with_uuid L ''invalid passkey ID'' passkey_id (\<lambda>passkeyID. do {
       done \<leftarrow> on_passkeys (Passkey_Delete (r_flt r) passkeyID identityID);
       (case done of Inl _ \<Rightarrow> reply (missing ''passkey not found'') | Inr _ \<Rightarrow> do {
          admin_audit r sess None ''passkey_removed_by_admin''
            [(''passkey_id'', JId passkeyID), (''target_identity_id'', JId identityID)];
          reply (Respond StatusOK ())
        })
     })))"

definition Passkey_ListHandler :: "request \<Rightarrow> (db, passkey_info list response) state" where
  [http_defs]: "Passkey_ListHandler r = with_session r (\<lambda>sess. do {
     res \<leftarrow> asks (\<lambda>d. Passkey_ListByIdentity (r_flt r) (s_IdentityID sess) (d_passkeys d));
     (case res of Inl _ \<Rightarrow> reply internal_error | Inr ps \<Rightarrow> reply (Respond StatusOK (map Passkey_Public ps)))
   })"

definition Passkey_Remove :: "libs \<Rightarrow> request \<Rightarrow> string \<Rightarrow> (db, unit response) state" where
  [http_defs]: "Passkey_Remove L r id_param = with_session r (\<lambda>sess. with_uuid L ''invalid passkey ID'' id_param (\<lambda>passkeyID. do {
     done \<leftarrow> on_passkeys (Passkey_Delete (r_flt r) passkeyID (s_IdentityID sess));
     (case done of Inl _ \<Rightarrow> reply (missing ''passkey not found'') | Inr _ \<Rightarrow> do {
        admin_audit r sess None ''passkey_removed'' [(''passkey_id'', JId passkeyID)];
        reply (Respond StatusOK ())
      })
   }))"

end
