(* ===== verification/SSO.thy ===== *)
theory SSO
  imports Admin_Handlers
begin

text \<open>
  \<^verbatim>\<open>backend/internal/sso\<close>: the sign-on configuration of a tenant with its allowed email
  domains, the start of a sign-on at the provider and its end, where the identity is found or
  made and gets a session. The OpenID Connect client library and the provider behind it are an
  argument. The identity draws \<open>r_fresh r 1\<close>, the user \<open>r_fresh r 2\<close>, the session \<open>r_fresh r 0\<close>.
\<close>

subsection \<open>Store\<close>

definition SSO_GetByTenantID :: "faults \<Rightarrow> uuid \<Rightarrow> db \<Rightarrow> err + sso_config" where
  [store_defs]: "SSO_GetByTenantID flt tenantID d =
     query_row flt ''sso.GetByTenantID'' ErrNotFound (\<lambda>c. sc_TenantID c = tenantID) (d_sso_configs d)"

definition GetByTenantSlug :: "faults \<Rightarrow> string \<Rightarrow> db \<Rightarrow> err + sso_config \<times> uuid" where
  [store_defs]: "GetByTenantSlug flt slug d =
     (case query_row flt ''sso.GetByTenantSlug'' ErrNotFound (\<lambda>t. tn_Name t = slug) (d_tenants d) of
        Inl e \<Rightarrow> Inl e
      | Inr t \<Rightarrow> map_sum id (\<lambda>c. (c, tn_ID t)) (SSO_GetByTenantID flt (tn_ID t) d))"

record upsert_params =
  up_Protocol :: string
  up_EntityID :: "string option"
  up_SSOURL :: "string option"
  up_Certificate :: "string option"
  up_ClientID :: "string option"
  up_ClientSecret :: "string option"
  up_IssuerURL :: "string option"
  up_Enabled :: bool
  up_AutoProvision :: bool
  up_DefaultRole :: string

text \<open>SQL \<^verbatim>\<open>TRIM\<close> takes spaces off both ends, and nothing else.\<close>

definition sql_trim :: "string \<Rightarrow> string" where
  "sql_trim s = rev (dropWhile (\<lambda>c. c = CHR '' '') (rev (dropWhile (\<lambda>c. c = CHR '' '') s)))"

text \<open>\<^verbatim>\<open>COALESCE(NULLIF(TRIM(EXCLUDED.client_secret), ''), client_secret)\<close>\<close>

definition kept_secret :: "string option \<Rightarrow> string option \<Rightarrow> string option" where
  "kept_secret new old = (case new of None \<Rightarrow> old | Some s \<Rightarrow> if sql_trim s = [] then old else Some (sql_trim s))"

definition SSO_Upsert :: "faults \<Rightarrow> time \<Rightarrow> uuid \<Rightarrow> uuid \<Rightarrow> upsert_params \<Rightarrow> db \<Rightarrow> (db, sso_config) store_result" where
  [store_defs]: "SSO_Upsert flt now i tenantID p d =
     (if flt ''sso.Upsert'' 0 \<or> up_Protocol p \<notin> {''saml'', ''oidc''} \<or> \<not> role_check (up_DefaultRole p) \<or>
         tenant_by d tenantID = None
      then (d, Inl (Fault ''sso.Upsert''))
      else (case sql_row (\<lambda>c. sc_TenantID c = tenantID) (d_sso_configs d) of
          None \<Rightarrow>
            let c = \<lparr>sc_ID = i, sc_TenantID = tenantID, sc_Protocol = up_Protocol p, sc_EntityID = up_EntityID p,
                  sc_SSOURL = up_SSOURL p, sc_Certificate = up_Certificate p, sc_ClientID = up_ClientID p,
                  sc_ClientSecret = up_ClientSecret p, sc_IssuerURL = up_IssuerURL p, sc_Enabled = up_Enabled p,
                  sc_AutoProvision = up_AutoProvision p, sc_DefaultRole = up_DefaultRole p, sc_CreatedAt = now, sc_UpdatedAt = now\<rparr>
            in (d\<lparr>d_sso_configs := d_sso_configs d @ [c]\<rparr>, Inr c)
        | Some old \<Rightarrow>
            let f = (\<lambda>c. c\<lparr>sc_Protocol := up_Protocol p, sc_EntityID := up_EntityID p, sc_SSOURL := up_SSOURL p,
                  sc_Certificate := up_Certificate p, sc_ClientID := up_ClientID p,
                  sc_ClientSecret := kept_secret (up_ClientSecret p) (sc_ClientSecret c),
                  sc_IssuerURL := up_IssuerURL p, sc_Enabled := up_Enabled p, sc_AutoProvision := up_AutoProvision p,
                  sc_DefaultRole := up_DefaultRole p, sc_UpdatedAt := now\<rparr>)
            in (d\<lparr>d_sso_configs := sql_update (\<lambda>c. sc_TenantID c = tenantID) f (d_sso_configs d)\<rparr>, Inr (f old))))"

definition SSO_IsTenantSuspended :: "faults \<Rightarrow> uuid \<Rightarrow> db \<Rightarrow> err + bool" where
  [store_defs]: "SSO_IsTenantSuspended flt tenantID d =
     map_sum id (\<lambda>t. tn_SuspendedAt t \<noteq> None) (query_row flt ''sso.IsTenantSuspended'' ErrNoRows
       (\<lambda>t. tn_ID t = tenantID \<and> tn_DeletedAt t = None) (d_tenants d))"

definition SSO_ListEmailDomains :: "(string \<Rightarrow> int) \<Rightarrow> faults \<Rightarrow> uuid \<Rightarrow> db \<Rightarrow> err + sso_domain list" where
  [store_defs]: "SSO_ListEmailDomains coll flt configID d =
     (if flt ''sso.ListEmailDomains'' 0 then Inl (Fault ''sso.ListEmailDomains'')
      else Inr (sort_key (coll \<circ> ed_Domain) (filter (\<lambda>e. ed_SSOConfigurationID e = configID) (d_sso_domains d))))"

definition SSO_AddEmailDomain :: "faults \<Rightarrow> time \<Rightarrow> uuid \<Rightarrow> uuid \<Rightarrow> string \<Rightarrow> db \<Rightarrow> (db, sso_domain) store_result" where
  [store_defs]: "SSO_AddEmailDomain flt now i configID domain d =
     (if flt ''sso.AddEmailDomain'' 0 \<or> sql_exists (\<lambda>e. ed_Domain e = domain) (d_sso_domains d) \<or>
         \<not> sql_exists (\<lambda>c. sc_ID c = configID) (d_sso_configs d)
      then (d, Inl (Fault ''sso.AddEmailDomain''))
      else let e = \<lparr>ed_ID = i, ed_Domain = domain, ed_SSOConfigurationID = configID, ed_CreatedAt = now\<rparr> in
        (d\<lparr>d_sso_domains := d_sso_domains d @ [e]\<rparr>, Inr e))"

definition SSO_RemoveEmailDomain :: "faults \<Rightarrow> uuid \<Rightarrow> string \<Rightarrow> db \<Rightarrow> (db, unit) store_result" where
  [store_defs]: "SSO_RemoveEmailDomain flt configID domain d =
     (case done_some ErrNotFound (exec_delete flt ''sso.RemoveEmailDomain''
             (\<lambda>e. ed_SSOConfigurationID e = configID \<and> ed_Domain e = domain) (d_sso_domains d)) of
        (t, res) \<Rightarrow> (d\<lparr>d_sso_domains := t\<rparr>, res))"

text \<open>Unlike \<^verbatim>\<open>AddIdentityToTenant\<close> it puts the user into no sub-organization.\<close>

definition ProvisionUser :: "faults \<Rightarrow> time \<Rightarrow> uuid \<Rightarrow> uuid \<Rightarrow> uuid \<Rightarrow> string \<Rightarrow> db \<Rightarrow> (db, unit) store_result" where
  [store_defs]: "ProvisionUser flt now i identityID tenantID role d =
     (if flt ''sso.ProvisionUser'' 0 \<or> \<not> role_check role \<or> identity_by d identityID = None \<or> tenant_by d tenantID = None
      then (d, Inl (Fault ''sso.ProvisionUser''))
      else if sql_exists (\<lambda>u. u_IdentityID u = identityID \<and> u_TenantID u = tenantID) (d_users d) then (d, Inr ())
      else (d\<lparr>d_users := d_users d @ [\<lparr>u_ID = i, u_TenantID = tenantID, u_Role = role, u_IdentityID = identityID,
                u_CurrentClearanceID = None, u_CreatedAt = now, u_UpdatedAt = now\<rparr>]\<rparr>, Inr ()))"

subsection \<open>Signing on\<close>

text \<open>The client library: discovery of the issuer, the URL that asks it for a code (client,
  secret, redirect address, state), the exchange of the code for a token, which may lack the
  identity token, the check of that token for a client, and its claims (email, name).\<close>

record oidc =
  oi_Provider :: "string \<Rightarrow> bool"
  oi_AuthCodeURL :: "string \<Rightarrow> string \<Rightarrow> string \<Rightarrow> string \<Rightarrow> string \<Rightarrow> string"
  oi_Exchange :: "string \<Rightarrow> string \<Rightarrow> string \<Rightarrow> string \<Rightarrow> string \<Rightarrow> string option option"
  oi_Verify :: "string \<Rightarrow> string \<Rightarrow> string \<Rightarrow> string option"
  oi_Claims :: "string \<Rightarrow> (string \<times> string) option"

record site =
  st_Frontend :: string
  st_Backend :: string

definition sso_redirect :: "site \<Rightarrow> string" where
  "sso_redirect S = st_Backend S @ ''/api/auth/sso/callback/oidc''"

text \<open>Every end of a sign-on is a redirect: the address, and the cookies when it succeeded.\<close>

definition to_login :: "site \<Rightarrow> string \<Rightarrow> (string \<times> (uuid \<times> string) option) response" where
  "to_login S error = Respond StatusFound (st_Frontend S @ ''/login?error='' @ error, None)"

definition initiateOIDC :: "oidc \<Rightarrow> site \<Rightarrow> libs \<Rightarrow> sso_config \<Rightarrow> string response" where
  "initiateOIDC idp S L cfg = (case (sc_IssuerURL cfg, sc_ClientID cfg, sc_ClientSecret cfg) of
     (Some issuer, Some clientID, Some secret) \<Rightarrow>
       if \<not> oi_Provider idp issuer then Abort StatusInternalServerError (Msg ''failed to connect to identity provider'')
       else Respond StatusFound (oi_AuthCodeURL idp issuer clientID secret (sso_redirect S) (l_uuid_text L (sc_TenantID cfg)))
   | _ \<Rightarrow> bad ''OIDC configuration is incomplete'')"

definition InitiateSSO :: "oidc \<Rightarrow> site \<Rightarrow> libs \<Rightarrow> request \<Rightarrow> string \<Rightarrow> (db, string response) state" where
  [http_defs]: "InitiateSSO idp S L r slug = do {
     found \<leftarrow> asks (GetByTenantSlug (r_flt r) slug);
     (case found of Inl _ \<Rightarrow> reply (missing ''SSO not configured for this organization'') | Inr (cfg, _) \<Rightarrow>
        if \<not> sc_Enabled cfg then reply (bad ''SSO is not enabled for this organization'')
        else do {
          susp \<leftarrow> asks (SSO_IsTenantSuspended (r_flt r) (sc_TenantID cfg));
          (case susp of Inl _ \<Rightarrow> reply internal_error | Inr b \<Rightarrow>
             if b then reply (Abort StatusForbidden (Msg ''this organization is suspended''))
             else if sc_Protocol cfg = ''oidc'' then reply (initiateOIDC idp S L cfg)
             else if sc_Protocol cfg = ''saml''
             then reply (Abort StatusNotImplemented (Msg ''SAML SSO initiation is not yet implemented''))
             else reply (Abort StatusInternalServerError (Msg ''unknown SSO protocol'')))
        })
   }"

definition emailDomainAllowed :: "string \<Rightarrow> sso_domain list \<Rightarrow> bool" where
  "emailDomainAllowed email allowed = (if allowed = [] then True
     else let domain = ToLower (TrimSpace (email_domain email)) in
       domain \<noteq> [] \<and> list_ex (\<lambda>e. ToLower (TrimSpace (ed_Domain e)) = ToLower domain) allowed)"

text \<open>\<^verbatim>\<open>GetByEmail\<close>, or with automatic provisioning a new identity and its membership; the error
  of the membership is only logged.\<close>

definition find_or_provision :: "libs \<Rightarrow> request \<Rightarrow> sso_config \<Rightarrow> string \<Rightarrow> string \<Rightarrow> (db, string + identity) state" where
  [http_defs]: "find_or_provision L r cfg email name = do {
     found \<leftarrow> asks (\<lambda>d. Identity_GetByEmail (l_lower L) (r_flt r) email (d_identities d));
     (case found of Inr ident \<Rightarrow> reply (Inr ident) | Inl _ \<Rightarrow>
        if \<not> sc_AutoProvision cfg then reply (Inl ''sso_no_account'')
        else do {
          made \<leftarrow> on_identities (Identity_Create (l_lower L) (r_flt r) (r_now r) (r_fresh r 1) email name None);
          (case made of Inl _ \<Rightarrow> reply (Inl ''sso_failed'') | Inr ident \<Rightarrow> do {
             on_db (ProvisionUser (r_flt r) (r_now r) (r_fresh r 2) (i_ID ident) (sc_TenantID cfg) (sc_DefaultRole cfg));
             reply (Inr ident)
           })
        })
   }"

definition sso_session :: "site \<Rightarrow> request \<Rightarrow> sso_config \<Rightarrow> string \<Rightarrow> identity \<Rightarrow>
    (db, (string \<times> (uuid \<times> string) option) response) state" where
  [http_defs]: "sso_session S r cfg protocol ident = (case r_csrf r of None \<Rightarrow> reply (to_login S ''sso_failed'') | Some csrfToken \<Rightarrow> do {
     created \<leftarrow> on_sessions (Session_Create (r_flt r) (r_now r) (r_fresh r 0)
       \<lparr>p_IdentityID = i_ID ident, p_State = PreTenant, p_IPAddress = r_ip r, p_UserAgent = r_ua r,
        p_AuthMethod = protocol, p_CSRFToken = csrfToken\<rparr>);
     (case created of Inl _ \<Rightarrow> reply (to_login S ''sso_failed'') | Inr sess \<Rightarrow> do {
        audit_log r 0 ''login_success'' (Some (i_ID ident)) (Some (s_ID sess)) (Some (sc_TenantID cfg))
          [(''auth_method'', JStr protocol), (''sso_tenant'', JId (sc_TenantID cfg))];
        reply (Respond StatusFound (st_Frontend S @ ''/select-tenant'', Some (s_ID sess, csrfToken)))
      })
   })"

definition completeSSO :: "site \<Rightarrow> libs \<Rightarrow> request \<Rightarrow> sso_config \<Rightarrow> string \<Rightarrow> string \<Rightarrow> string \<Rightarrow>
    (db, (string \<times> (uuid \<times> string) option) response) state" where
  [http_defs]: "completeSSO S L r cfg email name protocol = do {
     susp \<leftarrow> asks (SSO_IsTenantSuspended (r_flt r) (sc_TenantID cfg));
     (case susp of Inl _ \<Rightarrow> reply (to_login S ''sso_failed'') | Inr b \<Rightarrow>
        if b then reply (to_login S ''org_suspended'')
        else do {
          listed \<leftarrow> asks (SSO_ListEmailDomains (l_collate L) (r_flt r) (sc_ID cfg));
          (case listed of Inl _ \<Rightarrow> reply (to_login S ''sso_failed'') | Inr allowed \<Rightarrow>
             if \<not> emailDomainAllowed email allowed then do {
               audit_log r 0 ''login_failure'' None None (Some (sc_TenantID cfg))
                 [(''auth_method'', JStr protocol), (''reason'', JStr ''sso_domain_not_allowed''), (''email'', JStr email)];
               reply (to_login S ''sso_domain_not_allowed'')
             }
             else do {
               who \<leftarrow> find_or_provision L r cfg email name;
               (case who of Inl e \<Rightarrow> reply (to_login S e) | Inr ident \<Rightarrow>
                  if IsSuspended ident then reply (to_login S ''account_suspended'')
                  else sso_session S r cfg protocol ident)
             })
        })
   }"

text \<open>The claims of the identity token the provider issues for the code; an address or client
  that is missing is a nil pointer, which the recovery middleware turns into an error.\<close>

definition oidc_claims :: "oidc \<Rightarrow> site \<Rightarrow> sso_config \<Rightarrow> string \<Rightarrow> (string \<times> string) option" where
  "oidc_claims idp S cfg code = (case (sc_IssuerURL cfg, sc_ClientID cfg, sc_ClientSecret cfg) of
     (Some issuer, Some clientID, Some secret) \<Rightarrow>
       if \<not> oi_Provider idp issuer then None
       else (case oi_Exchange idp issuer clientID secret (sso_redirect S) code of
          Some (Some raw) \<Rightarrow> (case Option.bind (oi_Verify idp issuer clientID raw) (oi_Claims idp) of
             Some (email, name) \<Rightarrow> if email = [] then None else Some (email, name)
           | None \<Rightarrow> None)
        | _ \<Rightarrow> None)
   | _ \<Rightarrow> None)"

text \<open>Without an issuer the pointer is followed before the provider is asked, without client or
  secret only after it has answered.\<close>

definition nil_pointer :: "oidc \<Rightarrow> sso_config \<Rightarrow> bool" where
  "nil_pointer idp cfg = (case sc_IssuerURL cfg of None \<Rightarrow> True
     | Some issuer \<Rightarrow> oi_Provider idp issuer \<and> (sc_ClientID cfg = None \<or> sc_ClientSecret cfg = None))"

definition OIDCCallback :: "oidc \<Rightarrow> site \<Rightarrow> libs \<Rightarrow> request \<Rightarrow> string \<Rightarrow> string \<Rightarrow>
    (db, (string \<times> (uuid \<times> string) option) response) state" where
  [http_defs]: "OIDCCallback idp S L r state code =
     (if state = [] \<or> code = [] then reply (to_login S ''sso_failed'')
      else (case l_uuid L state of None \<Rightarrow> reply (to_login S ''sso_failed'') | Some tenantID \<Rightarrow> do {
        found \<leftarrow> asks (SSO_GetByTenantID (r_flt r) tenantID);
        (case found of Inl _ \<Rightarrow> reply (to_login S ''sso_failed'') | Inr cfg \<Rightarrow>
           if \<not> sc_Enabled cfg \<or> sc_Protocol cfg \<noteq> ''oidc'' then reply (to_login S ''sso_failed'')
           else if nil_pointer idp cfg then reply (Abort StatusInternalServerError (Msg []))
           else (case oidc_claims idp S cfg code of
               None \<Rightarrow> reply (to_login S ''sso_failed'')
             | Some (email, name) \<Rightarrow> completeSSO S L r cfg email name ''oidc''))
      }))"

definition SAMLCallback :: "(db, unit response) state" where
  [http_defs]: "SAMLCallback = reply (Abort StatusNotImplemented (Msg ''SAML callback is not yet implemented''))"

subsection \<open>Configuration\<close>

text \<open>The tenant of the path for a super administrator, that of the session for everyone else.\<close>

definition with_sso_tenant :: "libs \<Rightarrow> request \<Rightarrow> string \<Rightarrow> (session \<Rightarrow> uuid \<Rightarrow> (db, 'b response) state) \<Rightarrow> (db, 'b response) state" where
  "with_sso_tenant L r id_param h = with_session r (\<lambda>sess.
     if s_IsSuperAdmin sess then with_uuid L ''invalid tenant ID'' id_param (h sess)
     else (case s_TenantID sess of Some t \<Rightarrow> h sess t | None \<Rightarrow> reply (Abort StatusForbidden (Msg ''no tenant''))))"

definition GetSSOConfig :: "libs \<Rightarrow> request \<Rightarrow> string \<Rightarrow> (db, sso_config response) state" where
  [http_defs]: "GetSSOConfig L r id_param = with_sso_tenant L r id_param (\<lambda>sess tenantID. do {
     found \<leftarrow> asks (SSO_GetByTenantID (r_flt r) tenantID);
     (case found of Inl _ \<Rightarrow> reply (missing ''no SSO configuration'') | Inr cfg \<Rightarrow> reply (Respond StatusOK cfg))
   })"

definition UpdateSSOConfig :: "libs \<Rightarrow> request \<Rightarrow> string \<Rightarrow> upsert_params option \<Rightarrow> (db, sso_config response) state" where
  [http_defs]: "UpdateSSOConfig L r id_param body = with_sso_tenant L r id_param (\<lambda>sess tenantID.
     (case body of None \<Rightarrow> reply invalid_request | Some p \<Rightarrow> do {
        made \<leftarrow> on_db (SSO_Upsert (r_flt r) (r_now r) (r_fresh r 0) tenantID p);
        (case made of Inl _ \<Rightarrow> reply internal_error | Inr cfg \<Rightarrow> do {
           admin_audit r sess (Some tenantID) ''sso_configured'' [(''protocol'', JStr (sc_Protocol cfg))];
           reply (Respond StatusOK cfg)
         })
      }))"

definition ListEmailDomains :: "libs \<Rightarrow> request \<Rightarrow> string \<Rightarrow> (db, sso_domain list response) state" where
  [http_defs]: "ListEmailDomains L r id_param = with_sso_tenant L r id_param (\<lambda>sess tenantID. do {
     found \<leftarrow> asks (SSO_GetByTenantID (r_flt r) tenantID);
     (case found of Inl _ \<Rightarrow> reply (missing ''no SSO configuration'') | Inr cfg \<Rightarrow> do {
        listed \<leftarrow> asks (SSO_ListEmailDomains (l_collate L) (r_flt r) (sc_ID cfg));
        (case listed of Inl _ \<Rightarrow> reply internal_error | Inr es \<Rightarrow> reply (Respond StatusOK es))
      })
   })"

definition AddEmailDomain :: "libs \<Rightarrow> request \<Rightarrow> string \<Rightarrow> string option \<Rightarrow> (db, sso_domain response) state" where
  [http_defs]: "AddEmailDomain L r id_param body = with_sso_tenant L r id_param (\<lambda>sess tenantID.
     (case body of None \<Rightarrow> reply invalid_request | Some domain \<Rightarrow> if domain = [] then reply invalid_request else do {
        found \<leftarrow> asks (SSO_GetByTenantID (r_flt r) tenantID);
        (case found of Inl _ \<Rightarrow> reply (missing ''no SSO configuration'') | Inr cfg \<Rightarrow> do {
           made \<leftarrow> on_db (SSO_AddEmailDomain (r_flt r) (r_now r) (r_fresh r 0) (sc_ID cfg) domain);
           (case made of Inl _ \<Rightarrow> reply (Abort StatusConflict (Msg ''domain already exists or invalid''))
            | Inr e \<Rightarrow> reply (Respond StatusCreated e))
         })
      }))"

definition RemoveEmailDomain :: "libs \<Rightarrow> request \<Rightarrow> string \<Rightarrow> string \<Rightarrow> (db, unit response) state" where
  [http_defs]: "RemoveEmailDomain L r id_param domain = with_sso_tenant L r id_param (\<lambda>sess tenantID.
     if domain = [] then reply (bad ''domain is required'') else do {
        found \<leftarrow> asks (SSO_GetByTenantID (r_flt r) tenantID);
        (case found of Inl _ \<Rightarrow> reply (missing ''no SSO configuration'') | Inr cfg \<Rightarrow> do {
           gone \<leftarrow> on_db (SSO_RemoveEmailDomain (r_flt r) (sc_ID cfg) domain);
           (case gone of Inl _ \<Rightarrow> reply (missing ''domain not found'') | Inr _ \<Rightarrow> reply (Respond StatusOK ()))
         })
      })"

end
