(* ===== verification/Wiki.thy ===== *)
theory Wiki
  imports DD254_Handlers
begin

text \<open>
  \<^verbatim>\<open>backend/internal/wiki\<close>: the articles of a tenant with their attached files, the contact
  shown to a member, and the requests on them.
\<close>

subsection \<open>Store\<close>

record post_file =
  pi_ID :: uuid
  pi_PostID :: uuid
  pi_FileName :: string
  pi_FileSize :: int
  pi_CreatedAt :: time

definition post_file_of :: "wiki_file \<Rightarrow> post_file" where
  "post_file_of f = \<lparr>pi_ID = wf_ID f, pi_PostID = wf_PostID f, pi_FileName = wf_FileName f, pi_FileSize = wf_FileSize f,
     pi_CreatedAt = wf_CreatedAt f\<rparr>"

record post_view =
  wv_Post :: wiki_post
  wv_CreatorName :: string
  wv_Files :: "post_file list"

record post_params =
  wq_TenantID :: uuid
  wq_CreatedByUserID :: uuid
  wq_SubOrgID :: "uuid option"
  wq_Title :: string
  wq_Content :: string
  wq_Published :: bool

record post_update =
  wu_TenantID :: uuid
  wu_ID :: uuid
  wu_Title :: string
  wu_Content :: string
  wu_Published :: bool
  wu_SubOrgID :: "uuid option"
  wu_UpdateSubOrgID :: bool

text \<open>A post joined with the name of its author; its files are read by a second statement.\<close>

definition scanPost :: "db \<Rightarrow> wiki_post \<Rightarrow> post_view option" where
  "scanPost d p = map_option (\<lambda>name. \<lparr>wv_Post = p, wv_CreatorName = name, wv_Files = []\<rparr>) (name_of d (wp_CreatedByUserID p))"

definition wiki_listFiles :: "faults \<Rightarrow> post_view list \<Rightarrow> db \<Rightarrow> err + post_view list" where
  [store_defs]: "wiki_listFiles flt posts d =
     (if posts = [] then Inr []
      else if flt ''wiki.listFiles'' 0 then Inl (Fault ''wiki.listFiles'')
      else Inr (map (\<lambda>v. v\<lparr>wv_Files := map post_file_of
        (sort_key wf_CreatedAt (filter (\<lambda>f. wf_PostID f = wp_ID (wv_Post v)) (d_wiki_files d)))\<rparr>) posts))"

definition Wiki_Get :: "faults \<Rightarrow> uuid \<Rightarrow> uuid \<Rightarrow> db \<Rightarrow> err + post_view" where
  [store_defs]: "Wiki_Get flt tenantID i d =
     (case query_row flt ''wiki.Get'' ErrNotFound (\<lambda>p. wp_TenantID p = tenantID \<and> wp_ID p = i) (d_wiki_posts d) of
        Inl e \<Rightarrow> Inl e
      | Inr p \<Rightarrow> (case scanPost d p of None \<Rightarrow> Inl ErrNotFound
        | Some v \<Rightarrow> map_sum id List.hd (wiki_listFiles flt [v] d)))"

definition Wiki_Create :: "faults \<Rightarrow> time \<Rightarrow> uuid \<Rightarrow> post_params \<Rightarrow> db \<Rightarrow> (db, post_view) store_result" where
  [store_defs]: "Wiki_Create flt now i p d =
     (if flt ''wiki.Create'' 0 \<or> tenant_by d (wq_TenantID p) = None \<or> user_by d (wq_CreatedByUserID p) = None \<or>
         (case wq_SubOrgID p of None \<Rightarrow> False | Some s \<Rightarrow> suborg_by d s = None)
      then (d, Inl (Fault ''wiki.Create''))
      else let d' = d\<lparr>d_wiki_posts := d_wiki_posts d @ [\<lparr>wp_ID = i, wp_TenantID = wq_TenantID p,
             wp_CreatedByUserID = wq_CreatedByUserID p, wp_SubOrgID = wq_SubOrgID p, wp_Title = wq_Title p,
             wp_Content = wq_Content p, wp_Published = wq_Published p, wp_CreatedAt = now, wp_UpdatedAt = now\<rparr>]\<rparr> in
        (d', Wiki_Get flt (wq_TenantID p) i d'))"

definition Wiki_List :: "faults \<Rightarrow> uuid \<Rightarrow> bool \<Rightarrow> uuid option \<Rightarrow> db \<Rightarrow> err + post_view list" where
  [store_defs]: "Wiki_List flt tenantID publishedOnly scope d =
     (if flt ''wiki.List'' 0 then Inl (Fault ''wiki.List'')
      else wiki_listFiles flt (List.map_filter (scanPost d) (sql_desc wp_CreatedAt (filter (\<lambda>p.
        wp_TenantID p = tenantID \<and> (publishedOnly \<longrightarrow> wp_Published p) \<and>
        (case scope of None \<Rightarrow> True | Some s \<Rightarrow> wp_SubOrgID p = None \<or> wp_SubOrgID p = Some s)) (d_wiki_posts d)))) d)"

definition Wiki_Update :: "faults \<Rightarrow> time \<Rightarrow> post_update \<Rightarrow> db \<Rightarrow> (db, post_view) store_result" where
  [store_defs]: "Wiki_Update flt now p d =
     (let P = (\<lambda>x. wp_ID x = wu_ID p \<and> wp_TenantID x = wu_TenantID p) in
      if wu_UpdateSubOrgID p \<and> sql_exists P (d_wiki_posts d) \<and>
         (case wu_SubOrgID p of None \<Rightarrow> False | Some s \<Rightarrow> suborg_by d s = None)
      then (d, Inl (Fault ''wiki.Update''))
      else case done_some ErrNotFound (exec_update flt ''wiki.Update'' P (\<lambda>x.
             x\<lparr>wp_Title := wu_Title p, wp_Content := wu_Content p, wp_Published := wu_Published p,
               wp_SubOrgID := (if wu_UpdateSubOrgID p then wu_SubOrgID p else wp_SubOrgID x), wp_UpdatedAt := now\<rparr>)
             (d_wiki_posts d)) of
        (t, Inl e) \<Rightarrow> (d\<lparr>d_wiki_posts := t\<rparr>, Inl e)
      | (t, Inr _) \<Rightarrow> (d\<lparr>d_wiki_posts := t\<rparr>, Wiki_Get flt (wu_TenantID p) (wu_ID p) (d\<lparr>d_wiki_posts := t\<rparr>)))"

text \<open>The rows of the files go with the post; the objects they name stay in the file store.\<close>

definition Wiki_Delete :: "faults \<Rightarrow> uuid \<Rightarrow> uuid \<Rightarrow> db \<Rightarrow> (db, unit) store_result" where
  [store_defs]: "Wiki_Delete flt tenantID i d =
     (let P = (\<lambda>x. wp_ID x = i \<and> wp_TenantID x = tenantID) in
      case done_some ErrNotFound (exec_delete flt ''wiki.Delete'' P (d_wiki_posts d)) of
        (t, Inl e) \<Rightarrow> (d\<lparr>d_wiki_posts := t\<rparr>, Inl e)
      | (t, Inr _) \<Rightarrow> (d\<lparr>d_wiki_posts := t, d_wiki_files := sql_delete (\<lambda>f. wf_PostID f = i) (d_wiki_files d)\<rparr>, Inr ()))"

definition Wiki_AddFile ::
  "faults \<Rightarrow> time \<Rightarrow> uuid \<Rightarrow> uuid \<Rightarrow> uuid \<Rightarrow> string \<Rightarrow> string \<Rightarrow> int \<Rightarrow> db \<Rightarrow> (db, post_file) store_result" where
  [store_defs]: "Wiki_AddFile flt now i postID tenantID fileName storageKey fileSize d =
     (if flt ''wiki.AddFile'' 0 \<or> \<not> sql_exists (\<lambda>p. wp_ID p = postID) (d_wiki_posts d) \<or> tenant_by d tenantID = None
      then (d, Inl (Fault ''wiki.AddFile''))
      else let f = \<lparr>wf_ID = i, wf_PostID = postID, wf_TenantID = tenantID, wf_FileName = fileName, wf_StorageKey = storageKey,
             wf_FileSize = fileSize, wf_CreatedAt = now\<rparr> in
        (d\<lparr>d_wiki_files := d_wiki_files d @ [f]\<rparr>, Inr (post_file_of f)))"

definition Wiki_GetFile :: "faults \<Rightarrow> uuid \<Rightarrow> uuid \<Rightarrow> db \<Rightarrow> err + string \<times> post_file" where
  [store_defs]: "Wiki_GetFile flt tenantID i d =
     map_sum id (\<lambda>f. (wf_StorageKey f, post_file_of f))
       (query_row flt ''wiki.GetFile'' ErrNotFound (\<lambda>f. wf_ID f = i \<and> wf_TenantID f = tenantID) (d_wiki_files d))"

definition Wiki_DeleteFile :: "faults \<Rightarrow> uuid \<Rightarrow> uuid \<Rightarrow> db \<Rightarrow> (db, string) store_result" where
  [store_defs]: "Wiki_DeleteFile flt tenantID i d =
     (let P = (\<lambda>f. wf_ID f = i \<and> wf_TenantID f = tenantID) in
      case query_row flt ''wiki.DeleteFile'' ErrNotFound P (d_wiki_files d) of
        Inl e \<Rightarrow> (d, Inl e)
      | Inr f \<Rightarrow> (d\<lparr>d_wiki_files := sql_delete P (d_wiki_files d)\<rparr>, Inr (wf_StorageKey f)))"

definition GetFSO_fallback :: "faults \<Rightarrow> uuid \<Rightarrow> db \<Rightarrow> err + (string \<times> string) option" where
  [store_defs]: "GetFSO_fallback flt tenantID d =
     (if flt ''wiki.GetFSO.fallback'' 0 then Inl (Fault ''wiki.GetFSO.fallback'')
      else case sort_key u_CreatedAt (filter (\<lambda>u. u_TenantID u = tenantID \<and> u_Role u = ''fso'' \<and>
             identity_by d (u_IdentityID u) \<noteq> None) (d_users d)) of
        [] \<Rightarrow> Inr None
      | u # _ \<Rightarrow> Inr (map_option (\<lambda>i. (i_Name i, i_Email i)) (identity_by d (u_IdentityID u))))"

definition Wiki_GetFSO :: "faults \<Rightarrow> uuid \<Rightarrow> uuid option \<Rightarrow> db \<Rightarrow> err + (string \<times> string) option" where
  [store_defs]: "Wiki_GetFSO flt tenantID subOrgID d =
     (case subOrgID of None \<Rightarrow> GetFSO_fallback flt tenantID d
      | Some s \<Rightarrow>
          if flt ''wiki.GetFSO.primary'' 0 then Inl (Fault ''wiki.GetFSO.primary'')
          else (case suborg_by d s of None \<Rightarrow> GetFSO_fallback flt tenantID d
            | Some so \<Rightarrow> if so_TenantID so \<noteq> tenantID then GetFSO_fallback flt tenantID d else
               (case Option.bind (so_PrimaryFSOUserID so) (contact_of d) of
                  Some (_, i) \<Rightarrow> Inr (Some (i_Name i, i_Email i))
                | None \<Rightarrow> GetFSO_fallback flt tenantID d)))"

subsection \<open>Requests of members\<close>

definition wiki_maxFileSize :: int where "wiki_maxFileSize = 20 * 2 ^ 20"

definition wiki_parseSubOrgID :: "libs \<Rightarrow> string option \<Rightarrow> uuid option option" where
  "wiki_parseSubOrgID L raw = (case raw of None \<Rightarrow> Some None
     | Some s \<Rightarrow> if s = [] then Some None else map_option Some (l_uuid L s))"

definition wiki_audit :: "request \<Rightarrow> uuid \<Rightarrow> string \<Rightarrow> (string \<times> json) list \<Rightarrow> (db, unit) state" where
  "wiki_audit r tenantID action meta = (case r_session r of None \<Rightarrow> reply ()
     | Some sess \<Rightarrow> audit_log r 0 action (Some (s_IdentityID sess)) (Some (s_ID sess)) (Some tenantID) meta)"

definition wiki_failure :: "err \<Rightarrow> 'b response" where
  "wiki_failure e = (if e = ErrNotFound then Abort StatusNotFound (Msg ''not found'') else internal_error)"

definition Wiki_ListPublished :: "request \<Rightarrow> (db, post_view list response) state" where
  [http_defs]: "Wiki_ListPublished r = with_member r (\<lambda>sess tenantID userID. do {
     res \<leftarrow> asks (Wiki_List (r_flt r) tenantID True (s_SubOrgID sess));
     (case res of Inl _ \<Rightarrow> reply internal_error | Inr posts \<Rightarrow> reply (Respond StatusOK posts))
   })"

definition Wiki_GetFSOInfo :: "request \<Rightarrow> (db, (string \<times> string) option response) state" where
  [http_defs]: "Wiki_GetFSOInfo r = with_member r (\<lambda>sess tenantID userID. do {
     res \<leftarrow> asks (Wiki_GetFSO (r_flt r) tenantID (s_SubOrgID sess));
     (case res of Inl _ \<Rightarrow> reply internal_error | Inr fso \<Rightarrow> reply (Respond StatusOK fso))
   })"

text \<open>File name and content; the content type is always \<^verbatim>\<open>application/pdf\<close>.\<close>

definition Wiki_ViewFile :: "storage_backend \<Rightarrow> libs \<Rightarrow> request \<Rightarrow> string \<Rightarrow> (db, (string \<times> string) response) state" where
  [http_defs]: "Wiki_ViewFile sb L r file_id = with_member r (\<lambda>sess tenantID userID.
     with_uuid L ''invalid file id'' file_id (\<lambda>i. do {
       res \<leftarrow> asks (Wiki_GetFile (r_flt r) tenantID i);
       (case res of Inl e \<Rightarrow> reply (wiki_failure e) | Inr (key, f) \<Rightarrow> do {
          got \<leftarrow> asks (\<lambda>d. sb_Download sb (r_flt r) key (d_files d));
          (case got of Inl _ \<Rightarrow> reply internal_error | Inr content \<Rightarrow> reply (Respond StatusOK (pi_FileName f, content)))
        })
     }))"

text \<open>The key is the wildcard of the route, which starts with a slash.\<close>

definition Wiki_ServeLocalFile :: "storage_backend \<Rightarrow> request \<Rightarrow> string \<Rightarrow> (db, (string \<times> string) response) state" where
  [http_defs]: "Wiki_ServeLocalFile sb r key_param = with_member r (\<lambda>sess tenantID userID. do {
     got \<leftarrow> asks (\<lambda>d. sb_Download sb (r_flt r) (drop 1 key_param) (d_files d));
     (case got of Inl _ \<Rightarrow> reply (Abort StatusNotFound (Msg ''file not found''))
      | Inr content \<Rightarrow> reply (Respond StatusOK (path_base (drop 1 key_param), content)))
   })"

subsection \<open>Requests of administrators and officers\<close>

record post_body =
  wb_Title :: string
  wb_Content :: string
  wb_Published :: bool
  wb_SubOrgID :: "string option"

definition with_post_body :: "post_body option \<Rightarrow> (post_body \<Rightarrow> (db, 'b response) state) \<Rightarrow> (db, 'b response) state" where
  "with_post_body body h = (case body of None \<Rightarrow> reply (Abort StatusBadRequest (Msg ''title is required''))
     | Some b \<Rightarrow> if wb_Title b = [] then reply (Abort StatusBadRequest (Msg ''title is required'')) else h b)"

definition Wiki_AdminList :: "libs \<Rightarrow> request \<Rightarrow> string \<Rightarrow> (db, post_view list response) state" where
  [http_defs]: "Wiki_AdminList L r sub_org_id = with_member r (\<lambda>sess tenantID userID. do {
     res \<leftarrow> asks (Wiki_List (r_flt r) tenantID False (scope_of L r sess sub_org_id));
     (case res of Inl _ \<Rightarrow> reply internal_error | Inr posts \<Rightarrow> reply (Respond StatusOK posts))
   })"

text \<open>An administrator names the sub-organization; everyone else inherits that of the session.\<close>

definition Wiki_AdminCreate :: "libs \<Rightarrow> request \<Rightarrow> post_body option \<Rightarrow> (db, post_view response) state" where
  [http_defs]: "Wiki_AdminCreate L r body = with_member r (\<lambda>sess tenantID userID. with_post_body body (\<lambda>b.
     (case (if s_UserRole sess = Some ''administrator'' then wiki_parseSubOrgID L (wb_SubOrgID b) else Some (s_SubOrgID sess)) of
        None \<Rightarrow> reply (Abort StatusBadRequest (Msg ''invalid sub_org_id''))
      | Some subOrgID \<Rightarrow> do {
          made \<leftarrow> on_db (Wiki_Create (r_flt r) (r_now r) (r_fresh r 0) \<lparr>wq_TenantID = tenantID, wq_CreatedByUserID = userID,
            wq_SubOrgID = subOrgID, wq_Title = wb_Title b, wq_Content = wb_Content b, wq_Published = wb_Published b\<rparr>);
          (case made of Inl _ \<Rightarrow> reply internal_error | Inr v \<Rightarrow> do {
             wiki_audit r tenantID ''wiki_post_created'' [(''post_id'', JId (wp_ID (wv_Post v))), (''published'', JBool (wb_Published b))];
             reply (Respond StatusCreated v)
           })
        })))"

definition Wiki_AdminGet :: "libs \<Rightarrow> request \<Rightarrow> string \<Rightarrow> (db, post_view response) state" where
  [http_defs]: "Wiki_AdminGet L r id_param = with_member r (\<lambda>sess tenantID userID. with_uuid L ''invalid id'' id_param (\<lambda>i. do {
     res \<leftarrow> asks (Wiki_Get (r_flt r) tenantID i);
     (case res of Inl e \<Rightarrow> reply (wiki_failure e) | Inr v \<Rightarrow> reply (Respond StatusOK v))
   }))"

definition Wiki_AdminUpdate :: "libs \<Rightarrow> request \<Rightarrow> string \<Rightarrow> post_body option \<Rightarrow> (db, post_view response) state" where
  [http_defs]: "Wiki_AdminUpdate L r id_param body = with_member r (\<lambda>sess tenantID userID.
     with_uuid L ''invalid id'' id_param (\<lambda>i. with_post_body body (\<lambda>b.
       let admin = (s_UserRole sess = Some ''administrator'') in
       (case (if admin then wiki_parseSubOrgID L (wb_SubOrgID b) else Some None) of
          None \<Rightarrow> reply (Abort StatusBadRequest (Msg ''invalid sub_org_id''))
        | Some so \<Rightarrow> do {
            made \<leftarrow> on_db (Wiki_Update (r_flt r) (r_now r) \<lparr>wu_TenantID = tenantID, wu_ID = i, wu_Title = wb_Title b,
              wu_Content = wb_Content b, wu_Published = wb_Published b, wu_SubOrgID = so, wu_UpdateSubOrgID = admin\<rparr>);
            (case made of Inl e \<Rightarrow> reply (wiki_failure e) | Inr v \<Rightarrow> do {
               wiki_audit r tenantID ''wiki_post_updated'' [(''post_id'', JId i), (''published'', JBool (wb_Published b))];
               reply (Respond StatusOK v)
             })
          }))))"

definition Wiki_AdminDelete :: "libs \<Rightarrow> request \<Rightarrow> string \<Rightarrow> (db, unit response) state" where
  [http_defs]: "Wiki_AdminDelete L r id_param = with_member r (\<lambda>sess tenantID userID. with_uuid L ''invalid id'' id_param (\<lambda>i. do {
     res \<leftarrow> on_db (Wiki_Delete (r_flt r) tenantID i);
     (case res of Inl e \<Rightarrow> reply (wiki_failure e) | Inr _ \<Rightarrow> do {
        wiki_audit r tenantID ''wiki_post_deleted'' [(''post_id'', JId i)];
        reply (Respond StatusNoContent ())
      })
   }))"

text \<open>The object is named by the post and the name of the file. If its row cannot be written the
  object is removed again.\<close>

definition wiki_key :: "libs \<Rightarrow> uuid \<Rightarrow> uuid \<Rightarrow> string \<Rightarrow> string" where
  "wiki_key L tenantID postID name = WikiKeyPrefix (l_uuid_text L) tenantID postID @ ''/'' @ name"

definition check_wiki_file :: "form_file option \<Rightarrow> string + form_file" where
  "check_wiki_file form = (case form of None \<Rightarrow> Inl ''file is required''
     | Some f \<Rightarrow> if ff_BodySize f > wiki_maxFileSize then Inl ''file is required''
         else if ToLower (path_ext (ff_Filename f)) \<noteq> ''.pdf'' then Inl ''only PDF files are allowed'' else Inr f)"

definition Wiki_AdminUploadFile ::
  "scanner \<Rightarrow> storage_backend \<Rightarrow> libs \<Rightarrow> request \<Rightarrow> string \<Rightarrow> form_file option \<Rightarrow> (db, post_file response) state" where
  [http_defs]: "Wiki_AdminUploadFile sc sb L r id_param form = with_member r (\<lambda>sess tenantID userID.
     with_uuid L ''invalid post id'' id_param (\<lambda>postID. do {
       found \<leftarrow> asks (Wiki_Get (r_flt r) tenantID postID);
       (case found of
          Inl e \<Rightarrow> reply (if e = ErrNotFound then Abort StatusNotFound (Msg ''post not found'') else internal_error)
        | Inr _ \<Rightarrow> (case check_wiki_file form of Inl e \<Rightarrow> reply (Abort StatusBadRequest (Msg e)) | Inr f \<Rightarrow>
            let key = wiki_key L tenantID postID (ff_Filename f) in
            scan_first sc r f (do {
              stored \<leftarrow> on_files (sb_Upload sb (r_flt r) key (ff_Content f));
              (case stored of Inl _ \<Rightarrow> reply (Abort StatusInternalServerError (Msg ''upload failed'')) | Inr _ \<Rightarrow> do {
                 made \<leftarrow> on_db (Wiki_AddFile (r_flt r) (r_now r) (r_fresh r 0) postID tenantID (ff_Filename f) key (ff_Size f));
                 (case made of Inl _ \<Rightarrow> do {
                    on_files (sb_Delete sb (r_flt r) key);
                    reply internal_error
                  }
                  | Inr x \<Rightarrow> do {
                    wiki_audit r tenantID ''wiki_file_uploaded'' [(''post_id'', JId postID), (''file_id'', JId (pi_ID x)),
                      (''file_name'', JStr (ff_Filename f)), (''size'', JNum (ff_Size f))];
                    reply (Respond StatusCreated x)
                  })
               })
            })))
     }))"

definition Wiki_AdminDeleteFile :: "storage_backend \<Rightarrow> libs \<Rightarrow> request \<Rightarrow> string \<Rightarrow> (db, unit response) state" where
  [http_defs]: "Wiki_AdminDeleteFile sb L r file_id = with_member r (\<lambda>sess tenantID userID.
     with_uuid L ''invalid file id'' file_id (\<lambda>i. do {
       res \<leftarrow> on_db (Wiki_DeleteFile (r_flt r) tenantID i);
       (case res of Inl e \<Rightarrow> reply (wiki_failure e) | Inr key \<Rightarrow> do {
          on_files (sb_Delete sb (r_flt r) key);
          wiki_audit r tenantID ''wiki_file_deleted'' [(''file_id'', JId i)];
          reply (Respond StatusNoContent ())
        })
     }))"

end
