(* ===== verification/Mail.thy ===== *)
theory Mail
  imports Admin_Handlers
begin

text \<open>
  \<^verbatim>\<open>backend/internal/email/email.go\<close> and \<^verbatim>\<open>notify/notify.go\<close>: the mails the server
  sends, and the gate that holds back those a user wants in the daily summary. Rendering of the
  templates and the transport are arguments; a mail is what is handed to the transport.
\<close>

subsection \<open>Messages\<close>

record message =
  mg_To :: string
  mg_Subject :: string
  mg_HTML :: string
  mg_Text :: string

datatype template_value = TStr string | TNum nat

text \<open>\<open>ml_render\<close> is \<^verbatim>\<open>templateSet.render\<close>: template and its data to HTML and text;
  \<open>ml_send\<close> the transport, which may refuse a message; \<open>ml_date\<close> the layout
  \<^verbatim>\<open>January 2, 2006\<close> in UTC.\<close>

record mailer =
  ml_render :: "string \<Rightarrow> (string \<times> template_value) list \<Rightarrow> (string \<times> string) option"
  ml_send :: "message \<Rightarrow> bool"
  ml_appURL :: string
  ml_date :: "time \<Rightarrow> string"

text \<open>What a \<^verbatim>\<open>Send\<close> function does: the messages that reached the transport, and its error.\<close>

type_synonym sent = "message list \<times> (err + unit)"

definition send_rendered :: "mailer \<Rightarrow> string \<Rightarrow> (string \<times> template_value) list \<Rightarrow> string \<Rightarrow> string \<Rightarrow> sent" where
  "send_rendered M template vals to subject = (case ml_render M template vals of
     None \<Rightarrow> ([], Inl (ErrMsg (''render '' @ template @ '' template'')))
   | Some (html, plain) \<Rightarrow>
       let m = \<lparr>mg_To = to, mg_Subject = subject, mg_HTML = html, mg_Text = plain\<rparr> in
       if ml_send M m then ([m], Inr ()) else ([], Inl (ErrMsg ''send'')))"

definition SendEmailCode :: "mailer \<Rightarrow> string \<Rightarrow> string \<Rightarrow> sent" where
  "SendEmailCode M to code = send_rendered M ''email_code'' [(''Code'', TStr code)] to ''Your fastFSO verification code''"

definition SendInviteSSO :: "mailer \<Rightarrow> string \<Rightarrow> string \<Rightarrow> sent" where
  "SendInviteSSO M to tenantName = send_rendered M ''invite_sso'' [(''TenantName'', TStr tenantName), (''AppURL'', TStr (ml_appURL M))]
     to (''You've been added to '' @ tenantName @ '' on fastFSO'')"

definition SendAdminInvite :: "mailer \<Rightarrow> string \<Rightarrow> string \<Rightarrow> string \<Rightarrow> sent" where
  "SendAdminInvite M to tenantName appURL = send_rendered M ''invite_admin'' [(''TenantName'', TStr tenantName), (''AppURL'', TStr appURL)]
     to (''You've been invited to '' @ tenantName @ '' on fastFSO'')"

definition SourceTypeLabel :: "string \<Rightarrow> string" where
  "SourceTypeLabel s =
     (if s = ''visit_request'' then ''visit request''
      else if s = ''travel_report'' then ''travel report''
      else if s = ''travel_debrief'' then ''travel debrief''
      else if s = ''task_submission'' then ''task submission''
      else if s = ''report'' then ''life event report''
      else ''item'')"

definition SendActionItemAssigned :: "mailer \<Rightarrow> string \<Rightarrow> string \<Rightarrow> string \<Rightarrow> sent" where
  "SendActionItemAssigned M to name sourceType = (let label = SourceTypeLabel sourceType in
     send_rendered M ''action_item_assigned'' [(''Name'', TStr name), (''Label'', TStr label), (''AppURL'', TStr (ml_appURL M))]
       to (''fastFSO: new '' @ label @ '' to review''))"

definition SendDebriefAssigned :: "mailer \<Rightarrow> string \<Rightarrow> string \<Rightarrow> string \<Rightarrow> sent" where
  "SendDebriefAssigned M to name debriefID = send_rendered M ''debrief_assigned''
     [(''Name'', TStr name), (''AppURL'', TStr (ml_appURL M)), (''DebriefID'', TStr debriefID)]
     to ''fastFSO: post-travel debrief ready for you''"

definition SendTaskReminder :: "mailer \<Rightarrow> string \<Rightarrow> string \<Rightarrow> reminder_counts \<Rightarrow> sent" where
  "SendTaskReminder M to name c = send_rendered M ''task_reminder''
     [(''Name'', TStr name), (''OverdueTasks'', TNum (rc_OverdueTasks c)), (''DueSoonTasks'', TNum (rc_DueSoonTasks c)),
      (''OverdueDebriefs'', TNum (rc_OverdueDebriefs c)), (''DueSoonDebriefs'', TNum (rc_DueSoonDebriefs c)),
      (''AppURL'', TStr (ml_appURL M))]
     to (if rc_OverdueTasks c > 0 \<or> rc_OverdueDebriefs c > 0 then ''fastFSO: you have overdue items''
         else ''fastFSO: items waiting on you'')"

definition due_values :: "mailer \<Rightarrow> string \<Rightarrow> due_counts \<Rightarrow> (string \<times> template_value) list" where
  "due_values M name c = [(''Name'', TStr name), (''Due90Days'', TNum (du_Due90Days c)), (''Due30Days'', TNum (du_Due30Days c)),
     (''Overdue'', TNum (du_Overdue c)), (''AppURL'', TStr (ml_appURL M))]"

definition SendClearanceReminder :: "mailer \<Rightarrow> string \<Rightarrow> string \<Rightarrow> due_counts \<Rightarrow> sent" where
  "SendClearanceReminder M to name c = send_rendered M ''clearance_reminder'' (due_values M name c)
     to (if du_Overdue c > 0 then ''fastFSO: overdue clearance investigations'' else ''fastFSO: clearance investigations coming due'')"

definition SendDd254Reminder :: "mailer \<Rightarrow> string \<Rightarrow> string \<Rightarrow> due_counts \<Rightarrow> sent" where
  "SendDd254Reminder M to name c = send_rendered M ''dd254_reminder'' (due_values M name c)
     to (if du_Overdue c > 0 then ''fastFSO: expired DD254 forms'' else ''fastFSO: DD254 forms expiring'')"

definition SendTaskAssigned :: "mailer \<Rightarrow> string \<Rightarrow> string \<Rightarrow> sent" where
  "SendTaskAssigned M to name = send_rendered M ''task_assigned'' [(''Name'', TStr name), (''AppURL'', TStr (ml_appURL M))]
     to ''fastFSO: a new task has been assigned to you''"

definition SendTaskSubmissionReviewed :: "mailer \<Rightarrow> string \<Rightarrow> string \<Rightarrow> string \<Rightarrow> sent" where
  "SendTaskSubmissionReviewed M to name decision = send_rendered M ''task_submission_reviewed''
     [(''Name'', TStr name), (''Decision'', TStr decision), (''AppURL'', TStr (ml_appURL M))]
     to (''fastFSO: your task submission was '' @ decision)"

definition DigestCounts_HasContent :: "digest_counts \<Rightarrow> bool" where
  "DigestCounts_HasContent c =
     (dc_NewActionItems c > 0 \<or> dc_NewTasksAssigned c > 0 \<or> dc_NewTaskReviews c > 0 \<or>
      dc_NewDebriefs c > 0 \<or> dc_OpenTasks c > 0 \<or> dc_OpenDebriefs c > 0 \<or> dc_OverdueTasks c > 0)"

definition ReminderCounts_HasContent :: "reminder_counts \<Rightarrow> bool" where
  "ReminderCounts_HasContent c =
     (rc_OverdueTasks c > 0 \<or> rc_DueSoonTasks c > 0 \<or> rc_OverdueDebriefs c > 0 \<or> rc_DueSoonDebriefs c > 0)"

definition DueCounts_HasContent :: "due_counts \<Rightarrow> bool" where
  "DueCounts_HasContent c = (du_Due90Days c > 0 \<or> du_Due30Days c > 0 \<or> du_Overdue c > 0)"

definition SendDailySummary :: "mailer \<Rightarrow> time \<Rightarrow> string \<Rightarrow> string \<Rightarrow> digest_counts \<Rightarrow> sent" where
  "SendDailySummary M now to name c = send_rendered M ''daily_summary''
     [(''Name'', TStr name), (''Date'', TStr (ml_date M now)), (''NewActionItems'', TNum (dc_NewActionItems c)),
      (''NewTasksAssigned'', TNum (dc_NewTasksAssigned c)), (''NewTaskReviews'', TNum (dc_NewTaskReviews c)),
      (''NewDebriefs'', TNum (dc_NewDebriefs c)), (''OpenTasks'', TNum (dc_OpenTasks c)),
      (''OpenDebriefs'', TNum (dc_OpenDebriefs c)), (''OverdueTasks'', TNum (dc_OverdueTasks c)), (''AppURL'', TStr (ml_appURL M))]
     to (''fastFSO: your daily summary for '' @ ml_date M now)"

definition SendPasswordReset :: "mailer \<Rightarrow> string \<Rightarrow> string \<Rightarrow> string \<Rightarrow> sent" where
  "SendPasswordReset M to appURL token = send_rendered M ''password_reset''
     [(''ResetURL'', TStr (appURL @ ''/reset-password?token='' @ token))] to ''Reset your fastFSO password''"

definition SendAdminInviteSetup :: "mailer \<Rightarrow> string \<Rightarrow> string \<Rightarrow> string \<Rightarrow> string \<Rightarrow> sent" where
  "SendAdminInviteSetup M to tenantName appURL token = send_rendered M ''invite_setup''
     [(''TenantName'', TStr tenantName), (''SetupURL'', TStr (appURL @ ''/accept-invite?token='' @ token))]
     to (''You've been invited to '' @ tenantName @ '' on fastFSO'')"

subsection \<open>The notifier\<close>

text \<open>A failed lookup sends rather than drops. The settings store is configured.\<close>

definition shouldSendNow :: "faults \<Rightarrow> uuid \<Rightarrow> db \<Rightarrow> bool" where
  "shouldSendNow flt userID d =
     (userID = uuid_Nil \<or> (case NotificationFrequency flt userID d of Inl _ \<Rightarrow> True | Inr f \<Rightarrow> f \<noteq> FrequencyDailySummary))"

text \<open>The shape of every \<^verbatim>\<open>Notify\<close> function: an address, something to say, the gate. The
  goroutine that sends only logs an error.\<close>

definition notify_user :: "faults \<Rightarrow> db \<Rightarrow> uuid \<Rightarrow> string \<Rightarrow> bool \<Rightarrow> sent \<Rightarrow> message list" where
  "notify_user flt d userID to worth s =
     (if to = [] then [] else if \<not> worth then [] else if \<not> shouldSendNow flt userID d then [] else fst s)"

definition NotifyActionItemAssigned :: "mailer \<Rightarrow> faults \<Rightarrow> db \<Rightarrow> uuid \<Rightarrow> string \<Rightarrow> string \<Rightarrow> string \<Rightarrow> message list" where
  "NotifyActionItemAssigned M flt d userID to name sourceType =
     notify_user flt d userID to True (SendActionItemAssigned M to name sourceType)"

definition NotifyTaskAssigned :: "mailer \<Rightarrow> faults \<Rightarrow> db \<Rightarrow> uuid \<Rightarrow> string \<Rightarrow> string \<Rightarrow> message list" where
  "NotifyTaskAssigned M flt d userID to name = notify_user flt d userID to True (SendTaskAssigned M to name)"

definition NotifyDebriefAssigned :: "mailer \<Rightarrow> faults \<Rightarrow> db \<Rightarrow> uuid \<Rightarrow> string \<Rightarrow> string \<Rightarrow> string \<Rightarrow> message list" where
  "NotifyDebriefAssigned M flt d userID to name debriefID =
     notify_user flt d userID to True (SendDebriefAssigned M to name debriefID)"

definition NotifyTaskReminder :: "mailer \<Rightarrow> faults \<Rightarrow> db \<Rightarrow> uuid \<Rightarrow> string \<Rightarrow> string \<Rightarrow> reminder_counts \<Rightarrow> message list" where
  "NotifyTaskReminder M flt d userID to name c =
     notify_user flt d userID to (ReminderCounts_HasContent c) (SendTaskReminder M to name c)"

definition NotifyClearanceDue :: "mailer \<Rightarrow> faults \<Rightarrow> db \<Rightarrow> uuid \<Rightarrow> string \<Rightarrow> string \<Rightarrow> due_counts \<Rightarrow> message list" where
  "NotifyClearanceDue M flt d userID to name c =
     notify_user flt d userID to (DueCounts_HasContent c) (SendClearanceReminder M to name c)"

definition NotifyDd254Expiring :: "mailer \<Rightarrow> faults \<Rightarrow> db \<Rightarrow> uuid \<Rightarrow> string \<Rightarrow> string \<Rightarrow> due_counts \<Rightarrow> message list" where
  "NotifyDd254Expiring M flt d userID to name c =
     notify_user flt d userID to (DueCounts_HasContent c) (SendDd254Reminder M to name c)"

definition NotifyTaskReviewed :: "mailer \<Rightarrow> faults \<Rightarrow> db \<Rightarrow> uuid \<Rightarrow> string \<Rightarrow> string \<Rightarrow> string \<Rightarrow> message list" where
  "NotifyTaskReviewed M flt d userID to name decision =
     notify_user flt d userID to True (SendTaskSubmissionReviewed M to name decision)"

text \<open>The mails one recorded call leads to; \<open>url\<close> is the address of the frontend, \<open>show\<close> the
  text of an id.\<close>

definition mails_of :: "mailer \<Rightarrow> (uuid \<Rightarrow> string) \<Rightarrow> time \<Rightarrow> faults \<Rightarrow> db \<Rightarrow> notification \<Rightarrow> message list" where
  "mails_of M id_text now flt d n = (case n of
     ActionItemAssigned u to name source \<Rightarrow> NotifyActionItemAssigned M flt d u to name source
   | TaskAssigned u to name \<Rightarrow> NotifyTaskAssigned M flt d u to name
   | TaskReviewed u to name decision \<Rightarrow> NotifyTaskReviewed M flt d u to name decision
   | PasswordResetMail to token \<Rightarrow> fst (SendPasswordReset M to (ml_appURL M) token)
   | DebriefAssigned u to name i \<Rightarrow> NotifyDebriefAssigned M flt d u to name (id_text i)
   | VerifyEnqueued _ \<Rightarrow> []
   | InviteSSOMail to tenant \<Rightarrow> fst (SendInviteSSO M to tenant)
   | AdminInviteSetupMail to tenant token \<Rightarrow> fst (SendAdminInviteSetup M to tenant (ml_appURL M) token)
   | AdminInviteMail to tenant \<Rightarrow> fst (SendAdminInvite M to tenant (ml_appURL M))
   | DailySummaryMail to name c \<Rightarrow> fst (SendDailySummary M now to name c)
   | TaskReminder u to name c \<Rightarrow> NotifyTaskReminder M flt d u to name c
   | ClearanceDue u to name c \<Rightarrow> NotifyClearanceDue M flt d u to name c
   | Dd254Expiring u to name c \<Rightarrow> NotifyDd254Expiring M flt d u to name c)"

lemmas mail_defs = SendEmailCode_def SendInviteSSO_def SendAdminInvite_def SendActionItemAssigned_def SendDebriefAssigned_def
  SendTaskReminder_def SendClearanceReminder_def SendDd254Reminder_def SendTaskAssigned_def SendTaskSubmissionReviewed_def
  SendDailySummary_def SendPasswordReset_def SendAdminInviteSetup_def
lemmas notifier_defs = NotifyActionItemAssigned_def NotifyTaskAssigned_def NotifyDebriefAssigned_def NotifyTaskReminder_def
  NotifyClearanceDue_def NotifyDd254Expiring_def NotifyTaskReviewed_def

lemma sent_to: "m \<in> set (fst (send_rendered M tm vals to subject)) \<Longrightarrow> mg_To m = to \<and> mg_Subject m = subject"
  by (auto simp: send_rendered_def Let_def split: option.splits if_splits)

lemma length_sent: "length (fst (send_rendered M tm vals to subject)) \<le> 1"
  by (auto simp: send_rendered_def Let_def split: option.splits)

end
