(* ===== verification/Reminder_Jobs.thy ===== *)
theory Reminder_Jobs
  imports Mail Tasks
begin

text \<open>
  The periodic mails: \<^verbatim>\<open>backend/internal/digest\<close>, the daily summary of those who asked for
  it, and \<^verbatim>\<open>backend/internal/reminders\<close>, the reminders of contributors and of the officers
  responsible for clearances and contracts. Each round of a loop has its own share of the faults
  of the request.
\<close>

subsection \<open>Who gets a summary\<close>

record digest_recipient =
  dr_UserID :: uuid
  dr_Email :: string
  dr_Name :: string
  dr_Role :: string

definition ListEligibleRecipients :: "faults \<Rightarrow> time \<Rightarrow> db \<Rightarrow> err + digest_recipient list" where
  [store_defs]: "ListEligibleRecipients flt now d =
     (if flt ''digest.ListEligibleRecipients'' 0 then Inl (Fault ''digest.ListEligibleRecipients'')
      else Inr (List.map_filter (\<lambda>x.
        if pf_NotificationFrequency x = ''daily_summary'' \<and>
           (case pf_LastDigestSentAt x of None \<Rightarrow> True | Some t \<Rightarrow> t < now - 23 * hour)
        then (case contact_of d (pf_UserID x) of None \<Rightarrow> None | Some (u, i) \<Rightarrow>
          if i_Activated i \<and> i_Email i \<noteq> []
          then Some \<lparr>dr_UserID = u_ID u, dr_Email = i_Email i, dr_Name = i_Name i, dr_Role = u_Role u\<rparr> else None)
        else None) (d_user_settings d)))"

text \<open>The start of the window: the last summary, or a day ago. \<open>None\<close> without settings.\<close>

definition window_start :: "time \<Rightarrow> db \<Rightarrow> uuid \<Rightarrow> time option" where
  "window_start now d u = map_option (\<lambda>x. case pf_LastDigestSentAt x of None \<Rightarrow> now - 24 * hour | Some t \<Rightarrow> t)
     (sql_row (\<lambda>x. pf_UserID x = u) (d_user_settings d))"

definition in_window :: "time \<Rightarrow> db \<Rightarrow> uuid \<Rightarrow> time \<Rightarrow> bool" where
  "in_window now d u t = (case window_start now d u of None \<Rightarrow> False | Some w \<Rightarrow> t > w)"

definition no_counts :: digest_counts where
  "no_counts = \<lparr>dc_NewActionItems = 0, dc_NewTasksAssigned = 0, dc_NewTaskReviews = 0, dc_NewDebriefs = 0,
     dc_OpenTasks = 0, dc_OpenDebriefs = 0, dc_OverdueTasks = 0\<rparr>"

definition count_for_fso :: "time \<Rightarrow> uuid \<Rightarrow> db \<Rightarrow> nat" where
  "count_for_fso now u d = sql_affected (\<lambda>a. ai_AssignedTo a = Some u \<and> ai_Status a = ''pending'' \<and>
     in_window now d u (ai_CreatedAt a)) (d_action_items d)"

definition count_for_admin :: "time \<Rightarrow> uuid \<Rightarrow> db \<Rightarrow> nat" where
  "count_for_admin now u d = (case user_by d u of None \<Rightarrow> 0 | Some x \<Rightarrow>
     sql_affected (\<lambda>a. (ai_AssignedTo a = Some u \<or> ai_AssignedTo a = None \<and> ai_TenantID a = u_TenantID x) \<and>
       ai_Status a = ''pending'' \<and> in_window now d u (ai_CreatedAt a)) (d_action_items d))"

text \<open>The rows of \<^verbatim>\<open>task_user_status\<close> joined with their active task: a task that reaches the
  user by rules of two types counts twice.\<close>

definition open_tasks :: "(task \<Rightarrow> bool) \<Rightarrow> uuid \<Rightarrow> db \<Rightarrow> nat" where
  "open_tasks P u d = sql_affected (\<lambda>s. us_UserID s = u \<and> us_Status s \<in> {To_do, In_progress, Rejected} \<and>
     (case task_by d (us_TaskID s) of None \<Rightarrow> False | Some t \<Rightarrow> tk_Status t = ''active'' \<and> P t)) (task_user_status d)"

definition overdue :: "time \<Rightarrow> time option \<Rightarrow> bool" where
  "overdue now due = (case due of None \<Rightarrow> False | Some t \<Rightarrow> t < sql_date now)"

definition count_for_ic :: "time \<Rightarrow> uuid \<Rightarrow> db \<Rightarrow> digest_counts" where
  "count_for_ic now u d = no_counts\<lparr>
     dc_NewTasksAssigned := sql_affected (\<lambda>t. (\<exists>x \<in> set (task_assigned_users d). fst x = tk_ID t \<and> fst (snd x) = u) \<and>
       tk_Status t = ''active'' \<and> in_window now d u (tk_CreatedAt t)) (d_tasks d),
     dc_NewTaskReviews := sql_affected (\<lambda>c. tc_UserID c = u \<and>
       (case tc_ReviewedAt c of None \<Rightarrow> False | Some t \<Rightarrow> in_window now d u t)) (d_completions d),
     dc_NewDebriefs := sql_affected (\<lambda>x. de_UserID x = u \<and> de_Status x = ''pending'' \<and> in_window now d u (de_CreatedAt x)) (d_debriefs d),
     dc_OpenTasks := open_tasks (\<lambda>_. True) u d,
     dc_OpenDebriefs := sql_affected (\<lambda>x. de_UserID x = u \<and> de_Status x = ''pending'') (d_debriefs d),
     dc_OverdueTasks := open_tasks (\<lambda>t. overdue now (tk_DueDate t)) u d\<rparr>"

definition ic_statements :: "string list" where
  "ic_statements = [''digest.CountForIC'', ''digest.CountForICReviews'', ''digest.CountForICNewDebriefs'', ''digest.CountForICOpenTasks'',
     ''digest.CountForICOpenDebriefs'', ''digest.CountForICOverdueTasks'']"

text \<open>One statement for an officer or administrator, six for a contributor; none for another role.\<close>

definition Digest_CountForUser :: "faults \<Rightarrow> time \<Rightarrow> digest_recipient \<Rightarrow> db \<Rightarrow> err + digest_counts" where
  [store_defs]: "Digest_CountForUser flt now x d =
     (if dr_Role x = ''fso'' \<or> dr_Role x = ''read_only_fso'' then
        (if flt ''digest.CountForFSO'' 0 then Inl (Fault ''digest.CountForFSO'')
         else Inr (no_counts\<lparr>dc_NewActionItems := count_for_fso now (dr_UserID x) d\<rparr>))
      else if dr_Role x = ''administrator'' then
        (if flt ''digest.CountForAdmin'' 0 then Inl (Fault ''digest.CountForAdmin'')
         else Inr (no_counts\<lparr>dc_NewActionItems := count_for_admin now (dr_UserID x) d\<rparr>))
      else if dr_Role x = ''individual_contributor'' then
        (case List.find (\<lambda>q. flt q 0) ic_statements of Some q \<Rightarrow> Inl (Fault q)
         | None \<Rightarrow> Inr (count_for_ic now (dr_UserID x) d))
      else Inr no_counts)"

definition MarkSent :: "faults \<Rightarrow> time \<Rightarrow> uuid \<Rightarrow> db \<Rightarrow> (db, unit) store_result" where
  [store_defs]: "MarkSent flt now u d =
     (case done_any (exec_update flt ''digest.MarkSent'' (\<lambda>x. pf_UserID x = u)
             (\<lambda>x. x\<lparr>pf_LastDigestSentAt := Some now, pf_UpdatedAt := now\<rparr>) (d_user_settings d)) of
        (t, res) \<Rightarrow> (d\<lparr>d_user_settings := t\<rparr>, res))"

text \<open>One round: a recipient whose counts or mail fail is left for the next run.\<close>

definition digest_one :: "mailer \<Rightarrow> request \<Rightarrow> digest_recipient \<Rightarrow> (db, unit) state" where
  [http_defs]: "digest_one M r x = do {
     res \<leftarrow> asks (Digest_CountForUser (r_flt r) (r_now r) x);
     (case res of Inl _ \<Rightarrow> reply () | Inr c \<Rightarrow>
        if DigestCounts_HasContent c then
          (case snd (SendDailySummary M (r_now r) (dr_Email x) (dr_Name x) c) of Inl _ \<Rightarrow> reply () | Inr _ \<Rightarrow> do {
             notify [DailySummaryMail (dr_Email x) (dr_Name x) c];
             on_db (MarkSent (r_flt r) (r_now r) (dr_UserID x));
             reply ()
           })
        else do {
          on_db (MarkSent (r_flt r) (r_now r) (dr_UserID x));
          reply ()
        })
   }"

fun digest_all :: "mailer \<Rightarrow> request \<Rightarrow> nat \<Rightarrow> digest_recipient list \<Rightarrow> (db, unit) state" where
  "digest_all M r n [] = reply ()"
| "digest_all M r n (x # xs) = do {
     digest_one M (round_of r n) x;
     digest_all M r (Suc n) xs
   }"

definition DigestRun :: "mailer \<Rightarrow> request \<Rightarrow> (db, err + unit) state" where
  [http_defs]: "DigestRun M r = do {
     found \<leftarrow> asks (ListEligibleRecipients (r_flt r) (r_now r));
     (case found of Inl e \<Rightarrow> reply (Inl e) | Inr xs \<Rightarrow> do {
        digest_all M r 0 xs;
        reply (Inr ())
      })
   }"

definition DigestCronHandler :: "mailer \<Rightarrow> request \<Rightarrow> (db, unit response) state" where
  [http_defs]: "DigestCronHandler M r = do {
     res \<leftarrow> DigestRun M r;
     (case res of Inl _ \<Rightarrow> reply (Abort StatusInternalServerError (Msg ''digest run failed'')) | Inr _ \<Rightarrow> reply (Respond StatusOK ()))
   }"

subsection \<open>Reminders of contributors\<close>

definition DueSoonWindowDays :: int where "DueSoonWindowDays = 3"

definition due_soon :: "time \<Rightarrow> time option \<Rightarrow> bool" where
  "due_soon now due = (case due of None \<Rightarrow> False | Some t \<Rightarrow> sql_date now \<le> t \<and> t \<le> sql_date now + DueSoonWindowDays * day)"

definition Reminders_ListRecipients :: "faults \<Rightarrow> db \<Rightarrow> err + (uuid \<times> string \<times> string) list" where
  [store_defs]: "Reminders_ListRecipients flt d =
     (if flt ''reminders.ListRecipients'' 0 then Inl (Fault ''reminders.ListRecipients'')
      else Inr (List.map_filter (\<lambda>u. if u_Role u \<noteq> ''individual_contributor'' then None else
        (case identity_by d (u_IdentityID u) of None \<Rightarrow> None | Some i \<Rightarrow>
           if i_Activated i \<and> i_SuspendedAt i = None \<and> i_Email i \<noteq> [] \<and>
              (case sql_row (\<lambda>x. pf_UserID x = u_ID u) (d_user_settings d) of
                 None \<Rightarrow> True | Some x \<Rightarrow> pf_NotificationFrequency x \<noteq> ''daily_summary'')
           then Some (u_ID u, i_Email i, i_Name i) else None)) (d_users d)))"

definition Reminders_CountForUser :: "faults \<Rightarrow> time \<Rightarrow> uuid \<Rightarrow> db \<Rightarrow> err + reminder_counts" where
  [store_defs]: "Reminders_CountForUser flt now u d =
     (if flt ''reminders.CountTasks'' 0 then Inl (Fault ''reminders.CountTasks'')
      else if flt ''reminders.CountDebriefs'' 0 then Inl (Fault ''reminders.CountDebriefs'')
      else Inr \<lparr>rc_OverdueTasks = open_tasks (\<lambda>t. overdue now (tk_DueDate t)) u d,
        rc_DueSoonTasks = open_tasks (\<lambda>t. due_soon now (tk_DueDate t)) u d,
        rc_OverdueDebriefs = sql_affected (\<lambda>x. de_UserID x = u \<and> de_Status x = ''pending'' \<and> overdue now (de_DueDate x)) (d_debriefs d),
        rc_DueSoonDebriefs = sql_affected (\<lambda>x. de_UserID x = u \<and> de_Status x = ''pending'' \<and> due_soon now (de_DueDate x)) (d_debriefs d)\<rparr>)"

fun remind_all :: "request \<Rightarrow> nat \<Rightarrow> (uuid \<times> string \<times> string) list \<Rightarrow> (db, unit) state" where
  "remind_all r n [] = reply ()"
| "remind_all r n ((u, email, name) # xs) = do {
     res \<leftarrow> asks (Reminders_CountForUser (r_flt (round_of r n)) (r_now r) u);
     (case res of Inl _ \<Rightarrow> reply () | Inr c \<Rightarrow>
        if ReminderCounts_HasContent c then notify [TaskReminder u email name c] else reply ());
     remind_all r (Suc n) xs
   }"

subsection \<open>Reminders of the officers responsible\<close>

text \<open>The \<^verbatim>\<open>CASE\<close> both queries share: the date that comes due and the last reminder decide the
  bucket, if any.\<close>

datatype bucket = Overdue | D30 | D90

definition due_bucket :: "time \<Rightarrow> time \<Rightarrow> time option \<Rightarrow> bucket option" where
  "due_bucket now due prev =
     (let today = sql_date now;
          quiet = (\<lambda>days. case prev of None \<Rightarrow> True | Some l \<Rightarrow> l < now - days * day) in
      if due < today \<and> (case prev of None \<Rightarrow> True | Some l \<Rightarrow> sql_date l < today) then Some Overdue
      else if due \<le> today + 30 * day \<and> due \<ge> today \<and> quiet 20 then Some D30
      else if due \<le> today + 90 * day \<and> due > today + 30 * day \<and> quiet 60 then Some D90
      else None)"

text \<open>The officer of a sub-organization that gets reminders: its primary officer, unless
  suspended or without an address.\<close>

definition reminded_officer :: "db \<Rightarrow> uuid \<Rightarrow> (user \<times> identity) option" where
  "reminded_officer d subOrgID =
     (case Option.bind (Option.bind (suborg_by d subOrgID) so_PrimaryFSOUserID) (contact_of d) of
        None \<Rightarrow> None
      | Some (u, i) \<Rightarrow> if i_SuspendedAt i = None \<and> i_Email i \<noteq> [] then Some (u, i) else None)"

record due_recipient =
  ur_FSOUserID :: uuid
  ur_Email :: string
  ur_Name :: string
  ur_Counts :: due_counts
  ur_RecordIDs :: "uuid list"

text \<open>\<^verbatim>\<open>GROUP BY\<close> officer; a row is the record, its bucket and the sub-organization it comes by.\<close>

definition group_due :: "db \<Rightarrow> (uuid \<times> bucket \<times> uuid) list \<Rightarrow> due_recipient list" where
  "group_due d rows =
     (let joined = List.map_filter (\<lambda>(i, b, so). map_option (\<lambda>c. (c, i, b)) (reminded_officer d so)) rows;
          num = (\<lambda>c b. sql_affected (\<lambda>x. fst x = c \<and> snd (snd x) = b) joined) in
      map (\<lambda>(u, idn). \<lparr>ur_FSOUserID = u_ID u, ur_Email = i_Email idn, ur_Name = i_Name idn,
        ur_Counts = \<lparr>du_Due90Days = num (u, idn) D90, du_Due30Days = num (u, idn) D30, du_Overdue = num (u, idn) Overdue\<rparr>,
        ur_RecordIDs = map (\<lambda>x. fst (snd x)) (filter (\<lambda>x. fst x = (u, idn)) joined)\<rparr>) (remdups (map fst joined)))"

definition due_clearances :: "time \<Rightarrow> db \<Rightarrow> (uuid \<times> bucket \<times> uuid) list" where
  "due_clearances now d = concat (map (\<lambda>c.
     (case (cr_SupersededAt c, cr_NextInvestigationDate c, contact_of d (cr_UserID c)) of
        (None, Some due, Some (_, i)) \<Rightarrow>
          (case due_bucket now due (cr_LastDueReminderAt c) of None \<Rightarrow> [] | Some b \<Rightarrow>
             if i_SuspendedAt i = None
             then map (\<lambda>m. (cr_ID c, b, snd m)) (filter (\<lambda>m. fst m = cr_UserID c) (d_members d)) else [])
      | _ \<Rightarrow> [])) (d_clearances d))"

definition ListClearanceReminders :: "faults \<Rightarrow> time \<Rightarrow> db \<Rightarrow> err + due_recipient list" where
  [store_defs]: "ListClearanceReminders flt now d =
     (if flt ''reminders.ListClearance'' 0 then Inl (Fault ''reminders.ListClearance'')
      else Inr (group_due d (due_clearances now d)))"

definition MarkClearanceReminded :: "faults \<Rightarrow> time \<Rightarrow> uuid list \<Rightarrow> db \<Rightarrow> (db, unit) store_result" where
  [store_defs]: "MarkClearanceReminded flt now ids d =
     (if ids = [] then (d, Inr ())
      else case done_any (exec_update flt ''reminders.MarkClearanceReminded'' (\<lambda>c. cr_ID c \<in> set ids)
             (\<lambda>c. c\<lparr>cr_LastDueReminderAt := Some now\<rparr>) (d_clearances d)) of
        (t, res) \<Rightarrow> (d\<lparr>d_clearances := t\<rparr>, res))"

definition due_forms :: "time \<Rightarrow> db \<Rightarrow> (uuid \<times> bucket \<times> uuid) list" where
  "due_forms now d = List.map_filter (\<lambda>f.
     (case (dd_PeriodEnd f, dd_SubOrgID f) of
        (Some due, Some so) \<Rightarrow>
          if dd_Status f = ''active''
          then map_option (\<lambda>b. (dd_ID f, b, so)) (due_bucket now due (dd_LastExpirationReminderAt f)) else None
      | _ \<Rightarrow> None)) (d_dd254 d)"

definition ListDd254Reminders :: "faults \<Rightarrow> time \<Rightarrow> db \<Rightarrow> err + due_recipient list" where
  [store_defs]: "ListDd254Reminders flt now d =
     (if flt ''reminders.ListDd254'' 0 then Inl (Fault ''reminders.ListDd254'') else Inr (group_due d (due_forms now d)))"

definition MarkDd254Reminded :: "faults \<Rightarrow> time \<Rightarrow> uuid list \<Rightarrow> db \<Rightarrow> (db, unit) store_result" where
  [store_defs]: "MarkDd254Reminded flt now ids d =
     (if ids = [] then (d, Inr ())
      else case done_any (exec_update flt ''reminders.MarkDd254Reminded'' (\<lambda>f. dd_ID f \<in> set ids)
             (\<lambda>f. f\<lparr>dd_LastExpirationReminderAt := Some now\<rparr>) (d_dd254 d)) of
        (t, res) \<Rightarrow> (d\<lparr>d_dd254 := t\<rparr>, res))"

text \<open>The notifier returns nothing, so that the records are marked whatever became of the mail.\<close>

fun clearances_all :: "request \<Rightarrow> nat \<Rightarrow> due_recipient list \<Rightarrow> (db, unit) state" where
  "clearances_all r n [] = reply ()"
| "clearances_all r n (x # xs) = do {
     notify [ClearanceDue (ur_FSOUserID x) (ur_Email x) (ur_Name x) (ur_Counts x)];
     on_db (MarkClearanceReminded (r_flt (round_of r n)) (r_now r) (ur_RecordIDs x));
     clearances_all r (Suc n) xs
   }"

definition runClearance :: "request \<Rightarrow> (db, err + unit) state" where
  [http_defs]: "runClearance r = do {
     found \<leftarrow> asks (ListClearanceReminders (r_flt r) (r_now r));
     (case found of Inl e \<Rightarrow> reply (Inl e) | Inr xs \<Rightarrow> do {
        clearances_all r 0 xs;
        reply (Inr ())
      })
   }"

fun forms_all :: "request \<Rightarrow> nat \<Rightarrow> due_recipient list \<Rightarrow> (db, unit) state" where
  "forms_all r n [] = reply ()"
| "forms_all r n (x # xs) = do {
     notify [Dd254Expiring (ur_FSOUserID x) (ur_Email x) (ur_Name x) (ur_Counts x)];
     on_db (MarkDd254Reminded (r_flt (round_of r n)) (r_now r) (ur_RecordIDs x));
     forms_all r (Suc n) xs
   }"

definition runDd254 :: "request \<Rightarrow> (db, err + unit) state" where
  [http_defs]: "runDd254 r = do {
     found \<leftarrow> asks (ListDd254Reminders (r_flt r) (r_now r));
     (case found of Inl e \<Rightarrow> reply (Inl e) | Inr xs \<Rightarrow> do {
        forms_all r 0 xs;
        reply (Inr ())
      })
   }"

text \<open>The errors of the two passes for officers are only logged.\<close>

definition RemindersRun :: "request \<Rightarrow> (db, err + unit) state" where
  [http_defs]: "RemindersRun r = do {
     found \<leftarrow> asks (Reminders_ListRecipients (r_flt r));
     (case found of Inl e \<Rightarrow> reply (Inl e) | Inr xs \<Rightarrow> do {
        remind_all r 0 xs;
        runClearance r;
        runDd254 r;
        reply (Inr ())
      })
   }"

definition RemindersCronHandler :: "request \<Rightarrow> (db, unit response) state" where
  [http_defs]: "RemindersCronHandler r = do {
     res \<leftarrow> RemindersRun r;
     (case res of Inl _ \<Rightarrow> reply (Abort StatusInternalServerError (Msg ''reminders run failed'')) | Inr _ \<Rightarrow> reply (Respond StatusOK ()))
   }"

end
