(* ===== verification/Platform.thy ===== *)
theory Platform
  imports Routes Feature_Frame Passkeys SSO Wiki Reminder_Jobs SubOrg_Handlers
begin

text \<open>
  The requests of the administration panel, of member management, of passkeys, single sign-on,
  settings and the wiki, and the jobs, beside those of \<open>Auth_System\<close>: none of them breaks what is
  invariant of sessions and memberships.
\<close>

subsection \<open>Store operations\<close>

lemma auth_inv_tables [simp]:
  "auth_inv (d\<lparr>d_ceremonies := x1\<rparr>) = auth_inv d" "auth_inv (d\<lparr>d_user_settings := x2\<rparr>) = auth_inv d"
  "auth_inv (d\<lparr>d_sso_configs := x3\<rparr>) = auth_inv d" "auth_inv (d\<lparr>d_sso_domains := x4\<rparr>) = auth_inv d"
  "auth_inv (d\<lparr>d_wiki_posts := x5\<rparr>) = auth_inv d" "auth_inv (d\<lparr>d_wiki_files := x6\<rparr>) = auth_inv d"
  "auth_inv (d\<lparr>d_files := x7\<rparr>) = auth_inv d" "auth_inv (d\<lparr>d_clearances := x8\<rparr>) = auth_inv d"
  "auth_inv (d\<lparr>d_dd254 := x9\<rparr>) = auth_inv d"
  by (simp_all add: auth_inv_def)

lemma auth_tables:
  "keeps_inv auth_inv (on_ceremonies f1)" "keeps_inv auth_inv (on_passkeys f2)" "keeps_inv auth_inv (on_files f3)"
  by (simp_all add: keeps_on_ceremonies keeps_on_files)

lemma auth_more_sessions:
  "keeps_inv auth_inv (on_sessions (Session_RevokeByTenant flt now t why))"
  "keeps_inv auth_inv (on_sessions (Session_UpdateSubOrg flt now u so))"
  by (simp_all add: keeps_on_sessions auth_inv_revokes)

lemma auth_directory:
  "keeps_inv auth_inv (on_db (Auth_CreateTenant flt now i so n))" "keeps_inv auth_inv (on_db (Auth_UpdateTenant flt now i n))"
  "keeps_inv auth_inv (on_db (Auth_DeleteTenant flt now i))" "keeps_inv auth_inv (on_db (Auth_SuspendTenant flt now i))"
  "keeps_inv auth_inv (on_db (Auth_UnsuspendTenant flt now i))" "keeps_inv auth_inv (on_db (Identity_Delete flt i))"
  "keeps_inv auth_inv (on_db (UpdateMemberRole flt now u t role))" "keeps_inv auth_inv (on_db (RemoveMember flt u t))"
  "keeps_inv auth_inv (on_db (SubOrg_SetUserSubOrg flt t u s))"
  by (simp_all add: keeps_on_db auth_inv_directory auth_inv_member_role auth_inv_remove_member
      Auth_UpdateTenant_def Auth_DeleteTenant_def Auth_SuspendTenant_def Auth_UnsuspendTenant_def)

lemma auth_settings:
  "keeps_inv auth_inv (on_db (UserSettings_Upsert flt now u f))" "keeps_inv auth_inv (on_db (Passkey_Create flt now i p))"
  "keeps_inv auth_inv (on_db (SSO_Upsert flt now i t q))" "keeps_inv auth_inv (on_db (SSO_AddEmailDomain flt now i c dm))"
  "keeps_inv auth_inv (on_db (SSO_RemoveEmailDomain flt c dm))"
  by (simp_all add: keeps_on_db UserSettings_Upsert_def Passkey_Create_def SSO_Upsert_def SSO_AddEmailDomain_def
      SSO_RemoveEmailDomain_def Let_def case_prod_beta split: option.split)

lemma auth_wiki:
  "keeps_inv auth_inv (on_db (Wiki_Create flt now i p))" "keeps_inv auth_inv (on_db (Wiki_Update flt now q))"
  "keeps_inv auth_inv (on_db (Wiki_Delete flt t i))" "keeps_inv auth_inv (on_db (Wiki_AddFile flt now i pid t n k z))"
  "keeps_inv auth_inv (on_db (Wiki_DeleteFile flt t i))"
  by (auto simp: keeps_on_db Wiki_Create_def Wiki_Update_def Wiki_Delete_def Wiki_AddFile_def Wiki_DeleteFile_def Let_def
      split: sum.split prod.split)

lemma auth_marks:
  "keeps_inv auth_inv (on_db (MarkSent flt now u))" "keeps_inv auth_inv (on_db (MarkClearanceReminded flt now ids))"
  "keeps_inv auth_inv (on_db (MarkDd254Reminded flt now ids2))"
  by (simp_all add: keeps_on_db MarkSent_def MarkClearanceReminded_def MarkDd254Reminded_def case_prod_beta)

lemma keeps_spare_last_admin [frame_rules]:
  "(\<And>x. keeps_inv P (h x)) \<Longrightarrow> keeps_inv P (spare_last_admin r sess i a b h)"
  unfolding spare_last_admin_def by (intro frame_rules)

lemma keeps_with_sso_tenant [frame_rules]:
  "(\<And>sess t. keeps_inv P (h sess t)) \<Longrightarrow> keeps_inv P (with_sso_tenant L r i h)"
  unfolding with_sso_tenant_def by (intro frame_rules)

lemma keeps_with_post_body [frame_rules]: "(\<And>b. keeps_inv P (h b)) \<Longrightarrow> keeps_inv P (with_post_body body h)"
  by (auto simp: with_post_body_def keeps_reply split: option.split)

lemma keeps_with_user [frame_rules]: "(\<And>sess u. keeps_inv P (h sess u)) \<Longrightarrow> keeps_inv P (with_user r h)"
  by (auto simp: with_user_def keeps_reply split: option.split)

lemmas auth_ops = auth_frame auth_session_ops auth_tables auth_more_sessions auth_directory auth_settings auth_wiki auth_marks

subsection \<open>Handlers that make neither sessions nor members\<close>

lemma auth_keeps_panel:
  "keeps_inv auth_inv (AdminRevokeSession L r i)"
  "keeps_inv auth_inv (AdminDeleteTenant L r i)"
  "keeps_inv auth_inv (AdminCreateTenant r q)"
  "keeps_inv auth_inv (AdminUpdateTenant L r i q)"
  "keeps_inv auth_inv (AdminSuspendTenant L r i)"
  "keeps_inv auth_inv (AdminUnsuspendTenant L r i)"
  "keeps_inv auth_inv (AdminCreateIdentity L r q2)"
  "keeps_inv auth_inv (AdminResetPassword L r i q)"
  "keeps_inv auth_inv (AdminSetSuperAdmin L r i q3)"
  "keeps_inv auth_inv (AdminSuspendIdentity L r i)"
  "keeps_inv auth_inv (AdminUnsuspendIdentity L r i)"
  "keeps_inv auth_inv (AdminDeleteIdentity L r i)"
  "keeps_inv auth_inv (AdminResendInvite L r raw i)"
  "keeps_inv auth_inv (AdminChangeEmail L r i q)"
  unfolding http_defs Let_def
  by (intro frame_rules auth_ops; simp)+

lemma auth_keeps_members:
  "keeps_inv auth_inv (TenantUpdateMemberRole L r i q)"
  "keeps_inv auth_inv (TenantRemoveMember L r i)"
  "keeps_inv auth_inv (ChangePassword L r q2)"
  "keeps_inv auth_inv (UpdateUserSettings r q)"
  unfolding http_defs Let_def
  by (intro frame_rules auth_ops; simp)+

lemma auth_keeps_passkeys:
  "keeps_inv auth_inv (BeginRegistration W L r)"
  "keeps_inv auth_inv (FinishRegistration W L r body query rest)"
  "keeps_inv auth_inv (BeginLogin W r)"
  "keeps_inv auth_inv (Begin2FA W L r)"
  "keeps_inv auth_inv (Finish2FA W L r body)"
  "keeps_inv auth_inv (AdminDeletePasskey L r i j)"
  "keeps_inv auth_inv (Passkey_Remove L r i)"
  unfolding http_defs Let_def
  by (intro frame_rules auth_ops; simp)+

lemma auth_keeps_sso:
  "keeps_inv auth_inv (UpdateSSOConfig L r i q)"
  "keeps_inv auth_inv (AddEmailDomain L r i q2)"
  "keeps_inv auth_inv (RemoveEmailDomain L r i dm)"
  unfolding http_defs Let_def
  by (intro frame_rules auth_ops; simp)+

lemma keeps_wiki_audit [frame_rules]:
  "(\<And>d t. P (d\<lparr>d_audit := t\<rparr>) = P d) \<Longrightarrow> keeps_inv P (wiki_audit r t a m)"
  unfolding wiki_audit_def by (intro frame_rules keeps_audit_log)

lemma auth_keeps_wiki:
  "keeps_inv auth_inv (Wiki_AdminCreate L r q)"
  "keeps_inv auth_inv (Wiki_AdminUpdate L r i q)"
  "keeps_inv auth_inv (Wiki_AdminDelete L r i)"
  "keeps_inv auth_inv (Wiki_AdminUploadFile sc sb L r i form)"
  "keeps_inv auth_inv (Wiki_AdminDeleteFile sb L r i)"
  unfolding http_defs Let_def
  by (intro frame_rules auth_ops keeps_scan_first; simp)+

lemma auth_keeps_jobs:
  "keeps_inv auth_inv (DigestCronHandler M r)"
  "keeps_inv auth_inv (RemindersCronHandler r)"
proof -
  have digest: "keeps_inv auth_inv (digest_all M r n xs)" for n xs
    by (induction M r n xs rule: digest_all.induct) (simp_all add: digest_one_def, (intro frame_rules auth_ops; simp)+)
  have remind: "keeps_inv auth_inv (remind_all r n ys)" for n ys
    by (induction r n ys rule: remind_all.induct) (simp_all, (intro frame_rules auth_ops; simp)+)
  have clear: "keeps_inv auth_inv (clearances_all r n zs)" for n zs
    by (induction r n zs rule: clearances_all.induct) (simp_all, (intro frame_rules auth_ops; simp)+)
  have forms: "keeps_inv auth_inv (forms_all r n zs)" for n zs
    by (induction r n zs rule: forms_all.induct) (simp_all, (intro frame_rules auth_ops; simp)+)
  show "keeps_inv auth_inv (DigestCronHandler M r)" "keeps_inv auth_inv (RemindersCronHandler r)"
    unfolding http_defs by (intro frame_rules digest remind clear forms; simp)+
qed

lemma auth_keeps_suborgs:
  "keeps_inv auth_inv (SubOrg_Handler_Create r q)"
  "keeps_inv auth_inv (SubOrg_Handler_Update L r i q)"
  "keeps_inv auth_inv (SubOrg_Handler_Delete L cf r i)"
  "keeps_inv auth_inv (SubOrg_Handler_SetPrimaryFSO L r i q2)"
  "keeps_inv auth_inv (SubOrg_Handler_SetUserSubOrg L r i q)"
proof -
  have suborgs: "keeps_inv auth_inv (on_db (SubOrg_Create flt now i t n))" "keeps_inv auth_inv (on_db (SubOrg_Update flt now t i n))"
    "keeps_inv auth_inv (on_db (SubOrg_Delete cf flt t i))" "keeps_inv auth_inv (on_db (SubOrg_SetPrimaryFSO flt now t i u))"
    for flt now i t n u
    by (auto simp: keeps_on_db auth_inv_directory auth_inv_suborg_delete SubOrg_Create_def SubOrg_Update_def Let_def
        case_prod_beta split: option.split)
  show "keeps_inv auth_inv (SubOrg_Handler_Create r q)" "keeps_inv auth_inv (SubOrg_Handler_Update L r i q)"
    "keeps_inv auth_inv (SubOrg_Handler_Delete L cf r i)" "keeps_inv auth_inv (SubOrg_Handler_SetPrimaryFSO L r i q2)"
    "keeps_inv auth_inv (SubOrg_Handler_SetUserSubOrg L r i q)"
    unfolding http_defs SubOrg_logAudit_def
    by (intro frame_rules auth_ops suborgs; simp)+
qed

subsection \<open>Handlers that make sessions or members\<close>

text \<open>The invariant, and identifiers that are still free: for sessions, for users.\<close>

definition fresh_inv :: "uuid set \<Rightarrow> uuid set \<Rightarrow> db \<Rightarrow> bool" where
  "fresh_inv ss us d = (auth_inv d \<and> ss \<inter> s_ID ` set (d_sessions d) = {} \<and> us \<inter> u_ID ` set (d_users d) = {})"

lemma fresh_inv_frame [simp]:
  "fresh_inv ss us (d\<lparr>d_audit := x1\<rparr>) = fresh_inv ss us d" "fresh_inv ss us (d\<lparr>d_outbox := x2\<rparr>) = fresh_inv ss us d"
  "fresh_inv ss us (d\<lparr>d_identities := x3\<rparr>) = fresh_inv ss us d" "fresh_inv ss us (d\<lparr>d_codes := x4\<rparr>) = fresh_inv ss us d"
  "fresh_inv ss us (d\<lparr>d_ceremonies := x5\<rparr>) = fresh_inv ss us d" "fresh_inv ss us (d\<lparr>d_passkeys := x6\<rparr>) = fresh_inv ss us d"
  "fresh_inv ss us (d\<lparr>d_members := x7\<rparr>) = fresh_inv ss us d"
  by (simp_all add: fresh_inv_def)

lemma fresh_inv_auth: "fresh_inv ss us d \<Longrightarrow> auth_inv d"
  by (simp add: fresh_inv_def)

lemma fresh_inv_mono: "fresh_inv ss us d \<Longrightarrow> ss' \<subseteq> ss \<Longrightarrow> us' \<subseteq> us \<Longrightarrow> fresh_inv ss' us' d"
  by (auto simp: fresh_inv_def)

lemma keeps_fresh:
  "keeps_inv (fresh_inv ss us) (audit_log r n a i s t m)"
  "keeps_inv (fresh_inv ss us) (notify ns)"
  "keeps_inv (fresh_inv ss us) (on_identities f1)"
  "keeps_inv (fresh_inv ss us) (on_codes f2)"
  "keeps_inv (fresh_inv ss us) (on_ceremonies f3)"
  "keeps_inv (fresh_inv ss us) (on_passkeys f4)"
  "keeps_inv (fresh_inv ss us) (on_db (SubOrg_SetUserSubOrg flt tid u so))"
  by (auto simp: keeps_tables keeps_on_ceremonies SubOrg_SetUserSubOrg_def Let_def)

lemma delete_identity_session_ids:
  "s \<in> set (d_sessions (delete_identity i d)) \<Longrightarrow> s_ID s \<in> s_ID ` set (d_sessions d)"
  by (auto simp: delete_identity_def Let_def delete_sessions_def delete_users_sessions)

lemma fresh_remove_member: "keeps_inv (fresh_inv ss us) (on_db (RemoveMember flt u t))"
proof (rule keeps_on_db)
  fix d assume d: "fresh_inv ss us d"
  have "set (d_users (fst (RemoveMember flt u t d))) \<subseteq> set (d_users d)"
    "s_ID ` set (d_sessions (fst (RemoveMember flt u t d))) \<subseteq> s_ID ` set (d_sessions d)"
    by (auto simp: RemoveMember_def remove_orphan_def Let_def delete_users_sessions delete_identity_facts
        dest!: delete_identity_session_ids split: option.split)
  with d auth_inv_remove_member [of d flt u t] show "fresh_inv ss us (fst (RemoveMember flt u t d))"
    by (fastforce simp: fresh_inv_def)
qed

text \<open>An action that uses up one identifier.\<close>

lemma fresh_session:
  assumes "i \<in> ss" "p_State p \<noteq> Authenticated" "p_AuthMethod p \<noteq> ''password''"
  shows "triple (fresh_inv ss us) (on_sessions (Session_Create flt now i p)) (\<lambda>_. fresh_inv (ss - {i}) us)"
proof -
  have "fresh_inv (ss - {i}) us (d\<lparr>d_sessions := fst (Session_Create flt now i p (d_sessions d))\<rparr>)"
    if d: "fresh_inv ss us d" for d
  proof -
    have "i \<notin> s_ID ` set (d_sessions d)" using d assms(1) by (auto simp: fresh_inv_def)
    then have "auth_inv (d\<lparr>d_sessions := fst (Session_Create flt now i p (d_sessions d))\<rparr>)"
      using fresh_inv_auth [OF d] assms by (intro auth_inv_create) simp_all
    with d show ?thesis by (auto simp: fresh_inv_def Session_Create_def Let_def session_row_def)
  qed
  then show ?thesis by (simp add: triple_def)
qed

lemma fresh_member:
  assumes "i \<in> us"
  shows "triple (fresh_inv ss us) (on_db (AddIdentityToTenant flt now i idn t role)) (\<lambda>_. fresh_inv ss (us - {i}))"
proof -
  have "fresh_inv ss (us - {i}) (fst (AddIdentityToTenant flt now i idn t role d))" if d: "fresh_inv ss us d" for d
  proof -
    have "i \<notin> u_ID ` set (d_users d)" using d assms by (auto simp: fresh_inv_def)
    then have "auth_inv (fst (AddIdentityToTenant flt now i idn t role d))"
      using fresh_inv_auth [OF d] by (intro auth_inv_add_member)
    with d show ?thesis by (auto simp: fresh_inv_def AddIdentityToTenant_def)
  qed
  then show ?thesis by (simp add: triple_def)
qed

lemma fresh_provision:
  assumes "i \<in> us"
  shows "triple (fresh_inv ss us) (on_db (ProvisionUser flt now i idn t role)) (\<lambda>_. fresh_inv ss (us - {i}))"
proof -
  have "fresh_inv ss (us - {i}) (fst (ProvisionUser flt now i idn t role d))" if d: "fresh_inv ss us d" for d
  proof (cases "ProvisionUser flt now i idn t role d = (d, Inr ()) \<or> is_ok (snd (ProvisionUser flt now i idn t role d)) = False")
    case True
    with d show ?thesis by (auto simp: ProvisionUser_def intro: fresh_inv_mono split: if_splits)
  next
    case False
    then have "fst (ProvisionUser flt now i idn t role d) =
        (fst (AddIdentityToTenant no_faults now i idn t role d))\<lparr>d_members := d_members d\<rparr>"
      by (auto simp: ProvisionUser_def AddIdentityToTenant_def)
    moreover have "fresh_inv ss (us - {i}) (fst (AddIdentityToTenant no_faults now i idn t role d))"
      using tripleD [OF fresh_member [OF assms] d] by simp
    ultimately show ?thesis by simp
  qed
  then show ?thesis by (simp add: triple_def)
qed

text \<open>Actions that end in the invariant: one state before, the other after.\<close>

abbreviation ends :: "(db \<Rightarrow> bool) \<Rightarrow> (db, 'a) state \<Rightarrow> (db \<Rightarrow> bool) \<Rightarrow> bool" where
  "ends P m Q \<equiv> triple P m (\<lambda>_. Q)"

lemma ends_rules:
  "keeps_inv P m1 \<Longrightarrow> (\<And>a. ends P (f1 a) Q) \<Longrightarrow> ends P (State_Monad.bind m1 f1) Q"
  "(b \<Longrightarrow> ends P m2 Q) \<Longrightarrow> (\<not> b \<Longrightarrow> ends P n2 Q) \<Longrightarrow> ends P (if b then m2 else n2) Q"
  "(x3 = None \<Longrightarrow> ends P m3 Q) \<Longrightarrow> (\<And>a. x3 = Some a \<Longrightarrow> ends P (f3 a) Q) \<Longrightarrow> ends P (case x3 of None \<Rightarrow> m3 | Some a \<Rightarrow> f3 a) Q"
  "(\<And>a. x4 = Inl a \<Longrightarrow> ends P (f4 a) Q) \<Longrightarrow> (\<And>a. x4 = Inr a \<Longrightarrow> ends P (g4 a) Q) \<Longrightarrow>
     ends P (case x4 of Inl a \<Rightarrow> f4 a | Inr a \<Rightarrow> g4 a) Q"
  "(\<And>a b. x5 = (a, b) \<Longrightarrow> ends P (f5 a b) Q) \<Longrightarrow> ends P (case x5 of (a, b) \<Rightarrow> f5 a b) Q"
  by (auto simp: triple_bind split: option.split sum.split prod.split)

lemma ends_auth: "keeps_inv auth_inv m \<Longrightarrow> ends (fresh_inv ss us) m auth_inv"
  by (erule triple_weaken) (simp_all add: fresh_inv_auth)

lemma ends_reply: "ends (fresh_inv ss us) (reply a) auth_inv"
  by (rule ends_auth [OF keeps_reply])

lemma ends_with:
  "(\<And>sess. ends (fresh_inv ss us) (h1 sess) auth_inv) \<Longrightarrow> ends (fresh_inv ss us) (with_session r h1) auth_inv"
  "(\<And>i. ends (fresh_inv ss us) (h2 i) auth_inv) \<Longrightarrow> ends (fresh_inv ss us) (with_uuid L e s h2) auth_inv"
  "(\<And>t. ends (fresh_inv ss us) (h3 t) auth_inv) \<Longrightarrow> ends (fresh_inv ss us) (adminTenantID L r s h3) auth_inv"
  by (auto simp: with_session_def with_uuid_def adminTenantID_def ends_reply split: option.split)

lemma ends_new_session:
  assumes "i \<in> ss" "p_State p \<noteq> Authenticated" "p_AuthMethod p \<noteq> ''password''" "\<And>a. keeps_inv auth_inv (f a)"
  shows "ends (fresh_inv ss us) (State_Monad.bind (on_sessions (Session_Create flt now i p)) f) auth_inv"
  using fresh_session [OF assms(1-3)]
  by (rule triple_bind) (rule ends_auth [OF assms(4)])

lemma ends_FinishLogin: "ends (fresh_inv {r_fresh r 0} us) (FinishLogin W r body) auth_inv"
proof -
  have "ends (fresh_inv {r_fresh r 0} us) (passkey_session r ident p c) auth_inv" for ident p c
    unfolding passkey_session_def
    by (intro ends_rules keeps_fresh ends_reply ends_new_session frame_rules auth_ops; simp)
  then show ?thesis
    unfolding FinishLogin_def
    by (intro ends_rules ends_reply keeps_fresh keeps_asks)
qed

lemma ends_OIDCCallback:
  "ends (fresh_inv {r_fresh r 0} {r_fresh r 2}) (OIDCCallback idp S L r st cd) auth_inv"
proof -
  have sess: "ends (fresh_inv {r_fresh r 0} us) (sso_session S r cfg proto ident) auth_inv"
    if "proto \<noteq> ''password''" for us cfg proto ident
    unfolding sso_session_def
    by (intro ends_rules keeps_fresh ends_reply ends_new_session frame_rules auth_ops; simp add: that)
  have who: "ends (fresh_inv {r_fresh r 0} {r_fresh r 2}) (find_or_provision L r cfg email name) (fresh_inv {r_fresh r 0} {})"
    for cfg email name
  proof -
    have "ends (fresh_inv ss us) (reply a) (fresh_inv ss {})" for ss us and a :: "string + identity"
      using fresh_inv_mono by (auto simp: triple_def)
    then show ?thesis
      unfolding find_or_provision_def
      by (intro ends_rules keeps_fresh keeps_asks triple_bind [OF fresh_provision]; simp add: keeps_reply)
  qed
  have "ends (fresh_inv {r_fresh r 0} {r_fresh r 2}) (completeSSO S L r cfg email name ''oidc'') auth_inv" for cfg email name
    unfolding completeSSO_def
    by (intro ends_rules ends_reply keeps_fresh keeps_asks triple_bind [OF who] sess; simp)
  then show ?thesis
    unfolding OIDCCallback_def
    by (intro ends_rules ends_reply keeps_asks)
qed

lemma ends_fresh: "us' \<subseteq> us \<Longrightarrow> keeps_inv (fresh_inv ss us') m \<Longrightarrow> ends (fresh_inv ss us) m (fresh_inv ss us')"
  by (erule triple_weaken) (auto intro: fresh_inv_mono)

lemma ends_AddIdentityToTenant: "ends (fresh_inv ss {r_fresh r 0}) (AdminAddIdentityToTenant L r i q) auth_inv"
  unfolding AdminAddIdentityToTenant_def admin_audit_def
  by (intro ends_with ends_rules ends_reply triple_bind [OF fresh_member] ends_auth frame_rules auth_ops; simp)

lemma ends_invite:
  assumes new: "r_fresh r 1 \<in> us"
  shows "ends (fresh_inv ss us) (inviteOneMember L r raw tid p) (fresh_inv ss (us - {r_fresh r 1}))"
proof -
  have reply: "ends (fresh_inv ss us) (reply a) (fresh_inv ss (us - {r_fresh r 1}))" for a :: "invite_error + invite_result"
    by (rule ends_fresh) (auto simp: keeps_reply)
  have mail: "keeps_inv (fresh_inv ss us') (sendInviteEmail L r raw tid email name ident created)" for us' email name ident created
    unfolding sendInviteEmail_def Let_def by (intro frame_rules keeps_fresh)
  show ?thesis
    unfolding inviteOneMember_def
    by (rule ends_rules(2) ends_rules(4) reply ends_rules(1) [OF keeps_asks] triple_bind [OF fresh_member [OF new]] ends_rules(1)
        | intro frame_rules keeps_fresh fresh_remove_member mail)+
qed

lemma keeps_invite_error [frame_rules]:
  "keeps_inv P a1 \<Longrightarrow> (\<And>e. keeps_inv P (a2 e)) \<Longrightarrow> (\<And>e. keeps_inv P (a3 e)) \<Longrightarrow> (\<And>e. keeps_inv P (a4 e)) \<Longrightarrow>
     keeps_inv P (case x of Invalid_Role \<Rightarrow> a1 | Create_Identity e \<Rightarrow> a2 e | Already_Member e \<Rightarrow> a3 e | Assign_SubOrg e \<Rightarrow> a4 e)"
  by (cases x) simp_all

lemma ends_AdminInviteAdmin: "ends (fresh_inv ss {r_fresh r 1}) (AdminInviteAdmin L r raw i q) auth_inv"
  unfolding AdminInviteAdmin_def admin_audit_def
  by (rule ends_with ends_rules(3) ends_reply triple_bind [OF ends_invite [OF singletonI]] ends_auth
      | intro frame_rules auth_ops)+

text \<open>Each round of the bulk invite uses up its own identifier.\<close>

definition from_round :: "request \<Rightarrow> nat \<Rightarrow> uuid set" where
  "from_round r n = r_fresh r ` {1000 * n..}"

lemma from_round_Suc: "inj (r_fresh r) \<Longrightarrow> from_round r (Suc n) \<subseteq> from_round r n - {r_fresh (round_of r n) 1}"
  by (auto simp: from_round_def round_of_def inj_eq)

lemma ends_invite_row:
  assumes "inj (r_fresh r)"
  shows "ends (fresh_inv ss (from_round r n)) (invite_row L (round_of r n) raw sess tid skip q) (fresh_inv ss (from_round r (Suc n)))"
proof -
  let ?us = "from_round r n - {r_fresh (round_of r n) 1}"
  have less: "fresh_inv ss us d \<Longrightarrow> ?us \<subseteq> us \<Longrightarrow> fresh_inv ss (from_round r (Suc n)) d" for us d
    using from_round_Suc [OF assms, of n] by (auto intro: fresh_inv_mono)
  have new: "r_fresh (round_of r n) 1 \<in> from_round r n"
    by (simp add: from_round_def round_of_def)
  have rest: "ends (fresh_inv ss ?us) m (fresh_inv ss (from_round r (Suc n)))"
    if "keeps_inv (fresh_inv ss ?us) m" for m :: "(db, string option) state"
    using that by (rule triple_weaken) (auto intro: less)
  have "ends (fresh_inv ss (from_round r n)) (reply (Some e)) (fresh_inv ss (from_round r (Suc n)))" for e :: string
    using keeps_reply by (rule triple_weaken) (auto intro: less)
  then show ?thesis
    unfolding invite_row_def admin_audit_def
    by (intro ends_rules(3) triple_bind [OF ends_invite [OF new]] rest frame_rules keeps_fresh)
qed

lemma ends_invite_rows:
  assumes "inj (r_fresh r)"
  shows "ends (fresh_inv ss (from_round r n)) (invite_rows L r raw sess tid skip n qs) auth_inv"
proof (induction qs arbitrary: n)
  case (Cons q qs)
  show ?case
    unfolding invite_rows.simps
    by (intro triple_bind [OF ends_invite_row [OF assms]] triple_bind [OF Cons.IH]) (intro frame_rules)
qed (simp add: ends_reply)

lemma ends_AdminBulkInvite:
  "inj (r_fresh r) \<Longrightarrow> ends (fresh_inv ss (from_round r 0)) (AdminBulkInvite L r raw i q) auth_inv"
  unfolding AdminBulkInvite_def
  by (rule ends_with ends_rules(2-5) ends_reply triple_bind [OF ends_invite_rows] keeps_reply | assumption)+

subsection \<open>The requests\<close>

text \<open>What the handlers are given at start-up, beside where the server runs.\<close>

record outside =
  pl_libs :: libs
  pl_host :: host
  pl_webauthn :: webauthn
  pl_idp :: oidc
  pl_site :: site
  pl_scanner :: scanner
  pl_storage :: storage_backend
  pl_casefold :: "string \<Rightarrow> string"

datatype panel_call =
    P_RevokeSession string
  | P_CreateTenant "string option"
  | P_UpdateTenant string "string option"
  | P_DeleteTenant string
  | P_SuspendTenant string
  | P_UnsuspendTenant string
  | P_InviteAdmin "string option" string "invite_request option"
  | P_BulkInvite "nat \<Rightarrow> string option" string "(invite_request list \<times> bool) option"
  | P_CreateIdentity "identity_request option"
  | P_DeleteIdentity string
  | P_ResetPassword string "string option"
  | P_SetSuperAdmin string "bool option"
  | P_SuspendIdentity string
  | P_UnsuspendIdentity string
  | P_AddToTenant string "(uuid \<times> string) option"
  | P_ResendInvite "string option" string
  | P_ChangeEmail string "string option"
  | P_MemberRole string "string option"
  | P_RemoveMember string
  | P_CreateSubOrg "string option"
  | P_UpdateSubOrg string "string option"
  | P_DeleteSubOrg string
  | P_PrimaryFSO string "string option option"
  | P_UserSubOrg string "string option"
  | P_ChangePassword "(string \<times> string) option"
  | P_Settings "string option"
  | P_BeginRegistration
  | P_FinishRegistration string string string
  | P_RemovePasskey string
  | P_DeletePasskey string string
  | P_BeginLogin
  | P_FinishLogin string
  | P_Begin2FA
  | P_Finish2FA string
  | P_OIDC string string
  | P_SSOConfig string "upsert_params option"
  | P_AddDomain string "string option"
  | P_RemoveDomain string string
  | P_WikiCreate "post_body option"
  | P_WikiUpdate string "post_body option"
  | P_WikiDelete string
  | P_WikiUpload string "form_file option"
  | P_WikiDeleteFile string

text \<open>The handler of a request, by its name in the table of routes; the answer without its body.\<close>

definition answer :: "string \<Rightarrow> (db, 'b response) state \<Rightarrow> string \<times> (db, unit response) state" where
  "answer name m = (name, do {
     x \<leftarrow> m;
     reply (case x of Respond code _ \<Rightarrow> Respond code () | Abort code e \<Rightarrow> Abort code e)
   })"

fun panel_serve :: "outside \<Rightarrow> panel_call \<Rightarrow> request \<Rightarrow> string \<times> (db, unit response) state" where
  "panel_serve E (P_RevokeSession i) r = answer ''auth.AdminRevokeSession'' (AdminRevokeSession (pl_libs E) r i)"
| "panel_serve E (P_CreateTenant b) r = answer ''auth.AdminCreateTenant'' (AdminCreateTenant r b)"
| "panel_serve E (P_UpdateTenant i b) r = answer ''auth.AdminUpdateTenant'' (AdminUpdateTenant (pl_libs E) r i b)"
| "panel_serve E (P_DeleteTenant i) r = answer ''auth.AdminDeleteTenant'' (AdminDeleteTenant (pl_libs E) r i)"
| "panel_serve E (P_SuspendTenant i) r = answer ''auth.AdminSuspendTenant'' (AdminSuspendTenant (pl_libs E) r i)"
| "panel_serve E (P_UnsuspendTenant i) r = answer ''auth.AdminUnsuspendTenant'' (AdminUnsuspendTenant (pl_libs E) r i)"
| "panel_serve E (P_InviteAdmin raw i b) r = answer ''auth.AdminInviteAdmin'' (AdminInviteAdmin (pl_libs E) r raw i b)"
| "panel_serve E (P_BulkInvite raws i b) r = answer ''auth.AdminBulkInvite'' (AdminBulkInvite (pl_libs E) r raws i b)"
| "panel_serve E (P_CreateIdentity b) r = answer ''auth.AdminCreateIdentity'' (AdminCreateIdentity (pl_libs E) r b)"
| "panel_serve E (P_DeleteIdentity i) r = answer ''auth.AdminDeleteIdentity'' (AdminDeleteIdentity (pl_libs E) r i)"
| "panel_serve E (P_ResetPassword i b) r = answer ''auth.AdminResetPassword'' (AdminResetPassword (pl_libs E) r i b)"
| "panel_serve E (P_SetSuperAdmin i b) r = answer ''auth.AdminSetSuperAdmin'' (AdminSetSuperAdmin (pl_libs E) r i b)"
| "panel_serve E (P_SuspendIdentity i) r = answer ''auth.AdminSuspendIdentity'' (AdminSuspendIdentity (pl_libs E) r i)"
| "panel_serve E (P_UnsuspendIdentity i) r = answer ''auth.AdminUnsuspendIdentity'' (AdminUnsuspendIdentity (pl_libs E) r i)"
| "panel_serve E (P_AddToTenant i b) r = answer ''auth.AdminAddIdentityToTenant'' (AdminAddIdentityToTenant (pl_libs E) r i b)"
| "panel_serve E (P_ResendInvite raw i) r = answer ''auth.AdminResendInvite'' (AdminResendInvite (pl_libs E) r raw i)"
| "panel_serve E (P_ChangeEmail i b) r = answer ''auth.AdminChangeEmail'' (AdminChangeEmail (pl_libs E) r i b)"
| "panel_serve E (P_MemberRole i b) r = answer ''auth.TenantUpdateMemberRole'' (TenantUpdateMemberRole (pl_libs E) r i b)"
| "panel_serve E (P_RemoveMember i) r = answer ''auth.TenantRemoveMember'' (TenantRemoveMember (pl_libs E) r i)"
| "panel_serve E (P_CreateSubOrg b) r = answer ''suborg.Create'' (SubOrg_Handler_Create r b)"
| "panel_serve E (P_UpdateSubOrg i b) r = answer ''suborg.Update'' (SubOrg_Handler_Update (pl_libs E) r i b)"
| "panel_serve E (P_DeleteSubOrg i) r = answer ''suborg.Delete'' (SubOrg_Handler_Delete (pl_libs E) (pl_casefold E) r i)"
| "panel_serve E (P_PrimaryFSO i b) r = answer ''suborg.SetPrimaryFSO'' (SubOrg_Handler_SetPrimaryFSO (pl_libs E) r i b)"
| "panel_serve E (P_UserSubOrg i b) r = answer ''suborg.SetUserSubOrg'' (SubOrg_Handler_SetUserSubOrg (pl_libs E) r i b)"
| "panel_serve E (P_ChangePassword b) r = answer ''auth.ChangePassword'' (ChangePassword (pl_libs E) r b)"
| "panel_serve E (P_Settings b) r = answer ''auth.UpdateUserSettings'' (UpdateUserSettings r b)"
| "panel_serve E P_BeginRegistration r = answer ''passkey.BeginRegistration'' (BeginRegistration (pl_webauthn E) (pl_libs E) r)"
| "panel_serve E (P_FinishRegistration b q rest) r =
     answer ''passkey.FinishRegistration'' (FinishRegistration (pl_webauthn E) (pl_libs E) r b q rest)"
| "panel_serve E (P_RemovePasskey i) r = answer ''passkey.Remove'' (Passkey_Remove (pl_libs E) r i)"
| "panel_serve E (P_DeletePasskey i j) r = answer ''passkey.AdminDeletePasskey'' (AdminDeletePasskey (pl_libs E) r i j)"
| "panel_serve E P_BeginLogin r = answer ''passkey.BeginLogin'' (BeginLogin (pl_webauthn E) r)"
| "panel_serve E (P_FinishLogin b) r = answer ''passkey.FinishLogin'' (FinishLogin (pl_webauthn E) r b)"
| "panel_serve E P_Begin2FA r = answer ''passkey.Begin2FA'' (Begin2FA (pl_webauthn E) (pl_libs E) r)"
| "panel_serve E (P_Finish2FA b) r = answer ''passkey.Finish2FA'' (Finish2FA (pl_webauthn E) (pl_libs E) r b)"
| "panel_serve E (P_OIDC st code) r = answer ''sso.OIDCCallback'' (OIDCCallback (pl_idp E) (pl_site E) (pl_libs E) r st code)"
| "panel_serve E (P_SSOConfig i b) r = answer ''sso.UpdateSSOConfig'' (UpdateSSOConfig (pl_libs E) r i b)"
| "panel_serve E (P_AddDomain i b) r = answer ''sso.AddEmailDomain'' (AddEmailDomain (pl_libs E) r i b)"
| "panel_serve E (P_RemoveDomain i dm) r = answer ''sso.RemoveEmailDomain'' (RemoveEmailDomain (pl_libs E) r i dm)"
| "panel_serve E (P_WikiCreate b) r = answer ''wiki.AdminCreate'' (Wiki_AdminCreate (pl_libs E) r b)"
| "panel_serve E (P_WikiUpdate i b) r = answer ''wiki.AdminUpdate'' (Wiki_AdminUpdate (pl_libs E) r i b)"
| "panel_serve E (P_WikiDelete i) r = answer ''wiki.AdminDelete'' (Wiki_AdminDelete (pl_libs E) r i)"
| "panel_serve E (P_WikiUpload i f) r =
     answer ''wiki.AdminUploadFile'' (Wiki_AdminUploadFile (pl_scanner E) (pl_storage E) (pl_libs E) r i f)"
| "panel_serve E (P_WikiDeleteFile i) r = answer ''wiki.AdminDeleteFile'' (Wiki_AdminDeleteFile (pl_storage E) (pl_libs E) r i)"

text \<open>A request takes the route whose handler is its own, through the gates of that route. Each
  request draws identifiers no other row has.\<close>

definition draws_fresh :: "request \<Rightarrow> db \<Rightarrow> bool" where
  "draws_fresh r d = (inj (r_fresh r) \<and> range (r_fresh r) \<inter> s_ID ` set (d_sessions d) = {} \<and>
     range (r_fresh r) \<inter> u_ID ` set (d_users d) = {})"

definition on_route :: "outside \<Rightarrow> call \<Rightarrow> route \<Rightarrow> panel_call \<Rightarrow> request \<Rightarrow> (db, unit response) state" where
  "on_route E c rt p = through (pl_host E) (pl_libs E) (c\<lparr>cl_method := rt_method rt\<rparr>) (rt_gates rt) (\<lambda>r. snd (panel_serve E p r))"

inductive platform_step :: "outside \<Rightarrow> db \<Rightarrow> db \<Rightarrow> bool" for E where
  plat_auth: "auth_step (pl_libs E) d d' \<Longrightarrow> platform_step E d d'"
| plat_request: "rt \<in> set (routes (pl_host E)) \<Longrightarrow> rt_handler rt = fst (panel_serve E p r) \<Longrightarrow> draws_fresh r d \<Longrightarrow>
    platform_step E d (snd (run_state (on_route E c rt p r) d))"
| plat_officer: "platform_step E d (snd (run_state (officer_serve E1 r c1) d))"
| plat_task: "platform_step E d (snd (run_state (task_serve E2 r c2) d))"
| plat_notes: "platform_step E d (snd (run_state (ActionItem_Handler_UpdateNotes (pl_libs E) r i n) d))"
| plat_reassign: "platform_step E d (snd (run_state (ActionItem_Handler_Reassign (pl_libs E) r i v) d))"
| plat_debriefs: "platform_step E d (snd (run_state (DebriefCron (pl_libs E) r) d))"
| plat_chat_cleanup: "platform_step E d (snd (run_state (CleanupCron r) d))"
| plat_digest: "platform_step E d (snd (run_state (DigestCronHandler M r) d))"
| plat_reminders: "platform_step E d (snd (run_state (RemindersCronHandler r) d))"

inductive platform_reachable :: "outside \<Rightarrow> db \<Rightarrow> bool" for E where
  plat_init: "d_sessions d = [] \<Longrightarrow> keyed u_ID (d_users d) \<Longrightarrow> platform_reachable E d"
| plat_step: "platform_reachable E d \<Longrightarrow> platform_step E d d' \<Longrightarrow> platform_reachable E d'"

subsection \<open>What is invariant\<close>

lemma answer_ends: "ends P m Q \<Longrightarrow> ends P (snd (answer name m)) Q"
  unfolding answer_def snd_conv by (erule triple_bind) (rule keeps_reply)

lemma keeps_require_session:
  "keeps_inv (fresh_inv ss us) (on_sessions (RequireSession Session_GetValid Session_TouchLastActive Session_Revoke parse flt now cookie))"
proof -
  have "fresh_inv ss us (d\<lparr>d_sessions := fst (RequireSession Session_GetValid Session_TouchLastActive Session_Revoke parse flt now cookie (d_sessions d))\<rparr>)"
    if d: "fresh_inv ss us d" for d
  proof -
    let ?t = "fst (RequireSession Session_GetValid Session_TouchLastActive Session_Revoke parse flt now cookie (d_sessions d))"
    have "s_ID ` set ?t = s_ID ` set (d_sessions d)"
      by (auto simp: RequireSession_def Session_TouchLastActive_def Session_Revoke_def fst_exec_update image_sql_update
          split: option.split sum.split)
    with d RequireSession_keeps [OF fresh_inv_auth [OF d] prod.collapse [symmetric]] show ?thesis
      by (simp add: fresh_inv_def)
  qed
  then show ?thesis by (simp add: keeps_on_sessions)
qed

lemma ends_after:
  "(\<And>a. ends (fresh_inv ss us) (k a) auth_inv) \<Longrightarrow> ends (fresh_inv ss us) (after m k) auth_inv"
  by (cases m) (simp_all add: ends_reply)

lemma ends_gate:
  assumes "\<And>r'. r_fresh r' = r_fresh r \<Longrightarrow> ends (fresh_inv ss us) (k r') auth_inv"
  shows "ends (fresh_inv ss us) (gate_step H L c g r k) auth_inv"
  unfolding gate_step_def limited_def
  by (cases g; simp only: gate.case; intro ends_rules keeps_require_session keeps_asks ends_after ends_reply assms; simp)

lemma ends_through:
  "(\<And>r'. r_fresh r' = r_fresh r \<Longrightarrow> ends (fresh_inv ss us) (h r') auth_inv) \<Longrightarrow>
     ends (fresh_inv ss us) (through H L c gs h r) auth_inv"
proof (induction gs arbitrary: r)
  case (Cons g gs)
  then show ?case by (auto intro!: ends_gate)
qed simp

text \<open>Whatever handler a request has.\<close>

lemma panel_ends:
  assumes "inj (r_fresh r0)" and [simp]: "r_fresh r = r_fresh r0"
  shows "ends (fresh_inv (range (r_fresh r0)) (range (r_fresh r0))) (snd (panel_serve E p r)) auth_inv"
proof -
  let ?F = "fresh_inv (range (r_fresh r0)) (range (r_fresh r0))"
  have less: "ends (fresh_inv ss us) m auth_inv \<Longrightarrow> ss \<subseteq> range (r_fresh r0) \<Longrightarrow> us \<subseteq> range (r_fresh r0) \<Longrightarrow> ends ?F m auth_inv"
    for ss us and m :: "(db, 'x) state"
    by (erule triple_weaken) (auto intro: fresh_inv_mono)
  have "from_round r 0 \<subseteq> range (r_fresh r0)" "inj (r_fresh r)" using assms by (auto simp: from_round_def)
  then have new: "ends ?F (FinishLogin W r b1) auth_inv" "ends ?F (OIDCCallback idp S L r st code) auth_inv"
    "ends ?F (AdminAddIdentityToTenant L r i b2) auth_inv" "ends ?F (AdminInviteAdmin L r raw i b3) auth_inv"
    "ends ?F (AdminBulkInvite L r raws i b4) auth_inv" for W b1 idp S L st code i b2 raw b3 raws b4
    using less [OF ends_FinishLogin [where us = "{}"]] less [OF ends_OIDCCallback] less [OF ends_AddIdentityToTenant [where ss = "{}"]]
      less [OF ends_AdminInviteAdmin [where ss = "{}"]] less [OF ends_AdminBulkInvite [where ss = "{}"]]
    by simp_all
  show ?thesis
    by (cases p; simp only: panel_serve.simps; intro answer_ends;
        (rule new)?; rule ends_auth; rule auth_keeps_panel auth_keeps_members auth_keeps_passkeys auth_keeps_sso auth_keeps_wiki auth_keeps_suborgs)
qed

lemma platform_step_keeps: "platform_step E d d' \<Longrightarrow> auth_inv d \<Longrightarrow> auth_inv d'"
proof (induction rule: platform_step.induct)
  case (plat_auth d d')
  then show ?case by (rule auth_step_keeps)
next
  case (plat_request rt p r d c)
  then have d: "fresh_inv (range (r_fresh r)) (range (r_fresh r)) d" and inj: "inj (r_fresh r)"
    by (simp_all add: draws_fresh_def fresh_inv_def)
  show ?case
    unfolding on_route_def by (rule tripleD [OF ends_through [OF panel_ends [OF inj]] d])
qed (rule auth_keeps_features [THEN tripleD] auth_keeps_jobs [THEN tripleD], assumption)+

lemma platform_reachable_inv: "platform_reachable E d \<Longrightarrow> auth_inv d"
proof (induction rule: platform_reachable.induct)
  case (plat_init d)
  then show ?case by (simp add: auth_inv_def)
qed (rule platform_step_keeps)

end
