(* ===== verification/Platform_Properties.thy ===== *)
theory Platform_Properties
  imports Platform
begin

text \<open>
  Properties of the platform as a whole: what holds of sessions in every database its requests and
  jobs can reach, and that suspension shuts an identity out of every way to log in.
\<close>

subsection \<open>Sessions\<close>

text \<open>[C16] Factor, tenancy and memberships are sound in every database the whole server can reach -
  by the routes of authentication, of the administration panel, of member management, passkeys,
  single sign-on, settings and wiki, through their gates, by the features and by the jobs, in any
  order and under any faults: a session past the second factor has one or did not begin with a
  password; a full session has a tenant or is a super administrator's; and tenant and user of a session are a
  membership of its identity.\<close>

theorem platform_sessions_sound:
  assumes "platform_reachable E d" "s \<in> set (d_sessions d)"
  shows "(PreTenant \<le> s_State s \<longrightarrow> s_SecondFactor s \<noteq> None \<or> s_AuthMethod s \<noteq> ''password'') \<and>
    (s_State s = Authenticated \<longrightarrow> s_IsSuperAdmin s \<or> s_TenantID s \<noteq> None) \<and>
    (\<forall>t. s_TenantID s = Some t \<longrightarrow> (\<exists>u \<in> set (d_users d). s_UserID s = Some (u_ID u) \<and> u_TenantID u = t \<and>
       u_IdentityID u = s_IdentityID s))"
  using platform_reachable_inv [OF assms(1)] assms(2)
  by (fastforce simp: auth_inv_def sess_ok_def second_factor_done_def membership_of_def list_ex_iff split: option.splits)

lemma auth_reachable_platform: "auth_reachable (pl_libs E) d \<Longrightarrow> platform_reachable E d"
proof (induction rule: auth_reachable.induct)
  case (reach_init d)
  then show ?case by (rule plat_init)
next
  case (reach_step d d')
  then show ?case by (blast intro: plat_step plat_auth)
qed

subsection \<open>Suspension\<close>

text \<open>An identity that is suspended, and its sessions.\<close>

definition shut_out :: "uuid \<Rightarrow> session list \<Rightarrow> db \<Rightarrow> bool" where
  "shut_out j X d = (j \<in> i_ID ` set (d_identities d) \<and> (\<forall>x \<in> set (d_identities d). i_ID x = j \<longrightarrow> IsSuspended x) \<and>
     filter (\<lambda>s. s_IdentityID s = j) (d_sessions d) = X)"

lemma shut_out_frame [simp]:
  "shut_out j X (d\<lparr>d_audit := x1\<rparr>) = shut_out j X d" "shut_out j X (d\<lparr>d_outbox := x2\<rparr>) = shut_out j X d"
  "shut_out j X (d\<lparr>d_codes := x3\<rparr>) = shut_out j X d" "shut_out j X (d\<lparr>d_ceremonies := x4\<rparr>) = shut_out j X d"
  "shut_out j X (d\<lparr>d_passkeys := x5\<rparr>) = shut_out j X d" "shut_out j X (d\<lparr>d_users := x6\<rparr>) = shut_out j X d"
  "shut_out j X (d\<lparr>d_totp := x7\<rparr>) = shut_out j X d"
  by (simp_all add: shut_out_def)

lemma shut_out_update:
  "shut_out j X d \<Longrightarrow> (\<And>x. i_ID (f x) = i_ID x \<and> i_SuspendedAt (f x) = i_SuspendedAt x) \<Longrightarrow>
     shut_out j X (d\<lparr>d_identities := sql_update P f (d_identities d)\<rparr>)"
  by (auto simp: shut_out_def IsSuspended_def image_sql_update ball_sql_update)

lemma keeps_shut_tables:
  "keeps_inv (shut_out j X) (audit_log r n a i s t m)" "keeps_inv (shut_out j X) (on_codes f1)"
  "keeps_inv (shut_out j X) (on_ceremonies f2)" "keeps_inv (shut_out j X) (on_passkeys f3)"
  by (simp_all add: keeps_tables keeps_on_ceremonies)

lemma keeps_shut_identities:
  "keeps_inv (shut_out j X) (on_identities (Identity_RecordFailedLogin flt now i))"
  "keeps_inv (shut_out j X) (on_identities (Identity_ClearFailedLogin flt now i))"
  "keeps_inv (shut_out j X) (on_identities (Identity_UpdatePassword flt now i h))"
  "keeps_inv (shut_out j X) (on_identities (Identity_UpdateName flt now i nm))"
  "keeps_inv (shut_out j X) (on_identities (Identity_Activate flt now i))"
  by (rule keeps_on_identities; simp add: store_defs identity_set_def fst_exec_update failed_login_row_def shut_out_update)+

lemma keeps_shut_session:
  "p_IdentityID p \<noteq> j \<Longrightarrow> keeps_inv (shut_out j X) (on_sessions (Session_Create flt now i p))"
  by (rule keeps_on_sessions) (auto simp: shut_out_def Session_Create_def Let_def session_row_def)

text \<open>An answer of the database tells something of it.\<close>

lemma keeps_asked:
  "(\<And>a d. P d \<Longrightarrow> f d = a \<Longrightarrow> keeps_inv P (k a)) \<Longrightarrow> keeps_inv P (State_Monad.bind (asks f) k)"
  by (auto simp: triple_def)

lemma shut_found:
  "shut_out j X d \<Longrightarrow> Identity_GetByEmail lower flt e (d_identities d) = Inr ident \<Longrightarrow> \<not> IsSuspended ident \<Longrightarrow> i_ID ident \<noteq> j"
  "shut_out j X d \<Longrightarrow> Identity_GetByID flt i (d_identities d) = Inr ident \<Longrightarrow> \<not> IsSuspended ident \<Longrightarrow> i_ID ident \<noteq> j"
  by (auto simp: shut_out_def Identity_GetByEmail_def Identity_GetByID_def query_row_def
      dest!: sql_row_Some split: if_splits option.splits)

lemma Login_shut: "keeps_inv (shut_out j X) (Login L r q)"
  unfolding Login_def login_refuse_def
  by (intro keeps_option keeps_reply keeps_bind keeps_shut_tables keeps_asked keeps_sum keeps_if keeps_shut_identities
      keeps_shut_session; simp add: shut_found)

lemmas shut_rules = keeps_option keeps_reply keeps_bind keeps_shut_tables keeps_asked keeps_sum keeps_if keeps_prod
  keeps_shut_identities keeps_shut_session

lemma Accept_shut: "keeps_inv (shut_out j X) (Invite_Accept L r q)"
  unfolding Invite_Accept_def by (intro shut_rules; simp add: shut_found)

lemma FinishLogin_shut: "keeps_inv (shut_out j X) (FinishLogin W r b)"
  unfolding FinishLogin_def passkey_session_def by (intro shut_rules; simp add: shut_found)

text \<open>Single sign-on may make an identity; it is another one.\<close>

lemma who_shut:
  assumes "r_fresh r 1 \<noteq> j"
  shows "triple (shut_out j X) (find_or_provision L r cfg email name)
    (\<lambda>who d. shut_out j X d \<and> (\<forall>ident. who = Inr ident \<longrightarrow> \<not> IsSuspended ident \<longrightarrow> i_ID ident \<noteq> j))"
proof -
  have "shut_out j X (fst (ProvisionUser flt now i k t role d)) = shut_out j X d" for flt now i k t role d
    by (simp add: ProvisionUser_def)
  moreover have "shut_out j X (d\<lparr>d_identities := d_identities d @ [x]\<rparr>)" if "shut_out j X d" "i_ID x \<noteq> j" for x d
    using that by (auto simp: shut_out_def)
  ultimately show ?thesis
    using assms shut_found(1)
    by (auto simp: find_or_provision_def triple_def Identity_Create_def Let_def split: sum.split)
qed

lemma OIDC_shut:
  assumes "r_fresh r 1 \<noteq> j"
  shows "keeps_inv (shut_out j X) (OIDCCallback idp S L r st code)"
proof -
  have sess: "keeps_inv (shut_out j X) (sso_session S r cfg proto ident)" if "i_ID ident \<noteq> j" for cfg proto ident
    unfolding sso_session_def using that by (intro shut_rules; simp)
  have "triple (\<lambda>d. shut_out j X d \<and> (\<forall>ident. who = Inr ident \<longrightarrow> \<not> IsSuspended ident \<longrightarrow> i_ID ident \<noteq> j))
      (case who of Inl e \<Rightarrow> reply (to_login S e) | Inr ident \<Rightarrow>
         if IsSuspended ident then reply (to_login S ''account_suspended'') else sso_session S r cfg proto ident)
      (\<lambda>_. shut_out j X)" for who cfg proto
    using sess by (auto simp: triple_def split: sum.split)
  then have "keeps_inv (shut_out j X) (completeSSO S L r cfg email name proto)" for cfg email name proto
    unfolding completeSSO_def
    by (intro keeps_asked keeps_sum keeps_if keeps_reply keeps_bind keeps_shut_tables triple_bind [OF who_shut [OF assms]])
  then show ?thesis
    unfolding OIDCCallback_def by (intro keeps_if keeps_reply keeps_option keeps_asked keeps_sum keeps_prod)
qed

text \<open>Every way to log in, again and again.\<close>

inductive logins :: "outside \<Rightarrow> db \<Rightarrow> db \<Rightarrow> bool" for E where
  lg_start: "logins E d d"
| lg_password: "logins E d d1 \<Longrightarrow> logins E d (snd (run_state (Login (pl_libs E) r q) d1))"
| lg_invite: "logins E d d1 \<Longrightarrow> logins E d (snd (run_state (Invite_Accept (pl_libs E) r q) d1))"
| lg_passkey: "logins E d d1 \<Longrightarrow> logins E d (snd (run_state (FinishLogin (pl_webauthn E) r b) d1))"
| lg_sso: "logins E d d1 \<Longrightarrow> r_fresh r 1 \<notin> i_ID ` set (d_identities d1) \<Longrightarrow>
    logins E d (snd (run_state (OIDCCallback (pl_idp E) (pl_site E) (pl_libs E) r st code) d1))"

lemma logins_shut: "logins E d d' \<Longrightarrow> shut_out j X d \<Longrightarrow> shut_out j X d'"
proof (induction rule: logins.induct)
  case (lg_sso d d1 r st code)
  then have "shut_out j X d1" by simp
  moreover from this lg_sso.hyps have "r_fresh r 1 \<noteq> j" by (auto simp: shut_out_def)
  ultimately show ?case by (rule tripleD [OF OIDC_shut, rotated])
qed (blast intro: tripleD [OF Login_shut] tripleD [OF Accept_shut] tripleD [OF FinishLogin_shut])+

lemma suspend_shuts:
  assumes run: "run_state (AdminSuspendIdentity L r i) d = (Respond StatusOK n, d1)" and i: "l_uuid L i = Some j"
    and flt: "\<not> r_flt r ''session.RevokeByIdentity'' 0"
  shows "\<exists>X. shut_out j X d1 \<and> (\<forall>s \<in> set X. \<not> active (r_now r) s)"
proof -
  let ?ids = "sql_update (\<lambda>x. i_ID x = j \<and> i_SuspendedAt x = None) (\<lambda>x. x\<lparr>i_SuspendedAt := Some (r_now r), i_UpdatedAt := r_now r\<rparr>) (d_identities d)"
  let ?ss = "sql_update (\<lambda>s. s_IdentityID s = j \<and> active (r_now r) s)
     (\<lambda>s. s\<lparr>s_RevokedAt := Some (r_now r), s_RevokeReason := Some ''identity_suspended''\<rparr>) (d_sessions d)"
  have ids: "d_identities d1 = ?ids" and ss: "d_sessions d1 = ?ss" and ex: "\<exists>x \<in> set (d_identities d). i_ID x = j"
    using assms
    by (auto simp: AdminSuspendIdentity_def spare_last_admin_def with_session_def with_uuid_def admin_audit_def Identity_Suspend_def
        identity_set_def done_some_def exec_update_def Session_RevokeByIdentity_def Let_def Identity_GetByID_def query_row_def
        dest!: sql_row_Some split: option.splits sum.splits if_splits)
  have "shut_out j (filter (\<lambda>s. s_IdentityID s = j) ?ss) d1"
    using ex by (auto simp: shut_out_def ids ss IsSuspended_def ball_sql_update image_sql_update)
  moreover have "\<forall>s \<in> set ?ss. s_IdentityID s = j \<longrightarrow> \<not> active (r_now r) s"
    by (auto simp: ball_sql_update)
  ultimately show ?thesis by (intro exI conjI) (assumption, simp)
qed

text \<open>[C23] Suspension locks out: once the panel has answered that it suspended an identity, and its
  sessions could be revoked, no session of the identity is valid at any later time, however often and
  by whatever way - password, invite, passkey, single sign-on - someone tries to log in.\<close>

theorem suspension_locks_out:
  assumes "run_state (AdminSuspendIdentity (pl_libs E) r i) d = (Respond StatusOK n, d1)" "l_uuid (pl_libs E) i = Some j"
    and "\<not> r_flt r ''session.RevokeByIdentity'' 0" "logins E d1 d2"
    and "s \<in> set (d_sessions d2)" "s_IdentityID s = j" "r_now r \<le> now"
  shows "\<not> IsValid now s"
proof -
  from suspend_shuts [OF assms(1-3)] obtain X where X: "shut_out j X d1" "\<forall>s \<in> set X. \<not> active (r_now r) s"
    by blast
  from logins_shut [OF assms(4) X(1)] assms(5,6) have "s \<in> set X" by (auto simp: shut_out_def)
  with X(2) assms(7) show ?thesis by (auto simp: IsValid_def)
qed

text \<open>An example: a super administrator suspends identity 2, which has a session, and it tries its password.\<close>

definition other_identity :: identity where
  "other_identity = demo_identity\<lparr>i_ID := 2, i_Email := ''bob@acme.com''\<rparr>"

definition suspend_db :: db where
  "suspend_db = demo_db\<lparr>d_identities := [demo_identity, other_identity], d_sessions := [demo_member\<lparr>s_ID := 4, s_IdentityID := 2\<rparr>]\<rparr>"

definition demo_webauthn :: webauthn where
  "demo_webauthn = \<lparr>wa_BeginRegistration = (\<lambda>u. Some (''options'', ''data'')),
     wa_FinishRegistration = (\<lambda>u sd b. None), wa_BeginDiscoverableLogin = Some (''options'', ''data'', ''challenge''),
     wa_ParseResponse = (\<lambda>b. Some (b, ''challenge'')), wa_ValidateDiscoverableLogin = (\<lambda>u sd b. find (\<lambda>c. wc_ID c = b) (wn_credentials u)),
     wa_BeginLogin = (\<lambda>u. Some (''options'', ''data'')), wa_FinishLogin = (\<lambda>u sd b. find (\<lambda>c. wc_ID c = b) (wn_credentials u))\<rparr>"

definition demo_idp :: oidc where
  "demo_idp = \<lparr>oi_Provider = (\<lambda>_. True), oi_AuthCodeURL = (\<lambda>i c k u st. i @ st), oi_Exchange = (\<lambda>i c k u code. Some (Some code)),
     oi_Verify = (\<lambda>i c raw. Some raw), oi_Claims = (\<lambda>raw. Some (raw, ''Mallory''))\<rparr>"

definition demo_outside :: outside where
  "demo_outside = \<lparr>pl_libs = demo_libs,
     pl_host = \<lparr>ho_cloud = False, ho_sendgrid = False, ho_backend = [], ho_account = [], ho_validate = (\<lambda>_ _. None),
       ho_passkeys = True, ho_model = False\<rparr>,
     pl_webauthn = demo_webauthn, pl_idp = demo_idp, pl_site = \<lparr>st_Frontend = ''https://app'', st_Backend = ''https://api''\<rparr>,
     pl_scanner = Noop_Scan, pl_storage = NewLocal ''./uploads'', pl_casefold = id\<rparr>"

theorem suspension_locks_out_witness:
  "\<exists>d2 :: db. d_sessions d2 \<noteq> [] \<and> (\<forall>s \<in> set (d_sessions d2). s_IdentityID s = 2 \<and> \<not> IsValid 200 s)"
proof -
  let ?r = "demo_request\<lparr>r_session := Some (demo_member\<lparr>s_IsSuperAdmin := True\<rparr>)\<rparr>"
  let ?q = "Some (demo_login\<lparr>lq_Email := ''bob@acme.com''\<rparr>)"
  let ?run = "run_state (AdminSuspendIdentity (pl_libs demo_outside) ?r ''aa'') suspend_db"
  let ?d2 = "snd (run_state (Login (pl_libs demo_outside) demo_request ?q) (snd ?run))"
  let ?s = "demo_member\<lparr>s_ID := 4, s_IdentityID := 2, s_RevokedAt := Some 100, s_RevokeReason := Some ''identity_suspended''\<rparr>"
  have tables: "fst ?run = Respond StatusOK 1 \<and> d_sessions (snd ?run) = [?s] \<and>
      d_identities (snd ?run) = [demo_identity, other_identity\<lparr>i_SuspendedAt := Some 100, i_UpdatedAt := 100\<rparr>]"
    by (simp add: demo_outside_def AdminSuspendIdentity_def spare_last_admin_def with_uuid_def admin_audit_def suspend_db_def
        demo_defs other_identity_def Identity_GetByID_def Identity_Suspend_def identity_set_def Session_RevokeByIdentity_def sql_simps
        demo_member_def session_row_def session_durations demo_params_def Let_def sql_affected_def)
  then have run: "?run = (Respond StatusOK 1, snd ?run)" by (metis prod.collapse)
  have uuid: "l_uuid (pl_libs demo_outside) ''aa'' = Some 2" by (simp add: demo_outside_def demo_libs_def)
  have flt: "\<not> r_flt ?r ''session.RevokeByIdentity'' 0" by (simp add: demo_request_def)
  have lg: "logins demo_outside (snd ?run) ?d2" by (rule lg_password [OF lg_start])
  have d2: "d_sessions ?d2 = [?s]"
    using tables by (simp add: Login_def login_refuse_def demo_outside_def demo_defs other_identity_def Identity_GetByEmail_def
        HasPassword_def IsLocked_def IsSuspended_def Identity_ClearFailedLogin_def sql_simps)
  have gone: "\<not> IsValid 200 ?s"
    by (rule suspension_locks_out [OF run uuid flt lg]) (simp_all add: d2, simp add: demo_request_def)
  show ?thesis by (rule exI [of _ ?d2]) (use d2 gone in simp)
qed

theorem platform_sessions_sound_witness:
  "\<exists>s \<in> set (d_sessions run_factor). s_State s = PreTenant \<and> s_SecondFactor s \<noteq> None"
proof -
  have "platform_reachable (demo_outside\<lparr>pl_libs := run_libs\<rparr>) run_factor"
    by (rule auth_reachable_platform) (simp add: run_reachable)
  from platform_sessions_sound [OF this, of "hd (d_sessions run_factor)"] show ?thesis
    by (simp add: run_factor_tables run_session_def session_row_def)
qed

end
