(* ===== verification/Mail_Delivery.thy ===== *)
theory Mail_Delivery
  imports Mail Formats
begin

text \<open>
  The rest of \<^verbatim>\<open>backend/internal/email\<close>: the transports (\<^verbatim>\<open>sender_sendgrid.go\<close>,
  \<^verbatim>\<open>sender_queue.go\<close>), the endpoint the queue calls (\<^verbatim>\<open>handler.go\<close>) with the life of a
  queued mail, and the plain text made of a rendered template (\<^verbatim>\<open>template.go\<close>).
\<close>

subsection \<open>SendGrid\<close>

text \<open>What the client of the provider answers: no response, or a status.\<close>

datatype send_error = RequestFailed | SendGridError int

definition SendGrid_Send :: "int option \<Rightarrow> send_error option" where
  "SendGrid_Send answer = (case answer of None \<Rightarrow> Some RequestFailed
     | Some status \<Rightarrow> if status \<ge> 400 then Some (SendGridError status) else None)"

definition IsTransient :: "int \<Rightarrow> bool" where
  "IsTransient status = (status = 429 \<or> status \<ge> 500)"

definition transient_error :: "send_error \<Rightarrow> bool" where
  "transient_error e = (case e of RequestFailed \<Rightarrow> False | SendGridError status \<Rightarrow> IsTransient status)"

subsection \<open>The endpoint of the queue\<close>

datatype mail_log =
    Invalid_payload
  | Transient_failure int   \<comment> \<open>with the retry count\<close>
  | Dead_letter int
  | Send_failed int
  | Mail_delivered

text \<open>The payload is \<open>None\<close> where it is no message, the header that of the queue, and \<open>send\<close> the
  transport. The result is the status and what is logged.\<close>

definition HandleSendTask :: "(message \<Rightarrow> send_error option) \<Rightarrow> message option \<Rightarrow> string \<Rightarrow> http \<times> mail_log list" where
  "HandleSendTask send payload header = (case payload of
     None \<Rightarrow> (StatusOK, [Invalid_payload])
   | Some m \<Rightarrow> (let retryCount = Atoi header in
       (case send m of
          None \<Rightarrow> (StatusOK, [Mail_delivered])
        | Some e \<Rightarrow>
            if transient_error e then
              (if retryCount \<ge> 4 then (StatusOK, [Transient_failure retryCount, Dead_letter retryCount])
               else (StatusServiceUnavailable, [Transient_failure retryCount]))
            else if retryCount \<ge> 4 then (StatusOK, [Dead_letter retryCount])
            else (StatusOK, [Send_failed retryCount]))))"

text \<open>The queue calls the endpoint until it answers with a 2xx status, the header counting the
  retries from zero (the documented meaning of \<^verbatim>\<open>X-CloudTasks-TaskRetryCount\<close>); \<open>send n\<close> is
  the transport at attempt \<open>n\<close>. The result is what each attempt answered.\<close>

lemma Atoi_decimal: "Atoi (decimal n) = min (2 ^ 63 - 1) (int n)"
proof -
  obtain c cs where s: "decimal n = c # cs" using decimal_not_empty [of n] by (cases "decimal n") auto
  have r: "read_number (decimal n) = Some (int n)" by (simp add: read_number_def read_digits_decimal)
  then have "digit_value c \<noteq> None" by (auto simp: s read_number_def split: option.splits)
  then have "c \<noteq> CHR ''-''" "c \<noteq> CHR ''+''" by (auto simp: digit_value_def of_char_def)
  then show ?thesis using r by (simp add: Atoi_def s clamp64_def)
qed

definition succeeded :: "http \<Rightarrow> bool" where
  "succeeded c = (200 \<le> http_code c \<and> http_code c < 300)"

lemma retry_below_four:
  "\<not> succeeded (fst (HandleSendTask send (Some m) (decimal n))) \<Longrightarrow> n < 4"
  by (auto simp: HandleSendTask_def Let_def succeeded_def Atoi_decimal split: option.splits if_splits)

function attempts :: "(nat \<Rightarrow> message \<Rightarrow> send_error option) \<Rightarrow> message \<Rightarrow> nat \<Rightarrow> (http \<times> mail_log list) list" where
  "attempts send m n = (let a = HandleSendTask (send n) (Some m) (decimal n) in
     a # (if succeeded (fst a) then [] else attempts send m (n + 1)))"
  by pat_completeness auto
termination
proof (relation "measure (\<lambda>(_, _, n). 5 - n)", goal_cases)
  case (2 send m n x)
  then show ?case using retry_below_four [of "send n" m n] by simp
qed simp

declare attempts.simps [simp del]

lemma HandleSendTask_decimal:
  assumes "n \<le> 4"
  shows "HandleSendTask send (Some m) (decimal n) = (case send m of
     None \<Rightarrow> (StatusOK, [Mail_delivered])
   | Some e \<Rightarrow> if transient_error e then
         (if n = 4 then (StatusOK, [Transient_failure (int n), Dead_letter (int n)])
          else (StatusServiceUnavailable, [Transient_failure (int n)]))
       else (StatusOK, [if n = 4 then Dead_letter (int n) else Send_failed (int n)]))"
  using assms by (simp add: HandleSendTask_def Let_def Atoi_decimal split: option.split)

text \<open>What the transport said is transient: a further attempt is worth it.\<close>

definition try_again :: "send_error option \<Rightarrow> bool" where
  "try_again res = (case res of None \<Rightarrow> False | Some e \<Rightarrow> transient_error e)"

lemma attempts_stop:
  "n \<le> 4 \<Longrightarrow> n = 4 \<or> \<not> try_again (send n m) \<Longrightarrow> attempts send m n = [HandleSendTask (send n) (Some m) (decimal n)]"
  by (auto simp: attempts.simps [of send m n] HandleSendTask_decimal try_again_def succeeded_def Let_def
      split: option.splits if_splits)

lemma attempts_again:
  "n < 4 \<Longrightarrow> try_again (send n m) \<Longrightarrow>
   attempts send m n = (StatusServiceUnavailable, [Transient_failure (int n)]) # attempts send m (n + 1)"
  by (auto simp: attempts.simps [of send m n] HandleSendTask_decimal try_again_def succeeded_def Let_def
      split: option.splits if_splits)

lemma attempts_from:
  assumes "n \<le> 4"
  shows "attempts send m n =
    map (\<lambda>k. (StatusServiceUnavailable, [Transient_failure (int k)])) (takeWhile (\<lambda>k. try_again (send k m)) [n..<4]) @
    [let k = n + length (takeWhile (\<lambda>k. try_again (send k m)) [n..<4]) in HandleSendTask (send k) (Some m) (decimal k)]"
  using assms
proof (induction "4 - n" arbitrary: n)
  case 0
  then have "n = 4" by simp
  then show ?case by (simp add: attempts_stop)
next
  case (Suc k)
  then have n: "n < 4" "[n..<4] = n # [n + 1..<4]" by (simp_all add: upt_conv_Cons)
  show ?case
  proof (cases "try_again (send n m)")
    case True
    then show ?thesis using Suc n by (simp add: attempts_again Let_def)
  qed (use n in \<open>simp add: attempts_stop\<close>)
qed

text \<open>[C17] Every queued mail settles, whatever the provider answers: after at most five attempts the
  endpoint answers 200 and the queue forgets the mail. All attempts before the last met a
  transient error (429 or 5xx) and answered 503; the last one delivered the mail or logged that it is
  lost, as a failed send or, on the fifth attempt, as a dead letter. The mail reaches the
  provider with success at most once, namely on the last attempt.\<close>

theorem queued_mail_settles:
  fixes answers :: "nat \<Rightarrow> int option"
  defines "send \<equiv> \<lambda>n (_ :: message). SendGrid_Send (answers n)"
  shows "\<exists>k tries lost. attempts send m 0 = tries @ [(StatusOK, lost)] \<and> length tries = k \<and> k \<le> 4 \<and>
    (\<forall>i < k. tries ! i = (StatusServiceUnavailable, [Transient_failure (int i)]) \<and>
       (\<exists>status. answers i = Some status \<and> (status = 429 \<or> status \<ge> 500))) \<and>
    (if send k m = None then lost = [Mail_delivered]
     else last lost = (if k = 4 then Dead_letter 4 else Send_failed (int k)) \<and> Mail_delivered \<notin> set lost \<and>
       (k < 4 \<longrightarrow> (\<forall>status. answers k = Some status \<longrightarrow> status \<noteq> 429 \<and> status < 500)))"
proof -
  let ?P = "\<lambda>k. try_again (send k m)"
  define k where "k = length (takeWhile ?P [0..<4])"
  have le: "k \<le> 4" unfolding k_def using length_takeWhile_le [of ?P "[0..<4]"] by simp
  have tw: "takeWhile ?P [0..<4] = [0..<k]"
    using takeWhile_eq_take [of ?P "[0..<4]"] le by (simp add: k_def [symmetric])
  have before: "?P i" if "i < k" for i
    using that set_takeWhileD [of i ?P "[0..<4]"] tw by simp
  have stop: "\<not> ?P k" if "k < 4"
    using nth_length_takeWhile [of ?P "[0..<4]"] that by (simp add: k_def [symmetric])
  have transient: "?P i \<longleftrightarrow> (\<exists>status. answers i = Some status \<and> (status = 429 \<or> status \<ge> 500))" for i
    by (auto simp: send_def try_again_def SendGrid_Send_def transient_error_def IsTransient_def split: option.splits)
  let ?tries = "map (\<lambda>i. (StatusServiceUnavailable, [Transient_failure (int i)])) [0..<k]"
  have runs: "attempts send m 0 = ?tries @ [HandleSendTask (send k) (Some m) (decimal k)]"
    using attempts_from [of 0 send m] unfolding tw by simp
  have stops: "k = 4 \<or> \<not> ?P k" using stop le by linarith
  have final: "fst (HandleSendTask (send k) (Some m) (decimal k)) = StatusOK"
    using stops by (cases "send k m") (auto simp: HandleSendTask_decimal [OF le] try_again_def)
  have logged: "if send k m = None then snd (HandleSendTask (send k) (Some m) (decimal k)) = [Mail_delivered]
     else last (snd (HandleSendTask (send k) (Some m) (decimal k))) = (if k = 4 then Dead_letter 4 else Send_failed (int k)) \<and>
       Mail_delivered \<notin> set (snd (HandleSendTask (send k) (Some m) (decimal k)))"
    using stops by (cases "send k m") (auto simp: HandleSendTask_decimal [OF le] try_again_def)
  show ?thesis
  proof (intro exI conjI)
    show "attempts send m 0 = ?tries @ [(StatusOK, snd (HandleSendTask (send k) (Some m) (decimal k)))]"
      using runs final by (cases "HandleSendTask (send k) (Some m) (decimal k)") simp
    show "length ?tries = k" "k \<le> 4" using le by simp_all
    show "\<forall>i < k. ?tries ! i = (StatusServiceUnavailable, [Transient_failure (int i)]) \<and>
       (\<exists>status. answers i = Some status \<and> (status = 429 \<or> status \<ge> 500))"
      using before transient by simp
    have "k < 4 \<longrightarrow> (\<forall>status. answers k = Some status \<longrightarrow> status \<noteq> 429 \<and> status < 500)"
      using stop transient [of k] by (auto simp: not_le [symmetric])
    with logged show "if send k m = None then snd (HandleSendTask (send k) (Some m) (decimal k)) = [Mail_delivered]
     else last (snd (HandleSendTask (send k) (Some m) (decimal k))) = (if k = 4 then Dead_letter 4 else Send_failed (int k)) \<and>
       Mail_delivered \<notin> set (snd (HandleSendTask (send k) (Some m) (decimal k))) \<and>
       (k < 4 \<longrightarrow> (\<forall>status. answers k = Some status \<longrightarrow> status \<noteq> 429 \<and> status < 500))"
      by auto
  qed
qed

text \<open>Two refusals, then success.\<close>

theorem queued_mail_settles_witness:
  "let m = \<lparr>mg_To = ''a@b'', mg_Subject = [], mg_HTML = [], mg_Text = []\<rparr>;
       answers = (\<lambda>n. if n = 0 then Some 503 else if n = 1 then Some 429 else Some 202) in
   \<exists>tries. attempts (\<lambda>n _. SendGrid_Send (answers n)) m 0 = tries @ [(StatusOK, [Mail_delivered])] \<and> length tries = 2"
proof -
  let ?m = "\<lparr>mg_To = ''a@b'', mg_Subject = [], mg_HTML = [], mg_Text = []\<rparr> :: message"
  let ?ans = "\<lambda>n :: nat. if n = 0 then Some 503 else if n = 1 then Some 429 else Some (202 :: int)"
  obtain k tries lost where k: "attempts (\<lambda>n _. SendGrid_Send (?ans n)) ?m 0 = tries @ [(StatusOK, lost)]" "length tries = k"
    and before: "\<forall>i < k. tries ! i = (StatusServiceUnavailable, [Transient_failure (int i)]) \<and>
       (\<exists>status. ?ans i = Some status \<and> (status = 429 \<or> status \<ge> 500))"
    and at: "if SendGrid_Send (?ans k) = None then lost = [Mail_delivered]
     else last lost = (if k = 4 then Dead_letter 4 else Send_failed (int k)) \<and> Mail_delivered \<notin> set lost \<and>
       (k < 4 \<longrightarrow> (\<forall>status. ?ans k = Some status \<longrightarrow> status \<noteq> 429 \<and> status < 500))"
    using queued_mail_settles [of ?ans ?m] by blast
  have "k \<noteq> 0" "k \<noteq> 1" by (rule notI, use at in \<open>simp add: SendGrid_Send_def\<close>)+
  moreover have "\<not> 2 < k" using before by (auto dest!: spec [of _ 2])
  ultimately have "k = 2" by simp
  then show ?thesis using k at by (auto simp: SendGrid_Send_def Let_def)
qed

subsection \<open>Queueing a mail\<close>

text \<open>The task handed to the client of the queue; its body is the message as JSON.\<close>

record queue_task =
  qt_Parent :: string
  qt_Method :: string
  qt_URL :: string
  qt_ContentType :: string
  qt_Body :: message
  qt_ServiceAccount :: string
  qt_Audience :: string

record queue_sender =
  qs_queue :: string
  qs_targetURL :: string
  qs_audience :: string
  qs_saEmail :: string

definition NewQueueSender :: "string \<Rightarrow> string \<Rightarrow> string \<Rightarrow> queue_sender" where
  "NewQueueSender queue backendURL saEmail = \<lparr>qs_queue = queue, qs_targetURL = backendURL @ ''/api/tasks/send-email'',
     qs_audience = backendURL, qs_saEmail = saEmail\<rparr>"

definition QueueSender_Send :: "(queue_task \<Rightarrow> bool) \<Rightarrow> queue_sender \<Rightarrow> message \<Rightarrow> queue_task list \<times> (err + unit)" where
  "QueueSender_Send CreateTask q m =
     (let t = \<lparr>qt_Parent = qs_queue q, qt_Method = ''POST'', qt_URL = qs_targetURL q, qt_ContentType = ''application/json'',
                qt_Body = m, qt_ServiceAccount = qs_saEmail q, qt_Audience = qs_audience q\<rparr> in
      if CreateTask t then ([t], Inr ()) else ([], Inl (ErrMsg ''create cloud task'')))"

subsection \<open>The plain text of a mail\<close>

text \<open>The tokens of the HTML library, with the name of the element in lower case.\<close>

datatype html_token =
    StartTag string
  | SelfClosingTag string
  | EndTag string
  | TextToken string
  | OtherToken

definition blockElements :: "string list" where
  "blockElements = [''p'', ''div'', ''tr'', ''br'', ''h1'', ''h2'', ''h3'', ''h4'', ''h5'', ''h6'', ''li'', ''table'', ''head'',
     ''style'', ''script'']"

definition skipElements :: "string list" where
  "skipElements = [''head'', ''style'', ''script'']"

text \<open>\<^verbatim>\<open>strings.Fields\<close> on ASCII text, and \<^verbatim>\<open>strings.Split\<close> at line feeds\<close>

fun fields_from :: "string \<Rightarrow> string \<Rightarrow> string list" where
  "fields_from w [] = (if w = [] then [] else [w])"
| "fields_from w (c # cs) = (if is_space c then (if w = [] then [] else [w]) @ fields_from [] cs else fields_from (w @ [c]) cs)"

definition Fields :: "string \<Rightarrow> string list" where
  "Fields s = fields_from [] s"

fun join_with :: "string \<Rightarrow> string list \<Rightarrow> string" where
  "join_with sep [] = []"
| "join_with sep [w] = w"
| "join_with sep (w # v # ws) = w @ sep @ join_with sep (v # ws)"

fun split_lines :: "string \<Rightarrow> string list" where
  "split_lines [] = [[]]"
| "split_lines (c # cs) = (if c = LF then [] # split_lines cs
     else (case split_lines cs of [] \<Rightarrow> [[c]] | w # ws \<Rightarrow> (c # w) # ws))"

definition tidy_line :: "string \<Rightarrow> string" where
  "tidy_line s = join_with '' '' (Fields (TrimSpace s))"

definition collapseLines :: "string \<Rightarrow> string" where
  "collapseLines s = join_with [LF] (filter (\<lambda>l. l \<noteq> []) (map tidy_line (split_lines s)))"

definition line_break :: "string \<Rightarrow> string" where
  "line_break name = (if name \<in> set blockElements then [LF] else [])"

text \<open>The loop over the tokens with \<^verbatim>\<open>skipDepth\<close>; the end of the list is the error token.\<close>

fun plain_from :: "nat \<Rightarrow> html_token list \<Rightarrow> string" where
  "plain_from skip [] = []"
| "plain_from skip (StartTag a # ts) = line_break a @ plain_from (if a \<in> set skipElements then skip + 1 else skip) ts"
| "plain_from skip (SelfClosingTag a # ts) = line_break a @ plain_from (if a \<in> set skipElements then skip + 1 else skip) ts"
| "plain_from skip (EndTag a # ts) = line_break a @ plain_from (if a \<in> set skipElements then skip - 1 else skip) ts"
| "plain_from skip (TextToken s # ts) = (if skip = 0 then s else []) @ plain_from skip ts"
| "plain_from skip (OtherToken # ts) = plain_from skip ts"

definition htmlToPlainText :: "html_token list \<Rightarrow> string" where
  "htmlToPlainText ts = collapseLines (plain_from 0 ts)"

text \<open>Words: not empty and without white space.\<close>

definition word_ok :: "string \<Rightarrow> bool" where
  "word_ok w = (w \<noteq> [] \<and> (\<forall>c \<in> set w. \<not> is_space c))"

lemma is_space_blank [simp]: "is_space (CHR '' '')" "is_space LF"
  by (simp_all add: is_space_def of_char_def)

lemma fields_from_ok: "\<forall>c \<in> set w. \<not> is_space c \<Longrightarrow> v \<in> set (fields_from w s) \<Longrightarrow> word_ok v"
proof (induction s arbitrary: w)
  case (Cons c cs)
  show ?case
  proof (cases "is_space c")
    case True
    then have "v = w \<and> w \<noteq> [] \<or> v \<in> set (fields_from [] cs)" using Cons.prems by (auto split: if_splits)
    then show ?thesis using Cons.IH [of "[]"] Cons.prems(1) by (auto simp: word_ok_def)
  next
    case False
    then show ?thesis using Cons.IH [of "w @ [c]"] Cons.prems by auto
  qed
qed (auto simp: word_ok_def split: if_splits)

lemma fields_from_word: "\<forall>c \<in> set v. \<not> is_space c \<Longrightarrow> fields_from w (v @ s) = fields_from (w @ v) s"
  by (induction v arbitrary: w) auto

lemma Fields_join: "list_all word_ok ws \<Longrightarrow> Fields (join_with '' '' ws) = ws"
proof (induction "'' ''" ws rule: join_with.induct)
  case (2 w)
  then show ?case using fields_from_word [of w "[]" "[]"] by (simp add: Fields_def word_ok_def)
next
  case (3 w v ws)
  then show ?case using fields_from_word [of w "[]" "'' '' @ join_with '' '' (v # ws)"] by (simp add: Fields_def word_ok_def)
qed (simp add: Fields_def)

lemma fields_from_trailing: "\<forall>c \<in> set t. is_space c \<Longrightarrow> fields_from w (s @ t) = fields_from w s"
proof (induction s arbitrary: w)
  case Nil
  have "fields_from [] t = []" using Nil by (induction t) auto
  then show ?case using Nil by (cases t) auto
qed auto

lemma Fields_dropWhile: "Fields (dropWhile is_space s) = Fields s"
  by (induction s) (simp_all add: Fields_def)

lemma Fields_TrimSpace: "Fields (TrimSpace s) = Fields s"
proof -
  define u where "u = dropWhile is_space s"
  have "u = rev (dropWhile is_space (rev u)) @ rev (takeWhile is_space (rev u))"
    by (metis rev_append rev_rev_ident takeWhile_dropWhile_id)
  moreover have "\<forall>c \<in> set (rev (takeWhile is_space (rev u))). is_space c" by (auto dest: set_takeWhileD)
  ultimately have "Fields u = Fields (rev (dropWhile is_space (rev u)))"
    unfolding Fields_def by (metis fields_from_trailing)
  then show ?thesis by (simp add: TrimSpace_def u_def Fields_dropWhile)
qed

lemma tidy_line_words: "tidy_line s = join_with '' '' (Fields s)"
  by (simp add: tidy_line_def Fields_TrimSpace)

lemma Fields_ok: "list_all word_ok (Fields s)"
  using fields_from_ok [of "[]" _ s] by (simp add: Fields_def list_all_iff)

lemma tidy_line_idem [simp]: "tidy_line (tidy_line s) = tidy_line s"
  by (simp add: tidy_line_words Fields_join Fields_ok)

lemma join_words_no_LF: "list_all word_ok ws \<Longrightarrow> LF \<notin> set (join_with '' '' ws)"
  by (induction "'' ''" ws rule: join_with.induct) (auto simp: word_ok_def)

lemma tidy_line_no_LF [simp]: "LF \<notin> set (tidy_line s)"
  by (simp add: tidy_line_words join_words_no_LF Fields_ok)

lemma split_lines_append: "LF \<notin> set w \<Longrightarrow> split_lines (w @ LF # s) = w # split_lines s"
  by (induction w) auto

lemma split_lines_one: "LF \<notin> set w \<Longrightarrow> split_lines w = [w]"
  by (induction w) auto

lemma split_join_lines: "ls \<noteq> [] \<Longrightarrow> \<forall>l \<in> set ls. LF \<notin> set l \<Longrightarrow> split_lines (join_with [LF] ls) = ls"
  by (induction "[LF]" ls rule: join_with.induct) (auto simp: split_lines_one split_lines_append)

text \<open>The text is in normal form: collapsing it again changes nothing, and each of its lines is a list
  of words with single blanks between them.\<close>

lemma collapse_lines_of:
  assumes "ls = filter (\<lambda>l. l \<noteq> []) (map tidy_line (split_lines s))"
  shows "collapseLines s = join_with [LF] ls" "\<forall>l \<in> set ls. l \<noteq> [] \<and> tidy_line l = l \<and> LF \<notin> set l"
  using assms by (auto simp: collapseLines_def)

lemma collapseLines_idem: "collapseLines (collapseLines s) = collapseLines s"
proof -
  define ls where "ls = filter (\<lambda>l. l \<noteq> []) (map tidy_line (split_lines s))"
  note ls = collapse_lines_of [OF ls_def]
  show ?thesis
  proof (cases "ls = []")
    case True
    then show ?thesis using ls(1) by (simp add: collapseLines_def tidy_line_words Fields_def)
  next
    case False
    then have "split_lines (join_with [LF] ls) = ls" using ls(2) by (intro split_join_lines) auto
    moreover have "map tidy_line ls = ls" using ls(2) by (intro map_idI) simp
    moreover have "filter (\<lambda>l. l \<noteq> []) ls = ls" by (simp add: ls_def)
    ultimately show ?thesis using ls(1) by (simp add: collapseLines_def)
  qed
qed

lemma htmlToPlainText_normal: "collapseLines (htmlToPlainText ts) = htmlToPlainText ts"
  by (simp add: htmlToPlainText_def collapseLines_idem)

text \<open>Texts inside a head, style or script element do not reach the mail.\<close>

fun skip_depth :: "nat \<Rightarrow> html_token list \<Rightarrow> nat" where
  "skip_depth k [] = k"
| "skip_depth k (StartTag a # ts) = skip_depth (if a \<in> set skipElements then k + 1 else k) ts"
| "skip_depth k (SelfClosingTag a # ts) = skip_depth (if a \<in> set skipElements then k + 1 else k) ts"
| "skip_depth k (EndTag a # ts) = skip_depth (if a \<in> set skipElements then k - 1 else k) ts"
| "skip_depth k (TextToken _ # ts) = skip_depth k ts"
| "skip_depth k (OtherToken # ts) = skip_depth k ts"

lemma plain_from_append: "plain_from k (xs @ ys) = plain_from k xs @ plain_from (skip_depth k xs) ys"
  by (induction k xs rule: skip_depth.induct) simp_all

definition only_text :: "html_token list \<Rightarrow> bool" where
  "only_text = list_all (\<lambda>t. case t of TextToken _ \<Rightarrow> True | _ \<Rightarrow> False)"

lemma plain_from_skipped: "only_text ys \<Longrightarrow> 0 < k \<Longrightarrow> plain_from k ys = [] \<and> skip_depth k ys = k"
  by (induction ys) (auto simp: only_text_def split: html_token.splits)

lemma hidden_text_is_dropped:
  "a \<in> set skipElements \<Longrightarrow> only_text ys \<Longrightarrow>
   htmlToPlainText (xs @ StartTag a # ys @ EndTag a # zs) = htmlToPlainText (xs @ StartTag a # EndTag a # zs)"
  by (simp add: htmlToPlainText_def plain_from_append plain_from_skipped)

text \<open>A self-closing tag of such an element hides everything behind it, because no end tag follows.\<close>

lemma self_closing_hides_the_rest:
  "a \<in> set skipElements \<Longrightarrow> only_text ys \<Longrightarrow> htmlToPlainText (xs @ SelfClosingTag a # ys) = htmlToPlainText (xs @ [SelfClosingTag a])"
  by (simp add: htmlToPlainText_def plain_from_append plain_from_skipped)

lemma plain_text_example:
  "htmlToPlainText [StartTag ''style'', TextToken ''p {}'', EndTag ''style'', StartTag ''p'', TextToken '' Hello   you '', EndTag ''p'',
     TextToken ''bye''] = ''Hello you'' @ [LF] @ ''bye''"
  by code_simp

end
