(* ===== verification/Startup.thy ===== *)
theory Startup
  imports Route_Properties Mail_Delivery Scan
begin

text \<open>
  How a server starts: the configuration it reads from its environment
  (\<^verbatim>\<open>backend/internal/env/env.go\<close>, \<^verbatim>\<open>database.DSN\<close>) and the choices
  \<^verbatim>\<open>router.New\<close> makes from it before it registers the routes: transport of mails, file store,
  malware scanner and queue of upload verifications. The theorems say that what is chosen fits
  together with the routes of the same server.
\<close>

subsection \<open>Configuration\<close>

text \<open>\<^verbatim>\<open>os.Getenv\<close> gives the empty text for a variable that is not set.\<close>

type_synonym environment = "string \<Rightarrow> string"

definition env_get :: "environment \<Rightarrow> string \<Rightarrow> string \<Rightarrow> string" where
  "env_get E key fallback = (if E key \<noteq> [] then E key else fallback)"

text \<open>\<^verbatim>\<open>strconv.Atoi\<close> with its error.\<close>

definition int64_of :: "int option \<Rightarrow> int option" where
  "int64_of v = (case v of None \<Rightarrow> None | Some n \<Rightarrow> if - (2 ^ 63) \<le> n \<and> n < 2 ^ 63 then Some n else None)"

definition checked_Atoi :: "string \<Rightarrow> int option" where
  "checked_Atoi s = (case s of [] \<Rightarrow> None
     | c # cs \<Rightarrow> int64_of (if c = CHR ''-'' then map_option uminus (read_number cs)
         else if c = CHR ''+'' then read_number cs else read_number s))"

definition env_getInt :: "environment \<Rightarrow> string \<Rightarrow> int \<Rightarrow> int" where
  "env_getInt E key fallback =
     (let v = E key in if v = [] then fallback else case checked_Atoi v of None \<Rightarrow> fallback | Some n \<Rightarrow> n)"

definition AppEnv :: "environment \<Rightarrow> string" where "AppEnv E = env_get E ''APP_ENV'' ''local''"
definition DeployEnv :: "environment \<Rightarrow> string" where "DeployEnv E = env_get E ''DEPLOY_ENV'' ''local''"
definition IsProduction :: "environment \<Rightarrow> bool" where "IsProduction E = (AppEnv E = ''prod'')"
definition IsCloud :: "environment \<Rightarrow> bool" where "IsCloud E = (DeployEnv E = ''cloud'')"
definition Port :: "environment \<Rightarrow> string" where "Port E = env_get E ''PORT'' ''8080''"
definition SessionSecret :: "environment \<Rightarrow> string" where
  "SessionSecret E = env_get E ''SESSION_SECRET'' ''dev-secret-do-not-use-in-production''"
definition DatabaseURL :: "environment \<Rightarrow> string" where "DatabaseURL E = env_get E ''DATABASE_URL'' []"
definition DBHost :: "environment \<Rightarrow> string" where "DBHost E = env_get E ''DB_HOST'' []"
definition DBPort :: "environment \<Rightarrow> string" where "DBPort E = env_get E ''DB_PORT'' []"
definition DBUser :: "environment \<Rightarrow> string" where "DBUser E = env_get E ''DB_USER'' []"
definition DBPassword :: "environment \<Rightarrow> string" where "DBPassword E = env_get E ''DB_PASSWORD'' []"
definition DBName :: "environment \<Rightarrow> string" where "DBName E = env_get E ''DB_NAME'' []"
definition DBSSLMode :: "environment \<Rightarrow> string" where "DBSSLMode E = env_get E ''DB_SSLMODE'' ''require''"
definition DBMaxConns :: "environment \<Rightarrow> int" where "DBMaxConns E = env_getInt E ''DB_MAX_CONNS'' 5"
definition DBMinConns :: "environment \<Rightarrow> int" where "DBMinConns E = env_getInt E ''DB_MIN_CONNS'' 0"
definition SendGridAPIKey :: "environment \<Rightarrow> string" where "SendGridAPIKey E = env_get E ''SENDGRID_API_KEY'' []"
definition EmailFrom :: "environment \<Rightarrow> string" where "EmailFrom E = env_get E ''EMAIL_FROM'' ''noreply@fastfso.com''"
definition EmailCloudTasksQueue :: "environment \<Rightarrow> string" where
  "EmailCloudTasksQueue E = env_get E ''EMAIL_CLOUD_TASKS_QUEUE'' []"
definition VerifyCloudTasksQueue :: "environment \<Rightarrow> string" where
  "VerifyCloudTasksQueue E = env_get E ''VERIFY_CLOUD_TASKS_QUEUE'' []"
definition BackendServiceAccount :: "environment \<Rightarrow> string" where
  "BackendServiceAccount E = env_get E ''BACKEND_SERVICE_ACCOUNT'' []"
definition FrontendURL :: "environment \<Rightarrow> string" where "FrontendURL E = env_get E ''FRONTEND_URL'' ''http://localhost:5173''"
definition BackendURL :: "environment \<Rightarrow> string" where "BackendURL E = env_get E ''BACKEND_URL'' ''http://localhost:8080''"
definition StorageBucket :: "environment \<Rightarrow> string" where "StorageBucket E = env_get E ''STORAGE_BUCKET'' []"
definition ClamAVAddr :: "environment \<Rightarrow> string" where "ClamAVAddr E = env_get E ''CLAMAV_ADDR'' []"

text \<open>\<open>parse\<close> is \<^verbatim>\<open>url.Parse\<close> with the parts the code reads: scheme, host and host name.\<close>

type_synonym url_parser = "string \<Rightarrow> (string \<times> string \<times> string) option"

definition WebAuthnRPID :: "url_parser \<Rightarrow> environment \<Rightarrow> string" where
  "WebAuthnRPID parse E = (if E ''WEBAUTHN_RP_ID'' \<noteq> [] then E ''WEBAUTHN_RP_ID''
     else case parse (FrontendURL E) of
       Some (_, _, name) \<Rightarrow> if name \<noteq> [] then name else ''localhost'' | None \<Rightarrow> ''localhost'')"

definition WebAuthnRPOrigin :: "url_parser \<Rightarrow> environment \<Rightarrow> string" where
  "WebAuthnRPOrigin parse E = (if E ''WEBAUTHN_RP_ORIGIN'' \<noteq> [] then E ''WEBAUTHN_RP_ORIGIN''
     else if FrontendURL E \<noteq> [] then (case parse (FrontendURL E) of
         Some (scheme, host, _) \<Rightarrow> if scheme \<noteq> [] \<and> host \<noteq> [] then scheme @ ''://'' @ host else ''http://localhost:5173''
       | None \<Rightarrow> ''http://localhost:5173'')
     else ''http://localhost:5173'')"

definition DSN :: "environment \<Rightarrow> string" where
  "DSN E = (if DatabaseURL E \<noteq> [] then DatabaseURL E
     else ''postgres://'' @ DBUser E @ '':'' @ DBPassword E @ ''@'' @ DBHost E @ '':'' @ DBPort E @ ''/'' @ DBName E @
       ''?sslmode='' @ DBSSLMode E)"

lemma env_getInt_bounds:
  "- (2 ^ 63) \<le> fallback \<Longrightarrow> fallback < 2 ^ 63 \<Longrightarrow> - (2 ^ 63) \<le> env_getInt E key fallback \<and> env_getInt E key fallback < 2 ^ 63"
  by (auto simp: env_getInt_def checked_Atoi_def int64_of_def Let_def split: option.split list.split)

lemma env_defaults:
  "AppEnv (\<lambda>_. []) = ''local''" "\<not> IsCloud (\<lambda>_. [])" "Port (\<lambda>_. []) = ''8080''" "DBMaxConns (\<lambda>_. []) = 5"
  "env_getInt (\<lambda>_. ''12x'') k 7 = 7" "env_getInt (\<lambda>_. ''-12'') k 7 = - 12"
  by (simp_all add: AppEnv_def DeployEnv_def IsCloud_def Port_def DBMaxConns_def env_get_def env_getInt_def checked_Atoi_def
      int64_of_def read_number_def digit_value_def of_char_def)

text \<open>The program converts the pool size to 32 bits; a value beyond them is not refused.\<close>

definition pool_size :: "int \<Rightarrow> int" where
  "pool_size n = (n + 2 ^ 31) mod 2 ^ 32 - 2 ^ 31"

lemma pool_size_exact: "- (2 ^ 31) \<le> n \<Longrightarrow> n < 2 ^ 31 \<Longrightarrow> pool_size n = n"
  by (simp add: pool_size_def)

lemma pool_size_wraps: "pool_size (2 ^ 32) = 0" "pool_size (2 ^ 31) = - (2 ^ 31)"
  by (simp_all add: pool_size_def)

subsection \<open>Services\<close>

datatype mail_transport = Queue queue_sender | Log_only
datatype file_store = Bucket string | Directory string
datatype malware_scanner = ClamAV_at string | Accept_all

text \<open>The queue of verifications: a Cloud Tasks queue with the address its tasks call, or a
  goroutine of the same process.\<close>

datatype verify_queue = Cloud_queue queue_sender | In_process

definition NewEnqueuer :: "string \<Rightarrow> string \<Rightarrow> string \<Rightarrow> queue_sender" where
  "NewEnqueuer queue backendURL saEmail = \<lparr>qs_queue = queue, qs_targetURL = backendURL @ ''/api/tasks/verify-upload'',
     qs_audience = backendURL, qs_saEmail = saEmail\<rparr>"

text \<open>Which clients of outside services can be made.\<close>

record clients =
  ct_queue :: bool
  ct_bucket :: bool
  ct_model :: bool
  ct_passkeys :: bool
  ct_idtoken :: "string \<Rightarrow> string \<Rightarrow> string option option"

record services =
  sv_mail :: mail_transport
  sv_store :: file_store
  sv_scanner :: malware_scanner
  sv_verify :: "verify_queue option"
  sv_host :: host

definition NewLocalEnqueuer :: "environment \<Rightarrow> string + verify_queue" where
  "NewLocalEnqueuer E = (if IsCloud E then Inl ''LocalEnqueuer must not be used in cloud environments'' else Inr In_process)"

definition choose_mail :: "environment \<Rightarrow> mail_transport" where
  "choose_mail E = (if IsCloud E \<and> SendGridAPIKey E \<noteq> []
     then Queue (NewQueueSender (EmailCloudTasksQueue E) (BackendURL E) (BackendServiceAccount E)) else Log_only)"

definition choose_store :: "environment \<Rightarrow> clients \<Rightarrow> string + file_store" where
  "choose_store E C = (if IsCloud E then
       (if StorageBucket E = [] then Inl ''STORAGE_BUCKET is required when DEPLOY_ENV=cloud''
        else if \<not> ct_bucket C then Inl ''gcs client'' else Inr (Bucket (StorageBucket E)))
     else Inr (Directory ''./uploads''))"

definition choose_scanner :: "environment \<Rightarrow> string + malware_scanner" where
  "choose_scanner E = (if ClamAVAddr E \<noteq> [] then Inr (ClamAV_at (ClamAVAddr E))
     else if IsCloud E then Inl ''CLAMAV_ADDR is required when DEPLOY_ENV=cloud'' else Inr Accept_all)"

text \<open>The queue the task handler ends up with: the first construction gives it the cloud queue,
  and the second, once the worker exists, the in-process one when there is no cloud.\<close>

definition choose_verify :: "environment \<Rightarrow> clients \<Rightarrow> string + verify_queue option" where
  "choose_verify E C = (let first = (if IsCloud E
       then Some (Cloud_queue (NewEnqueuer (VerifyCloudTasksQueue E) (BackendURL E) (BackendServiceAccount E))) else None) in
     if \<not> ct_model C then Inr first
     else if IsCloud E then Inr first
     else (case NewLocalEnqueuer E of Inl e \<Rightarrow> Inl e | Inr q \<Rightarrow> Inr (Some q)))"

definition router_New :: "environment \<Rightarrow> clients \<Rightarrow> string + services" where
  "router_New E C =
     (if IsCloud E \<and> \<not> ct_queue C then Inl ''cloud tasks client''
      else case choose_store E C of Inl e \<Rightarrow> Inl e | Inr store \<Rightarrow>
       (case choose_scanner E of Inl e \<Rightarrow> Inl e | Inr scanner \<Rightarrow>
       (case choose_verify E C of Inl e \<Rightarrow> Inl e | Inr verify \<Rightarrow>
         Inr \<lparr>sv_mail = choose_mail E, sv_store = store, sv_scanner = scanner, sv_verify = verify,
           sv_host = \<lparr>ho_cloud = IsCloud E, ho_sendgrid = (SendGridAPIKey E \<noteq> []), ho_backend = BackendURL E,
             ho_account = BackendServiceAccount E, ho_validate = ct_idtoken C, ho_passkeys = ct_passkeys C, ho_model = ct_model C\<rparr>\<rparr>)))"

text \<open>The scanner the handlers run, with the daemon at an address as an argument.\<close>

definition scanner_of :: "(string \<Rightarrow> byte list \<Rightarrow> string list) \<Rightarrow> malware_scanner \<Rightarrow> scanner" where
  "scanner_of clamd s = (case s of ClamAV_at addr \<Rightarrow> ClamAV_Scan (clamd addr) | Accept_all \<Rightarrow> Noop_Scan)"

lemma started:
  assumes "router_New E C = Inr S"
  shows "sv_mail S = choose_mail E" "choose_store E C = Inr (sv_store S)" "choose_scanner E = Inr (sv_scanner S)"
    "choose_verify E C = Inr (sv_verify S)" "IsCloud E \<longrightarrow> ct_queue C"
    "sv_host S = \<lparr>ho_cloud = IsCloud E, ho_sendgrid = (SendGridAPIKey E \<noteq> []), ho_backend = BackendURL E,
       ho_account = BackendServiceAccount E, ho_validate = ct_idtoken C, ho_passkeys = ct_passkeys C, ho_model = ct_model C\<rparr>"
  using assms by (auto simp: router_New_def split: if_splits sum.splits)

text \<open>Outside the cloud a server always starts, and the guard of the in-process queue never fires.\<close>

lemma local_always_starts: "\<not> IsCloud E \<Longrightarrow> \<exists>S. router_New E C = Inr S"
  by (simp add: router_New_def choose_store_def choose_scanner_def choose_verify_def NewLocalEnqueuer_def Let_def)

lemma local_queue_guard_idle: "\<exists>q. choose_verify E C = Inr q"
  by (simp add: choose_verify_def NewLocalEnqueuer_def Let_def)

text \<open>[C18] In the cloud no upload goes unscanned for want of configuration: every server that starts there
  runs the client of the scanning daemon at the configured address, which is not empty, keeps
  files in the configured bucket and queues verifications outside the process. The scanner that
  accepts everything, the local directory and the in-process queue occur only elsewhere.\<close>

theorem cloud_always_scans:
  assumes "router_New E C = Inr S" "IsCloud E"
  shows "scanner_of clamd (sv_scanner S) = ClamAV_Scan (clamd (ClamAVAddr E)) \<and> ClamAVAddr E \<noteq> [] \<and>
    sv_store S = Bucket (StorageBucket E) \<and> StorageBucket E \<noteq> [] \<and>
    sv_verify S = Some (Cloud_queue (NewEnqueuer (VerifyCloudTasksQueue E) (BackendURL E) (BackendServiceAccount E)))"
  using started(2-4) [OF assms(1)] assms(2)
  by (auto simp: choose_scanner_def choose_store_def choose_verify_def scanner_of_def Let_def split: if_splits malware_scanner.split)

definition cloud_env :: environment where
  "cloud_env = (\<lambda>_. [])(''DEPLOY_ENV'' := ''cloud'', ''STORAGE_BUCKET'' := ''files'', ''CLAMAV_ADDR'' := ''clamd:3310'',
     ''SENDGRID_API_KEY'' := ''key'', ''BACKEND_URL'' := ''https://api'', ''BACKEND_SERVICE_ACCOUNT'' := ''sa'')"

definition cloud_clients :: clients where
  "cloud_clients = \<lparr>ct_queue = True, ct_bucket = True, ct_model = False, ct_passkeys = True,
     ct_idtoken = (\<lambda>token audience. if token = ''t'' \<and> audience = ''https://api'' then Some (Some ''sa'') else None)\<rparr>"

lemmas env_defs = AppEnv_def DeployEnv_def IsCloud_def SendGridAPIKey_def StorageBucket_def ClamAVAddr_def BackendURL_def
  BackendServiceAccount_def EmailCloudTasksQueue_def VerifyCloudTasksQueue_def SessionSecret_def env_get_def

lemma cloud_env_cloud [simp]: "IsCloud cloud_env" "SendGridAPIKey cloud_env = ''key''" "BackendURL cloud_env = ''https://api''"
  "BackendServiceAccount cloud_env = ''sa''" "ClamAVAddr cloud_env = ''clamd:3310''" "StorageBucket cloud_env = ''files''"
  "SessionSecret cloud_env = ''dev-secret-do-not-use-in-production''"
  by (simp_all add: env_defs cloud_env_def)

definition cloud_services :: services where
  "cloud_services = (case router_New cloud_env cloud_clients of Inr S \<Rightarrow> S | Inl _ \<Rightarrow> undefined)"

lemma cloud_starts: "router_New cloud_env cloud_clients = Inr cloud_services"
  by (simp add: cloud_services_def router_New_def choose_store_def choose_scanner_def choose_verify_def cloud_clients_def Let_def)

theorem cloud_always_scans_witness:
  "scanner_of (\<lambda>addr _. if addr = ''clamd:3310'' then [''stream: Eicar FOUND''] else [''stream: OK'']) (sv_scanner cloud_services) =
     ClamAV_Scan (\<lambda>_. [''stream: Eicar FOUND'']) \<and> sv_store cloud_services = Bucket ''files''"
  using cloud_always_scans [OF cloud_starts, of "\<lambda>addr _. if addr = ''clamd:3310'' then [''stream: Eicar FOUND''] else [''stream: OK'']"]
  by simp

text \<open>The secret that signs the CSRF tokens is not among what a start requires.\<close>

lemma cloud_starts_with_dev_secret:
  "\<exists>E C S. router_New E C = Inr S \<and> IsCloud E \<and> SessionSecret E = ''dev-secret-do-not-use-in-production''"
  using cloud_starts cloud_env_cloud(1,7) by blast

subsection \<open>Queues and routes\<close>

text \<open>What the queue sends to the server for a task: a token for the audience and the account of the task.
  \<open>token_ok\<close> is the documented behaviour of the token library on such a token.\<close>

definition token_ok :: "clients \<Rightarrow> string \<Rightarrow> string \<Rightarrow> string \<Rightarrow> bool" where
  "token_ok C token audience account = (token \<noteq> [] \<and> ct_idtoken C token audience = Some (Some account))"

abbreviation verify_path :: string where "verify_path \<equiv> ''/api/tasks/verify-upload''"

definition not_verify :: "route \<Rightarrow> bool" where
  "not_verify rt = (rt_path rt \<noteq> verify_path)"

lemma not_verify_tables:
  "list_all not_verify public_routes" "list_all not_verify cron_routes" "list_all not_verify (auth_routes H)"
  "list_all not_verify (super_admin_routes H)" "list_all not_verify tenant_admin_routes" "list_all not_verify team_routes"
  "list_all not_verify (task_routes H)" "list_all not_verify officer_routes" "list_all not_verify wiki_routes"
  unfolding route_tables list_all_append list_all_group
  by (auto simp: list_all_group when_routes_def not_verify_def)

lemma verify_route_iff:
  "(\<exists>rt \<in> set (routes H). rt_method rt = ''POST'' \<and> rt_path rt = verify_path) \<longleftrightarrow> ho_cloud H \<and> ho_model H"
proof -
  have "rt \<in> set (routes H) \<and> rt_path rt = verify_path \<longleftrightarrow> rt \<in> set (queue_routes H) \<and> rt_path rt = verify_path" for rt
    using not_verify_tables by (auto simp: routes_def list_all_iff not_verify_def)
  moreover have "(\<exists>rt \<in> set (queue_routes H). rt_method rt = ''POST'' \<and> rt_path rt = verify_path) \<longleftrightarrow> ho_cloud H \<and> ho_model H"
    by (auto simp: queue_routes_def when_routes_def group_def)
  ultimately show ?thesis by blast
qed

lemma mail_route:
  assumes "ho_cloud H" "ho_sendgrid H"
  shows "\<lparr>rt_method = ''POST'', rt_path = ''/api/tasks/send-email'', rt_gates = [QueueCaller], rt_handler = ''email.HandleSendTask''\<rparr>
    \<in> set (routes H)"
  using assms by (simp add: routes_def queue_routes_def when_routes_def group_def)

lemma queue_gate_passes:
  assumes "token \<noteq> []" "ho_validate H token (ho_backend H) = Some (Some (ho_account H))" "cl_authorization c = ''Bearer '' @ token"
  shows "through H L c [QueueCaller] h r = h r"
proof -
  have "TrimPrefix (cl_authorization c) ''Bearer '' = token" by (simp only: assms(3) TrimPrefix_append)
  then show ?thesis using assms(1,2) by (simp add: gate_step_def RequireCloudTasks_def Let_def)
qed



subsection \<open>Seeding\<close>

text \<open>\<^verbatim>\<open>backend/seed.go\<close>: the statement inserts the first administrator or, on a conflict of the lowered address,
  overwrites name, hash and the two flags of the row that has it. \<open>hash\<close> is what bcrypt makes of the constant
  password, if it does.\<close>

definition seedEmail :: string where "seedEmail = ''admin@example.com''"
definition seedPassword :: string where "seedPassword = ''admin''"
definition seedName :: string where "seedName = ''Admin''"

definition seedSQL :: "(string \<Rightarrow> string) \<Rightarrow> time \<Rightarrow> uuid \<Rightarrow> string \<Rightarrow> string \<Rightarrow> string \<Rightarrow> identity list \<Rightarrow> identity list" where
  "seedSQL lower now i email name hash t =
     (if sql_exists (\<lambda>r. lower (i_Email r) = lower email) t
      then sql_update (\<lambda>r. lower (i_Email r) = lower email)
        (\<lambda>r. r\<lparr>i_Name := name, i_PasswordHash := Some hash, i_IsSuperAdmin := True, i_Activated := True\<rparr>) t
      else t @ [\<lparr>i_ID = i, i_Email = email, i_Name = name, i_PasswordHash = Some hash, i_IsSuperAdmin = True, i_Activated = True,
        i_SuspendedAt = None, i_FailedLoginAttempts = 0, i_LockedUntil = None, i_CreatedAt = now, i_UpdatedAt = now\<rparr>])"

definition cmdSeed ::
  "(string \<Rightarrow> string) \<Rightarrow> (string \<Rightarrow> string option) \<Rightarrow> faults \<Rightarrow> time \<Rightarrow> uuid \<Rightarrow> identity list \<Rightarrow> (identity list, unit) store_result" where
  [store_defs]: "cmdSeed lower bcrypt flt now i t = (case bcrypt seedPassword of
     None \<Rightarrow> (t, Inl (ErrMsg ''failed to hash password''))
   | Some hash \<Rightarrow>
       if flt ''seed.connect'' 0 then (t, Inl (Fault ''seed.connect''))
       else if flt ''seed'' 0 then (t, Inl (Fault ''seed''))
       else (seedSQL lower now i seedEmail seedName hash t, Inr ()))"

lemma filter_sql_update: "(\<And>r. P r \<Longrightarrow> P (f r)) \<Longrightarrow> filter (\<lambda>r. \<not> P r) (sql_update P f t) = filter (\<lambda>r. \<not> P r) t"
  by (induction t) (auto simp: sql_update_def)

lemma sql_update_twice: "(\<And>r. f (f r) = f r) \<Longrightarrow> sql_update P f (sql_update P f t) = sql_update P f t"
  by (simp add: sql_update_def)

text \<open>A successful run leaves exactly one row with the address, a super administrator with the constant
  password; a second run changes nothing more, unless the hash is salted anew; the other rows stay.
  It lifts neither a suspension nor a lock.\<close>

lemma seed_one_admin:
  assumes "cmdSeed lower bcrypt flt now i t = (t', Inr ())" "emails_unique lower t"
  shows "emails_unique lower t'"
    "\<exists>r \<in> set t'. lower (i_Email r) = lower seedEmail \<and> i_IsSuperAdmin r \<and> i_Activated r \<and> i_PasswordHash r = bcrypt seedPassword"
    "filter (\<lambda>r. lower (i_Email r) \<noteq> lower seedEmail) t' = filter (\<lambda>r. lower (i_Email r) \<noteq> lower seedEmail) t"
proof -
  obtain hash where h: "bcrypt seedPassword = Some hash" "t' = seedSQL lower now i seedEmail seedName hash t"
    using assms(1) by (auto simp: cmdSeed_def split: option.splits if_splits)
  show "emails_unique lower t'"
    using assms(2) by (auto simp: h(2) seedSQL_def emails_unique_update emails_unique_def sql_exists_def map_sql_update)
  show "\<exists>r \<in> set t'. lower (i_Email r) = lower seedEmail \<and> i_IsSuperAdmin r \<and> i_Activated r \<and> i_PasswordHash r = bcrypt seedPassword"
    by (auto simp: h seedSQL_def sql_exists_def bex_sql_update)
  show "filter (\<lambda>r. lower (i_Email r) \<noteq> lower seedEmail) t' = filter (\<lambda>r. lower (i_Email r) \<noteq> lower seedEmail) t"
    by (simp add: h(2) seedSQL_def sql_exists_def filter_sql_update)
qed

lemma seed_idempotent:
  "seedSQL lower now' j email name hash (seedSQL lower now i email name hash t) = seedSQL lower now i email name hash t"
proof (cases "\<exists>r \<in> set t. lower (i_Email r) = lower email")
  case True
  then show ?thesis by (simp add: seedSQL_def sql_exists_def bex_sql_update sql_update_twice)
next
  case False
  then have "sql_update (\<lambda>r. lower (i_Email r) = lower email)
      (\<lambda>r. r\<lparr>i_Name := name, i_PasswordHash := Some hash, i_IsSuperAdmin := True, i_Activated := True\<rparr>) t = t"
    by (intro sql_update_none) auto
  then show ?thesis using False by (simp add: seedSQL_def sql_exists_def sql_update_def)
qed

lemma seed_keeps_suspension:
  "r \<in> set t \<Longrightarrow> \<exists>r' \<in> set (seedSQL lower now i email name hash t). i_ID r' = i_ID r \<and> i_SuspendedAt r' = i_SuspendedAt r \<and>
     i_LockedUntil r' = i_LockedUntil r"
  by (auto simp: seedSQL_def bex_sql_update)

end
