(* ===== verification/Task_Files.thy ===== *)
theory Task_Files
  imports Task_Properties
begin

text \<open>
  The files behind the tasks: what an upload has passed when it is accepted, how uploads share
  and lose files, what the development file server gives away, and how the check of an upload
  by the language model ends.
\<close>

subsection \<open>Accepted uploads\<close>

lemma UploadFile_Created:
  assumes "run_state (UploadFile conf sc sb L r i q form) d = (Respond StatusCreated u, d')"
  obtains sess t usr k qid req f ty where
    "r_session r = Some sess" "s_TenantID sess = Some t" "s_UserID sess = Some usr" "l_uuid L i = Some k" "l_uuid L q = Some qid"
    "GetRequirement (r_flt r) qid d = Inr req" "form = Some f" "ff_BodySize f \<le> MaxUploadSize"
    "rq_AIVerificationCriteria req \<noteq> [] \<Longrightarrow> isAISupportedContentType ty \<and> ff_Size f \<le> maxAIVerifyFileSize"
    "sc (r_flt r) (reads_of (ff_Content f)) = Inr ()"
    "run_state (store_upload conf sb L r t usr k req f (path_base (ff_Filename f)) ty) d = (Respond StatusCreated u, d')"
proof -
  obtain sess t usr k qid where s: "r_session r = Some sess" "s_TenantID sess = Some t" "s_UserID sess = Some usr"
    "l_uuid L i = Some k" "l_uuid L q = Some qid"
    using assms by (auto simp: UploadFile_def with_member_def with_tenant_def with_uuid_def split: option.splits)
  obtain req where req: "GetRequirement (r_flt r) qid d = Inr req"
    using assms by (cases "GetRequirement (r_flt r) qid d") (auto simp: UploadFile_def s)
  obtain f where f: "FormFile form = Some f"
    using assms by (cases "FormFile form") (auto simp: UploadFile_def s req Let_def)
  then have form: "form = Some f" "ff_BodySize f \<le> MaxUploadSize"
    by (auto simp: FormFile_def split: option.splits if_splits)
  obtain ty where ty: "SniffContentType (l_sniff L) (r_flt r) f = Inr ty"
    using assms by (cases "SniffContentType (l_sniff L) (r_flt r) f") (auto simp: UploadFile_def s req f Let_def split: if_splits)
  obtain x where scanned: "ScanAndRewind sc (r_flt r) f = Inr x"
    using assms by (auto simp: UploadFile_def s req f ty Let_def split: if_splits sum.splits scan_error.splits)
  then have "sc (r_flt r) (reads_of (ff_Content f)) = Inr ()"
    by (auto simp: ScanAndRewind_def split: sum.splits)
  then show thesis
    using assms by (intro that [OF s req form]) (auto simp: UploadFile_def s req f ty scanned Let_def split: if_splits)
qed

lemma store_upload_Created:
  assumes "run_state (store_upload conf sb L r t usr k req f name ty) d = (Respond StatusCreated u, d')"
  obtains d1 cmpl d2 d3 where
    "EnsureCompletion (r_flt r) (r_now r) (r_fresh r 0) t k usr d = (d1, Inr cmpl)"
    "d2 = d1\<lparr>d_files := fst (sb_Upload sb (r_flt r) (upload_key L t k (tc_ID cmpl) name) (ff_Content f) (d_files d1))\<rparr>"
    "snd (sb_Upload sb (r_flt r) (upload_key L t k (tc_ID cmpl) name) (ff_Content f) (d_files d1)) = Inr ()"
    "u = \<lparr>up_ID = r_fresh r 1, up_CompletionID = tc_ID cmpl, up_RequirementID = rq_ID req, up_FileName = name,
       up_FileSize = ff_Size f, up_ContentType = ty, up_StorageKey = upload_key L t k (tc_ID cmpl) name, up_CreatedAt = r_now r\<rparr>"
    "CreateUpload (r_flt r) u d2 = (d3, Inr ())"
    "d' = (if rq_AIVerificationCriteria req \<noteq> [] \<and> conf then
       (case CreatePending (r_flt r) (r_now r) (r_fresh r 2) (up_ID u) t (rq_AIVerificationCriteria req) d3 of
          (d4, Inl _) \<Rightarrow> d4
        | (d4, Inr _) \<Rightarrow> if r_flt r ''verifyQueue.Enqueue'' 0 then d4 else d4\<lparr>d_outbox := d_outbox d4 @ [VerifyEnqueued (up_ID u)]\<rparr>)
       else d3)"
proof -
  obtain d1 x where e: "EnsureCompletion (r_flt r) (r_now r) (r_fresh r 0) t k usr d = (d1, x)" by fastforce
  obtain cmpl where x: "x = Inr cmpl"
    using assms by (cases x) (auto simp: store_upload_def e)
  let ?key = "upload_key L t k (tc_ID cmpl) name"
  obtain fs y where up: "sb_Upload sb (r_flt r) ?key (ff_Content f) (d_files d1) = (fs, y)" by fastforce
  obtain z where y: "y = Inr z"
    using assms by (cases y) (auto simp: store_upload_def e x up on_files_def on_table_def Let_def)
  let ?u = "\<lparr>up_ID = r_fresh r (Suc 0), up_CompletionID = tc_ID cmpl, up_RequirementID = rq_ID req, up_FileName = name,
       up_FileSize = ff_Size f, up_ContentType = ty, up_StorageKey = ?key, up_CreatedAt = r_now r\<rparr>"
  obtain d3 w where c: "CreateUpload (r_flt r) ?u (d1\<lparr>d_files := fs\<rparr>) = (d3, w)" by fastforce
  obtain w' where w: "w = Inr w'"
    using assms by (cases w) (auto simp: store_upload_def e x up y c on_files_def on_table_def Let_def)
  obtain d4 v where p: "CreatePending (r_flt r) (r_now r) (r_fresh r 2) (r_fresh r (Suc 0)) t (rq_AIVerificationCriteria req) d3 = (d4, v)"
    by fastforce
  show thesis
    using assms c w p
    by (intro that [OF e [unfolded x], of "d1\<lparr>d_files := fs\<rparr>" d3])
      (auto simp: store_upload_def e x up y c w p on_files_def on_table_def Let_def split: if_splits sum.splits)
qed


definition demo_file :: form_file where
  "demo_file = \<lparr>ff_Filename = ''cert.pdf'', ff_Content = ''data'', ff_BodySize = 400\<rparr>"

abbreviation demo_upload :: "bool \<Rightarrow> string \<Rightarrow> form_file \<Rightarrow> request \<Rightarrow> db \<Rightarrow> upload response \<times> db" where
  "demo_upload conf base f r d \<equiv> run_state (UploadFile conf Noop_Scan (NewLocal base) demo_libs r (replicate 70 (CHR ''a''))
     (replicate 71 (CHR ''a'')) (Some f)) d"

lemma task_db_empty [simp]: "d_verifications (task_db c) = []" "d_uploads (task_db c) = []" "d_outbox (task_db c) = []"
  "d_files (task_db c) = (\<lambda>_. None)"
  by (simp_all add: task_db_def demo_db_def empty_db_def)

lemma demo_GetRequirement: "GetRequirement no_faults 71 (task_db c) = Inr demo_requirement"
  by (simp add: GetRequirement_def query_row_def demo_requirement_def)


subsection \<open>Uploads of the same name\<close>

lemma ensured_completion:
  assumes "EnsureCompletion flt now i t k u d = (d1, Inr c)"
  shows "\<exists>c0. completion_of d1 k u = Some c0 \<and> tc_ID c0 = tc_ID c"
proof (cases "completion_of d k u")
  case None
  then have "c = new_completion now i k u" "d_completions d1 = d_completions d @ [c]"
    using assms by (auto simp: EnsureCompletion_def split: if_splits)
  then show ?thesis using None by (simp add: completion_of_def sql_row_append new_completion_def)
next
  case (Some x)
  then have c: "c = x\<lparr>tc_UpdatedAt := now\<rparr>" "d_completions d1 = sql_update (\<lambda>y. tc_TaskID y = k \<and> tc_UserID y = u) (\<lambda>y. y\<lparr>tc_UpdatedAt := now\<rparr>) (d_completions d)"
    using assms by (auto simp: EnsureCompletion_def split: if_splits)
  have "sql_row P (sql_update P f xs) = map_option f (sql_row P xs)" if "\<And>y. P (f y) = P y" for P f and xs :: "completion list"
    using that by (induction xs) auto
  from this [of "\<lambda>y. tc_TaskID y = k \<and> tc_UserID y = u" "\<lambda>y. y\<lparr>tc_UpdatedAt := now\<rparr>" "d_completions d"]
  show ?thesis using Some c by (simp add: completion_of_def)
qed

lemma pending_frame:
  "d_files (fst (CreatePending flt now i up t cr d)) = d_files d" "d_uploads (fst (CreatePending flt now i up t cr d)) = d_uploads d"
  "d_completions (fst (CreatePending flt now i up t cr d)) = d_completions d"
  by (simp_all add: CreatePending_def)

text \<open>What an accepted upload leaves on the local backend.\<close>

lemma local_upload_effect:
  assumes "run_state (UploadFile conf sc (NewLocal base) L r i q (Some f)) d = (Respond StatusCreated u, d')"
  obtains sess t usr k e c where
    "r_session r = Some sess" "s_TenantID sess = Some t" "s_UserID sess = Some usr" "l_uuid L i = Some k"
    "EnsureCompletion (r_flt r) (r_now r) (r_fresh r 0) t k usr d = (e, Inr c)"
    "up_ID u = r_fresh r 1" "up_StorageKey u = upload_key L t k (tc_ID c) (path_base (ff_Filename f))"
    "d_uploads d' = d_uploads d @ [u]" "d_completions d' = d_completions e"
    "d_files d' = fst (Local_Upload base (r_flt r) (up_StorageKey u) (ff_Content f) (d_files d))"
    "snd (Local_Upload base (r_flt r) (up_StorageKey u) (ff_Content f) (d_files d)) = Inr ()"
proof -
  obtain sess t usr k qid req ty where s: "r_session r = Some sess" "s_TenantID sess = Some t" "s_UserID sess = Some usr"
      "l_uuid L i = Some k"
    and run: "run_state (store_upload conf (NewLocal base) L r t usr k req f (path_base (ff_Filename f)) ty) d = (Respond StatusCreated u, d')"
    by (rule UploadFile_Created [OF assms]) simp
  show thesis
  proof (rule store_upload_Created [OF run])
    fix d1 d2 d3 and cmpl :: completion
    let ?key = "upload_key L t k (tc_ID cmpl) (path_base (ff_Filename f))"
    assume e: "EnsureCompletion (r_flt r) (r_now r) (r_fresh r 0) t k usr d = (d1, Inr cmpl)"
      and d2: "d2 = d1\<lparr>d_files := fst (sb_Upload (NewLocal base) (r_flt r) ?key (ff_Content f) (d_files d1))\<rparr>"
      and ok: "snd (sb_Upload (NewLocal base) (r_flt r) ?key (ff_Content f) (d_files d1)) = Inr ()"
      and u: "u = \<lparr>up_ID = r_fresh r 1, up_CompletionID = tc_ID cmpl, up_RequirementID = rq_ID req,
        up_FileName = path_base (ff_Filename f), up_FileSize = ff_Size f, up_ContentType = ty, up_StorageKey = ?key,
        up_CreatedAt = r_now r\<rparr>"
      and c: "CreateUpload (r_flt r) u d2 = (d3, Inr ())"
      and d': "d' = (if rq_AIVerificationCriteria req \<noteq> [] \<and> conf then
       (case CreatePending (r_flt r) (r_now r) (r_fresh r 2) (up_ID u) t (rq_AIVerificationCriteria req) d3 of
          (d4, Inl _) \<Rightarrow> d4
        | (d4, Inr _) \<Rightarrow> if r_flt r ''verifyQueue.Enqueue'' 0 then d4 else d4\<lparr>d_outbox := d_outbox d4 @ [VerifyEnqueued (up_ID u)]\<rparr>)
       else d3)"
    have frame: "d_files d1 = d_files d" "d_uploads d1 = d_uploads d"
      using e by (auto simp: EnsureCompletion_def split: if_splits option.splits)
    have d3: "d_uploads d3 = d_uploads d2 @ [u]" "d_files d3 = d_files d2" "d_completions d3 = d_completions d2"
      using c by (auto simp: CreateUpload_def split: if_splits)
    have "d_uploads d' = d_uploads d3 \<and> d_files d' = d_files d3 \<and> d_completions d' = d_completions d3"
      using pending_frame [of "r_flt r" "r_now r" "r_fresh r 2" "up_ID u" t "rq_AIVerificationCriteria req" d3]
      by (auto simp: d' simp del: more_ops_completions split: prod.split sum.split)
    then show thesis
      using ok by (intro that [OF s e]) (simp_all add: u d3 d2 frame)
  qed
qed

text \<open>Two uploads of one assignee under the same name share one file, even for different
  requirements of the task: both are accepted and keep their rows, but the first one's address
  now gives the second content, and deleting the second upload deletes the file of the first.\<close>

theorem same_name_uploads_share_a_file:
  assumes "run_state (UploadFile conf sc (NewLocal base) L r1 i q1 (Some f1)) d = (Respond StatusCreated u1, d1)"
    and "run_state (UploadFile conf sc (NewLocal base) L r2 i q2 (Some f2)) d1 = (Respond StatusCreated u2, d2)"
    and "r_session r2 = r_session r1" "path_base (ff_Filename f2) = path_base (ff_Filename f1)"
    and "run_state (DeleteUpload (NewLocal base) L r3 j) d2 = (Respond StatusNoContent (), d3)"
    and "l_uuid L j = Some (up_ID u2)" "r_fresh r2 1 \<notin> up_ID ` set (d_uploads d1)" "r_flt r3 = no_faults"
  shows "up_StorageKey u1 = up_StorageKey u2 \<and> u1 \<in> set (d_uploads d3) \<and>
    Local_Download base no_faults (up_StorageKey u1) (d_files d2) = Inr (ff_Content f2) \<and>
    \<not> is_ok (Local_Download base no_faults (up_StorageKey u1) (d_files d3))"
proof -
  obtain sess t usr k e1 c1 where a: "r_session r1 = Some sess" "s_TenantID sess = Some t" "s_UserID sess = Some usr" "l_uuid L i = Some k"
    "EnsureCompletion (r_flt r1) (r_now r1) (r_fresh r1 0) t k usr d = (e1, Inr c1)"
    "up_StorageKey u1 = upload_key L t k (tc_ID c1) (path_base (ff_Filename f1))"
    "d_uploads d1 = d_uploads d @ [u1]" "d_completions d1 = d_completions e1"
    by (rule local_upload_effect [OF assms(1)]) simp
  obtain e2 c2 where b: "EnsureCompletion (r_flt r2) (r_now r2) (r_fresh r2 0) t k usr d1 = (e2, Inr c2)"
    "up_ID u2 = r_fresh r2 1" "up_StorageKey u2 = upload_key L t k (tc_ID c2) (path_base (ff_Filename f2))"
    "d_uploads d2 = d_uploads d1 @ [u2]"
    "d_files d2 = fst (Local_Upload base (r_flt r2) (up_StorageKey u2) (ff_Content f2) (d_files d1))"
    "snd (Local_Upload base (r_flt r2) (up_StorageKey u2) (ff_Content f2) (d_files d1)) = Inr ()"
    by (rule local_upload_effect [OF assms(2)]) (use a assms(3) in simp)
  have "completion_of d1 k usr = completion_of e1 k usr"
    by (simp add: completion_of_def a(8))
  then have "tc_ID c2 = tc_ID c1"
    using ensured_completion [OF a(5)] b(1) by (auto simp: EnsureCompletion_def split: if_splits option.splits)
  then have key: "up_StorageKey u1 = up_StorageKey u2"
    by (simp add: a(6) b(3) assms(4))
  have only: "u = u2" if "u \<in> set (d_uploads d2)" "up_ID u = up_ID u2" for u
    using that assms(7) b(2,4) by (auto simp: image_iff)
  obtain sess3 t3 usr3 where s3: "r_session r3 = Some sess3" "s_TenantID sess3 = Some t3" "s_UserID sess3 = Some usr3"
    using assms(5) by (auto simp: DeleteUpload_def with_member_def with_tenant_def split: option.splits)
  obtain u where u: "sql_row (\<lambda>u. up_ID u = up_ID u2 \<and> upload_tenant d2 u = Some t3) (d_uploads d2) = Some u"
    using assms(5) by (auto simp: DeleteUpload_def s3 assms(6,8) Store_DeleteUpload_def Let_def upload_not_found_def split: option.splits)
  then have "u = u2" using only sql_row_Some [OF u] by simp
  with assms(5) u have d3: "d_uploads d3 = sql_delete (\<lambda>u. up_ID u = up_ID u2 \<and> upload_tenant d2 u = Some t3) (d_uploads d2)"
    "d_files d3 = fst (Local_Delete base no_faults (up_StorageKey u2) (d_files d2))"
    by (auto simp: DeleteUpload_def s3 assms(6,8) Store_DeleteUpload_def Let_def on_files_def on_table_def)
  have "up_ID u1 \<noteq> up_ID u2"
    using a(7) b(2) assms(7) by auto
  then have "u1 \<in> set (d_uploads d3)" by (simp add: d3 b(4) a(7))
  moreover have "Local_Download base no_faults (up_StorageKey u2) (d_files d2) = Inr (ff_Content f2)"
    unfolding b(5) by (rule local_store.download_upload [OF b(6)]) simp
  moreover have "\<not> is_ok (Local_Download base no_faults (up_StorageKey u2) (d_files d3))"
    unfolding d3(2) by (rule local_store.download_delete) (simp add: Local_Delete_def)
  ultimately show ?thesis using key by simp
qed

abbreviation second_request :: request where
  "second_request \<equiv> member_request\<lparr>r_fresh := \<lambda>n. 2000 + n\<rparr>"

abbreviation other_file :: form_file where
  "other_file \<equiv> demo_file\<lparr>ff_Content := ''other''\<rparr>"

lemmas demo_upload_simps = UploadFile_def store_upload_def demo_GetRequirement Let_def FormFile_def demo_file_def MaxUploadSize_def
  path_base_def SniffContentType_def ScanAndRewind_def Noop_Scan_def isAISupportedContentType_def maxAIVerifyFileSize_def
  ff_Size_def EnsureCompletion_def completion_of_def demo_completion_def demo_task_def demo_libs_def demo_request_def
  on_files_def on_table_def Local_Upload_def CreateUpload_def CreatePending_def tenant_by_def demo_requirement_def
  GetRequirement_def query_row_def

theorem same_name_uploads_share_a_file_witness:
  "\<exists>u1 d1 u2 d2 d3. demo_upload False ''up'' demo_file member_request (task_db demo_completion) = (Respond StatusCreated u1, d1) \<and>
     demo_upload False ''up'' other_file second_request d1 = (Respond StatusCreated u2, d2) \<and>
     run_state (DeleteUpload (NewLocal ''up'') demo_libs member_request (replicate 2001 (CHR ''a''))) d2 = (Respond StatusNoContent (), d3) \<and>
     \<not> is_ok (Local_Download ''up'' no_faults (up_StorageKey u1) (d_files d3))"
proof -
  obtain u1 d1 where 1: "demo_upload False ''up'' demo_file member_request (task_db demo_completion) = (Respond StatusCreated u1, d1)"
    and d1: "d_uploads d1 = [u1]" "up_ID u1 = 1001" "d_requirements d1 = [demo_requirement]" "d_tasks d1 = [demo_task]"
      "d_completions d1 = [demo_completion\<lparr>tc_UpdatedAt := 100\<rparr>]" "d_users d1 = d_users demo_db" "d_tenants d1 = d_tenants demo_db"
    by (simp add: demo_upload_simps)
  obtain u2 d2 where 2: "demo_upload False ''up'' other_file second_request d1 = (Respond StatusCreated u2, d2)"
    and d2: "d_uploads d2 = [u1, u2]" "up_ID u2 = 2001" "up_CompletionID u2 = 60" "d_completions d2 = d_completions d1" "d_tasks d2 = d_tasks d1"
    by (simp add: demo_upload_simps d1)
  obtain d3 where 3: "run_state (DeleteUpload (NewLocal ''up'') demo_libs member_request (replicate 2001 (CHR ''a''))) d2 =
      (Respond StatusNoContent (), d3)"
    by (simp add: DeleteUpload_def demo_libs_def demo_request_def Store_DeleteUpload_def upload_tenant_def d1 d2 task_by_def
        demo_completion_def demo_task_def Let_def on_files_def on_table_def)
  have "up_StorageKey u1 = up_StorageKey u2 \<and> u1 \<in> set (d_uploads d3) \<and>
    Local_Download ''up'' no_faults (up_StorageKey u1) (d_files d2) = Inr (ff_Content other_file) \<and>
    \<not> is_ok (Local_Download ''up'' no_faults (up_StorageKey u1) (d_files d3))"
    by (rule same_name_uploads_share_a_file [OF 1 2 _ _ 3])
      (simp_all add: d1 d2 demo_file_def demo_libs_def demo_request_def)
  with 1 2 3 show ?thesis by blast
qed

subsection \<open>The development file server\<close>

text \<open>The check that a file belongs to the caller's tenant reads the key before the storage
  cleans it: with a parent segment after the own tenant's, any member of any tenant reads every
  file below the tenants' directory, whoever owns it.\<close>

theorem file_server_check_bypassed:
  assumes "r_session r = Some sess" "s_TenantID sess = Some t" "s_UserID sess = Some u"
    and "l_uuid L own = Some t" "plain_segment own" "CHR ''/'' \<notin> set own"
    and "\<not> r_flt r ''storage.open'' 0" "d_files d (Local_path base (''tenants/'' @ victim)) = Some content"
  shows "\<exists>f. fst (run_state (ServeLocalFile (NewLocal base) L r (''/tenants/'' @ own @ ''/../'' @ victim)) d) = Respond StatusOK f \<and>
    sf_Content f = content"
proof -
  let ?key = "''tenants/'' @ own @ ''/../'' @ victim"
  have split: "split_slash ?key = ''tenants'' # own # ''..'' # split_slash victim"
    using split_parent [OF assms(6), of "''tenants''" victim] by (simp add: split_no_slash)
  then have "tenantFromKey (l_uuid L) ?key = Some t"
    by (simp add: tenantFromKey_def assms(4))
  moreover have "Local_path base ?key = Local_path base (''tenants/'' @ victim)"
    using Local_path_parent [OF assms(5,6), of base "''tenants''" victim] by simp
  ultimately show ?thesis
    using assms(1-3,7,8) by (simp add: ServeLocalFile_def Local_Download_def Let_def)
qed

theorem file_server_check_bypassed_witness:
  "\<exists>f. fst (run_state (ServeLocalFile (NewLocal ''up'') demo_libs member_request ''/tenants/aaa/../aaaa/secret'')
     (demo_db\<lparr>d_files := [''up/tenants/aaaa/secret'' \<mapsto> ''hidden'']\<rparr>)) = Respond StatusOK f \<and> sf_Content f = ''hidden''"
proof -
  have "Local_path ''up'' ''tenants/aaaa/secret'' = ''up/tenants/aaaa/secret''"
    by (simp add: Local_path_def rooted_def path_prefix_def)
  then show ?thesis
    using file_server_check_bypassed [of member_request demo_member 3 5 demo_libs "''aaa''"
        "demo_db\<lparr>d_files := [''up/tenants/aaaa/secret'' \<mapsto> ''hidden'']\<rparr>" "''up''" "''aaaa/secret''" "''hidden''"]
    by (simp add: demo_libs_def demo_request_def plain_segment_def)
qed

subsection \<open>The check of an upload\<close>

lemma mark_found:
  assumes "sql_row (\<lambda>v. vf_UploadID v = i) t = Some v" "\<And>v. vf_UploadID (f v) = vf_UploadID v"
  shows "sql_row (\<lambda>v. vf_UploadID v = i) (sql_update (\<lambda>v. vf_UploadID v = i) f t) = Some (f v)"
  using assms by (induction t) auto

lemma Process_settled:
  "GetByUpload no_faults i d = Inr v \<Longrightarrow> vf_Status v \<noteq> V_Pending \<Longrightarrow> snd (run_state (Process g sb r i) d) = d"
  by (auto simp: Process_def GetByUpload_def query_row_def split: if_splits option.splits)


definition demo_verification :: verification where
  "demo_verification = \<lparr>vf_ID = 90, vf_UploadID = 91, vf_TenantID = 3, vf_Status = V_Pending, vf_Verdict = None, vf_ErrorMessage = [],
     vf_CriteriaSnapshot = ''name matches'', vf_Model = [], vf_AdminFeedback = None, vf_AdminFeedbackAt = None, vf_AdminFeedbackBy = None,
     vf_CreatedAt = 1, vf_UpdatedAt = 1\<rparr>"

definition demo_gemini :: gemini where
  "demo_gemini = \<lparr>gm_Model = ''m'', gm_Generate = (\<lambda>_ _ _. Inl (Fault ''down'')), gm_Parse = (\<lambda>_. None), gm_Fixed2 = (\<lambda>_. []),
     gm_ErrorText = (\<lambda>_. ''error'')\<rparr>"


end
