(* ===== verification/Travel_Properties.thy ===== *)
theory Travel_Properties
  imports Officer_Demo
begin

text \<open>
  When a debrief is due, which travellers are asked for one, and what happens when the job
  that asks them is interrupted.
\<close>

subsection \<open>Business days\<close>

text \<open>The business days among the \<open>k\<close> days after \<open>t\<close>.\<close>

definition business_days :: "time \<Rightarrow> nat \<Rightarrow> nat" where
  "business_days t k = length (filter (\<lambda>j. \<not> weekend (t + int j * day)) [1..<Suc k])"

lemma business_days_0 [simp]: "business_days t 0 = 0"
  by (simp add: business_days_def)

lemma business_days_Suc:
  "business_days t (Suc k) = (if weekend (t + day) then 0 else 1) + business_days (t + day) k"
proof -
  have up: "[1..<Suc (Suc k)] = 1 # map Suc [1..<Suc k]"
    by (simp only: map_Suc_upt) (simp add: upt_rec)
  have "t + int (Suc j) * day = t + day + int j * day" for j by (simp add: algebra_simps)
  then have "(\<lambda>j. \<not> weekend (t + int j * day)) \<circ> Suc = (\<lambda>j. \<not> weekend (t + day + int j * day))"
    by (simp only: fun_eq_iff o_def) simp
  then have "length (filter (\<lambda>j. \<not> weekend (t + int j * day)) (map Suc [1..<Suc k])) = business_days (t + day) k"
    by (simp only: filter_map length_map business_days_def)
  then show ?thesis
    unfolding business_days_def [of t] up by simp
qed

lemma addBusinessDays_spec:
  "\<exists>k. addBusinessDays t n = t + int k * day \<and> business_days t k = nat n \<and>
     (n \<le> 0 \<and> k = 0 \<or> n > 0 \<and> \<not> weekend (t + int k * day) \<and> k + 2 \<le> 3 * nat n + weekend_ahead t)"
proof (induction t n rule: addBusinessDays.induct)
  case (1 t n)
  show ?case
  proof (cases "n \<le> 0")
    case True
    then show ?thesis by (intro exI [of _ 0]) (simp add: addBusinessDays.simps)
  next
    case False
    let ?m = "if weekend (t + day) then n else n - 1"
    obtain k where k: "addBusinessDays (t + day) ?m = t + day + int k * day" "business_days (t + day) k = nat ?m"
      "?m \<le> 0 \<and> k = 0 \<or> ?m > 0 \<and> \<not> weekend (t + day + int k * day) \<and> k + 2 \<le> 3 * nat ?m + weekend_ahead (t + day)"
      using "1.IH" [OF False] by blast
    have shift: "t + int (Suc k) * day = t + day + int k * day" by (simp add: algebra_simps)
    have ahead: "weekend_ahead (t + day) \<le> 2" by (simp add: weekend_ahead_def)
    have m: "nat n = nat (n - 1) + 1" using False by simp
    have "\<not> weekend (t + day + int k * day) \<and> Suc k + 2 \<le> 3 * nat n + weekend_ahead t"
    proof (cases "weekend (t + day)")
      case True
      then show ?thesis using k(3) False weekend_ahead_less [OF True] by simp
    next
      case work: False
      then show ?thesis using k(3) ahead m by auto
    qed
    then show ?thesis
      using False k(1,2) by (intro exI [of _ "Suc k"]) (subst addBusinessDays.simps, simp only: shift, auto simp: business_days_Suc)
  qed
qed

lemma Weekday_after: "Weekday (t + int j * day) = (Weekday t + int j) mod 7"
proof (induction j)
  case 0
  then show ?case using Weekday_range [of t] by simp
next
  case (Suc j)
  have e: "t + int (Suc j) * day = t + int j * day + day" by (simp add: algebra_simps)
  have "Weekday (t + int j * day + day) = ((Weekday t + int j) mod 7 + 1) mod 7"
    by (simp only: Weekday_add Suc)
  also have "\<dots> = (Weekday t + int (Suc j)) mod 7" by (simp add: mod_simps algebra_simps)
  finally show ?case by (simp only: e)
qed

lemma addBusinessDays_step:
  "addBusinessDays (t + int j * day) n = (if n \<le> 0 then t + int j * day
     else addBusinessDays (t + int (Suc j) * day)
       (if (Weekday t + int (Suc j)) mod 7 = 6 \<or> (Weekday t + int (Suc j)) mod 7 = 0 then n else n - 1))"
proof -
  have e: "t + int j * day + day = t + int (Suc j) * day" by (simp add: algebra_simps)
  show ?thesis
    by (subst addBusinessDays.simps) (simp only: e weekend_def Weekday_after)
qed

lemma five_steps:
  assumes step: "\<And>j (n::int). f j n = (if n \<le> 0 then g j
      else f (Suc j) (if (w + int (Suc j)) mod 7 = 6 \<or> (w + int (Suc j)) mod 7 = 0 then n else n - 1))"
    and "w \<in> {0, 1, 2, 3, 4, 5, 6}"
  shows "f 0 5 = g (if w = 6 then 6 else if w = 0 then 5 else 7)"
  using assms(2) by (elim insertE emptyE) ((simp add: numeral_eq_Suc, (subst step, simp)+)[1])+

lemma five_business_days:
  "addBusinessDays t 5 = t + (if Weekday t = 6 then 6 else if Weekday t = 0 then 5 else 7) * day"
proof -
  have "Weekday t \<in> {0, 1, 2, 3, 4, 5, 6}"
    using Weekday_range [of t] by auto
  from five_steps [OF addBusinessDays_step this]
  show ?thesis by (simp split: if_splits)
qed

text \<open>[C31] The computation of a due date stops and is right: going forward \<open>n\<close> business days ends a whole
  number of days later, at most three for each, on a business day, with exactly \<open>n\<close> business
  days passed. The five days the job gives a traveller are a week, six days from a
  Saturday and five from a Sunday.\<close>

theorem addBusinessDays_exact:
  "(\<exists>k. addBusinessDays t n = t + int k * day \<and> business_days t k = nat n \<and> k \<le> 3 * nat n \<and>
     (if n \<le> 0 then k = 0 else \<not> weekend (t + int k * day))) \<and>
   addBusinessDays t 5 = t + (if Weekday t = 6 then 6 else if Weekday t = 0 then 5 else 7) * day"
proof -
  obtain k where k: "addBusinessDays t n = t + int k * day" "business_days t k = nat n"
     "n \<le> 0 \<and> k = 0 \<or> n > 0 \<and> \<not> weekend (t + int k * day) \<and> k + 2 \<le> 3 * nat n + weekend_ahead t"
    using addBusinessDays_spec by blast
  have "weekend_ahead t \<le> 2" by (simp add: weekend_ahead_def)
  with k(3) have "k \<le> 3 * nat n" "if n \<le> 0 then k = 0 else \<not> weekend (t + int k * day)" by auto
  with k(1,2) five_business_days show ?thesis by blast
qed

subsection \<open>The job\<close>

text \<open>What of the database the job looks at and writes, a debrief as the traveller sees it.\<close>

definition asked :: "debrief \<Rightarrow> uuid \<times> uuid \<times> string \<times> time option" where
  "asked x = (de_ReportID x, de_UserID x, de_Status x, de_DueDate x)"

definition journal :: "db \<Rightarrow> (uuid \<times> uuid \<times> string \<times> time option) list \<times> trip list \<times> country list \<times> tenant list \<times> user list" where
  "journal d = (map asked (d_debriefs d), d_trips d, d_countries d, d_tenants d, d_users d)"

definition asked_for :: "time \<Rightarrow> trip \<Rightarrow> uuid \<times> uuid \<times> string \<times> time option" where
  "asked_for due x = (tv_ID x, tv_UserID x, ''pending'', Some (sql_date due))"

text \<open>The statements of the job that may fail for a trip.\<close>

abbreviation creates :: "request \<Rightarrow> trip \<Rightarrow> bool" where
  "creates r x \<equiv> \<not> r_flt r ''travel.CreateDebrief'' (tv_ID x)"

abbreviation marks :: "request \<Rightarrow> trip \<Rightarrow> bool" where
  "marks r x \<equiv> creates r x \<and> \<not> r_flt r ''travel.MarkDebriefCreated'' (tv_ID x)"

definition mark :: "time \<Rightarrow> trip \<Rightarrow> trip" where
  "mark now x = x\<lparr>tv_DebriefCreatedAt := Some now\<rparr>"

lemma mark_simps [simp]: "tv_ID (mark now x) = tv_ID x" "tv_DebriefCreatedAt (mark now x) = Some now"
  by (simp_all add: mark_def)

lemma journal_frame [simp]:
  "journal (d\<lparr>d_action_items := t\<rparr>) = journal d" "journal (d\<lparr>d_outbox := o'\<rparr>) = journal d"
  by (simp_all add: journal_def)

lemma journal_queue_item [simp]: "journal (snd (run_state (queue_item L r n p) d)) = journal d"
  using tripleD [OF keeps_queue_item [of "\<lambda>d'. journal d' = journal d"], of d] by simp

lemma debrief_one_journal:
  assumes "sql_exists (\<lambda>y. tv_ID y = tv_ID x) (d_trips d)" "tenant_by d (tv_TenantID x) \<noteq> None" "user_by d (tv_UserID x) \<noteq> None"
  shows "journal (snd (run_state (debrief_one L r due n x) d)) =
     (map asked (d_debriefs d) @ (if creates r x then [asked_for due x] else []),
      (if marks r x then sql_update (\<lambda>y. tv_ID y = tv_ID x) (mark (r_now r)) (d_trips d) else d_trips d),
      d_countries d, d_tenants d, d_users d)"
proof (cases "creates r x")
  case True
  let ?x = "\<lparr>de_ID = r_fresh r (2 * n), de_ReportID = tv_ID x, de_TenantID = tv_TenantID x, de_UserID = tv_UserID x,
     de_Status = ''pending'', de_DueDate = Some (sql_date due), de_Answers = replicate 4 (None, []), de_SubmittedAt = None,
     de_CreatedAt = r_now r, de_UpdatedAt = r_now r\<rparr>"
  let ?d = "fst (MarkDebriefCreated (r_flt r) (r_now r) (tv_ID x) (d\<lparr>d_debriefs := d_debriefs d @ [?x]\<rparr>))"
  have "journal (snd (run_state (debrief_one L r due n x) d)) = journal ?d"
    using assms True by (auto simp: debrief_one_def CreateDebrief_def Let_def split_beta split: sum.split)
  also have "\<dots> = (map asked (d_debriefs d) @ [asked_for due x],
      (if marks r x then sql_update (\<lambda>y. tv_ID y = tv_ID x) (mark (r_now r)) (d_trips d) else d_trips d),
      d_countries d, d_tenants d, d_users d)"
    using True by (simp add: MarkDebriefCreated_def journal_def asked_def asked_for_def mark_def [abs_def] cong: if_cong)
  finally show ?thesis using True by simp
qed (simp add: debrief_one_def CreateDebrief_def journal_def)

lemma debrief_one_made:
  assumes "sql_exists (\<lambda>y. tv_ID y = tv_ID x) (d_trips d)" "tenant_by d (tv_TenantID x) \<noteq> None" "user_by d (tv_UserID x) \<noteq> None"
  shows "fst (run_state (debrief_one L r due n x) d) = creates r x"
  using assms by (auto simp: debrief_one_def CreateDebrief_def Let_def split_beta split: sum.split)

text \<open>A trip the job can ask its traveller about.\<close>

definition askable :: "db \<Rightarrow> trip \<Rightarrow> bool" where
  "askable d x = (sql_exists (\<lambda>y. tv_ID y = tv_ID x) (d_trips d) \<and> tenant_by d (tv_TenantID x) \<noteq> None \<and>
     user_by d (tv_UserID x) \<noteq> None)"

definition mark_all :: "request \<Rightarrow> trip list \<Rightarrow> trip list \<Rightarrow> trip list" where
  "mark_all r xs = map (\<lambda>y. if \<exists>x \<in> set xs. marks r x \<and> tv_ID x = tv_ID y then mark (r_now r) y else y)"

lemma exists_after_mark:
  "(\<exists>y \<in> set (sql_update P (mark now) t). tv_ID y = i) = (\<exists>y \<in> set t. tv_ID y = i)"
  by (induction t) auto

lemma mark_all_Cons:
  "mark_all r (x # xs) t = mark_all r xs (if marks r x then sql_update (\<lambda>y. tv_ID y = tv_ID x) (mark (r_now r)) t else t)"
  by (auto simp: mark_all_def sql_update_def mark_def)

lemma debrief_all_journal:
  "\<forall>x \<in> set xs. askable d x \<Longrightarrow>
     fst (run_state (debrief_all L r due n xs) d) = length (filter (creates r) xs) \<and>
     journal (snd (run_state (debrief_all L r due n xs) d)) =
       (map asked (d_debriefs d) @ map (asked_for due) (filter (creates r) xs), mark_all r xs (d_trips d),
        d_countries d, d_tenants d, d_users d)"
proof (induction xs arbitrary: d n)
  case Nil
  then show ?case by (simp add: journal_def mark_all_def)
next
  case (Cons x xs)
  let ?d = "snd (run_state (debrief_one L r due n x) d)"
  have here: "askable d x" using Cons.prems by simp
  note one = debrief_one_journal [of x d L r due n] debrief_one_made [of x d L r due n]
  have j: "journal ?d = (map asked (d_debriefs d) @ (if creates r x then [asked_for due x] else []),
      (if marks r x then sql_update (\<lambda>y. tv_ID y = tv_ID x) (mark (r_now r)) (d_trips d) else d_trips d),
      d_countries d, d_tenants d, d_users d)"
    using here one(1) by (intro one(1)) (simp_all add: askable_def)
  then have "tenant_by ?d = tenant_by d" "user_by ?d = user_by d"
    by (simp_all add: journal_def fun_eq_iff tenant_by_def user_by_def)
  moreover have "sql_exists (\<lambda>y. tv_ID y = i) (d_trips ?d) = sql_exists (\<lambda>y. tv_ID y = i) (d_trips d)" for i
    using j by (simp add: journal_def exists_after_mark split: if_splits)
  ultimately have "\<forall>y \<in> set xs. askable ?d y" using Cons.prems by (simp add: askable_def)
  from Cons.IH [OF this, of "Suc n"] show ?case
    using here one(2) j by (simp add: split_beta askable_def journal_def mark_all_Cons)
qed

lemma trip_over_mark [simp]: "\<not> trip_over now d (mark now' x)"
  by (simp add: trip_over_def Let_def)

lemma trip_over_frame: "d_countries d' = d_countries d \<Longrightarrow> trip_over now d' = trip_over now d"
  by (simp add: trip_over_def fun_eq_iff)

text \<open>What is pending once some of it is marked.\<close>

lemma pending_after_mark_all:
  assumes "distinct (map tv_ID t)"
  shows "filter (trip_over now d) (mark_all r (filter (trip_over now d) t) t) = filter (\<lambda>x. \<not> marks r x) (filter (trip_over now d) t)"
proof -
  have "(\<exists>y \<in> set (filter (trip_over now d) t). marks r y \<and> tv_ID y = tv_ID x) = (trip_over now d x \<and> marks r x)"
    if "x \<in> set t" for x
    using assms that by (auto dest: inj_onD simp: distinct_map)
  then have "mark_all r (filter (trip_over now d) t) t = map (\<lambda>x. if trip_over now d x \<and> marks r x then mark (r_now r) x else x) t"
    by (simp add: mark_all_def)
  moreover have "filter (trip_over now d) (map (\<lambda>x. if trip_over now d x \<and> marks r x then mark (r_now r) x else x) t) =
      filter (\<lambda>x. \<not> marks r x) (filter (trip_over now d) t)"
    by (induction t) auto
  ultimately show ?thesis by simp
qed

text \<open>[C32] What the job that asks travellers for a debrief leaves behind. Every pending trip, approved,
  over and not yet asked about, whose statement does not fail gets exactly one debrief, in the
  name of its traveller, due five business days on; the job answers how many. Still pending
  afterwards are exactly the trips for which that statement or the one that marks the trip
  failed: without faults a second run asks nobody, but a traveller whose trip could not be
  marked is asked again by every run.\<close>

theorem debrief_job_exact:
  assumes "distinct (map tv_ID (d_trips d))" and "ListPendingDebriefReports (r_flt r) (r_now r) d = Inr xs"
    and "\<forall>x \<in> set xs. tenant_by d (tv_TenantID x) \<noteq> None \<and> user_by d (tv_UserID x) \<noteq> None"
    and "run_state (DebriefCron L r) d = (a, d')"
  shows "a = Respond StatusOK (length (filter (creates r) xs)) \<and>
     map asked (d_debriefs d') = map asked (d_debriefs d) @ map (asked_for (addBusinessDays (r_now r) 5)) (filter (creates r) xs) \<and>
     ListPendingDebriefReports (r_flt r) (r_now r) d' = Inr (filter (\<lambda>x. \<not> marks r x) xs)"
proof -
  have calm: "\<not> r_flt r ''travel.ListPendingDebriefReports'' 0" and xs: "xs = filter (trip_over (r_now r) d) (d_trips d)"
    using assms(2) by (auto simp: ListPendingDebriefReports_def split: if_splits)
  have "\<forall>x \<in> set xs. askable d x"
    using assms(3) by (auto simp: askable_def xs sql_exists_def)
  note all = debrief_all_journal [OF this, of L r "addBusinessDays (r_now r) 5" 0]
  have "a = Respond StatusOK (length (filter (creates r) xs))"
    "journal d' = journal (snd (run_state (debrief_all L r (addBusinessDays (r_now r) 5) 0 xs) d))"
    using assms(4) all by (auto simp: DebriefCron_def assms(2) split_beta)
  with all show ?thesis
    using pending_after_mark_all [OF assms(1), of "r_now r" d r]
    by (simp add: journal_def ListPendingDebriefReports_def calm trip_over_frame [of d' d] xs)
qed

definition trip_back :: db where
  "trip_back = office_db\<lparr>d_trips := [demo_trip\<lparr>tv_Status := ''approved''\<rparr>],
     d_countries := [\<lparr>cy_ID = 81, cy_ReportID = 63, cy_Form = \<lparr>cy_CountryName = ''France'', cy_SortOrder = 0,
       cy_Reason = ''vacation_personal'', cy_Transportation = [], cy_HasCompanions = False, cy_CompanionsDetail = [],
       cy_HasForeignContacts = False, cy_ContactsDetail = []\<rparr>,
       cy_StartDate = None, cy_EndDate = Some (- day), cy_CreatedAt = 0\<rparr>]\<rparr>"

definition marking_fails :: request where
  "marking_fails = member_request\<lparr>r_flt := (\<lambda>q _. q = ''travel.MarkDebriefCreated'')\<rparr>"

theorem debrief_job_exact_witness:
  "let d' = snd (run_state (DebriefCron demo_libs marking_fails) trip_back)
   in length (d_debriefs d') = 1 \<and> ListPendingDebriefReports (r_flt marking_fails) 100 d' = Inr (d_trips trip_back)"
proof -
  obtain a d' where run: "run_state (DebriefCron demo_libs marking_fails) trip_back = (a, d')" by force
  have now: "r_now marking_fails = 100" by (simp add: marking_fails_def demo_request_def)
  have found: "ListPendingDebriefReports (r_flt marking_fails) (r_now marking_fails) trip_back = Inr (d_trips trip_back)"
    by (simp add: trip_back_def marking_fails_def ListPendingDebriefReports_def trip_over_def demo_trip_def sql_date_def demo_request_def)
  have rows: "d_trips trip_back = [demo_trip\<lparr>tv_Status := ''approved''\<rparr>]" "d_debriefs trip_back = []"
    "tenant_by trip_back 4 \<noteq> None" "user_by trip_back 6 \<noteq> None"
    by (simp_all add: trip_back_def tenant_by_def user_by_def)
  have fails: "creates marking_fails x" "\<not> marks marking_fails x" for x
    by (simp_all add: marking_fails_def)
  from debrief_job_exact [OF _ found _ run]
  have made: "map asked (d_debriefs d') = map asked (d_debriefs trip_back) @
      map (asked_for (addBusinessDays (r_now marking_fails) 5)) (filter (creates marking_fails) (d_trips trip_back))"
    "ListPendingDebriefReports (r_flt marking_fails) (r_now marking_fails) d' = Inr (filter (\<lambda>x. \<not> marks marking_fails x) (d_trips trip_back))"
    using rows by (simp_all add: demo_trip_def)
  have "length (map asked (d_debriefs d')) = 1"
    by (simp only: made(1)) (simp add: rows fails(1))
  moreover have "filter (\<lambda>x. \<not> marks marking_fails x) (d_trips trip_back) = d_trips trip_back"
    by (rule filter_True) (simp only: fails(2) not_False_eq_True, blast)
  ultimately show ?thesis
    using made(2) by (simp only: run snd_conv Let_def now length_map)
qed

end
