(* ===== verification/Spec2Isabelle.thy ===== *)
theory Spec2Isabelle
  imports Cloud_Storage Contract_Properties Dev_Tools Error_Reports Export_Properties Officer_Properties Panel_Properties Platform_Properties Startup Task_Files Travel_Properties
begin

text \<open>
  \<^bold>\<open>fastFSO, the backend.\<close> fastFSO is the server security officers of cleared companies work
  with. A \<^emph>\<open>tenant\<close> is a company, divided into sub-organizations; an \<^emph>\<open>identity\<close> is a person who
  can log in, a \<^emph>\<open>user\<close> the membership of an identity in a tenant with a role. Contributors submit
  reports, visit requests, travel and tasks; officers decide on them from one work queue. The
  program is a set of Go packages under \<^verbatim>\<open>src/backend/internal\<close>, each a store (its SQL
  statements) and a handler (its HTTP requests), wired together in \<^verbatim>\<open>router/router.go\<close>.

  \<^bold>\<open>How the code is modelled.\<close>
  The whole state is one record \<open>db\<close> (theory \<open>Database\<close>): a list of rows per table, the files of
  the object store, and the outbox, the calls made to notifier, mailer and queue. A statement is
  a function on it. Every database statement carries the name the code gives it, and the fault
  oracle of a request (\<open>faults\<close>, read at the name and the number of the call) says which
  statements the database refuses: all theorems hold for every oracle unless they say otherwise,
  so that each error branch of the code is a branch of the model. Unique indexes, foreign keys,
  \<^verbatim>\<open>CHECK\<close> constraints, cascades and triggers of the migrations are conditions and effects of the
  operations. A handler is an action of the state monad from \<open>HOL-Library\<close> ending in a \<open>response\<close>; the
  request record holds the clock, the client, the identifiers the database will generate
  (\<open>r_fresh\<close>), and the session the middleware found. JSON bodies arrive decoded, \<open>None\<close> when
  binding fails; path and query parameters arrive as strings. Statements of a transaction are one
  operation that changes nothing when it fails; statements outside of one follow each other with
  a fault possible in between. Where a handler loops over rows (bulk invites, the cron jobs),
  each round has its own share of faults and identifiers (\<open>round_of\<close>). Loops are structural
  recursion or functions with their termination proofs (\<open>addBusinessDays\<close> in \<open>Travel_Handlers\<close>, the calendar in
  \<open>Formats\<close>, the attempts of the queue at a mail, the searches of \<open>Dev_Tools\<close>); nothing in the development
  runs on fuel. Code outside the repository is an argument: bcrypt, SHA-256, the one-time
  password check and \<^verbatim>\<open>uuid.Parse\<close> in the record \<open>libs\<close>, the WebAuthn library in \<open>webauthn\<close>, the OpenID
  Connect client in \<open>oidc\<close>, the language model, the malware daemon, the storage bucket, the mail
  templates and transport.

  \<^bold>\<open>Foundations.\<close>
  \<^item> \<open>Prelude\<close>: errors, responses, the meaning of the SQL statements on lists of rows, with the
    rules the proofs rest on; \<open>Go_Std\<close>: dates, numbers and strings of the Go library.
  \<^item> \<open>Session_Types\<close>, \<open>Database\<close>: rows, the database, requests, actions and the triples (\<open>triple\<close>,
    \<open>keeps_inv\<close>) invariants are proved with.

  \<^bold>\<open>Authentication\<close> (\<^verbatim>\<open>session\<close>, \<^verbatim>\<open>identity\<close>, \<^verbatim>\<open>emailcode\<close>, \<^verbatim>\<open>invite\<close>, \<^verbatim>\<open>totp\<close>, \<^verbatim>\<open>audit\<close>, \<^verbatim>\<open>auth\<close>, \<^verbatim>\<open>passkey\<close>, \<^verbatim>\<open>sso\<close>).
  \<^item> \<open>Sessions\<close>, \<open>Middleware\<close>: the session table and the gates before each handler. A session passes
    exactly while it is stored, neither revoked nor expired, and active; a revoked one never again.
  \<^item> \<open>Identities\<close>, \<open>Codes\<close>, \<open>Totp\<close>, \<open>Audit_Log_Store\<close>: identities with the lockout after five wrong passwords,
    emailed codes and single-use tokens, authenticator secrets, the audit log and the rate limiter.
  \<^item> \<open>Directory\<close>: tenants, sub-organizations, memberships and what deleting them takes along.
  \<^item> \<open>Auth_Handlers\<close>, \<open>SubOrg_Handlers\<close> with \<open>Auth_Properties\<close>: login, second factors, password reset,
    invites, choice of tenant.
  \<^item> \<open>Passkeys\<close>, \<open>SSO\<close>: login by passkey and by an OpenID Connect provider.
  \<^item> \<open>Admin\<close>, \<open>Admin_Handlers\<close>: the panel of the super administrators, member management, single and bulk
    invitations, user settings.
  \<^item> \<open>Auth_System\<close>: these requests behind their middleware, interleaved, as a step relation, and
    the invariants of every reachable database: a password session past the second-factor step carries a second
    factor, and the tenant of a session is a membership of its identity.

  \<^bold>\<open>Work of officers and contributors\<close> (\<^verbatim>\<open>actionitem\<close>, \<^verbatim>\<open>task\<close>, \<^verbatim>\<open>verification\<close>, \<^verbatim>\<open>aiusage\<close>, \<^verbatim>\<open>scan\<close>, \<^verbatim>\<open>storage\<close>, \<^verbatim>\<open>report\<close>,
  \<^verbatim>\<open>visitrequest\<close>, \<^verbatim>\<open>travel\<close>, \<^verbatim>\<open>dd254\<close>, \<^verbatim>\<open>team\<close>, \<^verbatim>\<open>chat\<close>, \<^verbatim>\<open>wiki\<close>).
  \<^item> \<open>Action_Items\<close>: the queue, its routing to an officer, its separation by tenant.
  \<^item> \<open>Tasks\<close>, \<open>Task_Handlers\<close> with \<open>Task_Properties\<close>: tasks, assignment, completion and review. The life
    cycle of a submission is an abstract transition system that every interleaving of statements refines.
  \<^item> \<open>Storage\<close>, \<open>Scan\<close>, \<open>Verification\<close> with \<open>Task_Files\<close>: uploads, the malware scanner's protocol, the check
    of an upload by the language model.
  \<^item> \<open>Officer_Queue\<close>, \<open>Reports\<close>, \<open>Visits\<close>, \<open>Visit_Handlers\<close>, \<open>Travel\<close>, \<open>Travel_Handlers\<close>, \<open>DD254\<close>, \<open>DD254_Handlers\<close>,
    \<open>Team\<close>, \<open>Assistant\<close>, \<open>Source_Updaters\<close>, composed in \<open>Officer_System\<close>: its requests keep the tables well
    typed and the tenants apart (\<open>Officer_Properties\<close>); \<open>Contract_Properties\<close> and \<open>Travel_Properties\<close> hold what
    the contracts say about a visit and when a debrief is due; \<open>Officer_Demo\<close> the rows the theorems are applied to.
  \<^item> \<open>Wiki\<close>: articles and their attachments.

  \<^bold>\<open>Mail\<close> (\<^verbatim>\<open>email\<close>, \<^verbatim>\<open>notify\<close>, \<^verbatim>\<open>digest\<close>, \<^verbatim>\<open>reminders\<close>). \<open>Mail\<close>: which mail goes where and which the notifier holds
  back; \<open>Reminder_Jobs\<close>: the daily summary and the reminders.

  \<^bold>\<open>The whole server.\<close>
  \<^item> \<open>Routes\<close>: the table of routes of \<^verbatim>\<open>router/router.go\<close> and the gates before each handler; \<open>Route_Properties\<close>
    shows which routes are open to whom, and that a handler behind a role or behind the super-admin
    gate runs for nobody else.
  \<^item> \<open>Feature_Frame\<close>: what the features leave alone; \<open>Platform\<close>: every request that makes or changes sessions, members or
    identities behind the gates of its route, the features and the jobs, as one step relation, and its invariant;
    \<open>Platform_Properties\<close>: sessions stay sound in every database the server reaches, and suspension shuts
    out of every way to log in.
  \<^item> \<open>Panel_Properties\<close>: the last super administrator survives, what demotion and deletion of a tenant leave
    open, the accounts of invitations.

  \<^bold>\<open>What leaves the server, and how it starts.\<close>
  \<^item> \<open>Formats\<close>: dates and numbers as text, the writer of \<^verbatim>\<open>encoding/csv\<close> and a reader for it; \<open>Exports\<close>: the
    CSV and PDF files of \<^verbatim>\<open>task/export.go\<close>, \<^verbatim>\<open>visitrequest/csv.go\<close>. \<open>Export_Properties\<close> reads the files back.
  \<^item> \<open>Mail_Delivery\<close>: the transports of \<^verbatim>\<open>email\<close>, the endpoint of the queue and the attempts it makes at a mail,
    each of which ends; the plain text of a rendered mail.
  \<^item> \<open>Cloud_Storage\<close>: the file store in a bucket, a second model of the contract \<open>blob_store\<close>.
  \<^item> \<open>Error_Reports\<close>: the endpoint for reports from browsers and its limiter, which forgets quiet
    addresses without anybody noticing.
  \<^item> \<open>Startup\<close>: the environment (\<^verbatim>\<open>env\<close>, \<^verbatim>\<open>database.DSN\<close>), the choices of \<^verbatim>\<open>router.New\<close> among stores, scanners and
    queues, and that they fit the routes of the same server; \<^verbatim>\<open>seed.go\<close>.
  \<^item> \<open>Dev_Tools\<close>: the decisions of \<^verbatim>\<open>tools/dev\<close>: pruning of images by concurrent workers (a step
    relation), counting of lines, configuration, searches.

  \<^bold>\<open>Interfaces.\<close> The locales state what one component relies on in another, each interpreted on
  the model's definitions: the session store under the middleware, the counter under the rate
  limiter, the file store under the upload handlers, and others beside them.

  \<^bold>\<open>Not modelled.\<close> Telemetry, logging, the connection pool behind its configuration and the
  runner of the migrations have no decision logic that other parts rely on. Mail templates, the client
  libraries of SendGrid, Google Cloud and the language model, the document library of the PDF export and
  the HTML tokenizer are third-party code behind the arguments above; of a PDF the calls made are the
  result. Of \<^verbatim>\<open>tools/dev\<close> the commands that only start other programs and print are left out,
  and so are the test helpers; the frontend is not Go. Two requests are
  interleaved statement by statement only where a theorem says so (submissions, sessions,
  the task-creation rules); elsewhere a request runs without interruption.
\<close>

end
